(* ===== verification/MP_Prelude.thy ===== *)
theory MP_Prelude
  imports Main "HOL-Library.AList" "HOL-Library.Char_ord" "HOL-Library.List_Lexorder"
    "HOL-Library.Sublist"
begin

text \<open>
  What the components share: Python's strings, dictionaries and counters as the sources use them,
  the computations that thread a state and may raise, and the rules that carry an invariant
  through such computations.

  Text is a \<^typ>\<open>string\<close>, a list of 8-bit characters; encoding it to bytes is the identity.
  Case and character classes are the ASCII ones. A \<^verbatim>\<open>dict\<close> is an association list with distinct
  keys in insertion order (\<^const>\<open>map_of\<close> reads it, \<^const>\<open>AList.update\<close> writes in place or
  appends), a \<^verbatim>\<open>Counter\<close> the same with \<^typ>\<open>nat\<close> values.
\<close>

named_theorems preserve_rules
named_theorems act_defs

type_synonym bytes = string
type_synonym 'v dict = "(string \<times> 'v) list"
type_synonym counter = "(string \<times> nat) list"

section \<open>Strings\<close>

definition is_space :: "char \<Rightarrow> bool" where
  "is_space c \<longleftrightarrow> (let n = (of_char c :: nat) in n = 32 \<or> (9 \<le> n \<and> n \<le> 13) \<or> (28 \<le> n \<and> n \<le> 31) \<or> n = 133 \<or> n = 160)"

definition is_digit :: "char \<Rightarrow> bool" where
  "is_digit c \<longleftrightarrow> CHR ''0'' \<le> c \<and> c \<le> CHR ''9''"

definition is_upper :: "char \<Rightarrow> bool" where
  "is_upper c \<longleftrightarrow> CHR ''A'' \<le> c \<and> c \<le> CHR ''Z''"

definition is_lower :: "char \<Rightarrow> bool" where
  "is_lower c \<longleftrightarrow> CHR ''a'' \<le> c \<and> c \<le> CHR ''z''"

definition lower_char :: "char \<Rightarrow> char" where
  "lower_char c = (if is_upper c then char_of ((of_char c :: nat) + 32) else c)"

definition upper_char :: "char \<Rightarrow> char" where
  "upper_char c = (if is_lower c then char_of ((of_char c :: nat) - 32) else c)"

definition py_lower :: "string \<Rightarrow> string" where
  "py_lower = map lower_char"

definition py_upper :: "string \<Rightarrow> string" where
  "py_upper = map upper_char"

definition py_lstrip :: "string \<Rightarrow> string" where
  "py_lstrip = dropWhile is_space"

definition py_rstrip :: "string \<Rightarrow> string" where
  "py_rstrip s = rev (dropWhile is_space (rev s))"

definition py_strip :: "string \<Rightarrow> string" where
  "py_strip s = py_rstrip (py_lstrip s)"

definition rstrip_char :: "char \<Rightarrow> string \<Rightarrow> string" where
  "rstrip_char c s = rev (dropWhile (\<lambda>d. d = c) (rev s))"

definition startswith :: "string \<Rightarrow> string \<Rightarrow> bool" where
  "startswith s p \<longleftrightarrow> take (length p) s = p"

definition endswith :: "string \<Rightarrow> string \<Rightarrow> bool" where
  "endswith s p \<longleftrightarrow> length p \<le> length s \<and> drop (length s - length p) s = p"

definition removeprefix :: "string \<Rightarrow> string \<Rightarrow> string" where
  "removeprefix s p = (if startswith s p then drop (length p) s else s)"

text \<open>\<^verbatim>\<open>s.split(c)\<close> on one character, and \<^verbatim>\<open>sep.join(xs)\<close>.\<close>

fun py_split :: "char \<Rightarrow> string \<Rightarrow> string list" where
  "py_split c [] = [[]]"
| "py_split c (x # xs) =
     (if x = c then [] # py_split c xs
      else (case py_split c xs of [] \<Rightarrow> [[x]] | p # ps \<Rightarrow> (x # p) # ps))"

fun py_join :: "string \<Rightarrow> string list \<Rightarrow> string" where
  "py_join sep [] = []"
| "py_join sep [x] = x"
| "py_join sep (x # y # ys) = x @ sep @ py_join sep (y # ys)"

text \<open>\<^verbatim>\<open>s.partition(c)\<close>: the part before the first \<open>c\<close>, and the part after it (empty without it).\<close>

definition py_partition :: "char \<Rightarrow> string \<Rightarrow> string \<times> string" where
  "py_partition c s = (takeWhile (\<lambda>x. x \<noteq> c) s, drop 1 (dropWhile (\<lambda>x. x \<noteq> c) s))"

text \<open>Slices \<^verbatim>\<open>s[i:j]\<close> with non-negative bounds: Python clips both ends.\<close>

definition slice :: "'a list \<Rightarrow> nat \<Rightarrow> nat \<Rightarrow> 'a list" where
  "slice s i j = take (j - i) (drop i s)"

definition digit_char :: "nat \<Rightarrow> char" where
  "digit_char d = char_of (48 + d)"

fun nat_str :: "nat \<Rightarrow> string" where
  "nat_str n = (if n < 10 then [digit_char n] else nat_str (n div 10) @ [digit_char (n mod 10)])"

declare nat_str.simps [simp del]

definition int_str :: "int \<Rightarrow> string" where
  "int_str i = (if i < 0 then ''-'' @ nat_str (nat (- i)) else nat_str (nat i))"

definition digits_value :: "string \<Rightarrow> nat" where
  "digits_value = foldl (\<lambda>a c. 10 * a + (of_char c - 48)) 0"

lemma py_split_ne [simp]: "py_split c s \<noteq> []"
  by (induction s) (auto split: list.splits)

lemma py_split_no_sep: "c \<notin> set s \<Longrightarrow> py_split c s = [s]"
  by (induction s) auto

lemma py_split_append_sep:
  "c \<notin> set a \<Longrightarrow> py_split c (a @ c # b) = a # py_split c b"
  by (induction a) auto

lemma py_split_parts: "p \<in> set (py_split c s) \<Longrightarrow> c \<notin> set p"
proof (induction s arbitrary: p)
  case (Cons x xs)
  then show ?case by (cases "py_split c xs") (auto split: if_splits)
qed simp

lemma py_split_join:
  "ps \<noteq> [] \<Longrightarrow> \<forall>p \<in> set ps. c \<notin> set p \<Longrightarrow> py_split c (py_join [c] ps) = ps"
proof (induction "[c]" ps rule: py_join.induct)
  case (3 x y ys)
  then show ?case by (simp add: py_split_append_sep)
qed (auto simp: py_split_no_sep)

lemma py_join_split: "py_join [c] (py_split c s) = s"
proof (induction s)
  case (Cons x xs)
  then show ?case
    by (cases "py_split c xs"; cases "tl (py_split c xs)") auto
qed simp

lemma slice_length: "j \<le> length s \<Longrightarrow> length (slice s i j) = j - i"
  by (simp add: slice_def)

lemma slice_append_slice: "i \<le> j \<Longrightarrow> j \<le> k \<Longrightarrow> slice s i j @ slice s j k = slice s i k"
proof -
  assume a: "i \<le> j" "j \<le> k"
  then have "slice s i k = take (j - i) (drop i s) @ take (k - j) (drop (j - i) (drop i s))"
    unfolding slice_def by (metis Nat.add_diff_assoc2 add_diff_inverse_nat diff_add_inverse2 leD take_add)
  with a show ?thesis by (simp add: slice_def)
qed

lemma slice_drop: "i \<le> j \<Longrightarrow> slice s i j @ drop j s = drop i s"
  unfolding slice_def by (metis append_take_drop_id drop_drop le_add_diff_inverse2)

lemma nat_str_ne [simp]: "nat_str n \<noteq> []"
  by (subst nat_str.simps) simp

lemma digit_char_digit: "d < 10 \<Longrightarrow> is_digit (digit_char d)"
  by (auto simp: is_digit_def digit_char_def less_eq_char_def)

lemma nat_str_digits: "c \<in> set (nat_str n) \<Longrightarrow> is_digit c"
proof (induction n rule: nat_str.induct)
  case (1 n)
  then show ?case
    by (subst (asm) nat_str.simps) (auto simp: digit_char_digit split: if_splits)
qed

lemma digits_value_snoc: "digits_value (s @ [c]) = 10 * digits_value s + (of_char c - 48)"
  by (simp add: digits_value_def)

lemma digits_value_nat_str [simp]: "digits_value (nat_str n) = n"
proof (induction n rule: nat_str.induct)
  case (1 n)
  show ?case
  proof (cases "n < 10")
    case True
    then show ?thesis by (subst nat_str.simps) (simp add: digits_value_def digit_char_def)
  next
    case False
    with 1 have "digits_value (nat_str (n div 10)) = n div 10" by simp
    with False show ?thesis
      by (subst nat_str.simps) (simp add: digits_value_snoc digit_char_def)
  qed
qed

lemma nat_str_inject [simp]: "nat_str m = nat_str n \<longleftrightarrow> m = n"
  by (metis digits_value_nat_str)

lemma is_digit_neq: "is_digit c \<Longrightarrow> c \<noteq> CHR ''-'' \<and> c \<noteq> CHR '','' \<and> c \<noteq> CHR '']'' \<and> c \<noteq> CHR ''}''
    \<and> c \<noteq> CHR ''_'' \<and> c \<noteq> CHR ''[''"
  by (auto simp: is_digit_def less_eq_char_def)

lemma int_str_inject [simp]: "int_str i = int_str j \<longleftrightarrow> i = j"
proof
  assume eq: "int_str i = int_str j"
  have no_minus: "nat_str a \<noteq> CHR ''-'' # b" for a b
    using nat_str_digits [of "CHR ''-''" a] is_digit_neq by fastforce
  show "i = j"
    using eq no_minus by (cases "i < 0"; cases "j < 0") (auto simp: int_str_def dest: sym)
qed simp

lemma int_str_chars: "c \<in> set (int_str i) \<Longrightarrow> is_digit c \<or> c = CHR ''-''"
  by (auto simp: int_str_def dest: nat_str_digits split: if_splits)

lemma int_str_ne [simp]: "int_str i \<noteq> []"
  by (simp add: int_str_def)

section \<open>Dictionaries and counters\<close>

definition dict_get :: "'v dict \<Rightarrow> string \<Rightarrow> 'v option" where
  "dict_get d k = map_of d k"

text \<open>\<^verbatim>\<open>{k: v for ...}\<close>: a later entry for the same key replaces the value and keeps the place.\<close>

definition dict_of :: "('k \<times> 'v) list \<Rightarrow> ('k \<times> 'v) list" where
  "dict_of kvs = foldl (\<lambda>d (k, v). AList.update k v d) [] kvs"

lemma dict_of_snoc [simp]: "dict_of (kvs @ [(k, v)]) = AList.update k v (dict_of kvs)"
  by (simp add: dict_of_def)

lemma dict_of_Nil [simp]: "dict_of [] = []"
  by (simp add: dict_of_def)

lemma map_of_dict_of: "map_of (dict_of kvs) = map_of (rev kvs)"
  by (induction kvs rule: rev_induct) (auto simp: update_conv)

lemma distinct_dict_of [simp]: "distinct (map fst (dict_of kvs))"
  by (induction kvs rule: rev_induct) (auto simp: distinct_update)

lemma keys_dict_of [simp]: "fst ` set (dict_of kvs) = fst ` set kvs"
  by (metis dom_map_of_conv_image_fst map_of_dict_of set_rev)

definition counter_get :: "counter \<Rightarrow> string \<Rightarrow> nat" where
  "counter_get c k = (case map_of c k of None \<Rightarrow> 0 | Some n \<Rightarrow> n)"

definition counter_inc :: "string \<Rightarrow> counter \<Rightarrow> counter" where
  "counter_inc k c = AList.update k (Suc (counter_get c k)) c"

definition counter_total :: "counter \<Rightarrow> nat" where
  "counter_total c = sum_list (map snd c)"

lemma counter_get_inc: "counter_get (counter_inc k c) k' = (if k' = k then Suc (counter_get c k) else counter_get c k')"
  by (simp add: counter_inc_def counter_get_def update_conv')

lemma distinct_counter_inc: "distinct (map fst c) \<Longrightarrow> distinct (map fst (counter_inc k c))"
  by (simp add: counter_inc_def distinct_update)

lemma counter_total_inc: "distinct (map fst c) \<Longrightarrow> counter_total (counter_inc k c) = Suc (counter_total c)"
proof -
  have "distinct (map fst c) \<Longrightarrow>
      sum_list (map snd (AList.update k v c)) + counter_get c k = sum_list (map snd c) + v" for v
  proof (induction c)
    case (Cons p ps)
    then show ?case
      by (cases p) (auto simp: counter_get_def map_of_eq_None_iff [THEN iffD2])
  qed (simp add: counter_get_def)
  from this [of "Suc (counter_get c k)"] show "distinct (map fst c) \<Longrightarrow> ?thesis"
    by (simp add: counter_total_def counter_inc_def)
qed

section \<open>Computations with a state that may raise\<close>

text \<open>
  A call of the program is a function from the state to the outcome, an exception or a value,
  and the state it leaves, so that what was changed before a raise stays changed unless a
  transaction rolls it back.
\<close>

type_synonym ('e, 's, 'a) act = "'s \<Rightarrow> ('e + 'a) \<times> 's"

definition ret :: "'a \<Rightarrow> ('e, 's, 'a) act" where
  "ret x s = (Inr x, s)"

definition raise :: "'e \<Rightarrow> ('e, 's, 'a) act" where
  "raise e s = (Inl e, s)"

definition bnd :: "('e, 's, 'a) act \<Rightarrow> ('a \<Rightarrow> ('e, 's, 'b) act) \<Rightarrow> ('e, 's, 'b) act" where
  "bnd m f s = (case m s of (Inl e, s') \<Rightarrow> (Inl e, s') | (Inr x, s') \<Rightarrow> f x s')"

definition andthen :: "('e, 's, 'a) act \<Rightarrow> ('e, 's, 'b) act \<Rightarrow> ('e, 's, 'b) act" where
  "andthen m k = bnd m (\<lambda>_. k)"

definition gets :: "('s \<Rightarrow> 'a) \<Rightarrow> ('e, 's, 'a) act" where
  "gets f s = (Inr (f s), s)"

definition modify :: "('s \<Rightarrow> 's) \<Rightarrow> ('e, 's, unit) act" where
  "modify f s = (Inr (), f s)"

definition raise_if :: "bool \<Rightarrow> 'e \<Rightarrow> ('e, 's, unit) act" where
  "raise_if b e = (if b then raise e else ret ())"

definition of_result :: "'e + 'a \<Rightarrow> ('e, 's, 'a) act" where
  "of_result r s = (r, s)"

text \<open>\<^verbatim>\<open>try: m except E as e: h(e)\<close>: \<open>h\<close> answers the exceptions it handles.\<close>

definition try_with :: "('e, 's, 'a) act \<Rightarrow> ('e \<Rightarrow> ('e, 's, 'a) act option) \<Rightarrow> ('e, 's, 'a) act" where
  "try_with m h s = (case m s of
      (Inr x, s') \<Rightarrow> (Inr x, s')
    | (Inl e, s') \<Rightarrow> (case h e of None \<Rightarrow> (Inl e, s') | Some k \<Rightarrow> k s'))"

text \<open>A transaction: on an exception \<open>undo before after\<close> is the state that remains.\<close>

definition transact :: "('s \<Rightarrow> 's \<Rightarrow> 's) \<Rightarrow> ('e, 's, 'a) act \<Rightarrow> ('e, 's, 'a) act" where
  "transact undo m s = (case m s of
      (Inr x, s') \<Rightarrow> (Inr x, s')
    | (Inl e, s') \<Rightarrow> (Inl e, undo s s'))"

primrec for_each :: "('a \<Rightarrow> ('e, 's, unit) act) \<Rightarrow> 'a list \<Rightarrow> ('e, 's, unit) act" where
  "for_each f [] = ret ()"
| "for_each f (x # xs) = andthen (f x) (for_each f xs)"

primrec map_act :: "('a \<Rightarrow> ('e, 's, 'b) act) \<Rightarrow> 'a list \<Rightarrow> ('e, 's, 'b list) act" where
  "map_act f [] = ret []"
| "map_act f (x # xs) = bnd (f x) (\<lambda>y. bnd (map_act f xs) (\<lambda>ys. ret (y # ys)))"

lemmas act_core [act_defs] = ret_def raise_def bnd_def andthen_def gets_def modify_def
  raise_if_def of_result_def try_with_def transact_def

subsection \<open>Invariants\<close>

text \<open>
  \<open>preserves I m\<close>: \<open>m\<close> keeps \<open>I\<close>, whether it returns or raises. The rules follow the
  structure of a computation, so an operation's preservation proof is the rules plus the facts
  about the primitive updates it makes.
\<close>

definition preserves :: "('s \<Rightarrow> bool) \<Rightarrow> ('e, 's, 'a) act \<Rightarrow> bool" where
  "preserves I m \<longleftrightarrow> (\<forall>s. I s \<longrightarrow> I (snd (m s)))"

lemma preservesI: "(\<And>s. I s \<Longrightarrow> I (snd (m s))) \<Longrightarrow> preserves I m"
  by (simp add: preserves_def)

lemma preservesD: "preserves I m \<Longrightarrow> I s \<Longrightarrow> I (snd (m s))"
  by (simp add: preserves_def)

lemma preserves_ret [preserve_rules]: "preserves I (ret x)"
  by (simp add: preserves_def ret_def)

lemma preserves_raise [preserve_rules]: "preserves I (raise e)"
  by (simp add: preserves_def raise_def)

lemma preserves_gets [preserve_rules]: "preserves I (gets f)"
  by (simp add: preserves_def gets_def)

lemma preserves_raise_if [preserve_rules]: "preserves I (raise_if b e)"
  by (simp add: preserves_def raise_if_def ret_def raise_def)

lemma preserves_of_result [preserve_rules]: "preserves I (of_result r)"
  by (simp add: preserves_def of_result_def)

lemma preserves_modify: "(\<And>s. I s \<Longrightarrow> I (f s)) \<Longrightarrow> preserves I (modify f)"
  by (simp add: preserves_def modify_def)

lemma preserves_bnd [preserve_rules]:
  "preserves I m \<Longrightarrow> (\<And>x. preserves I (f x)) \<Longrightarrow> preserves I (bnd m f)"
  by (fastforce simp: preserves_def bnd_def split: prod.splits sum.splits)

lemma preserves_andthen [preserve_rules]:
  "preserves I m \<Longrightarrow> preserves I k \<Longrightarrow> preserves I (andthen m k)"
  by (simp add: andthen_def preserves_bnd)

lemma preserves_try_with [preserve_rules]:
  "preserves I m \<Longrightarrow> (\<And>e k. h e = Some k \<Longrightarrow> preserves I k) \<Longrightarrow> preserves I (try_with m h)"
  by (fastforce simp: preserves_def try_with_def split: prod.splits sum.splits option.splits)

lemma preserves_transact:
  "preserves I m \<Longrightarrow> (\<And>s s'. I s \<Longrightarrow> I s' \<Longrightarrow> I (undo s s')) \<Longrightarrow> preserves I (transact undo m)"
  by (fastforce simp: preserves_def transact_def split: prod.splits sum.splits)

lemma preserves_for_each [preserve_rules]:
  "(\<And>x. preserves I (f x)) \<Longrightarrow> preserves I (for_each f xs)"
  by (induction xs) (auto intro: preserve_rules)

lemma preserves_if [preserve_rules]:
  "preserves I m \<Longrightarrow> preserves I k \<Longrightarrow> preserves I (if b then m else k)"
  by simp

lemma preserves_option [preserve_rules]:
  "preserves I m \<Longrightarrow> (\<And>x. preserves I (f x)) \<Longrightarrow> preserves I (case y of None \<Rightarrow> m | Some x \<Rightarrow> f x)"
  by (simp split: option.splits)

lemma preserves_prod [preserve_rules]:
  "(\<And>a b. preserves I (f a b)) \<Longrightarrow> preserves I (case p of (a, b) \<Rightarrow> f a b)"
  by (simp split: prod.splits)

lemma preserves_Let [preserve_rules]: "(\<And>x. preserves I (f x)) \<Longrightarrow> preserves I (Let v f)"
  by simp

lemma preserves_sum [preserve_rules]:
  "(\<And>x. preserves I (f x)) \<Longrightarrow> (\<And>x. preserves I (g x)) \<Longrightarrow>
   preserves I (case y of Inl x \<Rightarrow> f x | Inr x \<Rightarrow> g x)"
  by (simp split: sum.splits)

text \<open>The outcomes of sequential composition, for forward reasoning.\<close>

lemma bnd_Inr_iff:
  "bnd m f s = (Inr y, s2) \<longleftrightarrow> (\<exists>x s1. m s = (Inr x, s1) \<and> f x s1 = (Inr y, s2))"
  by (auto simp: bnd_def split: prod.splits sum.splits)

lemma andthen_Inr_iff:
  "andthen m k s = (Inr y, s2) \<longleftrightarrow> (\<exists>x s1. m s = (Inr x, s1) \<and> k s1 = (Inr y, s2))"
  by (simp add: andthen_def bnd_Inr_iff)

lemma raise_if_Inr_iff: "raise_if b e s = (Inr y, s1) \<longleftrightarrow> \<not> b \<and> s1 = s"
  by (auto simp: raise_if_def ret_def raise_def)

lemma gets_Inr_iff: "gets f s = (Inr y, s1) \<longleftrightarrow> y = f s \<and> s1 = s"
  by (auto simp: gets_def)

lemma modify_Inr_iff: "modify f s = (Inr y, s1) \<longleftrightarrow> s1 = f s"
  by (auto simp: modify_def)

lemma ret_Inr_iff: "ret x s = (Inr y, s1) \<longleftrightarrow> y = x \<and> s1 = s"
  by (auto simp: ret_def)

lemma raise_Inr_iff: "raise e s = (Inr y, s1) \<longleftrightarrow> False"
  by (auto simp: raise_def)

lemma of_result_Inr_iff: "of_result r s = (Inr y, s1) \<longleftrightarrow> r = Inr y \<and> s1 = s"
  by (auto simp: of_result_def)

lemmas act_Inr = bnd_Inr_iff andthen_Inr_iff raise_if_Inr_iff gets_Inr_iff modify_Inr_iff
  ret_Inr_iff raise_Inr_iff

end
