(* ===== verification/MP_Json.thy ===== *)
theory MP_Json
  imports MP_Prelude
begin

text \<open>
  JSON values as the program builds them and the text \<^verbatim>\<open>json.dumps\<close> writes for them with
  \<^verbatim>\<open>sort_keys=True, separators=(",", ":")\<close>: the encoding behind \<^verbatim>\<open>identity.canonical_json\<close>
  (with \<^verbatim>\<open>ensure_ascii=False\<close>) and behind the audit log's digest (with the default
  \<^verbatim>\<open>ensure_ascii=True\<close>). The main result is that the encoding is injective up to the order of an
  object's members, so a hash or a signature over it covers every field.

  A float is carried by its \<^verbatim>\<open>repr\<close>, the text \<^verbatim>\<open>json.dumps\<close> writes for it.
\<close>

datatype json =
    JNull
  | JBool bool
  | JInt int
  | JFloat string
  | JStr string
  | JArr "json list"
  | JObj "(string \<times> json) list"

section \<open>The encoder\<close>

definition hexdigit :: "nat \<Rightarrow> char" where
  "hexdigit d = (if d < 10 then char_of (48 + d) else char_of (87 + d))"

text \<open>\<^verbatim>\<open>json.encoder\<close>'s escapes: \<open>asc\<close> is \<^verbatim>\<open>ensure_ascii\<close>.\<close>

definition esc_char :: "bool \<Rightarrow> char \<Rightarrow> string" where
  "esc_char asc c =
     (let n = of_char c :: nat in
      if n = 34 \<or> n = 92 then [CHR 0x5C, c]
      else if n = 8 then [CHR 0x5C, CHR ''b'']
      else if n = 9 then [CHR 0x5C, CHR ''t'']
      else if n = 10 then [CHR 0x5C, CHR ''n'']
      else if n = 12 then [CHR 0x5C, CHR ''f'']
      else if n = 13 then [CHR 0x5C, CHR ''r'']
      else if n < 32 \<or> (asc \<and> 126 < n)
        then [CHR 0x5C, CHR ''u'', CHR ''0'', CHR ''0'', hexdigit (n div 16), hexdigit (n mod 16)]
      else [c])"

definition esc_string :: "bool \<Rightarrow> string \<Rightarrow> string" where
  "esc_string asc s = concat (map (esc_char asc) s)"

definition quoted :: "bool \<Rightarrow> string \<Rightarrow> string" where
  "quoted asc s = [CHR 0x22] @ esc_string asc s @ [CHR 0x22]"

text \<open>\<open>dumps\<close> writes members in the order given; \<open>sort_members\<close> is \<^verbatim>\<open>sort_keys=True\<close>.\<close>

fun dumps :: "bool \<Rightarrow> json \<Rightarrow> string" where
  "dumps asc JNull = ''null''"
| "dumps asc (JBool b) = (if b then ''true'' else ''false'')"
| "dumps asc (JInt i) = int_str i"
| "dumps asc (JFloat t) = t"
| "dumps asc (JStr s) = quoted asc s"
| "dumps asc (JArr xs) = ''['' @ py_join '','' (map (dumps asc) xs) @ '']''"
| "dumps asc (JObj kvs) =
     ''{'' @ py_join '','' (map (\<lambda>(k, v). quoted asc k @ '':'' @ dumps asc v) kvs) @ ''}''"

fun sort_members :: "json \<Rightarrow> json" where
  "sort_members (JArr xs) = JArr (map sort_members xs)"
| "sort_members (JObj kvs) = JObj (sort_key fst (map (\<lambda>(k, v). (k, sort_members v)) kvs))"
| "sort_members j = j"

definition json_dumps :: "bool \<Rightarrow> json \<Rightarrow> string" where
  "json_dumps asc j = dumps asc (sort_members j)"

text \<open>
  What \<^verbatim>\<open>json.dumps\<close> may be given for a float: a decimal literal with a point, an exponent, or
  \<^verbatim>\<open>nan\<close>/\<^verbatim>\<open>inf\<close>, so never the text of an integer.
\<close>

definition float_text :: "string \<Rightarrow> bool" where
  "float_text t \<longleftrightarrow> t \<noteq> [] \<and> (is_digit (hd t) \<or> hd t \<in> {CHR ''-'', CHR ''N'', CHR ''I''})
     \<and> list_all (\<lambda>c. c \<notin> {CHR '','', CHR '']'', CHR ''}''}) t
     \<and> \<not> list_all (\<lambda>c. is_digit c \<or> c = CHR ''-'') t"

fun json_ok :: "json \<Rightarrow> bool" where
  "json_ok (JFloat t) = float_text t"
| "json_ok (JArr xs) = list_all json_ok xs"
| "json_ok (JObj kvs) = (distinct (map fst kvs) \<and> list_all (\<lambda>(k, v). json_ok v) kvs)"
| "json_ok j = True"

text \<open>\<^verbatim>\<open>d.get(k)\<close> on a JSON object.\<close>

definition jget :: "json \<Rightarrow> string \<Rightarrow> json option" where
  "jget j k = (case j of JObj kvs \<Rightarrow> map_of kvs k | _ \<Rightarrow> None)"

text \<open>Python's truth value of a JSON value: \<^verbatim>\<open>x or y\<close> takes \<open>y\<close> when \<open>x\<close> is falsy.\<close>

fun json_falsy :: "json \<Rightarrow> bool" where
  "json_falsy JNull = True"
| "json_falsy (JBool b) = (\<not> b)"
| "json_falsy (JInt i) = (i = 0)"
| "json_falsy (JFloat t) = (t = ''0.0'' \<or> t = ''-0.0'')"
| "json_falsy (JStr s) = (s = [])"
| "json_falsy (JArr xs) = (xs = [])"
| "json_falsy (JObj kvs) = (kvs = [])"

section \<open>The encoding is injective\<close>

subsection \<open>Escaped strings\<close>

text \<open>A decoder of one escaped character; it inverts \<^const>\<open>esc_char\<close> whatever follows.\<close>

definition unhex :: "char \<Rightarrow> nat" where
  "unhex c = (if is_digit c then of_char c - 48 else of_char c - 87)"

definition unesc1 :: "string \<Rightarrow> (char \<times> string) option" where
  "unesc1 s = (case s of [] \<Rightarrow> None
     | c # r \<Rightarrow> if c \<noteq> CHR 0x5C then Some (c, r)
       else (case r of [] \<Rightarrow> None
         | d # r' \<Rightarrow>
             if d = CHR ''b'' then Some (char_of (8::nat), r')
             else if d = CHR ''t'' then Some (char_of (9::nat), r')
             else if d = CHR ''n'' then Some (char_of (10::nat), r')
             else if d = CHR ''f'' then Some (char_of (12::nat), r')
             else if d = CHR ''r'' then Some (char_of (13::nat), r')
             else if d = CHR ''u''
               then Some (char_of (16 * unhex (r' ! 2) + unhex (r' ! 3)), drop 4 r')
             else Some (d, r')))"

lemma unhex_hexdigit: "d < 16 \<Longrightarrow> unhex (hexdigit d) = d"
  by (auto simp: unhex_def hexdigit_def is_digit_def less_eq_char_def)

lemma unesc1_plain: "c \<noteq> CHR 0x5C \<Longrightarrow> unesc1 (c # r) = Some (c, r)"
  by (simp add: unesc1_def)

lemma unesc1_hex:
  "n < 256 \<Longrightarrow> unesc1 (CHR 0x5C # CHR ''u'' # CHR ''0'' # CHR ''0''
      # hexdigit (n div 16) # hexdigit (n mod 16) # r) = Some (char_of n, r)"
  using unhex_hexdigit [of "n div 16"] unhex_hexdigit [of "n mod 16"]
  by (simp add: unesc1_def numeral_2_eq_2 numeral_3_eq_3)

lemma unesc1_esc_char: "unesc1 (esc_char asc c @ r) = Some (c, r)"
proof -
  define n where "n = (of_char c :: nat)"
  have c: "c = char_of n" and lt: "n < 256" by (simp_all add: n_def)
  consider "n = 34" | "n = 92" | "n = 8" | "n = 9" | "n = 10" | "n = 12" | "n = 13"
    | "n \<notin> {34, 92, 8, 9, 10, 12, 13}" by auto
  then show ?thesis
  proof cases
    case 8
    then have "c \<noteq> CHR 0x5C" by (auto simp: n_def)
    with 8 lt show ?thesis
      by (auto simp: esc_char_def Let_def n_def [symmetric] unesc1_plain unesc1_hex c [symmetric])
  qed (simp_all add: c esc_char_def unesc1_def char_of_eq_iff take_bit_eq_mod)
qed

lemma esc_char_hd: "\<exists>d ds. esc_char asc c = d # ds \<and> d \<noteq> CHR 0x22"
  by (auto simp: esc_char_def Let_def)

lemma esc_string_prefix_free:
  "esc_string asc s @ CHR 0x22 # r = esc_string asc t @ CHR 0x22 # r' \<Longrightarrow> s = t \<and> r = r'"
proof (induction s arbitrary: t)
  case Nil
  then show ?case
    using esc_char_hd [of asc "hd t"] by (cases t) (auto simp: esc_string_def)
next
  case (Cons c s)
  then obtain d t' where t: "t = d # t'"
    using esc_char_hd [of asc c] by (cases t) (auto simp: esc_string_def)
  have "unesc1 (esc_char asc c @ esc_string asc s @ CHR 0x22 # r)
      = unesc1 (esc_char asc d @ esc_string asc t' @ CHR 0x22 # r')"
    using Cons.prems t by (simp add: esc_string_def)
  then have "c = d" and "esc_string asc s @ CHR 0x22 # r = esc_string asc t' @ CHR 0x22 # r'"
    by (simp_all add: unesc1_esc_char)
  with Cons.IH t show ?case by blast
qed

lemma quoted_prefix_free: "quoted asc s @ r = quoted asc t @ r' \<Longrightarrow> s = t \<and> r = r'"
  using esc_string_prefix_free [of asc s r t r'] by (simp add: quoted_def)

subsection \<open>Values\<close>

text \<open>A value's text ends where the input does or at a comma or closing bracket.\<close>

definition stops :: "string \<Rightarrow> bool" where
  "stops r \<longleftrightarrow> r = [] \<or> hd r \<in> {CHR '','', CHR '']'', CHR ''}''}"

definition plain_token :: "string \<Rightarrow> bool" where
  "plain_token t \<longleftrightarrow> list_all (\<lambda>c. c \<notin> {CHR '','', CHR '']'', CHR ''}''}) t"

lemma token_prefix_free:
  assumes "plain_token a" "plain_token b" "stops r" "stops s" "a @ r = b @ s"
  shows "a = b \<and> r = s"
proof -
  let ?P = "\<lambda>c. c \<notin> {CHR '','', CHR '']'', CHR ''}''}"
  have tok: "takeWhile ?P (x @ y) = x" if "plain_token x" "stops y" for x y
    using that by (cases y) (auto simp: plain_token_def stops_def list_all_iff takeWhile_append2)
  from tok [OF assms(1,3)] tok [OF assms(2,4)] assms(5) show ?thesis by (metis same_append_eq)
qed

lemma py_join_concat: "py_join sep (x # xs) = x @ concat (map (\<lambda>y. sep @ y) xs)"
  by (induction xs arbitrary: x) auto

text \<open>A comma-separated list of texts that are each prefix-free is prefix-free.\<close>

lemma joined_prefix_free:
  assumes free: "\<And>x y r s. x \<in> set xs \<Longrightarrow> ok y \<Longrightarrow> stops r \<Longrightarrow> stops s \<Longrightarrow> f x @ r = f y @ s \<Longrightarrow> x = y \<and> r = s"
    and start: "\<And>x. \<exists>c cs. ok x \<longrightarrow> f x = c # cs \<and> c \<notin> {CHR '']'', CHR ''}''}"
    and ok: "list_all ok xs" "list_all ok ys"
    and cl: "cl \<in> {CHR '']'', CHR ''}''}"
    and eq: "py_join '','' (map f xs) @ cl # r = py_join '','' (map f ys) @ cl # s"
  shows "xs = ys \<and> r = s"
proof -
  have tail: "us = vs \<and> r = s"
    if "concat (map (\<lambda>y. '','' @ f y) us) @ cl # r = concat (map (\<lambda>y. '','' @ f y) vs) @ cl # s"
      and "set us \<subseteq> set xs" "list_all ok vs" for us vs
    using that
  proof (induction us arbitrary: vs)
    case Nil
    then show ?case using cl by (cases vs) auto
  next
    case (Cons u us)
    then obtain v vs' where vs: "vs = v # vs'" using cl by (cases vs) auto
    have st: "stops (concat (map (\<lambda>y. '','' @ f y) zs) @ cl # q)" for zs q
      using cl by (cases zs) (auto simp: stops_def)
    have "f u @ concat (map (\<lambda>y. '','' @ f y) us) @ cl # r
        = f v @ concat (map (\<lambda>y. '','' @ f y) vs') @ cl # s"
      using Cons.prems(1) vs by simp
    with free [of u v] st Cons.prems vs
    have "u = v \<and> concat (map (\<lambda>y. '','' @ f y) us) @ cl # r
        = concat (map (\<lambda>y. '','' @ f y) vs') @ cl # s" by auto
    with Cons vs show ?case by auto
  qed
  show ?thesis
  proof (cases xs)
    case Nil
    then show ?thesis
      using eq start cl ok by (cases ys) (auto simp: py_join_concat, (metis list.inject append_Cons)+)
  next
    case (Cons x xs')
    then obtain y ys' where ys: "ys = y # ys'"
      using eq start [of x] cl ok by (cases ys) (auto simp: py_join_concat)
    have st: "stops (concat (map (\<lambda>y. '','' @ f y) zs) @ cl # q)" for zs q
      using cl by (cases zs) (auto simp: stops_def)
    have "f x @ concat (map (\<lambda>y. '','' @ f y) xs') @ cl # r
        = f y @ concat (map (\<lambda>y. '','' @ f y) ys') @ cl # s"
      using eq Cons ys by (simp add: py_join_concat comp_def)
    with free [of x y] st Cons ys ok
    have "x = y \<and> concat (map (\<lambda>y. '','' @ f y) xs') @ cl # r
        = concat (map (\<lambda>y. '','' @ f y) ys') @ cl # s" by auto
    with tail [of xs' ys'] Cons ys ok show ?thesis by auto
  qed
qed

text \<open>The first character of a value's text tells its kind, numbers apart.\<close>

definition number_start :: "char \<Rightarrow> bool" where
  "number_start c \<longleftrightarrow> is_digit c \<or> c \<in> {CHR ''-'', CHR ''N'', CHR ''I''}"

fun start_ok :: "json \<Rightarrow> char \<Rightarrow> bool" where
  "start_ok JNull c = (c = CHR ''n'')"
| "start_ok (JBool b) c = (c = (if b then CHR ''t'' else CHR ''f''))"
| "start_ok (JInt i) c = number_start c"
| "start_ok (JFloat t) c = number_start c"
| "start_ok (JStr s) c = (c = CHR 0x22)"
| "start_ok (JArr xs) c = (c = CHR ''['')"
| "start_ok (JObj kvs) c = (c = CHR ''{'')"

lemma number_start_neq:
  "number_start c \<Longrightarrow> c \<notin> {CHR ''n'', CHR ''t'', CHR ''f'', CHR 0x22, CHR ''['', CHR ''{'', CHR '']'', CHR ''}''}"
  by (auto simp: number_start_def is_digit_def less_eq_char_def)

lemma dumps_start: "json_ok j \<Longrightarrow> \<exists>c cs. dumps asc j = c # cs \<and> start_ok j c"
proof (cases j)
  case (JInt i)
  then show ?thesis
    using int_str_chars [of "hd (int_str i)" i] int_str_ne [of i]
    by (cases "int_str i") (auto simp: number_start_def)
next
  case (JFloat t)
  then show "json_ok j \<Longrightarrow> ?thesis"
    by (cases t) (auto simp: number_start_def float_text_def)
qed (auto simp: quoted_def)

lemma start_ok_closing: "start_ok j c \<Longrightarrow> c \<notin> {CHR '']'', CHR ''}''}"
  using number_start_neq by (cases j) (auto split: if_splits)

fun is_scalar :: "json \<Rightarrow> bool" where
  "is_scalar (JStr _) = False"
| "is_scalar (JArr _) = False"
| "is_scalar (JObj _) = False"
| "is_scalar _ = True"

lemma dumps_plain: "json_ok j \<Longrightarrow> is_scalar j \<Longrightarrow> plain_token (dumps asc j)"
  using int_str_chars is_digit_neq
  by (cases j) (fastforce simp: plain_token_def float_text_def list_all_iff)+

lemma float_not_int_text: "float_text t \<Longrightarrow> t \<noteq> int_str i"
  using int_str_chars by (auto simp: float_text_def list_all_iff)

lemma start_scalar: "start_ok a c \<Longrightarrow> start_ok b c \<Longrightarrow> is_scalar a \<Longrightarrow> is_scalar b"
  using number_start_neq [of c] by (cases a; cases b) (auto split: if_splits)

lemma dumps_scalar_inj:
  assumes "dumps asc a = dumps asc b" "json_ok a" "json_ok b" "is_scalar a" "is_scalar b"
  shows "a = b"
proof -
  obtain c where c: "start_ok a c" "start_ok b c"
    using dumps_start [of a asc] dumps_start [of b asc] assms by auto
  show ?thesis
    using assms c number_start_neq [of c] float_not_int_text
    by (cases a; cases b) (auto split: if_splits)
qed

lemma dumps_scalar_prefix_free:
  assumes "is_scalar a" "json_ok a" "json_ok b" "stops r" "stops s" "dumps asc a @ r = dumps asc b @ s"
  shows "a = b \<and> r = s"
proof -
  obtain c where "start_ok a c" "start_ok b c"
    using dumps_start [of a asc] dumps_start [of b asc] assms by auto
  then have "is_scalar b" using start_scalar assms(1) by blast
  with assms have "dumps asc a = dumps asc b \<and> r = s"
    by (intro token_prefix_free) (auto intro: dumps_plain)
  with dumps_scalar_inj assms \<open>is_scalar b\<close> show ?thesis by blast
qed

lemma dumps_prefix_free:
  "json_ok a \<Longrightarrow> json_ok b \<Longrightarrow> stops r \<Longrightarrow> stops s \<Longrightarrow> dumps asc a @ r = dumps asc b @ s
   \<Longrightarrow> a = b \<and> r = s"
proof (induction a arbitrary: b r s rule: json.induct)
  case (JArr xs)
  obtain c cs where "dumps asc b = c # cs" "start_ok b c" using dumps_start JArr.prems by blast
  with JArr.prems obtain ys where b: "b = JArr ys"
    using number_start_neq [of c] by (cases b) (auto split: if_splits)
  have "xs = ys \<and> r = s"
  proof (rule joined_prefix_free [where ok = json_ok and f = "dumps asc" and cl = "CHR '']''"])
    show "\<exists>c cs. json_ok x \<longrightarrow> dumps asc x = c # cs \<and> c \<notin> {CHR '']'', CHR ''}''}" for x
      using dumps_start [of x asc] start_ok_closing by blast
  qed (use JArr b in \<open>auto simp: list_all_iff\<close>)
  with b show ?case by simp
next
  case (JObj kvs)
  obtain c cs where "dumps asc b = c # cs" "start_ok b c" using dumps_start JObj.prems by blast
  with JObj.prems obtain kws where b: "b = JObj kws"
    using number_start_neq [of c] by (cases b) (auto split: if_splits)
  have "kvs = kws \<and> r = s"
  proof (rule joined_prefix_free [where ok = "\<lambda>(k, v). json_ok v" and cl = "CHR ''}''"
        and f = "\<lambda>(k, v). quoted asc k @ '':'' @ dumps asc v"])
    show "\<exists>c cs. (case x of (k, v) \<Rightarrow> json_ok v) \<longrightarrow>
        (case x of (k, v) \<Rightarrow> quoted asc k @ '':'' @ dumps asc v) = c # cs \<and> c \<notin> {CHR '']'', CHR ''}''}" for x
      by (auto simp: quoted_def split: prod.splits)
  next
    fix x y :: "string \<times> json" and u v
    assume x: "x \<in> set kvs" and ok: "case y of (k, v) \<Rightarrow> json_ok v" and st: "stops u" "stops v"
      and eq: "(case x of (k, v) \<Rightarrow> quoted asc k @ '':'' @ dumps asc v) @ u
             = (case y of (k, v) \<Rightarrow> quoted asc k @ '':'' @ dumps asc v) @ v"
    obtain k1 v1 k2 v2 where xy: "x = (k1, v1)" "y = (k2, v2)" by fastforce
    from eq xy have "quoted asc k1 @ '':'' @ dumps asc v1 @ u = quoted asc k2 @ '':'' @ dumps asc v2 @ v"
      by simp
    then have *: "k1 = k2 \<and> '':'' @ dumps asc v1 @ u = '':'' @ dumps asc v2 @ v"
      by (rule quoted_prefix_free)
    then have "k1 = k2" and "dumps asc v1 @ u = dumps asc v2 @ v" by simp_all
    moreover have "json_ok v1" using JObj.prems(1) x xy by (auto simp: list_all_iff)
    then have "v1 = v2 \<and> u = v"
      using JObj.IH [OF x, of v1 v2 u v] xy ok st \<open>dumps asc v1 @ u = dumps asc v2 @ v\<close> by simp
    ultimately show "x = y \<and> u = v" using xy by simp
  qed (use JObj.prems b in auto)
  with b show ?case by simp
next
  case (JStr t)
  obtain c cs where "dumps asc b = c # cs" "start_ok b c" using dumps_start JStr.prems by blast
  with JStr.prems obtain u where b: "b = JStr u"
    using number_start_neq [of c] by (cases b) (auto simp: quoted_def split: if_splits)
  then have "quoted asc t @ r = quoted asc u @ s" using JStr.prems by simp
  from quoted_prefix_free [OF this] b show ?case by simp
qed (rule dumps_scalar_prefix_free; simp)+

theorem dumps_inject:
  "json_ok a \<Longrightarrow> json_ok b \<Longrightarrow> dumps asc a = dumps asc b \<longleftrightarrow> a = b"
  using dumps_prefix_free [of a b "[]" "[]" asc] by (auto simp: stops_def)

subsection \<open>Sorted members\<close>

lemma distinct_sort_key_fst [simp]: "distinct (map fst (sort_key fst kvs)) = distinct (map fst kvs)"
  by (simp add: distinct_map)

lemma map_fst_map_value [simp]: "map fst (map (\<lambda>(k, v). (k, f v)) kvs) = map fst kvs"
  by (induction kvs) auto

lemma json_ok_sort_members: "json_ok j \<Longrightarrow> json_ok (sort_members j)"
proof (induction j rule: json_ok.induct)
  case (3 kvs)
  have "json_ok (JObj (map (\<lambda>(k, v). (k, sort_members v)) kvs))"
    using 3 by (fastforce simp: list_all_iff simp del: map_map)
  then show ?case by (simp add: list_all_iff del: map_map)
qed (auto simp: list_all_iff)

text \<open>
  Two well-formed values with the same canonical text are the same up to the order of members,
  at every depth.
\<close>

lemma json_dumps_inject:
  "json_ok a \<Longrightarrow> json_ok b \<Longrightarrow> json_dumps asc a = json_dumps asc b \<longleftrightarrow> sort_members a = sort_members b"
  by (simp add: json_dumps_def dumps_inject json_ok_sort_members)

lemma map_of_sort_key: "distinct (map fst kvs) \<Longrightarrow> map_of (sort_key fst kvs) = map_of kvs"
  by (rule map_of_eqI) (auto intro!: map_of_eqI simp: map_of_eq_Some_iff)

lemma sort_members_get:
  assumes "json_ok a" "json_ok b" "sort_members a = sort_members b"
  shows "map_option sort_members (jget a k) = map_option sort_members (jget b k)"
proof -
  have *: "map_of (sort_key fst (map (\<lambda>(k, v). (k, sort_members v)) kvs)) k
      = map_option sort_members (map_of kvs k)" if "distinct (map fst kvs)" for kvs
    using that map_of_sort_key [of "map (\<lambda>(k, v). (k, sort_members v)) kvs"]
    by (simp add: map_of_map del: map_map)
  show ?thesis
    using assms by (cases a; cases b) (simp_all add: jget_def * [symmetric])
qed

end
