(* ===== verification/MP_Schema.thy ===== *)
theory MP_Schema
  imports Complex_Main MP_Json
begin

text \<open>
  The passport's data model (\<^verbatim>\<open>core/schema.py\<close>): its enumerations and sections as datatypes and
  records with the source's fields. A Python \<^verbatim>\<open>float\<close> is a \<^typ>\<open>rat\<close> (every finite float is one),
  timestamps and UUIDs are their texts, and a field of type \<^verbatim>\<open>Any\<close> is a \<^typ>\<open>json\<close>.
  \<^verbatim>\<open>SEVERITY_ORDER\<close> and \<^verbatim>\<open>VERDICT_ORDER\<close> become linear orders on the two enumerations.
\<close>

section \<open>Enumerations\<close>

datatype verdict = PASS | WARN | FAIL

datatype severity = INFO | LOW | MEDIUM | HIGH | CRITICAL

datatype split_role = TRAIN | VALIDATION | TEST

datatype artifact_kind = DATASET | MODEL | SCRIPT | CONFIG | OTHER

datatype change_status = ADDED | REMOVED | CHANGED | UNCHANGED

datatype dependency_audit = DEP_OK | DEP_NOT_RUN | DEP_ERROR

fun verdict_value :: "verdict \<Rightarrow> string" where
  "verdict_value PASS = ''pass''"
| "verdict_value WARN = ''warn''"
| "verdict_value FAIL = ''fail''"

text \<open>\<^verbatim>\<open>Verdict(s)\<close>: the member with that value, or \<^verbatim>\<open>ValueError\<close>.\<close>

definition verdict_of :: "string \<Rightarrow> verdict option" where
  "verdict_of s = (if s = ''pass'' then Some PASS else if s = ''warn'' then Some WARN
     else if s = ''fail'' then Some FAIL else None)"

fun severity_value :: "severity \<Rightarrow> string" where
  "severity_value INFO = ''info''"
| "severity_value LOW = ''low''"
| "severity_value MEDIUM = ''medium''"
| "severity_value HIGH = ''high''"
| "severity_value CRITICAL = ''critical''"

definition SEVERITY_ORDER :: "severity list" where
  "SEVERITY_ORDER = [INFO, LOW, MEDIUM, HIGH, CRITICAL]"

text \<open>\<^verbatim>\<open>xs.index(x)\<close> on a list that has \<open>x\<close>.\<close>

fun index_of :: "'a list \<Rightarrow> 'a \<Rightarrow> nat" where
  "index_of [] x = 0"
| "index_of (y # ys) x = (if y = x then 0 else Suc (index_of ys x))"

definition at_least :: "severity \<Rightarrow> severity \<Rightarrow> bool" where
  "at_least s minimum \<longleftrightarrow> index_of SEVERITY_ORDER minimum \<le> index_of SEVERITY_ORDER s"

definition VERDICT_ORDER :: "verdict list" where
  "VERDICT_ORDER = [PASS, WARN, FAIL]"

instantiation severity :: linorder
begin

definition less_eq_severity :: "severity \<Rightarrow> severity \<Rightarrow> bool" where
  "less_eq_severity a b \<longleftrightarrow> index_of SEVERITY_ORDER a \<le> index_of SEVERITY_ORDER b"

definition less_severity :: "severity \<Rightarrow> severity \<Rightarrow> bool" where
  "less_severity a b \<longleftrightarrow> index_of SEVERITY_ORDER a < index_of SEVERITY_ORDER b"

instance
proof
  fix x y :: severity
  show "x \<le> y \<Longrightarrow> y \<le> x \<Longrightarrow> x = y"
    by (cases x; cases y) (simp_all add: less_eq_severity_def SEVERITY_ORDER_def)
qed (auto simp: less_eq_severity_def less_severity_def)

end

instantiation verdict :: linorder
begin

definition less_eq_verdict :: "verdict \<Rightarrow> verdict \<Rightarrow> bool" where
  "less_eq_verdict a b \<longleftrightarrow> index_of VERDICT_ORDER a \<le> index_of VERDICT_ORDER b"

definition less_verdict :: "verdict \<Rightarrow> verdict \<Rightarrow> bool" where
  "less_verdict a b \<longleftrightarrow> index_of VERDICT_ORDER a < index_of VERDICT_ORDER b"

instance
proof
  fix x y :: verdict
  show "x \<le> y \<Longrightarrow> y \<le> x \<Longrightarrow> x = y"
    by (cases x; cases y) (simp_all add: less_eq_verdict_def VERDICT_ORDER_def)
qed (auto simp: less_eq_verdict_def less_verdict_def)

end

lemma at_least_iff: "at_least s m \<longleftrightarrow> m \<le> s"
  by (simp add: at_least_def less_eq_severity_def)

lemma PASS_le [simp]: "PASS \<le> v" and le_FAIL [simp]: "v \<le> FAIL"
  by (cases v; simp add: less_eq_verdict_def VERDICT_ORDER_def)+

lemma le_PASS_iff [simp]: "v \<le> PASS \<longleftrightarrow> v = PASS" and FAIL_le_iff [simp]: "FAIL \<le> v \<longleftrightarrow> v = FAIL"
  by (cases v; simp add: less_eq_verdict_def VERDICT_ORDER_def)+

lemma verdict_of_value [simp]: "verdict_of (verdict_value v) = Some v"
  by (cases v) (simp_all add: verdict_of_def)

section \<open>Sections of a passport\<close>

record artifact_ref =
  ar_path :: string
  ar_sha256 :: string
  ar_size_bytes :: int
  ar_kind :: artifact_kind

record identity_sec =
  id_passport_id :: string
  id_model_name :: string
  id_version :: string
  id_created_at :: string
  id_merkle_root :: string
  id_public_key_fingerprint :: string
  id_signature :: "string option"

record model_info =
  mi_framework :: "string option"
  mi_algorithm :: "string option"
  mi_task_type :: "string option"
  mi_hyperparameters :: "json dict"
  mi_artifact_uri :: string
  mi_artifact_sha256 :: string
  mi_input_schema :: "json dict option"
  mi_output_schema :: "json dict option"

record dataset_info =
  di_name :: string
  di_source :: "string option"
  di_license :: "string option"
  di_row_count :: "int option"
  di_column_schema :: "string dict option"
  di_sha256 :: string
  di_split_role :: split_role

record pipeline_stage =
  ps_name :: string
  ps_command :: "string list"
  ps_script_path :: string
  ps_script_sha256 :: string
  ps_git_commit :: "string option"
  ps_git_dirty :: "bool option"
  ps_parameters :: "json dict"
  ps_inputs :: "artifact_ref list"
  ps_outputs :: "artifact_ref list"
  ps_started_at :: "string option"
  ps_ended_at :: "string option"
  ps_exit_code :: "int option"

record run_info =
  ri_run_id :: string
  ri_started_at :: string
  ri_ended_at :: string
  ri_overrides :: "json dict dict"
  ri_mlflow_run_id :: "string option"

record dataset_change =
  dc_name :: string
  dc_status :: change_status
  dc_previous_sha256 :: "string option"
  dc_current_sha256 :: "string option"
  dc_previous_rows :: "int option"
  dc_current_rows :: "int option"

record revision_info =
  rv_previous_passport_id :: string
  rv_previous_version :: string
  rv_previous_merkle_root :: string
  rv_previous_created_at :: string
  rv_sequence :: int
  rv_reason :: "string option"
  rv_added_artifacts :: "string list"
  rv_removed_artifacts :: "string list"
  rv_changed_artifacts :: "string list"
  rv_dataset_changes :: "dataset_change list"
  rv_metric_deltas :: "rat dict dict"

record environment_sec =
  en_python_version :: string
  en_os :: string
  en_hardware :: "json dict"
  en_dependencies :: "string dict"

record finding =
  fi_scanner :: string
  fi_category :: string
  fi_severity :: severity
  fi_location :: "string option"
  fi_count :: int
  fi_message :: string
  fi_masked_examples :: "string list"
  fi_details :: "json dict"

record risky_combination =
  rc_columns :: "string list"
  rc_unique_fraction :: rat

record reidentification_result =
  rr_dataset :: string
  rr_rows :: int
  rr_quasi_identifiers :: "string list"
  rr_k_anonymity :: "int option"
  rr_unique_fraction :: rat
  rr_sensitive_column :: "string option"
  rr_l_diversity :: "int option"
  rr_risky_combinations :: "risky_combination list"

record leakage_result =
  lk_attack :: string
  lk_mia_auc :: rat
  lk_tpr_at_low_fpr :: rat
  lk_low_fpr :: rat
  lk_members :: int
  lk_nonmembers :: int
  lk_generalization_gap :: "rat option"
  lk_gap_metric :: "string option"

record method_metrics =
  mm_method :: string
  mm_auc :: "rat option"
  mm_tpr_at_fpr :: "rat dict"
  mm_entity_type :: "string option"

record entity_finding =
  ef_record :: string
  ef_span :: "int \<times> int"
  ef_entity_type :: string
  ef_masked_value :: string
  ef_fingerprint :: "string option"
  ef_score :: rat
  ef_p_value :: rat
  ef_q_value :: rat
  ef_likelihood :: rat
  ef_impact :: rat
  ef_risk :: rat
  ef_severity :: severity
  ef_extraction_rate :: "rat option"
  ef_confirmed :: "bool option"
  ef_exposure :: "rat option"
  ef_confirmation_p :: "rat option"

record entity_audit_result =
  ea_model :: string
  ea_access :: string
  ea_primary_method :: string
  ea_methods :: "string list"
  ea_references :: int
  ea_entities_audited :: int
  ea_controls :: int
  ea_auc :: "rat option"
  ea_tpr_at_fpr :: "rat dict"
  ea_metrics :: "method_metrics list"
  ea_severity_counts :: "int dict"
  ea_findings :: "entity_finding list"
  ea_fdr :: rat
  ea_calibration :: string
  ea_holdout_entities :: int
  ea_holdout_auc :: "rat option"
  ea_control_shift_auc :: "rat option"
  ea_taxonomy :: "string list"

record privacy_report =
  pr_datasets_scanned :: "string list"
  pr_data_findings :: "finding list"
  pr_reidentification :: "reidentification_result list"
  pr_leakage :: "leakage_result option"
  pr_entity_audit :: "entity_audit_result option"

record security_report =
  sr_files_scanned_for_secrets :: "int option"
  sr_secret_findings :: "finding list"
  sr_artifacts_scanned :: "string list"
  sr_artifact_findings :: "finding list"
  sr_dependency_audit :: dependency_audit
  sr_dependency_audit_message :: string
  sr_dependency_vulnerabilities :: "finding list"

text \<open>
  A Python value as a policy file or its evidence may hold it, with numbers that compute.
  \<open>rule_message\<close> has the parts of a rule's message; rendering them to text is left out.
\<close>

datatype val =
    VNull
  | VBool bool
  | VInt int
  | VFloat rat
  | VStr string
  | VList "val list"
  | VDict "(string \<times> val) list"

datatype rule_message =
    NotEvaluated string string           \<comment> \<open>description, hint\<close>
  | FoundMessage val string              \<comment> \<open>observed, description\<close>
  | NoneFound string
  | Required string val string val       \<comment> \<open>description, shown, comparison, limit\<close>

record rule_result =
  ru_name :: string
  ru_threshold :: val
  ru_observed :: val
  ru_result :: verdict
  ru_message :: rule_message

record policy_result =
  po_policy_sha256 :: string
  po_rules :: "rule_result list"
  po_verdict :: verdict

record declared_sec =
  de_intended_use :: "string option"
  de_out_of_scope_uses :: "string list"
  de_known_limitations :: "string list"
  de_ethical_risks :: "string list"
  de_owner :: "string option"
  de_contact :: "string option"

record lifecycle_event =
  le_event_id :: string
  le_event_type :: string
  le_timestamp :: string
  le_payload :: "json dict"
  le_prev_event_sha256 :: "string option"
  le_signature :: "string option"

record passport =
  pp_schema_version :: string
  pp_identity :: identity_sec
  pp_artifacts :: "artifact_ref list"
  pp_model :: "model_info option"
  pp_datasets :: "dataset_info list"
  pp_pipeline :: "pipeline_stage list"
  pp_run :: "run_info option"
  pp_environment :: "environment_sec option"
  pp_metrics :: "rat dict dict"
  pp_privacy_report :: "privacy_report option"
  pp_security_report :: "security_report option"
  pp_policy :: "policy_result option"
  pp_declared :: declared_sec
  pp_lineage_links :: "string list"
  pp_revision :: "revision_info option"
  pp_events :: "lifecycle_event list"

end
