(* ===== verification/MP_Identity.thy ===== *)
theory MP_Identity
  imports MP_Schema "HOL-Library.Multiset"
begin

text \<open>
  Cryptographic identity (\<^verbatim>\<open>core/identity.py\<close>): hex digests, the Merkle root over artifact hashes,
  the signed payload of a passport and Ed25519 signatures.

  SHA-256, Ed25519 and base64 are parameters, the fields of a \<open>crypto\<close> record. Nothing is
  assumed of SHA-256 but that a digest has 32 bytes: results that would need collision freedom
  conclude that the inputs agree or that two different strings the code hashed collide.
  Of signatures only their documented round trip is ever used, as a named hypothesis.
\<close>

record crypto =
  c_sha256 :: "bytes \<Rightarrow> bytes"
  c_sign :: "bytes \<Rightarrow> bytes \<Rightarrow> bytes"          \<comment> \<open>private key, message\<close>
  c_verify :: "bytes \<Rightarrow> bytes \<Rightarrow> bytes \<Rightarrow> bool" \<comment> \<open>public key, message, signature\<close>
  c_public :: "bytes \<Rightarrow> bytes"                   \<comment> \<open>the public half of a private key, raw\<close>
  c_b64encode :: "bytes \<Rightarrow> string"
  c_b64decode :: "string \<Rightarrow> bytes option"        \<comment> \<open>None: ValueError\<close>

section \<open>Hexadecimal\<close>

fun hex_of :: "bytes \<Rightarrow> string" where
  "hex_of [] = []"
| "hex_of (c # cs) = hexdigit (of_char c div 16) # hexdigit (of_char c mod 16) # hex_of cs"

definition hex_value :: "char \<Rightarrow> nat option" where
  "hex_value c = (if is_digit c then Some (of_char c - 48)
     else if CHR ''a'' \<le> c \<and> c \<le> CHR ''f'' then Some (of_char c - 87)
     else if CHR ''A'' \<le> c \<and> c \<le> CHR ''F'' then Some (of_char c - 55) else None)"

text \<open>\<^verbatim>\<open>bytes.fromhex\<close>: pairs of hex digits, with white space allowed between the bytes.\<close>

definition ascii_space :: "char \<Rightarrow> bool" where
  "ascii_space c \<longleftrightarrow> (let n = (of_char c :: nat) in n = 32 \<or> (9 \<le> n \<and> n \<le> 13))"

fun bytes_fromhex :: "string \<Rightarrow> bytes option" where
  "bytes_fromhex [] = Some []"
| "bytes_fromhex (c # cs) =
     (if ascii_space c then bytes_fromhex cs
      else (case cs of [] \<Rightarrow> None
        | d # ds \<Rightarrow> (case (hex_value c, hex_value d) of
            (Some h, Some l) \<Rightarrow> map_option ((#) (char_of (16 * h + l))) (bytes_fromhex ds)
          | _ \<Rightarrow> None)))"

section \<open>Hashes, Merkle root, canonical JSON, signatures\<close>

definition sha256_hex :: "crypto \<Rightarrow> bytes \<Rightarrow> string" where
  "sha256_hex c data = hex_of (c_sha256 c data)"

definition sha256_bytes :: "crypto \<Rightarrow> bytes \<Rightarrow> string" where
  "sha256_bytes c data = sha256_hex c data"

definition LEAF_PREFIX :: bytes where "LEAF_PREFIX = [CHR 0x00]"

definition NODE_PREFIX :: bytes where "NODE_PREFIX = [CHR 0x01]"

text \<open>One turn of the loop: neighbours are hashed together, an odd last node is promoted.\<close>

fun merkle_pair :: "(bytes \<Rightarrow> bytes) \<Rightarrow> bytes list \<Rightarrow> bytes list" where
  "merkle_pair H (l # r # rest) = H (NODE_PREFIX @ l @ r) # merkle_pair H rest"
| "merkle_pair H level = level"

lemma length_merkle_pair [simp]: "length (merkle_pair H level) = (length level + 1) div 2"
  by (induction H level rule: merkle_pair.induct) auto

fun merkle_up :: "(bytes \<Rightarrow> bytes) \<Rightarrow> bytes list \<Rightarrow> bytes list" where
  "merkle_up H level = (if 1 < length level then merkle_up H (merkle_pair H level) else level)"

declare merkle_up.simps [simp del]

text \<open>
  \<open>None\<close> is the \<^verbatim>\<open>ValueError\<close> of an empty list or of a malformed hash.
\<close>

fun all_some :: "'a option list \<Rightarrow> 'a list option" where
  "all_some [] = Some []"
| "all_some (None # xs) = None"
| "all_some (Some x # xs) = map_option ((#) x) (all_some xs)"

definition merkle_root :: "crypto \<Rightarrow> string list \<Rightarrow> string option" where
  "merkle_root c hashes =
     (let leaves = sort hashes in
      if leaves = [] then None
      else (case all_some (map bytes_fromhex leaves) of
          None \<Rightarrow> None
        | Some bs \<Rightarrow>
            (case merkle_up (c_sha256 c) (map (\<lambda>b. c_sha256 c (LEAF_PREFIX @ b)) bs) of
              [] \<Rightarrow> None
            | d # _ \<Rightarrow> Some (hex_of d))))"

text \<open>\<^verbatim>\<open>canonical_json\<close>; \<open>None\<close> is the \<^verbatim>\<open>ValueError\<close> of \<^verbatim>\<open>allow_nan=False\<close>.\<close>

fun json_finite :: "json \<Rightarrow> bool" where
  "json_finite (JFloat t) = (t \<noteq> ''NaN'' \<and> t \<noteq> ''Infinity'' \<and> t \<noteq> ''-Infinity'')"
| "json_finite (JArr xs) = list_all json_finite xs"
| "json_finite (JObj kvs) = list_all (\<lambda>(k, v). json_finite v) kvs"
| "json_finite j = True"

definition canonical_json :: "json \<Rightarrow> bytes option" where
  "canonical_json j = (if json_finite j then Some (json_dumps False j) else None)"

text \<open>
  The bytes a signature covers: \<^verbatim>\<open>identity.signature\<close> is blanked and \<^verbatim>\<open>events\<close> removed. An
  \<^verbatim>\<open>identity\<close> that is not an object makes the assignment raise.
\<close>

definition signing_body :: "json dict \<Rightarrow> json dict option" where
  "signing_body passport =
     (case map_of passport ''identity'' of
        None \<Rightarrow> Some (AList.delete ''events'' passport)
      | Some (JObj ident) \<Rightarrow>
          Some (AList.delete ''events''
                 (AList.update ''identity'' (JObj (AList.update ''signature'' JNull ident)) passport))
      | Some _ \<Rightarrow> None)"

definition signing_payload :: "json dict \<Rightarrow> bytes option" where
  "signing_payload passport = Option.bind (signing_body passport) (\<lambda>body. canonical_json (JObj body))"

definition public_key_fingerprint :: "crypto \<Rightarrow> bytes \<Rightarrow> string" where
  "public_key_fingerprint c raw = ''sha256:'' @ sha256_bytes c raw"

definition sign :: "crypto \<Rightarrow> bytes \<Rightarrow> bytes \<Rightarrow> string" where
  "sign c private_key payload = c_b64encode c (c_sign c private_key payload)"

definition verify_signature :: "crypto \<Rightarrow> bytes \<Rightarrow> bytes \<Rightarrow> string \<Rightarrow> bool" where
  "verify_signature c public_key payload signature =
     (case c_b64decode c signature of None \<Rightarrow> False | Some s \<Rightarrow> c_verify c public_key payload s)"

text \<open>\<^verbatim>\<open>builder.sign_passport\<close>, on the passport's JSON.\<close>

definition sign_passport :: "crypto \<Rightarrow> json dict \<Rightarrow> bytes \<Rightarrow> json dict option" where
  "sign_passport c passport private_key =
     (case (signing_payload passport, map_of passport ''identity'') of
        (Some payload, Some (JObj ident)) \<Rightarrow>
          Some (AList.update ''identity''
             (JObj (AList.update ''signature'' (JStr (sign c private_key payload)) ident)) passport)
      | _ \<Rightarrow> None)"

section \<open>The Merkle root as a tree\<close>

text \<open>
  The abstract object behind the loop is a binary tree whose fringe is the list of leaves. The
  loop on digests is the image of the same loop on trees, so equal roots are equal trees unless
  two hashed strings collide, and equal trees have equal fringes.
\<close>

datatype mtree = MLeaf bytes | MNode mtree mtree

fun fringe :: "mtree \<Rightarrow> bytes list" where
  "fringe (MLeaf b) = [b]"
| "fringe (MNode l r) = fringe l @ fringe r"

fun tree_hash :: "(bytes \<Rightarrow> bytes) \<Rightarrow> mtree \<Rightarrow> bytes" where
  "tree_hash H (MLeaf b) = H (LEAF_PREFIX @ b)"
| "tree_hash H (MNode l r) = H (NODE_PREFIX @ tree_hash H l @ tree_hash H r)"

text \<open>The strings hashed to compute a tree's digest.\<close>

fun hashed :: "(bytes \<Rightarrow> bytes) \<Rightarrow> mtree \<Rightarrow> bytes set" where
  "hashed H (MLeaf b) = {LEAF_PREFIX @ b}"
| "hashed H (MNode l r) =
     insert (NODE_PREFIX @ tree_hash H l @ tree_hash H r) (hashed H l \<union> hashed H r)"

fun tree_pair :: "mtree list \<Rightarrow> mtree list" where
  "tree_pair (l # r # rest) = MNode l r # tree_pair rest"
| "tree_pair level = level"

lemma length_tree_pair [simp]: "length (tree_pair level) = (length level + 1) div 2"
  by (induction level rule: tree_pair.induct) auto

fun tree_up :: "mtree list \<Rightarrow> mtree list" where
  "tree_up level = (if 1 < length level then tree_up (tree_pair level) else level)"

declare tree_up.simps [simp del]

lemma map_tree_pair: "map (tree_hash H) (tree_pair ts) = merkle_pair H (map (tree_hash H) ts)"
  by (induction ts rule: tree_pair.induct) auto

lemma fringe_tree_pair: "concat (map fringe (tree_pair ts)) = concat (map fringe ts)"
  by (induction ts rule: tree_pair.induct) auto

lemma map_tree_up: "map (tree_hash H) (tree_up ts) = merkle_up H (map (tree_hash H) ts)"
proof (induction ts rule: tree_up.induct)
  case (1 ts)
  then show ?case
    by (simp add: tree_up.simps [of ts] merkle_up.simps [of H "map (tree_hash H) ts"] map_tree_pair)
qed

lemma fringe_tree_up: "concat (map fringe (tree_up ts)) = concat (map fringe ts)"
proof (induction ts rule: tree_up.induct)
  case (1 ts)
  then show ?case by (simp add: tree_up.simps [of ts] fringe_tree_pair)
qed

lemma length_tree_up: "ts \<noteq> [] \<Longrightarrow> length (tree_up ts) = 1"
proof (induction ts rule: tree_up.induct)
  case (1 ts)
  show ?case
  proof (cases "1 < length ts")
    case True
    then have "tree_pair ts \<noteq> []" by (cases ts rule: tree_pair.cases) auto
    with True 1 show ?thesis by (simp add: tree_up.simps [of ts])
  next
    case False
    with "1.prems" show ?thesis by (cases ts) (auto simp: tree_up.simps)
  qed
qed

definition merkle_tree :: "bytes list \<Rightarrow> mtree" where
  "merkle_tree bs = hd (tree_up (map MLeaf bs))"

lemma fringe_merkle_tree: "bs \<noteq> [] \<Longrightarrow> fringe (merkle_tree bs) = bs"
proof -
  assume "bs \<noteq> []"
  then obtain t where "tree_up (map MLeaf bs) = [t]"
    using length_tree_up [of "map MLeaf bs"] by (auto simp: length_Suc_conv)
  moreover have "concat (map fringe (map MLeaf bs)) = bs" by (induction bs) auto
  ultimately show ?thesis using fringe_tree_up [of "map MLeaf bs"] by (simp add: merkle_tree_def)
qed

lemma merkle_up_tree:
  "bs \<noteq> [] \<Longrightarrow> merkle_up H (map (\<lambda>b. H (LEAF_PREFIX @ b)) bs) = [tree_hash H (merkle_tree bs)]"
proof -
  assume "bs \<noteq> []"
  then obtain t where t: "tree_up (map MLeaf bs) = [t]"
    using length_tree_up [of "map MLeaf bs"] by (auto simp: length_Suc_conv)
  have "map (tree_hash H) (map MLeaf bs) = map (\<lambda>b. H (LEAF_PREFIX @ b)) bs" by simp
  with map_tree_up [of H "map MLeaf bs"] t show ?thesis by (simp add: merkle_tree_def comp_def)
qed

text \<open>Equal digests are equal trees, or two of the hashed strings collide.\<close>

definition collides :: "(bytes \<Rightarrow> bytes) \<Rightarrow> bytes set \<Rightarrow> bool" where
  "collides H A \<longleftrightarrow> (\<exists>a \<in> A. \<exists>b \<in> A. a \<noteq> b \<and> H a = H b)"

lemma collides_mono: "collides H A \<Longrightarrow> A \<subseteq> B \<Longrightarrow> collides H B"
  unfolding collides_def by blast

lemma tree_hash_inj:
  assumes "\<And>x. length (H x) = n"
  shows "tree_hash H s = tree_hash H t \<Longrightarrow> s = t \<or> collides H (hashed H s \<union> hashed H t)"
proof (induction s arbitrary: t)
  case (MLeaf b)
  then show ?case
    by (cases t) (auto simp: collides_def LEAF_PREFIX_def NODE_PREFIX_def)
next
  case (MNode l r)
  show ?case
  proof (cases t)
    case (MLeaf b)
    with MNode.prems show ?thesis
      by (auto simp: collides_def LEAF_PREFIX_def NODE_PREFIX_def)
  next
    case (MNode l' r')
    show ?thesis
    proof (cases "tree_hash H l @ tree_hash H r = tree_hash H l' @ tree_hash H r'")
      case False
      with MNode MNode.prems have "collides H (hashed H (MNode l r) \<union> hashed H t)"
        unfolding collides_def
        by (intro bexI [of _ "NODE_PREFIX @ tree_hash H l @ tree_hash H r"]
            bexI [of _ "NODE_PREFIX @ tree_hash H l' @ tree_hash H r'"]) auto
      then show ?thesis ..
    next
      case True
      have len: "length (tree_hash H u) = n" for u using assms by (cases u) auto
      with True have "tree_hash H l = tree_hash H l'" "tree_hash H r = tree_hash H r'" by auto
      with MNode.IH have "(l = l' \<or> collides H (hashed H l \<union> hashed H l'))
          \<and> (r = r' \<or> collides H (hashed H r \<union> hashed H r'))" by blast
      then show ?thesis
        using MNode
          collides_mono [of H "hashed H l \<union> hashed H l'" "hashed H (MNode l r) \<union> hashed H t"]
          collides_mono [of H "hashed H r \<union> hashed H r'" "hashed H (MNode l r) \<union> hashed H t"]
        by auto
    qed
  qed
qed

subsection \<open>Hex texts\<close>

lemma hexdigit_not_space: "d < 16 \<Longrightarrow> \<not> ascii_space (hexdigit d)"
  by (auto simp: ascii_space_def hexdigit_def)

lemma hex_value_hexdigit: "d < 16 \<Longrightarrow> hex_value (hexdigit d) = Some d"
  by (auto simp: hex_value_def hexdigit_def is_digit_def less_eq_char_def)

lemma bytes_fromhex_hex_of [simp]: "bytes_fromhex (hex_of b) = Some b"
proof (induction b)
  case (Cons c cs)
  have "(of_char c :: nat) div 16 < 16"
    by (rule less_mult_imp_div_less) (use nat_of_char_less_256 [of c] in simp)
  with Cons show ?case by (simp add: hexdigit_not_space hex_value_hexdigit)
qed simp

lemma hex_of_inject [simp]: "hex_of a = hex_of b \<longleftrightarrow> a = b"
  by (metis bytes_fromhex_hex_of option.inject)

lemma length_hex_of [simp]: "length (hex_of b) = 2 * length b"
  by (induction b) auto

text \<open>The schema's \<^verbatim>\<open>Sha256Hex\<close>: 64 lower-case hex digits.\<close>

definition lower_hex :: "char \<Rightarrow> bool" where
  "lower_hex c \<longleftrightarrow> is_digit c \<or> (CHR ''a'' \<le> c \<and> c \<le> CHR ''f'')"

definition sha256_text :: "string \<Rightarrow> bool" where
  "sha256_text h \<longleftrightarrow> length h = 64 \<and> list_all lower_hex h"

lemma lower_hex_value: "lower_hex c \<Longrightarrow> \<exists>d < 16. hex_value c = Some d \<and> hexdigit d = c"
  by (auto simp: lower_hex_def hex_value_def hexdigit_def is_digit_def less_eq_char_def)

lemma lower_hex_not_space: "lower_hex c \<Longrightarrow> \<not> ascii_space c"
  by (auto simp: lower_hex_def ascii_space_def is_digit_def less_eq_char_def)

lemma fromhex_lower:
  "even (length h) \<Longrightarrow> list_all lower_hex h \<Longrightarrow> \<exists>b. bytes_fromhex h = Some b \<and> hex_of b = h"
proof (induction h rule: induct_list012)
  case (3 c d ds)
  then obtain b where b: "bytes_fromhex ds = Some b" "hex_of b = ds" by auto
  from 3 have low: "lower_hex c" "lower_hex d" by auto
  obtain h where h: "h < 16" "hex_value c = Some h" "hexdigit h = c"
    using lower_hex_value [OF low(1)] by auto
  obtain l where l: "l < 16" "hex_value d = Some l" "hexdigit l = d"
    using lower_hex_value [OF low(2)] by auto
  from h l have "(of_char (char_of (16 * h + l)) :: nat) = 16 * h + l" by simp
  with b h l lower_hex_not_space [OF low(1)] show ?case by simp
qed auto

lemma sha256_text_fromhex: "sha256_text h \<Longrightarrow> \<exists>b. bytes_fromhex h = Some b \<and> hex_of b = h"
  by (rule fromhex_lower) (auto simp: sha256_text_def)

lemma all_some_sha256_text:
  "\<forall>h \<in> set hs. sha256_text h \<Longrightarrow> \<exists>bs. all_some (map bytes_fromhex hs) = Some bs \<and> map hex_of bs = hs"
proof (induction hs)
  case (Cons h hs)
  then obtain b bs where "bytes_fromhex h = Some b" "hex_of b = h"
      "all_some (map bytes_fromhex hs) = Some bs" "map hex_of bs = hs"
    using sha256_text_fromhex by fastforce
  then show ?case by auto
qed simp

subsection \<open>Order independence and binding of the root\<close>

lemma sort_cong_mset: "mset xs = mset ys \<Longrightarrow> sort xs = sort ys"
  by (metis mset_sort properties_for_sort sorted_sort)

text \<open>The strings hashed to compute the Merkle root of a list of hashes.\<close>

definition merkle_hashed :: "crypto \<Rightarrow> string list \<Rightarrow> bytes set" where
  "merkle_hashed c hashes = (case all_some (map bytes_fromhex (sort hashes)) of
     None \<Rightarrow> {} | Some bs \<Rightarrow> hashed (c_sha256 c) (merkle_tree bs))"

lemma merkle_root_tree:
  assumes "\<forall>h \<in> set hs. sha256_text h" "hs \<noteq> []"
  obtains bs where "map hex_of bs = sort hs" "bs \<noteq> []"
    "merkle_root c hs = Some (hex_of (tree_hash (c_sha256 c) (merkle_tree bs)))"
    "merkle_hashed c hs = hashed (c_sha256 c) (merkle_tree bs)"
proof -
  obtain bs where bs: "all_some (map bytes_fromhex (sort hs)) = Some bs" "map hex_of bs = sort hs"
    using all_some_sha256_text [of "sort hs"] assms by auto
  with assms have ne: "sort hs \<noteq> []" "bs \<noteq> []"
    by (metis set_empty set_sort, metis list.map_disc_iff set_empty set_sort)
  show thesis
    by (rule that [of bs])
      (use bs ne in \<open>simp_all add: merkle_root_def merkle_hashed_def Let_def merkle_up_tree\<close>)
qed

text \<open>
  The Merkle root of a passport's artifacts commits to them: two non-empty lists of SHA-256
  hex digests with the same root are permutations of each other, or two different strings hashed
  while computing the two roots have the same SHA-256. Neither domain separation nor the
  promotion of odd nodes leaves another way to collide, whatever the lengths of the lists.
\<close>

theorem merkle_root_binding:
  assumes "\<forall>h \<in> set xs. sha256_text h" "\<forall>h \<in> set ys. sha256_text h" "xs \<noteq> []" "ys \<noteq> []"
    and "\<And>x. length (c_sha256 c x) = 32"
    and "merkle_root c xs = merkle_root c ys"
  shows "mset xs = mset ys \<or> collides (c_sha256 c) (merkle_hashed c xs \<union> merkle_hashed c ys)"
proof -
  obtain bx where bx: "map hex_of bx = sort xs" "bx \<noteq> []"
      "merkle_root c xs = Some (hex_of (tree_hash (c_sha256 c) (merkle_tree bx)))"
      "merkle_hashed c xs = hashed (c_sha256 c) (merkle_tree bx)"
    using merkle_root_tree assms(1,3) by blast
  obtain b_y where b_y: "map hex_of b_y = sort ys" "b_y \<noteq> []"
      "merkle_root c ys = Some (hex_of (tree_hash (c_sha256 c) (merkle_tree b_y)))"
      "merkle_hashed c ys = hashed (c_sha256 c) (merkle_tree b_y)"
    using merkle_root_tree assms(2,4) by blast
  from bx(3) b_y(3) assms(6)
  have "tree_hash (c_sha256 c) (merkle_tree bx) = tree_hash (c_sha256 c) (merkle_tree b_y)" by simp
  with tree_hash_inj [of "c_sha256 c", OF assms(5)]
  have "merkle_tree bx = merkle_tree b_y \<or>
      collides (c_sha256 c) (merkle_hashed c xs \<union> merkle_hashed c ys)"
    using bx(4) b_y(4) by auto
  moreover have "mset xs = mset ys" if "merkle_tree bx = merkle_tree b_y"
    using that bx b_y fringe_merkle_tree by (metis mset_sort)
  ultimately show ?thesis by blast
qed

text \<open>
  The Merkle root does not depend on the order in which artifacts are listed, and every
  non-empty list of SHA-256 hex digests has a root: the level loop ends with one node.
\<close>

theorem merkle_root_order_independent:
  "(mset xs = mset ys \<longrightarrow> merkle_root c xs = merkle_root c ys) \<and>
   (xs \<noteq> [] \<and> (\<forall>h \<in> set xs. sha256_text h) \<longrightarrow> (\<exists>r. merkle_root c xs = Some r))"
proof (intro conjI impI)
  show "merkle_root c xs = merkle_root c ys" if "mset xs = mset ys"
    using sort_cong_mset [OF that] by (simp add: merkle_root_def)
  show "\<exists>r. merkle_root c xs = Some r" if "xs \<noteq> [] \<and> (\<forall>h \<in> set xs. sha256_text h)"
    using merkle_root_tree [of xs c] that by blast
qed

text \<open>
  A concrete instance of the library functions, for evaluating examples: the digest is 32 bytes,
  the signature names the key and the message.
\<close>

definition example_crypto :: crypto where
  "example_crypto = \<lparr> c_sha256 = (\<lambda>m. take 32 (m @ replicate 32 (CHR 0x00))),
     c_sign = (\<lambda>sk m. sk @ m), c_verify = (\<lambda>pk m s. s = pk @ m), c_public = (\<lambda>sk. sk),
     c_b64encode = (\<lambda>s. CHR ''b'' # s),
     c_b64decode = (\<lambda>t. case t of [] \<Rightarrow> None | x # s \<Rightarrow> if x = CHR ''b'' then Some s else None) \<rparr>"

definition example_digest :: "char \<Rightarrow> string" where
  "example_digest d = replicate 64 d"

lemma example_digest_text [simp]: "lower_hex d \<Longrightarrow> sha256_text (example_digest d)"
  by (simp add: sha256_text_def example_digest_def list_all_iff)

lemma length_example_sha256: "length (c_sha256 example_crypto m) = 32"
  by (simp add: example_crypto_def)

theorem merkle_root_binding_witness:
  "let xs = [example_digest (CHR ''a''), example_digest (CHR ''b'')];
       ys = [example_digest (CHR ''b''), example_digest (CHR ''a'')]
   in merkle_root example_crypto xs = merkle_root example_crypto ys \<and>
      (mset xs = mset ys \<or>
       collides (c_sha256 example_crypto) (merkle_hashed example_crypto xs \<union> merkle_hashed example_crypto ys))"
proof -
  have low: "lower_hex (CHR ''a'')" "lower_hex (CHR ''b'')" by (simp_all add: lower_hex_def less_eq_char_def)
  let ?xs = "[example_digest (CHR ''a''), example_digest (CHR ''b'')]"
  let ?ys = "[example_digest (CHR ''b''), example_digest (CHR ''a'')]"
  have eq: "merkle_root example_crypto ?xs = merkle_root example_crypto ?ys"
    using sort_cong_mset [of ?xs ?ys] by (simp add: merkle_root_def add_mset_commute)
  have "mset ?xs = mset ?ys \<or>
       collides (c_sha256 example_crypto) (merkle_hashed example_crypto ?xs \<union> merkle_hashed example_crypto ?ys)"
    by (rule merkle_root_binding [OF _ _ _ _ length_example_sha256 eq]) (use low in auto)
  with eq show ?thesis by (simp add: Let_def)
qed

theorem merkle_root_order_independent_witness:
  "let xs = [example_digest (CHR ''a''), example_digest (CHR ''b'')];
       ys = [example_digest (CHR ''b''), example_digest (CHR ''a'')]
   in merkle_root example_crypto xs = merkle_root example_crypto ys \<and>
      (\<exists>r. merkle_root example_crypto xs = Some r)"
proof -
  have low: "lower_hex (CHR ''a'')" "lower_hex (CHR ''b'')" by (simp_all add: lower_hex_def less_eq_char_def)
  show ?thesis
    using low merkle_root_order_independent [of "[example_digest (CHR ''a''), example_digest (CHR ''b'')]"
        "[example_digest (CHR ''b''), example_digest (CHR ''a'')]" example_crypto]
    by (simp add: Let_def add_mset_commute) metis
qed

end
