(* ===== verification/MP_Models.thy ===== *)
theory MP_Models
  imports MP_Identity
begin

text \<open>
  The platform's data (\<^verbatim>\<open>platform/models.py\<close>) and the world its operations run in.

  A table is the list of its rows in insertion order, a database the record of the tables. The
  world adds what the process keeps outside the database: the object store, the sign-in throttle,
  the guard's cache of used keys, and the sources of time, identifiers and random bytes, which are
  functions of how often they were asked. An operation is a computation over the world that may
  raise an \<open>exn\<close>; a message is kept as its fixed wording without the interpolated values.
  \<open>insert_row\<close> enforces a table's primary key and unique constraints as the database does.
\<close>

section \<open>Enumerations\<close>

datatype role = ORG_ADMIN | ML_ENGINEER | COMPLIANCE_AUDITOR | CANARY_TESTER | END_CONSUMER | EXTERNAL_REVIEWER

datatype plan = FREE | TEAM | ENTERPRISE

datatype tenant_status = TENANT_ACTIVE | TENANT_SUSPENDED

datatype access = OPEN_WEIGHT | API_ACCESS

datatype vstate = REGISTERED | AUDITING | FINDINGS | CLEAN | REMEDIATING | SUPERSEDED | CANARY
  | VERIFYING | APPROVED | RELEASED | ROLLED_BACK | REJECTED | KILLED

datatype job_status = QUEUED | RUNNING | SUCCEEDED | FAILED | CANCELLED

datatype environment = DEV | CONSUMER

datatype deployment_status = DEP_ACTIVE | DEP_SUPERSEDED | DEP_ROLLED_BACK | DEP_KILLED

fun role_value :: "role \<Rightarrow> string" where
  "role_value ORG_ADMIN = ''org_admin''"
| "role_value ML_ENGINEER = ''ml_engineer''"
| "role_value COMPLIANCE_AUDITOR = ''compliance_auditor''"
| "role_value CANARY_TESTER = ''canary_tester''"
| "role_value END_CONSUMER = ''end_consumer''"
| "role_value EXTERNAL_REVIEWER = ''external_reviewer''"

fun plan_value :: "plan \<Rightarrow> string" where
  "plan_value FREE = ''free''"
| "plan_value TEAM = ''team''"
| "plan_value ENTERPRISE = ''enterprise''"

fun tenant_status_value :: "tenant_status \<Rightarrow> string" where
  "tenant_status_value TENANT_ACTIVE = ''active''"
| "tenant_status_value TENANT_SUSPENDED = ''suspended''"

fun access_value :: "access \<Rightarrow> string" where
  "access_value OPEN_WEIGHT = ''open-weight''"
| "access_value API_ACCESS = ''api''"

fun state_value :: "vstate \<Rightarrow> string" where
  "state_value REGISTERED = ''registered''"
| "state_value AUDITING = ''auditing''"
| "state_value FINDINGS = ''findings''"
| "state_value CLEAN = ''clean''"
| "state_value REMEDIATING = ''remediating''"
| "state_value SUPERSEDED = ''superseded''"
| "state_value CANARY = ''canary''"
| "state_value VERIFYING = ''verifying''"
| "state_value APPROVED = ''approved''"
| "state_value RELEASED = ''released''"
| "state_value ROLLED_BACK = ''rolled_back''"
| "state_value REJECTED = ''rejected''"
| "state_value KILLED = ''killed''"

fun environment_value :: "environment \<Rightarrow> string" where
  "environment_value DEV = ''dev''"
| "environment_value CONSUMER = ''consumer''"

section \<open>Rows\<close>

record tenant =
  tn_id :: string
  tn_slug :: string
  tn_name :: string
  tn_plan :: plan
  tn_status :: tenant_status
  tn_wrapped_key :: bytes
  tn_public_key :: "string option"
  tn_created_at :: int

record user =
  us_id :: string
  us_email :: string
  us_name :: string
  us_password_hash :: string
  us_is_super_admin :: bool
  us_disabled :: bool
  us_created_at :: int

record membership =
  mb_id :: string
  mb_tenant_id :: string
  mb_user_id :: string
  mb_role :: role
  mb_created_at :: int

record dataset =
  ds_id :: string
  ds_tenant_id :: string
  ds_name :: string
  ds_source :: string
  ds_license :: string
  ds_consent :: string
  ds_sha256 :: string
  ds_size_bytes :: nat
  ds_object_key :: string
  ds_records :: nat
  ds_entities :: nat
  ds_created_by :: "string option"
  ds_created_at :: int

record model =
  md_id :: string
  md_tenant_id :: string
  md_name :: string
  md_description :: string
  md_access :: access
  md_base :: string
  md_created_by :: "string option"
  md_created_at :: int

record model_version =
  mv_id :: string
  mv_tenant_id :: string
  mv_model_id :: string
  mv_version :: string
  mv_state :: vstate
  mv_parent_id :: "string option"
  mv_dataset_id :: "string option"
  mv_reference_dataset_id :: "string option"
  mv_artifact_key :: "string option"
  mv_artifact_sha256 :: "string option"
  mv_audit :: "entity_audit_result option"
  mv_verdict :: "string option"
  mv_auc :: "rat option"
  mv_critical :: int
  mv_high :: int
  mv_notes :: string
  mv_attestation :: "json dict option"
  mv_attestation_sha256 :: "string option"
  mv_created_by :: "string option"
  mv_created_at :: int

record approval =
  ap_id :: string
  ap_tenant_id :: string
  ap_version_id :: string
  ap_user_id :: string
  ap_role :: role
  ap_decision :: string
  ap_comment :: string
  ap_created_at :: int

record deployment =
  dp_id :: string
  dp_tenant_id :: string
  dp_version_id :: string
  dp_environment :: environment
  dp_status :: deployment_status
  dp_endpoint :: string
  dp_created_by :: "string option"
  dp_created_at :: int

record test_report =
  te_id :: string
  te_tenant_id :: string
  te_version_id :: string
  te_user_id :: string
  te_prompt_count :: int
  te_leaks_found :: int
  te_summary :: string
  te_created_at :: int

record job =
  jb_id :: string
  jb_tenant_id :: string
  jb_kind :: string
  jb_status :: job_status
  jb_payload :: "json dict"
  jb_result :: "json dict option"
  jb_error :: "string option"
  jb_attempts :: nat
  jb_max_attempts :: nat
  jb_locked_by :: "string option"
  jb_created_by :: "string option"
  jb_created_at :: int
  jb_started_at :: "int option"
  jb_finished_at :: "int option"

record audit_event =
  ae_id :: nat
  ae_tenant_id :: string
  ae_seq :: int
  ae_actor_id :: "string option"
  ae_actor :: string
  ae_action :: string
  ae_target_type :: string
  ae_target_id :: string
  ae_details :: "json dict"
  ae_prev_hash :: string
  ae_hash :: string
  ae_created_at :: int

record guard_key =
  gk_id :: string
  gk_tenant_id :: string
  gk_name :: string
  gk_hint :: string
  gk_secret_sha256 :: string
  gk_created_by :: "string option"
  gk_created_at :: int
  gk_last_used_at :: "int option"
  gk_revoked_at :: "int option"

record guard_settings =
  gs_tenant_id :: string
  gs_upstream_url :: string
  gs_upstream_key :: "bytes option"
  gs_default_model :: string
  gs_policy :: "json dict"
  gs_updated_by :: "string option"
  gs_updated_at :: int

record guard_event =
  ge_id :: string
  ge_tenant_id :: string
  ge_key_id :: "string option"
  ge_source :: string
  ge_model :: string
  ge_outcome :: string
  ge_upstream_status :: "int option"
  ge_latency_ms :: int
  ge_report :: "json dict"
  ge_detail :: string
  ge_created_at :: int

section \<open>Database and world\<close>

record database =
  db_tenants :: "tenant list"
  db_users :: "user list"
  db_memberships :: "membership list"
  db_datasets :: "dataset list"
  db_models :: "model list"
  db_versions :: "model_version list"
  db_approvals :: "approval list"
  db_deployments :: "deployment list"
  db_reports :: "test_report list"
  db_jobs :: "job list"
  db_events :: "audit_event list"
  db_guard_keys :: "guard_key list"
  db_guard_settings :: "guard_settings list"
  db_guard_events :: "guard_event list"

text \<open>What time, \<^verbatim>\<open>uuid4\<close>, \<^verbatim>\<open>os.urandom\<close> and \<^verbatim>\<open>secrets\<close> answer at the n-th request.\<close>

record sources =
  su_now :: "nat \<Rightarrow> int"
  su_uuid :: "nat \<Rightarrow> string"
  su_random :: "nat \<Rightarrow> nat \<Rightarrow> bytes"         \<comment> \<open>request, number of bytes\<close>
  su_token :: "nat \<Rightarrow> nat \<Rightarrow> string"         \<comment> \<open>\<open>secrets.token_urlsafe(n)\<close>\<close>

text \<open>
  Beside the database: the object store, the throttle's failures, the guard's cache of memorized values
  with the time each entry expires, and the requests sent to AI providers (address, key, payload).
\<close>

record world =
  w_db :: database
  w_objects :: "bytes dict"
  w_failures :: "rat list dict"
  w_memorized :: "(rat \<times> string list) dict"
  w_sent :: "(string \<times> string \<times> json dict) list"
  w_supply :: sources
  w_drawn :: nat

datatype exn =
    TransitionError string
  | ServiceError string
  | NotFoundError string
  | JobError string
  | JobFailed string
  | GuardError string
  | HTTPException nat string
  | StorageError string
  | DecryptionError
  | TokenError
  | IntegrityError
  | KeyError string
  | ControlPlaneError string
  | AttestationError string
  | AssertionError string
  | ValueError string
  | PyError string

type_synonym 'a M = "(exn, world, 'a) act"

definition db_gets :: "(database \<Rightarrow> 'a) \<Rightarrow> 'a M" where
  "db_gets f = gets (\<lambda>w. f (w_db w))"

definition db_modify :: "(database \<Rightarrow> database) \<Rightarrow> unit M" where
  "db_modify f = modify (\<lambda>w. w\<lparr> w_db := f (w_db w) \<rparr>)"

definition draw :: "(sources \<Rightarrow> nat \<Rightarrow> 'a) \<Rightarrow> 'a M" where
  "draw f = (\<lambda>w. (Inr (f (w_supply w) (w_drawn w)), w\<lparr> w_drawn := Suc (w_drawn w) \<rparr>))"

definition now :: "int M" where "now = draw su_now"

definition new_id :: "string M" where "new_id = draw su_uuid"

definition insert_row :: "(database \<Rightarrow> 'r list) \<Rightarrow> (('r list \<Rightarrow> 'r list) \<Rightarrow> database \<Rightarrow> database)
    \<Rightarrow> ('r \<Rightarrow> 'r \<Rightarrow> bool) \<Rightarrow> 'r \<Rightarrow> unit M" where
  "insert_row rows upd conflict row =
     bnd (db_gets rows) (\<lambda>rs. if list_ex (conflict row) rs then raise IntegrityError
       else db_modify (upd (\<lambda>rs. rs @ [row])))"

definition update_where :: "('r \<Rightarrow> bool) \<Rightarrow> ('r \<Rightarrow> 'r) \<Rightarrow> 'r list \<Rightarrow> 'r list" where
  "update_where P f = map (\<lambda>r. if P r then f r else r)"

definition insert_tenant :: "tenant \<Rightarrow> unit M" where
  "insert_tenant = insert_row db_tenants db_tenants_update (\<lambda>a b. tn_id a = tn_id b \<or> tn_slug a = tn_slug b)"

definition insert_user :: "user \<Rightarrow> unit M" where
  "insert_user = insert_row db_users db_users_update (\<lambda>a b. us_id a = us_id b \<or> us_email a = us_email b)"

definition insert_membership :: "membership \<Rightarrow> unit M" where
  "insert_membership = insert_row db_memberships db_memberships_update
     (\<lambda>a b. mb_id a = mb_id b \<or> mb_user_id a = mb_user_id b \<and> mb_tenant_id a = mb_tenant_id b)"

definition insert_dataset :: "dataset \<Rightarrow> unit M" where
  "insert_dataset = insert_row db_datasets db_datasets_update
     (\<lambda>a b. ds_id a = ds_id b \<or> ds_tenant_id a = ds_tenant_id b \<and> ds_name a = ds_name b)"

definition insert_model :: "model \<Rightarrow> unit M" where
  "insert_model = insert_row db_models db_models_update
     (\<lambda>a b. md_id a = md_id b \<or> md_tenant_id a = md_tenant_id b \<and> md_name a = md_name b)"

definition insert_version :: "model_version \<Rightarrow> unit M" where
  "insert_version = insert_row db_versions db_versions_update
     (\<lambda>a b. mv_id a = mv_id b \<or> mv_model_id a = mv_model_id b \<and> mv_version a = mv_version b)"

definition insert_approval :: "approval \<Rightarrow> unit M" where
  "insert_approval = insert_row db_approvals db_approvals_update (\<lambda>a b. ap_id a = ap_id b)"

definition insert_deployment :: "deployment \<Rightarrow> unit M" where
  "insert_deployment = insert_row db_deployments db_deployments_update (\<lambda>a b. dp_id a = dp_id b)"

definition insert_report :: "test_report \<Rightarrow> unit M" where
  "insert_report = insert_row db_reports db_reports_update (\<lambda>a b. te_id a = te_id b)"

definition insert_job :: "job \<Rightarrow> unit M" where
  "insert_job = insert_row db_jobs db_jobs_update (\<lambda>a b. jb_id a = jb_id b)"

definition insert_event :: "audit_event \<Rightarrow> unit M" where
  "insert_event = insert_row db_events db_events_update
     (\<lambda>a b. ae_id a = ae_id b \<or> ae_tenant_id a = ae_tenant_id b \<and> ae_seq a = ae_seq b)"

definition insert_guard_key :: "guard_key \<Rightarrow> unit M" where
  "insert_guard_key = insert_row db_guard_keys db_guard_keys_update (\<lambda>a b. gk_id a = gk_id b)"

definition insert_guard_settings :: "guard_settings \<Rightarrow> unit M" where
  "insert_guard_settings = insert_row db_guard_settings db_guard_settings_update
     (\<lambda>a b. gs_tenant_id a = gs_tenant_id b)"

definition insert_guard_event :: "guard_event \<Rightarrow> unit M" where
  "insert_guard_event = insert_row db_guard_events db_guard_events_update (\<lambda>a b. ge_id a = ge_id b)"

text \<open>
  \<^verbatim>\<open>scoped_session\<close>: the block's changes to the database are committed when it returns and rolled
  back when it raises. Objects, the throttle and the sources are outside the transaction.
\<close>

definition scoped_session :: "'a M \<Rightarrow> 'a M" where
  "scoped_session = transact (\<lambda>earlier after. after\<lparr> w_db := w_db earlier \<rparr>)"

section \<open>Invariants of the database\<close>

text \<open>
  \<open>db_preserves I m\<close>: the operation \<open>m\<close> keeps the database invariant \<open>I\<close>, whether it returns or
  raises. The rules follow the primitives.
\<close>

definition db_preserves :: "(database \<Rightarrow> bool) \<Rightarrow> 'a M \<Rightarrow> bool" where
  "db_preserves I m = preserves (\<lambda>w. I (w_db w)) m"

named_theorems db_rules

lemma db_preservesI: "preserves (\<lambda>w. I (w_db w)) m \<Longrightarrow> db_preserves I m"
  by (simp add: db_preserves_def)

lemma db_preservesD: "db_preserves I m \<Longrightarrow> I (w_db w) \<Longrightarrow> I (w_db (snd (m w)))"
  by (simp add: db_preserves_def preserves_def)

lemma db_ret [db_rules]: "db_preserves I (ret x)"
  and db_raise [db_rules]: "db_preserves I (raise e)"
  and db_gets_pres [db_rules]: "db_preserves I (gets f)"
  and db_raise_if [db_rules]: "db_preserves I (raise_if b e)"
  and db_of_result [db_rules]: "db_preserves I (of_result r)"
  by (simp_all add: db_preserves_def preserve_rules)

lemma db_bnd [db_rules]: "db_preserves I m \<Longrightarrow> (\<And>x. db_preserves I (f x)) \<Longrightarrow> db_preserves I (bnd m f)"
  by (simp add: db_preserves_def preserves_bnd)

lemma db_andthen [db_rules]: "db_preserves I m \<Longrightarrow> db_preserves I k \<Longrightarrow> db_preserves I (andthen m k)"
  by (simp add: db_preserves_def preserves_andthen)

lemma db_try [db_rules]:
  "db_preserves I m \<Longrightarrow> (\<And>e k. h e = Some k \<Longrightarrow> db_preserves I k) \<Longrightarrow> db_preserves I (try_with m h)"
  unfolding db_preserves_def by (rule preserves_try_with)

lemma db_for_each [db_rules]: "(\<And>x. db_preserves I (f x)) \<Longrightarrow> db_preserves I (for_each f xs)"
  by (simp add: db_preserves_def preserves_for_each)

lemma db_if [db_rules]:
  "db_preserves I m \<Longrightarrow> db_preserves I k \<Longrightarrow> db_preserves I (if b then m else k)"
  by simp

lemma db_option [db_rules]:
  "db_preserves I m \<Longrightarrow> (\<And>x. db_preserves I (f x)) \<Longrightarrow> db_preserves I (case y of None \<Rightarrow> m | Some x \<Rightarrow> f x)"
  by (simp split: option.splits)

lemma db_prod [db_rules]:
  "(\<And>a b. db_preserves I (f a b)) \<Longrightarrow> db_preserves I (case p of (a, b) \<Rightarrow> f a b)"
  by (simp split: prod.splits)

lemma db_Let [db_rules]: "(\<And>x. db_preserves I (f x)) \<Longrightarrow> db_preserves I (Let v f)"
  by simp

lemma db_sum [db_rules]:
  "(\<And>x. db_preserves I (f x)) \<Longrightarrow> (\<And>x. db_preserves I (g x)) \<Longrightarrow>
   db_preserves I (case y of Inl x \<Rightarrow> f x | Inr x \<Rightarrow> g x)"
  by (simp split: sum.splits)

lemma db_db_gets [db_rules]: "db_preserves I (db_gets f)"
  by (simp add: db_gets_def db_rules)

lemma db_draw [db_rules]: "db_preserves I (draw f)"
  by (simp add: db_preserves_def preserves_def draw_def)

lemma db_now [db_rules]: "db_preserves I now" and db_new_id [db_rules]: "db_preserves I new_id"
  by (simp_all add: now_def new_id_def db_rules)

lemma db_db_modify: "(\<And>db. I db \<Longrightarrow> I (f db)) \<Longrightarrow> db_preserves I (db_modify f)"
  by (simp add: db_preserves_def preserves_def db_modify_def modify_def)

lemma db_modify_other: "(\<And>w. w_db (f w) = w_db w) \<Longrightarrow> db_preserves I (modify f)"
  by (simp add: db_preserves_def preserves_def modify_def)

lemma db_insert_row:
  "(\<And>db. I db \<Longrightarrow> \<not> list_ex (conflict row) (rows db) \<Longrightarrow> I (upd (\<lambda>rs. rs @ [row]) db)) \<Longrightarrow>
   db_preserves I (insert_row rows upd conflict row)"
  by (simp add: db_preserves_def preserves_def insert_row_def db_gets_def db_modify_def act_core)

lemma db_scoped_session [db_rules]: "db_preserves I m \<Longrightarrow> db_preserves I (scoped_session m)"
  unfolding db_preserves_def scoped_session_def by (rule preserves_transact) auto

text \<open>An operation that raises inside \<^const>\<open>scoped_session\<close> leaves the database as it was.\<close>

lemma scoped_session_rollback: "scoped_session m w = (Inl e, w') \<Longrightarrow> w_db w' = w_db w"
  by (auto simp: scoped_session_def transact_def split: prod.splits sum.splits)

lemmas insert_defs = insert_tenant_def insert_user_def insert_membership_def insert_dataset_def
  insert_model_def insert_version_def insert_approval_def insert_deployment_def insert_report_def
  insert_job_def insert_event_def insert_guard_key_def insert_guard_settings_def insert_guard_event_def

text \<open>An empty database, and a world around it for evaluating examples.\<close>

definition empty_db :: database where
  "empty_db = \<lparr> db_tenants = [], db_users = [], db_memberships = [], db_datasets = [], db_models = [],
     db_versions = [], db_approvals = [], db_deployments = [], db_reports = [], db_jobs = [], db_events = [],
     db_guard_keys = [], db_guard_settings = [], db_guard_events = [] \<rparr>"

definition example_world :: world where
  "example_world = \<lparr> w_db = empty_db, w_objects = [], w_failures = [], w_memorized = [], w_sent = [],
     w_supply = \<lparr> su_now = int, su_uuid = nat_str, su_random = (\<lambda>_ n. replicate n (CHR ''r'')),
       su_token = (\<lambda>_ n. replicate n (CHR ''t'')) \<rparr>, w_drawn = 0 \<rparr>"

end
