(* ===== verification/MP_Chain.thy ===== *)
theory MP_Chain
  imports MP_Prelude
begin

text \<open>
  The contract of a hash chain, which the passport's lifecycle events and the platform's audit log
  both follow: every entry names the hash of the entry before it. The laws say what a hash
  commits to (the covered content, or a collision) and that the covered content includes the
  link. What a chain then guarantees, and what it cannot, is proved once here.
\<close>

locale hash_chain =
  fixes ehash :: "'e \<Rightarrow> 'h"              \<comment> \<open>the hash of an entry\<close>
    and eprev :: "'e \<Rightarrow> 'h"              \<comment> \<open>the previous hash an entry names\<close>
    and same :: "'e \<Rightarrow> 'e \<Rightarrow> bool"       \<comment> \<open>two entries agree on all the hash covers\<close>
    and clash :: "'e \<Rightarrow> 'e \<Rightarrow> bool"      \<comment> \<open>two entries exhibit a collision of the hash function\<close>
    and valid :: "'e \<Rightarrow> bool"
  assumes binding: "valid a \<Longrightarrow> valid b \<Longrightarrow> ehash a = ehash b \<Longrightarrow> same a b \<or> clash a b"
    and same_prev: "same a b \<Longrightarrow> eprev a = eprev b"
begin

fun linked :: "'h \<Rightarrow> 'e list \<Rightarrow> bool" where
  "linked h [] = True"
| "linked h (e # es) = (eprev e = h \<and> linked (ehash e) es)"

fun head_hash :: "'h \<Rightarrow> 'e list \<Rightarrow> 'h" where
  "head_hash h [] = h"
| "head_hash h (e # es) = head_hash (ehash e) es"

lemma head_hash_snoc [simp]: "head_hash h (es @ [e]) = ehash e"
  by (induction es arbitrary: h) auto

lemma head_hash_last: "es \<noteq> [] \<Longrightarrow> head_hash h es = ehash (last es)"
  by (induction es arbitrary: h) auto

lemma linked_append: "linked h (xs @ ys) \<longleftrightarrow> linked h xs \<and> linked (head_hash h xs) ys"
  by (induction xs arbitrary: h) auto

lemma linked_snoc: "linked h (es @ [e]) \<longleftrightarrow> linked h es \<and> eprev e = head_hash h es"
  by (simp add: linked_append)

text \<open>Cutting entries off the end leaves a chain that is as well linked as before.\<close>

lemma linked_take: "linked h es \<Longrightarrow> linked h (take n es)"
  by (metis append_take_drop_id linked_append)

text \<open>
  The head pins the whole chain: two chains of one length with the same head agree everywhere,
  or two of their entries collide.
\<close>

lemma head_pins_chain:
  assumes "linked h xs" "linked h' ys" "length xs = length ys" "xs \<noteq> []"
    and "list_all valid xs" "list_all valid ys" "ehash (last xs) = ehash (last ys)"
  shows "list_all2 same xs ys \<or> (\<exists>a \<in> set xs. \<exists>b \<in> set ys. clash a b)"
  using assms
proof (induction xs arbitrary: ys rule: rev_induct)
  case (snoc x xs)
  then obtain y ys' where ys: "ys = ys' @ [y]" "length xs = length ys'"
    by (cases ys rule: rev_cases) auto
  have "same x y \<or> clash x y" using snoc.prems ys by (intro binding) auto
  moreover have "?case" if s: "same x y"
  proof (cases "xs = []")
    case True
    with ys s show ?thesis by simp
  next
    case False
    then have ne: "ys' \<noteq> []" using ys by auto
    have "ehash (last xs) = ehash (last ys')"
      using snoc.prems(1,2) ys same_prev [OF s] False ne
      by (simp add: linked_snoc head_hash_last)
    with snoc.IH [of ys'] snoc.prems ys False
    have "list_all2 same xs ys' \<or> (\<exists>a \<in> set xs. \<exists>b \<in> set ys'. clash a b)"
      by (simp add: linked_snoc)
    with s ys show ?thesis by (auto simp: list_all2_append)
  qed
  ultimately show ?case using ys by auto
qed simp

end

end
