(* ===== verification/MP_Auditlog.thy ===== *)
theory MP_Auditlog
  imports MP_Models MP_Chain
begin

text \<open>
  The audit log (\<^verbatim>\<open>platform/auditlog.py\<close>): one hash chain of events per tenant, appended to by every
  operation that changes the database. \<open>log_ok\<close>, that every tenant's chain verifies, is an
  invariant of the whole platform; the components prove that each of their operations keeps it.
\<close>

section \<open>Operations\<close>

definition PLATFORM :: string where "PLATFORM = ''platform''"

definition GENESIS :: string where "GENESIS = replicate 64 (CHR ''0'')"

record actor =
  at_id :: "string option"
  at_label :: string

definition SYSTEM :: actor where "SYSTEM = \<lparr> at_id = None, at_label = ''system'' \<rparr>"

definition json_opt :: "string option \<Rightarrow> json" where
  "json_opt s = (case s of None \<Rightarrow> JNull | Some t \<Rightarrow> JStr t)"

definition digest_body :: "audit_event \<Rightarrow> json" where
  "digest_body event = JObj
    [(''tenant'', JStr (ae_tenant_id event)), (''seq'', JInt (ae_seq event)),
     (''actor_id'', json_opt (ae_actor_id event)), (''actor'', JStr (ae_actor event)),
     (''action'', JStr (ae_action event)), (''target_type'', JStr (ae_target_type event)),
     (''target_id'', JStr (ae_target_id event)), (''details'', JObj (ae_details event)),
     (''prev'', JStr (ae_prev_hash event))]"

definition audit_digest :: "crypto \<Rightarrow> audit_event \<Rightarrow> string" where
  "audit_digest c event = sha256_hex c (json_dumps True (digest_body event))"

definition chain :: "database \<Rightarrow> string \<Rightarrow> audit_event list" where
  "chain db tenant_id = sort_key ae_seq (filter (\<lambda>e. ae_tenant_id e = tenant_id) (db_events db))"

text \<open>\<^verbatim>\<open>order_by(seq.desc()).limit(1)\<close>.\<close>

definition last_event :: "database \<Rightarrow> string \<Rightarrow> audit_event option" where
  "last_event db tenant_id = (let es = chain db tenant_id in if es = [] then None else Some (last es))"

definition next_event_id :: "database \<Rightarrow> nat" where
  "next_event_id db = Suc (fold max (map ae_id (db_events db)) 0)"

definition make_event :: "crypto \<Rightarrow> database \<Rightarrow> string \<Rightarrow> actor \<Rightarrow> string \<Rightarrow> string \<Rightarrow> string \<Rightarrow> json dict
    \<Rightarrow> int \<Rightarrow> audit_event" where
  "make_event c db tenant_id who action target_type target_id details created_at =
     (let prior = last_event db tenant_id;
          event = \<lparr> ae_id = next_event_id db, ae_tenant_id = tenant_id,
            ae_seq = (case prior of None \<Rightarrow> 1 | Some l \<Rightarrow> ae_seq l + 1),
            ae_actor_id = at_id who, ae_actor = at_label who, ae_action = action,
            ae_target_type = target_type, ae_target_id = target_id, ae_details = details,
            ae_prev_hash = (case prior of None \<Rightarrow> GENESIS | Some l \<Rightarrow> ae_hash l),
            ae_hash = [], ae_created_at = created_at \<rparr>
      in event\<lparr> ae_hash := audit_digest c event \<rparr>)"

definition record_event :: "crypto \<Rightarrow> string \<Rightarrow> actor \<Rightarrow> string \<Rightarrow> string \<Rightarrow> string \<Rightarrow> json dict \<Rightarrow> audit_event M" where
  "record_event c tenant_id who action target_type target_id details =
     bnd now (\<lambda>t.
     bnd (db_gets (\<lambda>db. make_event c db tenant_id who action target_type target_id details t)) (\<lambda>event.
     andthen (insert_event event) (ret event)))"

datatype chain_problem = ExpectedSequence int int | DoesNotChain int | ContentsChanged int

fun check_chain :: "crypto \<Rightarrow> string \<Rightarrow> int \<Rightarrow> audit_event list \<Rightarrow> chain_problem list" where
  "check_chain c expected_prev expected_seq [] = []"
| "check_chain c expected_prev expected_seq (event # es) =
     (if ae_seq event \<noteq> expected_seq then [ExpectedSequence (ae_seq event) expected_seq] else []) @
     (if ae_prev_hash event \<noteq> expected_prev then [DoesNotChain (ae_seq event)] else []) @
     (if audit_digest c event \<noteq> ae_hash event then [ContentsChanged (ae_seq event)] else []) @
     check_chain c (ae_hash event) (ae_seq event + 1) es"

definition verify_chain :: "crypto \<Rightarrow> audit_event list \<Rightarrow> chain_problem list" where
  "verify_chain c events = check_chain c GENESIS 1 events"

section \<open>Appending\<close>

lemma insort_key_snoc: "f a \<le> f x \<Longrightarrow> insort_key f a (ys @ [x]) = insort_key f a ys @ [x]"
  by (induction ys) auto

lemma sort_key_snoc: "(\<And>y. y \<in> set xs \<Longrightarrow> f y \<le> f x) \<Longrightarrow> sort_key f (xs @ [x]) = sort_key f xs @ [x]"
  by (induction xs) (auto simp: insort_key_snoc)

lemma set_chain: "set (chain db t) = {e \<in> set (db_events db). ae_tenant_id e = t}"
  by (auto simp: chain_def)

lemma last_event_max:
  "e \<in> set (db_events db) \<Longrightarrow> ae_tenant_id e = t \<Longrightarrow> \<exists>l. last_event db t = Some l \<and> ae_seq e \<le> ae_seq l"
proof -
  assume "e \<in> set (db_events db)" "ae_tenant_id e = t"
  then have e: "e \<in> set (chain db t)" by (simp add: set_chain)
  then have ne: "chain db t \<noteq> []" by auto
  then obtain es l where es: "chain db t = es @ [l]" by (metis append_butlast_last_id)
  have "sorted (map ae_seq (chain db t))" by (simp add: chain_def)
  with e es have "ae_seq e \<le> ae_seq l" by (auto simp: sorted_append)
  with es show ?thesis by (simp add: last_event_def Let_def)
qed

lemma next_event_id_fresh: "e \<in> set (db_events db) \<Longrightarrow> ae_id e < next_event_id db"
proof -
  assume e: "e \<in> set (db_events db)"
  have "x \<in> set xs \<or> x \<le> m \<Longrightarrow> x \<le> fold max xs m" for x m :: nat and xs
  proof (induction xs arbitrary: m)
    case (Cons a xs)
    have "x \<in> set xs \<or> x \<le> max a m" using Cons.prems by (auto simp: le_max_iff_disj)
    from Cons.IH [OF this] show ?case by simp
  qed simp
  from this [of "ae_id e" "map ae_id (db_events db)" 0] e show ?thesis by (simp add: next_event_id_def)
qed

text \<open>Recording never raises and appends exactly one event at the end of the table.\<close>

lemma record_event_run:
  "record_event c t who act tt ti d w =
     (let e = make_event c (w_db w) t who act tt ti d (su_now (w_supply w) (w_drawn w))
      in (Inr e, w\<lparr> w_drawn := Suc (w_drawn w), w_db := (w_db w)\<lparr> db_events := db_events (w_db w) @ [e] \<rparr> \<rparr>))"
proof -
  define db where "db = w_db w"
  define e where "e = make_event c db t who act tt ti d (su_now (w_supply w) (w_drawn w))"
  have parts: "ae_id e = next_event_id db" "ae_tenant_id e = t"
    "ae_seq e = (case last_event db t of None \<Rightarrow> 1 | Some l \<Rightarrow> ae_seq l + 1)"
    by (simp_all add: e_def make_event_def Let_def)
  have "\<not> list_ex (\<lambda>b. ae_id e = ae_id b \<or> ae_tenant_id e = ae_tenant_id b \<and> ae_seq e = ae_seq b) (db_events db)"
    unfolding parts using next_event_id_fresh [of _ db] last_event_max [of _ db t]
    by (force simp: list_ex_iff)
  then show ?thesis
    by (simp add: record_event_def now_def draw_def db_gets_def insert_event_def insert_row_def db_modify_def
        act_core Let_def db_def [symmetric] e_def [symmetric])
qed

lemma chain_record:
  assumes "e = make_event c db t who act tt ti d ts"
  shows "chain (db\<lparr> db_events := db_events db @ [e] \<rparr>) t' = (if t' = t then chain db t @ [e] else chain db t')"
proof -
  have parts: "ae_tenant_id e = t"
    "ae_seq e = (case last_event db t of None \<Rightarrow> 1 | Some l \<Rightarrow> ae_seq l + 1)"
    by (simp_all add: assms make_event_def Let_def)
  have "ae_seq y \<le> ae_seq e" if "y \<in> set (filter (\<lambda>e. ae_tenant_id e = t) (db_events db))" for y
    using last_event_max [of y db t] that by (auto simp: parts)
  then have "sort_key ae_seq (filter (\<lambda>e. ae_tenant_id e = t) (db_events db) @ [e])
      = sort_key ae_seq (filter (\<lambda>e. ae_tenant_id e = t) (db_events db)) @ [e]" by (rule sort_key_snoc)
  then show ?thesis by (simp add: chain_def parts(1))
qed

lemma check_chain_snoc:
  "check_chain c p s (es @ [e]) = [] \<longleftrightarrow> check_chain c p s es = [] \<and>
     ae_seq e = (if es = [] then s else ae_seq (last es) + 1) \<and>
     ae_prev_hash e = (if es = [] then p else ae_hash (last es)) \<and> audit_digest c e = ae_hash e"
  by (induction es arbitrary: p s) auto

lemma make_event_fields:
  "ae_seq (make_event c db t who act tt ti d ts) = (case last_event db t of None \<Rightarrow> 1 | Some l \<Rightarrow> ae_seq l + 1)"
  "ae_prev_hash (make_event c db t who act tt ti d ts) = (case last_event db t of None \<Rightarrow> GENESIS | Some l \<Rightarrow> ae_hash l)"
  "audit_digest c (make_event c db t who act tt ti d ts) = ae_hash (make_event c db t who act tt ti d ts)"
  by (simp_all add: make_event_def Let_def audit_digest_def digest_body_def)

lemma verify_chain_make_event:
  "verify_chain c (chain db t) = [] \<Longrightarrow>
   verify_chain c (chain db t @ [make_event c db t who act tt ti d ts]) = []"
  by (simp add: verify_chain_def check_chain_snoc make_event_fields last_event_def Let_def)

definition log_ok :: "crypto \<Rightarrow> database \<Rightarrow> bool" where
  "log_ok c db \<longleftrightarrow> (\<forall>t. verify_chain c (chain db t) = [])"

lemma log_ok_cong: "db_events db' = db_events db \<Longrightarrow> log_ok c db' = log_ok c db"
  by (simp add: log_ok_def chain_def)

lemma record_event_log_ok [db_rules]: "db_preserves (log_ok c) (record_event c t who act tt ti d)"
  unfolding db_preserves_def
  by (rule preservesI) (auto simp: record_event_run Let_def log_ok_def chain_record verify_chain_make_event)

text \<open>Every other table can be inserted into or updated without touching the log.\<close>

lemma log_ok_insert_row:
  "(\<And>f db. db_events (upd f db) = db_events db) \<Longrightarrow> db_preserves (log_ok c) (insert_row rows upd conflict row)"
  by (rule db_insert_row) (metis log_ok_cong)

lemma log_ok_inserts [db_rules]:
  "db_preserves (log_ok c) (insert_tenant r1)" "db_preserves (log_ok c) (insert_user r2)"
  "db_preserves (log_ok c) (insert_membership r3)" "db_preserves (log_ok c) (insert_dataset r4)"
  "db_preserves (log_ok c) (insert_model r5)" "db_preserves (log_ok c) (insert_version r6)"
  "db_preserves (log_ok c) (insert_approval r7)" "db_preserves (log_ok c) (insert_deployment r8)"
  "db_preserves (log_ok c) (insert_report r9)" "db_preserves (log_ok c) (insert_job r10)"
  "db_preserves (log_ok c) (insert_guard_key r11)" "db_preserves (log_ok c) (insert_guard_settings r12)"
  "db_preserves (log_ok c) (insert_guard_event r13)"
  unfolding insert_defs by (rule log_ok_insert_row, simp)+

lemma log_ok_modify: "(\<And>db. db_events (f db) = db_events db) \<Longrightarrow> db_preserves (log_ok c) (db_modify f)"
  by (rule db_db_modify) (metis log_ok_cong)

section \<open>What the chain guarantees\<close>

text \<open>
  C20. Recording an event always succeeds: it appends one event to the tenant's chain, touches no
  other tenant's chain and no other table, and a chain that verified before still verifies.
\<close>

theorem record_event_appends:
  "\<exists>e w'. record_event c t who act tt ti d w = (Inr e, w')
    \<and> chain (w_db w') t = chain (w_db w) t @ [e]
    \<and> (\<forall>t'. t' \<noteq> t \<longrightarrow> chain (w_db w') t' = chain (w_db w) t')
    \<and> (w_db w')\<lparr> db_events := [] \<rparr> = (w_db w)\<lparr> db_events := [] \<rparr>
    \<and> (verify_chain c (chain (w_db w) t) = [] \<longrightarrow> verify_chain c (chain (w_db w') t) = [])"
  by (simp add: record_event_run Let_def chain_record verify_chain_make_event)

subsection \<open>As a hash chain\<close>

definition covers_same :: "audit_event \<Rightarrow> audit_event \<Rightarrow> bool" where
  "covers_same a b \<longleftrightarrow> sort_members (JObj (ae_details a)) = sort_members (JObj (ae_details b)) \<and>
     ae_tenant_id a = ae_tenant_id b \<and> ae_seq a = ae_seq b \<and> ae_actor_id a = ae_actor_id b \<and>
     ae_actor a = ae_actor b \<and> ae_action a = ae_action b \<and> ae_target_type a = ae_target_type b \<and>
     ae_target_id a = ae_target_id b \<and> ae_prev_hash a = ae_prev_hash b"

definition audit_clash :: "crypto \<Rightarrow> audit_event \<Rightarrow> audit_event \<Rightarrow> bool" where
  "audit_clash c a b \<longleftrightarrow> (let x = json_dumps True (digest_body a); y = json_dumps True (digest_body b)
     in x \<noteq> y \<and> c_sha256 c x = c_sha256 c y)"

definition details_ok :: "audit_event \<Rightarrow> bool" where
  "details_ok e = json_ok (JObj (ae_details e))"

lemma json_opt_inject [simp]: "json_opt a = json_opt b \<longleftrightarrow> a = b"
  by (auto simp: json_opt_def split: option.splits)

lemma json_ok_json_opt [simp]: "json_ok (json_opt s)" and sort_members_json_opt [simp]: "sort_members (json_opt s) = json_opt s"
  by (auto simp: json_opt_def split: option.splits)

lemma digest_body_covers:
  assumes "details_ok a" "details_ok b" "sort_members (digest_body a) = sort_members (digest_body b)"
  shows "covers_same a b"
proof -
  have ok: "json_ok (digest_body a)" "json_ok (digest_body b)"
    using assms(1,2) by (simp_all add: digest_body_def details_ok_def)
  note get = sort_members_get [OF ok assms(3)]
  show ?thesis
    unfolding covers_same_def
    using get [of "''tenant''"] get [of "''seq''"] get [of "''actor_id''"] get [of "''actor''"]
      get [of "''action''"] get [of "''target_type''"] get [of "''target_id''"] get [of "''details''"] get [of "''prev''"]
    by (simp add: jget_def digest_body_def)
qed

lemma audit_digest_binding:
  assumes "details_ok a" "details_ok b" "audit_digest c a = audit_digest c b"
  shows "covers_same a b \<or> audit_clash c a b"
proof -
  have ok: "json_ok (digest_body a)" "json_ok (digest_body b)"
    using assms(1,2) by (simp_all add: digest_body_def details_ok_def)
  have "covers_same a b" if "json_dumps True (digest_body a) = json_dumps True (digest_body b)"
    using that json_dumps_inject [OF ok] digest_body_covers [OF assms(1,2)] by simp
  then show ?thesis using assms(3) by (auto simp: audit_clash_def Let_def audit_digest_def sha256_hex_def)
qed

interpretation log: hash_chain "audit_digest c" ae_prev_hash covers_same "audit_clash c" details_ok for c
  by unfold_locales (auto simp: audit_digest_binding, simp add: covers_same_def)

lemma check_chain_linked:
  "check_chain c p s es = [] \<Longrightarrow> log.linked c p es \<and> (\<forall>e \<in> set es. audit_digest c e = ae_hash e)"
  by (induction es arbitrary: p s) (auto split: if_splits)

lemma check_chain_append:
  "check_chain c p s (xs @ ys) = [] \<longleftrightarrow> check_chain c p s xs = [] \<and>
     check_chain c (if xs = [] then p else ae_hash (last xs)) (if xs = [] then s else ae_seq (last xs) + 1) ys = []"
  by (induction xs arbitrary: p s) auto

text \<open>
  The newest hash pins a tenant's whole log: two chains that verify, of one length and with the
  same newest hash, agree in every covered field of every event, or two of their events are a
  SHA-256 collision.
\<close>

theorem newest_hash_pins_log:
  assumes "verify_chain c xs = []" "verify_chain c ys = []" "length xs = length ys" "xs \<noteq> []"
    and "list_all details_ok xs" "list_all details_ok ys" "ae_hash (last xs) = ae_hash (last ys)"
  shows "list_all2 covers_same xs ys \<or> (\<exists>a \<in> set xs. \<exists>b \<in> set ys. audit_clash c a b)"
proof -
  have x: "log.linked c GENESIS xs" "\<forall>e \<in> set xs. audit_digest c e = ae_hash e"
    and y: "log.linked c GENESIS ys" "\<forall>e \<in> set ys. audit_digest c e = ae_hash e"
    using check_chain_linked assms(1,2) by (auto simp: verify_chain_def)
  have "ys \<noteq> []" using assms(3,4) by auto
  with x(2) y(2) assms(4,7) have "audit_digest c (last xs) = audit_digest c (last ys)" by simp
  from log.head_pins_chain [OF x(1) y(1) assms(3,4,5,6) this] show ?thesis .
qed

text \<open>
  Deleting any events but the newest ones is detected: a chain that verifies no longer does when
  a non-empty segment before its last event is cut out.
\<close>

theorem deletion_detected:
  assumes "verify_chain c (xs @ ys @ zs) = []" "ys \<noteq> []" "zs \<noteq> []"
  shows "verify_chain c (xs @ zs) \<noteq> []"
proof
  assume cut: "verify_chain c (xs @ zs) = []"
  have grow: "check_chain c p s (ys @ z # zs') = [] \<Longrightarrow> ae_seq z = s + int (length ys)" for p s ys z zs'
    by (induction ys arbitrary: p s) (auto split: if_splits)
  obtain z zs' where z: "zs = z # zs'" using assms(3) by (cases zs) auto
  have "ae_seq z = 1 + int (length (xs @ ys))" "ae_seq z = 1 + int (length xs)"
    using grow [of GENESIS 1 "xs @ ys" z zs'] grow [of GENESIS 1 xs z zs'] assms(1) cut z
    by (simp_all add: verify_chain_def)
  with assms(2) show False by simp
qed

text \<open>
  Deleting the newest events is not detected: every prefix of a chain that verifies verifies.
\<close>

theorem truncation_undetected:
  assumes "verify_chain c events = []"
  shows "verify_chain c (take n events) = []"
  using assms check_chain_append [of c GENESIS 1 "take n events" "drop n events"]
  by (simp add: verify_chain_def)

subsection \<open>A log with three events\<close>

definition record_each :: "crypto \<Rightarrow> string \<Rightarrow> string list \<Rightarrow> unit M" where
  "record_each c t = for_each (\<lambda>a. andthen (record_event c t SYSTEM a ''job'' ''1'' []) (ret ()))"

definition example_log_world :: world where
  "example_log_world = snd (record_each example_crypto ''t'' [''a'', ''b'', ''c''] example_world)"

definition example_chain :: "audit_event list" where
  "example_chain = chain (w_db example_log_world) ''t''"

lemma record_each_chain:
  "length (chain (w_db (snd (record_each c t acts w))) t) = length (chain (w_db w) t) + length acts
   \<and> (list_all details_ok (chain (w_db w) t) \<longrightarrow> list_all details_ok (chain (w_db (snd (record_each c t acts w))) t))"
proof (induction acts arbitrary: w)
  case Nil
  then show ?case by (simp add: record_each_def ret_def)
next
  case (Cons a acts)
  obtain e w' where e: "record_event c t SYSTEM a ''job'' ''1'' [] w = (Inr e, w')"
      "chain (w_db w') t = chain (w_db w) t @ [e]" "ae_details e = []"
    by (simp add: record_event_run Let_def chain_record make_event_def)
  then have "record_each c t (a # acts) w = record_each c t acts w'"
    by (simp add: record_each_def andthen_def bnd_def ret_def)
  with Cons.IH [of w'] e show ?case by (simp add: details_ok_def)
qed

lemma record_each_log_ok: "db_preserves (log_ok c) (record_each c t acts)"
  unfolding record_each_def by (intro db_rules)

lemma log_ok_empty: "log_ok c empty_db"
  by (simp add: log_ok_def empty_db_def chain_def verify_chain_def)

lemma example_chain_verifies: "verify_chain example_crypto example_chain = []"
  using db_preservesD [OF record_each_log_ok, of example_crypto example_world "''t''" "[''a'', ''b'', ''c'']"]
  by (simp add: example_chain_def example_log_world_def log_ok_def example_world_def log_ok_empty [unfolded log_ok_def])

lemma example_chain_length: "length example_chain = 3"
  and example_chain_details: "list_all details_ok example_chain"
  using record_each_chain [of example_crypto "''t''" "[''a'', ''b'', ''c'']" example_world]
  by (simp_all add: example_chain_def example_log_world_def chain_def example_world_def empty_db_def)

theorem record_event_appends_witness:
  "\<exists>e w'. record_event example_crypto ''t'' SYSTEM ''d'' ''job'' ''1'' [] example_log_world = (Inr e, w')
    \<and> verify_chain example_crypto (chain (w_db w') ''t'') = []
    \<and> chain (w_db w') ''u'' = chain (w_db example_log_world) ''u''"
  using record_event_appends [of example_crypto "''t''" SYSTEM "''d''" "''job''" "''1''" "[]" example_log_world]
    example_chain_verifies by (force simp: example_chain_def)

theorem newest_hash_pins_log_witness:
  "list_all2 covers_same example_chain example_chain
   \<or> (\<exists>a \<in> set example_chain. \<exists>b \<in> set example_chain. audit_clash example_crypto a b)"
proof -
  have "example_chain \<noteq> []" using example_chain_length by auto
  from newest_hash_pins_log [OF example_chain_verifies example_chain_verifies refl this
      example_chain_details example_chain_details refl] show ?thesis .
qed

theorem deletion_detected_witness:
  "verify_chain example_crypto (take 1 example_chain @ drop 2 example_chain) \<noteq> []"
proof -
  have "example_chain = take 1 example_chain @ take 1 (drop 1 example_chain) @ drop 2 example_chain"
    by (metis append_take_drop_id drop_drop one_add_one)
  then have "verify_chain example_crypto (take 1 example_chain @ take 1 (drop 1 example_chain) @ drop 2 example_chain) = []"
    using example_chain_verifies by simp
  from deletion_detected [OF this] example_chain_length show ?thesis by auto
qed

theorem truncation_undetected_witness:
  "length (take 2 example_chain) < length example_chain \<and> verify_chain example_crypto (take 2 example_chain) = []"
  using truncation_undetected [OF example_chain_verifies, of 2] example_chain_length by simp

end
