(* ===== verification/MP_Lifecycle.thy ===== *)
theory MP_Lifecycle
  imports MP_Auditlog
begin

text \<open>
  Roles and permissions (\<^verbatim>\<open>platform/rbac.py\<close>), the life cycle of a model version as a state machine
  (\<^verbatim>\<open>platform/lifecycle.py\<close>) and the job queue (\<^verbatim>\<open>platform/jobs.py\<close>).
\<close>

section \<open>Permissions\<close>

datatype permission = TENANTS_MANAGE | MEMBERS_MANAGE | MODELS_READ | MODELS_WRITE | AUDITS_RUN
  | REMEDIATION_RUN | FINDINGS_READ | APPROVALS_DECIDE | RELEASES_MANAGE | KILL_SWITCH | DEV_ENDPOINTS
  | TEST_REPORTS | CONSUMER_USE | AUDIT_LOG_READ | ANALYTICS_READ | PROVENANCE_READ | REPORTS_READ
  | JOBS_READ | GUARD_MANAGE | GUARD_READ

definition READ_PERMISSIONS :: "permission list" where
  "READ_PERMISSIONS = [MODELS_READ, FINDINGS_READ, ANALYTICS_READ, PROVENANCE_READ, JOBS_READ]"

fun ROLE_PERMISSIONS :: "role \<Rightarrow> permission list" where
  "ROLE_PERMISSIONS ORG_ADMIN = READ_PERMISSIONS @ [MEMBERS_MANAGE, APPROVALS_DECIDE, RELEASES_MANAGE,
     KILL_SWITCH, AUDIT_LOG_READ, REPORTS_READ, GUARD_MANAGE, GUARD_READ]"
| "ROLE_PERMISSIONS ML_ENGINEER = READ_PERMISSIONS @ [MODELS_WRITE, AUDITS_RUN, REMEDIATION_RUN,
     DEV_ENDPOINTS, GUARD_MANAGE, GUARD_READ]"
| "ROLE_PERMISSIONS COMPLIANCE_AUDITOR = READ_PERMISSIONS @ [APPROVALS_DECIDE, KILL_SWITCH,
     AUDIT_LOG_READ, REPORTS_READ, GUARD_READ]"
| "ROLE_PERMISSIONS CANARY_TESTER = [MODELS_READ, DEV_ENDPOINTS, TEST_REPORTS]"
| "ROLE_PERMISSIONS END_CONSUMER = [CONSUMER_USE]"
| "ROLE_PERMISSIONS EXTERNAL_REVIEWER = [REPORTS_READ, PROVENANCE_READ]"

definition allowed :: "role option \<Rightarrow> permission \<Rightarrow> bool \<Rightarrow> bool" where
  "allowed r p super_admin \<longleftrightarrow> super_admin \<or> (case r of None \<Rightarrow> False | Some r \<Rightarrow> p \<in> set (ROLE_PERMISSIONS r))"

section \<open>The state machine\<close>

definition KILLABLE :: "vstate list" where
  "KILLABLE = [FINDINGS, CLEAN, CANARY, VERIFYING, APPROVED, RELEASED]"

text \<open>\<open>None\<close> is \<^verbatim>\<open>SYSTEM_ONLY\<close>: a step workers make after a job, never a person.\<close>

definition TRANSITIONS :: "((vstate \<times> vstate) \<times> permission option) list" where
  "TRANSITIONS =
    [((REGISTERED, AUDITING), Some AUDITS_RUN),
     ((CLEAN, AUDITING), Some AUDITS_RUN),
     ((FINDINGS, AUDITING), Some AUDITS_RUN),
     ((AUDITING, FINDINGS), None),
     ((AUDITING, CLEAN), None),
     ((AUDITING, REGISTERED), None),
     ((FINDINGS, REMEDIATING), Some REMEDIATION_RUN),
     ((REMEDIATING, SUPERSEDED), None),
     ((REMEDIATING, FINDINGS), None),
     ((CLEAN, CANARY), Some DEV_ENDPOINTS),
     ((CANARY, VERIFYING), Some DEV_ENDPOINTS),
     ((VERIFYING, FINDINGS), Some APPROVALS_DECIDE),
     ((VERIFYING, APPROVED), Some APPROVALS_DECIDE),
     ((VERIFYING, REJECTED), Some APPROVALS_DECIDE),
     ((APPROVED, REJECTED), Some APPROVALS_DECIDE),
     ((APPROVED, RELEASED), Some RELEASES_MANAGE),
     ((RELEASED, ROLLED_BACK), Some RELEASES_MANAGE)]
    @ map (\<lambda>s. ((s, KILLED), Some KILL_SWITCH)) KILLABLE"

record who =
  wh_actor :: actor
  wh_role :: "role option"
  wh_super_admin :: bool
  wh_system :: bool

definition next_states :: "vstate \<Rightarrow> vstate list" where
  "next_states s = sort_key state_value (remdups (map (snd \<circ> fst) (filter (\<lambda>((frm, _), _). frm = s) TRANSITIONS)))"

definition check_step :: "vstate \<Rightarrow> vstate \<Rightarrow> who \<Rightarrow> exn + unit" where
  "check_step frm to w = (case map_of TRANSITIONS (frm, to) of
      None \<Rightarrow> Inl (TransitionError ''not a lifecycle step'')
    | Some None \<Rightarrow> if wh_system w then Inr ()
        else Inl (TransitionError ''set by the platform after a job, not by hand'')
    | Some (Some needed) \<Rightarrow>
        if \<not> wh_system w \<and> \<not> allowed (wh_role w) needed (wh_super_admin w)
        then Inl (TransitionError ''permission required'') else Inr ())"

definition lifecycle_check :: "model_version \<Rightarrow> vstate \<Rightarrow> who \<Rightarrow> unit M" where
  "lifecycle_check version to w = of_result (check_step (mv_state version) to w)"

definition set_version :: "string \<Rightarrow> (model_version \<Rightarrow> model_version) \<Rightarrow> unit M" where
  "set_version vid f = db_modify (\<lambda>db. db\<lparr> db_versions := update_where (\<lambda>r. mv_id r = vid) f (db_versions db) \<rparr>)"

text \<open>The answer is the version after the step.\<close>

definition move :: "crypto \<Rightarrow> model_version \<Rightarrow> vstate \<Rightarrow> who \<Rightarrow> string \<Rightarrow> model_version M" where
  "move c version to w reason =
     andthen (lifecycle_check version to w)
     (andthen (set_version (mv_id version) (\<lambda>r. r\<lparr> mv_state := to \<rparr>))
     (andthen (record_event c (mv_tenant_id version) (wh_actor w) (''version.'' @ state_value to)
         ''model_version'' (mv_id version)
         [(''from'', JStr (state_value (mv_state version))), (''to'', JStr (state_value to)),
          (''reason'', JStr reason)])
     (ret (version\<lparr> mv_state := to \<rparr>))))"

section \<open>Jobs\<close>

definition KINDS :: "string list" where
  "KINDS = [''train'', ''audit'', ''remediate'', ''report'']"

definition worker_actor :: "string \<Rightarrow> actor" where
  "worker_actor name = \<lparr> at_id = None, at_label = ''worker:'' @ name \<rparr>"

text \<open>\<^verbatim>\<open>f"worker:{job.locked_by}"\<close>, where an unlocked job reads \<open>None\<close>.\<close>

definition locked_actor :: "job \<Rightarrow> actor" where
  "locked_actor j = worker_actor (case jb_locked_by j of None \<Rightarrow> ''None'' | Some n \<Rightarrow> n)"

definition enqueue :: "crypto \<Rightarrow> string \<Rightarrow> string \<Rightarrow> json dict \<Rightarrow> actor \<Rightarrow> nat \<Rightarrow> job M" where
  "enqueue c tenant_id kind payload who max_attempts =
     andthen (raise_if (kind \<notin> set KINDS) (JobError ''unknown job kind''))
     (bnd new_id (\<lambda>i. bnd now (\<lambda>t.
      let j = \<lparr> jb_id = i, jb_tenant_id = tenant_id, jb_kind = kind, jb_status = QUEUED,
          jb_payload = payload, jb_result = None, jb_error = None, jb_attempts = 0,
          jb_max_attempts = max_attempts, jb_locked_by = None, jb_created_by = at_id who,
          jb_created_at = t, jb_started_at = None, jb_finished_at = None \<rparr>
      in andthen (insert_job j)
         (andthen (record_event c tenant_id who ''job.queued'' ''job'' i [(''kind'', JStr kind)])
         (ret j)))))"

definition set_job :: "string \<Rightarrow> (job \<Rightarrow> job) \<Rightarrow> unit M" where
  "set_job jid f = db_modify (\<lambda>db. db\<lparr> db_jobs := update_where (\<lambda>r. jb_id r = jid) f (db_jobs db) \<rparr>)"

text \<open>The oldest queued job of the kinds asked for.\<close>

definition next_job :: "string list \<Rightarrow> database \<Rightarrow> job option" where
  "next_job kinds db =
     (case sort_key jb_created_at (filter (\<lambda>j. jb_status j = QUEUED \<and> jb_kind j \<in> set kinds) (db_jobs db)) of
        [] \<Rightarrow> None | j # _ \<Rightarrow> Some j)"

definition claimed :: "string \<Rightarrow> int \<Rightarrow> job \<Rightarrow> job" where
  "claimed worker t j = j\<lparr> jb_status := RUNNING, jb_attempts := jb_attempts j + 1,
     jb_locked_by := Some worker, jb_started_at := Some t \<rparr>"

definition claim :: "crypto \<Rightarrow> string \<Rightarrow> string list \<Rightarrow> job option M" where
  "claim c worker kinds = bnd (db_gets (next_job kinds)) (\<lambda>found. case found of
      None \<Rightarrow> ret None
    | Some j \<Rightarrow> bnd now (\<lambda>t.
        andthen (set_job (jb_id j) (claimed worker t))
        (let j' = claimed worker t j in
         andthen (record_event c (jb_tenant_id j) (worker_actor worker) ''job.started'' ''job'' (jb_id j)
           [(''kind'', JStr (jb_kind j)), (''attempt'', JInt (int (jb_attempts j')))])
         (ret (Some j')))))"

definition finish :: "crypto \<Rightarrow> job \<Rightarrow> json dict \<Rightarrow> unit M" where
  "finish c j result = bnd now (\<lambda>t.
     andthen (set_job (jb_id j) (\<lambda>r. r\<lparr> jb_status := SUCCEEDED, jb_result := Some result,
        jb_error := None, jb_finished_at := Some t \<rparr>))
     (andthen (record_event c (jb_tenant_id j) (locked_actor j) ''job.succeeded'' ''job'' (jb_id j)
        [(''kind'', JStr (jb_kind j))]) (ret ())))"

definition will_retry :: "job \<Rightarrow> bool" where
  "will_retry j \<longleftrightarrow> jb_attempts j < jb_max_attempts j"

definition fail :: "crypto \<Rightarrow> job \<Rightarrow> string \<Rightarrow> unit M" where
  "fail c j error =
     bnd (if will_retry j then ret None else bnd now (\<lambda>t. ret (Some t))) (\<lambda>finished.
     andthen (set_job (jb_id j) (\<lambda>r. r\<lparr> jb_status := (if will_retry r then QUEUED else FAILED),
        jb_error := Some (take 2000 error), jb_finished_at := finished \<rparr>))
     (andthen (record_event c (jb_tenant_id j) (locked_actor j)
        (if will_retry j then ''job.retrying'' else ''job.failed'') ''job'' (jb_id j)
        [(''kind'', JStr (jb_kind j)), (''attempt'', JInt (int (jb_attempts j))),
         (''error'', JStr (take 200 error))]) (ret ())))"

section \<open>What the state machine guarantees\<close>

lemma transition_cases:
  "map_of TRANSITIONS (frm, to) = Some p \<Longrightarrow>
    (to = AUDITING \<and> frm \<in> {REGISTERED, CLEAN, FINDINGS}) \<or> (to = FINDINGS \<and> frm \<in> {AUDITING, REMEDIATING, VERIFYING})
    \<or> (to = CLEAN \<and> frm = AUDITING) \<or> (to = REGISTERED \<and> frm = AUDITING) \<or> (to = REMEDIATING \<and> frm = FINDINGS)
    \<or> (to = SUPERSEDED \<and> frm = REMEDIATING) \<or> (to = CANARY \<and> frm = CLEAN) \<or> (to = VERIFYING \<and> frm = CANARY)
    \<or> (to = APPROVED \<and> frm = VERIFYING) \<or> (to = REJECTED \<and> frm \<in> {VERIFYING, APPROVED})
    \<or> (to = RELEASED \<and> frm = APPROVED) \<or> (to = ROLLED_BACK \<and> frm = RELEASED)
    \<or> (to = KILLED \<and> frm \<in> set KILLABLE)"
  by (cases to; cases frm; simp add: TRANSITIONS_def KILLABLE_def)

lemma check_step_transition: "check_step frm to w = Inr () \<Longrightarrow> \<exists>p. map_of TRANSITIONS (frm, to) = Some p"
  by (auto simp: check_step_def split: option.splits)

text \<open>The states a version has been in, oldest first, when every step passed the check.\<close>

inductive history :: "vstate list \<Rightarrow> bool" where
  start: "history [REGISTERED]"
| step: "history h \<Longrightarrow> check_step (last h) to w = Inr () \<Longrightarrow> history (h @ [to])"

inductive_cases history_snocE: "history (h @ [s])"

lemma history_ne: "history h \<Longrightarrow> h \<noteq> []"
  by (induction rule: history.induct) auto

lemma history_last:
  assumes "history h" "last h = s" "s \<noteq> REGISTERED"
  obtains h' where "history h'" "h = h' @ [s]" "\<exists>p. map_of TRANSITIONS (last h', s) = Some p"
  using assms by (cases rule: history.cases) (auto dest: check_step_transition)

lemma history_pred:
  assumes "history h" "last h = s" "s \<noteq> REGISTERED"
    and "\<And>frm p. map_of TRANSITIONS (frm, s) = Some p \<Longrightarrow> frm = q"
  obtains h' where "history h'" "h = h' @ [s]" "last h' = q"
  using assms by (metis history_last)


text \<open>
  The end states: exactly superseded, rolled back, rejected and killed have no next state, and
  whoever acts, a version in one of them stays there.
\<close>

theorem terminal_states:
  "(next_states s = [] \<longleftrightarrow> s \<in> {SUPERSEDED, ROLLED_BACK, REJECTED, KILLED}) \<and>
   (s \<in> {SUPERSEDED, ROLLED_BACK, REJECTED, KILLED} \<longrightarrow> (\<forall>to w. \<exists>e. check_step s to w = Inl e))"
proof (rule conjI)
  have "next_states s = [] \<longleftrightarrow> filter (\<lambda>((frm, _), _). frm = s) TRANSITIONS = []"
    by (metis (no_types, lifting) list.map_disc_iff next_states_def remdups_eq_nil_iff set_empty set_sort)
  then show "next_states s = [] \<longleftrightarrow> s \<in> {SUPERSEDED, ROLLED_BACK, REJECTED, KILLED}"
    by (cases s) (simp_all add: TRANSITIONS_def KILLABLE_def)
next
  have "map_of TRANSITIONS (s, to) = None" if "s \<in> {SUPERSEDED, ROLLED_BACK, REJECTED, KILLED}" for to
    using that transition_cases [of s to] by (cases "map_of TRANSITIONS (s, to)") (auto simp: KILLABLE_def)
  then show "s \<in> {SUPERSEDED, ROLLED_BACK, REJECTED, KILLED} \<longrightarrow> (\<forall>to w. \<exists>e. check_step s to w = Inl e)"
    by (simp add: check_step_def)
qed

text \<open>
  C16. Separation of duties: without a super admin or the platform itself, the person who puts a
  version up for verification and the person who approves it have different roles, and neither of
  the roles that run audits approves or releases.
\<close>

theorem separation_of_duties:
  assumes "check_step CANARY VERIFYING a = Inr ()" "check_step VERIFYING APPROVED b = Inr ()"
    and "check_step REGISTERED AUDITING d = Inr ()" "check_step APPROVED RELEASED e = Inr ()"
    and "\<forall>w \<in> {a, b, d, e}. \<not> wh_super_admin w \<and> \<not> wh_system w"
  shows "wh_role a \<noteq> wh_role b \<and> wh_role d \<noteq> wh_role b \<and> wh_role d \<noteq> wh_role e \<and> wh_role a \<noteq> wh_role e"
proof -
  have perm: "\<exists>r. wh_role w = Some r \<and> p \<in> set (ROLE_PERMISSIONS r)"
    if "check_step frm to w = Inr ()" "map_of TRANSITIONS (frm, to) = Some (Some p)" "\<not> wh_super_admin w" "\<not> wh_system w"
    for frm to w p
    using that by (auto simp: check_step_def allowed_def split: if_splits option.splits)
  have tr: "map_of TRANSITIONS (CANARY, VERIFYING) = Some (Some DEV_ENDPOINTS)"
    "map_of TRANSITIONS (VERIFYING, APPROVED) = Some (Some APPROVALS_DECIDE)"
    "map_of TRANSITIONS (REGISTERED, AUDITING) = Some (Some AUDITS_RUN)"
    "map_of TRANSITIONS (APPROVED, RELEASED) = Some (Some RELEASES_MANAGE)"
    by (simp_all add: TRANSITIONS_def)
  obtain ra rb rd re where r: "wh_role a = Some ra" "wh_role b = Some rb" "wh_role d = Some rd" "wh_role e = Some re"
    and p: "DEV_ENDPOINTS \<in> set (ROLE_PERMISSIONS ra)" "APPROVALS_DECIDE \<in> set (ROLE_PERMISSIONS rb)"
      "AUDITS_RUN \<in> set (ROLE_PERMISSIONS rd)" "RELEASES_MANAGE \<in> set (ROLE_PERMISSIONS re)"
    using perm [OF assms(1) tr(1)] perm [OF assms(2) tr(2)] perm [OF assms(3) tr(3)] perm [OF assms(4) tr(4)] assms(5)
    by auto
  have "ra \<noteq> rb" using p(1,2) by (cases ra) (auto simp: READ_PERMISSIONS_def)
  moreover have "rd \<noteq> rb" using p(3,2) by (cases rd) (auto simp: READ_PERMISSIONS_def)
  moreover have "rd \<noteq> re" using p(3,4) by (cases rd) (auto simp: READ_PERMISSIONS_def)
  moreover have "ra \<noteq> re" using p(1,4) by (cases ra) (auto simp: READ_PERMISSIONS_def)
  ultimately show ?thesis by (simp add: r)
qed

text \<open>
  The kill switch reaches every state a version can have after its first audit and before an end
  state, remediation and re-audit in progress apart: exactly these states have a step to killed.
\<close>

theorem kill_switch_states:
  "map_of TRANSITIONS (s, KILLED) = (if s \<in> {REGISTERED, AUDITING, REMEDIATING} \<union> {SUPERSEDED, ROLLED_BACK, REJECTED, KILLED}
     then None else Some (Some KILL_SWITCH))"
  by (cases s) (simp_all add: TRANSITIONS_def KILLABLE_def)

section \<open>Moving a version\<close>

lemma move_run:
  "move c v to w reason wd = (case check_step (mv_state v) to w of
      Inl e \<Rightarrow> (Inl e, wd)
    | Inr _ \<Rightarrow> (let db = w_db wd;
          db1 = db\<lparr> db_versions := update_where (\<lambda>r. mv_id r = mv_id v) (\<lambda>r. r\<lparr> mv_state := to \<rparr>) (db_versions db) \<rparr>;
          ev = make_event c db1 (mv_tenant_id v) (wh_actor w) (''version.'' @ state_value to) ''model_version'' (mv_id v)
            [(''from'', JStr (state_value (mv_state v))), (''to'', JStr (state_value to)), (''reason'', JStr reason)]
            (su_now (w_supply wd) (w_drawn wd))
        in (Inr (v\<lparr> mv_state := to \<rparr>),
            wd\<lparr> w_drawn := Suc (w_drawn wd), w_db := db1\<lparr> db_events := db_events db @ [ev] \<rparr> \<rparr>)))"
  by (simp add: move_def lifecycle_check_def set_version_def db_modify_def act_core record_event_run Let_def
      split: sum.splits)

text \<open>
  A move is all or nothing: it raises and changes nothing, or the step is in the table and the
  actor may make it, exactly the rows with the version's id get the new state and nothing else of
  theirs or of another row changes, and one event with both states goes to the tenant's log.
\<close>

theorem move_effect:
  "case move c v to w reason wd of
     (Inl e, wd') \<Rightarrow> wd' = wd \<and> check_step (mv_state v) to w = Inl e
   | (Inr v', wd') \<Rightarrow> check_step (mv_state v) to w = Inr () \<and> v' = v\<lparr> mv_state := to \<rparr>
       \<and> db_versions (w_db wd') = map (\<lambda>r. if mv_id r = mv_id v then r\<lparr> mv_state := to \<rparr> else r) (db_versions (w_db wd))
       \<and> (\<exists>ev. chain (w_db wd') (mv_tenant_id v) = chain (w_db wd) (mv_tenant_id v) @ [ev]
            \<and> ae_actor ev = at_label (wh_actor w) \<and> ae_target_id ev = mv_id v
            \<and> map_of (ae_details ev) ''from'' = Some (JStr (state_value (mv_state v)))
            \<and> map_of (ae_details ev) ''to'' = Some (JStr (state_value to)))"
proof (cases "check_step (mv_state v) to w")
  case (Inl e)
  then show ?thesis by (simp add: move_run)
next
  case (Inr u)
  define db1 where "db1 = (w_db wd)\<lparr> db_versions := update_where (\<lambda>r. mv_id r = mv_id v) (\<lambda>r. r\<lparr> mv_state := to \<rparr>)
    (db_versions (w_db wd)) \<rparr>"
  define ev where "ev = make_event c db1 (mv_tenant_id v) (wh_actor w) (''version.'' @ state_value to) ''model_version'' (mv_id v)
    [(''from'', JStr (state_value (mv_state v))), (''to'', JStr (state_value to)), (''reason'', JStr reason)]
    (su_now (w_supply wd) (w_drawn wd))"
  have "chain (db1\<lparr> db_events := db_events db1 @ [ev] \<rparr>) (mv_tenant_id v) = chain (w_db wd) (mv_tenant_id v) @ [ev]"
    by (subst chain_record [OF ev_def]) (simp add: db1_def chain_def)
  moreover have "ae_actor ev = at_label (wh_actor w)" "ae_target_id ev = mv_id v"
    "ae_details ev = [(''from'', JStr (state_value (mv_state v))), (''to'', JStr (state_value to)), (''reason'', JStr reason)]"
    by (simp_all add: ev_def make_event_def Let_def)
  ultimately have ev: "\<exists>ev'. chain (db1\<lparr> db_events := db_events db1 @ [ev] \<rparr>) (mv_tenant_id v) = chain (w_db wd) (mv_tenant_id v) @ [ev']
      \<and> ae_actor ev' = at_label (wh_actor w) \<and> ae_target_id ev' = mv_id v
      \<and> map_of (ae_details ev') ''from'' = Some (JStr (state_value (mv_state v)))
      \<and> map_of (ae_details ev') ''to'' = Some (JStr (state_value to))"
    by (intro exI [of _ ev]) simp
  have "db_events (w_db wd) = db_events db1"
    "map (\<lambda>r. if mv_id r = mv_id v then r\<lparr> mv_state := to \<rparr> else r) (db_versions (w_db wd)) = db_versions db1"
    by (simp_all add: db1_def update_where_def)
  then have "move c v to w reason wd = (Inr (v\<lparr> mv_state := to \<rparr>),
      wd\<lparr> w_drawn := Suc (w_drawn wd), w_db := db1\<lparr> db_events := db_events db1 @ [ev] \<rparr> \<rparr>)"
    unfolding move_run Inr Let_def db1_def [symmetric] ev_def [symmetric] by simp
  with ev Inr \<open>map _ _ = db_versions db1\<close> show ?thesis by simp
qed

lemma log_ok_set_version [db_rules]: "db_preserves (log_ok c) (set_version i f)"
  unfolding set_version_def by (rule log_ok_modify) simp

lemma log_ok_set_job [db_rules]: "db_preserves (log_ok c) (set_job i f)"
  unfolding set_job_def by (rule log_ok_modify) simp

lemma move_log_ok [db_rules]: "db_preserves (log_ok c) (move c v to w reason)"
  unfolding move_def lifecycle_check_def by (intro db_rules)

lemma jobs_log_ok [db_rules]:
  "db_preserves (log_ok c) (enqueue c t k p a n)"
  "db_preserves (log_ok c) (claim c wk ks)"
  "db_preserves (log_ok c) (finish c j r)"
  "db_preserves (log_ok c) (fail c j e)"
  unfolding enqueue_def claim_def finish_def fail_def by (intro db_rules)+

section \<open>The queue's invariant\<close>

text \<open>
  A queued job has attempts left, and no job was ever started more often than it may be.
\<close>

definition job_ok :: "job \<Rightarrow> bool" where
  "job_ok j \<longleftrightarrow> jb_attempts j \<le> jb_max_attempts j \<and> (jb_status j = QUEUED \<longrightarrow> jb_attempts j < jb_max_attempts j)"

definition jobs_ok :: "database \<Rightarrow> bool" where
  "jobs_ok db \<longleftrightarrow> distinct (map jb_id (db_jobs db)) \<and> list_all job_ok (db_jobs db)"

lemma jobs_ok_cong: "db_jobs db' = db_jobs db \<Longrightarrow> jobs_ok db' = jobs_ok db"
  by (simp add: jobs_ok_def)

lemma jobs_ok_record [db_rules]: "db_preserves jobs_ok (record_event c t w a tt ti d)"
  unfolding db_preserves_def
  by (rule preservesI) (simp add: record_event_run Let_def jobs_ok_def)

lemma map_update_where: "(\<And>r. key (f r) = key r) \<Longrightarrow> map key (update_where P f rs) = map key rs"
  by (induction rs) (auto simp: update_where_def)

lemma jobs_ok_set_job:
  assumes "\<And>r. jb_id (f r) = jb_id r" "\<And>r. job_ok r \<Longrightarrow> job_ok (f r)"
  shows "db_preserves jobs_ok (set_job i f)"
  unfolding set_job_def
proof (rule db_db_modify)
  fix db
  assume "jobs_ok db"
  moreover have "list_all job_ok (update_where (\<lambda>r. jb_id r = i) f js)" if "list_all job_ok js" for js
    using that assms(2) by (auto simp: list_all_iff update_where_def)
  ultimately show "jobs_ok (db\<lparr> db_jobs := update_where (\<lambda>r. jb_id r = i) f (db_jobs db) \<rparr>)"
    using assms(1) by (simp add: jobs_ok_def map_update_where)
qed

lemma enqueue_jobs_ok: "0 < n \<Longrightarrow> db_preserves jobs_ok (enqueue c t k p a n)"
  unfolding enqueue_def insert_job_def Let_def
  by (intro db_rules db_insert_row) (auto simp: jobs_ok_def job_ok_def list_ex_iff)

lemma finish_jobs_ok: "db_preserves jobs_ok (finish c j r)"
  unfolding finish_def by (intro db_rules jobs_ok_set_job) (auto simp: job_ok_def)

lemma fail_jobs_ok: "db_preserves jobs_ok (fail c j e)"
  unfolding fail_def by (intro db_rules jobs_ok_set_job) (auto simp: job_ok_def will_retry_def)

lemma next_job_Some:
  "next_job ks db = Some j \<Longrightarrow> j \<in> set (db_jobs db) \<and> jb_status j = QUEUED \<and> jb_kind j \<in> set ks \<and>
     (\<forall>k \<in> set (db_jobs db). jb_status k = QUEUED \<and> jb_kind k \<in> set ks \<longrightarrow> jb_created_at j \<le> jb_created_at k)"
proof -
  let ?q = "filter (\<lambda>j. jb_status j = QUEUED \<and> jb_kind j \<in> set ks) (db_jobs db)"
  assume "next_job ks db = Some j"
  then obtain js where js: "sort_key jb_created_at ?q = j # js"
    by (auto simp: next_job_def split: list.splits)
  then have set: "set ?q = set (j # js)" by (metis set_sort)
  have "sorted (map jb_created_at (j # js))" by (metis js sorted_sort_key)
  then have "\<forall>k \<in> set ?q. jb_created_at j \<le> jb_created_at k" unfolding set by auto
  moreover have "j \<in> set ?q" unfolding set by simp
  ultimately show ?thesis by auto
qed

lemma claim_jobs_ok: "db_preserves jobs_ok (claim c wk ks)"
proof -
  have "jobs_ok (w_db (snd (claim c wk ks w)))" if ok: "jobs_ok (w_db w)" for w
  proof (cases "next_job ks (w_db w)")
    case None
    with ok show ?thesis by (simp add: claim_def db_gets_def act_core)
  next
    case (Some j)
    have "job_ok j" "jb_status j = QUEUED" and j: "j \<in> set (db_jobs (w_db w))"
      using next_job_Some [OF Some] ok by (auto simp: jobs_ok_def list_all_iff)
    then have ok': "job_ok (claimed wk t j)" for t by (simp add: job_ok_def claimed_def)
    have same: "r = j" if "r \<in> set (db_jobs (w_db w))" "jb_id r = jb_id j" for r
      using that j ok by (auto simp: jobs_ok_def distinct_map inj_on_def)
    have "list_all job_ok (update_where (\<lambda>r. jb_id r = jb_id j) (claimed wk t) (db_jobs (w_db w)))" for t
      using ok ok' same by (auto simp: list_all_iff update_where_def jobs_ok_def)
    moreover have "map jb_id (update_where (\<lambda>r. jb_id r = jb_id j) (claimed wk t) rs) = map jb_id rs" for t rs
      by (rule map_update_where) (simp add: claimed_def)
    ultimately show ?thesis
      using ok by (simp add: claim_def db_gets_def now_def draw_def act_core Some set_job_def db_modify_def
          record_event_run Let_def jobs_ok_def)
  qed
  then show ?thesis by (simp add: db_preserves_def preserves_def)
qed

lemmas jobs_ok_operations = enqueue_jobs_ok claim_jobs_ok finish_jobs_ok fail_jobs_ok

text \<open>
  Bounded retries: enqueueing, claiming, finishing and failing keep the queue's invariant, so no
  job is ever started more often than its \<^verbatim>\<open>max_attempts\<close> and a job that is queued can still be
  started.
\<close>

theorem queue_invariant:
  assumes "0 < n"
  shows "db_preserves jobs_ok (enqueue c t k p a n) \<and> db_preserves jobs_ok (claim c wk ks)
    \<and> db_preserves jobs_ok (finish c j r) \<and> db_preserves jobs_ok (fail c j e)"
  using assms by (simp add: jobs_ok_operations)

text \<open>
  A claim takes the oldest queued job of the wanted kinds, if there is one, marks it running for
  the worker and counts the attempt; an empty queue is left as it is.
\<close>

theorem claim_oldest:
  "case claim c wk ks w of
     (Inl e, _) \<Rightarrow> False
   | (Inr None, w') \<Rightarrow> w' = w \<and> \<not> (\<exists>j \<in> set (db_jobs (w_db w)). jb_status j = QUEUED \<and> jb_kind j \<in> set ks)
   | (Inr (Some j'), w') \<Rightarrow> \<exists>j t. j \<in> set (db_jobs (w_db w)) \<and> j' = claimed wk t j \<and> j' \<in> set (db_jobs (w_db w'))
       \<and> jb_status j = QUEUED \<and> jb_kind j \<in> set ks
       \<and> \<not> (\<exists>k \<in> set (db_jobs (w_db w)). jb_status k = QUEUED \<and> jb_kind k \<in> set ks \<and> jb_created_at k < jb_created_at j)"
proof (cases "next_job ks (w_db w)")
  case None
  then have "filter (\<lambda>j. jb_status j = QUEUED \<and> jb_kind j \<in> set ks) (db_jobs (w_db w)) = []"
    by (auto simp: next_job_def split: list.splits) (metis set_empty set_sort)
  with None show ?thesis by (simp add: claim_def db_gets_def act_core filter_empty_conv)
next
  case (Some j)
  note j = next_job_Some [OF Some]
  have "claimed wk t j \<in> set (update_where (\<lambda>r. jb_id r = jb_id j) (claimed wk t) (db_jobs (w_db w)))" for t
    using j by (force simp: update_where_def)
  then show ?thesis
    using j by (simp add: claim_def db_gets_def now_def draw_def act_core Some set_job_def db_modify_def
        record_event_run Let_def) fastforce
qed

section \<open>Examples\<close>

definition example_who :: "role \<Rightarrow> who" where
  "example_who r = \<lparr> wh_actor = SYSTEM, wh_role = Some r, wh_super_admin = False, wh_system = False \<rparr>"

definition example_system :: who where
  "example_system = \<lparr> wh_actor = SYSTEM, wh_role = None, wh_super_admin = False, wh_system = True \<rparr>"

lemma example_steps:
  "check_step REGISTERED AUDITING (example_who ML_ENGINEER) = Inr ()"
  "check_step AUDITING CLEAN example_system = Inr ()"
  "check_step CLEAN CANARY (example_who CANARY_TESTER) = Inr ()"
  "check_step CANARY VERIFYING (example_who CANARY_TESTER) = Inr ()"
  "check_step VERIFYING APPROVED (example_who COMPLIANCE_AUDITOR) = Inr ()"
  "check_step APPROVED RELEASED (example_who ORG_ADMIN) = Inr ()"
  by (simp_all add: check_step_def TRANSITIONS_def allowed_def READ_PERMISSIONS_def example_who_def example_system_def)


theorem terminal_states_witness: "\<exists>e. check_step KILLED RELEASED example_system = Inl e"
  using terminal_states [of KILLED] by simp

theorem separation_of_duties_witness:
  "wh_role (example_who CANARY_TESTER) \<noteq> wh_role (example_who COMPLIANCE_AUDITOR)
   \<and> wh_role (example_who ML_ENGINEER) \<noteq> wh_role (example_who ORG_ADMIN)"
  using separation_of_duties [OF example_steps(4) example_steps(5) example_steps(1) example_steps(6)]
  by (simp add: example_who_def)

theorem queue_invariant_witness:
  "jobs_ok (w_db (snd (enqueue example_crypto ''t'' ''audit'' [] SYSTEM 3 example_world)))"
proof -
  have "jobs_ok (w_db example_world)" by (simp add: jobs_ok_def example_world_def empty_db_def)
  with queue_invariant [of 3 example_crypto "''t''" "''audit''" "[]" SYSTEM] show ?thesis
    by (simp add: db_preservesD)
qed

end
