(* ===== verification/MP_Security.thy ===== *)
theory MP_Security
  imports MP_Models
begin

text \<open>
  Passwords, tokens, envelope encryption and the sign-in throttle (\<^verbatim>\<open>platform/security.py\<close>) and the
  encrypted object store (\<^verbatim>\<open>platform/storage.py\<close>). AES-GCM, Argon2 and JWT are the fields of a
  \<open>seclib\<close> parameter; random bytes come from the world. The two stores keep objects under a
  checked key, in a directory or a bucket; both are the same map from keys to bytes here.
\<close>

record seclib =
  s_aes_encrypt :: "bytes \<Rightarrow> bytes \<Rightarrow> bytes \<Rightarrow> bytes \<Rightarrow> bytes"         \<comment> \<open>key, nonce, data, context\<close>
  s_aes_decrypt :: "bytes \<Rightarrow> bytes \<Rightarrow> bytes \<Rightarrow> bytes \<Rightarrow> bytes option"
  s_argon_hash :: "bytes \<Rightarrow> string \<Rightarrow> string"                       \<comment> \<open>salt, password\<close>
  s_argon_verify :: "string \<Rightarrow> string \<Rightarrow> bool option"               \<comment> \<open>None: it raised\<close>
  s_jwt_encode :: "json dict \<Rightarrow> string \<Rightarrow> string"
  s_jwt_decode :: "string \<Rightarrow> string \<Rightarrow> int \<Rightarrow> json dict option"       \<comment> \<open>token, secret, time\<close>

section \<open>Passwords, tokens, encryption\<close>

definition NONCE_BYTES :: nat where "NONCE_BYTES = 12"

definition KEY_BYTES :: nat where "KEY_BYTES = 32"

definition SALT_BYTES :: nat where "SALT_BYTES = 16"

definition urandom :: "nat \<Rightarrow> bytes M" where
  "urandom n = draw (\<lambda>su i. su_random su i n)"

definition hash_password :: "seclib \<Rightarrow> string \<Rightarrow> string M" where
  "hash_password lib password = bnd (urandom SALT_BYTES) (\<lambda>salt. ret (s_argon_hash lib salt password))"

definition verify_password :: "seclib \<Rightarrow> string \<Rightarrow> string \<Rightarrow> bool" where
  "verify_password lib password_hash password =
     (case s_argon_verify lib password_hash password of None \<Rightarrow> False | Some b \<Rightarrow> b)"

text \<open>Times are seconds; \<open>exp\<close> lies \<open>minutes\<close> after \<open>iat\<close>.\<close>

definition issue_token :: "seclib \<Rightarrow> string \<Rightarrow> bool \<Rightarrow> string \<Rightarrow> int \<Rightarrow> string M" where
  "issue_token lib user_id super_admin secret minutes = bnd now (\<lambda>issued.
     ret (s_jwt_encode lib [(''sub'', JStr user_id), (''sa'', JBool super_admin),
       (''iat'', JInt issued), (''exp'', JInt (issued + 60 * minutes))] secret))"

definition read_token :: "seclib \<Rightarrow> string \<Rightarrow> string \<Rightarrow> json dict M" where
  "read_token lib token secret = bnd now (\<lambda>t.
     (case s_jwt_decode lib token secret t of
        Some claims \<Rightarrow> if map_of claims ''sub'' = None \<or> map_of claims ''exp'' = None then raise TokenError
                       else ret claims
      | None \<Rightarrow> raise TokenError))"

definition encrypt :: "seclib \<Rightarrow> bytes \<Rightarrow> bytes \<Rightarrow> bytes \<Rightarrow> bytes M" where
  "encrypt lib key plaintext context =
     bnd (urandom NONCE_BYTES) (\<lambda>nonce. ret (nonce @ s_aes_encrypt lib key nonce plaintext context))"

definition decrypt :: "seclib \<Rightarrow> bytes \<Rightarrow> bytes \<Rightarrow> bytes \<Rightarrow> bytes M" where
  "decrypt lib key blob context =
     (case s_aes_decrypt lib key (take NONCE_BYTES blob) (drop NONCE_BYTES blob) context of
        Some p \<Rightarrow> ret p | None \<Rightarrow> raise DecryptionError)"

definition new_data_key :: "bytes M" where
  "new_data_key = urandom KEY_BYTES"

definition wrap_key :: "seclib \<Rightarrow> bytes \<Rightarrow> bytes \<Rightarrow> string \<Rightarrow> bytes M" where
  "wrap_key lib master data_key tenant_id = encrypt lib master data_key (''tenant-key:'' @ tenant_id)"

definition unwrap_key :: "seclib \<Rightarrow> bytes \<Rightarrow> bytes \<Rightarrow> string \<Rightarrow> bytes M" where
  "unwrap_key lib master wrapped tenant_id = decrypt lib master wrapped (''tenant-key:'' @ tenant_id)"

text \<open>\<^verbatim>\<open>hmac.new(key, msg, hashlib.sha256).digest()\<close>, as RFC 2104 defines it over a 64-byte block.\<close>

definition xor_byte :: "nat \<Rightarrow> char \<Rightarrow> char" where
  "xor_byte b x = char_of (Bit_Operations.xor (of_char x) b)"

definition hmac_sha256 :: "crypto \<Rightarrow> bytes \<Rightarrow> bytes \<Rightarrow> bytes" where
  "hmac_sha256 c key msg =
     (let k = (if 64 < length key then c_sha256 c key else key);
          block = k @ replicate (64 - length k) (CHR 0x00)
      in c_sha256 c (map (xor_byte 0x5C) block @ c_sha256 c (map (xor_byte 0x36) block @ msg)))"

section \<open>The sign-in throttle\<close>

record throttle =
  th_account :: int
  th_client :: int
  th_window :: rat

definition login_throttle :: "int \<Rightarrow> int \<Rightarrow> rat \<Rightarrow> throttle" where
  "login_throttle per_account per_client window =
     \<lparr> th_account = per_account, th_client = per_client, th_window = window \<rparr>"

definition account_key :: "string \<Rightarrow> string" where "account_key email = ''account:'' @ email"

definition client_key :: "string \<Rightarrow> string" where "client_key client = ''client:'' @ client"

definition throttle_keys :: "throttle \<Rightarrow> string \<Rightarrow> string \<Rightarrow> (int \<times> string) list" where
  "throttle_keys th email client =
     [(th_account th, account_key email), (th_client th, client_key client)]"

text \<open>\<^verbatim>\<open>self._failures[key]\<close> on a \<^verbatim>\<open>defaultdict(deque)\<close>.\<close>

definition failures_at :: "rat list dict \<Rightarrow> string \<Rightarrow> rat list" where
  "failures_at fs key = (case map_of fs key of None \<Rightarrow> [] | Some ts \<Rightarrow> ts)"

definition purge :: "throttle \<Rightarrow> rat \<Rightarrow> rat list \<Rightarrow> rat list" where
  "purge th tm ts = dropWhile (\<lambda>t. t \<le> tm - th_window th) ts"

definition throttle_step :: "throttle \<Rightarrow> rat \<Rightarrow> int \<times> string \<Rightarrow> rat \<times> rat list dict \<Rightarrow> rat \<times> rat list dict" where
  "throttle_step th tm = (\<lambda>(limit, key) (wait, fs).
     if limit \<le> 0 then (wait, fs)
     else let ts = purge th tm (failures_at fs key) in
       (if limit \<le> int (length ts) then max wait (hd ts + th_window th - tm) else wait,
        AList.update key ts fs))"

definition retry_after :: "throttle \<Rightarrow> string \<Rightarrow> string \<Rightarrow> rat \<Rightarrow> rat list dict \<Rightarrow> int \<times> rat list dict" where
  "retry_after th email client tm fs =
     (case fold (throttle_step th tm) (throttle_keys th email client) (0, fs) of
        (wait, fs') \<Rightarrow> (if 0 < wait then floor wait + 1 else 0, fs'))"

definition failed :: "throttle \<Rightarrow> string \<Rightarrow> string \<Rightarrow> rat \<Rightarrow> rat list dict \<Rightarrow> rat list dict" where
  "failed th email client tm fs =
     fold (\<lambda>(_, key) fs. AList.update key (failures_at fs key @ [tm]) fs) (throttle_keys th email client) fs"

definition succeeded :: "string \<Rightarrow> rat list dict \<Rightarrow> rat list dict" where
  "succeeded email fs = AList.delete (account_key email) fs"

section \<open>The object store\<close>

definition safe_key :: "string \<Rightarrow> exn + string" where
  "safe_key key = (let parts = filter (\<lambda>p. p \<noteq> []) (py_split (CHR ''/'') key) in
     if parts = [] \<or> list_ex (\<lambda>p. p = ''.'' \<or> p = ''..'') parts then Inl (StorageError ''invalid object key'')
     else Inr (py_join ''/'' parts))"

definition store_put :: "string \<Rightarrow> bytes \<Rightarrow> unit M" where
  "store_put key data = bnd (of_result (safe_key key)) (\<lambda>k.
     modify (\<lambda>w. w\<lparr> w_objects := AList.update k data (w_objects w) \<rparr>))"

definition store_get :: "string \<Rightarrow> bytes M" where
  "store_get key = bnd (of_result (safe_key key)) (\<lambda>k. bnd (gets w_objects) (\<lambda>os.
     case map_of os k of None \<Rightarrow> raise (StorageError ''object not found'') | Some data \<Rightarrow> ret data))"

definition store_delete :: "string \<Rightarrow> unit M" where
  "store_delete key = bnd (of_result (safe_key key)) (\<lambda>k.
     modify (\<lambda>w. w\<lparr> w_objects := AList.delete k (w_objects w) \<rparr>))"

record tenant_store =
  ts_tenant_id :: string
  ts_key :: bytes

definition ts_object_key :: "tenant_store \<Rightarrow> string \<Rightarrow> exn + string" where
  "ts_object_key st key = (case safe_key key of Inl e \<Rightarrow> Inl e | Inr k \<Rightarrow> Inr (ts_tenant_id st @ ''/'' @ k))"

definition ts_context :: "tenant_store \<Rightarrow> string \<Rightarrow> exn + bytes" where
  "ts_context st key = (case ts_object_key st key of Inl e \<Rightarrow> Inl e | Inr k \<Rightarrow> Inr (''object:'' @ k))"

definition ts_put :: "seclib \<Rightarrow> tenant_store \<Rightarrow> string \<Rightarrow> bytes \<Rightarrow> string M" where
  "ts_put lib st key data =
     bnd (of_result (ts_object_key st key)) (\<lambda>k. bnd (of_result (ts_context st key)) (\<lambda>ctx.
     bnd (encrypt lib (ts_key st) data ctx) (\<lambda>blob. andthen (store_put k blob) (ret key))))"

definition ts_get :: "seclib \<Rightarrow> tenant_store \<Rightarrow> string \<Rightarrow> bytes M" where
  "ts_get lib st key =
     bnd (of_result (ts_object_key st key)) (\<lambda>k. bnd (store_get k) (\<lambda>blob.
     bnd (of_result (ts_context st key)) (\<lambda>ctx. decrypt lib (ts_key st) blob ctx)))"

definition ts_delete :: "tenant_store \<Rightarrow> string \<Rightarrow> unit M" where
  "ts_delete st key = bnd (of_result (ts_object_key st key)) store_delete"

section \<open>The throttle limits guessing\<close>

text \<open>The account's list of failures, before and after \<open>retry_after\<close>.\<close>

lemma account_not_client: "account_key email \<noteq> client_key client"
  by (simp add: account_key_def client_key_def)

lemma failures_at_update: "failures_at (AList.update k v fs) k' = (if k' = k then v else failures_at fs k')"
  by (simp add: failures_at_def update_conv')

lemma failures_at_failed: "failures_at (failed th email client tm fs) (account_key email) = failures_at fs (account_key email) @ [tm]"
  using account_not_client by (simp add: failed_def throttle_keys_def failures_at_update)

lemma retry_after_account:
  assumes "0 < th_account th" "retry_after th email client tm fs = (r, fs')"
  shows "failures_at fs' (account_key email) = purge th tm (failures_at fs (account_key email))"
  using assms account_not_client [of email client]
  by (auto simp: retry_after_def throttle_keys_def throttle_step_def failures_at_update Let_def split: if_splits)

lemma purge_hd: "purge th tm ts = t # ts' \<Longrightarrow> tm - th_window th < t"
  by (induction ts) (auto simp: purge_def split: if_splits)

lemma retry_after_zero:
  assumes "0 < th_account th" "retry_after th email client tm fs = (0, fs')"
  shows "int (length (purge th tm (failures_at fs (account_key email)))) < th_account th"
proof (rule ccontr)
  let ?ts = "purge th tm (failures_at fs (account_key email))"
  assume "\<not> ?thesis"
  then have ge: "th_account th \<le> int (length ?ts)" by simp
  then obtain t ts' where t: "?ts = t # ts'" using assms(1) by (cases ?ts) auto
  then have pos: "0 < t + th_window th - tm" using purge_hd [OF t] by simp
  then have "0 < fst (fold (throttle_step th tm) (throttle_keys th email client) (0, fs))"
    using assms(1) ge t by (auto simp: throttle_keys_def throttle_step_def Let_def max_def split: prod.splits)
  then have "0 < fst (retry_after th email client tm fs)"
    by (auto simp: retry_after_def split: prod.splits)
  with assms(2) show False by simp
qed

text \<open>
  Guessing one account's password: at each time, from some address, the attempt goes through if the
  throttle says so, fails and is recorded; otherwise it is refused. The times of the attempts that
  went through are returned, newest last.
\<close>

fun guesses :: "throttle \<Rightarrow> string \<Rightarrow> (rat \<times> string) list \<Rightarrow> rat list dict \<Rightarrow> rat list" where
  "guesses th email [] fs = []"
| "guesses th email ((tm, client) # rest) fs =
     (case retry_after th email client tm fs of
        (r, fs') \<Rightarrow> if r = 0 then tm # guesses th email rest (failed th email client tm fs')
                    else guesses th email rest fs')"

definition in_window :: "rat \<Rightarrow> rat \<Rightarrow> rat list \<Rightarrow> nat" where
  "in_window W x ts = length (filter (\<lambda>t. x - W < t \<and> t \<le> x) ts)"

lemma in_window_append: "in_window W x (a @ b) = in_window W x a + in_window W x b"
  by (simp add: in_window_def)

lemma in_window_le: "in_window W x ts \<le> length ts"
  by (simp add: in_window_def)

lemma in_window_old: "\<forall>t \<in> set ts. t \<le> y - W \<Longrightarrow> y \<le> x \<Longrightarrow> in_window W x ts = 0"
  by (induction ts) (auto simp: in_window_def)

lemma in_window_future: "\<forall>t \<in> set ts. x < t \<Longrightarrow> in_window W x ts = 0"
  by (induction ts) (auto simp: in_window_def)

lemma purge_split:
  assumes "sorted ts"
  shows "\<exists>old. ts = old @ purge th tm ts \<and> (\<forall>t \<in> set old. t \<le> tm - th_window th)"
  by (rule exI [of _ "takeWhile (\<lambda>t. t \<le> tm - th_window th) ts"]) (auto simp: purge_def dest: set_takeWhileD)

lemma guesses_bounded:
  assumes "0 < th_account th" "sorted (map fst as)"
    and "sorted ts" "\<forall>t \<in> set ts. \<forall>a \<in> set as. t \<le> fst a"
    and "suffix (failures_at fs (account_key email)) ts"
    and "\<forall>old. ts = old @ failures_at fs (account_key email) \<longrightarrow> (\<forall>t \<in> set old. \<forall>a \<in> set as. t \<le> fst a - th_window th)"
    and "\<forall>x. int (in_window (th_window th) x ts) \<le> th_account th"
  shows "int (in_window (th_window th) x (ts @ guesses th email as fs)) \<le> th_account th"
  using assms
proof (induction as arbitrary: ts fs)
  case Nil
  then show ?case by simp
next
  case (Cons a as)
  obtain tm client where a: "a = (tm, client)" by fastforce
  obtain r fs' where r: "retry_after th email client tm fs = (r, fs')" by fastforce
  let ?W = "th_window th"
  let ?F = "failures_at fs (account_key email)" and ?F' = "failures_at fs' (account_key email)"
  obtain old where old: "ts = old @ ?F" using Cons.prems(5) by (auto simp: suffix_def)
  have F': "?F' = purge th tm ?F" by (rule retry_after_account [OF Cons.prems(1) r])
  have sF: "sorted ?F" using Cons.prems(3) old by (metis sorted_append)
  obtain old2 where old2: "?F = old2 @ ?F'" "\<forall>t \<in> set old2. t \<le> tm - ?W"
    using purge_split [OF sF, of th tm] F' by metis
  have ts: "ts = (old @ old2) @ ?F'" using old old2(1) by simp
  have oldtimes: "\<forall>t \<in> set (old @ old2). t \<le> tm - ?W"
    using Cons.prems(6) old old2(2) a by auto
  have later: "tm \<le> fst b" if "b \<in> set as" for b using Cons.prems(2) that a by auto
  have oldlater: "\<forall>t \<in> set (old @ old2). \<forall>b \<in> set as. t \<le> fst b - ?W"
    using oldtimes later by (meson diff_right_mono order_trans)
  show ?case
  proof (cases "r = 0")
    case False
    have "int (in_window ?W x (ts @ guesses th email as fs')) \<le> th_account th"
    proof (rule Cons.IH [OF Cons.prems(1)])
      show "\<forall>old'. ts = old' @ ?F' \<longrightarrow> (\<forall>t \<in> set old'. \<forall>b \<in> set as. t \<le> fst b - ?W)"
      proof (intro allI impI)
        fix old'
        assume "ts = old' @ ?F'"
        with ts have "old' = old @ old2" by (metis append_same_eq)
        with oldlater show "\<forall>t \<in> set old'. \<forall>b \<in> set as. t \<le> fst b - ?W" by blast
      qed
    qed (use Cons.prems ts in \<open>auto simp: suffix_def\<close>)
    with False show ?thesis by (simp add: a r)
  next
    case True
    have len: "int (length ?F') < th_account th"
      using retry_after_zero [OF Cons.prems(1), of email client tm fs fs'] r True F' by simp
    let ?fs = "failed th email client tm fs'" and ?ts = "ts @ [tm]"
    have F2: "failures_at ?fs (account_key email) = ?F' @ [tm]" by (rule failures_at_failed)
    have le: "\<forall>t \<in> set ts. t \<le> tm" using Cons.prems(4) a by auto
    have bound: "int (in_window ?W y ?ts) \<le> th_account th" for y
    proof (cases "tm \<le> y")
      case True
      have "in_window ?W y ?ts = in_window ?W y (old @ old2) + in_window ?W y (?F' @ [tm])"
        by (subst ts) (simp add: in_window_append)
      moreover have "in_window ?W y (old @ old2) = 0" by (rule in_window_old [OF oldtimes True])
      moreover have "in_window ?W y (?F' @ [tm]) \<le> length ?F' + 1"
        using in_window_le [of ?W y "?F' @ [tm]"] by simp
      ultimately show ?thesis using len by linarith
    next
      case False
      then have "in_window ?W y [tm] = 0" by (intro in_window_future) auto
      then show ?thesis using Cons.prems(7) by (simp add: in_window_append)
    qed
    have "int (in_window ?W x (?ts @ guesses th email as ?fs)) \<le> th_account th"
    proof (rule Cons.IH [OF Cons.prems(1)])
      show "sorted ?ts" using Cons.prems(3) le by (simp add: sorted_append)
      show "suffix (failures_at ?fs (account_key email)) ?ts" unfolding F2 by (subst ts) (simp add: suffix_def)
      show "\<forall>old'. ?ts = old' @ failures_at ?fs (account_key email) \<longrightarrow> (\<forall>t \<in> set old'. \<forall>b \<in> set as. t \<le> fst b - ?W)"
      proof (intro allI impI)
        fix old'
        assume "?ts = old' @ failures_at ?fs (account_key email)"
        then have "old' @ ?F' = (old @ old2) @ ?F'" unfolding F2 ts [symmetric] by simp
        then have "old' = old @ old2" by (metis append_same_eq)
        with oldlater show "\<forall>t \<in> set old'. \<forall>b \<in> set as. t \<le> fst b - ?W" by blast
      qed
    qed (use Cons.prems le later bound in \<open>auto\<close>)
    with True show ?thesis by (simp add: a r)
  qed
qed


text \<open>What the throttle decides, in terms of the failures on record.\<close>

definition overdue :: "throttle \<Rightarrow> rat \<Rightarrow> rat list dict \<Rightarrow> int \<Rightarrow> string \<Rightarrow> rat" where
  "overdue th tm fs limit key = (let ts = purge th tm (failures_at fs key) in
     if 0 < limit \<and> limit \<le> int (length ts) then hd ts + th_window th - tm else 0)"

lemma overdue_nonneg: "0 \<le> overdue th tm fs limit key"
  and overdue_pos: "0 < overdue th tm fs limit key \<longleftrightarrow>
    0 < limit \<and> limit \<le> int (length (purge th tm (failures_at fs key)))"
  using purge_hd [of th tm "failures_at fs key"]
  by (cases "purge th tm (failures_at fs key)"; force simp: overdue_def Let_def)+

lemma throttle_step_overdue:
  "0 \<le> wait \<Longrightarrow> throttle_step th tm (limit, key) (wait, fs) =
     (max wait (overdue th tm fs limit key),
      if 0 < limit then AList.update key (purge th tm (failures_at fs key)) fs else fs)"
  by (simp add: throttle_step_def overdue_def Let_def)

lemma retry_after_run:
  "retry_after th email client tm fs =
     (let wait = max (overdue th tm fs (th_account th) (account_key email)) (overdue th tm fs (th_client th) (client_key client));
          fs1 = (if 0 < th_account th then AList.update (account_key email) (purge th tm (failures_at fs (account_key email))) fs else fs);
          fs2 = (if 0 < th_client th
                 then AList.update (client_key client) (purge th tm (failures_at fs (client_key client))) fs1 else fs1)
      in (if 0 < wait then floor wait + 1 else 0, fs2))"
proof -
  define fs1 where "fs1 = (if 0 < th_account th then AList.update (account_key email) (purge th tm (failures_at fs (account_key email))) fs else fs)"
  have "failures_at fs1 (client_key client) = failures_at fs (client_key client)"
    using account_not_client [of email client] by (simp add: failures_at_update fs1_def)
  then have "overdue th tm fs1 (th_client th) (client_key client) = overdue th tm fs (th_client th) (client_key client)"
    and "purge th tm (failures_at fs1 (client_key client)) = purge th tm (failures_at fs (client_key client))"
    by (simp_all add: overdue_def)
  moreover have "fold (throttle_step th tm) (throttle_keys th email client) (0, fs)
      = throttle_step th tm (th_client th, client_key client)
          (overdue th tm fs (th_account th) (account_key email), fs1)"
    using overdue_nonneg [of th tm fs "th_account th" "account_key email"]
    by (simp add: throttle_keys_def throttle_step_overdue fs1_def)
  ultimately show ?thesis
    using overdue_nonneg [of th tm fs "th_account th" "account_key email"]
    by (simp add: retry_after_def throttle_step_overdue Let_def fs1_def [symmetric])
qed

lemma purge_length: "length (purge th tm ts) \<le> length ts"
  by (simp add: purge_def length_dropWhile_le)

lemma overdue_after_wait:
  assumes "0 < limit \<longrightarrow> int (length (failures_at fs key)) \<le> limit"
    and "0 < limit \<longrightarrow> failures_at fs' key = purge th tm (failures_at fs key)"
    and "overdue th tm fs limit key \<le> d" "0 \<le> d"
  shows "\<not> 0 < overdue th (tm + d) fs' limit key"
proof
  assume "0 < overdue th (tm + d) fs' limit key"
  then have pos: "0 < limit" and ge: "limit \<le> int (length (purge th (tm + d) (failures_at fs' key)))"
    by (simp_all add: overdue_pos)
  let ?ts = "failures_at fs key"
  have fs': "failures_at fs' key = purge th tm ?ts" using assms(2) pos by simp
  have "limit \<le> int (length (purge th tm ?ts))"
    using ge purge_length [of th "tm + d" "purge th tm ?ts"] by (simp add: fs')
  moreover from this obtain t ts' where t: "purge th tm ?ts = t # ts'"
    using pos by (cases "purge th tm ?ts") auto
  ultimately have "t + th_window th - tm \<le> d" using assms(3) pos by (simp add: overdue_def Let_def)
  then have "purge th (tm + d) (t # ts') = purge th (tm + d) ts'" by (simp add: purge_def)
  with ge have "limit \<le> int (length ts')"
    using purge_length [of th "tm + d" ts'] by (simp add: fs' t)
  moreover have "length (purge th tm ?ts) \<le> length ?ts" by (rule purge_length)
  ultimately show False using assms(1) pos t by simp
qed

definition within_limits :: "throttle \<Rightarrow> string \<Rightarrow> string \<Rightarrow> rat list dict \<Rightarrow> bool" where
  "within_limits th email client fs \<longleftrightarrow>
     list_all (\<lambda>(limit, key). 0 < limit \<longrightarrow> int (length (failures_at fs key)) \<le> limit) (throttle_keys th email client)"


section \<open>Keys and tenants of the object store\<close>

definition segment :: "string \<Rightarrow> bool" where
  "segment p \<longleftrightarrow> p \<noteq> [] \<and> CHR ''/'' \<notin> set p \<and> p \<noteq> ''.'' \<and> p \<noteq> ''..''"

lemma safe_key_parts:
  assumes "safe_key key = Inr k"
  obtains parts where "parts \<noteq> []" "list_all segment parts" "k = py_join ''/'' parts"
proof -
  let ?parts = "filter (\<lambda>p. p \<noteq> []) (py_split (CHR ''/'') key)"
  have "?parts \<noteq> []" "\<not> list_ex (\<lambda>p. p = ''.'' \<or> p = ''..'') ?parts" "k = py_join ''/'' ?parts"
    using assms by (auto simp: safe_key_def Let_def split: if_splits)
  moreover then have "list_all segment ?parts"
    by (auto simp: list_all_iff list_ex_iff segment_def dest: py_split_parts)
  ultimately show thesis using that [of ?parts] by simp
qed

lemma safe_key_join:
  assumes "parts \<noteq> []" "list_all segment parts"
  shows "safe_key (py_join ''/'' parts) = Inr (py_join ''/'' parts) \<and> py_split (CHR ''/'') (py_join ''/'' parts) = parts"
proof -
  have split: "py_split (CHR ''/'') (py_join ''/'' parts) = parts"
    by (rule py_split_join) (use assms in \<open>auto simp: list_all_iff segment_def\<close>)
  have "filter (\<lambda>p. p \<noteq> []) parts = parts"
    using assms(2) by (auto simp: list_all_iff segment_def intro: filter_True)
  moreover have "\<not> list_ex (\<lambda>p. p = ''.'' \<or> p = ''..'') parts"
    using assms(2) by (auto simp: list_all_iff list_ex_iff segment_def)
  ultimately show ?thesis using assms(1) split by (simp add: safe_key_def Let_def)
qed

lemma tenant_key_safe:
  assumes "safe_key key = Inr k" "segment t"
  shows "safe_key (t @ ''/'' @ k) = Inr (t @ ''/'' @ k)"
proof -
  obtain parts where parts: "parts \<noteq> []" "list_all segment parts" "k = py_join ''/'' parts"
    by (rule safe_key_parts [OF assms(1)])
  then have "t @ ''/'' @ k = py_join ''/'' (t # parts)" by (cases parts) auto
  with safe_key_join [of "t # parts"] parts assms(2) show ?thesis by simp
qed

lemma tenant_key_inject:
  assumes "segment t" "segment u" "t @ ''/'' @ k = u @ ''/'' @ l"
  shows "t = u \<and> k = l"
proof -
  have "takeWhile (\<lambda>c. c \<noteq> CHR ''/'') (x @ ''/'' @ y) = x" if "segment x" for x y
    using that by (simp add: segment_def takeWhile_tail takeWhile_eq_all_conv [THEN iffD2] takeWhile_append2)
      (metis append_Nil2 takeWhile_append2 takeWhile.simps(1))
  with assms show ?thesis by (metis append_same_eq same_append_eq)
qed

text \<open>
  An object key never leaves the tenant's directory: a key that is accepted, prefixed with a
  tenant id, is a path whose segments are the id and then names that are neither empty nor \<open>.\<close> nor
  \<open>..\<close>, and normalising it again changes nothing.
\<close>

theorem object_key_stays_inside:
  assumes "segment (ts_tenant_id st)" "ts_object_key st key = Inr k"
  shows "safe_key k = Inr k \<and> (\<exists>parts. parts \<noteq> [] \<and> list_all segment parts
    \<and> py_split (CHR ''/'') k = ts_tenant_id st # parts)"
proof -
  obtain k' where k': "safe_key key = Inr k'" "k = ts_tenant_id st @ ''/'' @ k'"
    using assms(2) by (auto simp: ts_object_key_def split: sum.splits)
  obtain parts where parts: "parts \<noteq> []" "list_all segment parts" "k' = py_join ''/'' parts"
    by (rule safe_key_parts [OF k'(1)])
  then have "k = py_join ''/'' (ts_tenant_id st # parts)" using k'(2) by (cases parts) auto
  with safe_key_join [of "ts_tenant_id st # parts"] parts assms(1) show ?thesis by auto
qed

section \<open>Encryption round trips\<close>

text \<open>AES-GCM decrypts what it encrypted under the same key, nonce and context.\<close>

definition aes_law :: "seclib \<Rightarrow> bool" where
  "aes_law lib \<longleftrightarrow> (\<forall>k n p ctx. s_aes_decrypt lib k n (s_aes_encrypt lib k n p ctx) ctx = Some p)"

definition random_law :: "sources \<Rightarrow> bool" where
  "random_law su \<longleftrightarrow> (\<forall>i n. length (su_random su i n) = n)"

lemma decrypt_encrypt:
  assumes "aes_law lib" "random_law (w_supply w)" "encrypt lib k p ctx w = (Inr blob, w')"
  shows "decrypt lib k blob ctx w2 = (Inr p, w2)"
  using assms by (auto simp: encrypt_def decrypt_def urandom_def draw_def act_core aes_law_def random_law_def NONCE_BYTES_def)

text \<open>
  C25. Tenants are isolated in the object store: storing an object makes it readable under its key,
  with the content that was stored, and changes nothing that another tenant reads under any key.
\<close>

theorem tenant_store_isolated:
  assumes "aes_law lib" "random_law (w_supply w)"
    and "segment (ts_tenant_id a)" "segment (ts_tenant_id b)" "ts_tenant_id a \<noteq> ts_tenant_id b"
    and put: "ts_put lib a key data w = (Inr x, w')"
  shows "fst (ts_get lib a key w') = Inr data \<and> fst (ts_get lib b key' w') = fst (ts_get lib b key' w)"
proof -
  obtain k where k: "safe_key key = Inr k"
    using put by (auto simp: ts_put_def ts_object_key_def act_core split: sum.splits)
  define ka where "ka = ts_tenant_id a @ ''/'' @ k"
  define ctxa where "ctxa = ''object:'' @ ka"
  have ctx: "ts_object_key a key = Inr ka" "ts_context a key = Inr ctxa"
    by (simp_all add: ts_context_def ts_object_key_def k ctxa_def ka_def)
  obtain blob w1 where enc: "encrypt lib (ts_key a) data ctxa w = (Inr blob, w1)"
    by (auto simp: encrypt_def urandom_def draw_def act_core)
  have w1: "w_objects w1 = w_objects w"
    using enc by (auto simp: encrypt_def urandom_def draw_def act_core)
  have safe: "safe_key ka = Inr ka" unfolding ka_def by (rule tenant_key_safe [OF k assms(3)])
  have w': "w' = w1\<lparr> w_objects := AList.update ka blob (w_objects w1) \<rparr>"
    using put unfolding ts_put_def by (simp add: ctx enc store_put_def safe act_core)
  have "ts_get lib a key w' = (Inr data, w')"
    unfolding ts_get_def
    using decrypt_encrypt [OF assms(1,2) enc, of w'] by (simp add: ctx store_get_def safe w' act_core update_conv')
  moreover have "fst (ts_get lib b key' w') = fst (ts_get lib b key' w)"
  proof (cases "safe_key key'")
    case (Inl e)
    then show ?thesis by (simp add: ts_get_def ts_object_key_def act_core)
  next
    case (Inr l)
    define kb where "kb = ts_tenant_id b @ ''/'' @ l"
    define ctxb where "ctxb = ''object:'' @ kb"
    have sb: "safe_key kb = Inr kb" unfolding kb_def by (rule tenant_key_safe [OF Inr assms(4)])
    have "kb \<noteq> ka" unfolding ka_def kb_def 
    proof
      assume "ts_tenant_id b @ ''/'' @ l = ts_tenant_id a @ ''/'' @ k"
      from tenant_key_inject [OF assms(4,3) this] assms(5) show False by simp
    qed
    then have "map_of (w_objects w') kb = map_of (w_objects w) kb"
      by (simp add: w' update_conv' w1)
    moreover have "ts_object_key b key' = Inr kb" "ts_context b key' = Inr ctxb"
      by (simp_all add: ts_context_def ts_object_key_def Inr kb_def ctxb_def)
    ultimately show ?thesis
      by (cases "map_of (w_objects w) kb") (simp_all add: ts_get_def store_get_def sb act_core decrypt_def split: option.splits)
  qed
  ultimately show ?thesis by simp
qed

text \<open>
  A tenant's data key survives wrapping: what \<open>wrap_key\<close> stores is unwrapped to the same key
  for the same tenant.
\<close>

theorem unwrap_wrap_key:
  assumes "aes_law lib" "random_law (w_supply w)"
  shows "\<exists>wrapped w'. wrap_key lib master data_key t w = (Inr wrapped, w')
    \<and> unwrap_key lib master wrapped t w' = (Inr data_key, w')"
proof -
  obtain wrapped w' where enc: "encrypt lib master data_key (''tenant-key:'' @ t) w = (Inr wrapped, w')"
    by (auto simp: encrypt_def urandom_def draw_def act_core)
  from decrypt_encrypt [OF assms enc, of w'] enc show ?thesis
    unfolding wrap_key_def unwrap_key_def by blast
qed

section \<open>Effects on the database\<close>

lemma security_db [db_rules]:
  "db_preserves I (urandom n)" "db_preserves I (hash_password lib p)" "db_preserves I (issue_token lib u sa s m)"
  "db_preserves I (read_token lib tok s)" "db_preserves I (encrypt lib k p ctx)" "db_preserves I (decrypt lib k p ctx)"
  "db_preserves I new_data_key" "db_preserves I (wrap_key lib k p t)" "db_preserves I (unwrap_key lib k p t)"
  unfolding urandom_def hash_password_def issue_token_def read_token_def encrypt_def decrypt_def new_data_key_def
    wrap_key_def unwrap_key_def
  by (intro db_rules)+

lemma storage_db [db_rules]:
  "db_preserves I (store_put k d)" "db_preserves I (store_get k)" "db_preserves I (store_delete k)"
  unfolding store_put_def store_get_def store_delete_def
  by (intro db_rules db_modify_other; simp)+

lemma tenant_store_db [db_rules]:
  "db_preserves I (ts_put lib st k d)" "db_preserves I (ts_get lib st k)" "db_preserves I (ts_delete st k)"
  unfolding ts_put_def ts_get_def ts_delete_def by (intro db_rules)+

section \<open>Examples\<close>

definition example_seclib :: seclib where
  "example_seclib = \<lparr> s_aes_encrypt = (\<lambda>k n p ctx. k @ n @ ctx @ p),
     s_aes_decrypt = (\<lambda>k n ct ctx. let pre = k @ n @ ctx in
        if take (length pre) ct = pre then Some (drop (length pre) ct) else None),
     s_argon_hash = (\<lambda>salt p. salt @ p), s_argon_verify = (\<lambda>h p. Some (drop 16 h = p)),
     s_jwt_encode = (\<lambda>claims s. json_dumps True (JObj claims) @ s), s_jwt_decode = (\<lambda>_ _ _. None) \<rparr>"

lemma example_aes: "aes_law example_seclib"
  by (simp add: aes_law_def example_seclib_def Let_def)

lemma example_random: "random_law (w_supply example_world)"
  by (simp add: random_law_def example_world_def)

definition example_store :: "string \<Rightarrow> tenant_store" where
  "example_store t = \<lparr> ts_tenant_id = t, ts_key = ''key'' \<rparr>"



theorem object_key_stays_inside_witness:
  "\<exists>k. ts_object_key (example_store ''t1'') ''a//b'' = Inr k \<and> safe_key k = Inr k"
proof -
  have k: "ts_object_key (example_store ''t1'') ''a//b'' = Inr ''t1/a/b''"
    by (simp add: ts_object_key_def safe_key_def example_store_def Let_def)
  have "segment (ts_tenant_id (example_store ''t1''))" by (simp add: segment_def example_store_def)
  from object_key_stays_inside [OF this k] k show ?thesis by blast
qed

theorem tenant_store_isolated_witness:
  "\<exists>w'. ts_put example_seclib (example_store ''t1'') ''a'' ''secret'' example_world = (Inr ''a'', w')
    \<and> fst (ts_get example_seclib (example_store ''t1'') ''a'' w') = Inr ''secret''
    \<and> fst (ts_get example_seclib (example_store ''t2'') ''a'' w') = fst (ts_get example_seclib (example_store ''t2'') ''a'' example_world)"
proof -
  have seg: "segment (ts_tenant_id (example_store ''t1''))" "segment (ts_tenant_id (example_store ''t2''))"
    "ts_tenant_id (example_store ''t1'') \<noteq> ts_tenant_id (example_store ''t2'')"
    by (simp_all add: segment_def example_store_def)
  obtain w' where put: "ts_put example_seclib (example_store ''t1'') ''a'' ''secret'' example_world = (Inr ''a'', w')"
    by (simp add: ts_put_def ts_object_key_def ts_context_def safe_key_def example_store_def Let_def act_core
        encrypt_def urandom_def draw_def store_put_def)
  from tenant_store_isolated [OF example_aes example_random seg put, of "''a''"] put show ?thesis by blast
qed

theorem unwrap_wrap_key_witness:
  "\<exists>wrapped w'. wrap_key example_seclib ''m'' ''k'' ''t'' example_world = (Inr wrapped, w')
    \<and> unwrap_key example_seclib ''m'' wrapped ''t'' w' = (Inr ''k'', w')"
  by (rule unwrap_wrap_key [OF example_aes example_random])

end
