(* ===== verification/MP_Services.thy ===== *)
theory MP_Services
  imports MP_Lifecycle MP_Security
begin

text \<open>
  The operations shared by the API and the workers (\<^verbatim>\<open>platform/services.py\<close>): tenants, users,
  memberships, datasets, models and versions. Each checks its preconditions, writes its rows and
  records an event, in the caller's transaction. A row object of the ORM is the row as it was read;
  an update is written to the row with its id. Reading a corpus (\<^verbatim>\<open>llm.entities.load_corpus\<close>) is a
  parameter that gives the number of entities of each record, or fails.
\<close>

section \<open>Tenants and people\<close>

definition slug_char :: "char \<Rightarrow> bool" where
  "slug_char c \<longleftrightarrow> is_lower c \<or> is_digit c"

text \<open>\<^verbatim>\<open>^[a-z0-9](?:[a-z0-9-]{0,61}[a-z0-9])?$\<close>, matched in full.\<close>

definition SLUG_RE :: "string \<Rightarrow> bool" where
  "SLUG_RE s \<longleftrightarrow> s \<noteq> [] \<and> length s \<le> 63 \<and> slug_char (hd s) \<and> slug_char (last s)
     \<and> list_all (\<lambda>c. slug_char c \<or> c = CHR ''-'') s"

definition RESERVED_SLUGS :: "string list" where
  "RESERVED_SLUGS = [''www'', ''api'', ''admin'', ''app'', ''platform'', ''static'', ''status'']"

definition MIN_PASSWORD :: nat where "MIN_PASSWORD = 12"

definition first_row :: "('r \<Rightarrow> bool) \<Rightarrow> 'r list \<Rightarrow> 'r option" where
  "first_row = List.find"

definition set_tenant :: "string \<Rightarrow> (tenant \<Rightarrow> tenant) \<Rightarrow> unit M" where
  "set_tenant tid f = db_modify (\<lambda>db. db\<lparr> db_tenants := update_where (\<lambda>r. tn_id r = tid) f (db_tenants db) \<rparr>)"

definition create_tenant :: "crypto \<Rightarrow> seclib \<Rightarrow> bytes \<Rightarrow> string \<Rightarrow> string \<Rightarrow> actor \<Rightarrow> plan \<Rightarrow> tenant M" where
  "create_tenant c lib master_key slug name who pl =
     andthen (raise_if (\<not> SLUG_RE slug \<or> slug \<in> set RESERVED_SLUGS) (ServiceError ''invalid or reserved slug''))
     (bnd (db_gets (\<lambda>db. first_row (\<lambda>t. tn_slug t = slug) (db_tenants db))) (\<lambda>existing.
      andthen (raise_if (existing \<noteq> None) (ServiceError ''tenant already exists''))
      (bnd new_id (\<lambda>i. bnd now (\<lambda>t.
       let row = \<lparr> tn_id = i, tn_slug = slug, tn_name = name, tn_plan = pl, tn_status = TENANT_ACTIVE,
             tn_wrapped_key = [], tn_public_key = None, tn_created_at = t \<rparr>
       in andthen (insert_tenant row)
         (bnd new_data_key (\<lambda>k. bnd (wrap_key lib master_key k i) (\<lambda>wrapped.
          andthen (set_tenant i (\<lambda>r. r\<lparr> tn_wrapped_key := wrapped \<rparr>))
          (andthen (record_event c PLATFORM who ''tenant.created'' ''tenant'' i
             [(''slug'', JStr slug), (''plan'', JStr (plan_value pl))])
          (ret (row\<lparr> tn_wrapped_key := wrapped \<rparr>)))))))))))"

definition update_tenant :: "crypto \<Rightarrow> tenant \<Rightarrow> actor \<Rightarrow> plan option \<Rightarrow> tenant_status option \<Rightarrow> tenant M" where
  "update_tenant c tn who pl st =
     (let new_plan = (case pl of Some p \<Rightarrow> if p \<noteq> tn_plan tn then Some p else None | None \<Rightarrow> None);
          new_status = (case st of Some s \<Rightarrow> if s \<noteq> tn_status tn then Some s else None | None \<Rightarrow> None);
          changes = (case new_plan of Some p \<Rightarrow> [(''plan'', JStr (plan_value p))] | None \<Rightarrow> []) @
                    (case new_status of Some s \<Rightarrow> [(''status'', JStr (tenant_status_value s))] | None \<Rightarrow> []);
          upd = (\<lambda>r. r\<lparr> tn_plan := (case new_plan of Some p \<Rightarrow> p | None \<Rightarrow> tn_plan r),
                        tn_status := (case new_status of Some s \<Rightarrow> s | None \<Rightarrow> tn_status r) \<rparr>)
      in andthen (set_tenant (tn_id tn) upd)
         (andthen (if changes \<noteq> []
                   then andthen (record_event c PLATFORM who ''tenant.updated'' ''tenant'' (tn_id tn) changes) (ret ())
                   else ret ())
         (ret (upd tn))))"

definition normal_email :: "string \<Rightarrow> string" where
  "normal_email email = py_lower (py_strip email)"

definition create_user :: "seclib \<Rightarrow> string \<Rightarrow> string \<Rightarrow> string \<Rightarrow> bool \<Rightarrow> user M" where
  "create_user lib email0 password name super_admin =
     (let email = normal_email email0 in
      andthen (raise_if (CHR ''@'' \<notin> set email) (ServiceError ''a valid email address is required''))
      (andthen (raise_if (length password < MIN_PASSWORD) (ServiceError ''passwords need at least 12 characters''))
      (bnd (db_gets (\<lambda>db. first_row (\<lambda>u. us_email u = email) (db_users db))) (\<lambda>existing.
       andthen (raise_if (existing \<noteq> None) (ServiceError ''already has an account''))
       (bnd (hash_password lib password) (\<lambda>h. bnd new_id (\<lambda>i. bnd now (\<lambda>t.
        let row = \<lparr> us_id = i, us_email = email, us_name = name, us_password_hash = h,
              us_is_super_admin = super_admin, us_disabled = False, us_created_at = t \<rparr>
        in andthen (insert_user row) (ret row)))))))))"

definition find_membership :: "string \<Rightarrow> string \<Rightarrow> database \<Rightarrow> membership option" where
  "find_membership tenant_id user_id db =
     first_row (\<lambda>m. mb_tenant_id m = tenant_id \<and> mb_user_id m = user_id) (db_memberships db)"

definition add_member :: "crypto \<Rightarrow> tenant \<Rightarrow> user \<Rightarrow> role \<Rightarrow> actor \<Rightarrow> membership M" where
  "add_member c tn u r who =
     bnd (db_gets (find_membership (tn_id tn) (us_id u))) (\<lambda>existing. case existing of
       Some m \<Rightarrow>
         andthen (db_modify (\<lambda>db. db\<lparr> db_memberships :=
           update_where (\<lambda>x. mb_id x = mb_id m) (\<lambda>x. x\<lparr> mb_role := r \<rparr>) (db_memberships db) \<rparr>))
         (andthen (record_event c (tn_id tn) who ''member.role_changed'' ''user'' (us_id u)
           [(''from'', JStr (role_value (mb_role m))), (''to'', JStr (role_value r))])
         (ret (m\<lparr> mb_role := r \<rparr>)))
     | None \<Rightarrow> bnd new_id (\<lambda>i. bnd now (\<lambda>t.
         let row = \<lparr> mb_id = i, mb_tenant_id = tn_id tn, mb_user_id = us_id u, mb_role = r, mb_created_at = t \<rparr>
         in andthen (insert_membership row)
            (andthen (record_event c (tn_id tn) who ''member.added'' ''user'' (us_id u)
              [(''email'', JStr (us_email u)), (''role'', JStr (role_value r))])
            (ret row)))))"

definition remove_member :: "crypto \<Rightarrow> membership \<Rightarrow> actor \<Rightarrow> unit M" where
  "remove_member c m who =
     andthen (record_event c (mb_tenant_id m) who ''member.removed'' ''user'' (mb_user_id m)
       [(''role'', JStr (role_value (mb_role m)))])
     (db_modify (\<lambda>db. db\<lparr> db_memberships := filter (\<lambda>x. mb_id x \<noteq> mb_id m) (db_memberships db) \<rparr>))"

definition open_tenant_store :: "seclib \<Rightarrow> bytes \<Rightarrow> tenant \<Rightarrow> tenant_store M" where
  "open_tenant_store lib master_key tn =
     bnd (unwrap_key lib master_key (tn_wrapped_key tn) (tn_id tn)) (\<lambda>k.
     ret \<lparr> ts_tenant_id = tn_id tn, ts_key = k \<rparr>)"

section \<open>Datasets and models\<close>

record provenance =
  pv_source :: string
  pv_license :: string
  pv_consent :: string

definition CONSENT :: "string list" where
  "CONSENT = [''obtained'', ''not-required'', ''unknown'']"

type_synonym corpus_reader = "bytes \<Rightarrow> nat list option"

definition add_dataset :: "crypto \<Rightarrow> seclib \<Rightarrow> corpus_reader \<Rightarrow> tenant_store \<Rightarrow> tenant \<Rightarrow> string \<Rightarrow> bytes
    \<Rightarrow> provenance \<Rightarrow> actor \<Rightarrow> dataset M" where
  "add_dataset c lib load_corpus files tn name content prov who =
     andthen (raise_if (pv_consent prov \<notin> set CONSENT) (ServiceError ''unknown consent''))
     (bnd (db_gets (\<lambda>db. first_row (\<lambda>d. ds_tenant_id d = tn_id tn \<and> ds_name d = name) (db_datasets db))) (\<lambda>existing.
      andthen (raise_if (existing \<noteq> None) (ServiceError ''dataset already exists''))
      (case load_corpus content of
         None \<Rightarrow> raise (ServiceError ''not a valid corpus'')
       | Some counts \<Rightarrow>
          (let digest = sha256_hex c content; key = ''datasets/'' @ digest @ ''.jsonl'' in
           andthen (ts_put lib files key content)
           (bnd new_id (\<lambda>i. bnd now (\<lambda>t.
            let row = \<lparr> ds_id = i, ds_tenant_id = tn_id tn, ds_name = name, ds_source = pv_source prov,
                  ds_license = pv_license prov, ds_consent = pv_consent prov, ds_sha256 = digest,
                  ds_size_bytes = length content, ds_object_key = key, ds_records = length counts,
                  ds_entities = sum_list counts, ds_created_by = at_id who, ds_created_at = t \<rparr>
            in andthen (insert_dataset row)
               (andthen (record_event c (tn_id tn) who ''dataset.added'' ''dataset'' i
                  [(''name'', JStr name), (''sha256'', JStr digest), (''records'', JInt (int (length counts))),
                   (''license'', JStr (pv_license prov)), (''consent'', JStr (pv_consent prov))])
               (ret row)))))))))"

definition register_model :: "crypto \<Rightarrow> tenant \<Rightarrow> string \<Rightarrow> access \<Rightarrow> string \<Rightarrow> string \<Rightarrow> actor \<Rightarrow> model M" where
  "register_model c tn name acc base description who =
     bnd (db_gets (\<lambda>db. first_row (\<lambda>m. md_tenant_id m = tn_id tn \<and> md_name m = name) (db_models db))) (\<lambda>existing.
     andthen (raise_if (existing \<noteq> None) (ServiceError ''model already exists''))
     (bnd new_id (\<lambda>i. bnd now (\<lambda>t.
      let row = \<lparr> md_id = i, md_tenant_id = tn_id tn, md_name = name, md_description = description,
            md_access = acc, md_base = base, md_created_by = at_id who, md_created_at = t \<rparr>
      in andthen (insert_model row)
         (andthen (record_event c (tn_id tn) who ''model.registered'' ''model'' i
            [(''name'', JStr name), (''access'', JStr (access_value acc)), (''base'', JStr base)])
         (ret row))))))"

definition register_version :: "crypto \<Rightarrow> model \<Rightarrow> string \<Rightarrow> dataset option \<Rightarrow> dataset \<Rightarrow> actor
    \<Rightarrow> (string \<times> string) option \<Rightarrow> model_version option \<Rightarrow> model_version M" where
  "register_version c m version training reference who artifact parent =
     bnd (db_gets (\<lambda>db. filter (\<lambda>v. mv_model_id v = md_id m) (db_versions db))) (\<lambda>versions.
     andthen (raise_if (list_ex (\<lambda>v. mv_version v = version) versions) (ServiceError ''already has version''))
     (bnd new_id (\<lambda>i. bnd now (\<lambda>t.
      let row = \<lparr> mv_id = i, mv_tenant_id = md_tenant_id m, mv_model_id = md_id m, mv_version = version,
            mv_state = REGISTERED, mv_parent_id = map_option mv_id parent,
            mv_dataset_id = map_option ds_id training, mv_reference_dataset_id = Some (ds_id reference),
            mv_artifact_key = map_option fst artifact, mv_artifact_sha256 = map_option snd artifact,
            mv_audit = None, mv_verdict = None, mv_auc = None, mv_critical = 0, mv_high = 0, mv_notes = [],
            mv_attestation = None, mv_attestation_sha256 = None, mv_created_by = at_id who, mv_created_at = t \<rparr>
      in andthen (insert_version row)
         (andthen (record_event c (md_tenant_id m) who ''version.registered'' ''model_version'' i
            [(''model'', JStr (md_name m)), (''version'', JStr version),
             (''dataset'', json_opt (map_option ds_sha256 training)),
             (''reference'', JStr (ds_sha256 reference)),
             (''parent'', json_opt (map_option mv_version parent))])
         (ret row))))))"

text \<open>\<^verbatim>\<open>get(session, kind, tenant_id, object_id)\<close>, one instance per kind of object.\<close>

definition get_owned :: "(database \<Rightarrow> 'r list) \<Rightarrow> ('r \<Rightarrow> string) \<Rightarrow> ('r \<Rightarrow> string) \<Rightarrow> string \<Rightarrow> string \<Rightarrow> string \<Rightarrow> 'r M" where
  "get_owned rows rid rtenant kind tenant_id object_id =
     bnd (db_gets (\<lambda>db. first_row (\<lambda>r. rid r = object_id) (rows db))) (\<lambda>found. case found of
       None \<Rightarrow> raise (NotFoundError kind)
     | Some r \<Rightarrow> if rtenant r \<noteq> tenant_id then raise (NotFoundError kind) else ret r)"

definition get_version :: "string \<Rightarrow> string \<Rightarrow> model_version M" where
  "get_version = get_owned db_versions mv_id mv_tenant_id ''modelversion''"

definition get_model :: "string \<Rightarrow> string \<Rightarrow> model M" where
  "get_model = get_owned db_models md_id md_tenant_id ''model''"

definition get_dataset :: "string \<Rightarrow> string \<Rightarrow> dataset M" where
  "get_dataset = get_owned db_datasets ds_id ds_tenant_id ''dataset''"

section \<open>The log stays intact\<close>

lemma log_ok_set_tenant [db_rules]: "db_preserves (log_ok c) (set_tenant i f)"
  unfolding set_tenant_def by (rule log_ok_modify) simp

lemma services_log_ok [db_rules]:
  "db_preserves (log_ok c) (create_tenant c lib mk slug name who pl)"
  "db_preserves (log_ok c) (update_tenant c tn who pl' st)"
  "db_preserves (log_ok c) (create_user lib email password name sa)"
  "db_preserves (log_ok c) (add_member c tn u r who)"
  "db_preserves (log_ok c) (remove_member c mb who)"
  "db_preserves (log_ok c) (open_tenant_store lib mk tn)"
  "db_preserves (log_ok c) (add_dataset c lib rd files tn name content prov who)"
  "db_preserves (log_ok c) (register_model c tn name acc base desc who)"
  "db_preserves (log_ok c) (register_version c m ver tr ref who art par)"
  unfolding create_tenant_def update_tenant_def create_user_def add_member_def remove_member_def
    open_tenant_store_def add_dataset_def register_model_def register_version_def
  by (intro db_rules log_ok_modify; simp)+

lemma get_owned_pres [db_rules]: "db_preserves I (get_owned rows rid rt k t i)"
  unfolding get_owned_def by (intro db_rules)

lemma get_pres [db_rules]:
  "db_preserves I (get_version t i)" "db_preserves I (get_model t i)" "db_preserves I (get_dataset t i)"
  unfolding get_version_def get_model_def get_dataset_def by (intro db_rules)+

section \<open>What the services guarantee\<close>

text \<open>The names a database keeps unique.\<close>

definition unique_names :: "database \<Rightarrow> bool" where
  "unique_names db \<longleftrightarrow>
     distinct (map tn_id (db_tenants db)) \<and> distinct (map tn_slug (db_tenants db)) \<and>
     distinct (map us_id (db_users db)) \<and> distinct (map us_email (db_users db)) \<and>
     distinct (map (\<lambda>m. (mb_user_id m, mb_tenant_id m)) (db_memberships db)) \<and>
     distinct (map (\<lambda>d. (ds_tenant_id d, ds_name d)) (db_datasets db)) \<and>
     distinct (map (\<lambda>m. (md_tenant_id m, md_name m)) (db_models db)) \<and>
     distinct (map mv_id (db_versions db)) \<and>
     distinct (map (\<lambda>v. (mv_model_id v, mv_version v)) (db_versions db))"

lemma first_row_Some: "first_row P rs = Some r \<Longrightarrow> r \<in> set rs \<and> P r"
  by (auto simp: first_row_def find_Some_iff in_set_conv_nth)

lemma first_row_None: "first_row P rs = None \<longleftrightarrow> \<not> list_ex P rs"
  by (auto simp: first_row_def find_None_iff list_ex_iff)

lemma get_owned_Inr:
  "get_owned rows rid rt k t i w = (Inr r, w') \<longleftrightarrow>
     w' = w \<and> first_row (\<lambda>r. rid r = i) (rows (w_db w)) = Some r \<and> rt r = t"
  by (auto simp: get_owned_def db_gets_def act_core split: option.splits)

text \<open>
  An object is only ever handed out to its tenant: fetching a version, a model or a dataset by id
  changes nothing, and gives a row with that id that belongs to the tenant asked for, or
  \<^verbatim>\<open>NotFoundError\<close>, also where the id exists in another tenant.
\<close>

theorem get_is_tenant_scoped:
  "case get_owned rows rid rtenant kind t i w of
     (Inr r, w') \<Rightarrow> w' = w \<and> r \<in> set (rows (w_db w)) \<and> rid r = i \<and> rtenant r = t
   | (Inl e, w') \<Rightarrow> w' = w \<and> e = NotFoundError kind"
  by (auto simp: get_owned_def db_gets_def act_core dest: first_row_Some split: option.splits)

lemma distinct_update_where:
  "(\<And>r. key (f r) = key r) \<Longrightarrow> distinct (map key (update_where P f rs)) = distinct (map key rs)"
  by (simp add: map_update_where)

lemma unique_names_record [db_rules]: "db_preserves unique_names (record_event c t w a tt ti d)"
  unfolding db_preserves_def
  by (rule preservesI) (simp add: record_event_run Let_def unique_names_def)

lemma unique_names_inserts [db_rules]:
  "db_preserves unique_names (insert_tenant r1)" "db_preserves unique_names (insert_user r2)"
  "db_preserves unique_names (insert_membership r3)" "db_preserves unique_names (insert_dataset r4)"
  "db_preserves unique_names (insert_model r5)" "db_preserves unique_names (insert_version r6)"
  "db_preserves unique_names (insert_approval r7)" "db_preserves unique_names (insert_deployment r8)"
  "db_preserves unique_names (insert_report r9)" "db_preserves unique_names (insert_job r10)"
  "db_preserves unique_names (insert_guard_key r11)" "db_preserves unique_names (insert_guard_settings r12)"
  "db_preserves unique_names (insert_guard_event r13)"
  unfolding insert_defs
  by (rule db_insert_row; force simp: unique_names_def list_ex_iff)+

lemma unique_names_set_tenant:
  "(\<And>r. tn_id (f r) = tn_id r \<and> tn_slug (f r) = tn_slug r) \<Longrightarrow> db_preserves unique_names (set_tenant i f)"
  unfolding set_tenant_def by (rule db_db_modify) (simp add: unique_names_def distinct_update_where)

lemma unique_names_set_version:
  "(\<And>r. mv_id (f r) = mv_id r \<and> mv_model_id (f r) = mv_model_id r \<and> mv_version (f r) = mv_version r) \<Longrightarrow>
   db_preserves unique_names (set_version i f)"
  unfolding set_version_def by (rule db_db_modify) (simp add: unique_names_def distinct_update_where)

lemma unique_names_set_job [db_rules]: "db_preserves unique_names (set_job i f)"
  unfolding set_job_def by (rule db_db_modify) (simp add: unique_names_def)

lemma unique_names_set_memberships:
  "(\<And>ms. distinct (map (\<lambda>m. (mb_user_id m, mb_tenant_id m)) ms) \<Longrightarrow>
     distinct (map (\<lambda>m. (mb_user_id m, mb_tenant_id m)) (f ms))) \<Longrightarrow>
   db_preserves unique_names (db_modify (\<lambda>db. db\<lparr> db_memberships := f (db_memberships db) \<rparr>))"
  by (rule db_db_modify) (simp add: unique_names_def)

lemma move_unique [db_rules]: "db_preserves unique_names (move c v to w reason)"
  unfolding move_def lifecycle_check_def by (intro db_rules unique_names_set_version) simp

lemma jobs_unique [db_rules]:
  "db_preserves unique_names (enqueue c t k p a n)" "db_preserves unique_names (claim c wk ks)"
  "db_preserves unique_names (finish c j r)" "db_preserves unique_names (fail c j e)"
  unfolding enqueue_def claim_def finish_def fail_def by (intro db_rules)+

lemma services_unique [db_rules]:
  "db_preserves unique_names (create_tenant c lib mk slug name who pl)"
  "db_preserves unique_names (update_tenant c tn who pl' st)"
  "db_preserves unique_names (create_user lib email password name sa)"
  "db_preserves unique_names (add_member c tn u r who)"
  "db_preserves unique_names (remove_member c mb who)"
  "db_preserves unique_names (open_tenant_store lib mk tn)"
  "db_preserves unique_names (add_dataset c lib rd files tn name content prov who)"
  "db_preserves unique_names (register_model c tn name acc base desc who)"
  "db_preserves unique_names (register_version c m ver tr ref who art par)"
  unfolding create_tenant_def update_tenant_def create_user_def add_member_def remove_member_def
    open_tenant_store_def add_dataset_def register_model_def register_version_def Let_def
  by (intro db_rules unique_names_set_tenant unique_names_set_memberships;
      simp add: distinct_update_where distinct_map_filter)+

end
