(* ===== verification/MP_Api.thy ===== *)
theory MP_Api
  imports MP_Services
begin

text \<open>
  The HTTP API: authentication and authorisation (\<^verbatim>\<open>api/deps.py\<close>), the tenant routes
  (\<^verbatim>\<open>api/routes_tenant.py\<close>) and the sign-in and super-admin routes (\<^verbatim>\<open>api/routes_admin.py\<close>).
  A handler is a computation over the world; \<open>require\<close> runs it with the caller's context in one
  database transaction, which a raised exception rolls back. The Go control plane is a parameter, a
  record of computations that may change the shared database and may raise; the diligence report of
  a model is another.
\<close>

section \<open>Requests and context\<close>

record plane =
  cp_deploy :: "string \<Rightarrow> string \<Rightarrow> unit M"          \<comment> \<open>version id, environment\<close>
  cp_kill :: "string \<Rightarrow> string \<Rightarrow> unit M"            \<comment> \<open>version id, reason\<close>
  cp_rollback :: "string \<Rightarrow> json dict M"             \<comment> \<open>model id\<close>
  cp_deployments :: "string \<Rightarrow> json dict list M"

record settings =
  st_jwt_secret :: string
  st_master_key :: bytes
  st_base_domain :: string
  st_token_minutes :: int
  st_controlplane :: "(string \<Rightarrow> string \<Rightarrow> plane) option"  \<comment> \<open>acting with a token for a tenant\<close>
  st_throttle :: throttle

record request =
  rq_credentials :: "string option"
  rq_host :: "string option"
  rq_tenant :: "string option"             \<comment> \<open>the \<open>X-MP-Tenant\<close> header\<close>
  rq_client :: "string option"

record ctx =
  cx_user :: user
  cx_tenant :: tenant
  cx_role :: "role option"
  cx_files :: tenant_store
  cx_plane :: "plane option"

definition user_actor :: "user \<Rightarrow> actor" where
  "user_actor u = \<lparr> at_id = Some (us_id u), at_label = us_email u \<rparr>"

definition cx_actor :: "ctx \<Rightarrow> actor" where
  "cx_actor cx = user_actor (cx_user cx)"

definition cx_who :: "ctx \<Rightarrow> who" where
  "cx_who cx = \<lparr> wh_actor = cx_actor cx, wh_role = cx_role cx,
     wh_super_admin = us_is_super_admin (cx_user cx), wh_system = False \<rparr>"

definition cx_can :: "ctx \<Rightarrow> permission \<Rightarrow> bool" where
  "cx_can cx p = allowed (cx_role cx) p (us_is_super_admin (cx_user cx))"

definition get_user :: "string \<Rightarrow> database \<Rightarrow> user option" where
  "get_user i db = first_row (\<lambda>u. us_id u = i) (db_users db)"

definition current_user :: "seclib \<Rightarrow> settings \<Rightarrow> string option \<Rightarrow> user M" where
  "current_user lib st credentials = (case credentials of
      None \<Rightarrow> raise (HTTPException 401 ''sign in first'')
    | Some token \<Rightarrow>
        bnd (try_with (read_token lib token (st_jwt_secret st))
              (\<lambda>e. if e = TokenError then Some (raise (HTTPException 401 ''session expired or invalid'')) else None))
        (\<lambda>claims. scoped_session
          (bnd (db_gets (\<lambda>db. case map_of claims ''sub'' of Some (JStr i) \<Rightarrow> get_user i db | _ \<Rightarrow> None)) (\<lambda>found.
           case found of
             None \<Rightarrow> raise (HTTPException 401 ''account not found or disabled'')
           | Some u \<Rightarrow> if us_disabled u then raise (HTTPException 401 ''account not found or disabled'') else ret u))))"

definition tenant_slug :: "settings \<Rightarrow> string option \<Rightarrow> string option \<Rightarrow> string option" where
  "tenant_slug st host header =
     (if header \<noteq> None \<and> header \<noteq> Some [] then map_option normal_email header
      else let hostname = py_lower (hd (py_split (CHR '':'') (case host of None \<Rightarrow> [] | Some h \<Rightarrow> h)));
               suffix = ''.'' @ st_base_domain st
           in if endswith hostname suffix then Some (take (length hostname - length suffix) hostname) else None)"

definition membership_of :: "user \<Rightarrow> string \<Rightarrow> (tenant \<times> role option) M" where
  "membership_of u slug = scoped_session
     (bnd (db_gets (\<lambda>db. first_row (\<lambda>t. tn_slug t = slug) (db_tenants db))) (\<lambda>found. case found of
        None \<Rightarrow> raise (HTTPException 404 ''organization not found'')
      | Some tn \<Rightarrow>
          andthen (raise_if (tn_status tn = TENANT_SUSPENDED \<and> \<not> us_is_super_admin u)
            (HTTPException 403 ''this organization is suspended''))
          (bnd (db_gets (find_membership (tn_id tn) (us_id u))) (\<lambda>member.
           andthen (raise_if (member = None \<and> \<not> us_is_super_admin u)
             (HTTPException 403 ''you are not a member of this organization''))
           (ret (tn, map_option mb_role member))))))"

definition require :: "seclib \<Rightarrow> settings \<Rightarrow> permission \<Rightarrow> request \<Rightarrow> (ctx \<Rightarrow> 'a M) \<Rightarrow> 'a M" where
  "require lib st perm rq handler =
     bnd (current_user lib st (rq_credentials rq)) (\<lambda>u.
     case tenant_slug st (rq_host rq) (rq_tenant rq) of
       None \<Rightarrow> raise (HTTPException 400 ''no organization'')
     | Some slug \<Rightarrow>
         andthen (raise_if (slug = []) (HTTPException 400 ''no organization''))
         (bnd (membership_of u slug) (\<lambda>(tn, r).
          andthen (raise_if (\<not> allowed r perm (us_is_super_admin u)) (HTTPException 403 ''your role cannot do this''))
          (bnd (open_tenant_store lib (st_master_key st) tn) (\<lambda>files.
           scoped_session (handler \<lparr> cx_user = u, cx_tenant = tn, cx_role = r, cx_files = files,
             cx_plane = map_option (\<lambda>p. p (case rq_credentials rq of None \<Rightarrow> [] | Some t \<Rightarrow> t) (tn_slug tn))
               (st_controlplane st) \<rparr>))))))"

definition super_admin :: "seclib \<Rightarrow> settings \<Rightarrow> request \<Rightarrow> (user \<Rightarrow> 'a M) \<Rightarrow> 'a M" where
  "super_admin lib st rq handler =
     bnd (current_user lib st (rq_credentials rq)) (\<lambda>u.
     andthen (raise_if (\<not> us_is_super_admin u) (HTTPException 403 ''only platform super admins can do this''))
     (scoped_session (handler u)))"

record member_in =
  mi_email :: string
  mi_role :: role
  mi_name :: string
  mi_password :: "string option"

definition find_or_create_user :: "seclib \<Rightarrow> member_in \<Rightarrow> user M" where
  "find_or_create_user lib body =
     bnd (db_gets (\<lambda>db. first_row (\<lambda>u. us_email u = normal_email (mi_email body)) (db_users db))) (\<lambda>found.
     case found of
       Some u \<Rightarrow> ret u
     | None \<Rightarrow> (case mi_password body of
           Some pw \<Rightarrow> if pw = [] then raise (ServiceError ''this person has no account yet; set a password'')
                      else create_user lib (mi_email body) pw (mi_name body) False
         | None \<Rightarrow> raise (ServiceError ''this person has no account yet; set a password'')))"

section \<open>Translating errors\<close>

definition service_errors :: "'a M \<Rightarrow> 'a M" where
  "service_errors m = try_with m (\<lambda>e. case e of
      ServiceError s \<Rightarrow> Some (raise (HTTPException 400 s))
    | NotFoundError s \<Rightarrow> Some (raise (HTTPException 400 s))
    | _ \<Rightarrow> None)"

definition not_found :: "'a M \<Rightarrow> 'a M" where
  "not_found m = try_with m (\<lambda>e. case e of NotFoundError s \<Rightarrow> Some (raise (HTTPException 404 s)) | _ \<Rightarrow> None)"

definition transition_errors :: "'a M \<Rightarrow> 'a M" where
  "transition_errors m = try_with m (\<lambda>e. case e of TransitionError s \<Rightarrow> Some (raise (HTTPException 409 s)) | _ \<Rightarrow> None)"

definition CONTROLPLANE_HTTP :: "(string \<times> nat) list" where
  "CONTROLPLANE_HTTP = [(''PERMISSION_DENIED'', 403), (''FAILED_PRECONDITION'', 409), (''NOT_FOUND'', 404),
     (''UNAUTHENTICATED'', 401), (''INVALID_ARGUMENT'', 400)]"

definition plane_errors :: "'a M \<Rightarrow> 'a M" where
  "plane_errors m = try_with m (\<lambda>e. case e of
      ControlPlaneError code \<Rightarrow> Some (raise (HTTPException
        (case map_of CONTROLPLANE_HTTP code of None \<Rightarrow> 502 | Some n \<Rightarrow> n) code))
    | _ \<Rightarrow> None)"

section \<open>Handlers\<close>

definition the_version :: "ctx \<Rightarrow> string \<Rightarrow> model_version M" where
  "the_version cx i = not_found (get_version (tn_id (cx_tenant cx)) i)"

definition the_model :: "ctx \<Rightarrow> string \<Rightarrow> model M" where
  "the_model cx i = not_found (get_model (tn_id (cx_tenant cx)) i)"

definition the_dataset :: "ctx \<Rightarrow> string \<Rightarrow> dataset M" where
  "the_dataset cx i = not_found (get_dataset (tn_id (cx_tenant cx)) i)"

definition the_controlplane :: "ctx \<Rightarrow> plane M" where
  "the_controlplane cx = (case cx_plane cx of
      None \<Rightarrow> raise (HTTPException 501 ''no control plane is configured'') | Some p \<Rightarrow> ret p)"

definition DEPLOYS :: "vstate \<Rightarrow> string option" where
  "DEPLOYS to = (if to = CANARY then Some ''dev'' else if to = RELEASED then Some ''consumer'' else None)"

definition deploy_first :: "ctx \<Rightarrow> model_version \<Rightarrow> vstate \<Rightarrow> unit M" where
  "deploy_first cx v to = (case (cx_plane cx, DEPLOYS to) of
      (Some p, Some env) \<Rightarrow> plane_errors (cp_deploy p (mv_id v) env)
    | _ \<Rightarrow> ret ())"

definition ctx_move :: "crypto \<Rightarrow> ctx \<Rightarrow> model_version \<Rightarrow> vstate \<Rightarrow> string \<Rightarrow> model_version M" where
  "ctx_move c cx v to reason = transition_errors (move c v to (cx_who cx) reason)"

definition api_add_member :: "crypto \<Rightarrow> seclib \<Rightarrow> ctx \<Rightarrow> member_in \<Rightarrow> (user \<times> role) M" where
  "api_add_member c lib cx body = service_errors
     (bnd (find_or_create_user lib body) (\<lambda>u.
      andthen (add_member c (cx_tenant cx) u (mi_role body) (cx_actor cx)) (ret (u, mi_role body))))"

definition the_membership :: "ctx \<Rightarrow> string \<Rightarrow> membership M" where
  "the_membership cx user_id = bnd (db_gets (find_membership (tn_id (cx_tenant cx)) user_id)) (\<lambda>found.
     case found of None \<Rightarrow> raise (HTTPException 404 ''not a member of this organization'') | Some m \<Rightarrow> ret m)"

text \<open>\<^verbatim>\<open>member.user\<close> follows the foreign key to the user's row.\<close>

definition member_user :: "membership \<Rightarrow> user M" where
  "member_user m = bnd (db_gets (get_user (mb_user_id m))) (\<lambda>found.
     case found of None \<Rightarrow> raise (KeyError ''user'') | Some u \<Rightarrow> ret u)"

definition api_change_role :: "crypto \<Rightarrow> ctx \<Rightarrow> string \<Rightarrow> role \<Rightarrow> (user \<times> role) M" where
  "api_change_role c cx user_id r =
     bnd (the_membership cx user_id) (\<lambda>m. bnd (member_user m) (\<lambda>u.
     andthen (add_member c (cx_tenant cx) u r (cx_actor cx)) (ret (u, r))))"

definition api_remove_member :: "crypto \<Rightarrow> ctx \<Rightarrow> string \<Rightarrow> unit M" where
  "api_remove_member c cx user_id =
     andthen (raise_if (user_id = us_id (cx_user cx)) (HTTPException 400 ''you cannot remove yourself''))
     (bnd (the_membership cx user_id) (\<lambda>m. remove_member c m (cx_actor cx)))"

definition api_add_dataset :: "crypto \<Rightarrow> seclib \<Rightarrow> corpus_reader \<Rightarrow> ctx \<Rightarrow> string \<Rightarrow> bytes \<Rightarrow> provenance \<Rightarrow> dataset M" where
  "api_add_dataset c lib rd cx name content prov = service_errors
     (add_dataset c lib rd (cx_files cx) (cx_tenant cx) name content prov (cx_actor cx))"

definition api_diligence :: "crypto \<Rightarrow> (database \<Rightarrow> tenant \<Rightarrow> model \<Rightarrow> json dict) \<Rightarrow> ctx \<Rightarrow> string \<Rightarrow> json dict M" where
  "api_diligence c report cx model_id =
     bnd (the_model cx model_id) (\<lambda>m. bnd (db_gets (\<lambda>db. report db (cx_tenant cx) m)) (\<lambda>doc.
     andthen (record_event c (tn_id (cx_tenant cx)) (cx_actor cx) ''report.viewed'' ''model'' model_id []) (ret doc)))"

definition api_register_model :: "crypto \<Rightarrow> ctx \<Rightarrow> string \<Rightarrow> access \<Rightarrow> string \<Rightarrow> string \<Rightarrow> model M" where
  "api_register_model c cx name acc base description = service_errors
     (register_model c (cx_tenant cx) name acc base description (cx_actor cx))"

record version_in =
  vi_version :: string
  vi_dataset_id :: "string option"
  vi_reference_dataset_id :: string
  vi_train :: bool

definition api_register_version :: "crypto \<Rightarrow> ctx \<Rightarrow> string \<Rightarrow> version_in \<Rightarrow> model_version M" where
  "api_register_version c cx model_id body =
     bnd (the_model cx model_id) (\<lambda>m.
     bnd (case vi_dataset_id body of
            None \<Rightarrow> ret None
          | Some d \<Rightarrow> if d = [] then ret None else bnd (the_dataset cx d) (\<lambda>x. ret (Some x))) (\<lambda>training.
     bnd (service_errors
           (bnd (the_dataset cx (vi_reference_dataset_id body)) (\<lambda>reference.
            register_version c m (vi_version body) training reference (cx_actor cx) None None))) (\<lambda>v.
     andthen
       (if vi_train body
        then andthen (raise_if (\<not> cx_can cx AUDITS_RUN) (HTTPException 403 ''your role cannot start training and audits''))
             (andthen (enqueue c (tn_id (cx_tenant cx)) ''train''
                [(''version'', JStr (mv_id v)), (''then_audit'', JBool True)] (cx_actor cx) 3) (ret ()))
        else ret ())
       (ret v))))"

definition api_start_audit :: "crypto \<Rightarrow> ctx \<Rightarrow> string \<Rightarrow> job M" where
  "api_start_audit c cx version_id =
     bnd (the_version cx version_id) (\<lambda>v.
     andthen (ctx_move c cx v AUDITING ''audit requested'')
     (enqueue c (tn_id (cx_tenant cx)) ''audit'' [(''version'', JStr (mv_id v))] (cx_actor cx) 3))"

definition api_start_remediation :: "crypto \<Rightarrow> ctx \<Rightarrow> string \<Rightarrow> job M" where
  "api_start_remediation c cx version_id =
     bnd (the_version cx version_id) (\<lambda>v.
     andthen (ctx_move c cx v REMEDIATING ''remediation requested'')
     (enqueue c (tn_id (cx_tenant cx)) ''remediate'' [(''version'', JStr (mv_id v))] (cx_actor cx) 3))"

definition api_transition :: "crypto \<Rightarrow> ctx \<Rightarrow> string \<Rightarrow> vstate \<Rightarrow> string \<Rightarrow> model_version M" where
  "api_transition c cx version_id to reason =
     bnd (the_version cx version_id) (\<lambda>v.
     andthen (transition_errors (lifecycle_check v to (cx_who cx)))
     (andthen (deploy_first cx v to)
     (ctx_move c cx v to reason)))"

definition version_leaks :: "string \<Rightarrow> database \<Rightarrow> int" where
  "version_leaks version_id db =
     sum_list (map te_leaks_found (filter (\<lambda>r. te_version_id r = version_id) (db_reports db)))"

definition check_approvable :: "model_version \<Rightarrow> unit M" where
  "check_approvable v =
     andthen (raise_if (mv_verdict v = Some ''fail'' \<or> mv_critical v \<noteq> 0 \<or> mv_high v \<noteq> 0)
       (HTTPException 409 ''the latest audit still has blocking findings; remediate first''))
     (bnd (db_gets (version_leaks (mv_id v))) (\<lambda>leaks.
      raise_if (leaks \<noteq> 0) (HTTPException 409 ''canary testers reported leaks; remediate before approving'')))"

definition api_decide :: "crypto \<Rightarrow> ctx \<Rightarrow> string \<Rightarrow> bool \<Rightarrow> string \<Rightarrow> model_version M" where
  "api_decide c cx version_id approve comment =
     bnd (the_version cx version_id) (\<lambda>v.
     andthen (if approve then check_approvable v else ret ())
     (bnd new_id (\<lambda>i. bnd now (\<lambda>t.
      andthen (insert_approval \<lparr> ap_id = i, ap_tenant_id = tn_id (cx_tenant cx), ap_version_id = mv_id v,
         ap_user_id = us_id (cx_user cx), ap_role = (case cx_role cx of None \<Rightarrow> ORG_ADMIN | Some r \<Rightarrow> r),
         ap_decision = (if approve then ''approve'' else ''reject''), ap_comment = comment, ap_created_at = t \<rparr>)
      (ctx_move c cx v (if approve then APPROVED else REJECTED) comment)))))"

definition api_kill :: "crypto \<Rightarrow> ctx \<Rightarrow> string \<Rightarrow> string \<Rightarrow> model_version M" where
  "api_kill c cx version_id reason =
     bnd (the_version cx version_id) (\<lambda>v. case cx_plane cx of
       None \<Rightarrow> ctx_move c cx v KILLED reason
     | Some p \<Rightarrow> andthen (plane_errors (cp_kill p (mv_id v) reason))
         (bnd (db_gets (\<lambda>db. first_row (\<lambda>r. mv_id r = mv_id v) (db_versions db))) (\<lambda>found.
          case found of None \<Rightarrow> raise (KeyError ''version'') | Some v' \<Rightarrow> ret v')))"

definition api_rollback :: "ctx \<Rightarrow> string \<Rightarrow> json dict M" where
  "api_rollback cx model_id = plane_errors
     (bnd (the_controlplane cx) (\<lambda>p. bnd (the_model cx model_id) (\<lambda>m. cp_rollback p (md_id m))))"

definition api_deployments :: "ctx \<Rightarrow> string \<Rightarrow> json dict list M" where
  "api_deployments cx model_id = plane_errors (bnd (the_controlplane cx) (\<lambda>p. cp_deployments p model_id))"

definition api_generate_report :: "crypto \<Rightarrow> ctx \<Rightarrow> string \<Rightarrow> job M" where
  "api_generate_report c cx model_id =
     bnd (the_model cx model_id) (\<lambda>m.
     enqueue c (tn_id (cx_tenant cx)) ''report'' [(''model'', JStr (md_id m))] (cx_actor cx) 3)"

definition api_submit_test_report :: "crypto \<Rightarrow> ctx \<Rightarrow> string \<Rightarrow> int \<Rightarrow> int \<Rightarrow> string \<Rightarrow> test_report M" where
  "api_submit_test_report c cx version_id prompts leaks summary =
     bnd (the_version cx version_id) (\<lambda>v.
     andthen (raise_if (mv_state v \<notin> {CANARY, VERIFYING})
       (HTTPException 409 ''test reports are for versions on developer endpoints''))
     (bnd new_id (\<lambda>i. bnd now (\<lambda>t.
      let row = \<lparr> te_id = i, te_tenant_id = tn_id (cx_tenant cx), te_version_id = mv_id v,
            te_user_id = us_id (cx_user cx), te_prompt_count = prompts, te_leaks_found = leaks,
            te_summary = summary, te_created_at = t \<rparr>
      in andthen (insert_report row)
         (andthen (record_event c (tn_id (cx_tenant cx)) (cx_actor cx) ''testreport.submitted'' ''model_version''
            (mv_id v) [(''prompts'', JInt prompts), (''leaks'', JInt leaks)])
         (ret row))))))"

subsection \<open>Reading\<close>

record dashboard_out =
  da_role :: string
  da_models :: nat
  da_versions_by_state :: counter
  da_critical :: int
  da_high :: int
  da_blocked :: "string list"
  da_jobs_in_progress :: nat
  da_recent :: "audit_event list"

definition tenant_versions :: "ctx \<Rightarrow> database \<Rightarrow> model_version list" where
  "tenant_versions cx db = filter (\<lambda>v. mv_tenant_id v = tn_id (cx_tenant cx)) (db_versions db)"

definition api_dashboard :: "ctx \<Rightarrow> database \<Rightarrow> dashboard_out" where
  "api_dashboard cx db =
     (let t = tn_id (cx_tenant cx); versions = tenant_versions cx db in
      \<lparr> da_role = (case cx_role cx of None \<Rightarrow> ''super_admin'' | Some r \<Rightarrow> role_value r),
        da_models = length (filter (\<lambda>m. md_tenant_id m = t) (db_models db)),
        da_versions_by_state = foldl (\<lambda>n v. counter_inc (state_value (mv_state v)) n) [] versions,
        da_critical = sum_list (map mv_critical (filter (\<lambda>v. mv_state v = FINDINGS) versions)),
        da_high = sum_list (map mv_high (filter (\<lambda>v. mv_state v = FINDINGS) versions)),
        da_blocked = map mv_id (filter (\<lambda>v. mv_state v = KILLED) versions),
        da_jobs_in_progress = length (filter (\<lambda>j. jb_tenant_id j = t \<and> jb_status j \<in> {QUEUED, RUNNING}) (db_jobs db)),
        da_recent = take 10 (rev (chain db t)) \<rparr>)"

definition api_members :: "ctx \<Rightarrow> database \<Rightarrow> (user \<times> role) list" where
  "api_members cx db = sort_key (\<lambda>(u, _). us_email u)
     (concat (map (\<lambda>m. map (\<lambda>u. (u, mb_role m)) (filter (\<lambda>u. us_id u = mb_user_id m) (db_users db)))
       (filter (\<lambda>m. mb_tenant_id m = tn_id (cx_tenant cx)) (db_memberships db))))"

definition api_audit_log :: "ctx \<Rightarrow> int \<Rightarrow> nat \<Rightarrow> database \<Rightarrow> audit_event list" where
  "api_audit_log cx after limit db =
     take (min limit 1000) (filter (\<lambda>e. after < ae_seq e) (chain db (tn_id (cx_tenant cx))))"

text \<open>The number of events, whether the chain is intact, and its problems.\<close>

definition api_verify_log :: "crypto \<Rightarrow> string \<Rightarrow> database \<Rightarrow> nat \<times> bool \<times> chain_problem list" where
  "api_verify_log c tenant_id db =
     (let events = chain db tenant_id; problems = verify_chain c events in (length events, problems = [], problems))"

definition api_datasets :: "ctx \<Rightarrow> database \<Rightarrow> dataset list" where
  "api_datasets cx db = sort_key ds_created_at (filter (\<lambda>d. ds_tenant_id d = tn_id (cx_tenant cx)) (db_datasets db))"

definition api_models :: "ctx \<Rightarrow> database \<Rightarrow> model list" where
  "api_models cx db = sort_key md_name (filter (\<lambda>m. md_tenant_id m = tn_id (cx_tenant cx)) (db_models db))"

definition api_findings :: "ctx \<Rightarrow> string \<Rightarrow> (vstate \<times> string option \<times> entity_audit_result) M" where
  "api_findings cx version_id = bnd (the_version cx version_id) (\<lambda>v. case mv_audit v of
      None \<Rightarrow> raise (HTTPException 404 ''this version has not been audited yet'')
    | Some a \<Rightarrow> ret (mv_state v, mv_verdict v, a))"

definition api_attestation :: "ctx \<Rightarrow> string \<Rightarrow> (json dict \<times> string option) M" where
  "api_attestation cx version_id = bnd (the_version cx version_id) (\<lambda>v. case mv_attestation v of
      None \<Rightarrow> raise (HTTPException 404 ''no attestation yet'')
    | Some d \<Rightarrow> if d = [] then raise (HTTPException 404 ''no attestation yet'')
               else ret (d, tn_public_key (cx_tenant cx)))"

definition api_test_reports :: "ctx \<Rightarrow> string \<Rightarrow> test_report list M" where
  "api_test_reports cx version_id = bnd (the_version cx version_id) (\<lambda>v.
     db_gets (\<lambda>db. sort_key te_created_at (filter (\<lambda>r. te_version_id r = mv_id v) (db_reports db))))"

definition api_list_jobs :: "ctx \<Rightarrow> nat \<Rightarrow> database \<Rightarrow> job list" where
  "api_list_jobs cx limit db = take (min limit 500)
     (sort_key (\<lambda>j. - jb_created_at j) (filter (\<lambda>j. jb_tenant_id j = tn_id (cx_tenant cx)) (db_jobs db)))"

definition api_job_detail :: "ctx \<Rightarrow> string \<Rightarrow> job M" where
  "api_job_detail cx job_id = bnd (db_gets (\<lambda>db. first_row (\<lambda>j. jb_id j = job_id) (db_jobs db))) (\<lambda>found.
     case found of
       None \<Rightarrow> raise (HTTPException 404 ''job not found'')
     | Some j \<Rightarrow> if jb_tenant_id j \<noteq> tn_id (cx_tenant cx) then raise (HTTPException 404 ''job not found'') else ret j)"

subsection \<open>Sign-in and super admins\<close>

definition monotonic :: "rat M" where
  "monotonic = bnd now (\<lambda>t. ret (of_int t))"

definition login :: "seclib \<Rightarrow> settings \<Rightarrow> string \<Rightarrow> string \<Rightarrow> string option \<Rightarrow> (string \<times> int) M" where
  "login lib st email0 password client0 =
     (let email = normal_email email0; client = (case client0 of None \<Rightarrow> ''unknown'' | Some h \<Rightarrow> h) in
      bnd monotonic (\<lambda>t. bnd (gets (\<lambda>w. retry_after (st_throttle st) email client t (w_failures w))) (\<lambda>(wait, fs).
      andthen (modify (\<lambda>w. w\<lparr> w_failures := fs \<rparr>))
      (andthen (raise_if (wait \<noteq> 0) (HTTPException 429 ''too many failed sign-ins; try again later''))
      (scoped_session
        (bnd (db_gets (\<lambda>db. first_row (\<lambda>u. us_email u = email) (db_users db))) (\<lambda>found.
         case (case found of None \<Rightarrow> None
               | Some u \<Rightarrow> if us_disabled u \<or> \<not> verify_password lib (us_password_hash u) password then None else Some u) of
           None \<Rightarrow> bnd monotonic (\<lambda>t2.
             andthen (modify (\<lambda>w. w\<lparr> w_failures := failed (st_throttle st) email client t2 (w_failures w) \<rparr>))
             (raise (HTTPException 401 ''wrong email or password'')))
         | Some u \<Rightarrow>
             andthen (modify (\<lambda>w. w\<lparr> w_failures := succeeded email (w_failures w) \<rparr>))
             (bnd (issue_token lib (us_id u) (us_is_super_admin u) (st_jwt_secret st) (st_token_minutes st)) (\<lambda>tok.
              ret (tok, st_token_minutes st))))))))))"

definition api_me :: "user \<Rightarrow> database \<Rightarrow> (string \<times> role) list" where
  "api_me u db = concat (map (\<lambda>m. map (\<lambda>t. (tn_slug t, mb_role m)) (filter (\<lambda>t. tn_id t = mb_tenant_id m) (db_tenants db)))
     (filter (\<lambda>m. mb_user_id m = us_id u) (db_memberships db)))"

definition api_list_tenants :: "database \<Rightarrow> tenant list" where
  "api_list_tenants db = sort_key tn_created_at (db_tenants db)"

definition api_create_tenant :: "crypto \<Rightarrow> seclib \<Rightarrow> settings \<Rightarrow> string \<Rightarrow> string \<Rightarrow> plan \<Rightarrow> user \<Rightarrow> tenant M" where
  "api_create_tenant c lib st slug name pl u = service_errors
     (create_tenant c lib (st_master_key st) slug name (user_actor u) pl)"

definition the_tenant :: "string \<Rightarrow> tenant M" where
  "the_tenant slug = bnd (db_gets (\<lambda>db. first_row (\<lambda>t. tn_slug t = slug) (db_tenants db))) (\<lambda>found.
     case found of None \<Rightarrow> raise (HTTPException 404 ''organization not found'') | Some t \<Rightarrow> ret t)"

definition api_update_tenant :: "crypto \<Rightarrow> string \<Rightarrow> plan option \<Rightarrow> tenant_status option \<Rightarrow> user \<Rightarrow> tenant M" where
  "api_update_tenant c slug pl st u =
     bnd (the_tenant slug) (\<lambda>tn. update_tenant c tn (user_actor u) pl st)"

definition api_add_org_admin :: "crypto \<Rightarrow> seclib \<Rightarrow> string \<Rightarrow> member_in \<Rightarrow> user \<Rightarrow> (user \<times> role) M" where
  "api_add_org_admin c lib slug body u =
     bnd (the_tenant slug) (\<lambda>tn. service_errors
       (bnd (find_or_create_user lib body) (\<lambda>target.
        andthen (add_member c tn target ORG_ADMIN (user_actor u)) (ret (target, ORG_ADMIN)))))"

section \<open>All changing requests\<close>

datatype tenant_call =
    AddMember member_in
  | ChangeRole string role
  | RemoveMember string
  | AddDataset string bytes provenance
  | ViewDiligence string
  | RegisterModel string access string string
  | RegisterVersion string version_in
  | StartAudit string
  | StartRemediation string
  | Transition string vstate string
  | Decide string bool string
  | Kill string string
  | Rollback string
  | GenerateReport string
  | SubmitTestReport string int int string

fun call_permission :: "tenant_call \<Rightarrow> permission" where
  "call_permission (AddMember _) = MEMBERS_MANAGE"
| "call_permission (ChangeRole _ _) = MEMBERS_MANAGE"
| "call_permission (RemoveMember _) = MEMBERS_MANAGE"
| "call_permission (AddDataset _ _ _) = MODELS_WRITE"
| "call_permission (ViewDiligence _) = REPORTS_READ"
| "call_permission (RegisterModel _ _ _ _) = MODELS_WRITE"
| "call_permission (RegisterVersion _ _) = MODELS_WRITE"
| "call_permission (StartAudit _) = AUDITS_RUN"
| "call_permission (StartRemediation _) = REMEDIATION_RUN"
| "call_permission (Transition _ _ _) = MODELS_READ"
| "call_permission (Decide _ _ _) = APPROVALS_DECIDE"
| "call_permission (Kill _ _) = KILL_SWITCH"
| "call_permission (Rollback _) = RELEASES_MANAGE"
| "call_permission (GenerateReport _) = REPORTS_READ"
| "call_permission (SubmitTestReport _ _ _ _) = TEST_REPORTS"

record services_env =
  sv_crypto :: crypto
  sv_lib :: seclib
  sv_settings :: settings
  sv_corpus :: corpus_reader
  sv_report :: "database \<Rightarrow> tenant \<Rightarrow> model \<Rightarrow> json dict"

definition done_with :: "'a M \<Rightarrow> unit M" where
  "done_with m = andthen m (ret ())"

fun run_call :: "services_env \<Rightarrow> tenant_call \<Rightarrow> ctx \<Rightarrow> unit M" where
  "run_call sv (AddMember body) cx = done_with (api_add_member (sv_crypto sv) (sv_lib sv) cx body)"
| "run_call sv (ChangeRole u r) cx = done_with (api_change_role (sv_crypto sv) cx u r)"
| "run_call sv (RemoveMember u) cx = done_with (api_remove_member (sv_crypto sv) cx u)"
| "run_call sv (AddDataset n b p) cx = done_with (api_add_dataset (sv_crypto sv) (sv_lib sv) (sv_corpus sv) cx n b p)"
| "run_call sv (ViewDiligence m) cx = done_with (api_diligence (sv_crypto sv) (sv_report sv) cx m)"
| "run_call sv (RegisterModel n a b d) cx = done_with (api_register_model (sv_crypto sv) cx n a b d)"
| "run_call sv (RegisterVersion m b) cx = done_with (api_register_version (sv_crypto sv) cx m b)"
| "run_call sv (StartAudit v) cx = done_with (api_start_audit (sv_crypto sv) cx v)"
| "run_call sv (StartRemediation v) cx = done_with (api_start_remediation (sv_crypto sv) cx v)"
| "run_call sv (Transition v t r) cx = done_with (api_transition (sv_crypto sv) cx v t r)"
| "run_call sv (Decide v a r) cx = done_with (api_decide (sv_crypto sv) cx v a r)"
| "run_call sv (Kill v r) cx = done_with (api_kill (sv_crypto sv) cx v r)"
| "run_call sv (Rollback m) cx = done_with (api_rollback cx m)"
| "run_call sv (GenerateReport m) cx = done_with (api_generate_report (sv_crypto sv) cx m)"
| "run_call sv (SubmitTestReport v p l s) cx = done_with (api_submit_test_report (sv_crypto sv) cx v p l s)"

definition handle_call :: "services_env \<Rightarrow> request \<Rightarrow> tenant_call \<Rightarrow> unit M" where
  "handle_call sv rq call = require (sv_lib sv) (sv_settings sv) (call_permission call) rq (run_call sv call)"

datatype admin_call =
    CreateTenant string string plan
  | UpdateTenant string "plan option" "tenant_status option"
  | AddOrgAdmin string member_in

fun run_admin :: "services_env \<Rightarrow> admin_call \<Rightarrow> user \<Rightarrow> unit M" where
  "run_admin sv (CreateTenant s n p) u = done_with (api_create_tenant (sv_crypto sv) (sv_lib sv) (sv_settings sv) s n p u)"
| "run_admin sv (UpdateTenant s p t) u = done_with (api_update_tenant (sv_crypto sv) s p t u)"
| "run_admin sv (AddOrgAdmin s b) u = done_with (api_add_org_admin (sv_crypto sv) (sv_lib sv) s b u)"

definition handle_admin :: "services_env \<Rightarrow> request \<Rightarrow> admin_call \<Rightarrow> unit M" where
  "handle_admin sv rq call = super_admin (sv_lib sv) (sv_settings sv) rq (run_admin sv call)"

end
