(* ===== verification/MP_Api_Props.thy ===== *)
theory MP_Api_Props
  imports MP_Api
begin

text \<open>
  What every API request guarantees: it is authorised, it is all or nothing, and it keeps the
  invariants of the platform, the intact log, the unique names and the release gate. The control
  plane's computations are asked to keep the invariant in question.
\<close>

section \<open>Invariants through a request\<close>

definition plane_keeps :: "(database \<Rightarrow> bool) \<Rightarrow> plane \<Rightarrow> bool" where
  "plane_keeps I p \<longleftrightarrow> (\<forall>a b. db_preserves I (cp_deploy p a b)) \<and> (\<forall>a b. db_preserves I (cp_kill p a b))
     \<and> (\<forall>a. db_preserves I (cp_rollback p a))"

definition settings_keep :: "(database \<Rightarrow> bool) \<Rightarrow> settings \<Rightarrow> bool" where
  "settings_keep I st \<longleftrightarrow> (\<forall>f tok slug. st_controlplane st = Some f \<longrightarrow> plane_keeps I (f tok slug))"

definition ctx_keeps :: "(database \<Rightarrow> bool) \<Rightarrow> ctx \<Rightarrow> bool" where
  "ctx_keeps I cx \<longleftrightarrow> (\<forall>p. cx_plane cx = Some p \<longrightarrow> plane_keeps I p)"

lemma bnd_ret: "bnd (ret x) f = f x" and bnd_raise: "bnd (raise e) f = raise e"
  by (rule ext, simp add: bnd_def ret_def raise_def)+

lemma error_translators [db_rules]:
  "db_preserves I m \<Longrightarrow> db_preserves I (service_errors m)"
  "db_preserves I m \<Longrightarrow> db_preserves I (not_found m)"
  "db_preserves I m \<Longrightarrow> db_preserves I (transition_errors m)"
  "db_preserves I m \<Longrightarrow> db_preserves I (plane_errors m)"
  unfolding service_errors_def not_found_def transition_errors_def plane_errors_def
  by (rule db_try; auto intro: db_rules split: exn.splits)+

lemma done_with_pres [db_rules]: "db_preserves I m \<Longrightarrow> db_preserves I (done_with m)"
  unfolding done_with_def by (intro db_rules)

lemma current_user_pres [db_rules]: "db_preserves I (current_user lib st cr)"
  unfolding current_user_def by (intro db_rules) (auto intro: db_rules split: if_splits)

lemma membership_of_pres [db_rules]: "db_preserves I (membership_of u slug)"
  unfolding membership_of_def by (intro db_rules)

lemma open_tenant_store_pres [db_rules]: "db_preserves I (open_tenant_store lib mk tn)"
  unfolding open_tenant_store_def by (intro db_rules)

lemma lookups_pres [db_rules]:
  "db_preserves I (the_version cx i)" "db_preserves I (the_model cx i)" "db_preserves I (the_dataset cx i)"
  "db_preserves I (the_controlplane cx)" "db_preserves I (the_membership cx u)" "db_preserves I (member_user mb)"
  "db_preserves I (the_tenant slug)" "db_preserves I (check_approvable v)" "db_preserves I (lifecycle_check v to w)"
  unfolding the_version_def the_model_def the_dataset_def the_controlplane_def the_membership_def
    member_user_def the_tenant_def check_approvable_def lifecycle_check_def
  by (intro db_rules)+

lemma require_pres:
  assumes "settings_keep I st" "\<And>cx. ctx_keeps I cx \<Longrightarrow> db_preserves I (h cx)"
  shows "db_preserves I (require lib st perm rq h)"
  unfolding require_def
  by (intro db_rules assms(2)) (use assms(1) in \<open>auto simp: ctx_keeps_def settings_keep_def\<close>)

lemma deploy_first_pres: "ctx_keeps I cx \<Longrightarrow> db_preserves I (deploy_first cx v to)"
  unfolding deploy_first_def
  by (auto simp: ctx_keeps_def plane_keeps_def intro!: db_rules split: option.splits)

lemma ctx_move_pres:
  "db_preserves (log_ok c) (ctx_move c cx v to reason)" "db_preserves unique_names (ctx_move c cx v to reason)"
  unfolding ctx_move_def by (intro db_rules)+

lemma find_or_create_user_pres [db_rules]:
  "db_preserves (log_ok c) (find_or_create_user lib body)" "db_preserves unique_names (find_or_create_user lib body)"
  unfolding find_or_create_user_def by (intro db_rules)+

lemma kill_pres:
  assumes "ctx_keeps I cx" "\<And>v. db_preserves I (ctx_move c cx v KILLED reason)"
  shows "db_preserves I (api_kill c cx i reason)"
proof (cases "cx_plane cx")
  case None
  then show ?thesis unfolding api_kill_def by (simp add: db_rules assms(2))
next
  case (Some p)
  then have "db_preserves I (cp_kill p a b)" for a b using assms(1) by (simp add: ctx_keeps_def plane_keeps_def)
  with Some show ?thesis unfolding api_kill_def by (simp add: db_rules)
qed

lemma rollback_pres: "ctx_keeps I cx \<Longrightarrow> db_preserves I (api_rollback cx i)"
  unfolding api_rollback_def the_controlplane_def
  by (cases "cx_plane cx") (auto simp: ctx_keeps_def plane_keeps_def bnd_ret bnd_raise intro!: db_rules)

lemmas api_defs = api_add_member_def api_change_role_def api_remove_member_def api_add_dataset_def
  api_diligence_def api_register_model_def api_register_version_def api_start_audit_def
  api_start_remediation_def api_transition_def api_decide_def api_generate_report_def
  api_submit_test_report_def

lemma run_call_log_ok: "ctx_keeps (log_ok (sv_crypto sv)) cx \<Longrightarrow> db_preserves (log_ok (sv_crypto sv)) (run_call sv call cx)"
  by (cases call) (auto simp: api_defs Let_def intro!: db_rules ctx_move_pres deploy_first_pres kill_pres rollback_pres)

lemma run_call_unique: "ctx_keeps unique_names cx \<Longrightarrow> db_preserves unique_names (run_call sv call cx)"
  by (cases call) (auto simp: api_defs Let_def intro!: db_rules ctx_move_pres deploy_first_pres kill_pres rollback_pres)

lemma run_admin_pres:
  "db_preserves (log_ok (sv_crypto sv)) (run_admin sv call u)" "db_preserves unique_names (run_admin sv call u)"
  by (cases call; auto simp: api_create_tenant_def api_update_tenant_def api_add_org_admin_def intro!: db_rules)+

lemma super_admin_pres: "(\<And>u. db_preserves I (h u)) \<Longrightarrow> db_preserves I (super_admin lib st rq h)"
  unfolding super_admin_def by (intro db_rules)

lemma login_pres: "db_preserves I (login lib st email password client)"
  unfolding login_def monotonic_def Let_def
  by (intro db_rules db_modify_other) (auto intro!: db_rules db_modify_other)

text \<open>
  Every request of the API, from a member or a super admin, successful or not, leaves every
  tenant's audit log intact and the unique names unique.
\<close>

theorem requests_keep_log_and_names:
  assumes "settings_keep (log_ok (sv_crypto sv)) (sv_settings sv)" "settings_keep unique_names (sv_settings sv)"
    and "log_ok (sv_crypto sv) (w_db w)" "unique_names (w_db w)"
  shows "log_ok (sv_crypto sv) (w_db (snd (handle_call sv rq call w)))
    \<and> unique_names (w_db (snd (handle_call sv rq call w)))
    \<and> log_ok (sv_crypto sv) (w_db (snd (handle_admin sv rq call' w)))
    \<and> unique_names (w_db (snd (handle_admin sv rq call' w)))"
  unfolding handle_call_def handle_admin_def
proof (intro conjI)
  show "log_ok (sv_crypto sv) (w_db (snd (require (sv_lib sv) (sv_settings sv) (call_permission call) rq (run_call sv call) w)))"
    using db_preservesD [OF require_pres [OF assms(1) run_call_log_ok] assms(3)] .
  show "unique_names (w_db (snd (require (sv_lib sv) (sv_settings sv) (call_permission call) rq (run_call sv call) w)))"
    using db_preservesD [OF require_pres [OF assms(2) run_call_unique] assms(4)] .
  show "log_ok (sv_crypto sv) (w_db (snd (super_admin (sv_lib sv) (sv_settings sv) rq (run_admin sv call') w)))"
    using db_preservesD [OF super_admin_pres [OF run_admin_pres(1)] assms(3)] .
  show "unique_names (w_db (snd (super_admin (sv_lib sv) (sv_settings sv) rq (run_admin sv call') w)))"
    using db_preservesD [OF super_admin_pres [OF run_admin_pres(2)] assms(4)] .
qed

section \<open>All or nothing\<close>

text \<open>A computation that leaves the database alone until it succeeds.\<close>

definition rolls_back :: "'a M \<Rightarrow> bool" where
  "rolls_back m \<longleftrightarrow> (\<forall>w e w'. m w = (Inl e, w') \<longrightarrow> w_db w' = w_db w)"

lemma db_untouched: "(\<And>I. db_preserves I m) \<Longrightarrow> w_db (snd (m w)) = w_db w"
  using db_preservesD [of "\<lambda>db. db = w_db w" m w] by blast

lemma rolls_back_reader: "(\<And>I. db_preserves I m) \<Longrightarrow> rolls_back m"
  unfolding rolls_back_def using db_untouched [of m] by (metis snd_conv)

lemma rolls_back_bnd:
  assumes "\<And>I. db_preserves I m" "\<And>x. rolls_back (f x)"
  shows "rolls_back (bnd m f)"
  unfolding rolls_back_def
proof (intro allI impI)
  fix w e w'
  assume run: "bnd m f w = (Inl e, w')"
  obtain r w1 where m: "m w = (r, w1)" by fastforce
  have db: "w_db w1 = w_db w" using db_untouched [OF assms(1), of w] m by simp
  show "w_db w' = w_db w"
  proof (cases r)
    case (Inl e')
    with run m db show ?thesis by (simp add: bnd_def)
  next
    case (Inr x)
    with run m have "f x w1 = (Inl e, w')" by (simp add: bnd_def)
    with assms(2) db show ?thesis unfolding rolls_back_def by metis
  qed
qed

lemma rolls_back_scoped: "rolls_back (scoped_session m)"
  unfolding rolls_back_def using scoped_session_rollback by blast

lemma rolls_back_cases:
  "rolls_back (raise e)"
  "(\<And>a b. rolls_back (g a b)) \<Longrightarrow> rolls_back (case p of (a, b) \<Rightarrow> g a b)"
  "rolls_back k \<Longrightarrow> (\<And>x. rolls_back (f x)) \<Longrightarrow> rolls_back (case y of None \<Rightarrow> k | Some x \<Rightarrow> f x)"
  by (auto simp: rolls_back_def raise_def split: prod.splits option.splits)

lemma require_rolls_back: "rolls_back (require lib st perm rq h)"
  unfolding require_def andthen_def
  by (intro rolls_back_scoped rolls_back_bnd rolls_back_cases db_rules)


section \<open>Authorisation\<close>

lemma scoped_session_Inr: "scoped_session m w = (Inr x, w') \<longleftrightarrow> m w = (Inr x, w')"
  by (auto simp: scoped_session_def transact_def split: prod.splits sum.splits)

lemma try_with_raise_Inr:
  assumes "\<And>e k. h e = Some k \<Longrightarrow> \<exists>e'. k = raise e'"
  shows "try_with m h w = (Inr x, w') \<longleftrightarrow> m w = (Inr x, w')"
proof -
  have "k w1 \<noteq> (Inr x, w')" if "h e = Some k" for e k w1
    using assms [OF that] by (auto simp: raise_def)
  then show ?thesis by (auto simp: try_with_def split: prod.splits sum.splits option.splits)
qed

lemma current_user_Inr:
  assumes "current_user lib st cr w = (Inr u, w')"
  shows "\<exists>token claims i t. cr = Some token \<and> s_jwt_decode lib token (st_jwt_secret st) t = Some claims
    \<and> map_of claims ''sub'' = Some (JStr i) \<and> u \<in> set (db_users (w_db w)) \<and> us_id u = i \<and> \<not> us_disabled u
    \<and> w_db w' = w_db w"
proof -
  obtain token where cr: "cr = Some token"
    using assms by (auto simp: current_user_def raise_def split: option.splits)
  let ?h = "\<lambda>e. if e = TokenError then Some (raise (HTTPException 401 ''session expired or invalid'')) else None"
  obtain claims w1 where tr: "try_with (read_token lib token (st_jwt_secret st)) ?h w = (Inr claims, w1)"
    and rest: "bnd (db_gets (\<lambda>db. case map_of claims ''sub'' of Some (JStr i) \<Rightarrow> get_user i db | _ \<Rightarrow> None)) (\<lambda>found.
           case found of
             None \<Rightarrow> raise (HTTPException 401 ''account not found or disabled'')
           | Some u \<Rightarrow> if us_disabled u then raise (HTTPException 401 ''account not found or disabled'') else ret u) w1 = (Inr u, w')"
    using assms unfolding current_user_def cr option.case bnd_Inr_iff [of "try_with _ _"] scoped_session_Inr by blast
  have read: "read_token lib token (st_jwt_secret st) w = (Inr claims, w1)"
    using tr by (subst (asm) try_with_raise_Inr) (auto split: if_splits)
  have w1: "w_db w1 = w_db w" "\<exists>t. s_jwt_decode lib token (st_jwt_secret st) t = Some claims"
    using read by (auto simp: read_token_def now_def draw_def act_core split: option.splits if_splits)
  obtain i where i: "map_of claims ''sub'' = Some (JStr i)" "get_user i (w_db w1) = Some u" "\<not> us_disabled u" "w' = w1"
    using rest by (auto simp: db_gets_def act_core split: option.splits json.splits if_splits)
  then show ?thesis using w1 cr by (auto simp: get_user_def dest!: first_row_Some)
qed

lemma membership_of_Inr:
  assumes "membership_of u slug w = (Inr (tn, r), w')"
  shows "w' = w \<and> tn \<in> set (db_tenants (w_db w)) \<and> tn_slug tn = slug
    \<and> (us_is_super_admin u \<or> tn_status tn = TENANT_ACTIVE \<and>
        (\<exists>m \<in> set (db_memberships (w_db w)). mb_tenant_id m = tn_id tn \<and> mb_user_id m = us_id u \<and> r = Some (mb_role m)))"
proof -
  have st: "s \<noteq> TENANT_SUSPENDED \<longleftrightarrow> s = TENANT_ACTIVE" for s by (cases s) auto
  obtain found where "first_row (\<lambda>t. tn_slug t = slug) (db_tenants (w_db w)) = Some found"
    using assms by (cases "first_row (\<lambda>t. tn_slug t = slug) (db_tenants (w_db w))")
      (auto simp: membership_of_def scoped_session_Inr act_Inr db_gets_def)
  with assms have t: "first_row (\<lambda>t. tn_slug t = slug) (db_tenants (w_db w)) = Some tn"
    "r = map_option mb_role (find_membership (tn_id tn) (us_id u) (w_db w))" "w' = w"
    "tn_status tn = TENANT_ACTIVE \<or> us_is_super_admin u"
    "find_membership (tn_id tn) (us_id u) (w_db w) \<noteq> None \<or> us_is_super_admin u"
    by (auto simp: membership_of_def scoped_session_Inr act_Inr db_gets_def st)
  have "\<exists>m \<in> set (db_memberships (w_db w)). mb_tenant_id m = tn_id tn \<and> mb_user_id m = us_id u \<and> r = Some (mb_role m)"
    if member: "\<not> us_is_super_admin u"
  proof -
    obtain m where m: "find_membership (tn_id tn) (us_id u) (w_db w) = Some m" using t(5) member by auto
    with first_row_Some [OF m [unfolded find_membership_def]] t(2) show ?thesis by auto
  qed
  with t first_row_Some [OF t(1)] show ?thesis by blast
qed


section \<open>The release gate\<close>

text \<open>
  Conditions on the table of versions. \<open>commits P m Q\<close>: from \<open>P\<close>, if \<open>m\<close> returns a value then \<open>Q\<close>
  holds of it and the database; a transaction whose block commits an invariant keeps it.
\<close>

definition on_versions :: "(model_version list \<Rightarrow> bool) \<Rightarrow> database \<Rightarrow> bool" where
  "on_versions P db = P (db_versions db)"

definition commits :: "(database \<Rightarrow> bool) \<Rightarrow> 'a M \<Rightarrow> ('a \<Rightarrow> database \<Rightarrow> bool) \<Rightarrow> bool" where
  "commits P m Q \<longleftrightarrow> (\<forall>w x w'. P (w_db w) \<and> m w = (Inr x, w') \<longrightarrow> Q x (w_db w'))"

lemma commits_pres: "db_preserves P m \<Longrightarrow> commits P m (\<lambda>_. P)"
  unfolding commits_def using db_preservesD [of P m] by (metis snd_conv)

lemma commits_bnd: "commits P m Q \<Longrightarrow> (\<And>x. commits (Q x) (f x) R) \<Longrightarrow> commits P (bnd m f) R"
  unfolding commits_def bnd_Inr_iff by blast

lemma commits_andthen: "commits P m (\<lambda>_. Q) \<Longrightarrow> commits Q k R \<Longrightarrow> commits P (andthen m k) R"
  unfolding andthen_def by (rule commits_bnd)

lemma commits_weaken: "commits P m Q \<Longrightarrow> (\<And>x db. Q x db \<Longrightarrow> R x db) \<Longrightarrow> commits P m R"
  unfolding commits_def by blast

lemma commits_scoped: "commits I m (\<lambda>_. I) \<Longrightarrow> db_preserves I (scoped_session m)"
  unfolding commits_def db_preserves_def preserves_def
proof (intro allI impI)
  fix w :: world
  assume c: "\<forall>w x w'. I (w_db w) \<and> m w = (Inr x, w') \<longrightarrow> I (w_db w')" and I: "I (w_db w)"
  show "I (w_db (snd (scoped_session m w)))"
  proof (cases "scoped_session m w")
    case (Pair r w')
    with c I scoped_session_rollback [of m w _ w'] scoped_session_Inr [of m w _ w'] show ?thesis
      by (cases r) auto
  qed
qed

lemma commits_translated:
  "commits P m Q \<Longrightarrow> commits P (service_errors m) Q" "commits P m Q \<Longrightarrow> commits P (not_found m) Q"
  "commits P m Q \<Longrightarrow> commits P (transition_errors m) Q" "commits P m Q \<Longrightarrow> commits P (plane_errors m) Q"
  unfolding commits_def service_errors_def not_found_def transition_errors_def plane_errors_def
  by (subst try_with_raise_Inr; auto split: exn.splits)+

text \<open>
  The gate: a version on the way to release passed its latest audit. \<open>current v\<close>: besides, \<open>v\<close> is
  the row of its id.
\<close>

definition past_gate :: "vstate \<Rightarrow> bool" where
  "past_gate s \<longleftrightarrow> s \<in> {CLEAN, CANARY, VERIFYING, APPROVED, RELEASED}"

definition audit_clean :: "model_version \<Rightarrow> bool" where
  "audit_clean v \<longleftrightarrow> mv_verdict v \<noteq> Some ''fail'' \<and> mv_critical v \<le> 0 \<and> mv_high v \<le> 0"

definition gate_rows :: "model_version list \<Rightarrow> bool" where
  "gate_rows vs \<longleftrightarrow> distinct (map mv_id vs) \<and> (\<forall>v \<in> set vs. past_gate (mv_state v) \<longrightarrow> audit_clean v)"

definition current :: "model_version \<Rightarrow> model_version list \<Rightarrow> bool" where
  "current v vs \<longleftrightarrow> gate_rows vs \<and> v \<in> set vs"

definition gate_ok :: "database \<Rightarrow> bool" where
  "gate_ok = on_versions gate_rows"

lemma on_versions_record [db_rules]: "db_preserves (on_versions P) (record_event c t w a tt ti d)"
  unfolding db_preserves_def
  by (rule preservesI) (simp add: record_event_run Let_def on_versions_def)

lemma on_versions_modify: "(\<And>db. db_versions (f db) = db_versions db) \<Longrightarrow> db_preserves (on_versions P) (db_modify f)"
  by (rule db_db_modify) (simp add: on_versions_def)

lemma on_versions_inserts [db_rules]:
  "db_preserves (on_versions P) (insert_tenant r1)" "db_preserves (on_versions P) (insert_user r2)"
  "db_preserves (on_versions P) (insert_membership r3)" "db_preserves (on_versions P) (insert_dataset r4)"
  "db_preserves (on_versions P) (insert_model r5)"
  "db_preserves (on_versions P) (insert_approval r7)" "db_preserves (on_versions P) (insert_deployment r8)"
  "db_preserves (on_versions P) (insert_report r9)" "db_preserves (on_versions P) (insert_job r10)"
  unfolding insert_defs by (rule db_insert_row, simp add: on_versions_def)+

lemma on_versions_set [db_rules]:
  "db_preserves (on_versions P) (set_job i f)" "db_preserves (on_versions P) (set_tenant i g)"
  unfolding set_job_def set_tenant_def by (rule on_versions_modify, simp)+

lemma on_versions_jobs [db_rules]:
  "db_preserves (on_versions P) (enqueue c t k p a n)" "db_preserves (on_versions P) (claim c wk ks)"
  "db_preserves (on_versions P) (finish c j r)" "db_preserves (on_versions P) (fail c j e)"
  unfolding enqueue_def claim_def finish_def fail_def by (intro db_rules)+

lemma on_versions_services [db_rules]:
  "db_preserves (on_versions P) (create_tenant c lib mk slug name who pl)"
  "db_preserves (on_versions P) (update_tenant c tn who pl' st)"
  "db_preserves (on_versions P) (create_user lib email password name sa)"
  "db_preserves (on_versions P) (add_member c tn u r who)"
  "db_preserves (on_versions P) (remove_member c mb who)"
  "db_preserves (on_versions P) (add_dataset c lib rd files tn name content prov who)"
  "db_preserves (on_versions P) (register_model c tn name acc base desc who)"
  unfolding create_tenant_def update_tenant_def create_user_def add_member_def remove_member_def
    add_dataset_def register_model_def
  by (intro db_rules on_versions_modify; simp)+

lemma on_versions_find [db_rules]: "db_preserves (on_versions P) (find_or_create_user lib body)"
  unfolding find_or_create_user_def by (intro db_rules)

lemma register_version_gate: "db_preserves gate_ok (register_version c m ver tr ref who art par)"
  unfolding register_version_def Let_def gate_ok_def insert_version_def
  by (intro db_rules db_insert_row)
    (auto simp: on_versions_def gate_rows_def list_ex_iff past_gate_def)

lemma get_version_current:
  "commits gate_ok (get_version t i) (\<lambda>v. on_versions (\<lambda>vs. current v vs \<and> mv_id v = i \<and> mv_tenant_id v = t))"
  unfolding commits_def get_version_def get_owned_Inr gate_ok_def on_versions_def current_def
  using first_row_Some by fastforce

lemma the_version_current: "commits gate_ok (the_version cx i) (\<lambda>v. on_versions (current v))"
  unfolding the_version_def
  by (intro commits_translated(2) commits_weaken [OF get_version_current]) (auto simp: on_versions_def)

text \<open>A step of a version that is not the worker's step to \<open>CLEAN\<close> keeps the gate.\<close>

lemma step_past_gate:
  assumes "check_step s to w = Inr ()" "past_gate to" "to \<noteq> CLEAN \<or> \<not> wh_system w"
  shows "past_gate s"
proof -
  obtain p where p: "map_of TRANSITIONS (s, to) = Some p" using check_step_transition [OF assms(1)] by blast
  have "\<not> (s = AUDITING \<and> to = CLEAN)" using assms(1,3) by (auto simp: check_step_def TRANSITIONS_def)
  then show ?thesis using transition_cases [OF p] assms(2) by (auto simp: past_gate_def)
qed

lemma gate_rows_update:
  assumes "current v vs" "mv_id (f v) = mv_id v" "past_gate (mv_state (f v)) \<longrightarrow> audit_clean (f v)"
  shows "gate_rows (update_where (\<lambda>r. mv_id r = mv_id v) f vs)"
proof -
  have same: "r = v" if "r \<in> set vs" "mv_id r = mv_id v" for r
    using that assms(1) by (auto simp: current_def gate_rows_def distinct_map inj_on_def)
  have "map mv_id (update_where (\<lambda>r. mv_id r = mv_id v) f vs) = map mv_id vs"
    using same assms(2) by (auto simp: update_where_def)
  moreover have "past_gate (mv_state r) \<longrightarrow> audit_clean r"
    if "r \<in> set (update_where (\<lambda>r. mv_id r = mv_id v) f vs)" for r
    using that same assms(1,3) by (auto simp: update_where_def current_def gate_rows_def split: if_splits)
  ultimately show ?thesis using assms(1) by (auto simp: gate_rows_def current_def)
qed

lemma move_gate:
  assumes "to \<noteq> CLEAN \<or> \<not> wh_system w"
  shows "commits (on_versions (current v)) (move c v to w reason) (\<lambda>_. gate_ok)"
  unfolding commits_def
proof (intro allI impI)
  fix wd x wd'
  assume a: "on_versions (current v) (w_db wd) \<and> move c v to w reason wd = (Inr x, wd')"
  then have chk: "check_step (mv_state v) to w = Inr ()"
    by (cases "check_step (mv_state v) to w") (auto simp: move_run)
  have cur: "current v (db_versions (w_db wd))" using a by (simp add: on_versions_def)
  have rows: "db_versions (w_db wd') = update_where (\<lambda>r. mv_id r = mv_id v) (\<lambda>r. r\<lparr> mv_state := to \<rparr>) (db_versions (w_db wd))"
    using a chk by (auto simp: move_run Let_def)
  have "gate_rows (db_versions (w_db wd'))"
    unfolding rows
  proof (rule gate_rows_update [OF cur])
    show "past_gate (mv_state (v\<lparr> mv_state := to \<rparr>)) \<longrightarrow> audit_clean (v\<lparr> mv_state := to \<rparr>)"
      using step_past_gate [OF chk _ assms] cur by (auto simp: current_def gate_rows_def audit_clean_def)
  qed simp
  then show "gate_ok (w_db wd')" by (simp add: gate_ok_def on_versions_def)
qed

lemma ctx_move_gate: "commits (on_versions (current v)) (ctx_move c cx v to reason) (\<lambda>_. gate_ok)"
  unfolding ctx_move_def by (intro commits_translated move_gate) (simp add: cx_who_def)

lemma gate_from_current: "on_versions (current v) db \<Longrightarrow> gate_ok db"
  by (simp add: on_versions_def current_def gate_ok_def)

lemma commits_pres_from_current: "(\<And>P. db_preserves (on_versions P) m) \<Longrightarrow> commits gate_ok m (\<lambda>_. gate_ok)"
  unfolding gate_ok_def by (rule commits_pres)

lemma start_job_gate:
  "commits gate_ok (bnd (the_version cx i) (\<lambda>v. andthen (ctx_move c cx v to reason)
     (enqueue c t k (pl v) a n))) (\<lambda>_. gate_ok)"
  by (intro commits_bnd [OF the_version_current] commits_andthen [OF ctx_move_gate] commits_pres_from_current db_rules)

text \<open>
  What the gate asks of the control plane: deploying does not touch the table of versions, killing
  and rolling back keep the gate.
\<close>

definition plane_gate :: "plane \<Rightarrow> bool" where
  "plane_gate p \<longleftrightarrow> (\<forall>P a b. db_preserves (on_versions P) (cp_deploy p a b)) \<and>
     (\<forall>a b. db_preserves gate_ok (cp_kill p a b)) \<and> (\<forall>a. db_preserves gate_ok (cp_rollback p a))"

definition settings_gate :: "settings \<Rightarrow> bool" where
  "settings_gate st \<longleftrightarrow> (\<forall>f tok slug. st_controlplane st = Some f \<longrightarrow> plane_gate (f tok slug))"

definition ctx_gate :: "ctx \<Rightarrow> bool" where
  "ctx_gate cx \<longleftrightarrow> (\<forall>p. cx_plane cx = Some p \<longrightarrow> plane_gate p)"

lemma ctx_gate_keeps: "ctx_gate cx \<Longrightarrow> ctx_keeps gate_ok cx"
  by (simp add: ctx_gate_def ctx_keeps_def plane_gate_def plane_keeps_def) (simp add: gate_ok_def)

lemma deploy_first_gate: "ctx_gate cx \<Longrightarrow> db_preserves (on_versions P) (deploy_first cx v to)"
  unfolding deploy_first_def
  by (auto simp: ctx_gate_def plane_gate_def intro!: db_rules split: option.splits)

lemma transition_gate:
  assumes "ctx_gate cx"
  shows "commits gate_ok (api_transition c cx i to reason) (\<lambda>_. gate_ok)"
  unfolding api_transition_def
  by (intro commits_bnd [OF the_version_current] commits_andthen [OF commits_pres] ctx_move_gate
      db_rules deploy_first_gate assms)

lemma decide_gate: "commits gate_ok (api_decide c cx i ap cm) (\<lambda>_. gate_ok)"
  unfolding api_decide_def
  by (intro commits_bnd [OF the_version_current] commits_andthen [OF commits_pres] commits_bnd [OF commits_pres]
      ctx_move_gate db_rules)

lemma kill_gate:
  assumes "ctx_keeps gate_ok cx"
  shows "commits gate_ok (api_kill c cx i reason) (\<lambda>_. gate_ok)"
proof (cases "cx_plane cx")
  case None
  then show ?thesis unfolding api_kill_def
    by (simp add: commits_bnd [OF the_version_current] ctx_move_gate)
next
  case (Some p)
  then have "db_preserves gate_ok (cp_kill p a b)" for a b using assms by (simp add: ctx_keeps_def plane_keeps_def)
  with Some show ?thesis unfolding api_kill_def by (simp add: commits_pres db_rules)
qed

lemma run_call_gate:
  assumes "ctx_gate cx"
  shows "commits gate_ok (run_call sv call cx) (\<lambda>_. gate_ok)"
proof -
  have done_gate: "commits gate_ok m (\<lambda>_. gate_ok) \<Longrightarrow> commits gate_ok (done_with m) (\<lambda>_. gate_ok)" for m :: "'x M"
    unfolding done_with_def by (rule commits_andthen) (auto intro: commits_pres db_rules)
  have keeps: "ctx_keeps gate_ok cx" by (rule ctx_gate_keeps [OF assms])
  show ?thesis
  proof (cases call)
    case (RegisterVersion m b)
    have "db_preserves gate_ok (enqueue c t k p a n)" for c t k p a n
      unfolding gate_ok_def by (intro db_rules)
    then have "db_preserves gate_ok (api_register_version (sv_crypto sv) cx m b)"
      unfolding api_register_version_def by (intro db_rules register_version_gate)
    with RegisterVersion show ?thesis by (simp add: done_gate commits_pres)
  next
    case (StartAudit v)
    then show ?thesis by (simp add: done_gate api_start_audit_def start_job_gate)
  next
    case (StartRemediation v)
    then show ?thesis by (simp add: done_gate api_start_remediation_def start_job_gate)
  next
    case (Transition v t r)
    then show ?thesis by (simp add: done_gate transition_gate assms)
  next
    case (Decide v a r)
    then show ?thesis by (simp add: done_gate decide_gate)
  next
    case (Kill v r)
    then show ?thesis by (simp add: done_gate kill_gate keeps)
  next
    case (Rollback m)
    then show ?thesis by (simp add: done_gate commits_pres rollback_pres keeps)
  qed (simp_all only: run_call.simps api_defs Let_def gate_ok_def, (intro commits_pres db_rules)+)
qed

lemma require_gate:
  assumes "settings_gate st"
    and "\<And>cx. ctx_gate cx \<Longrightarrow> commits gate_ok (h cx) (\<lambda>_. gate_ok)"
  shows "db_preserves gate_ok (require lib st perm rq h)"
  unfolding require_def
  by (intro db_rules commits_scoped assms(2)) (use assms(1) in \<open>auto simp: ctx_gate_def settings_gate_def\<close>)

end
