(* ===== verification/MP_Entities.thy ===== *)
theory MP_Entities
  imports MP_Identity MP_Schema "HOL-Library.Multiset"
begin

text \<open>
  Sensitive values in training text (\<^verbatim>\<open>llm/entities.py\<close> and the validators and masks of
  \<^verbatim>\<open>scanners/data_pii.py\<close> it uses): entity types and their impact, spans and records, detection by
  patterns, the holdout split, and reading and writing corpora.

  Running a regular expression and parsing an IP address are parameters (\<open>matcher\<close>), as are the
  JSON codec and \<^verbatim>\<open>str\<close> of a list or an object (\<open>text_codec\<close>). Positions are integers: a corpus may
  name a negative one, and Python then counts from the end.
\<close>

section \<open>Types and their impact\<close>

definition HIGH_IMPACT :: rat where "HIGH_IMPACT = 1"

definition IMPACT :: "(string \<times> rat) list" where
  "IMPACT =
     map (\<lambda>k. (k, HIGH_IMPACT)) [''SSN'', ''CREDITCARDNUMBER'', ''CREDITCARDCVV'', ''PASSWORD'', ''PIN'', ''IBAN'', ''BIC'',
       ''ACCOUNTNUMBER'', ''MASKEDNUMBER'', ''BITCOINADDRESS'', ''ETHEREUMADDRESS'', ''LITECOINADDRESS'',
       ''PHONEIMEI'', ''VEHICLEVIN'', ''MEDICALRECORD''] @
     map (\<lambda>k. (k, 8/10)) [''EMAIL'', ''PHONENUMBER'', ''DOB'', ''FULLNAME'', ''STREET'', ''BUILDINGNUMBER'',
       ''SECONDARYADDRESS'', ''USERNAME'', ''IPV4'', ''IPV6'', ''IP'', ''MAC'', ''NEARBYGPSCOORDINATE'',
       ''VEHICLEVRM'', ''ACCOUNTNAME''] @
     map (\<lambda>k. (k, 6/10)) [''FIRSTNAME'', ''LASTNAME'', ''MIDDLENAME'', ''ZIPCODE'', ''CITY'', ''DATE'', ''AGE'', ''URL'',
       ''JOBTITLE'', ''JOBAREA'', ''JOBTYPE'', ''COMPANYNAME'', ''USERAGENT'', ''AMOUNT'', ''TIME'']"

definition DEFAULT_IMPACT :: rat where "DEFAULT_IMPACT = 4/10"

definition impact :: "string \<Rightarrow> rat" where
  "impact entity_type = (case map_of IMPACT (py_upper entity_type) of None \<Rightarrow> DEFAULT_IMPACT | Some i \<Rightarrow> i)"

section \<open>Masks for reports\<close>

text \<open>\<^verbatim>\<open>s.rpartition(c)\<close>: the parts before and after the last \<open>c\<close> (all of it after, without one).\<close>

definition py_rpartition :: "char \<Rightarrow> string \<Rightarrow> string \<times> string" where
  "py_rpartition c s = (case py_partition c (rev s) of (a, b) \<Rightarrow> (rev b, rev a))"

text \<open>The loop over the characters: a digit is shown once \<open>digits_seen - keep\<close> digits were seen before it.\<close>

fun keep_last_digits :: "nat \<Rightarrow> nat \<Rightarrow> nat \<Rightarrow> string \<Rightarrow> string" where
  "keep_last_digits digits_seen keep seen [] = []"
| "keep_last_digits digits_seen keep seen (ch # cs) =
     (if is_digit ch
      then (if int digits_seen - int keep < int seen + 1 then ch else CHR ''*'') # keep_last_digits digits_seen keep (Suc seen) cs
      else ch # keep_last_digits digits_seen keep seen cs)"

definition is_alnum :: "char \<Rightarrow> bool" where
  "is_alnum c \<longleftrightarrow> is_upper c \<or> is_lower c \<or> is_digit c"

definition star_alnum :: "string \<Rightarrow> string" where
  "star_alnum = map (\<lambda>c. if is_alnum c then CHR ''*'' else c)"

definition mask_value :: "string \<Rightarrow> string \<Rightarrow> string" where
  "mask_value v entity =
     (if entity = ''EMAIL'' \<and> CHR ''@'' \<in> set v
      then (case py_partition (CHR ''@'') v of (local_part, domain) \<Rightarrow>
            case py_rpartition (CHR ''.'') domain of (host, tld) \<Rightarrow>
              take 1 local_part @ ''***@'' @ take 1 host @ ''***.'' @ tld)
      else if entity \<in> {''PHONE'', ''US_SSN'', ''CREDIT_CARD''}
      then keep_last_digits (length (filter is_digit v)) 2 0 v
      else star_alnum (take 1 v) @ star_alnum (drop 1 v))"

definition MASK_KIND :: "(string \<times> string) list" where
  "MASK_KIND = [(''EMAIL'', ''EMAIL''), (''PHONENUMBER'', ''PHONE''), (''SSN'', ''US_SSN''),
     (''CREDITCARDNUMBER'', ''CREDIT_CARD''), (''DOB'', ''DATE_OF_BIRTH''), (''DATE'', ''DATE'')]"

definition mask :: "string \<Rightarrow> string \<Rightarrow> string" where
  "mask v entity_type = mask_value v
     (case map_of MASK_KIND (py_upper entity_type) of None \<Rightarrow> py_upper entity_type | Some k \<Rightarrow> k)"

section \<open>Spans and records\<close>

record span =
  sp_start :: int
  sp_end :: int
  sp_type :: string

record corpus_record =
  cr_id :: string
  cr_text :: string
  cr_entities :: "span list"

text \<open>\<^verbatim>\<open>s[i:j]\<close> for any integers.\<close>

definition clip :: "nat \<Rightarrow> int \<Rightarrow> nat" where
  "clip n i = (if i < 0 then nat (int n + i) else min n (nat i))"

definition py_slice :: "'a list \<Rightarrow> int \<Rightarrow> int \<Rightarrow> 'a list" where
  "py_slice s i j = slice s (clip (length s) i) (clip (length s) j)"

definition span_value :: "corpus_record \<Rightarrow> span \<Rightarrow> string" where
  "span_value r s = py_slice (cr_text r) (sp_start s) (sp_end s)"

section \<open>Detection\<close>

definition digit_of :: "char \<Rightarrow> nat" where
  "digit_of c = of_char c - 48"

definition luhn_digit :: "nat \<Rightarrow> nat \<Rightarrow> nat" where
  "luhn_digit i n = (if odd i then (if 9 < n * 2 then n * 2 - 9 else n * 2) else n)"

fun luhn_total :: "nat \<Rightarrow> nat list \<Rightarrow> nat" where
  "luhn_total i [] = 0"
| "luhn_total i (n # ns) = luhn_digit i n + luhn_total (Suc i) ns"

definition luhn_valid :: "string \<Rightarrow> bool" where
  "luhn_valid digits \<longleftrightarrow> luhn_total 0 (map digit_of (rev digits)) mod 10 = 0"

definition valid_card :: "string \<Rightarrow> bool" where
  "valid_card text = (let digits = filter (\<lambda>c. c \<noteq> CHR '' '' \<and> c \<noteq> CHR ''-'') text in
     13 \<le> length digits \<and> length digits \<le> 19 \<and> luhn_valid digits \<and> 1 < length (remdups digits))"

text \<open>The matches of a type's pattern in a text: where each starts and what it matched.\<close>

record matcher =
  mt_finditer :: "string \<Rightarrow> string \<Rightarrow> (nat \<times> string) list"
  mt_valid_ip :: "string \<Rightarrow> bool"

definition DETECTORS :: "matcher \<Rightarrow> (string \<times> (string \<Rightarrow> bool)) list" where
  "DETECTORS mt = [(''EMAIL'', \<lambda>_. True), (''SSN'', \<lambda>_. True), (''CREDITCARDNUMBER'', valid_card),
     (''PHONENUMBER'', \<lambda>_. True), (''IPV4'', mt_valid_ip mt), (''IPV6'', mt_valid_ip mt), (''DATE'', \<lambda>_. True)]"

definition match_span :: "string \<Rightarrow> (string \<Rightarrow> bool) \<Rightarrow> nat \<times> string \<Rightarrow> span option" where
  "match_span entity_type validate m = (case m of (pos, g) \<Rightarrow>
     (let v = py_strip g; start = pos + (length g - length (py_lstrip g)) in
      if v = [] \<or> \<not> validate v then None
      else Some \<lparr> sp_start = int start, sp_end = int (start + length v), sp_type = entity_type \<rparr>))"

definition found_spans :: "matcher \<Rightarrow> string \<Rightarrow> span list" where
  "found_spans mt text = concat (map (\<lambda>(t, validate).
     List.map_filter (match_span t validate) (mt_finditer mt t text)) (DETECTORS mt))"

definition disjoint :: "span \<Rightarrow> span \<Rightarrow> bool" where
  "disjoint s k \<longleftrightarrow> sp_end s \<le> sp_start k \<or> sp_end k \<le> sp_start s"

definition keep_span :: "span list \<Rightarrow> span \<Rightarrow> span list" where
  "keep_span kept s = (if list_all (disjoint s) kept then kept @ [s] else kept)"

definition detect :: "matcher \<Rightarrow> string \<Rightarrow> span list" where
  "detect mt text = sort_key sp_start (foldl keep_span [] (found_spans mt text))"

section \<open>Holdout split\<close>

definition big_endian :: "bytes \<Rightarrow> nat" where
  "big_endian = foldl (\<lambda>n b. 256 * n + of_char b) 0"

definition holdout_bucket :: "crypto \<Rightarrow> string \<Rightarrow> nat" where
  "holdout_bucket c i = big_endian (take 4 (c_sha256 c i)) mod 10000"

definition split_holdout :: "crypto \<Rightarrow> corpus_record list \<Rightarrow> rat \<Rightarrow> corpus_record list \<times> corpus_record list" where
  "split_holdout c records fraction =
     (if fraction \<le> 0 then (records, [])
      else let cut = \<lfloor>fraction * 10000\<rfloor>; held = (\<lambda>r. int (holdout_bucket c (cr_id r)) < cut) in
        (filter (\<lambda>r. \<not> held r) records, filter held records))"

section \<open>Corpora\<close>

datatype corpus_error = JSONDecodeError | AttributeError

record text_codec =
  tc_loads :: "string \<Rightarrow> json option"     \<comment> \<open>\<open>json.loads\<close>; None: it raises\<close>
  tc_dumps :: "json \<Rightarrow> string"
  tc_repr :: "json \<Rightarrow> string"            \<comment> \<open>\<open>str\<close> of a list or a dict\<close>

fun py_str :: "text_codec \<Rightarrow> json \<Rightarrow> string" where
  "py_str tc JNull = ''None''"
| "py_str tc (JBool b) = (if b then ''True'' else ''False'')"
| "py_str tc (JInt i) = int_str i"
| "py_str tc (JFloat t) = t"
| "py_str tc (JStr s) = s"
| "py_str tc j = tc_repr tc j"

text \<open>\<^verbatim>\<open>isinstance(x, int)\<close> and its value: a Python \<^verbatim>\<open>bool\<close> is an \<^verbatim>\<open>int\<close>.\<close>

fun json_int :: "json option \<Rightarrow> int option" where
  "json_int (Some (JInt i)) = Some i"
| "json_int (Some (JBool b)) = Some (if b then 1 else 0)"
| "json_int _ = None"

text \<open>\<^verbatim>\<open>d.get(k) or rest\<close>.\<close>

definition get_or :: "json dict \<Rightarrow> string \<Rightarrow> json \<Rightarrow> json" where
  "get_or d k rest = (case map_of d k of None \<Rightarrow> rest | Some j \<Rightarrow> if json_falsy j then rest else j)"

definition item_span :: "text_codec \<Rightarrow> json dict \<Rightarrow> span option" where
  "item_span tc item =
     (let entity_type = py_upper (py_str tc (get_or item ''type'' (get_or item ''label'' (JStr ''UNKNOWN''))))
      in case (json_int (map_of item ''start''), json_int (map_of item ''end'')) of
           (Some s, Some e) \<Rightarrow> if s < e then Some \<lparr> sp_start = s, sp_end = e, sp_type = entity_type \<rparr> else None
         | _ \<Rightarrow> None)"

fun item_spans :: "text_codec \<Rightarrow> json list \<Rightarrow> corpus_error + span list" where
  "item_spans tc [] = Inr []"
| "item_spans tc (JObj d # js) = (case item_spans tc js of
      Inl e \<Rightarrow> Inl e | Inr ss \<Rightarrow> Inr ((case item_span tc d of None \<Rightarrow> [] | Some s \<Rightarrow> [s]) @ ss))"
| "item_spans tc (_ # js) = Inl AttributeError"

definition json_spans :: "text_codec \<Rightarrow> json list \<Rightarrow> corpus_error + span list" where
  "json_spans tc raw = map_sum id (sort_key sp_start) (item_spans tc raw)"

definition get_default :: "json dict \<Rightarrow> string \<Rightarrow> json \<Rightarrow> json" where
  "get_default d k dflt = (case map_of d k of None \<Rightarrow> dflt | Some j \<Rightarrow> j)"

definition record_from_json :: "matcher \<Rightarrow> text_codec \<Rightarrow> json dict \<Rightarrow> nat \<Rightarrow> bool \<Rightarrow> corpus_error + corpus_record" where
  "record_from_json mt tc d index detect_missing =
     (let text = py_str tc (get_default d ''text'' (get_default d ''source_text'' (JStr [])));
          raw = get_default d ''entities'' (get_default d ''privacy_mask'' JNull);
          spans = (case raw of JArr js \<Rightarrow> json_spans tc js | _ \<Rightarrow> Inr (if detect_missing then detect mt text else []));
          record_id = py_str tc (get_default d ''id'' (get_default d ''uid'' (JInt (int index))))
      in map_sum id (\<lambda>ss. \<lparr> cr_id = record_id, cr_text = text,
           cr_entities = filter (\<lambda>s. sp_end s \<le> int (length text)) ss \<rparr>) spans)"

text \<open>The lines of a file, without their line breaks; blank ones are skipped but counted.\<close>

fun load_lines :: "matcher \<Rightarrow> text_codec \<Rightarrow> bool \<Rightarrow> bool \<Rightarrow> nat \<Rightarrow> string list \<Rightarrow> corpus_error + corpus_record list" where
  "load_lines mt tc is_json detect_missing index [] = Inr []"
| "load_lines mt tc is_json detect_missing index (line # ls) =
     (if py_strip line = [] then load_lines mt tc is_json detect_missing (Suc index) ls
      else case (if is_json
                 then (case tc_loads tc line of
                         None \<Rightarrow> Inl JSONDecodeError
                       | Some (JObj d) \<Rightarrow> record_from_json mt tc d index detect_missing
                       | Some _ \<Rightarrow> Inl AttributeError)
                 else Inr \<lparr> cr_id = nat_str index, cr_text = line,
                        cr_entities = (if detect_missing then detect mt line else []) \<rparr>) of
             Inl e \<Rightarrow> Inl e
           | Inr r \<Rightarrow> map_sum id (Cons r) (load_lines mt tc is_json detect_missing (Suc index) ls))"

definition load_corpus :: "matcher \<Rightarrow> text_codec \<Rightarrow> string \<Rightarrow> bool \<Rightarrow> string list \<Rightarrow> corpus_error + corpus_record list" where
  "load_corpus mt tc ext detect_missing ls =
     load_lines mt tc (py_lower ext \<in> {''.jsonl'', ''.ndjson'', ''.json''}) detect_missing 0 ls"

definition record_json :: "corpus_record \<Rightarrow> json" where
  "record_json r = JObj [(''id'', JStr (cr_id r)), (''text'', JStr (cr_text r)),
     (''entities'', JArr (map (\<lambda>s. JObj [(''start'', JInt (sp_start s)), (''end'', JInt (sp_end s)),
        (''type'', JStr (sp_type s))]) (cr_entities r)))]"

definition write_corpus :: "text_codec \<Rightarrow> corpus_record list \<Rightarrow> string list" where
  "write_corpus tc records = map (\<lambda>r. tc_dumps tc (record_json r)) records"

section \<open>Slices and spaced spans\<close>

lemma clip_in [simp]: "0 \<le> i \<Longrightarrow> i \<le> int n \<Longrightarrow> clip n i = nat i"
  by (simp add: clip_def)

lemma clip_over [simp]: "int n \<le> i \<Longrightarrow> clip n i = n"
  by (simp add: clip_def)

lemma py_slice_in: "0 \<le> i \<Longrightarrow> i \<le> int (length s) \<Longrightarrow> 0 \<le> j \<Longrightarrow> j \<le> int (length s) \<Longrightarrow> py_slice s i j = slice s (nat i) (nat j)"
  by (simp add: py_slice_def)

text \<open>Spans in order from position \<open>lo\<close>, none empty, none overlapping, within a text of length \<open>n\<close>.\<close>

fun well_spaced :: "int \<Rightarrow> int \<Rightarrow> span list \<Rightarrow> bool" where
  "well_spaced lo n [] \<longleftrightarrow> lo \<le> n"
| "well_spaced lo n (s # ss) \<longleftrightarrow> lo \<le> sp_start s \<and> sp_start s < sp_end s \<and> well_spaced (sp_end s) n ss"

lemma well_spaced_le: "well_spaced lo n ss \<Longrightarrow> lo \<le> n"
  by (induction ss arbitrary: lo) fastforce+

lemma well_spaced_mono: "well_spaced lo n ss \<Longrightarrow> lo' \<le> lo \<Longrightarrow> well_spaced lo' n ss"
  by (cases ss) auto

lemma well_spaced_bounds:
  "well_spaced lo n ss \<Longrightarrow> s \<in> set ss \<Longrightarrow> lo \<le> sp_start s \<and> sp_start s < sp_end s \<and> sp_end s \<le> n"
  by (induction ss arbitrary: lo) (force dest: well_spaced_le)+

lemma well_spaced_sorted: "well_spaced lo n ss \<Longrightarrow> sorted (map sp_start ss) \<and> distinct (map sp_start ss)"
  by (induction ss arbitrary: lo) (force dest: well_spaced_bounds)+

definition in_text :: "int \<Rightarrow> span \<Rightarrow> bool" where
  "in_text n s \<longleftrightarrow> 0 \<le> sp_start s \<and> sp_start s < sp_end s \<and> sp_end s \<le> n"

lemma disjoint_sym: "disjoint s k \<Longrightarrow> disjoint k s"
  by (auto simp: disjoint_def)

lemma disjoint_before: "disjoint s k \<Longrightarrow> sp_start k < sp_end k \<Longrightarrow> sp_start s \<le> sp_start k \<Longrightarrow> sp_end s \<le> sp_start k"
  by (auto simp: disjoint_def)

lemma well_spacedI:
  assumes "sorted (map sp_start ss)" "list_all (in_text n) ss" "pairwise disjoint (set ss)" "distinct ss"
    "\<And>s. s \<in> set ss \<Longrightarrow> lo \<le> sp_start s" "lo \<le> n"
  shows "well_spaced lo n ss"
  using assms
proof (induction ss arbitrary: lo)
  case (Cons s ss)
  have "sp_end s \<le> sp_start k" if "k \<in> set ss" for k
  proof -
    have "disjoint s k" using Cons.prems(3,4) that by (auto simp: pairwise_def)
    moreover have "sp_start s \<le> sp_start k" "sp_start k < sp_end k"
      using Cons.prems(1,2) that by (auto simp: in_text_def list_all_iff)
    ultimately show ?thesis using disjoint_before by blast
  qed
  with Cons.IH [of "sp_end s"] Cons.prems show ?case
    by (auto simp: in_text_def pairwise_insert)
qed simp

section \<open>Detected spans\<close>

text \<open>What \<^verbatim>\<open>re.finditer\<close> documents: a match is the text between its two positions.\<close>

definition finditer_law :: "matcher \<Rightarrow> bool" where
  "finditer_law mt \<longleftrightarrow> (\<forall>t text. list_all (\<lambda>(pos, g). slice text pos (pos + length g) = g) (mt_finditer mt t text))"

lemma lstrip_split: "takeWhile is_space g @ py_lstrip g = g"
  by (simp add: py_lstrip_def)

lemma strip_split: "py_lstrip g = py_strip g @ rev (takeWhile is_space (rev (py_lstrip g)))"
  unfolding py_strip_def py_rstrip_def rev_append [symmetric] by simp

lemma slice_middle: "slice (a @ s @ b) (length a) (length a + length s) = s"
  by (simp add: slice_def)

lemma strip_slice:
  "slice g (length g - length (py_lstrip g)) (length g - length (py_lstrip g) + length (py_strip g)) = py_strip g"
proof -
  define front core tail where parts: "front = takeWhile is_space g" "core = py_strip g"
    "tail = rev (takeWhile is_space (rev (py_lstrip g)))"
  have len: "length front = length g - length (py_lstrip g)"
    using arg_cong [OF lstrip_split [of g], of length] by (simp add: parts(1))
  have g: "front @ core @ tail = g"
    unfolding parts by (subst strip_split [symmetric]) (rule lstrip_split)
  show ?thesis
    using slice_middle [of front core tail] unfolding g len unfolding parts(2) .
qed

lemma slice_slice:
  assumes "slice t a b = g" "i + k \<le> length g"
  shows "slice t (a + i) (a + i + k) = slice g i (i + k)"
proof -
  have "i + k \<le> b - a" using assms by (auto simp: slice_def)
  then show ?thesis unfolding assms(1) [symmetric]
    by (simp add: slice_def drop_take add.commute min_absorb1)
qed

lemma length_strip: "length g - length (py_lstrip g) + length (py_strip g) \<le> length g"
proof -
  have "length (py_strip g) \<le> length (py_lstrip g)" using arg_cong [OF strip_split [of g], of length] by simp
  moreover have "length (py_lstrip g) \<le> length g" by (simp add: py_lstrip_def length_dropWhile_le)
  ultimately show ?thesis by simp
qed

lemma match_span_text:
  assumes "slice text pos (pos + length g) = g" "match_span t validate (pos, g) = Some s"
  shows "in_text (int (length text)) s \<and> py_slice text (sp_start s) (sp_end s) = py_strip g \<and> validate (py_strip g) \<and> sp_type s = t"
proof -
  let ?i = "length g - length (py_lstrip g)"
  define p q where pq: "p = pos + ?i" "q = pos + ?i + length (py_strip g)"
  have s: "s = \<lparr> sp_start = int p, sp_end = int q, sp_type = t \<rparr>"
      "py_strip g \<noteq> []" "validate (py_strip g)"
    using assms(2) by (auto simp: match_span_def Let_def pq split: if_splits)
  have "pos + length g \<le> length text"
    using s(2) arg_cong [OF assms(1), of length] by (cases g) (auto simp: slice_def py_strip_def py_lstrip_def py_rstrip_def split: if_splits)
  with length_strip [of g] s(2) have le: "q \<le> length text" "p < q" by (simp_all add: pq)
  have "slice text p q = py_strip g"
    unfolding pq using slice_slice [OF assms(1) length_strip] strip_slice by simp
  with s le show ?thesis by (simp add: in_text_def py_slice_in)
qed

definition matched :: "matcher \<Rightarrow> string \<Rightarrow> span \<Rightarrow> bool" where
  "matched mt text s \<longleftrightarrow> list_ex (\<lambda>(t, validate). t = sp_type s \<and> validate (py_slice text (sp_start s) (sp_end s))) (DETECTORS mt)"

lemma found_spans_text:
  assumes "finditer_law mt" "s \<in> set (found_spans mt text)"
  shows "in_text (int (length text)) s \<and> matched mt text s"
proof -
  obtain t validate pos g where d: "(t, validate) \<in> set (DETECTORS mt)" "(pos, g) \<in> set (mt_finditer mt t text)"
      "match_span t validate (pos, g) = Some s"
    using assms(2) by (auto simp: found_spans_def map_filter_def)
  have "slice text pos (pos + length g) = g" using assms(1) d(2) by (fastforce simp: finditer_law_def list_all_iff)
  from match_span_text [OF this d(3)] d(1) show ?thesis
    by (auto simp: matched_def list_ex_iff simp del: One_nat_def)
qed

lemma keep_spans:
  "set (foldl keep_span kept ss) \<subseteq> set kept \<union> set ss"
  "set kept \<subseteq> set (foldl keep_span kept ss)"
  "s \<in> set ss \<Longrightarrow> s \<in> set (foldl keep_span kept ss) \<or> \<not> list_all (disjoint s) (foldl keep_span kept ss)"
proof (induction ss arbitrary: kept)
  case (Cons x ss)
  case 1 show ?case using Cons.IH(1) [of "keep_span kept x"] by (auto simp: keep_span_def split: if_splits)
  case 2 show ?case using Cons.IH(2) [of "keep_span kept x"] by (auto simp: keep_span_def split: if_splits)
  case 3
  show ?case
  proof (cases "s = x")
    case True
    have "x \<in> set (keep_span kept x) \<or> \<not> list_all (disjoint x) (keep_span kept x)" by (simp add: keep_span_def)
    with True Cons.IH(2) [of "keep_span kept x"] show ?thesis by (auto simp: list_all_iff)
  next
    case False
    with 3 Cons.IH(3) [of "keep_span kept x"] show ?thesis by simp
  qed
qed auto

lemma keep_disjoint:
  assumes "pairwise disjoint (set kept)" "distinct kept" "list_all (\<lambda>s. sp_start s < sp_end s) (kept @ ss)"
  shows "pairwise disjoint (set (foldl keep_span kept ss)) \<and> distinct (foldl keep_span kept ss)"
  using assms
proof (induction ss arbitrary: kept)
  case (Cons x ss)
  have "x \<notin> set kept" if "list_all (disjoint x) kept"
    using that Cons.prems(3) by (fastforce simp: list_all_iff disjoint_def)
  with Cons.prems have "pairwise disjoint (set (keep_span kept x)) \<and> distinct (keep_span kept x)
      \<and> list_all (\<lambda>s. sp_start s < sp_end s) (keep_span kept x @ ss)"
    by (auto simp: keep_span_def pairwise_insert list_all_iff dest: disjoint_sym)
  with Cons.IH [of "keep_span kept x"] show ?case by simp
qed simp

text \<open>
  Detection returns spans of the text in order, none empty, none overlapping, each validated by
  the detector of its type, and it misses nothing: every validated match is returned or overlaps one
  that is.
\<close>

theorem detect_spans:
  assumes "finditer_law mt"
  shows "well_spaced 0 (int (length text)) (detect mt text)
    \<and> list_all (matched mt text) (detect mt text)
    \<and> list_all (\<lambda>s. s \<in> set (detect mt text) \<or> list_ex (\<lambda>k. sp_start s < sp_end k \<and> sp_start k < sp_end s) (detect mt text))
        (found_spans mt text)"
proof (intro conjI)
  let ?kept = "foldl keep_span [] (found_spans mt text)"
  have set: "set (detect mt text) = set ?kept" by (simp add: detect_def)
  have sub: "set ?kept \<subseteq> set (found_spans mt text)" using keep_spans(1) [of "[]"] by simp
  have ok: "in_text (int (length text)) s \<and> matched mt text s" if "s \<in> set (found_spans mt text)" for s
    by (rule found_spans_text [OF assms that])
  have pw: "pairwise disjoint (set ?kept) \<and> distinct ?kept"
    by (rule keep_disjoint) (use ok in \<open>auto simp: list_all_iff in_text_def\<close>)
  show "well_spaced 0 (int (length text)) (detect mt text)"
    by (rule well_spacedI) (use pw sub ok set in \<open>auto simp: detect_def list_all_iff in_text_def\<close>)
  show "list_all (matched mt text) (detect mt text)" using set sub ok by (auto simp: list_all_iff)
  show "list_all (\<lambda>s. s \<in> set (detect mt text) \<or> list_ex (\<lambda>k. sp_start s < sp_end k \<and> sp_start k < sp_end s) (detect mt text))
        (found_spans mt text)"
    unfolding list_all_iff list_ex_iff set
    using keep_spans(3) [of _ "found_spans mt text" "[]"] by (fastforce simp: list_all_iff disjoint_def)
qed

section \<open>Checksums\<close>

lemma luhn_total_append: "luhn_total i (xs @ ys) = luhn_total i xs + luhn_total (i + length xs) ys"
  by (induction xs arbitrary: i) (auto simp: add.assoc)

lemma luhn_digit_inj:
  assumes "a < 10" "b < 10" "luhn_digit i a mod 10 = luhn_digit i b mod 10"
  shows "a = b"
proof (cases "odd i")
  case True
  then have d: "n < 10 \<Longrightarrow> luhn_digit i n < 10" "luhn_digit i n = (if n < 5 then 2 * n else 2 * n - 9)" for n
    by (auto simp: luhn_digit_def)
  from assms have "luhn_digit i a = luhn_digit i b" by (simp add: d(1))
  then show ?thesis unfolding d(2) using assms(1,2) by (auto split: if_splits) presburger+
qed (use assms in \<open>simp add: luhn_digit_def\<close>)

lemma mod10_cancel:
  assumes "(x + p + y) mod 10 = (x + q + y) mod (10 :: nat)"
  shows "p mod 10 = q mod 10"
proof -
  have "int (x + p + y) mod 10 = int (x + q + y) mod 10" using assms by (metis of_nat_numeral zmod_int)
  then have "10 dvd int p - int q" by (simp add: mod_eq_dvd_iff)
  then have "int p mod 10 = int q mod 10" by (simp add: mod_eq_dvd_iff)
  then show ?thesis by (metis of_nat_eq_iff of_nat_numeral zmod_int)
qed

lemma digit_of_bounds: "is_digit c \<Longrightarrow> digit_of c < 10 \<and> of_char c = 48 + digit_of c"
  by (auto simp: is_digit_def less_eq_char_def digit_of_def)

text \<open>The card check detects any single wrong digit: changing one digit of a valid number makes it invalid.\<close>

theorem luhn_detects_one_digit:
  assumes "luhn_valid (xs @ a # ys)" "is_digit a" "is_digit b" "a \<noteq> b"
  shows "\<not> luhn_valid (xs @ b # ys)"
proof
  let ?t = "\<lambda>c. luhn_total 0 (map digit_of (rev ys)) + luhn_digit (length ys) (digit_of c)
    + luhn_total (Suc (length ys)) (map digit_of (rev xs))"
  have t: "luhn_valid (xs @ c # ys) \<longleftrightarrow> ?t c mod 10 = 0" for c
    by (simp add: luhn_valid_def luhn_total_append add.assoc)
  assume "luhn_valid (xs @ b # ys)"
  then have "?t b mod 10 = ?t a mod 10" using assms(1) t by simp
  then have "luhn_digit (length ys) (digit_of b) mod 10 = luhn_digit (length ys) (digit_of a) mod 10"
    by (rule mod10_cancel)
  then have "digit_of b = digit_of a" using luhn_digit_inj digit_of_bounds assms(2,3) by blast
  then have "of_char b = (of_char a :: nat)" using digit_of_bounds assms(2,3) by metis
  then show False using assms(4) by simp
qed

section \<open>Masks\<close>

lemma keep_last_digits_shown:
  "length (keep_last_digits n k seen v) = length v \<and>
   int (length (filter is_digit (keep_last_digits n k seen v))) \<le> max 0 (int seen + int (length (filter is_digit v)) - max (int seen) (int n - int k))"
proof (induction v arbitrary: seen)
  case (Cons ch cs)
  have "\<not> is_digit (CHR ''*'')" by code_simp
  with Cons.IH [of seen] Cons.IH [of "Suc seen"] show ?case by (auto simp: max_def split: if_splits)
qed simp

lemma star_alnum_hides: "list_all (\<lambda>c. \<not> is_alnum c) (star_alnum v)"
proof -
  have "\<not> is_alnum (CHR ''*'')" by code_simp
  then show ?thesis by (auto simp: star_alnum_def list_all_iff)
qed

text \<open>
  A masked value in a report has the length of the value; of a phone, social-security or card
  number it shows at most two digits, and of a value that is no email and no such number not one
  letter or digit.
\<close>

theorem mask_value_hides:
  assumes "entity \<noteq> ''EMAIL''"
  shows "length (mask_value v entity) = length v
    \<and> length (filter is_digit (mask_value v entity)) \<le> 2
    \<and> (entity \<in> {''PHONE'', ''US_SSN'', ''CREDIT_CARD''} \<or> list_all (\<lambda>c. \<not> is_alnum c) (mask_value v entity))"
proof (cases "entity \<in> {''PHONE'', ''US_SSN'', ''CREDIT_CARD''}")
  case True
  then have "mask_value v entity = keep_last_digits (length (filter is_digit v)) 2 0 v"
    using assms by (simp add: mask_value_def)
  with keep_last_digits_shown [of "length (filter is_digit v)" 2 0 v] True show ?thesis by auto
next
  case False
  then have m: "mask_value v entity = star_alnum v"
    using assms by (simp add: mask_value_def star_alnum_def flip: map_append)
  have "filter is_digit (star_alnum v) = []"
    using star_alnum_hides [of v] by (auto simp: filter_empty_conv list_all_iff is_alnum_def)
  with m star_alnum_hides [of v] show ?thesis by (simp add: star_alnum_def)
qed

section \<open>The holdout\<close>

text \<open>
  The holdout split is a partition that keeps the order, and it depends on the ids only: two
  corpora with the same ids in the same order, such as a corpus and its sanitized copy, are split at
  the same records.
\<close>

theorem split_holdout_stable:
  "mset (fst (split_holdout c rs f)) + mset (snd (split_holdout c rs f)) = mset rs
   \<and> (map cr_id rs = map cr_id rs' \<longrightarrow>
        map cr_id (fst (split_holdout c rs f)) = map cr_id (fst (split_holdout c rs' f))
        \<and> map cr_id (snd (split_holdout c rs f)) = map cr_id (snd (split_holdout c rs' f)))"
proof -
  have ids: "map cr_id (filter (\<lambda>r. P (cr_id r)) rs) = filter P (map cr_id rs)" for P rs
    by (induction rs) auto
  have "map cr_id (fst (split_holdout c rs f)) = (if f \<le> 0 then map cr_id rs
      else filter (\<lambda>i. \<not> int (holdout_bucket c i) < \<lfloor>f * 10000\<rfloor>) (map cr_id rs))"
    "map cr_id (snd (split_holdout c rs f)) = (if f \<le> 0 then []
      else filter (\<lambda>i. int (holdout_bucket c i) < \<lfloor>f * 10000\<rfloor>) (map cr_id rs))" for rs
    by (simp_all add: split_holdout_def Let_def flip: ids)
  then show ?thesis by (simp add: split_holdout_def Let_def add.commute)
qed

section \<open>Writing and reading back\<close>

text \<open>What \<^verbatim>\<open>json\<close> documents: \<^verbatim>\<open>loads\<close> inverts \<^verbatim>\<open>dumps\<close> on such objects, whose text is not blank.\<close>

definition codec_law :: "text_codec \<Rightarrow> bool" where
  "codec_law tc \<longleftrightarrow> (\<forall>r. tc_loads tc (tc_dumps tc (record_json r)) = Some (record_json r) \<and> py_strip (tc_dumps tc (record_json r)) \<noteq> [])"

definition record_ok :: "corpus_record \<Rightarrow> bool" where
  "record_ok r \<longleftrightarrow> sorted (map sp_start (cr_entities r)) \<and>
     list_all (\<lambda>s. sp_start s < sp_end s \<and> sp_end s \<le> int (length (cr_text r)) \<and> sp_type s \<noteq> [] \<and> py_upper (sp_type s) = sp_type s)
       (cr_entities r)"

definition span_json :: "span \<Rightarrow> json" where
  "span_json s = JObj [(''start'', JInt (sp_start s)), (''end'', JInt (sp_end s)), (''type'', JStr (sp_type s))]"

lemma item_spans_span_json:
  "list_all (\<lambda>s. sp_start s < sp_end s \<and> sp_type s \<noteq> [] \<and> py_upper (sp_type s) = sp_type s) ss \<Longrightarrow>
   item_spans tc (map span_json ss) = Inr ss"
  by (induction ss) (auto simp: span_json_def item_span_def get_or_def)

lemma read_record:
  assumes "record_ok r"
  shows "record_from_json mt tc [(''id'', JStr (cr_id r)), (''text'', JStr (cr_text r)), (''entities'', JArr (map span_json (cr_entities r)))] n d = Inr r"
proof -
  have "item_spans tc (map span_json (cr_entities r)) = Inr (cr_entities r)"
    by (rule item_spans_span_json) (use assms in \<open>auto simp: record_ok_def list_all_iff\<close>)
  moreover have "sort_key sp_start (cr_entities r) = cr_entities r"
    using assms by (simp add: record_ok_def sorted_sort_id sort_key_id_if_sorted)
  moreover have "filter (\<lambda>s. sp_end s \<le> int (length (cr_text r))) (cr_entities r) = cr_entities r"
    using assms by (auto simp: record_ok_def list_all_iff filter_id_conv)
  ultimately show ?thesis by (simp add: record_from_json_def get_default_def json_spans_def)
qed

lemma load_written:
  "codec_law tc \<Longrightarrow> list_all record_ok rs \<Longrightarrow> load_lines mt tc True d n (write_corpus tc rs) = Inr rs"
proof (induction rs arbitrary: n)
  case (Cons r rs)
  have "tc_loads tc (tc_dumps tc (record_json r)) = Some (JObj [(''id'', JStr (cr_id r)), (''text'', JStr (cr_text r)),
      (''entities'', JArr (map span_json (cr_entities r)))])"
    using Cons.prems(1) by (simp add: codec_law_def record_json_def span_json_def [abs_def])
  moreover have "py_strip (tc_dumps tc (record_json r)) \<noteq> []" using Cons.prems(1) by (simp add: codec_law_def)
  moreover have "load_lines mt tc True d (Suc n) (write_corpus tc rs) = Inr rs" using Cons by simp
  ultimately show ?case using Cons.prems(2) read_record [of r mt tc n d] by (simp add: write_corpus_def)
qed (simp add: write_corpus_def)

text \<open>A corpus written to a file is read back as it was, ids, texts and spans.\<close>

theorem corpus_round_trip:
  assumes "codec_law tc" "list_all record_ok rs" "ext \<in> {''.jsonl'', ''.ndjson'', ''.json''}"
  shows "load_corpus mt tc ext detect_missing (write_corpus tc rs) = Inr rs"
proof -
  have "py_lower ext = ext" using assms(3) by (elim insertE) (simp_all add: py_lower_def lower_char_def is_upper_def less_eq_char_def)
  then show ?thesis using load_written [OF assms(1,2)] assms(3) unfolding load_corpus_def by simp
qed

section \<open>Examples\<close>

text \<open>A matcher that finds one email, after a space, in texts long enough.\<close>

definition example_matcher :: matcher where
  "example_matcher = \<lparr> mt_finditer = (\<lambda>t text. if t = ''EMAIL'' \<and> 4 \<le> length text then [(0, take 4 text)] else []),
     mt_valid_ip = (\<lambda>_. False) \<rparr>"

lemma example_matcher_law: "finditer_law example_matcher"
  by (simp add: finditer_law_def example_matcher_def slice_def)

theorem detect_spans_witness:
  "well_spaced 0 5 (detect example_matcher ''a@b c'') \<and> detect example_matcher ''a@b c'' = [\<lparr> sp_start = 0, sp_end = 3, sp_type = ''EMAIL'' \<rparr>]"
proof
  show "detect example_matcher ''a@b c'' = [\<lparr> sp_start = 0, sp_end = 3, sp_type = ''EMAIL'' \<rparr>]" by code_simp
  show "well_spaced 0 5 (detect example_matcher ''a@b c'')"
    using detect_spans [OF example_matcher_law, of "''a@b c''"] by simp
qed

theorem luhn_detects_one_digit_witness: "luhn_valid ''4539578763621486'' \<and> \<not> luhn_valid ''4539578763621485''"
proof -
  have "luhn_valid ''4539578763621486''" by code_simp
  with luhn_detects_one_digit [of "''453957876362148''" "CHR ''6''" "[]" "CHR ''5''"] show ?thesis
    by (simp add: is_digit_def less_eq_char_def)
qed

theorem mask_value_hides_witness: "length (filter is_digit (mask_value ''123-45-6789'' ''US_SSN'')) \<le> 2"
  using mask_value_hides [of "''US_SSN''" "''123-45-6789''"] by simp

theorem split_holdout_stable_witness:
  "map cr_id (fst (split_holdout example_crypto [\<lparr> cr_id = ''1'', cr_text = ''x'', cr_entities = [] \<rparr>] (1/10)))
   = map cr_id (fst (split_holdout example_crypto [\<lparr> cr_id = ''1'', cr_text = ''y'', cr_entities = [] \<rparr>] (1/10)))"
  using split_holdout_stable [of example_crypto "[\<lparr> cr_id = ''1'', cr_text = ''x'', cr_entities = [] \<rparr>]" "1/10"
      "[\<lparr> cr_id = ''1'', cr_text = ''y'', cr_entities = [] \<rparr>]"] by simp

text \<open>The model's own encoder with its inverse on the texts of records satisfies the codec's laws.\<close>

definition example_codec :: text_codec where
  "example_codec = \<lparr> tc_loads = (\<lambda>s. if s \<in> range (\<lambda>r. dumps True (record_json r))
        then Some (inv_into (range record_json) (dumps True) s) else None),
     tc_dumps = dumps True, tc_repr = dumps True \<rparr>"

lemma record_json_ok: "json_ok (record_json r)"
  by (auto simp: record_json_def list_all_iff)

lemma example_codec_law: "codec_law example_codec"
  unfolding codec_law_def
proof (intro allI conjI)
  fix r
  have "inj_on (dumps True) (range record_json)"
    by (auto intro!: inj_onI simp: dumps_inject record_json_ok)
  then show "tc_loads example_codec (tc_dumps example_codec (record_json r)) = Some (record_json r)"
    by (simp add: example_codec_def)
  have "py_strip (CHR ''{'' # xs) \<noteq> []" for xs
    by (simp add: py_strip_def py_lstrip_def py_rstrip_def is_space_def dropWhile_append)
  then show "py_strip (tc_dumps example_codec (record_json r)) \<noteq> []"
    by (simp add: example_codec_def record_json_def)
qed

definition example_record :: corpus_record where
  "example_record = \<lparr> cr_id = ''1'', cr_text = ''a@b c'', cr_entities = [\<lparr> sp_start = 0, sp_end = 3, sp_type = ''EMAIL'' \<rparr>] \<rparr>"

theorem corpus_round_trip_witness:
  "load_corpus example_matcher example_codec ''.jsonl'' True (write_corpus example_codec [example_record]) = Inr [example_record]"
  by (rule corpus_round_trip [OF example_codec_law])
    (simp_all add: record_ok_def example_record_def py_upper_def upper_char_def is_lower_def less_eq_char_def)

end
