(* ===== verification/MP_Sanitize.thy ===== *)
theory MP_Sanitize
  imports MP_Entities
begin

text \<open>
  Sanitizing training data (\<^verbatim>\<open>llm/sanitize.py\<close>) with surrogate values (\<^verbatim>\<open>llm/references.py\<close>), and the
  translation of audit findings to the current training copy (\<^verbatim>\<open>llm/remediate.py\<close>). The values Faker
  generates and the random numbers are parameters, streams of a \<open>source_of_values\<close>; what the sampler
  does with them is modelled.
\<close>

section \<open>Surrogate values\<close>

record source_of_values =
  sv_generate :: "string \<Rightarrow> nat \<Rightarrow> string option"   \<comment> \<open>a type's \<open>n\<close>-th draw; None: no generator for the type\<close>
  sv_randint :: "nat \<Rightarrow> nat"                      \<comment> \<open>the \<open>n\<close>-th \<open>rng.randint(0, 9)\<close>\<close>
  sv_letter :: "nat \<Rightarrow> char"                      \<comment> \<open>the \<open>n\<close>-th \<open>rng.choice\<close> of a lower-case letter\<close>

record sampler =
  sa_source :: source_of_values
  sa_seen :: "string set"
  sa_drawn :: nat

definition MAX_DRAWS :: nat where "MAX_DRAWS = 40"

definition is_alpha :: "char \<Rightarrow> bool" where
  "is_alpha c \<longleftrightarrow> is_upper c \<or> is_lower c"

definition shape :: "string \<Rightarrow> string" where
  "shape v = map (\<lambda>c. if is_lower c then CHR ''a'' else if is_upper c then CHR ''A'' else if is_digit c then CHR ''9'' else c) v"

text \<open>Python's \<^verbatim>\<open>round\<close> of a quarter of a length: half to even.\<close>

definition quarter_round :: "nat \<Rightarrow> nat" where
  "quarter_round n = (if n mod 4 = 2 then (if even (n div 4) then n div 4 else n div 4 + 1)
     else if n mod 4 = 3 then n div 4 + 1 else n div 4)"

definition similar :: "string \<Rightarrow> string \<Rightarrow> bool" where
  "similar candidate other \<longleftrightarrow>
     (if other = candidate then False
      else if int (max 1 (quarter_round (length candidate))) < \<bar>int (length other) - int (length candidate)\<bar> then False
      else if length candidate \<le> 2 * length (filter is_digit candidate) then shape other = shape candidate
      else list_ex is_upper (take 1 candidate) = list_ex is_upper (take 1 other))"

fun perturb_chars :: "source_of_values \<Rightarrow> nat \<Rightarrow> string \<Rightarrow> string \<times> nat" where
  "perturb_chars src n [] = ([], n)"
| "perturb_chars src n (ch # cs) =
     (if is_digit ch then (case perturb_chars src (Suc n) cs of (out, n') \<Rightarrow> (nat_str (sv_randint src n) @ out, n'))
      else if is_alpha ch
      then (case perturb_chars src (Suc n) cs of (out, n') \<Rightarrow>
              ((if is_upper ch then upper_char (sv_letter src n) else sv_letter src n) # out, n'))
      else (case perturb_chars src n cs of (out, n') \<Rightarrow> (ch # out, n')))"

definition perturb :: "string \<Rightarrow> sampler \<Rightarrow> string \<times> sampler" where
  "perturb v sa = (case perturb_chars (sa_source sa) (sa_drawn sa) v of (out, n) \<Rightarrow> (out, sa\<lparr> sa_drawn := n \<rparr>))"

definition draw_value :: "string \<Rightarrow> string \<Rightarrow> sampler \<Rightarrow> string \<times> sampler" where
  "draw_value entity_type candidate sa = (case sv_generate (sa_source sa) entity_type (sa_drawn sa) of
      Some v \<Rightarrow> (v, sa\<lparr> sa_drawn := Suc (sa_drawn sa) \<rparr>)
    | None \<Rightarrow> perturb candidate sa)"

fun synthetic_loop :: "nat \<Rightarrow> string \<Rightarrow> string \<Rightarrow> string option \<Rightarrow> sampler \<Rightarrow> string \<times> sampler" where
  "synthetic_loop 0 entity_type candidate best sa = (case best of Some v \<Rightarrow> (v, sa) | None \<Rightarrow> perturb candidate sa)"
| "synthetic_loop (Suc k) entity_type candidate best sa =
     (case draw_value entity_type candidate sa of (v, sa') \<Rightarrow>
        if v \<in> sa_seen sa' \<or> v = candidate then synthetic_loop k entity_type candidate best sa'
        else if similar candidate v then (v, sa')
        else synthetic_loop k entity_type candidate (Some v) sa')"

definition synthetic :: "string \<Rightarrow> string \<Rightarrow> sampler \<Rightarrow> string \<times> sampler" where
  "synthetic entity_type candidate sa = synthetic_loop MAX_DRAWS entity_type candidate None sa"

text \<open>\<^verbatim>\<open>ReferenceSampler(records, source="synthetic", seed)\<close>; \<^verbatim>\<open>one\<close> then is \<^verbatim>\<open>_synthetic\<close>.\<close>

definition reference_sampler :: "source_of_values \<Rightarrow> corpus_record list \<Rightarrow> sampler" where
  "reference_sampler src records = \<lparr> sa_source = src,
     sa_seen = set (concat (map (\<lambda>r. map (span_value r) (cr_entities r)) records)), sa_drawn = 0 \<rparr>"

section \<open>What to sanitize\<close>

type_synonym targets = "(string \<times> (int \<times> int) set) list"

definition targets_of :: "targets \<Rightarrow> string \<Rightarrow> (int \<times> int) set" where
  "targets_of d k = (case map_of d k of None \<Rightarrow> {} | Some s \<Rightarrow> s)"

text \<open>\<^verbatim>\<open>d.setdefault(k, set()).add(x)\<close> and \<^verbatim>\<open>d.setdefault(k, set()).update(xs)\<close>.\<close>

definition add_targets :: "string \<Rightarrow> (int \<times> int) set \<Rightarrow> targets \<Rightarrow> targets" where
  "add_targets k xs d = AList.update k (targets_of d k \<union> xs) d"

definition risky_spans :: "entity_audit_result option \<Rightarrow> corpus_record list \<Rightarrow> severity \<Rightarrow> string list \<Rightarrow> targets" where
  "risky_spans audit records min_severity always =
     (let chosen = (case audit of
            None \<Rightarrow> []
          | Some a \<Rightarrow> foldl (\<lambda>d f. if at_least (ef_severity f) min_severity
                then add_targets (ef_record f) {(fst (ef_span f), snd (ef_span f))} d else d) [] (ea_findings a));
          kinds = set (map py_upper always)
      in if kinds = {} then chosen
         else foldl (\<lambda>d r. foldl (\<lambda>d s. if sp_type s \<in> kinds then add_targets (cr_id r) {(sp_start s, sp_end s)} d else d)
                d (cr_entities r)) chosen records)"

section \<open>Rewriting\<close>

record rewrite_state =
  rw_replace :: "string dict"
  rw_sampler :: sampler
  rw_replaced :: counter

definition replace_key :: "string \<Rightarrow> string \<Rightarrow> string" where
  "replace_key entity_type v = entity_type @ [CHR 0x00] @ v"

definition replacement :: "string \<Rightarrow> string \<Rightarrow> string \<Rightarrow> rewrite_state \<Rightarrow> string \<times> rewrite_state" where
  "replacement strategy entity_type v st =
     (let key = replace_key entity_type v;
          (new, st') = (case map_of (rw_replace st) key of
             Some new \<Rightarrow> (new, st)
           | None \<Rightarrow> if strategy = ''mask''
                then (''['' @ entity_type @ '']'', st\<lparr> rw_replace := AList.update key (''['' @ entity_type @ '']'') (rw_replace st) \<rparr>)
                else (case synthetic entity_type v (rw_sampler st) of
                        (new, sa) \<Rightarrow> (new, st\<lparr> rw_replace := AList.update key new (rw_replace st), rw_sampler := sa \<rparr>)))
      in (new, st'\<lparr> rw_replaced := counter_inc entity_type (rw_replaced st') \<rparr>))"

fun rewrite_spans :: "corpus_record \<Rightarrow> (int \<times> int) set \<Rightarrow> string \<Rightarrow> int \<Rightarrow> int \<Rightarrow> span list \<Rightarrow> rewrite_state
    \<Rightarrow> string \<times> span list \<times> rewrite_state" where
  "rewrite_spans r targets strategy cursor shift [] st = (py_slice (cr_text r) cursor (int (length (cr_text r))), [], st)"
| "rewrite_spans r targets strategy cursor shift (s # ss) st =
     (let piece = py_slice (cr_text r) cursor (sp_start s);
          old = span_value r s;
          (v, st') = (if (sp_start s, sp_end s) \<in> targets then replacement strategy (sp_type s) old st else (old, st));
          start = sp_start s + shift;
          (rest, new_spans, st'') = rewrite_spans r targets strategy (sp_end s)
             (shift + (int (length v) - (sp_end s - sp_start s))) ss st'
      in (piece @ v @ rest, \<lparr> sp_start = start, sp_end = start + int (length v), sp_type = sp_type s \<rparr> # new_spans, st''))"

definition rewrite :: "corpus_record \<Rightarrow> (int \<times> int) set \<Rightarrow> string \<Rightarrow> rewrite_state \<Rightarrow> corpus_record \<times> rewrite_state" where
  "rewrite r targets strategy st =
     (case rewrite_spans r targets strategy 0 0 (sort_key sp_start (cr_entities r)) st of
        (text, new_spans, st') \<Rightarrow> (\<lparr> cr_id = cr_id r, cr_text = text, cr_entities = new_spans \<rparr>, st'))"

definition STRATEGIES :: "string list" where
  "STRATEGIES = [''surrogate'', ''mask'', ''drop'']"

record sanitize_report =
  sr_strategy :: string
  sr_replaced :: counter
  sr_dropped_records :: nat

fun rewrite_all :: "targets \<Rightarrow> string \<Rightarrow> corpus_record list \<Rightarrow> rewrite_state \<Rightarrow> corpus_record list \<times> rewrite_state" where
  "rewrite_all targets strategy [] st = ([], st)"
| "rewrite_all targets strategy (r # rs) st =
     (let wanted = targets_of targets (cr_id r);
          (r', st') = (if wanted = {} then (r, st) else rewrite r wanted strategy st);
          (rs', st'') = rewrite_all targets strategy rs st'
      in (r' # rs', st''))"

datatype sanitize_error = UnknownStrategy

definition sanitize :: "source_of_values \<Rightarrow> corpus_record list \<Rightarrow> targets \<Rightarrow> string
    \<Rightarrow> sanitize_error + corpus_record list \<times> sanitize_report" where
  "sanitize src records targets strategy =
     (if strategy \<notin> set STRATEGIES then Inl UnknownStrategy
      else if strategy = ''drop''
      then (let kept = filter (\<lambda>r. targets_of targets (cr_id r) = {}) records
            in Inr (kept, \<lparr> sr_strategy = strategy, sr_replaced = [], sr_dropped_records = length records - length kept \<rparr>))
      else (case rewrite_all targets strategy records
               \<lparr> rw_replace = [], rw_sampler = reference_sampler src records, rw_replaced = [] \<rparr> of
              (out, st) \<Rightarrow> Inr (out, \<lparr> sr_strategy = strategy, sr_replaced = rw_replaced st, sr_dropped_records = 0 \<rparr>)))"

section \<open>Translating findings\<close>

definition translate_pair :: "corpus_record \<Rightarrow> corpus_record \<Rightarrow> (int \<times> int) set \<Rightarrow> bool \<Rightarrow> span \<times> span \<Rightarrow> targets \<Rightarrow> targets" where
  "translate_pair original copy wanted only_original p d = (case p of (o1, n1) \<Rightarrow>
     if (sp_start o1, sp_end o1) \<notin> wanted then d
     else if only_original \<and> span_value copy n1 \<noteq> span_value original o1 then d
     else add_targets (cr_id original) {(sp_start n1, sp_end n1)} d)"

definition translate_record :: "targets \<Rightarrow> (string \<times> corpus_record) list \<Rightarrow> bool \<Rightarrow> targets \<Rightarrow> corpus_record \<Rightarrow> targets" where
  "translate_record targets copies only_original d r = (case map_of copies (cr_id r) of
      None \<Rightarrow> d
    | Some copy \<Rightarrow>
        (let wanted = targets_of targets (cr_id r) in
         if wanted = {} \<or> length (cr_entities copy) \<noteq> length (cr_entities r) then d
         else foldl (\<lambda>d p. translate_pair r copy wanted only_original p d) d (zip (cr_entities r) (cr_entities copy))))"

definition translate :: "targets \<Rightarrow> corpus_record list \<Rightarrow> corpus_record list \<Rightarrow> bool \<Rightarrow> targets" where
  "translate targets raw train only_original =
     foldl (translate_record targets (dict_of (map (\<lambda>r. (cr_id r, r)) train)) only_original) [] raw"

section \<open>Texts as gaps and values\<close>

text \<open>Spans in order, none overlapping (an empty one is allowed: a surrogate may be empty).\<close>

fun spaced :: "int \<Rightarrow> int \<Rightarrow> span list \<Rightarrow> bool" where
  "spaced lo n [] \<longleftrightarrow> lo \<le> n"
| "spaced lo n (s # ss) \<longleftrightarrow> lo \<le> sp_start s \<and> sp_start s \<le> sp_end s \<and> spaced (sp_end s) n ss"

fun gaps :: "string \<Rightarrow> int \<Rightarrow> span list \<Rightarrow> string list" where
  "gaps text lo [] = [py_slice text lo (int (length text))]"
| "gaps text lo (s # ss) = py_slice text lo (sp_start s) # gaps text (sp_end s) ss"

definition span_values :: "corpus_record \<Rightarrow> string list" where
  "span_values r = map (span_value r) (cr_entities r)"

text \<open>The text and the spans that given gaps and typed values make, from position \<open>pos\<close> on.\<close>

fun render :: "int \<Rightarrow> string list \<Rightarrow> (string \<times> string) list \<Rightarrow> string \<times> span list" where
  "render pos gs [] = (concat gs, [])"
| "render pos [] vts = ([], [])"
| "render pos (g # gs) ((v, t) # vts) =
     (let start = pos + int (length g); (rest, ss) = render (start + int (length v)) gs vts
      in (g @ v @ rest, \<lparr> sp_start = start, sp_end = start + int (length v), sp_type = t \<rparr> # ss))"

lemma well_spaced_spaced: "well_spaced lo n ss \<Longrightarrow> spaced lo n ss"
  by (induction ss arbitrary: lo) auto

lemma spaced_le: "spaced lo n ss \<Longrightarrow> lo \<le> n"
  by (induction ss arbitrary: lo) fastforce+

lemma spaced_bounds: "spaced lo n ss \<Longrightarrow> s \<in> set ss \<Longrightarrow> lo \<le> sp_start s \<and> sp_start s \<le> sp_end s \<and> sp_end s \<le> n"
  by (induction ss arbitrary: lo) (force dest: spaced_le)+

lemma spaced_sorted: "spaced lo n ss \<Longrightarrow> sorted (map sp_start ss)"
  by (induction ss arbitrary: lo) (force dest: spaced_bounds)+

lemma length_gaps [simp]: "length (gaps text lo ss) = Suc (length ss)"
  by (induction ss arbitrary: lo) auto

lemma py_slice_append_front:
  "int (length a) = i \<Longrightarrow> int (length a + length b) = j \<Longrightarrow> py_slice (a @ b @ c) i j = b"
  by (auto simp: py_slice_in slice_def)

lemma render_text:
  assumes "length gs = Suc (length vts)" "int (length front) = pos" "render pos gs vts = (tx, ss)"
  shows "spaced pos (int (length (front @ tx))) ss \<and> gaps (front @ tx) pos ss = gs
    \<and> map (\<lambda>s. py_slice (front @ tx) (sp_start s) (sp_end s)) ss = map fst vts
    \<and> map sp_type ss = map snd vts"
  using assms
proof (induction vts arbitrary: pos gs front tx ss)
  case Nil
  then obtain g where "gs = [g]" by (cases gs) auto
  with Nil show ?case using py_slice_append_front [of front pos g "int (length (front @ g))" "[]"] by auto
next
  case (Cons vt vts)
  obtain v t where vt: "vt = (v, t)" by fastforce
  obtain g gs' where gs: "gs = g # gs'" using Cons.prems(1) by (cases gs) auto
  let ?start = "pos + int (length g)"
  obtain rest ss' where rest: "render (?start + int (length v)) gs' vts = (rest, ss')" by fastforce
  have out: "tx = g @ v @ rest"
      "ss = \<lparr> sp_start = ?start, sp_end = ?start + int (length v), sp_type = t \<rparr> # ss'"
    using Cons.prems(3) rest by (auto simp: gs vt Let_def)
  have ih: "spaced (?start + int (length v)) (int (length (front @ tx))) ss' \<and> gaps (front @ tx) (?start + int (length v)) ss' = gs'
      \<and> map (\<lambda>s. py_slice (front @ tx) (sp_start s) (sp_end s)) ss' = map fst vts \<and> map sp_type ss' = map snd vts"
    using Cons.IH [of gs' "front @ g @ v", OF _ _ rest] Cons.prems(1,2) by (simp add: gs out(1))
  have "py_slice (front @ tx) pos ?start = g"
    using py_slice_append_front [of front pos g ?start "v @ rest"] Cons.prems(2) by (simp add: out(1))
  moreover have "py_slice (front @ tx) ?start (?start + int (length v)) = v"
    using py_slice_append_front [of "front @ g" ?start v "?start + int (length v)" rest] Cons.prems(2) by (simp add: out(1))
  ultimately show ?case using ih by (simp add: out(2) gs vt)
qed

section \<open>Rewriting changes the targeted values only\<close>

text \<open>The replacements chosen so far are never changed.\<close>

definition extends :: "rewrite_state \<Rightarrow> rewrite_state \<Rightarrow> bool" where
  "extends st st' \<longleftrightarrow> map_of (rw_replace st) \<subseteq>\<^sub>m map_of (rw_replace st')"

lemma extends_refl [simp]: "extends st st"
  by (simp add: extends_def)

lemma extends_trans: "extends a b \<Longrightarrow> extends b c \<Longrightarrow> extends a c"
  unfolding extends_def by (rule map_le_trans)

lemma extends_get: "extends st st' \<Longrightarrow> map_of (rw_replace st) k = Some v \<Longrightarrow> map_of (rw_replace st') k = Some v"
  by (auto simp: extends_def map_le_def dom_def)

lemma replacement_extends:
  assumes "replacement strategy t v st = (new, st')"
  shows "extends st st' \<and> map_of (rw_replace st') (replace_key t v) = Some new"
proof (cases "map_of (rw_replace st) (replace_key t v)")
  case None
  then have "map_of (rw_replace st) \<subseteq>\<^sub>m map_of (AList.update (replace_key t v) x (rw_replace st))" for x
    by (auto simp: map_le_def update_conv' dom_def)
  with None assms show ?thesis
    by (auto simp: replacement_def Let_def extends_def update_conv' split: if_splits prod.splits)
qed (use assms in \<open>auto simp: replacement_def Let_def extends_def\<close>)

text \<open>The new value of a span under the final replacements.\<close>

definition new_value :: "string dict \<Rightarrow> (int \<times> int) set \<Rightarrow> corpus_record \<Rightarrow> span \<Rightarrow> string" where
  "new_value rep targets r s = (if (sp_start s, sp_end s) \<in> targets
     then (case map_of rep (replace_key (sp_type s) (span_value r s)) of Some v \<Rightarrow> v | None \<Rightarrow> [])
     else span_value r s)"

definition covered :: "string dict \<Rightarrow> (int \<times> int) set \<Rightarrow> corpus_record \<Rightarrow> span list \<Rightarrow> bool" where
  "covered rep targets r ss \<longleftrightarrow> list_all (\<lambda>s. (sp_start s, sp_end s) \<in> targets \<longrightarrow>
     map_of rep (replace_key (sp_type s) (span_value r s)) \<noteq> None) ss"

lemma new_value_extends:
  assumes "extends st st'" "covered (rw_replace st) targets r [s]"
  shows "new_value (rw_replace st') targets r s = new_value (rw_replace st) targets r s \<and> covered (rw_replace st') targets r [s]"
  using assms extends_get [OF assms(1)] by (auto simp: new_value_def covered_def)

lemma rewrite_spans_render:
  assumes "rewrite_spans r targets strategy cursor shift ss st = (tx, new, st')"
    "spaced cursor (int (length (cr_text r))) ss" "0 \<le> cursor"
  shows "extends st st' \<and> covered (rw_replace st') targets r ss \<and>
    render (cursor + shift) (gaps (cr_text r) cursor ss)
      (map (\<lambda>s. (new_value (rw_replace st') targets r s, sp_type s)) ss) = (tx, new)"
  using assms
proof (induction ss arbitrary: cursor shift st tx new)
  case Nil
  then show ?case by (auto simp: covered_def)
next
  case (Cons s ss)
  define old where "old = span_value r s"
  obtain v st1 where v: "(if (sp_start s, sp_end s) \<in> targets then replacement strategy (sp_type s) old st else (old, st)) = (v, st1)"
    by fastforce
  obtain rest new' where rest: "rewrite_spans r targets strategy (sp_end s)
      (shift + (int (length v) - (sp_end s - sp_start s))) ss st1 = (rest, new', st')"
    and out: "tx = py_slice (cr_text r) cursor (sp_start s) @ v @ rest"
      "new = \<lparr> sp_start = sp_start s + shift, sp_end = sp_start s + shift + int (length v), sp_type = sp_type s \<rparr> # new'"
    using Cons.prems(1) v unfolding old_def by (auto simp: Let_def split: prod.splits)
  have sp: "spaced (sp_end s) (int (length (cr_text r))) ss" "cursor \<le> sp_start s" "sp_start s \<le> sp_end s" "0 \<le> sp_end s"
      "sp_end s \<le> int (length (cr_text r))"
    using Cons.prems(2,3) spaced_le by auto
  note ih = Cons.IH [OF rest sp(1,4)]
  have st1: "extends st st1" "covered (rw_replace st1) targets r [s]" "v = new_value (rw_replace st1) targets r s"
    using v replacement_extends [of strategy "sp_type s" old st v st1]
    by (auto simp: new_value_def covered_def old_def split: if_splits)
  have ext: "extends st1 st'" using ih by blast
  have v': "new_value (rw_replace st') targets r s = v" "covered (rw_replace st') targets r [s]"
    using new_value_extends [OF ext st1(2)] st1(3) by auto
  have "int (length (py_slice (cr_text r) cursor (sp_start s))) = sp_start s - cursor"
    using sp Cons.prems(3) by (simp add: py_slice_in slice_length)
  then have pos: "cursor + shift + int (length (py_slice (cr_text r) cursor (sp_start s))) = sp_start s + shift" by simp
  have eq: "sp_start s + shift + int (length v) = sp_end s + (shift + (int (length v) - (sp_end s - sp_start s)))" by simp
  have "render (sp_start s + shift + int (length v)) (gaps (cr_text r) (sp_end s) ss)
      (map (\<lambda>s. (new_value (rw_replace st') targets r s, sp_type s)) ss) = (rest, new')"
    unfolding eq using ih by blast
  then show ?case
    using ih extends_trans [OF st1(1) ext] v'(2) by (simp add: out v'(1) pos Let_def covered_def)
qed

lemma rewrite_values:
  assumes "rewrite r targets strategy st = (r', st')" "spaced 0 (int (length (cr_text r))) (cr_entities r)"
  shows "extends st st' \<and> covered (rw_replace st') targets r (cr_entities r) \<and> cr_id r' = cr_id r
    \<and> spaced 0 (int (length (cr_text r'))) (cr_entities r')
    \<and> gaps (cr_text r') 0 (cr_entities r') = gaps (cr_text r) 0 (cr_entities r)
    \<and> span_values r' = map (new_value (rw_replace st') targets r) (cr_entities r)
    \<and> map sp_type (cr_entities r') = map sp_type (cr_entities r)"
proof -
  have sort: "sort_key sp_start (cr_entities r) = cr_entities r"
    using spaced_sorted [OF assms(2)] by (simp add: sort_key_id_if_sorted)
  obtain tx new where run: "rewrite_spans r targets strategy 0 0 (cr_entities r) st = (tx, new, st')"
    and r': "r' = \<lparr> cr_id = cr_id r, cr_text = tx, cr_entities = new \<rparr>"
    using assms(1) by (auto simp: rewrite_def sort split: prod.splits)
  note rs = rewrite_spans_render [OF run assms(2)]
  have "render 0 (gaps (cr_text r) 0 (cr_entities r))
      (map (\<lambda>s. (new_value (rw_replace st') targets r s, sp_type s)) (cr_entities r)) = (tx, new)"
    using rs by simp
  from render_text [OF _ _ this, of "[]"] rs show ?thesis
    by (simp add: r' span_values_def span_value_def [abs_def] comp_def)
qed

section \<open>The whole corpus\<close>

definition rewritten :: "string dict \<Rightarrow> targets \<Rightarrow> corpus_record \<Rightarrow> corpus_record \<Rightarrow> bool" where
  "rewritten rep tg r r' \<longleftrightarrow> cr_id r' = cr_id r \<and> spaced 0 (int (length (cr_text r'))) (cr_entities r')
     \<and> gaps (cr_text r') 0 (cr_entities r') = gaps (cr_text r) 0 (cr_entities r)
     \<and> span_values r' = map (new_value rep (targets_of tg (cr_id r)) r) (cr_entities r)
     \<and> map sp_type (cr_entities r') = map sp_type (cr_entities r)
     \<and> covered rep (targets_of tg (cr_id r)) r (cr_entities r)"

lemma rewritten_extends:
  assumes "extends st st'" "rewritten (rw_replace st) tg r r'"
  shows "rewritten (rw_replace st') tg r r'"
proof -
  have c: "covered (rw_replace st) (targets_of tg (cr_id r)) r [s]" if "s \<in> set (cr_entities r)" for s
    using assms(2) that by (auto simp: rewritten_def covered_def list_all_iff)
  have "new_value (rw_replace st') (targets_of tg (cr_id r)) r s = new_value (rw_replace st) (targets_of tg (cr_id r)) r s
      \<and> covered (rw_replace st') (targets_of tg (cr_id r)) r [s]" if "s \<in> set (cr_entities r)" for s
    by (rule new_value_extends [OF assms(1) c [OF that]])
  with assms(2) show ?thesis by (auto simp: rewritten_def covered_def list_all_iff)
qed

lemma rewritten_refl: "targets_of tg (cr_id r) = {} \<Longrightarrow> spaced 0 (int (length (cr_text r))) (cr_entities r) \<Longrightarrow> rewritten rep tg r r"
  by (simp add: rewritten_def covered_def list_all_iff new_value_def span_values_def)

lemma rewrite_all_values:
  assumes "rewrite_all tg strategy rs st = (out, st')"
    "list_all (\<lambda>r. spaced 0 (int (length (cr_text r))) (cr_entities r)) rs"
  shows "extends st st' \<and> list_all2 (rewritten (rw_replace st') tg) rs out"
  using assms
proof (induction rs arbitrary: st out)
  case (Cons r rs)
  obtain r' st1 where one: "(if targets_of tg (cr_id r) = {} then (r, st) else rewrite r (targets_of tg (cr_id r)) strategy st) = (r', st1)"
    by fastforce
  obtain rs' where more: "rewrite_all tg strategy rs st1 = (rs', st')" and out: "out = r' # rs'"
    using Cons.prems(1) one by (auto simp: Let_def split: prod.splits)
  have ih: "extends st1 st' \<and> list_all2 (rewritten (rw_replace st') tg) rs rs'"
    using Cons.IH [OF more] Cons.prems(2) by simp
  have "extends st st1 \<and> rewritten (rw_replace st1) tg r r'"
  proof (cases "targets_of tg (cr_id r) = {}")
    case True
    with one Cons.prems(2) rewritten_refl [of tg r] show ?thesis by simp
  next
    case False
    with one rewrite_values [of r "targets_of tg (cr_id r)" strategy st r' st1] Cons.prems(2)
    show ?thesis by (simp add: rewritten_def)
  qed
  with ih rewritten_extends [of st1 st'] extends_trans show ?case by (auto simp: out)
qed simp


subsection \<open>Masks\<close>

definition masks :: "string dict \<Rightarrow> bool" where
  "masks rep \<longleftrightarrow> (\<forall>k v. map_of rep k = Some v \<longrightarrow> v = ''['' @ takeWhile (\<lambda>c. c \<noteq> CHR 0x00) k @ '']'')"

lemma takeWhile_key: "CHR 0x00 \<notin> set t \<Longrightarrow> takeWhile (\<lambda>c. c \<noteq> CHR 0x00) (replace_key t v) = t"
  unfolding replace_key_def by (induction t) auto

lemma replacement_masks:
  "replacement ''mask'' t v st = (new, st') \<Longrightarrow> CHR 0x00 \<notin> set t \<Longrightarrow> masks (rw_replace st) \<Longrightarrow> masks (rw_replace st')"
  by (auto simp: replacement_def Let_def masks_def takeWhile_key update_conv' split: option.splits if_splits)

lemma rewrite_spans_masks:
  "rewrite_spans r tg ''mask'' cursor shift ss st = (tx, new, st') \<Longrightarrow> list_all (\<lambda>s. CHR 0x00 \<notin> set (sp_type s)) ss
   \<Longrightarrow> masks (rw_replace st) \<Longrightarrow> masks (rw_replace st')"
proof (induction ss arbitrary: cursor shift st tx new)
  case (Cons s ss)
  obtain v st1 where one: "(if (sp_start s, sp_end s) \<in> tg then replacement ''mask'' (sp_type s) (span_value r s) st
      else (span_value r s, st)) = (v, st1)" by fastforce
  have "masks (rw_replace st1)"
    using one Cons.prems(2,3) replacement_masks [of "sp_type s" "span_value r s" st v st1] by (auto split: if_splits)
  with Cons one show ?case by (auto simp: Let_def split: prod.splits)
qed simp

lemma rewrite_all_masks:
  "rewrite_all tg ''mask'' rs st = (out, st') \<Longrightarrow> list_all (\<lambda>r. list_all (\<lambda>s. CHR 0x00 \<notin> set (sp_type s)) (cr_entities r)) rs
   \<Longrightarrow> masks (rw_replace st) \<Longrightarrow> masks (rw_replace st')"
proof (induction rs arbitrary: st out)
  case (Cons r rs)
  obtain r' st1 where one: "(if targets_of tg (cr_id r) = {} then (r, st) else rewrite r (targets_of tg (cr_id r)) ''mask'' st) = (r', st1)"
    by fastforce
  have "list_all (\<lambda>s. CHR 0x00 \<notin> set (sp_type s)) (sort_key sp_start (cr_entities r))"
    using Cons.prems(2) by (simp add: list_all_iff)
  then have "masks (rw_replace st1)"
    using one Cons.prems(3) rewrite_spans_masks [of r "targets_of tg (cr_id r)" 0 0 "sort_key sp_start (cr_entities r)" st]
    by (auto simp: rewrite_def split: if_splits prod.splits)
  with Cons one show ?case by (auto simp: Let_def split: prod.splits)
qed simp

text \<open>
  With the mask strategy every targeted value of the corpus is gone: in its place stands the
  placeholder of its type.
\<close>

theorem mask_hides_targets:
  assumes "sanitize src rs tg ''mask'' = Inr (out, rep)"
    "list_all (\<lambda>r. spaced 0 (int (length (cr_text r))) (cr_entities r) \<and> list_all (\<lambda>s. CHR 0x00 \<notin> set (sp_type s)) (cr_entities r)) rs"
  shows "list_all2 (\<lambda>r r'. span_values r' = map (\<lambda>s. if (sp_start s, sp_end s) \<in> targets_of tg (cr_id r)
      then ''['' @ sp_type s @ '']'' else span_value r s) (cr_entities r)) rs out"
proof -
  obtain st' where run: "rewrite_all tg ''mask'' rs
      \<lparr> rw_replace = [], rw_sampler = reference_sampler src rs, rw_replaced = [] \<rparr> = (out, st')"
    using assms(1) by (auto simp: sanitize_def STRATEGIES_def split: prod.splits)
  have masks: "masks (rw_replace st')"
    by (rule rewrite_all_masks [OF run]) (use assms(2) in \<open>auto simp: masks_def list_all_iff\<close>)
  have all: "list_all2 (rewritten (rw_replace st') tg) rs out"
    using rewrite_all_values [OF run] assms(2) by (simp add: list_all_iff)
  have "new_value (rw_replace st') (targets_of tg (cr_id r)) r s = (if (sp_start s, sp_end s) \<in> targets_of tg (cr_id r)
      then ''['' @ sp_type s @ '']'' else span_value r s)"
    if rs: "r \<in> set rs" "s \<in> set (cr_entities r)" "covered (rw_replace st') (targets_of tg (cr_id r)) r (cr_entities r)" for r s
  proof (cases "(sp_start s, sp_end s) \<in> targets_of tg (cr_id r)")
    case True
    then obtain x where x: "map_of (rw_replace st') (replace_key (sp_type s) (span_value r s)) = Some x"
      using rs(2,3) by (auto simp: covered_def list_all_iff)
    have "takeWhile (\<lambda>c. c \<noteq> CHR 0x00) (replace_key (sp_type s) (span_value r s)) = sp_type s"
      by (rule takeWhile_key) (use rs(1,2) assms(2) in \<open>auto simp: list_all_iff\<close>)
    then have "x = ''['' @ sp_type s @ '']''" using masks x unfolding masks_def by metis
    with True x show ?thesis by (simp add: new_value_def)
  qed (simp add: new_value_def)
  with all show ?thesis
    by (auto simp: rewritten_def list_all2_conv_all_nth)
qed

section \<open>Chosen and translated targets\<close>

lemma targets_of_add: "targets_of (add_targets k xs d) i = (if i = k then targets_of d k \<union> xs else targets_of d i)"
  by (simp add: targets_of_def add_targets_def update_conv')

lemma targets_foldl:
  assumes "\<And>d x. targets_of (step d x) i = targets_of d i \<union> new x"
  shows "targets_of (foldl step d xs) i = targets_of d i \<union> (\<Union>x \<in> set xs. new x)"
  by (induction xs arbitrary: d) (auto simp: assms)

lemma targets_of_Nil [simp]: "targets_of [] i = {}"
  by (simp add: targets_of_def)

lemma risky_spans_in:
  "targets_of (risky_spans audit records least always) i =
     {(a, b) | a b. \<exists>res f. audit = Some res \<and> f \<in> set (ea_findings res) \<and> ef_record f = i
        \<and> ef_span f = (a, b) \<and> at_least (ef_severity f) least}
     \<union> {(sp_start s, sp_end s) | s. \<exists>r. r \<in> set records \<and> cr_id r = i \<and> s \<in> set (cr_entities r)
        \<and> sp_type s \<in> set (map py_upper always)}"
proof -
  define kinds where "kinds = set (map py_upper always)"
  let ?found = "\<lambda>f. if ef_record f = i \<and> at_least (ef_severity f) least then {(fst (ef_span f), snd (ef_span f))} else {}"
  let ?kind = "\<lambda>r s. if cr_id r = i \<and> sp_type s \<in> kinds then {(sp_start s, sp_end s)} else {}"
  let ?one = "\<lambda>d f. if at_least (ef_severity f) least
                then add_targets (ef_record f) {(fst (ef_span f), snd (ef_span f))} d else d"
  let ?two = "\<lambda>r d s. if sp_type s \<in> kinds then add_targets (cr_id r) {(sp_start s, sp_end s)} d else d"
  have one: "targets_of (foldl ?one [] fs) i = (\<Union>f \<in> set fs. ?found f)" for fs
    by (subst targets_foldl [where new = ?found]) (auto simp: targets_of_add)
  have two: "targets_of (foldl (?two r) d ss) i = targets_of d i \<union> (\<Union>s \<in> set ss. ?kind r s)" for r d ss
    by (rule targets_foldl) (auto simp: targets_of_add)
  have all: "targets_of (foldl (\<lambda>d r. foldl (?two r) d (cr_entities r)) d records) i
      = targets_of d i \<union> (\<Union>r \<in> set records. \<Union>s \<in> set (cr_entities r). ?kind r s)" for d
    by (rule targets_foldl) (rule two)
  let ?chosen = "case audit of None \<Rightarrow> [] | Some a \<Rightarrow> foldl ?one [] (ea_findings a)"
  have c: "targets_of ?chosen i = (\<Union>f \<in> (case audit of None \<Rightarrow> {} | Some a \<Rightarrow> set (ea_findings a)). ?found f)"
    by (cases audit) (simp_all add: one del: targets_foldl)
  have "targets_of (risky_spans audit records least always) i
      = targets_of ?chosen i \<union> (\<Union>r \<in> set records. \<Union>s \<in> set (cr_entities r). ?kind r s)"
    unfolding risky_spans_def Let_def kinds_def [symmetric] by (cases "kinds = {}") (auto simp: all)
  then show ?thesis unfolding c kinds_def [symmetric] by (auto split: option.splits if_splits)
qed

text \<open>
  What is chosen for sanitizing: the spans of the findings at or above the severity asked for, and
  every span whose type is one of those never to be trained on.
\<close>

theorem risky_spans_chosen:
  "targets_of (risky_spans audit records least always) i =
     {(a, b) | a b. \<exists>res f. audit = Some res \<and> f \<in> set (ea_findings res) \<and> ef_record f = i
        \<and> ef_span f = (a, b) \<and> at_least (ef_severity f) least}
     \<union> {(sp_start s, sp_end s) | s. \<exists>r. r \<in> set records \<and> cr_id r = i \<and> s \<in> set (cr_entities r)
        \<and> sp_type s \<in> set (map py_upper always)}"
  by (rule risky_spans_in)

definition moved :: "corpus_record \<Rightarrow> corpus_record \<Rightarrow> (int \<times> int) set \<Rightarrow> bool \<Rightarrow> (span \<times> span) list \<Rightarrow> (int \<times> int) set" where
  "moved r copy wanted only ps = {(sp_start n, sp_end n) | n o1. (o1, n) \<in> set ps
     \<and> (sp_start o1, sp_end o1) \<in> wanted \<and> (only \<longrightarrow> span_value copy n = span_value r o1)}"

lemma translate_pairs_targets:
  "targets_of (foldl (\<lambda>d p. translate_pair r copy wanted only p d) d ps) i
   = targets_of d i \<union> (if cr_id r = i then moved r copy wanted only ps else {})"
proof (induction ps arbitrary: d)
  case (Cons p ps)
  obtain o1 n where p: "p = (o1, n)" by fastforce
  have "moved r copy wanted only (p # ps) = moved r copy wanted only [p] \<union> moved r copy wanted only ps"
    by (auto simp: moved_def)
  moreover have "targets_of (translate_pair r copy wanted only p d) i
      = targets_of d i \<union> (if cr_id r = i then moved r copy wanted only [p] else {})"
    by (auto simp: p moved_def translate_pair_def targets_of_add)
  ultimately show ?case using Cons [of "translate_pair r copy wanted only p d"] by auto
qed (simp add: moved_def)

lemma translate_record_targets:
  "targets_of (translate_record tg copies only d r) i = targets_of d i \<union>
     (case map_of copies (cr_id r) of None \<Rightarrow> {} | Some copy \<Rightarrow>
        if cr_id r = i \<and> length (cr_entities copy) = length (cr_entities r)
        then moved r copy (targets_of tg (cr_id r)) only (zip (cr_entities r) (cr_entities copy)) else {})"
  by (auto simp: translate_record_def Let_def translate_pairs_targets split: option.splits) (auto simp: moved_def)

lemma translate_moves:
  assumes "distinct (map cr_id raw)" "distinct (map cr_id train)"
    "r \<in> set raw" "copy \<in> set train" "cr_id copy = cr_id r" "length (cr_entities copy) = length (cr_entities r)"
  shows "targets_of (translate tg raw train only) (cr_id r) =
    {(sp_start n, sp_end n) | n o1. (o1, n) \<in> set (zip (cr_entities r) (cr_entities copy))
       \<and> (sp_start o1, sp_end o1) \<in> targets_of tg (cr_id r) \<and> (only \<longrightarrow> span_value copy n = span_value r o1)}"
proof -
  let ?copies = "dict_of (map (\<lambda>r. (cr_id r, r)) train)"
  let ?new = "\<lambda>r'. case map_of ?copies (cr_id r') of None \<Rightarrow> {} | Some cp \<Rightarrow>
     if cr_id r' = cr_id r \<and> length (cr_entities cp) = length (cr_entities r')
     then moved r' cp (targets_of tg (cr_id r')) only (zip (cr_entities r') (cr_entities cp)) else {}"
  have "map_of (map (\<lambda>r. (cr_id r, r)) (rev train)) (cr_id r) = Some copy"
  proof (rule map_of_is_SomeI)
    show "distinct (map fst (map (\<lambda>r. (cr_id r, r)) (rev train)))" using assms(2) by (simp add: comp_def flip: rev_map)
    show "(cr_id r, copy) \<in> set (map (\<lambda>r. (cr_id r, r)) (rev train))"
      using assms(4) unfolding assms(5) [symmetric] by simp
  qed
  then have copy: "map_of ?copies (cr_id r) = Some copy" by (simp add: map_of_dict_of rev_map)
  have "targets_of (translate tg raw train only) (cr_id r) = (\<Union>r' \<in> set raw. ?new r')"
    unfolding translate_def by (subst targets_foldl [OF translate_record_targets]) simp
  also have "\<dots> = (\<Union>r' \<in> set raw. if r' = r then ?new r else {})"
    using assms(1,3) by (intro SUP_cong refl) (auto simp: distinct_map inj_on_def split: option.splits)
  also have "\<dots> = ?new r" using assms(3) by auto
  finally show ?thesis using assms(6) by (simp add: copy moved_def)
qed

text \<open>
  Translating findings to the training copy is by position: the span at a position of the copy is
  targeted exactly when the span at that position of the original record is, the copy has as many
  spans, and, where only original values are to be replaced, the copy still has the original value.
\<close>

theorem translate_by_position:
  assumes "distinct (map cr_id raw)" "distinct (map cr_id train)"
    "r \<in> set raw" "copy \<in> set train" "cr_id copy = cr_id r" "length (cr_entities copy) = length (cr_entities r)"
  shows "targets_of (translate tg raw train only) (cr_id r) =
    {(sp_start n, sp_end n) | n o1. (o1, n) \<in> set (zip (cr_entities r) (cr_entities copy))
       \<and> (sp_start o1, sp_end o1) \<in> targets_of tg (cr_id r) \<and> (only \<longrightarrow> span_value copy n = span_value r o1)}"
  by (rule translate_moves [OF assms])

section \<open>Surrogates\<close>

lemma perturb_seen: "perturb v sa = (x, sa') \<Longrightarrow> sa_seen sa' = sa_seen sa"
  by (auto simp: perturb_def split: prod.splits)

lemma draw_seen: "draw_value t v sa = (x, sa') \<Longrightarrow> sa_seen sa' = sa_seen sa"
  by (auto simp: draw_value_def perturb_seen split: option.splits)

lemma synthetic_loop_fresh:
  assumes "synthetic_loop k t v best sa = (x, sa')"
    "\<And>b. best = Some b \<Longrightarrow> b \<notin> sa_seen sa \<and> b \<noteq> v"
  shows "(x \<notin> sa_seen sa \<and> x \<noteq> v) \<or> (\<exists>sa1. fst (perturb v sa1) = x)"
  using assms
proof (induction k arbitrary: best sa)
  case 0
  show ?case
  proof (cases best)
    case None
    with 0 have "fst (perturb v sa) = x" by simp
    then show ?thesis by blast
  qed (use 0 in auto)
next
  case (Suc k)
  obtain y sa1 where d: "draw_value t v sa = (y, sa1)" by fastforce
  have seen: "sa_seen sa1 = sa_seen sa" by (rule draw_seen [OF d])
  show ?case
  proof (cases "y \<in> sa_seen sa \<or> y = v")
    case True
    with Suc.prems(1) have "synthetic_loop k t v best sa1 = (x, sa')" by (simp add: d seen)
    from Suc.IH [OF this] Suc.prems(2) show ?thesis by (simp add: seen)
  next
    case False
    show ?thesis
    proof (cases "similar v y")
      case True
      with False Suc.prems(1) show ?thesis by (auto simp: d seen)
    next
      case no: False
      with False Suc.prems(1) have "synthetic_loop k t v (Some y) sa1 = (x, sa')" by (simp add: d seen)
      from Suc.IH [OF this] False show ?thesis by (simp add: seen)
    qed
  qed
qed

text \<open>
  A surrogate is a value that occurs nowhere in the corpus and differs from the original, unless
  every draw failed and the original is perturbed character by character.
\<close>

theorem surrogate_fresh_or_perturbed:
  assumes "synthetic t v (reference_sampler src rs) = (x, sa')"
  shows "(x \<notin> set (concat (map span_values rs)) \<and> x \<noteq> v) \<or> (\<exists>sa. fst (perturb v sa) = x)"
  using synthetic_loop_fresh [OF assms [unfolded synthetic_def]]
  by (auto simp: reference_sampler_def span_values_def [abs_def])

lemma perturb_symbols:
  "list_all (\<lambda>c. \<not> is_alpha c \<and> \<not> is_digit c) v \<Longrightarrow> perturb_chars src n v = (v, n)"
  by (induction v) auto

text \<open>
  A value without a letter or a digit, of a type without a generator, is left as it is: its
  surrogate is the value itself.
\<close>

theorem symbols_are_not_replaced:
  assumes "list_all (\<lambda>c. \<not> is_alpha c \<and> \<not> is_digit c) v" "sv_generate (sa_source sa) t = (\<lambda>_. None)"
  shows "synthetic t v sa = (v, sa)"
proof -
  have p: "perturb v sa = (v, sa)" using perturb_symbols [OF assms(1)] by (simp add: perturb_def)
  then have "draw_value t v sa = (v, sa)" using assms(2) by (simp add: draw_value_def)
  then have "synthetic_loop k t v None sa = (v, sa)" for k by (induction k) (simp_all add: p)
  then show ?thesis by (simp add: synthetic_def)
qed

section \<open>Examples\<close>

definition example_source :: source_of_values where
  "example_source = \<lparr> sv_generate = (\<lambda>t n. if t = ''EMAIL'' then Some ''x@y'' else None),
     sv_randint = (\<lambda>n. n mod 10), sv_letter = (\<lambda>_. CHR ''q'') \<rparr>"

definition example_targets :: targets where
  "example_targets = [(''1'', {(0, 3)})]"

lemma example_spaced: "list_all (\<lambda>r. spaced 0 (int (length (cr_text r))) (cr_entities r) \<and> list_all (\<lambda>s. CHR 0x00 \<notin> set (sp_type s)) (cr_entities r)) [example_record]"
  by (simp add: example_record_def)

lemma example_sanitize: "\<exists>out rep. sanitize example_source [example_record] example_targets strategy = Inr (out, rep)"
  if "strategy \<in> {''surrogate'', ''mask''}"
  using that by (auto simp: sanitize_def STRATEGIES_def split: prod.splits)


theorem mask_hides_targets_witness:
  "\<exists>out rep. sanitize example_source [example_record] example_targets ''mask'' = Inr (out, rep)
    \<and> map span_values out = [[''[EMAIL]'']]"
proof -
  obtain out rep where run: "sanitize example_source [example_record] example_targets ''mask'' = Inr (out, rep)"
    using example_sanitize [of "''mask''"] by auto
  from mask_hides_targets [OF run example_spaced] have "map span_values out = [[''[EMAIL]'']]"
    by (auto simp: list_all2_Cons1 example_record_def example_targets_def targets_of_def)
  with run show ?thesis by (intro exI conjI)
qed

theorem translate_by_position_witness:
  "targets_of (translate example_targets [example_record] [example_record] True) ''1'' = {(0, 3)}"
  using translate_by_position [of "[example_record]" "[example_record]" example_record example_record example_targets True]
  by (auto simp: example_record_def example_targets_def targets_of_def)

theorem surrogate_fresh_or_perturbed_witness:
  "\<exists>x sa. synthetic ''EMAIL'' ''a@b'' (reference_sampler example_source [example_record]) = (x, sa)
    \<and> ((x \<notin> {''a@b''} \<and> x \<noteq> ''a@b'') \<or> (\<exists>sa. fst (perturb ''a@b'' sa) = x))"
proof -
  obtain x sa where run: "synthetic ''EMAIL'' ''a@b'' (reference_sampler example_source [example_record]) = (x, sa)" by fastforce
  from surrogate_fresh_or_perturbed [OF run] run show ?thesis by (auto simp: span_values_def example_record_def)
qed

theorem symbols_are_not_replaced_witness:
  "synthetic ''NOTE'' ''--'' (reference_sampler example_source []) = (''--'', reference_sampler example_source [])"
  by (rule symbols_are_not_replaced)
    (simp_all add: reference_sampler_def example_source_def is_alpha_def is_upper_def is_lower_def is_digit_def less_eq_char_def)

end
