(* ===== verification/MP_Guard.thy ===== *)
theory MP_Guard
  imports MP_Sanitize
begin

text \<open>
  The privacy layer between an application and an AI model (\<^verbatim>\<open>guard/engine.py\<close>, \<^verbatim>\<open>guard/chat.py\<close>):
  policies, the vault of placeholders, protecting requests, reviewing replies, and both on chat
  messages. The detector is the interface the code plugs in, a function from a text to its spans, and
  so is the test whether a value was memorized.
\<close>

section \<open>Policies\<close>

datatype action = MASK | REDACT | BLOCK | ALLOW

fun action_value :: "action \<Rightarrow> string" where
  "action_value MASK = ''mask''"
| "action_value REDACT = ''redact''"
| "action_value BLOCK = ''block''"
| "action_value ALLOW = ''allow''"

datatype guard_error = Blocked string "string list" | PyTypeError | PyValueError

definition action_of :: "string \<Rightarrow> guard_error + action" where
  "action_of s = (if s = ''mask'' then Inr MASK else if s = ''redact'' then Inr REDACT
     else if s = ''block'' then Inr BLOCK else if s = ''allow'' then Inr ALLOW else Inl PyValueError)"

record guard_policy =
  gp_inbound :: "action dict"
  gp_inbound_default :: action
  gp_outbound :: "action dict"
  gp_memorized :: action

definition default_guard_policy :: guard_policy where
  "default_guard_policy = \<lparr> gp_inbound = [], gp_inbound_default = MASK, gp_outbound = [], gp_memorized = REDACT \<rparr>"

definition REQUEST_DEFAULTS :: "action dict" where
  "REQUEST_DEFAULTS = [(''DATE'', ALLOW)]"

definition for_request :: "guard_policy \<Rightarrow> string \<Rightarrow> action" where
  "for_request p entity_type =
     (let dflt = (case map_of REQUEST_DEFAULTS entity_type of Some a \<Rightarrow> a | None \<Rightarrow> gp_inbound_default p)
      in case map_of (gp_inbound p) entity_type of Some a \<Rightarrow> a | None \<Rightarrow> dflt)"

definition for_reply :: "guard_policy \<Rightarrow> string \<Rightarrow> action" where
  "for_reply p entity_type =
     (let dflt = (if HIGH_IMPACT \<le> impact entity_type then REDACT else ALLOW)
      in case map_of (gp_outbound p) entity_type of Some a \<Rightarrow> a | None \<Rightarrow> dflt)"

fun parse_actions :: "text_codec \<Rightarrow> json dict \<Rightarrow> guard_error + action dict" where
  "parse_actions tc [] = Inr []"
| "parse_actions tc ((k, v) # kvs) = (case action_of (py_str tc v) of
      Inl e \<Rightarrow> Inl e
    | Inr a \<Rightarrow> (case parse_actions tc kvs of Inl e \<Rightarrow> Inl e | Inr d \<Rightarrow> Inr ((py_upper k, a) # d)))"

definition policy_actions :: "text_codec \<Rightarrow> json dict \<Rightarrow> string \<Rightarrow> guard_error + action dict" where
  "policy_actions tc d key = (case get_or d key (JObj []) of
      JObj raw \<Rightarrow> map_sum id dict_of (parse_actions tc raw)
    | _ \<Rightarrow> Inl PyTypeError)"

definition policy_from_json :: "text_codec \<Rightarrow> json dict option \<Rightarrow> guard_error + guard_policy" where
  "policy_from_json tc d0 =
     (let d = (case d0 of None \<Rightarrow> [] | Some d \<Rightarrow> d) in
      case policy_actions tc d ''inbound'' of
        Inl e \<Rightarrow> Inl e
      | Inr inb \<Rightarrow> (case action_of (py_str tc (get_default d ''inbound_default'' (JStr ''mask''))) of
          Inl e \<Rightarrow> Inl e
        | Inr inb_default \<Rightarrow> (case policy_actions tc d ''outbound'' of
            Inl e \<Rightarrow> Inl e
          | Inr outb \<Rightarrow> (case action_of (py_str tc (get_default d ''memorized'' (JStr ''redact''))) of
              Inl e \<Rightarrow> Inl e
            | Inr mem \<Rightarrow> Inr \<lparr> gp_inbound = inb, gp_inbound_default = inb_default, gp_outbound = outb, gp_memorized = mem \<rparr>))))"

definition actions_json :: "action dict \<Rightarrow> json" where
  "actions_json d = JObj (map (\<lambda>(k, a). (k, JStr (action_value a))) d)"

definition policy_to_json :: "guard_policy \<Rightarrow> json dict" where
  "policy_to_json p = [(''inbound'', actions_json (gp_inbound p)), (''inbound_default'', JStr (action_value (gp_inbound_default p))),
     (''outbound'', actions_json (gp_outbound p)), (''memorized'', JStr (action_value (gp_memorized p)))]"

section \<open>The vault\<close>

definition token :: "string \<Rightarrow> nat \<Rightarrow> string" where
  "token entity_type n = ''['' @ entity_type @ ''_'' @ nat_str n @ '']''"

record vault =
  va_token :: "((string \<times> string) \<times> string) list"
  va_value :: "string dict"
  va_next :: counter

definition empty_vault :: vault where
  "empty_vault = \<lparr> va_token = [], va_value = [], va_next = [] \<rparr>"

definition placeholder :: "string \<Rightarrow> string \<Rightarrow> vault \<Rightarrow> string \<times> vault" where
  "placeholder entity_type v va = (case map_of (va_token va) (entity_type, v) of
      Some t \<Rightarrow> (t, va)
    | None \<Rightarrow>
        (let nxt = counter_inc entity_type (va_next va); t = token entity_type (counter_get nxt entity_type)
         in (t, va\<lparr> va_next := nxt, va_token := AList.update (entity_type, v) t (va_token va),
                va_value := AList.update t v (va_value va) \<rparr>)))"

definition knows :: "vault \<Rightarrow> string \<Rightarrow> bool" where
  "knows va v = list_ex (\<lambda>(_, x). x = v) (va_value va)"

text \<open>
  \<^verbatim>\<open>\[([A-Z][A-Z0-9]*)_(\d+)\]\<close> at the start of a text: the match and what follows. Each class ends where
  the next literal begins, so the greedy match is the only one.
\<close>

definition upper_or_digit :: "char \<Rightarrow> bool" where
  "upper_or_digit c \<longleftrightarrow> is_upper c \<or> is_digit c"

definition match_placeholder :: "string \<Rightarrow> (string \<times> string) option" where
  "match_placeholder s = (case s of
      [] \<Rightarrow> None
    | c # r \<Rightarrow>
        if c \<noteq> CHR ''['' then None
        else (let kind = takeWhile upper_or_digit r; r1 = dropWhile upper_or_digit r in
          if kind = [] \<or> \<not> is_upper (hd kind) then None
          else (case r1 of
             [] \<Rightarrow> None
           | u # r2 \<Rightarrow> if u \<noteq> CHR ''_'' then None
               else (let ds = takeWhile is_digit r2; r3 = dropWhile is_digit r2 in
                 if ds = [] then None
                 else (case r3 of
                    [] \<Rightarrow> None
                  | b # r4 \<Rightarrow> if b \<noteq> CHR '']'' then None
                      else Some (''['' @ kind @ ''_'' @ ds @ '']'', r4))))))"

lemma match_placeholder_append:
  assumes "match_placeholder s = Some (t, r)"
  shows "s = t @ r \<and> t \<noteq> []"
proof -
  obtain r0 r2 where m: "s = CHR ''['' # r0" "dropWhile upper_or_digit r0 = CHR ''_'' # r2"
      "dropWhile is_digit r2 = CHR '']'' # r" "t = ''['' @ takeWhile upper_or_digit r0 @ ''_'' @ takeWhile is_digit r2 @ '']''"
    using assms by (auto simp: match_placeholder_def Let_def split: list.splits if_splits)
  have "r0 = takeWhile upper_or_digit r0 @ CHR ''_'' # r2" "r2 = takeWhile is_digit r2 @ CHR '']'' # r"
    using takeWhile_dropWhile_id [of upper_or_digit r0] takeWhile_dropWhile_id [of is_digit r2] m(2,3) by simp_all
  then have "s = CHR ''['' # takeWhile upper_or_digit r0 @ CHR ''_'' # takeWhile is_digit r2 @ CHR '']'' # r"
    unfolding m(1) by metis
  then show ?thesis by (simp add: m(4))
qed

function restore :: "string dict \<Rightarrow> (string \<Rightarrow> string) \<Rightarrow> string \<Rightarrow> string" where
  "restore vs escape [] = []"
| "restore vs escape (c # cs) = (case match_placeholder (c # cs) of
      Some (t, rest) \<Rightarrow> (case map_of vs t of None \<Rightarrow> t | Some v \<Rightarrow> escape v) @ restore vs escape rest
    | None \<Rightarrow> c # restore vs escape cs)"
  by pat_completeness auto

termination
proof (relation "measure (\<lambda>(_, _, s). length s)")
  fix vs :: "string dict" and escape :: "string \<Rightarrow> string" and c cs x t rest
  assume "match_placeholder (c # cs) = Some x" "(t, rest) = x"
  then have "c # cs = t @ rest" "t \<noteq> []" using match_placeholder_append by auto
  then show "((vs, escape, rest), vs, escape, c # cs) \<in> measure (\<lambda>(_, _, s). length s)" by simp
qed auto

definition vault_restore :: "vault \<Rightarrow> string \<Rightarrow> (string \<Rightarrow> string) option \<Rightarrow> string" where
  "vault_restore va text escape = restore (va_value va) (case escape of None \<Rightarrow> id | Some e \<Rightarrow> e) text"

section \<open>The guard\<close>

record guard_report =
  gr_masked :: counter
  gr_redacted :: counter
  gr_leaked :: counter
  gr_memorized :: counter

definition empty_report_counts :: guard_report where
  "empty_report_counts = \<lparr> gr_masked = [], gr_redacted = [], gr_leaked = [], gr_memorized = [] \<rparr>"

definition counter_json :: "counter \<Rightarrow> json" where
  "counter_json c = JObj (map (\<lambda>(k, n). (k, JInt (int n))) c)"

definition report_json :: "guard_report \<Rightarrow> json dict" where
  "report_json r = [(''masked'', counter_json (gr_masked r)), (''redacted'', counter_json (gr_redacted r)),
     (''leaked'', counter_json (gr_leaked r)), (''memorized'', counter_json (gr_memorized r))]"

record guard =
  gd_policy :: guard_policy
  gd_find :: "string \<Rightarrow> span list"
  gd_is_memorized :: "string \<Rightarrow> string \<Rightarrow> bool"

record guard_state =
  gs_vault :: vault
  gs_report :: guard_report

type_synonym 'a G = "(guard_error, guard_state, 'a) act"

definition blocked_error :: "string \<Rightarrow> string list \<Rightarrow> guard_error" where
  "blocked_error side types = Blocked side (sort (remdups types))"

definition protect_value :: "guard_policy \<Rightarrow> string \<Rightarrow> string \<Rightarrow> guard_state \<Rightarrow> string \<times> guard_state" where
  "protect_value p entity_type v st = (case for_request p entity_type of
      MASK \<Rightarrow> (case placeholder entity_type v (gs_vault st) of (t, va) \<Rightarrow>
        (t, st\<lparr> gs_vault := va, gs_report := (gs_report st)\<lparr> gr_masked := counter_inc entity_type (gr_masked (gs_report st)) \<rparr> \<rparr>))
    | REDACT \<Rightarrow> (''['' @ entity_type @ '']'',
        st\<lparr> gs_report := (gs_report st)\<lparr> gr_redacted := counter_inc entity_type (gr_redacted (gs_report st)) \<rparr> \<rparr>)
    | _ \<Rightarrow> (v, st))"

fun protect_spans :: "guard_policy \<Rightarrow> string \<Rightarrow> int \<Rightarrow> span list \<Rightarrow> guard_state \<Rightarrow> string \<times> guard_state" where
  "protect_spans p tx cursor [] st = (py_slice tx cursor (int (length tx)), st)"
| "protect_spans p tx cursor (s # ss) st =
     (let v = py_slice tx (sp_start s) (sp_end s);
          (out, st') = protect_value p (sp_type s) v st;
          (rest, st'') = protect_spans p tx (sp_end s) ss st'
      in (py_slice tx cursor (sp_start s) @ out @ rest, st''))"

definition protect :: "guard \<Rightarrow> string \<Rightarrow> string G" where
  "protect g tx st =
     (let spans = gd_find g tx;
          blocked = filter (\<lambda>t. for_request (gd_policy g) t = BLOCK) (map sp_type spans)
      in if blocked \<noteq> [] then (Inl (blocked_error ''request'' blocked), st)
         else (case protect_spans (gd_policy g) tx 0 spans st of (out, st') \<Rightarrow> (Inr out, st')))"

text \<open>A detected value the user did not send: counted as leaked, and what to do with it.\<close>

definition decide_span :: "guard \<Rightarrow> string \<Rightarrow> span \<Rightarrow> guard_report \<Rightarrow> action \<times> guard_report" where
  "decide_span g tx s r =
     (let r' = r\<lparr> gr_leaked := counter_inc (sp_type s) (gr_leaked r) \<rparr> in
      if gd_is_memorized g (sp_type s) (py_slice tx (sp_start s) (sp_end s))
      then (gp_memorized (gd_policy g), r'\<lparr> gr_memorized := counter_inc (sp_type s) (gr_memorized r') \<rparr>)
      else (for_reply (gd_policy g) (sp_type s), r'))"

fun decide_spans :: "guard \<Rightarrow> string \<Rightarrow> span list \<Rightarrow> guard_report \<Rightarrow> (span \<times> action) list \<times> guard_report" where
  "decide_spans g tx [] r = ([], r)"
| "decide_spans g tx (s # ss) r = (case decide_span g tx s r of (a, r') \<Rightarrow>
      case decide_spans g tx ss r' of (ds, r'') \<Rightarrow> ((s, a) # ds, r''))"

fun apply_decisions :: "string \<Rightarrow> int \<Rightarrow> (span \<times> action) list \<Rightarrow> guard_report \<Rightarrow> string \<times> guard_report" where
  "apply_decisions tx cursor [] r = (py_slice tx cursor (int (length tx)), r)"
| "apply_decisions tx cursor ((s, a) # ds) r =
     (let (out, r') = (if a = REDACT \<or> a = MASK
            then (''['' @ sp_type s @ '']'', r\<lparr> gr_redacted := counter_inc (sp_type s) (gr_redacted r) \<rparr>)
            else (py_slice tx (sp_start s) (sp_end s), r));
          (rest, r'') = apply_decisions tx (sp_end s) ds r'
      in (py_slice tx cursor (sp_start s) @ out @ rest, r''))"

definition review :: "guard \<Rightarrow> string \<Rightarrow> (string \<Rightarrow> string) option \<Rightarrow> string G" where
  "review g tx escape st =
     (let spans = filter (\<lambda>s. \<not> knows (gs_vault st) (py_slice tx (sp_start s) (sp_end s))) (gd_find g tx);
          (decisions, r) = decide_spans g tx spans (gs_report st);
          blocked = map (sp_type \<circ> fst) (filter (\<lambda>(_, a). a = BLOCK) decisions)
      in if blocked \<noteq> [] then (Inl (blocked_error ''reply'' blocked), st\<lparr> gs_report := r \<rparr>)
         else (case apply_decisions tx 0 decisions r of (out, r') \<Rightarrow>
                 (Inr (vault_restore (gs_vault st) out escape), st\<lparr> gs_report := r' \<rparr>)))"

definition fingerprint :: "(bytes \<Rightarrow> bytes \<Rightarrow> bytes) \<Rightarrow> bytes \<Rightarrow> string \<Rightarrow> string \<Rightarrow> string" where
  "fingerprint hmac key entity_type v = hex_of (hmac key (entity_type @ '':'' @ v))"

section \<open>Chat messages\<close>

definition json_escape :: "string \<Rightarrow> string" where
  "json_escape v = esc_string True v"

definition protect_part :: "guard \<Rightarrow> text_codec \<Rightarrow> json \<Rightarrow> json G" where
  "protect_part g tc part = (case part of
      JObj d \<Rightarrow> if map_of d ''type'' = Some (JStr ''text'')
                then bnd (protect g (py_str tc (get_default d ''text'' (JStr [])))) (\<lambda>out. ret (JObj (AList.update ''text'' (JStr out) d)))
                else ret part
    | _ \<Rightarrow> ret part)"

text \<open>\<^verbatim>\<open>[f(x) for x in xs]\<close>, from left to right.\<close>

definition protect_content :: "guard \<Rightarrow> text_codec \<Rightarrow> json \<Rightarrow> json G" where
  "protect_content g tc content = (case content of
      JStr s \<Rightarrow> bnd (protect g s) (\<lambda>out. ret (JStr out))
    | JArr ps \<Rightarrow> bnd (map_act (protect_part g tc) ps) (\<lambda>qs. ret (JArr qs))
    | _ \<Rightarrow> ret content)"

definition protect_call :: "guard \<Rightarrow> json \<Rightarrow> json G" where
  "protect_call g call = (case call of
      JObj d \<Rightarrow> (case map_of d ''function'' of
          Some (JObj f) \<Rightarrow> (case map_of f ''arguments'' of
              Some (JStr args) \<Rightarrow> bnd (protect g args) (\<lambda>out.
                ret (JObj (AList.update ''function'' (JObj (AList.update ''arguments'' (JStr out) f)) d)))
            | _ \<Rightarrow> ret call)
        | _ \<Rightarrow> ret call)
    | _ \<Rightarrow> ret call)"

definition protect_message :: "guard \<Rightarrow> text_codec \<Rightarrow> json dict \<Rightarrow> json dict G" where
  "protect_message g tc message =
     bnd (case map_of message ''content'' of
            None \<Rightarrow> ret message
          | Some content \<Rightarrow> bnd (protect_content g tc content) (\<lambda>c. ret (AList.update ''content'' c message))) (\<lambda>out.
     (case map_of out ''tool_calls'' of
        Some (JArr calls) \<Rightarrow> bnd (map_act (protect_call g) calls) (\<lambda>cs. ret (AList.update ''tool_calls'' (JArr cs) out))
      | _ \<Rightarrow> ret out))"

definition PLACEHOLDER_NOTE :: string where
  "PLACEHOLDER_NOTE = ''Some personal details in this conversation were replaced with placeholders such as [EMAIL_1]. When you refer to one, write the placeholder exactly as it appears.''"

definition note_message :: "json dict" where
  "note_message = [(''role'', JStr ''system''), (''content'', JStr PLACEHOLDER_NOTE)]"

definition protect_messages :: "guard \<Rightarrow> text_codec \<Rightarrow> json dict list \<Rightarrow> json dict list G" where
  "protect_messages g tc messages =
     bnd (map_act (protect_message g tc) messages) (\<lambda>protected.
     bnd (gets (\<lambda>st. va_value (gs_vault st))) (\<lambda>vs.
     ret (if vs = [] then protected else note_message # protected)))"

definition review_call :: "guard \<Rightarrow> json \<Rightarrow> json G" where
  "review_call g call = (case call of
      JObj d \<Rightarrow> (case map_of d ''function'' of
          Some (JObj f) \<Rightarrow> (case map_of f ''arguments'' of
              Some (JStr args) \<Rightarrow> bnd (review g args (Some json_escape)) (\<lambda>out.
                ret (JObj (AList.update ''function'' (JObj (AList.update ''arguments'' (JStr out) f)) d)))
            | _ \<Rightarrow> ret call)
        | _ \<Rightarrow> ret call)
    | _ \<Rightarrow> ret call)"

text \<open>
  \<^verbatim>\<open>for x in (d.get(k) or []): ...\<close> where the body acts on dicts only: a list is updated in place, the
  keys of a dict and the characters of a string are skipped, and a number cannot be iterated.
\<close>

definition for_items :: "string \<Rightarrow> (json \<Rightarrow> json G) \<Rightarrow> json dict \<Rightarrow> json dict G" where
  "for_items k f d = (case map_of d k of
      None \<Rightarrow> ret d
    | Some v \<Rightarrow> if json_falsy v then ret d
        else (case v of
            JArr xs \<Rightarrow> bnd (map_act f xs) (\<lambda>ys. ret (AList.update k (JArr ys) d))
          | JObj _ \<Rightarrow> ret d
          | JStr _ \<Rightarrow> ret d
          | _ \<Rightarrow> raise PyTypeError))"

definition review_choice :: "guard \<Rightarrow> json \<Rightarrow> json G" where
  "review_choice g choice = (case choice of
      JObj d \<Rightarrow> (case map_of d ''message'' of
          Some (JObj message) \<Rightarrow>
            bnd (case map_of message ''content'' of
                   Some (JStr s) \<Rightarrow> bnd (review g s None) (\<lambda>out. ret (AList.update ''content'' (JStr out) message))
                 | _ \<Rightarrow> ret message) (\<lambda>m1.
            bnd (for_items ''tool_calls'' (review_call g) m1) (\<lambda>m2.
            ret (JObj (AList.update ''message'' (JObj m2) d))))
        | _ \<Rightarrow> ret choice)
    | _ \<Rightarrow> ret choice)"

definition review_completion :: "guard \<Rightarrow> json dict \<Rightarrow> json dict G" where
  "review_completion g completion = for_items ''choices'' (review_choice g) completion"

section \<open>Tokens\<close>

lemma takeWhile_stop: "list_all P xs \<Longrightarrow> \<not> P y \<Longrightarrow> takeWhile P (xs @ y # ys) = xs \<and> dropWhile P (xs @ y # ys) = y # ys"
  by (induction xs) auto

lemma token_inject [simp]: "token t m = token u n \<longleftrightarrow> t = u \<and> m = n"
proof
  assume eq: "token t m = token u n"
  have split: "takeWhile (\<lambda>c. c \<noteq> CHR ''_'') (rev (t @ ''_'' @ nat_str k)) = rev (nat_str k)" for t k
  proof -
    have "list_all (\<lambda>c. c \<noteq> CHR ''_'') (rev (nat_str k))"
      using nat_str_digits [of "CHR ''_''" k] by (auto simp: list_all_iff is_digit_def less_eq_char_def)
    from takeWhile_stop [OF this] show ?thesis by simp
  qed
  have body: "t @ ''_'' @ nat_str m = u @ ''_'' @ nat_str n" using eq by (simp add: token_def)
  then have "rev (nat_str m) = rev (nat_str n)" using split [of t m] split [of u n] by metis
  then show "t = u \<and> m = n" using body by simp
qed simp

definition kind_name :: "string \<Rightarrow> bool" where
  "kind_name t \<longleftrightarrow> t \<noteq> [] \<and> is_upper (hd t) \<and> list_all upper_or_digit t"

lemma match_token:
  assumes "kind_name t"
  shows "match_placeholder (token t n @ rest) = Some (token t n, rest)"
proof -
  have kind: "takeWhile upper_or_digit (t @ CHR ''_'' # nat_str n @ CHR '']'' # rest) = t"
      "dropWhile upper_or_digit (t @ CHR ''_'' # nat_str n @ CHR '']'' # rest) = CHR ''_'' # nat_str n @ CHR '']'' # rest"
    using takeWhile_stop [of upper_or_digit t "CHR ''_''" "nat_str n @ CHR '']'' # rest"] assms
    by (auto simp: kind_name_def upper_or_digit_def is_upper_def is_digit_def less_eq_char_def)
  have digits: "takeWhile is_digit (nat_str n @ CHR '']'' # rest) = nat_str n"
      "dropWhile is_digit (nat_str n @ CHR '']'' # rest) = CHR '']'' # rest"
    using takeWhile_stop [of is_digit "nat_str n" "CHR '']''" rest] nat_str_digits
    by (auto simp: list_all_iff is_digit_def less_eq_char_def)
  show ?thesis
    using assms by (simp add: match_placeholder_def token_def kind digits kind_name_def Let_def)
qed

lemma restore_plain: "CHR ''['' \<notin> set a \<Longrightarrow> restore vs esc (a @ b) = a @ restore vs esc b"
  by (induction a) (auto simp: match_placeholder_def)

lemma restore_token:
  assumes "kind_name t" "map_of vs (token t n) = Some v"
  shows "restore vs esc (token t n @ b) = esc v @ restore vs esc b"
proof -
  obtain c cs where "token t n @ b = c # cs" by (simp add: token_def)
  with match_token [OF assms(1), of n b] assms(2) show ?thesis by (metis (no_types, lifting) case_prod_conv option.case(2) restore.simps(2))
qed

section \<open>The vault invariant\<close>

definition vault_ok :: "vault \<Rightarrow> bool" where
  "vault_ok va \<longleftrightarrow>
     (\<forall>t v k. map_of (va_token va) (t, v) = Some k \<longrightarrow> map_of (va_value va) k = Some v \<and> (\<exists>n \<le> counter_get (va_next va) t. k = token t n)) \<and>
     (\<forall>k v. map_of (va_value va) k = Some v \<longrightarrow> (\<exists>t n. k = token t n \<and> n \<le> counter_get (va_next va) t \<and> map_of (va_token va) (t, v) = Some k))"

lemma empty_vault_ok [simp]: "vault_ok empty_vault"
  by (simp add: vault_ok_def empty_vault_def)

lemma placeholder_new:
  assumes "vault_ok va" "map_of (va_token va) (t, v) = None"
  shows "map_of (va_value va) (token t (Suc (counter_get (va_next va) t))) = None"
proof (rule ccontr)
  assume "map_of (va_value va) (token t (Suc (counter_get (va_next va) t))) \<noteq> None"
  then obtain x where "map_of (va_value va) (token t (Suc (counter_get (va_next va) t))) = Some x" by blast
  then show False using assms(1) unfolding vault_ok_def by fastforce
qed

lemma placeholder_keeps:
  assumes "vault_ok va" "placeholder t v va = (k, va')"
  shows "vault_ok va' \<and> map_of (va_value va') k = Some v \<and> map_of (va_value va) \<subseteq>\<^sub>m map_of (va_value va')
    \<and> map_of (va_token va') (t, v) = Some k \<and> (\<exists>n. k = token t n)"
proof (cases "map_of (va_token va) (t, v)")
  case (Some k0)
  then have "map_of (va_value va) k0 = Some v \<and> (\<exists>n. k0 = token t n)" using assms(1) unfolding vault_ok_def by blast
  with Some assms show ?thesis by (auto simp: placeholder_def)
next
  case None
  let ?n = "Suc (counter_get (va_next va) t)"
  have va': "k = token t ?n" "va_next va' = counter_inc t (va_next va)"
      "map_of (va_token va') = (map_of (va_token va))((t, v) \<mapsto> k)" "map_of (va_value va') = (map_of (va_value va))(k \<mapsto> v)"
    using assms(2) None by (auto simp: placeholder_def Let_def counter_get_inc update_conv')
  have new: "map_of (va_value va) k = None" using placeholder_new [OF assms(1) None] va'(1) by simp
  have le: "n \<le> counter_get (va_next va) u \<Longrightarrow> n \<le> counter_get (va_next va') u" for u n
    unfolding va'(2) by (auto simp: counter_get_inc)
  have "map_of (va_value va') k' = Some v' \<and> (\<exists>n \<le> counter_get (va_next va') t'. k' = token t' n)"
    if "map_of (va_token va') (t', v') = Some k'" for t' v' k'
    using that assms(1) new le unfolding va'(3,4) vault_ok_def
    by (auto simp: va'(1,2) counter_get_inc split: if_splits) (metis le_SucI)+
  moreover have "\<exists>u n. k' = token u n \<and> n \<le> counter_get (va_next va') u \<and> map_of (va_token va') (u, v') = Some k'"
    if "map_of (va_value va') k' = Some v'" for k' v'
  proof (cases "k' = k")
    case True
    with that show ?thesis by (auto simp: va' counter_get_inc)
  next
    case False
    with that have "map_of (va_value va) k' = Some v'" by (simp add: va'(4))
    then obtain u n where u: "k' = token u n" "n \<le> counter_get (va_next va) u" "map_of (va_token va) (u, v') = Some k'"
      using assms(1) unfolding vault_ok_def by blast
    with None have "(u, v') \<noteq> (t, v)" by auto
    with u le [OF u(2)] show ?thesis by (auto simp: va'(3))
  qed
  ultimately have "vault_ok va'" unfolding vault_ok_def by blast
  then show ?thesis using new by (auto simp: va' map_le_def)
qed

text \<open>
  Placeholders are faithful: asking for a value's placeholder keeps the vault consistent, the
  placeholder maps back to that value and keeps doing so, and two placeholders are equal only for the
  same value of the same type.
\<close>

theorem placeholder_faithful:
  assumes "vault_ok va" "placeholder t v va = (k, va1)" "placeholder u x va1 = (l, va2)"
  shows "vault_ok va2 \<and> map_of (va_value va2) k = Some v \<and> map_of (va_value va2) l = Some x
    \<and> (k = l \<longleftrightarrow> t = u \<and> v = x)"
proof -
  note one = placeholder_keeps [OF assms(1,2)]
  note two = placeholder_keeps [OF conjunct1 [OF one] assms(3)]
  have k: "map_of (va_value va2) k = Some v" using one two by (auto simp: map_le_def dom_def)
  obtain m n where "k = token t m" "l = token u n" using one two by blast
  then have "t = u" "v = x" if "k = l" using that k two by auto
  moreover have "k = l" if "t = u" "v = x" using assms(3) one that by (auto simp: placeholder_def)
  ultimately show ?thesis using k two by blast
qed

section \<open>Protecting and restoring\<close>

text \<open>Protection on the parts of a text: its gaps and its typed values.\<close>

fun protect_parts :: "guard_policy \<Rightarrow> string list \<Rightarrow> (string \<times> string) list \<Rightarrow> guard_state \<Rightarrow> string \<times> guard_state" where
  "protect_parts p gs [] st = (concat gs, st)"
| "protect_parts p [] tvs st = ([], st)"
| "protect_parts p (g # gs) ((t, v) # tvs) st =
     (let (out, st') = protect_value p t v st; (rest, st'') = protect_parts p gs tvs st' in (g @ out @ rest, st''))"

definition typed_values :: "string \<Rightarrow> span list \<Rightarrow> (string \<times> string) list" where
  "typed_values tx ss = map (\<lambda>s. (sp_type s, py_slice tx (sp_start s) (sp_end s))) ss"

lemma protect_spans_parts:
  "protect_spans p tx cursor ss st = protect_parts p (gaps tx cursor ss) (typed_values tx ss) st"
  by (induction ss arbitrary: cursor st) (auto simp: typed_values_def split: prod.splits)

definition weave :: "string list \<Rightarrow> string list \<Rightarrow> string" where
  "weave gs vs = concat (map (\<lambda>(g, v). g @ v) (zip gs (vs @ [[]])))"

lemma weave_simps [simp]: "weave [g] [] = g" "weave (g # gs) (v # vs) = g @ v @ weave gs vs"
  by (simp_all add: weave_def)

lemma weave_text:
  "well_spaced cursor (int (length tx)) ss \<Longrightarrow> 0 \<le> cursor \<Longrightarrow>
   weave (gaps tx cursor ss) (map snd (typed_values tx ss)) = drop (nat cursor) tx"
proof (induction ss arbitrary: cursor)
  case Nil
  then show ?case by (simp add: typed_values_def py_slice_in slice_def)
next
  case (Cons s ss)
  have b: "cursor \<le> sp_start s" "sp_start s < sp_end s" "sp_end s \<le> int (length tx)" "0 \<le> sp_end s"
    using Cons.prems well_spaced_le by auto
  have "slice tx (nat cursor) (nat (sp_start s)) @ slice tx (nat (sp_start s)) (nat (sp_end s)) @ drop (nat (sp_end s)) tx = drop (nat cursor) tx"
    using b Cons.prems(2) by (simp add: slice_drop)
  then show ?case
    using Cons.IH [of "sp_end s"] Cons.prems b by (simp add: typed_values_def py_slice_in)
qed

definition reversible :: "guard_policy \<Rightarrow> string \<Rightarrow> bool" where
  "reversible p t \<longleftrightarrow> (case for_request p t of MASK \<Rightarrow> kind_name t | ALLOW \<Rightarrow> True | _ \<Rightarrow> False)"

lemma restore_parts:
  assumes "protect_parts p gs tvs st = (out, st')" "length gs = Suc (length tvs)"
    "list_all (\<lambda>(t, v). reversible p t \<and> CHR ''['' \<notin> set v) tvs" "list_all (\<lambda>g. CHR ''['' \<notin> set g) gs"
    "vault_ok (gs_vault st)" "map_of (va_value (gs_vault st')) \<subseteq>\<^sub>m map_of vs"
  shows "vault_ok (gs_vault st') \<and> map_of (va_value (gs_vault st)) \<subseteq>\<^sub>m map_of (va_value (gs_vault st'))
    \<and> restore vs (\<lambda>x. x) (out @ rest) = weave gs (map snd tvs) @ restore vs (\<lambda>x. x) rest"
  using assms
proof (induction p gs tvs st arbitrary: out rule: protect_parts.induct)
  case (1 p gs st)
  then obtain g where "gs = [g]" by (cases gs) auto
  with 1 show ?case by (auto simp: restore_plain)
next
  case (3 p g gs t v tvs st)
  obtain o1 st1 where one: "protect_value p t v st = (o1, st1)" by fastforce
  obtain o2 where two: "protect_parts p gs tvs st1 = (o2, st')" and out: "out = g @ o1 @ o2"
    using 3 one by (auto split: prod.splits)
  have step: "vault_ok (gs_vault st1) \<and> map_of (va_value (gs_vault st)) \<subseteq>\<^sub>m map_of (va_value (gs_vault st1)) \<and>
      (map_of (va_value (gs_vault st1)) \<subseteq>\<^sub>m map_of vs \<longrightarrow> (\<forall>b. restore vs (\<lambda>x. x) (o1 @ b) = v @ restore vs (\<lambda>x. x) b))"
  proof (cases "for_request p t")
    case MASK
    obtain k va where ph: "placeholder t v (gs_vault st) = (k, va)" by fastforce
    note keeps = placeholder_keeps [OF 3(6) ph]
    have st1: "o1 = k" "gs_vault st1 = va" using one MASK ph by (auto simp: protect_value_def)
    obtain n where n: "k = token t n" using keeps by blast
    have "kind_name t" using 3(4) MASK by (simp add: reversible_def)
    then have "map_of (va_value va) \<subseteq>\<^sub>m map_of vs \<longrightarrow> restore vs (\<lambda>x. x) (k @ b) = v @ restore vs (\<lambda>x. x) b" for b
      using restore_token [of t vs n v "\<lambda>x. x" b] keeps n by (auto simp: map_le_def dom_def)
    with keeps st1 show ?thesis by simp
  next
    case ALLOW
    with one 3(4,6) show ?thesis by (auto simp: protect_value_def restore_plain)
  qed (use 3(4) in \<open>auto simp: reversible_def\<close>)
  have ih: "vault_ok (gs_vault st') \<and> map_of (va_value (gs_vault st1)) \<subseteq>\<^sub>m map_of (va_value (gs_vault st'))
    \<and> restore vs (\<lambda>x. x) (o2 @ rest) = weave gs (map snd tvs) @ restore vs (\<lambda>x. x) rest"
    using 3(1) [OF one [symmetric] refl two] 3(3,4,5,7) step by auto
  moreover have "map_of (va_value (gs_vault st1)) \<subseteq>\<^sub>m map_of vs" using ih 3(7) map_le_trans by blast
  ultimately show ?case
    using step 3(5) by (auto simp: out restore_plain intro: map_le_trans)
qed auto

lemma set_py_slice: "set (py_slice s i j) \<subseteq> set s"
  by (auto simp: py_slice_def slice_def dest: in_set_takeD in_set_dropD)

lemma set_gaps: "g \<in> set (gaps tx cursor ss) \<Longrightarrow> set g \<subseteq> set tx"
  by (induction ss arbitrary: cursor) (auto dest: set_py_slice [THEN subsetD])


section \<open>The model learns nothing about the values\<close>

text \<open>
  Two vaults that differ by a renaming of the values: \<open>f t\<close> maps a value of type \<open>t\<close> of the first to
  the second.
\<close>

definition rename_keys :: "(string \<Rightarrow> string \<Rightarrow> string) \<Rightarrow> ((string \<times> string) \<times> 'k) list \<Rightarrow> ((string \<times> string) \<times> 'k) list" where
  "rename_keys f al = map (\<lambda>p. ((fst (fst p), f (fst (fst p)) (snd (fst p))), snd p)) al"

definition renames :: "(string \<Rightarrow> string \<Rightarrow> string) \<Rightarrow> vault \<Rightarrow> vault \<Rightarrow> bool" where
  "renames f va vb \<longleftrightarrow> va_next vb = va_next va \<and> va_token vb = rename_keys f (va_token va)"

lemma map_of_rename:
  assumes "\<And>t. inj (f t)"
  shows "map_of (rename_keys f al) (t, f t v) = map_of al (t, v)"
  using assms by (induction al) (auto simp: rename_keys_def inj_eq)

lemma update_rename:
  assumes "\<And>t. inj (f t)"
  shows "AList.update (t, f t v) k (rename_keys f al) = rename_keys f (AList.update (t, v) k al)"
  using assms by (induction al) (auto simp: rename_keys_def inj_eq)

lemma placeholder_rename:
  assumes "\<And>t. inj (f t)" "renames f va vb" "placeholder t v va = (k, va')"
  shows "\<exists>vb'. placeholder t (f t v) vb = (k, vb') \<and> renames f va' vb'"
proof (cases "map_of (va_token va) (t, v)")
  case None
  then show ?thesis using assms(2,3)
    by (auto simp: placeholder_def renames_def Let_def map_of_rename [of f, OF assms(1)] update_rename [of f, OF assms(1)])
qed (use assms(2,3) in \<open>auto simp: placeholder_def renames_def map_of_rename [of f, OF assms(1)]\<close>)

lemma protect_parts_rename:
  assumes "\<And>t. inj (f t)" "list_all (\<lambda>(t, v). for_request p t \<in> {MASK, REDACT}) tvs"
    "renames f (gs_vault st) (gs_vault su)"
  shows "fst (protect_parts p gs (map (\<lambda>(t, v). (t, f t v)) tvs) su) = fst (protect_parts p gs tvs st)"
  using assms(2,3)
proof (induction p gs tvs st arbitrary: su rule: protect_parts.induct)
  case (3 p g gs t v tvs st)
  obtain o1 st1 where one: "protect_value p t v st = (o1, st1)" by fastforce
  have "\<exists>su1. protect_value p t (f t v) su = (o1, su1) \<and> renames f (gs_vault st1) (gs_vault su1)"
  proof (cases "for_request p t")
    case MASK
    obtain k va where ph: "placeholder t v (gs_vault st) = (k, va)" by fastforce
    from placeholder_rename [OF assms(1) 3(3) ph] one MASK ph show ?thesis
      by (auto simp: protect_value_def)
  qed (use one 3(2,3) in \<open>auto simp: protect_value_def\<close>)
  then obtain su1 where su1: "protect_value p t (f t v) su = (o1, su1)" "renames f (gs_vault st1) (gs_vault su1)" by blast
  have "fst (protect_parts p gs (map (\<lambda>(t, v). (t, f t v)) tvs) su1) = fst (protect_parts p gs tvs st1)"
    using 3(1) [OF one [symmetric] refl _ su1(2)] 3(2) by auto
  then show ?case by (auto simp: one su1(1) split: prod.splits)
qed auto


section \<open>Replies\<close>

definition reply_action :: "guard \<Rightarrow> string \<Rightarrow> span \<Rightarrow> action" where
  "reply_action g tx s = (if gd_is_memorized g (sp_type s) (py_slice tx (sp_start s) (sp_end s))
     then gp_memorized (gd_policy g) else for_reply (gd_policy g) (sp_type s))"

lemma decide_spans_actions: "fst (decide_spans g tx ss r) = map (\<lambda>s. (s, reply_action g tx s)) ss"
  by (induction ss arbitrary: r) (auto simp: decide_span_def reply_action_def Let_def split_beta)

definition shown :: "string \<Rightarrow> span \<Rightarrow> action \<Rightarrow> string" where
  "shown tx s a = (if a = REDACT \<or> a = MASK then ''['' @ sp_type s @ '']'' else py_slice tx (sp_start s) (sp_end s))"

lemma apply_decisions_weave:
  "fst (apply_decisions tx cursor ds r) = weave (gaps tx cursor (map fst ds)) (map (\<lambda>p. shown tx (fst p) (snd p)) ds)"
proof (induction ds arbitrary: cursor r)
  case (Cons d ds)
  obtain s a where d: "d = (s, a)" by fastforce
  have "fst (apply_decisions tx (sp_end s) ds r') = weave (gaps tx (sp_end s) (map fst ds)) (map (\<lambda>p. shown tx (fst p) (snd p)) ds)" for r'
    by (rule Cons.IH)
  then show ?case by (simp add: d shown_def Let_def split_beta)
qed simp

text \<open>
  What a reply shows: the text of the reply with every detected value the user did not send
  (every one the vault does not know) decided by the policy, the memorized action first; it is refused
  exactly when one of these values is to be blocked, a value to be redacted or masked is replaced by
  its type, and then the user's own values are put back.
\<close>

theorem review_shows:
  "let new = filter (\<lambda>s. \<not> knows (gs_vault st) (py_slice tx (sp_start s) (sp_end s))) (gd_find g tx)
   in fst (review g tx escape st) =
     (if list_ex (\<lambda>s. reply_action g tx s = BLOCK) new
      then Inl (Blocked ''reply'' (sort (remdups (map sp_type (filter (\<lambda>s. reply_action g tx s = BLOCK) new)))))
      else Inr (vault_restore (gs_vault st) (weave (gaps tx 0 new)
             (map (\<lambda>s. if reply_action g tx s \<in> {REDACT, MASK} then ''['' @ sp_type s @ '']'' else py_slice tx (sp_start s) (sp_end s)) new)) escape))"
proof -
  define new where "new = filter (\<lambda>s. \<not> knows (gs_vault st) (py_slice tx (sp_start s) (sp_end s))) (gd_find g tx)"
  obtain r where dec: "decide_spans g tx new (gs_report st) = (map (\<lambda>s. (s, reply_action g tx s)) new, r)"
    using decide_spans_actions [of g tx new "gs_report st"] by (cases "decide_spans g tx new (gs_report st)") auto
  let ?ds = "map (\<lambda>s. (s, reply_action g tx s)) new"
  have blocked: "map (sp_type \<circ> fst) (filter (\<lambda>(_, a). a = BLOCK) ?ds) = map sp_type (filter (\<lambda>s. reply_action g tx s = BLOCK) new)"
    by (simp add: filter_map comp_def)
  have out: "fst (apply_decisions tx 0 ?ds r) = weave (gaps tx 0 new) (map (\<lambda>s. shown tx s (reply_action g tx s)) new)"
    by (simp add: apply_decisions_weave comp_def)
  have "list_ex (\<lambda>s. reply_action g tx s = BLOCK) new \<longleftrightarrow> filter (\<lambda>s. reply_action g tx s = BLOCK) new \<noteq> []"
    by (auto simp: list_ex_iff filter_empty_conv)
  then show ?thesis
    unfolding review_def new_def [symmetric] Let_def dec
    using blocked out by (auto simp: blocked_error_def shown_def [abs_def] split: prod.splits)
qed

text \<open>
  With the default policy no reply shows a high-impact value or a memorized one that the user did
  not send: every such value found is replaced by its type before the user's own values are put back.
\<close>

theorem default_policy_redacts_high_impact:
  assumes "gd_policy g = default_guard_policy" "s \<in> set (gd_find g tx)"
    "HIGH_IMPACT \<le> impact (sp_type s) \<or> gd_is_memorized g (sp_type s) (py_slice tx (sp_start s) (sp_end s))"
  shows "reply_action g tx s = REDACT"
  using assms by (auto simp: reply_action_def default_guard_policy_def for_reply_def)

section \<open>Policies as JSON\<close>

lemma action_of_value [simp]: "action_of (action_value a) = Inr a"
  by (cases a) (simp_all add: action_of_def)

lemma parse_actions_json:
  "list_all (\<lambda>(k, _). py_upper k = k) d \<Longrightarrow> parse_actions tc (map (\<lambda>(k, a). (k, JStr (action_value a))) d) = Inr d"
  by (induction d) auto

lemma dict_of_distinct: "distinct (map fst d) \<Longrightarrow> dict_of d = d"
proof (induction d rule: rev_induct)
  case (snoc p d)
  obtain k v where p: "p = (k, v)" by fastforce
  have "AList.update k v d = d @ [(k, v)]" if "k \<notin> fst ` set d" for d :: "('a \<times> 'b) list"
    using that by (induction d) auto
  with snoc p show ?case by simp
qed simp

lemma policy_actions_json:
  assumes "map_of j key = Some (actions_json d)" "list_all (\<lambda>(k, _). py_upper k = k) d" "distinct (map fst d)"
  shows "policy_actions tc j key = Inr d"
  using assms parse_actions_json [OF assms(2), of tc]
  by (cases d) (auto simp: policy_actions_def get_or_def actions_json_def dict_of_distinct)

text \<open>A stored policy is read back as it was: \<open>from_json\<close> inverts \<open>to_json\<close> on policies over upper-case types.\<close>

theorem policy_json_round_trip:
  assumes "list_all (\<lambda>(k, _). py_upper k = k) (gp_inbound p @ gp_outbound p)"
    "distinct (map fst (gp_inbound p))" "distinct (map fst (gp_outbound p))"
  shows "policy_from_json tc (Some (policy_to_json p)) = Inr p"
proof -
  have "policy_actions tc (policy_to_json p) ''inbound'' = Inr (gp_inbound p)"
    by (rule policy_actions_json) (use assms in \<open>simp_all add: policy_to_json_def\<close>)
  moreover have "policy_actions tc (policy_to_json p) ''outbound'' = Inr (gp_outbound p)"
    by (rule policy_actions_json) (use assms in \<open>simp_all add: policy_to_json_def\<close>)
  ultimately show ?thesis
    by (simp add: policy_from_json_def) (simp add: policy_to_json_def get_default_def)
qed

section \<open>Messages\<close>

lemma map_act_all2:
  assumes "map_act f xs st = (Inr ys, st')" "\<And>x y st st'. f x st = (Inr y, st') \<Longrightarrow> R x y"
  shows "list_all2 R xs ys"
  using assms(1)
proof (induction xs arbitrary: ys st)
  case (Cons x xs)
  then obtain y st1 zs where "f x st = (Inr y, st1)" "map_act f xs st1 = (Inr zs, st')" "ys = y # zs"
    by (auto simp: act_Inr)
  with Cons.IH assms(2) show ?case by auto
qed (simp add: act_Inr)

definition same_but_text :: "json dict \<Rightarrow> json dict \<Rightarrow> bool" where
  "same_but_text m m' \<longleftrightarrow> map fst m' = map fst m \<and> (\<forall>k. k \<notin> {''content'', ''tool_calls''} \<longrightarrow> map_of m' k = map_of m k)"

lemma keys_update: "map_of d k \<noteq> None \<Longrightarrow> map fst (AList.update k v d) = map fst d"
  by (induction d) auto

lemma same_but_text_update:
  "same_but_text m d \<Longrightarrow> map_of d k \<noteq> None \<Longrightarrow> k \<in> {''content'', ''tool_calls''} \<Longrightarrow> same_but_text m (AList.update k v d)"
  unfolding same_but_text_def by (auto simp: keys_update update_conv')

lemma same_but_text_refl: "same_but_text m m"
  by (simp add: same_but_text_def)

lemma protect_message_frame: "protect_message g tc m st = (Inr m', st') \<Longrightarrow> same_but_text m m'"
  unfolding protect_message_def bnd_Inr_iff
proof (elim exE conjE)
  fix out st1
  assume one: "(case map_of m ''content'' of None \<Rightarrow> ret m
      | Some content \<Rightarrow> bnd (protect_content g tc content) (\<lambda>c. ret (AList.update ''content'' c m))) st = (Inr out, st1)"
    and two: "(case map_of out ''tool_calls'' of
      Some (JArr calls) \<Rightarrow> bnd (map_act (protect_call g) calls) (\<lambda>cs. ret (AList.update ''tool_calls'' (JArr cs) out))
      | _ \<Rightarrow> ret out) st1 = (Inr m', st')"
  have "same_but_text m out"
    using one by (cases "map_of m ''content''") (auto simp: act_Inr intro: same_but_text_update same_but_text_refl)
  with two show "same_but_text m m'"
    by (cases "map_of out ''tool_calls''") (auto simp: act_Inr intro!: same_but_text_update split: json.splits)
qed

text \<open>
  Protecting a conversation keeps its messages in order, changes at most their texts and tool
  calls, and puts the note about placeholders in front exactly when the vault holds one.
\<close>

theorem protect_messages_frame:
  assumes "protect_messages g tc ms st = (Inr out, st')"
  shows "\<exists>ps. list_all2 same_but_text ms ps \<and> out = (if va_value (gs_vault st') = [] then ps else note_message # ps)"
proof -
  obtain ps where ps: "map_act (protect_message g tc) ms st = (Inr ps, st')"
      "out = (if va_value (gs_vault st') = [] then ps else note_message # ps)"
    using assms by (auto simp: protect_messages_def act_Inr)
  from map_act_all2 [OF ps(1), of same_but_text] protect_message_frame ps(2) show ?thesis by blast
qed

section \<open>Examples\<close>

definition example_guard :: guard where
  "example_guard = \<lparr> gd_policy = default_guard_policy, gd_find = detect example_matcher, gd_is_memorized = (\<lambda>_ _. False) \<rparr>"

definition example_state :: guard_state where
  "example_state = \<lparr> gs_vault = empty_vault, gs_report = empty_report_counts \<rparr>"

lemma example_found: "gd_find example_guard ''a@b c'' = [\<lparr> sp_start = 0, sp_end = 3, sp_type = ''EMAIL'' \<rparr>]"
    "gd_find example_guard ''x@y c'' = [\<lparr> sp_start = 0, sp_end = 3, sp_type = ''EMAIL'' \<rparr>]"
  by code_simp+

lemma example_masks: "for_request default_guard_policy ''EMAIL'' = MASK" "kind_name ''EMAIL''"
  by (simp_all add: for_request_def REQUEST_DEFAULTS_def default_guard_policy_def kind_name_def upper_or_digit_def is_upper_def less_eq_char_def)

theorem placeholder_faithful_witness:
  "\<exists>k va1 l va2. placeholder ''EMAIL'' ''a@b'' empty_vault = (k, va1) \<and> placeholder ''EMAIL'' ''x@y'' va1 = (l, va2)
    \<and> map_of (va_value va2) k = Some ''a@b'' \<and> k \<noteq> l"
proof -
  obtain k va1 where one: "placeholder ''EMAIL'' ''a@b'' empty_vault = (k, va1)" by fastforce
  obtain l va2 where two: "placeholder ''EMAIL'' ''x@y'' va1 = (l, va2)" by fastforce
  from placeholder_faithful [OF empty_vault_ok one two] one two show ?thesis by (intro exI conjI) auto
qed



theorem default_policy_redacts_high_impact_witness:
  "reply_action (example_guard\<lparr> gd_is_memorized := (\<lambda>_ _. True) \<rparr>) ''a@b c'' \<lparr> sp_start = 0, sp_end = 3, sp_type = ''EMAIL'' \<rparr> = REDACT"
  by (rule default_policy_redacts_high_impact) (use example_found(1) in \<open>simp_all add: example_guard_def\<close>)

theorem policy_json_round_trip_witness:
  "policy_from_json example_codec (Some (policy_to_json (default_guard_policy\<lparr> gp_inbound := [(''EMAIL'', BLOCK)] \<rparr>)))
   = Inr (default_guard_policy\<lparr> gp_inbound := [(''EMAIL'', BLOCK)] \<rparr>)"
  by (rule policy_json_round_trip)
    (simp_all add: default_guard_policy_def py_upper_def upper_char_def is_lower_def less_eq_char_def)

theorem protect_messages_frame_witness:
  "\<exists>out st. protect_messages example_guard example_codec [[(''role'', JStr ''user'')]] example_state = (Inr out, st)
    \<and> (\<exists>ps. list_all2 same_but_text [[(''role'', JStr ''user'')]] ps \<and> out = (if va_value (gs_vault st) = [] then ps else note_message # ps))"
proof -
  have run: "protect_messages example_guard example_codec [[(''role'', JStr ''user'')]] example_state
      = (Inr [[(''role'', JStr ''user'')]], example_state)"
    by (simp add: protect_messages_def protect_message_def act_core example_state_def empty_vault_def)
  show ?thesis by (intro exI) (rule conjI [OF run protect_messages_frame [OF run]])
qed

text \<open>
  A value the policy allows in requests is not remembered: when the model repeats it, the reply
  counts it as a leak although the user sent it.
\<close>

theorem allowed_values_count_as_leaks:
  "let g = example_guard\<lparr> gd_policy := default_guard_policy\<lparr> gp_inbound := [(''EMAIL'', ALLOW)] \<rparr> \<rparr>;
       (sent, st) = protect g ''a@b c'' example_state
   in sent = Inr ''a@b c'' \<and> gr_leaked (gs_report (snd (review g ''a@b c'' None st))) = [(''EMAIL'', 1)]"
  by code_simp

end
