(* ===== verification/MP_GuardService.thy ===== *)
theory MP_GuardService
  imports MP_Api_Props MP_Guard
begin

text \<open>
  MP Guard inside the platform (\<^verbatim>\<open>platform/guard.py\<close>) and over HTTP (\<^verbatim>\<open>api/routes_guard.py\<close>): API keys,
  settings, the cache of memorized values, and the pipeline that protects a request, forwards it to the
  organization's AI provider and reviews the reply. Splitting a URL, resolving a host name, classifying an
  address and the HTTP exchange with the provider are parameters; each request that leaves the platform
  is recorded in the world.
\<close>

section \<open>Keys of an organization\<close>

definition data_key :: "seclib \<Rightarrow> bytes \<Rightarrow> tenant \<Rightarrow> bytes M" where
  "data_key lib master tn = unwrap_key lib master (tn_wrapped_key tn) (tn_id tn)"

definition fingerprint_key :: "crypto \<Rightarrow> bytes \<Rightarrow> bytes" where
  "fingerprint_key c key = hmac_sha256 c key ''mp-fingerprint-v1''"

section \<open>UUIDs\<close>

text \<open>\<^verbatim>\<open>int(s, 16)\<close>, the reading of \<^verbatim>\<open>uuid.UUID(hex)\<close> and its two forms.\<close>

definition hex_value :: "char \<Rightarrow> nat option" where
  "hex_value c = (if is_digit c then Some (of_char c - 48)
     else if CHR ''a'' \<le> c \<and> c \<le> CHR ''f'' then Some (of_char c - 87)
     else if CHR ''A'' \<le> c \<and> c \<le> CHR ''F'' then Some (of_char c - 55) else None)"

fun hex_digits :: "nat \<Rightarrow> string \<Rightarrow> nat option" where
  "hex_digits acc [] = Some acc"
| "hex_digits acc (c # cs) = (case hex_value c of None \<Rightarrow> None | Some d \<Rightarrow> hex_digits (16 * acc + d) cs)"

definition py_int16 :: "string \<Rightarrow> nat option" where
  "py_int16 s =
     (let t = py_strip s; u = removeprefix t ''+'';
          v = (if startswith u ''0x'' \<or> startswith u ''0X'' then drop 2 u else u)
      in if v = [] then None else hex_digits 0 v)"

function remove_all :: "string \<Rightarrow> string \<Rightarrow> string" where
  "remove_all old [] = []"
| "remove_all old (c # cs) = (if old \<noteq> [] \<and> startswith (c # cs) old then remove_all old (drop (length old) (c # cs))
     else c # remove_all old cs)"
  by pat_completeness auto

termination by (relation "measure (length \<circ> snd)") (auto simp: neq_Nil_conv)

definition is_brace :: "char \<Rightarrow> bool" where "is_brace c \<longleftrightarrow> c = CHR ''{'' \<or> c = CHR ''}''"

definition uuid_int :: "string \<Rightarrow> nat option" where
  "uuid_int hex =
     (let h = remove_all ''uuid:'' (remove_all ''urn:'' hex);
          d = remove_all ''-'' (rev (dropWhile is_brace (rev (dropWhile is_brace h))))
      in if length d \<noteq> 32 then None else py_int16 d)"

definition hex_char :: "nat \<Rightarrow> char" where
  "hex_char d = (if d < 10 then char_of (48 + d) else char_of (87 + d))"

fun hex_fixed :: "nat \<Rightarrow> nat \<Rightarrow> string" where
  "hex_fixed 0 n = []"
| "hex_fixed (Suc k) n = hex_fixed k (n div 16) @ [hex_char (n mod 16)]"

definition uuid_hex :: "nat \<Rightarrow> string" where "uuid_hex n = hex_fixed 32 n"

definition uuid_str :: "nat \<Rightarrow> string" where
  "uuid_str n = (let h = uuid_hex n in
     take 8 h @ ''-'' @ slice h 8 12 @ ''-'' @ slice h 12 16 @ ''-'' @ slice h 16 20 @ ''-'' @ drop 20 h)"

section \<open>API keys\<close>

definition KEY_PREFIX :: string where "KEY_PREFIX = ''mpk_''"

record issued_key =
  ik_row :: guard_key
  ik_key :: string

definition key_digest :: "crypto \<Rightarrow> string \<Rightarrow> string" where
  "key_digest c secret = sha256_hex c secret"

definition set_guard_key :: "string \<Rightarrow> (guard_key \<Rightarrow> guard_key) \<Rightarrow> unit M" where
  "set_guard_key i f = db_modify (\<lambda>db. db\<lparr> db_guard_keys := update_where (\<lambda>r. gk_id r = i) f (db_guard_keys db) \<rparr>)"

definition issue_key :: "crypto \<Rightarrow> tenant \<Rightarrow> string \<Rightarrow> actor \<Rightarrow> issued_key M" where
  "issue_key c tn name0 who =
     (let name = py_strip name0 in
      andthen (raise_if (name = []) (GuardError ''give the key a name, such as the app that will use it''))
      (bnd new_id (\<lambda>i. bnd (draw (\<lambda>su n. su_token su n 32)) (\<lambda>secret.
       case uuid_int i of
         None \<Rightarrow> raise (ValueError ''badly formed hexadecimal UUID string'')
       | Some n \<Rightarrow>
           (let key = KEY_PREFIX @ uuid_hex n @ ''_'' @ secret in
            bnd now (\<lambda>t.
            let row = \<lparr> gk_id = i, gk_tenant_id = tn_id tn, gk_name = take 200 name, gk_hint = take 12 key,
                  gk_secret_sha256 = key_digest c secret, gk_created_by = at_id who, gk_created_at = t,
                  gk_last_used_at = None, gk_revoked_at = None \<rparr> in
            andthen (insert_guard_key row)
            (andthen (record_event c (tn_id tn) who ''guard.key.created'' ''guard_key'' i [(''name'', JStr (gk_name row))])
            (ret \<lparr> ik_row = row, ik_key = key \<rparr>))))))))"

definition revoke_key :: "crypto \<Rightarrow> guard_key \<Rightarrow> actor \<Rightarrow> unit M" where
  "revoke_key c row who = (case gk_revoked_at row of
      Some _ \<Rightarrow> ret ()
    | None \<Rightarrow> bnd now (\<lambda>t.
        andthen (set_guard_key (gk_id row) (\<lambda>r. r\<lparr> gk_revoked_at := Some t \<rparr>))
        (andthen (record_event c (gk_tenant_id row) who ''guard.key.revoked'' ''guard_key'' (gk_id row) [(''name'', JStr (gk_name row))])
        (ret ()))))"

definition find_guard_key :: "string \<Rightarrow> database \<Rightarrow> guard_key option" where
  "find_guard_key i db = first_row (\<lambda>r. gk_id r = i) (db_guard_keys db)"

definition find_tenant :: "string \<Rightarrow> database \<Rightarrow> tenant option" where
  "find_tenant i db = first_row (\<lambda>t. tn_id t = i) (db_tenants db)"

definition authenticate :: "crypto \<Rightarrow> string \<Rightarrow> (guard_key \<times> tenant) M" where
  "authenticate c key =
     andthen (raise_if (\<not> startswith key KEY_PREFIX) (GuardError ''not an MP Guard key''))
     (case py_partition (CHR ''_'') (drop (length KEY_PREFIX) key) of (key_hex, secret) \<Rightarrow>
      (case uuid_int key_hex of
         None \<Rightarrow> raise (GuardError ''malformed MP Guard key'')
       | Some n \<Rightarrow> bnd (db_gets (find_guard_key (uuid_str n))) (\<lambda>found. case found of
           None \<Rightarrow> raise (GuardError ''invalid MP Guard key'')
         | Some row \<Rightarrow>
             andthen (raise_if (gk_secret_sha256 row \<noteq> key_digest c secret) (GuardError ''invalid MP Guard key''))
             (andthen (raise_if (gk_revoked_at row \<noteq> None) (GuardError ''this MP Guard key was revoked''))
             (bnd (db_gets (find_tenant (gk_tenant_id row))) (\<lambda>tenant. case tenant of
                None \<Rightarrow> raise (GuardError ''this organization is not active'')
              | Some tn \<Rightarrow> if tn_status tn \<noteq> TENANT_ACTIVE then raise (GuardError ''this organization is not active'')
                  else ret (row, tn)))))))"

section \<open>Settings\<close>

definition default_guard_settings :: "string \<Rightarrow> guard_settings" where
  "default_guard_settings tenant_id = \<lparr> gs_tenant_id = tenant_id, gs_upstream_url = ''https://api.openai.com/v1'',
     gs_upstream_key = None, gs_default_model = [], gs_policy = [], gs_updated_by = None, gs_updated_at = 0 \<rparr>"

definition settings_for :: "string \<Rightarrow> database \<Rightarrow> guard_settings" where
  "settings_for tenant_id db = (case first_row (\<lambda>r. gs_tenant_id r = tenant_id) (db_guard_settings db) of
      Some row \<Rightarrow> row | None \<Rightarrow> default_guard_settings tenant_id)"

definition upstream_context :: "string \<Rightarrow> bytes" where
  "upstream_context tenant_id = ''guard-upstream-key:'' @ tenant_id"

text \<open>\<^verbatim>\<open>urlsplit\<close> raises on a malformed address, and reading \<^verbatim>\<open>port\<close> raises on a bad port.\<close>

record url_parts =
  up_scheme :: string
  up_hostname :: "string option"
  up_port :: "unit + nat option"

datatype http_reply = HttpError string | NotJson nat | JsonReply nat json

record network =
  nw_urlsplit :: "string \<Rightarrow> url_parts option"           \<comment> \<open>None: ValueError\<close>
  nw_getaddrinfo :: "string \<Rightarrow> nat \<Rightarrow> string list option"  \<comment> \<open>None: OSError\<close>
  nw_is_global :: "string \<Rightarrow> bool"
  nw_post :: "nat \<Rightarrow> string \<Rightarrow> string \<Rightarrow> json dict \<Rightarrow> http_reply"  \<comment> \<open>the answer to the n-th request\<close>
  nw_day :: "int \<Rightarrow> string"                              \<comment> \<open>\<open>date().isoformat()\<close>\<close>

definition trim_slashes :: "string \<Rightarrow> string" where
  "trim_slashes url = rev (dropWhile (\<lambda>c. c = CHR ''/'') (rev (py_strip url)))"

definition check_upstream :: "network \<Rightarrow> string \<Rightarrow> bool \<Rightarrow> exn + string" where
  "check_upstream nw url allow_private = (case nw_urlsplit nw (py_strip url) of
      None \<Rightarrow> Inl (ValueError ''invalid URL'')
    | Some parts \<Rightarrow> (case up_hostname parts of
        None \<Rightarrow> Inl (GuardError ''the provider address must be a full URL'')
      | Some host \<Rightarrow>
          if up_scheme parts \<notin> {''https'', ''http''} \<or> host = [] then Inl (GuardError ''the provider address must be a full URL'')
          else if allow_private then Inr (trim_slashes url)
          else if up_scheme parts \<noteq> ''https'' then Inl (GuardError ''the provider address must use https'')
          else (case up_port parts of
              Inl _ \<Rightarrow> Inl (ValueError ''Port out of range 0-65535'')
            | Inr port \<Rightarrow> (case nw_getaddrinfo nw host (case port of Some p \<Rightarrow> if p = 0 then 443 else p | None \<Rightarrow> 443) of
                None \<Rightarrow> Inl (GuardError (''cannot resolve '' @ host))
              | Some infos \<Rightarrow> if list_all (nw_is_global nw) infos then Inr (trim_slashes url)
                  else Inl (GuardError ''the provider address points to a private or local network'')))))"

record settings_change =
  sc_upstream_url :: string
  sc_default_model :: string
  sc_policy :: "json dict option"
  sc_upstream_key :: "string option"

definition save_settings :: "guard_settings \<Rightarrow> unit M" where
  "save_settings row = bnd (db_gets (\<lambda>db. list_ex (\<lambda>r. gs_tenant_id r = gs_tenant_id row) (db_guard_settings db))) (\<lambda>exists.
     if exists then db_modify (\<lambda>db. db\<lparr> db_guard_settings :=
          update_where (\<lambda>r. gs_tenant_id r = gs_tenant_id row) (\<lambda>_. row) (db_guard_settings db) \<rparr>)
     else insert_guard_settings row)"

definition update_settings :: "crypto \<Rightarrow> seclib \<Rightarrow> network \<Rightarrow> text_codec \<Rightarrow> tenant \<Rightarrow> bytes \<Rightarrow> actor \<Rightarrow> settings_change \<Rightarrow> bool
    \<Rightarrow> guard_settings M" where
  "update_settings c lib nw tc tn key who change allow_private =
     (case policy_from_json tc (sc_policy change) of
        Inl _ \<Rightarrow> raise (GuardError ''invalid policy'')
      | Inr parsed \<Rightarrow>
          bnd (db_gets (settings_for (tn_id tn))) (\<lambda>row.
          bnd (of_result (check_upstream nw (sc_upstream_url change) allow_private)) (\<lambda>url.
          bnd (case sc_upstream_key change of
                 None \<Rightarrow> ret (gs_upstream_key row)
               | Some k \<Rightarrow> if py_strip k = [] then ret None
                   else bnd (encrypt lib key (py_strip k) (upstream_context (tn_id tn))) (\<lambda>blob. ret (Some blob))) (\<lambda>stored.
          bnd now (\<lambda>t.
          let row' = row\<lparr> gs_upstream_url := url, gs_default_model := take 200 (py_strip (sc_default_model change)),
                gs_policy := policy_to_json parsed, gs_upstream_key := stored, gs_updated_by := at_id who, gs_updated_at := t \<rparr> in
          andthen (save_settings row')
          (andthen (record_event c (tn_id tn) who ''guard.settings.updated'' ''guard_settings'' (tn_id tn)
             [(''upstream_url'', JStr url), (''key_changed'', JBool (sc_upstream_key change \<noteq> None))])
          (ret row')))))))"

definition provider_key :: "seclib \<Rightarrow> guard_settings \<Rightarrow> bytes \<Rightarrow> string option M" where
  "provider_key lib row key = (case gs_upstream_key row of
      None \<Rightarrow> ret None
    | Some blob \<Rightarrow> bnd (decrypt lib key blob (upstream_context (gs_tenant_id row))) (\<lambda>k. ret (Some k)))"

section \<open>Memorized values\<close>

definition memorized_finding :: "entity_finding \<Rightarrow> bool" where
  "memorized_finding f \<longleftrightarrow> ef_severity f \<in> {HIGH, CRITICAL} \<and> ef_confirmed f \<noteq> Some False
     \<and> ef_fingerprint f \<noteq> None \<and> ef_fingerprint f \<noteq> Some []"

definition memorized_fingerprints :: "string \<Rightarrow> database \<Rightarrow> string list" where
  "memorized_fingerprints tenant_id db =
     remdups (List.map_filter ef_fingerprint (filter memorized_finding
       (concat (map ea_findings (List.map_filter mv_audit (filter (\<lambda>v. mv_tenant_id v = tenant_id) (db_versions db)))))))"

definition MEMORIZED_TTL :: rat where "MEMORIZED_TTL = 60"

definition refresh_memorized :: "string \<Rightarrow> string list M" where
  "refresh_memorized tenant_id =
     bnd monotonic (\<lambda>t. bnd (db_gets (memorized_fingerprints tenant_id)) (\<lambda>found.
     andthen (modify (\<lambda>w. w\<lparr> w_memorized := AList.update tenant_id (t + MEMORIZED_TTL, found) (w_memorized w) \<rparr>))
     (ret found)))"

definition memorized_get :: "string \<Rightarrow> string list M" where
  "memorized_get tenant_id = bnd (gets (\<lambda>w. map_of (w_memorized w) tenant_id)) (\<lambda>entry. case entry of
      None \<Rightarrow> refresh_memorized tenant_id
    | Some (expires, known) \<Rightarrow> bnd monotonic (\<lambda>t. if expires < t then refresh_memorized tenant_id else ret known))"

section \<open>The chat pipeline\<close>

record guard_env =
  gv_crypto :: crypto
  gv_lib :: seclib
  gv_settings :: settings
  gv_private_upstreams :: bool
  gv_network :: network
  gv_matcher :: matcher
  gv_codec :: text_codec

record run =
  rn_status :: nat
  rn_body :: "json dict"
  rn_protected :: "json dict list option"
  rn_report :: guard_report

definition error_body :: "string \<Rightarrow> string \<Rightarrow> json dict" where
  "error_body message code = [(''error'', JObj [(''message'', JStr message), (''type'', JStr ''mp_guard''), (''code'', JStr code)])]"

definition make_engine :: "guard_env \<Rightarrow> tenant \<Rightarrow> guard_policy \<Rightarrow> guard M" where
  "make_engine gv tn p =
     bnd (data_key (gv_lib gv) (st_master_key (gv_settings gv)) tn) (\<lambda>k.
     bnd (memorized_get (tn_id tn)) (\<lambda>known.
     ret \<lparr> gd_policy = p, gd_find = detect (gv_matcher gv),
       gd_is_memorized = (\<lambda>kind v. fingerprint (hmac_sha256 (gv_crypto gv)) (fingerprint_key (gv_crypto gv) k) kind v \<in> set known) \<rparr>))"

definition outcome_of :: "guard_report \<Rightarrow> string" where
  "outcome_of r = (if gr_masked r \<noteq> [] \<or> gr_redacted r \<noteq> [] \<or> gr_memorized r \<noteq> [] then ''protected'' else ''passed'')"

text \<open>\<^verbatim>\<open>RunStoppedError\<close>: the response that ends a run early.\<close>

record stop =
  so_status :: nat
  so_message :: string
  so_payload :: "json dict"
  so_outcome :: string
  so_upstream :: "nat option"

definition stopped :: "nat \<Rightarrow> string \<Rightarrow> string \<Rightarrow> string \<Rightarrow> nat option \<Rightarrow> stop" where
  "stopped status message code outcome upstream = \<lparr> so_status = status, so_message = message,
     so_payload = error_body message code, so_outcome = outcome, so_upstream = upstream \<rparr>"

definition chat_messages :: "json dict \<Rightarrow> stop + json list" where
  "chat_messages body = (case map_of body ''messages'' of
      Some (JArr ms) \<Rightarrow>
        if ms = [] then Inl (stopped 400 ''messages must be a non-empty list'' ''invalid_request'' ''error'' None)
        else if (case map_of body ''stream'' of None \<Rightarrow> False | Some v \<Rightarrow> \<not> json_falsy v)
        then Inl (stopped 400 ''streaming replies are not supported yet; set stream to false'' ''stream_unsupported'' ''error'' None)
        else Inr ms
    | _ \<Rightarrow> Inl (stopped 400 ''messages must be a non-empty list'' ''invalid_request'' ''error'' None))"

definition post_completion :: "network \<Rightarrow> string \<Rightarrow> string \<Rightarrow> json dict \<Rightarrow> http_reply M" where
  "post_completion nw url key payload = (\<lambda>w. (Inr (nw_post nw (length (w_sent w)) (url @ ''/chat/completions'') key payload),
     w\<lparr> w_sent := w_sent w @ [(url @ ''/chat/completions'', key, payload)] \<rparr>))"

definition read_reply :: "http_reply \<Rightarrow> stop + nat \<times> json dict" where
  "read_reply reply = (case reply of
      HttpError kind \<Rightarrow> Inl (stopped 502 (''provider unreachable ('' @ kind @ '')'') ''provider_unreachable'' ''error'' None)
    | NotJson status \<Rightarrow> Inl (stopped 502 ''the provider sent a reply that is not JSON'' ''bad_reply'' ''error'' (Some status))
    | JsonReply status (JObj completion) \<Rightarrow>
        if 400 \<le> status
        then Inl ((stopped status ''provider error'' ''provider_error'' ''error'' (Some status))\<lparr> so_payload := completion \<rparr>)
        else Inr (status, completion)
    | JsonReply status _ \<Rightarrow> Inl (stopped status ''provider error'' ''provider_error'' ''error'' (Some status)))"

definition forward :: "network \<Rightarrow> string \<Rightarrow> string \<Rightarrow> json dict \<Rightarrow> (stop + nat \<times> json dict) M" where
  "forward nw url key payload = bnd (post_completion nw url key payload) (\<lambda>reply. ret (read_reply reply))"

text \<open>
  \<^verbatim>\<open>dict(message)\<close> raises on a message that is no object, after the messages before it were protected
  (a list of pairs, which it would read as an object, is left out).
\<close>

fun leading_objects :: "json list \<Rightarrow> json dict list" where
  "leading_objects (JObj d # ms) = d # leading_objects ms"
| "leading_objects _ = []"

definition all_objects :: "json list \<Rightarrow> bool" where
  "all_objects ms = list_all (\<lambda>m. case m of JObj _ \<Rightarrow> True | _ \<Rightarrow> False) ms"

definition protect_request :: "guard \<Rightarrow> text_codec \<Rightarrow> json list \<Rightarrow> guard_state \<Rightarrow> (guard_error + json dict list) \<times> guard_state" where
  "protect_request g tc ms st = (case protect_messages g tc (leading_objects ms) st of
      (Inl e, st') \<Rightarrow> (Inl e, st')
    | (Inr ps, st') \<Rightarrow> (if all_objects ms then Inr ps else Inl PyTypeError, st'))"

definition blocked_message :: "string \<Rightarrow> string list \<Rightarrow> string" where
  "blocked_message side types = side @ '' blocked: contains '' @ py_join '', '' types"

definition usable_key :: "string option \<Rightarrow> string \<Rightarrow> stop + string" where
  "usable_key k model_name = (case k of
      None \<Rightarrow> Inl (stopped 503 ''add your AI provider's API key in MP Guard settings'' ''provider_not_configured'' ''error'' None)
    | Some key \<Rightarrow> if key = [] then Inl (stopped 503 ''add your AI provider's API key in MP Guard settings'' ''provider_not_configured'' ''error'' None)
        else if model_name = [] then Inl (stopped 400 ''name a model, or set a default model'' ''no_model'' ''error'' None)
        else Inr key)"

definition need_provider_key :: "seclib \<Rightarrow> guard_settings \<Rightarrow> bytes \<Rightarrow> string \<Rightarrow> (stop + string) M" where
  "need_provider_key lib row tenant_key model_name =
     bnd (provider_key lib row tenant_key) (\<lambda>k. ret (usable_key k model_name))"

definition fresh_state :: guard_state where
  "fresh_state = \<lparr> gs_vault = empty_vault, gs_report = empty_report_counts \<rparr>"

definition chat_payload :: "json dict \<Rightarrow> string \<Rightarrow> json dict list \<Rightarrow> json dict" where
  "chat_payload body model_name ps =
     AList.update ''messages'' (JArr (map JObj ps)) (AList.update ''model'' (JStr model_name) body)"

text \<open>The body of the \<^verbatim>\<open>try\<close> in \<^verbatim>\<open>run_chat\<close>: the provider's status and reply, or the stop; the protected
  messages once there are any; the vault and the counts.\<close>

definition chat_stages :: "guard_env \<Rightarrow> guard \<Rightarrow> guard_settings \<Rightarrow> bytes \<Rightarrow> string \<Rightarrow> json dict
    \<Rightarrow> ((stop + nat \<times> json dict) \<times> json dict list option \<times> guard_state) M" where
  "chat_stages gv g row tenant_key model_name body = (case chat_messages body of
      Inl s \<Rightarrow> ret (Inl s, None, fresh_state)
    | Inr ms \<Rightarrow> (case protect_request g (gv_codec gv) ms fresh_state of
        (Inl (Blocked side types), st) \<Rightarrow>
          ret (Inl (stopped 400 (blocked_message side types) ''pii_blocked'' ''blocked'' None), None, st)
      | (Inl _, st) \<Rightarrow> raise (PyError ''messages'')
      | (Inr ps, st) \<Rightarrow>
          bnd (need_provider_key (gv_lib gv) row tenant_key model_name) (\<lambda>k. case k of
            Inl s \<Rightarrow> ret (Inl s, Some ps, st)
          | Inr key \<Rightarrow>
              bnd (forward (gv_network gv) (gs_upstream_url row) key (chat_payload body model_name ps)) (\<lambda>r. case r of
                Inl s \<Rightarrow> ret (Inl s, Some ps, st)
              | Inr (upstream, completion) \<Rightarrow> (case review_completion g completion st of
                  (Inl (Blocked side types), st') \<Rightarrow>
                    ret (Inl (stopped 422 (blocked_message side types) ''pii_blocked_reply'' ''blocked'' (Some upstream)), Some ps, st')
                | (Inl _, st') \<Rightarrow> raise (PyError ''completion'')
                | (Inr out, st') \<Rightarrow> ret (Inr (upstream, out), Some ps, st'))))))"

text \<open>\<^verbatim>\<open>int(x)\<close> of a float: towards zero.\<close>

definition py_int :: "rat \<Rightarrow> int" where
  "py_int x = (if x < 0 then - floor (- x) else floor x)"

definition log_guard_event :: "tenant \<Rightarrow> string option \<Rightarrow> string \<Rightarrow> string \<Rightarrow> string \<Rightarrow> nat option \<Rightarrow> rat \<Rightarrow> guard_report \<Rightarrow> string
    \<Rightarrow> unit M" where
  "log_guard_event tn key_id source model_name outcome upstream start r detail =
     bnd monotonic (\<lambda>t. bnd new_id (\<lambda>i. bnd now (\<lambda>created.
     insert_guard_event \<lparr> ge_id = i, ge_tenant_id = tn_id tn, ge_key_id = key_id, ge_source = source,
       ge_model = take 200 model_name, ge_outcome = outcome, ge_upstream_status = map_option int upstream,
       ge_latency_ms = py_int ((t - start) * 1000), ge_report = report_json r, ge_detail = take 500 detail,
       ge_created_at = created \<rparr>)))"

definition guard_policy_of :: "text_codec \<Rightarrow> guard_settings \<Rightarrow> exn + guard_policy" where
  "guard_policy_of tc row = (case policy_from_json tc (Some (gs_policy row)) of
      Inl _ \<Rightarrow> Inl (PyError ''policy'') | Inr p \<Rightarrow> Inr p)"

text \<open>\<^verbatim>\<open>run_chat\<close> once the engine is there: the stages, the log entry and the answer.\<close>

definition run_tail :: "guard_env \<Rightarrow> tenant \<Rightarrow> json dict \<Rightarrow> string \<Rightarrow> string option \<Rightarrow> rat \<Rightarrow> guard_settings \<Rightarrow> bytes \<Rightarrow> guard \<Rightarrow> run M" where
  "run_tail gv tn body source key_id start row tenant_key g =
     (let model_name = py_str (gv_codec gv) (get_or body ''model'' (JStr (gs_default_model row))) in
      bnd (chat_stages gv g row tenant_key model_name body) (\<lambda>(result, ps, st).
      let (status, out, outcome, upstream, detail) = (case result of
             Inr (up, reply) \<Rightarrow> (200, reply, outcome_of (gs_report st), Some up, [])
           | Inl s \<Rightarrow> (so_status s, so_payload s, so_outcome s, so_upstream s, so_message s)) in
      andthen (log_guard_event tn key_id source model_name outcome upstream start (gs_report st) detail)
      (ret \<lparr> rn_status = status, rn_body = out, rn_protected = ps, rn_report = gs_report st \<rparr>)))"

definition run_chat :: "guard_env \<Rightarrow> tenant \<Rightarrow> json dict \<Rightarrow> string \<Rightarrow> string option \<Rightarrow> run M" where
  "run_chat gv tn body source key_id =
     bnd monotonic (\<lambda>start. bnd (db_gets (settings_for (tn_id tn))) (\<lambda>row.
     bnd (data_key (gv_lib gv) (st_master_key (gv_settings gv)) tn) (\<lambda>tenant_key.
     bnd (of_result (guard_policy_of (gv_codec gv) row)) (\<lambda>p. bnd (make_engine gv tn p) (\<lambda>g.
     run_tail gv tn body source key_id start row tenant_key g)))))"

section \<open>The endpoint apps call\<close>

record response =
  re_status :: nat
  re_body :: json
  re_guard :: "(string \<times> nat) list"            \<comment> \<open>the \<open>X-MP-Guard\<close> header\<close>

definition error_response :: "nat \<Rightarrow> string \<Rightarrow> string \<Rightarrow> response" where
  "error_response status message code = \<lparr> re_status = status, re_body = JObj (error_body message code), re_guard = [] \<rparr>"

definition caller :: "guard_env \<Rightarrow> string option \<Rightarrow> (string \<times> tenant) M" where
  "caller gv authorization =
     (let tok = py_strip (removeprefix (case authorization of None \<Rightarrow> [] | Some a \<Rightarrow> a) ''Bearer '') in
      scoped_session
        (bnd (try_with (authenticate (gv_crypto gv) tok)
           (\<lambda>e. case e of GuardError s \<Rightarrow> Some (raise (HTTPException 401 s)) | _ \<Rightarrow> None)) (\<lambda>(row, tn).
         bnd now (\<lambda>t. andthen (set_guard_key (gk_id row) (\<lambda>r. r\<lparr> gk_last_used_at := Some t \<rparr>))
         (ret (gk_id row, tn))))))"

text \<open>\<^verbatim>\<open>try: _caller(...) except HTTPException\<close>, then the rest.\<close>

definition as_caller :: "guard_env \<Rightarrow> string option \<Rightarrow> (string \<Rightarrow> tenant \<Rightarrow> response M) \<Rightarrow> response M" where
  "as_caller gv authorization k =
     bnd (try_with (bnd (caller gv authorization) (\<lambda>x. ret (Inr x)))
       (\<lambda>e. case e of HTTPException _ s \<Rightarrow> Some (ret (Inl s)) | _ \<Rightarrow> None)) (\<lambda>found. case found of
         Inl s \<Rightarrow> ret (error_response 401 s ''invalid_api_key'')
       | Inr (key_id, tn) \<Rightarrow> k key_id tn)"

definition totals :: "guard_report \<Rightarrow> (string \<times> counter) list" where
  "totals r = [(''masked'', gr_masked r), (''redacted'', gr_redacted r), (''memorized'', gr_memorized r)]"

definition chat_completions :: "guard_env \<Rightarrow> json dict \<Rightarrow> string option \<Rightarrow> response M" where
  "chat_completions gv body authorization = as_caller gv authorization (\<lambda>key_id tn.
     bnd (scoped_session (run_chat gv tn body ''api'' (Some key_id))) (\<lambda>r.
     ret \<lparr> re_status = rn_status r, re_body = JObj (rn_body r),
       re_guard = map (\<lambda>(kind, c). (kind, counter_total c)) (totals (rn_report r)) \<rparr>))"

definition scan_text :: "guard \<Rightarrow> string \<Rightarrow> string \<Rightarrow> exn + (string \<times> json dict \<times> guard_report)" where
  "scan_text g direction tx =
     (case (if direction = ''request'' then protect g tx fresh_state else review g tx None fresh_state) of
        (Inr out, st) \<Rightarrow> Inr (outcome_of (gs_report st),
          [(''text'', JStr out), (''blocked'', JBool False), (''report'', JObj (report_json (gs_report st)))], gs_report st)
      | (Inl (Blocked _ types), st) \<Rightarrow> Inr (''blocked'',
          [(''text'', JNull), (''blocked'', JBool True), (''types'', JArr (map JStr types)),
           (''report'', JObj (report_json (gs_report st)))], gs_report st)
      | (Inl _, st) \<Rightarrow> Inl (PyError ''guard''))"

definition scan_request :: "json dict \<Rightarrow> (string \<times> string) option" where
  "scan_request body = (case (map_of body ''text'', get_default body ''direction'' (JStr ''request'')) of
      (Some (JStr tx), JStr direction) \<Rightarrow> if direction \<in> {''request'', ''reply''} then Some (tx, direction) else None
    | _ \<Rightarrow> None)"

definition scan :: "guard_env \<Rightarrow> json dict \<Rightarrow> string option \<Rightarrow> response M" where
  "scan gv body authorization = as_caller gv authorization (\<lambda>key_id tn.
     case scan_request body of
       None \<Rightarrow> ret (error_response 400 ''send text, and a direction: request or reply'' ''invalid_request'')
     | Some (tx, direction) \<Rightarrow>
         bnd (scoped_session
           (bnd (db_gets (settings_for (tn_id tn))) (\<lambda>row. bnd (of_result (guard_policy_of (gv_codec gv) row)) (\<lambda>p.
            bnd (make_engine gv tn p) (\<lambda>g. bnd monotonic (\<lambda>start.
            bnd (of_result (scan_text g direction tx)) (\<lambda>(outcome, payload, r).
            andthen (log_guard_event tn (Some key_id) ''scan'' [] outcome None start r []) (ret payload)))))))) (\<lambda>payload.
         ret \<lparr> re_status = 200, re_body = JObj payload, re_guard = [] \<rparr>))"

section \<open>Settings, keys and activity for the dashboard\<close>

record settings_out =
  go_upstream_url :: string
  go_has_upstream_key :: bool
  go_default_model :: string
  go_policy :: "json dict"
  go_entity_types :: "string list"
  go_endpoint :: string

definition get_settings :: "guard_env \<Rightarrow> ctx \<Rightarrow> settings_out M" where
  "get_settings gv cx = bnd (db_gets (settings_for (tn_id (cx_tenant cx)))) (\<lambda>row.
     bnd (of_result (guard_policy_of (gv_codec gv) row)) (\<lambda>p.
     ret \<lparr> go_upstream_url = gs_upstream_url row, go_has_upstream_key = (gs_upstream_key row \<noteq> None),
       go_default_model = gs_default_model row, go_policy = policy_to_json p,
       go_entity_types = map fst (DETECTORS (gv_matcher gv)), go_endpoint = ''/guard/v1'' \<rparr>))"

definition guard_errors :: "'a M \<Rightarrow> 'a M" where
  "guard_errors m = try_with m (\<lambda>e. case e of GuardError s \<Rightarrow> Some (raise (HTTPException 400 s)) | _ \<Rightarrow> None)"

definition put_settings :: "guard_env \<Rightarrow> ctx \<Rightarrow> settings_change \<Rightarrow> settings_out M" where
  "put_settings gv cx change =
     andthen (guard_errors
       (bnd (data_key (gv_lib gv) (st_master_key (gv_settings gv)) (cx_tenant cx)) (\<lambda>key.
        update_settings (gv_crypto gv) (gv_lib gv) (gv_network gv) (gv_codec gv) (cx_tenant cx) key (cx_actor cx) change
          (gv_private_upstreams gv))))
     (get_settings gv cx)"

definition list_keys :: "ctx \<Rightarrow> database \<Rightarrow> guard_key list" where
  "list_keys cx db = sort_key (\<lambda>r. - gk_created_at r) (filter (\<lambda>r. gk_tenant_id r = tn_id (cx_tenant cx)) (db_guard_keys db))"

definition create_key :: "guard_env \<Rightarrow> ctx \<Rightarrow> string \<Rightarrow> issued_key M" where
  "create_key gv cx name = guard_errors (issue_key (gv_crypto gv) (cx_tenant cx) name (cx_actor cx))"

definition revoke :: "guard_env \<Rightarrow> ctx \<Rightarrow> string \<Rightarrow> unit M" where
  "revoke gv cx key_id = bnd (db_gets (find_guard_key key_id)) (\<lambda>found. case found of
      None \<Rightarrow> raise (HTTPException 404 ''key not found'')
    | Some row \<Rightarrow> if gk_tenant_id row \<noteq> tn_id (cx_tenant cx) then raise (HTTPException 404 ''key not found'')
        else revoke_key (gv_crypto gv) row (cx_actor cx))"

definition guard_events :: "ctx \<Rightarrow> int \<Rightarrow> database \<Rightarrow> guard_event list" where
  "guard_events cx limit db = take (nat (min (max limit 1) 1000))
     (sort_key (\<lambda>r. - ge_created_at r) (filter (\<lambda>r. ge_tenant_id r = tn_id (cx_tenant cx)) (db_guard_events db)))"

definition DAY :: int where "DAY = 86400"

record guard_stats =
  gt_days :: int
  gt_requests :: nat
  gt_outcomes :: counter
  gt_values :: "(string \<times> int) list"
  gt_by_type :: "(string \<times> (string \<times> int) list) list"
  gt_per_day :: "(string \<times> counter) list"
  gt_median_latency_ms :: "int option"

text \<open>\<^verbatim>\<open>Counter.update\<close> with the counts of a stored report, which \<^const>\<open>report_json\<close> wrote.\<close>

definition count_update :: "(string \<times> int) list \<Rightarrow> (string \<times> int) list \<Rightarrow> (string \<times> int) list" where
  "count_update acc counts = foldl (\<lambda>d (k, n). AList.update k (n + (case map_of d k of None \<Rightarrow> 0 | Some m \<Rightarrow> m)) d) acc counts"

definition report_counts :: "json option \<Rightarrow> (string \<times> int) list" where
  "report_counts counts = (case counts of
      Some (JObj d) \<Rightarrow> List.map_filter (\<lambda>(k, v). case v of JInt n \<Rightarrow> Some (k, n) | _ \<Rightarrow> None) d
    | _ \<Rightarrow> [])"

definition most_common :: "(string \<times> int) list \<Rightarrow> (string \<times> int) list" where
  "most_common d = sort_key (\<lambda>(_, n). - n) d"

definition STAT_KINDS :: "string list" where
  "STAT_KINDS = [''masked'', ''redacted'', ''leaked'', ''memorized'']"

definition kind_sum :: "guard_event list \<Rightarrow> string \<Rightarrow> (string \<times> int) list" where
  "kind_sum rows kind = foldl (\<lambda>d r. count_update d (report_counts (map_of (ge_report r) kind))) [] rows"

definition day_counts :: "network \<Rightarrow> guard_event list \<Rightarrow> (string \<times> counter) list" where
  "day_counts nw rows = foldl (\<lambda>days r.
     let d = nw_day nw (ge_created_at r); c = (case map_of days d of None \<Rightarrow> [] | Some c \<Rightarrow> c)
     in AList.update d (counter_inc (ge_outcome r) (counter_inc ''requests'' c)) days) [] rows"

definition stats :: "guard_env \<Rightarrow> ctx \<Rightarrow> int \<Rightarrow> guard_stats M" where
  "stats gv cx days = bnd now (\<lambda>t. bnd (db_gets (\<lambda>db. filter (\<lambda>r. ge_tenant_id r = tn_id (cx_tenant cx)
       \<and> t - DAY * min (max days 1) 90 \<le> ge_created_at r) (db_guard_events db))) (\<lambda>rows.
     let latencies = sort (map ge_latency_ms (filter (\<lambda>r. ge_source r \<noteq> ''playground'') rows)) in
     ret \<lparr> gt_days = days, gt_requests = length rows, gt_outcomes = foldl (\<lambda>c r. counter_inc (ge_outcome r) c) [] rows,
       gt_values = map (\<lambda>k. (k, sum_list (map snd (kind_sum rows k)))) STAT_KINDS,
       gt_by_type = map (\<lambda>k. (k, most_common (kind_sum rows k))) STAT_KINDS,
       gt_per_day = sort_key fst (day_counts (gv_network gv) rows),
       gt_median_latency_ms = (if latencies = [] then None else Some (latencies ! (length latencies div 2))) \<rparr>))"

record playground_in =
  pi_text :: string
  pi_send :: bool
  pi_model :: string

definition playground_seen :: "json dict list option \<Rightarrow> exn + json" where
  "playground_seen ps = (case ps of
      None \<Rightarrow> Inr JNull
    | Some ms \<Rightarrow> if ms = [] then Inr JNull
        else (case map_of (last ms) ''content'' of Some v \<Rightarrow> Inr v | None \<Rightarrow> Inl (KeyError ''content'')))"

definition playground_failure :: "run \<Rightarrow> json \<Rightarrow> exn + json dict" where
  "playground_failure r sees = (case get_default (rn_body r) ''error'' (JObj []) of
      JObj err \<Rightarrow> (case get_default err ''code'' (JStr []) of
          JStr code \<Rightarrow> Inr [(''blocked'', JBool (startswith code ''pii_blocked'')), (''model_sees'', sees),
            (''message'', get_default err ''message'' (JStr (''provider returned '' @ nat_str (rn_status r)))),
            (''report'', JObj (report_json (rn_report r)))]
        | _ \<Rightarrow> Inl (PyError ''AttributeError''))
    | _ \<Rightarrow> Inl (PyError ''AttributeError''))"

definition playground_reply :: "run \<Rightarrow> json \<Rightarrow> exn + json dict" where
  "playground_reply r sees =
     (case get_or (rn_body r) ''choices'' (JArr [JObj []]) of
        JArr (JObj choice # _) \<Rightarrow> (case get_or choice ''message'' (JObj []) of
            JObj message \<Rightarrow> Inr [(''blocked'', JBool False), (''model_sees'', sees),
              (''reply'', get_default message ''content'' JNull), (''report'', JObj (report_json (rn_report r)))]
          | _ \<Rightarrow> Inl (PyError ''AttributeError''))
      | _ \<Rightarrow> Inl (PyError ''AttributeError''))"

definition playground :: "guard_env \<Rightarrow> ctx \<Rightarrow> playground_in \<Rightarrow> json dict M" where
  "playground gv cx body =
     bnd (db_gets (settings_for (tn_id (cx_tenant cx)))) (\<lambda>row. bnd (of_result (guard_policy_of (gv_codec gv) row)) (\<lambda>p.
     if \<not> pi_send body
     then bnd (make_engine gv (cx_tenant cx) p) (\<lambda>g. of_result (case protect g (pi_text body) fresh_state of
         (Inr seen, st) \<Rightarrow> Inr [(''blocked'', JBool False), (''model_sees'', JStr seen), (''report'', JObj (report_json (gs_report st)))]
       | (Inl (Blocked side types), st) \<Rightarrow> Inr [(''blocked'', JBool True), (''message'', JStr (blocked_message side types)),
           (''report'', JObj (report_json (gs_report st)))]
       | (Inl _, st) \<Rightarrow> Inl (PyError ''guard'')))
     else bnd (run_chat gv (cx_tenant cx) [(''model'', JStr (pi_model body)),
            (''messages'', JArr [JObj [(''role'', JStr ''user''), (''content'', JStr (pi_text body))]])] ''playground'' None) (\<lambda>r.
          bnd (of_result (playground_seen (rn_protected r))) (\<lambda>sees.
          of_result (if rn_status r \<noteq> 200 then playground_failure r sees else playground_reply r sees)))))"

section \<open>All guard requests\<close>

datatype guard_call =
    PutSettings settings_change
  | CreateKey string
  | RevokeKey string
  | Playground playground_in

fun guard_call_permission :: "guard_call \<Rightarrow> permission" where
  "guard_call_permission (PutSettings _) = GUARD_MANAGE"
| "guard_call_permission (CreateKey _) = GUARD_MANAGE"
| "guard_call_permission (RevokeKey _) = GUARD_MANAGE"
| "guard_call_permission (Playground _) = GUARD_MANAGE"

fun run_guard_call :: "guard_env \<Rightarrow> guard_call \<Rightarrow> ctx \<Rightarrow> unit M" where
  "run_guard_call gv (PutSettings change) cx = done_with (put_settings gv cx change)"
| "run_guard_call gv (CreateKey name) cx = done_with (create_key gv cx name)"
| "run_guard_call gv (RevokeKey i) cx = revoke gv cx i"
| "run_guard_call gv (Playground body) cx = done_with (playground gv cx body)"

definition handle_guard_call :: "guard_env \<Rightarrow> request \<Rightarrow> guard_call \<Rightarrow> unit M" where
  "handle_guard_call gv rq call = require (gv_lib gv) (gv_settings gv) (guard_call_permission call) rq (run_guard_call gv call)"

end
