(* ===== verification/MP_GuardProps.thy ===== *)
theory MP_GuardProps
  imports MP_GuardService
begin

text \<open>
  What MP Guard guarantees inside the platform: an issued key works until it is revoked, the provider's
  key is kept encrypted and given back, nothing but protected text leaves the platform, every run is
  logged, and the cache of memorized values is at most its time-to-live old.
\<close>

lemma find_append: "List.find P (xs @ ys) = (case List.find P xs of None \<Rightarrow> List.find P ys | Some x \<Rightarrow> Some x)"
  by (induction xs) auto

lemma find_update_where:
  "(\<And>r. P (f r) = P r) \<Longrightarrow> List.find P (update_where P f rs) = map_option f (List.find P rs)"
  by (induction rs) (auto simp: update_where_def)

section \<open>UUIDs\<close>

lemma hex_value_char [simp]: "d < 16 \<Longrightarrow> hex_value (hex_char d) = Some d"
  by (auto simp: hex_value_def hex_char_def is_digit_def less_eq_char_def)

lemma hex_char_range:
  assumes "d < 16"
  shows "is_digit (hex_char d) \<or> CHR ''a'' \<le> hex_char d \<and> hex_char d \<le> CHR ''f''"
  using assms by (auto simp: hex_char_def is_digit_def less_eq_char_def)

definition hex_text :: "string \<Rightarrow> bool" where
  "hex_text s \<longleftrightarrow> list_all (\<lambda>c. is_digit c \<or> CHR ''a'' \<le> c \<and> c \<le> CHR ''f'') s"

lemma hex_text_fixed: "hex_text (hex_fixed k n)"
  by (induction k n rule: hex_fixed.induct) (auto simp: hex_text_def hex_char_range)

lemma hex_text_excludes:
  assumes "hex_text s"
  shows "CHR ''u'' \<notin> set s" "CHR ''-'' \<notin> set s" "CHR ''_'' \<notin> set s" "CHR ''x'' \<notin> set s" "CHR ''X'' \<notin> set s"
    "CHR ''+'' \<notin> set s" "c \<in> set s \<Longrightarrow> \<not> is_brace c \<and> \<not> is_space c"
  using assms by (auto simp: hex_text_def list_all_iff is_digit_def is_brace_def is_space_def less_eq_char_def)

lemma hex_digits_append: "hex_digits a (s @ t) = Option.bind (hex_digits a s) (\<lambda>b. hex_digits b t)"
  by (induction s arbitrary: a) (auto split: option.splits)

lemma hex_digits_fixed: "hex_digits a (hex_fixed k n) = Some (16 ^ k * a + n mod 16 ^ k)"
proof (induction k n arbitrary: a rule: hex_fixed.induct)
  case (2 k n)
  have "n mod (16 * 16 ^ k) = 16 * (n div 16 mod 16 ^ k) + n mod 16" by (rule mod_mult2_eq)
  then show ?case by (simp add: hex_digits_append 2 algebra_simps)
qed simp

lemma length_hex_fixed [simp]: "length (hex_fixed k n) = k"
  by (induction k n rule: hex_fixed.induct) auto

lemma remove_all_absent: "old \<noteq> [] \<Longrightarrow> hd old \<notin> set s \<Longrightarrow> remove_all old s = s"
  by (induction old s rule: remove_all.induct) (auto simp: startswith_def neq_Nil_conv)

lemma remove_char: "remove_all [c] s = filter (\<lambda>x. x \<noteq> c) s"
  by (induction "[c]" s rule: remove_all.induct) (auto simp: startswith_def)

lemma dropWhile_none: "(\<And>c. c \<in> set s \<Longrightarrow> \<not> P c) \<Longrightarrow> dropWhile P s = s"
  by (cases s) auto

lemma py_strip_none: "(\<And>c. c \<in> set s \<Longrightarrow> \<not> is_space c) \<Longrightarrow> py_strip s = s"
  using dropWhile_none [of s is_space] dropWhile_none [of "rev s" is_space]
  by (simp add: py_strip_def py_lstrip_def py_rstrip_def)

lemma startswith_chars: "startswith s p \<Longrightarrow> set p \<subseteq> set s"
  by (metis startswith_def set_take_subset)

lemma py_int16_hex: "hex_text s \<Longrightarrow> s \<noteq> [] \<Longrightarrow> py_int16 s = hex_digits 0 s"
proof -
  assume h: "hex_text s" and ne: "s \<noteq> []"
  note no = hex_text_excludes [OF h]
  have "removeprefix s ''+'' = s" "\<not> startswith s ''0x''" "\<not> startswith s ''0X''"
    using no startswith_chars [of s "''+''"] startswith_chars [of s "''0x''"] startswith_chars [of s "''0X''"]
    by (auto simp: removeprefix_def)
  with ne py_strip_none [of s] no(7) show ?thesis by (simp add: py_int16_def Let_def)
qed

lemma uuid_int_of_hex:
  assumes "CHR ''u'' \<notin> set s" "\<And>c. c \<in> set s \<Longrightarrow> \<not> is_brace c" "filter (\<lambda>c. c \<noteq> CHR ''-'') s = uuid_hex n" "n < 16 ^ 32"
  shows "uuid_int s = Some n"
proof -
  have len: "length (uuid_hex n) = 32" by (simp add: uuid_hex_def)
  then have "uuid_hex n \<noteq> []" by (metis list.size(3) zero_neq_numeral)
  then have "py_int16 (uuid_hex n) = Some n"
    using assms(4) by (simp add: py_int16_hex uuid_hex_def hex_digits_fixed hex_text_fixed)
  moreover have "dropWhile is_brace (rev s) = rev s" using assms(2) by (intro dropWhile_none) auto
  ultimately show ?thesis using assms
    by (simp add: uuid_int_def remove_all_absent remove_char dropWhile_none len)
qed

lemma uuid_int_hex: "n < 16 ^ 32 \<Longrightarrow> uuid_int (uuid_hex n) = Some n"
  using hex_text_excludes [OF hex_text_fixed [of 32 n]]
  by (intro uuid_int_of_hex) (auto simp: uuid_hex_def simp del: hex_fixed.simps intro!: filter_True)

lemma uuid_int_str: "n < 16 ^ 32 \<Longrightarrow> uuid_int (uuid_str n) = Some n"
proof (rule uuid_int_of_hex)
  let ?h = "uuid_hex n"
  note no = hex_text_excludes [OF hex_text_fixed [of 32 n], folded uuid_hex_def]
  have sub: "set (slice ?h i j) \<subseteq> set ?h" "set (take i ?h) \<subseteq> set ?h" "set (drop i ?h) \<subseteq> set ?h" for i j
    by (auto simp: slice_def dest: in_set_takeD in_set_dropD)
  have chars: "set (uuid_str n) \<subseteq> insert (CHR ''-'') (set ?h)"
    using sub by (auto simp: uuid_str_def Let_def dest: in_set_takeD in_set_dropD)
  show "CHR ''u'' \<notin> set (uuid_str n)" using no(1) chars by auto
  show "\<not> is_brace c" if "c \<in> set (uuid_str n)" for c
    using that no(7) [of c] chars by (auto simp: is_brace_def)
  have keep: "filter (\<lambda>c. c \<noteq> CHR ''-'') s = s" if "set s \<subseteq> set ?h" for s
    using that no by (intro filter_True) auto
  have join: "take 8 ?h @ slice ?h 8 12 @ slice ?h 12 16 @ slice ?h 16 20 @ drop 20 ?h = ?h"
    using slice_drop [of 16 20 ?h] slice_drop [of 12 16 ?h] slice_drop [of 8 12 ?h] append_take_drop_id [of 8 ?h] by simp
  show "filter (\<lambda>c. c \<noteq> CHR ''-'') (uuid_str n) = ?h"
    using join by (simp add: uuid_str_def Let_def keep sub)
qed

section \<open>API keys\<close>

definition uuid_law :: "sources \<Rightarrow> bool" where
  "uuid_law su \<longleftrightarrow> (\<forall>i. \<exists>n < 16 ^ 32. su_uuid su i = uuid_str n)"

definition token_law :: "sources \<Rightarrow> bool" where
  "token_law su \<longleftrightarrow> (\<forall>i n. list_all (\<lambda>c. \<not> is_space c) (su_token su i n))"

lemma draw_Inr_iff: "draw f w = (Inr x, w') \<longleftrightarrow> x = f (w_supply w) (w_drawn w) \<and> w' = w\<lparr> w_drawn := Suc (w_drawn w) \<rparr>"
  by (auto simp: draw_def)

lemma insert_row_Inr_iff:
  "insert_row rows upd conflict row w = (Inr u, w') \<longleftrightarrow>
     \<not> list_ex (conflict row) (rows (w_db w)) \<and> w' = w\<lparr> w_db := upd (\<lambda>rs. rs @ [row]) (w_db w) \<rparr>"
  by (auto simp: insert_row_def db_gets_def db_modify_def act_core)

lemma db_gets_Inr_iff: "db_gets f w = (Inr x, w') \<longleftrightarrow> x = f (w_db w) \<and> w' = w"
  by (auto simp: db_gets_def gets_def)

lemma db_modify_Inr_iff: "db_modify f w = (Inr x, w') \<longleftrightarrow> w' = w\<lparr> w_db := f (w_db w) \<rparr>"
  by (auto simp: db_modify_def modify_def)

lemmas run_Inr = act_Inr draw_Inr_iff insert_row_Inr_iff db_gets_Inr_iff db_modify_Inr_iff new_id_def now_def

lemma record_event_frame:
  "record_event c t who a tt ti d w = (r, w') \<Longrightarrow>
    isl r = False \<and> (\<exists>es. w_db w' = (w_db w)\<lparr> db_events := es \<rparr>) \<and> w_supply w' = w_supply w \<and> w_memorized w' = w_memorized w \<and> w_sent w' = w_sent w"
  by (auto simp: record_event_run Let_def)

lemma issue_key_effect:
  assumes "issue_key c tn name who w = (Inr ik, w')" "uuid_law (w_supply w)"
  obtains n secret where "n < 16 ^ 32" "ik_key ik = KEY_PREFIX @ uuid_hex n @ ''_'' @ secret"
    "gk_id (ik_row ik) = uuid_str n" "gk_tenant_id (ik_row ik) = tn_id tn" "gk_revoked_at (ik_row ik) = None"
    "gk_secret_sha256 (ik_row ik) = key_digest c secret" "secret = su_token (w_supply w) (Suc (w_drawn w)) 32"
    "find_guard_key (uuid_str n) (w_db w) = None"
    "db_guard_keys (w_db w') = db_guard_keys (w_db w) @ [ik_row ik]" "db_tenants (w_db w') = db_tenants (w_db w)"
proof -
  obtain n where n: "n < 16 ^ 32" "su_uuid (w_supply w) (w_drawn w) = uuid_str n"
    using assms(2) by (auto simp: uuid_law_def)
  show thesis
    using assms(1) n(1)
    by (intro that [of n "su_token (w_supply w) (Suc (w_drawn w)) 32"])
      (auto simp: issue_key_def Let_def run_Inr n uuid_int_str insert_guard_key_def record_event_run
        find_guard_key_def first_row_def find_None_iff list_ex_iff)
qed

lemma authenticate_issued:
  assumes "n < 16 ^ 32" "find_guard_key (uuid_str n) (w_db w) = Some row" "gk_secret_sha256 row = key_digest c secret"
    "gk_revoked_at row = None" "find_tenant (gk_tenant_id row) (w_db w) = Some tn" "tn_status tn = TENANT_ACTIVE"
  shows "authenticate c (KEY_PREFIX @ uuid_hex n @ ''_'' @ secret) w = (Inr (row, tn), w)"
proof -
  have "CHR ''_'' \<notin> set (uuid_hex n)" using hex_text_excludes(3) [OF hex_text_fixed] by (simp add: uuid_hex_def)
  then have "list_all (\<lambda>x. x \<noteq> CHR ''_'') (uuid_hex n)" by (auto simp: list_all_iff)
  from takeWhile_stop [OF this, of "CHR ''_''" secret]
  have "py_partition (CHR ''_'') (uuid_hex n @ ''_'' @ secret) = (uuid_hex n, secret)" by (simp add: py_partition_def)
  with assms show ?thesis
    by (simp add: authenticate_def startswith_def uuid_int_hex act_core db_gets_def KEY_PREFIX_def)
qed

lemma strip_key:
  assumes "list_all (\<lambda>c. \<not> is_space c) secret"
  shows "py_strip (KEY_PREFIX @ uuid_hex n @ ''_'' @ secret) = KEY_PREFIX @ uuid_hex n @ ''_'' @ secret"
  using assms hex_text_excludes(7) [OF hex_text_fixed [of 32 n]]
  by (intro py_strip_none) (auto simp: KEY_PREFIX_def list_all_iff is_space_def uuid_hex_def)

lemma issued_key_accepted:
  assumes "uuid_law (w_supply w)" "token_law (w_supply w)" "issue_key (gv_crypto gv) tn name who w = (Inr ik, w')"
    and "find_tenant (tn_id tn) (w_db w) = Some tn" "tn_status tn = TENANT_ACTIVE"
  shows "fst (caller gv (Some (''Bearer '' @ ik_key ik)) w') = Inr (gk_id (ik_row ik), tn)"
proof -
  obtain n secret where k: "n < 16 ^ 32" "ik_key ik = KEY_PREFIX @ uuid_hex n @ ''_'' @ secret"
    "gk_id (ik_row ik) = uuid_str n" "gk_tenant_id (ik_row ik) = tn_id tn" "gk_revoked_at (ik_row ik) = None"
    "gk_secret_sha256 (ik_row ik) = key_digest (gv_crypto gv) secret" "secret = su_token (w_supply w) (Suc (w_drawn w)) 32"
    "find_guard_key (uuid_str n) (w_db w) = None"
    "db_guard_keys (w_db w') = db_guard_keys (w_db w) @ [ik_row ik]" "db_tenants (w_db w') = db_tenants (w_db w)"
    by (rule issue_key_effect [OF assms(3,1)])
  have found: "find_guard_key (uuid_str n) (w_db w') = Some (ik_row ik)"
    using k(3,8,9) by (auto simp: find_guard_key_def first_row_def find_append split: option.splits)
  have "find_tenant (gk_tenant_id (ik_row ik)) (w_db w') = Some tn"
    using assms(4) k(4,10) by (simp add: find_tenant_def)
  from authenticate_issued [OF k(1) found k(6,5) this assms(5)]
  have "authenticate (gv_crypto gv) (ik_key ik) w' = (Inr (ik_row ik, tn), w')" by (simp add: k(2))
  moreover have "py_strip (removeprefix (''Bearer '' @ ik_key ik) ''Bearer '') = ik_key ik"
    using assms(2) strip_key [of secret n] by (simp add: removeprefix_def startswith_def k(2,7) token_law_def)
  ultimately show ?thesis
    by (simp add: caller_def Let_def scoped_session_def transact_def try_with_def bnd_def andthen_def now_def draw_def
        set_guard_key_def db_modify_def modify_def ret_def)
qed

text \<open>
  An issued key works: right after it is issued for an active organization, the endpoint accepts it
  as that key of that organization.
\<close>

theorem issued_key_authenticates:
  assumes "uuid_law (w_supply w)" "token_law (w_supply w)" "issue_key (gv_crypto gv) tn name who w = (Inr ik, w')"
    and "find_tenant (tn_id tn) (w_db w) = Some tn" "tn_status tn = TENANT_ACTIVE"
  shows "fst (caller gv (Some (''Bearer '' @ ik_key ik)) w') = Inr (gk_id (ik_row ik), tn)"
  using assms by (rule issued_key_accepted)

text \<open>What an accepted key means.\<close>

lemma authenticate_live:
  assumes "authenticate c key w = (Inr (row, tn), w')"
  shows "find_guard_key (gk_id row) (w_db w) = Some row \<and> gk_revoked_at row = None
    \<and> find_tenant (gk_tenant_id row) (w_db w) = Some tn \<and> tn_status tn = TENANT_ACTIVE
    \<and> startswith key KEY_PREFIX
    \<and> gk_secret_sha256 row = key_digest c (snd (py_partition (CHR ''_'') (drop (length KEY_PREFIX) key))) \<and> w' = w"
proof -
  have ids: "gk_id r = i" if "find_guard_key i db = Some r" for i db r
    using that by (auto simp: find_guard_key_def first_row_def find_Some_iff)
  show ?thesis using assms
    by (auto simp: authenticate_def run_Inr ids split: prod.splits option.splits if_splits)
qed

lemma caller_live:
  assumes "caller gv auth w = (Inr (i, tn), w')"
  obtains row key where "find_guard_key i (w_db w) = Some row" "gk_id row = i" "gk_revoked_at row = None"
    "find_tenant (gk_tenant_id row) (w_db w) = Some tn" "tn_status tn = TENANT_ACTIVE"
    "gk_secret_sha256 row = key_digest (gv_crypto gv) (snd (py_partition (CHR ''_'') (drop (length KEY_PREFIX) key)))"
proof -
  obtain key row w1 where a: "authenticate (gv_crypto gv) key w = (Inr (row, tn), w1)" "i = gk_id row"
    using assms by (auto simp: caller_def Let_def scoped_session_def transact_def run_Inr try_with_def
        split: prod.splits sum.splits option.splits exn.splits)
  from authenticate_live [OF a(1)] a(2) show thesis by (intro that [of row key]) auto
qed

text \<open>
  A caller of the endpoint holds a key that is in the database, was not revoked, belongs to an
  active organization, and whose stored digest is that of the secret in the header.
\<close>

theorem guard_caller_is_live:
  assumes "caller gv auth w = (Inr (i, tn), w')"
  shows "\<exists>row secret. row \<in> set (db_guard_keys (w_db w)) \<and> gk_id row = i \<and> gk_revoked_at row = None
    \<and> gk_secret_sha256 row = key_digest (gv_crypto gv) secret
    \<and> tn \<in> set (db_tenants (w_db w)) \<and> tn_id tn = gk_tenant_id row \<and> tn_status tn = TENANT_ACTIVE"
  using caller_live [OF assms]
  by (auto simp: find_guard_key_def find_tenant_def first_row_def find_Some_iff) (metis nth_mem)

lemma revoke_effect:
  assumes "revoke gv cx i w = (Inr u, w')"
  obtains row where "find_guard_key i (w_db w') = Some row" "gk_revoked_at row \<noteq> None"
proof -
  obtain row where row: "find_guard_key i (w_db w) = Some row" "revoke_key (gv_crypto gv) row (cx_actor cx) w = (Inr u, w')"
    using assms by (auto simp: revoke_def run_Inr split: option.splits if_splits)
  then have id: "gk_id row = i" by (auto simp: find_guard_key_def first_row_def find_Some_iff)
  show thesis
  proof (cases "gk_revoked_at row")
    case None
    then obtain t where "db_guard_keys (w_db w') = update_where (\<lambda>r. gk_id r = i) (\<lambda>r. r\<lparr> gk_revoked_at := Some t \<rparr>) (db_guard_keys (w_db w))"
      using row(2) id by (auto simp: revoke_key_def run_Inr set_guard_key_def record_event_run Let_def)
    then have "find_guard_key i (w_db w') = Some (row\<lparr> gk_revoked_at := Some t \<rparr>)"
      using row(1) by (simp add: find_guard_key_def first_row_def find_update_where)
    then show thesis by (rule that) simp
  next
    case (Some t)
    then have "w' = w" using row(2) by (simp add: revoke_key_def run_Inr)
    with row(1) Some show thesis by (intro that [of row]) auto
  qed
qed

text \<open>
  A revoked key is dead: once \<^const>\<open>revoke\<close> returned, no header authenticates as that key.
\<close>

theorem revoked_key_is_dead:
  assumes "revoke gv cx i w = (Inr u, w')"
  shows "fst (caller gv auth w') \<noteq> Inr (i, tn)"
proof
  assume "fst (caller gv auth w') = Inr (i, tn)"
  then obtain w'' where "caller gv auth w' = (Inr (i, tn), w'')" by (metis prod.collapse)
  then obtain row where "find_guard_key i (w_db w') = Some row" "gk_revoked_at row = None" by (rule caller_live)
  moreover obtain row' where "find_guard_key i (w_db w') = Some row'" "gk_revoked_at row' \<noteq> None"
    using revoke_effect [OF assms] by blast
  ultimately show False by simp
qed

section \<open>Settings\<close>

lemma settings_for_tenant: "gs_tenant_id (settings_for t db) = t"
  by (auto simp: settings_for_def default_guard_settings_def first_row_def find_Some_iff split: option.splits)

lemma save_settings_effect:
  assumes "save_settings row w = (Inr u, w')"
  shows "settings_for (gs_tenant_id row) (w_db w') = row"
proof (cases "list_ex (\<lambda>r. gs_tenant_id r = gs_tenant_id row) (db_guard_settings (w_db w))")
  case True
  then obtain r where "List.find (\<lambda>r. gs_tenant_id r = gs_tenant_id row) (db_guard_settings (w_db w)) = Some r"
    by (cases "List.find (\<lambda>r. gs_tenant_id r = gs_tenant_id row) (db_guard_settings (w_db w))")
      (auto simp: find_None_iff list_ex_iff)
  moreover have "List.find P (update_where P (\<lambda>_. row) rs) = map_option (\<lambda>_. row) (List.find P rs)" if "P row" for P rs
    using that by (induction rs) (auto simp: update_where_def)
  ultimately show ?thesis using assms True
    by (auto simp: save_settings_def run_Inr settings_for_def first_row_def)
next
  case False
  then have "List.find (\<lambda>r. gs_tenant_id r = gs_tenant_id row) (db_guard_settings (w_db w)) = None"
    by (simp add: find_None_iff list_ex_iff)
  with assms False show ?thesis
    by (auto simp: save_settings_def run_Inr insert_guard_settings_def settings_for_def first_row_def find_append)
qed

text \<open>
  What is saved is what the endpoint then uses: after an update the settings are the row it
  returned; a new provider key is given back by \<^const>\<open>provider_key\<close>, an empty one removes it, and none keeps the
  stored one.
\<close>

theorem settings_round_trip:
  assumes "aes_law lib" "random_law (w_supply w)"
    and up: "update_settings c lib nw tc tn key who change private w = (Inr row, w')"
  shows "settings_for (tn_id tn) (w_db w') = row
    \<and> check_upstream nw (sc_upstream_url change) private = Inr (gs_upstream_url row)
    \<and> (case sc_upstream_key change of
         None \<Rightarrow> gs_upstream_key row = gs_upstream_key (settings_for (tn_id tn) (w_db w))
       | Some k \<Rightarrow> fst (provider_key lib row key w'') = Inr (if py_strip k = [] then None else Some (py_strip k)))"
proof -
  obtain parsed url stored w1 t w2 w3 where steps: "policy_from_json tc (sc_policy change) = Inr parsed"
    "check_upstream nw (sc_upstream_url change) private = Inr url"
    "(case sc_upstream_key change of None \<Rightarrow> ret (gs_upstream_key (settings_for (tn_id tn) (w_db w)))
      | Some k \<Rightarrow> if py_strip k = [] then ret None
          else bnd (encrypt lib key (py_strip k) (upstream_context (tn_id tn))) (\<lambda>blob. ret (Some blob))) w = (Inr stored, w1)"
    "row = (settings_for (tn_id tn) (w_db w))\<lparr> gs_upstream_url := url, gs_default_model := take 200 (py_strip (sc_default_model change)),
        gs_policy := policy_to_json parsed, gs_upstream_key := stored, gs_updated_by := at_id who, gs_updated_at := t \<rparr>"
    "save_settings row w2 = (Inr (), w3)" "db_guard_settings (w_db w') = db_guard_settings (w_db w3)"
    using up by (auto simp: update_settings_def run_Inr Let_def record_event_run of_result_def split: sum.splits)
  have id: "gs_tenant_id row = tn_id tn" by (simp add: steps(4) settings_for_tenant)
  have "settings_for (tn_id tn) (w_db w') = row"
    using save_settings_effect [OF steps(5)] steps(6) by (simp add: id settings_for_def)
  moreover have "case sc_upstream_key change of
         None \<Rightarrow> gs_upstream_key row = gs_upstream_key (settings_for (tn_id tn) (w_db w))
       | Some k \<Rightarrow> fst (provider_key lib row key w'') = Inr (if py_strip k = [] then None else Some (py_strip k))"
  proof (cases "sc_upstream_key change")
    case None
    with steps(3,4) show ?thesis by (auto simp: ret_def)
  next
    case (Some k)
    show ?thesis
    proof (cases "py_strip k = []")
      case True
      with Some steps(3,4) show ?thesis by (simp add: provider_key_def ret_def)
    next
      case False
      then obtain blob where blob: "stored = Some blob" "encrypt lib key (py_strip k) (upstream_context (tn_id tn)) w = (Inr blob, w1)"
        using Some steps(3) by (auto simp: run_Inr)
      have "decrypt lib key blob (upstream_context (tn_id tn)) w'' = (Inr (py_strip k), w'')"
        using decrypt_encrypt [OF assms(1,2) blob(2)] by simp
      with Some False show ?thesis by (simp add: provider_key_def id steps(4) blob(1) bnd_def ret_def settings_for_tenant)
    qed
  qed
  ultimately show ?thesis by (simp add: steps(2,4))
qed

text \<open>
  Unless private addresses are allowed, an accepted provider address uses https, names a host, and
  every address the host resolves to is a global one; the stored form has no trailing slash.
\<close>

theorem upstream_is_public:
  assumes "check_upstream nw url False = Inr u"
  shows "\<exists>parts host port infos. nw_urlsplit nw (py_strip url) = Some parts \<and> up_scheme parts = ''https''
    \<and> up_hostname parts = Some host \<and> host \<noteq> [] \<and> nw_getaddrinfo nw host port = Some infos \<and> list_all (nw_is_global nw) infos
    \<and> u = trim_slashes url \<and> \<not> endswith u ''/''"
proof -
  have ends: "\<not> endswith (rev (dropWhile (\<lambda>c. c = CHR ''/'') s)) ''/''" for s
    by (induction s) (auto simp: endswith_def)
  from assms show ?thesis
    by (auto simp: check_upstream_def trim_slashes_def ends split: option.splits if_splits sum.splits; blast)
qed

section \<open>The chat pipeline\<close>

text \<open>The pipeline's own steps leave the database alone, whatever the invariant.\<close>

lemma guard_readers [db_rules]:
  "db_preserves I (decrypt lib key blob x)" "db_preserves I (monotonic)"
  unfolding decrypt_def monotonic_def by (intro db_rules)+

lemma guard_readers2 [db_rules]:
  "db_preserves I (data_key lib master tn)" "db_preserves I (provider_key lib row key)" "db_preserves I (refresh_memorized t)"
  unfolding data_key_def unwrap_key_def provider_key_def refresh_memorized_def
  by (intro db_rules db_modify_other; simp)+

lemma guard_readers3 [db_rules]:
  "db_preserves I (memorized_get t)" "db_preserves I (need_provider_key lib row key m)"
  unfolding memorized_get_def need_provider_key_def by (intro db_rules)+

lemma post_completion_db [db_rules]: "db_preserves I (post_completion nw url key payload)"
  by (simp add: db_preserves_def preserves_def post_completion_def)

lemma guard_readers4 [db_rules]:
  "db_preserves I (make_engine gv tn p)" "db_preserves I (forward nw url key payload)"
  unfolding make_engine_def forward_def by (intro db_rules)+

lemma chat_stages_db [db_rules]: "db_preserves I (chat_stages gv g row tenant_key model_name body)"
  unfolding chat_stages_def
  by (auto intro!: db_rules split: sum.splits guard_error.splits prod.splits)

text \<open>Requests sent to providers.\<close>

definition sends_nothing :: "'a M \<Rightarrow> bool" where
  "sends_nothing m \<longleftrightarrow> (\<forall>w. w_sent (snd (m w)) = w_sent w)"

lemma sends_nothing_bnd: "sends_nothing m \<Longrightarrow> (\<And>x. sends_nothing (f x)) \<Longrightarrow> sends_nothing (bnd m f)"
  by (auto simp: sends_nothing_def bnd_def split: prod.splits sum.splits) (metis snd_conv)+

lemma sends_nothing_basic:
  "sends_nothing (ret x)" "sends_nothing (raise e)" "sends_nothing (gets f)" "sends_nothing (db_gets g)" "sends_nothing (draw h)"
  "sends_nothing (of_result r)" "sends_nothing monotonic" "sends_nothing now" "sends_nothing new_id"
  by (auto simp: sends_nothing_def ret_def raise_def gets_def db_gets_def draw_def of_result_def monotonic_def now_def new_id_def
      bnd_def split: sum.splits)

lemma sends_nothing_steps:
  "sends_nothing (data_key lib master tn)" "sends_nothing (provider_key lib row key)" "sends_nothing (memorized_get t)"
  "sends_nothing (insert_row rows upd conflict r)"
  by (auto simp: data_key_def unwrap_key_def decrypt_def provider_key_def memorized_get_def refresh_memorized_def andthen_def insert_row_def
      intro!: sends_nothing_bnd sends_nothing_basic split: option.splits)
    (auto simp: sends_nothing_def modify_def db_modify_def)

lemma sends_nothing_engine:
  "sends_nothing (make_engine gv tn p)" "sends_nothing (need_provider_key lib row key m)"
  "sends_nothing (log_guard_event tn k s m oc up start r d)"
  by (auto simp: make_engine_def need_provider_key_def log_guard_event_def insert_guard_event_def
      intro!: sends_nothing_bnd sends_nothing_basic sends_nothing_steps)

lemma forward_sends:
  "\<exists>r. forward nw url key payload w = (Inr r, w\<lparr> w_sent := w_sent w @ [(url @ ''/chat/completions'', key, payload)] \<rparr>)"
  by (simp add: forward_def post_completion_def bnd_def ret_def)

lemma chat_stages_sends:
  assumes "chat_stages gv g row tenant_key model_name body w = (r, w')" "w_sent w' \<noteq> w_sent w"
  obtains ms ps st key where "chat_messages body = Inr ms" "protect_request g (gv_codec gv) ms fresh_state = (Inr ps, st)"
    "w_sent w' = w_sent w @ [(gs_upstream_url row @ ''/chat/completions'', key, chat_payload body model_name ps)]"
proof -
  obtain ms where ms: "chat_messages body = Inr ms"
    using assms by (auto simp: chat_stages_def ret_def split: sum.splits)
  obtain e st where pr: "protect_request g (gv_codec gv) ms fresh_state = (e, st)" by fastforce
  show thesis
  proof (cases e)
    case (Inl x)
    with assms ms pr show thesis
      by (auto simp: chat_stages_def ret_def raise_def split: guard_error.splits)
  next
    case (Inr ps)
    define rest where "rest = (\<lambda>k. case k of
            Inl s \<Rightarrow> ret (Inl s, Some ps, st)
          | Inr key \<Rightarrow>
              bnd (forward (gv_network gv) (gs_upstream_url row) key (chat_payload body model_name ps)) (\<lambda>r. case r of
                Inl s \<Rightarrow> ret (Inl s, Some ps, st)
              | Inr (upstream, completion) \<Rightarrow> (case review_completion g completion st of
                  (Inl (Blocked side types), st') \<Rightarrow>
                    ret (Inl (stopped 422 (blocked_message side types) ''pii_blocked_reply'' ''blocked'' (Some upstream)), Some ps, st')
                | (Inl _, st') \<Rightarrow> raise (PyError ''completion'')
                | (Inr out, st') \<Rightarrow> ret (Inr (upstream, out), Some ps, st'))))"
    have run: "bnd (need_provider_key (gv_lib gv) row tenant_key model_name) rest w = (r, w')"
      using assms(1) ms pr Inr by (simp add: chat_stages_def rest_def)
    obtain k w1 where k: "need_provider_key (gv_lib gv) row tenant_key model_name w = (k, w1)" by fastforce
    have w1: "w_sent w1 = w_sent w" using sends_nothing_engine(2) k unfolding sends_nothing_def by (metis snd_conv)
    obtain key where key: "k = Inr (Inr key)"
      using run k w1 assms(2) by (auto simp: bnd_def rest_def ret_def split: sum.splits)
    obtain fr where fr: "forward (gv_network gv) (gs_upstream_url row) key (chat_payload body model_name ps) w1
        = (Inr fr, w1\<lparr> w_sent := w_sent w1 @ [(gs_upstream_url row @ ''/chat/completions'', key, chat_payload body model_name ps)] \<rparr>)"
      using forward_sends by metis
    have "w_sent w' = w_sent w1 @ [(gs_upstream_url row @ ''/chat/completions'', key, chat_payload body model_name ps)]"
      using run k key fr
      by (auto simp: bnd_def rest_def ret_def raise_def split: sum.splits prod.splits guard_error.splits)
    with that [OF ms] pr Inr w1 show thesis by auto
  qed
qed

lemma bnd_quiet:
  assumes "bnd m f w = (r, w')" "sends_nothing m" "w_sent w' \<noteq> w_sent w"
  obtains x w1 where "m w = (Inr x, w1)" "w_sent w1 = w_sent w" "f x w1 = (r, w')"
proof -
  have "w_sent (snd (m w)) = w_sent w" using assms(2) by (simp add: sends_nothing_def)
  with assms(1,3) that show thesis by (auto simp: bnd_def split: prod.splits sum.splits)
qed

lemma bnd_quiet_after:
  assumes "bnd m f w = (r, w')" "\<And>x. sends_nothing (f x)"
  shows "w_sent w' = w_sent (snd (m w))"
  using assms by (auto simp: bnd_def sends_nothing_def split: prod.splits sum.splits) (metis snd_conv)

lemma run_tail_sends:
  assumes "run_tail gv tn body source key_id start row tenant_key g w = (r, w')"
  shows "\<exists>r1 w1 model_name. chat_stages gv g row tenant_key model_name body w = (r1, w1) \<and> w_sent w' = w_sent w1"
proof -
  have "w_sent w' = w_sent (snd (chat_stages gv g row tenant_key
      (py_str (gv_codec gv) (get_or body ''model'' (JStr (gs_default_model row)))) body w))"
    using assms unfolding run_tail_def Let_def
    by (rule bnd_quiet_after)
      (auto simp: andthen_def intro!: sends_nothing_bnd sends_nothing_basic sends_nothing_engine split: prod.splits)
  then show ?thesis by (metis surjective_pairing)
qed

text \<open>
  C17. Nothing but protected text leaves the platform: a run either sends no request to a provider, or
  exactly one, whose messages are the protected form of the request's under the organization's own
  policy. A run that raises is no exception.
\<close>

theorem only_protected_text_leaves:
  assumes "run_chat gv tn body source key_id w = (r, w')"
  shows "w_sent w' = w_sent w \<or>
    (\<exists>g ms ps st url key model_name.
       policy_from_json (gv_codec gv) (Some (gs_policy (settings_for (tn_id tn) (w_db w)))) = Inr (gd_policy g)
       \<and> gd_find g = detect (gv_matcher gv) \<and> chat_messages body = Inr ms
       \<and> protect_request g (gv_codec gv) ms fresh_state = (Inr ps, st)
       \<and> w_sent w' = w_sent w @ [(url, key, chat_payload body model_name ps)])"
proof (cases "w_sent w' = w_sent w")
  case sent: False
  let ?row = "settings_for (tn_id tn) (w_db w)"
  note quiet = sends_nothing_basic sends_nothing_steps sends_nothing_engine
  from assms sent obtain start w1 where 1: "monotonic w = (Inr start, w1)" "w_sent w1 = w_sent w"
      "bnd (db_gets (settings_for (tn_id tn))) (\<lambda>row. bnd (data_key (gv_lib gv) (st_master_key (gv_settings gv)) tn) (\<lambda>tenant_key.
         bnd (of_result (guard_policy_of (gv_codec gv) row)) (\<lambda>p. bnd (make_engine gv tn p) (\<lambda>g.
           run_tail gv tn body source key_id start row tenant_key g)))) w1 = (r, w')"
    unfolding run_chat_def by (rule bnd_quiet [OF _ quiet(7)])
  have db1: "w_db w1 = w_db w" using 1(1) by (auto simp: monotonic_def run_Inr)
  from 1(2,3) sent db1 obtain w2 where 2: "w_sent w2 = w_sent w"
      "bnd (data_key (gv_lib gv) (st_master_key (gv_settings gv)) tn) (\<lambda>tenant_key.
         bnd (of_result (guard_policy_of (gv_codec gv) ?row)) (\<lambda>p. bnd (make_engine gv tn p) (\<lambda>g.
           run_tail gv tn body source key_id start ?row tenant_key g))) w2 = (r, w')"
    by (auto elim!: bnd_quiet [OF _ quiet(4)] simp: db_gets_Inr_iff)
  from 2 sent obtain tenant_key w3 where 3: "w_sent w3 = w_sent w"
      "bnd (of_result (guard_policy_of (gv_codec gv) ?row)) (\<lambda>p. bnd (make_engine gv tn p) (\<lambda>g.
           run_tail gv tn body source key_id start ?row tenant_key g)) w3 = (r, w')"
    by (auto elim!: bnd_quiet [OF _ quiet(10)])
  from 3 sent obtain p w4 where 4: "guard_policy_of (gv_codec gv) ?row = Inr p" "w_sent w4 = w_sent w"
      "bnd (make_engine gv tn p) (\<lambda>g. run_tail gv tn body source key_id start ?row tenant_key g) w4 = (r, w')"
    by (auto elim!: bnd_quiet [OF _ quiet(6)] simp: of_result_def split: sum.splits)
  from 4 sent obtain g w5 where 5: "make_engine gv tn p w4 = (Inr g, w5)" "w_sent w5 = w_sent w"
      "run_tail gv tn body source key_id start ?row tenant_key g w5 = (r, w')"
    by (auto elim!: bnd_quiet [OF _ quiet(14)])
  have g: "gd_policy g = p" "gd_find g = detect (gv_matcher gv)" using 5(1) by (auto simp: make_engine_def run_Inr)
  obtain r6 w6 model_name where 6: "chat_stages gv g ?row tenant_key model_name body w5 = (r6, w6)" "w_sent w' = w_sent w6"
    using run_tail_sends [OF 5(3)] by blast
  obtain ms ps st key where "chat_messages body = Inr ms" "protect_request g (gv_codec gv) ms fresh_state = (Inr ps, st)"
    "w_sent w6 = w_sent w5 @ [(gs_upstream_url ?row @ ''/chat/completions'', key, chat_payload body model_name ps)]"
    using chat_stages_sends [OF 6(1)] sent 6(2) 5(2) by metis
  with g 4(1) 5(2) 6(2) show ?thesis
    by (intro disjI2 exI [of _ g]) (auto simp: guard_policy_of_def split: sum.splits)
qed simp

lemma keeps_db: "db_preserves (\<lambda>db. db = w_db w) m \<Longrightarrow> m w = (r, w') \<Longrightarrow> w_db w' = w_db w"
  using db_preservesD [of "\<lambda>db. db = w_db w" m w] by simp

lemma log_guard_event_effect:
  assumes "log_guard_event tn key_id source m oc up start rp d w = (Inr u, w')"
  obtains e where "db_guard_events (w_db w') = db_guard_events (w_db w) @ [e]" "ge_tenant_id e = tn_id tn" "ge_key_id e = key_id"
    "ge_source e = source" "ge_outcome e = oc" "ge_report e = report_json rp" "ge_detail e = take 500 d"
proof -
  obtain t w1 where t: "monotonic w = (Inr t, w1)" using assms by (auto simp: log_guard_event_def run_Inr)
  then have "w_db w1 = w_db w" by (auto simp: monotonic_def run_Inr)
  with assms t that show thesis
    by (auto simp: log_guard_event_def run_Inr insert_guard_event_def)
qed

lemma stopped_outcome [simp]: "so_outcome (stopped st m c oc up) = oc"
  by (simp add: stopped_def)

lemma chat_messages_stop: "chat_messages body = Inl s \<Longrightarrow> so_outcome s = ''error''"
  by (auto simp: chat_messages_def split: option.splits json.splits if_splits)

lemma usable_key_stop: "usable_key k m = Inl s \<Longrightarrow> so_outcome s = ''error''"
  unfolding usable_key_def by (simp split: option.splits if_splits) auto

lemma provider_key_stop: "need_provider_key lib row k m w = (Inr (Inl s), w') \<Longrightarrow> so_outcome s = ''error''"
  by (auto simp: need_provider_key_def run_Inr intro: usable_key_stop)

lemma read_reply_stop: "read_reply r = Inl s \<Longrightarrow> so_outcome s = ''error''"
  by (auto simp: read_reply_def split: http_reply.splits json.splits if_splits)

lemma forward_stop: "forward nw url key payload w = (Inr (Inl s), w') \<Longrightarrow> so_outcome s = ''error''"
  by (auto simp: forward_def run_Inr intro: read_reply_stop)

lemma chat_stages_outcome:
  assumes "chat_stages gv g row tenant_key m body w = (Inr (Inl s, ps, st), w')"
  shows "so_outcome s = ''error'' \<or> so_outcome s = ''blocked''"
proof (cases "chat_messages body")
  case (Inl x)
  with assms chat_messages_stop show ?thesis by (auto simp: chat_stages_def run_Inr)
next
  case (Inr ms)
  obtain e st1 where pr: "protect_request g (gv_codec gv) ms fresh_state = (e, st1)" by fastforce
  show ?thesis
  proof (cases e)
    case (Inl x)
    with assms Inr pr show ?thesis by (auto simp: chat_stages_def run_Inr split: guard_error.splits)
  next
    case ps1: (Inr ps1)
    obtain k w1 where k: "need_provider_key (gv_lib gv) row tenant_key m w = (Inr k, w1)"
      using assms Inr pr ps1 by (auto simp: chat_stages_def run_Inr)
    show ?thesis
    proof (cases k)
      case (Inl x)
      with assms Inr pr ps1 k provider_key_stop [of "gv_lib gv"] show ?thesis by (auto simp: chat_stages_def bnd_def ret_def)
    next
      case key: (Inr key)
      obtain f w2 where f: "forward (gv_network gv) (gs_upstream_url row) key (chat_payload body m ps1) w1 = (Inr f, w2)"
        using forward_sends by metis
      show ?thesis
      proof (cases f)
        case (Inl x)
        with assms \<open>chat_messages body = Inr ms\<close> pr ps1 k key f forward_stop [OF f [unfolded Inl]] show ?thesis by (simp add: chat_stages_def bnd_def ret_def)
      next
        case (Inr up)
        note replied = this
        with assms \<open>chat_messages body = Inr ms\<close> pr ps1 k key f show ?thesis
          by (auto simp: chat_stages_def bnd_def ret_def raise_def split: prod.splits sum.splits guard_error.splits)
      qed
    qed
  qed
qed

text \<open>
  Every run is logged exactly once, whatever stopped it: a run that answers appends one event of
  the organization with the run's counts, and it is logged as passed only if nothing was masked, redacted
  or recognised as memorized.
\<close>

theorem run_is_logged:
  assumes "run_chat gv tn body source key_id w = (Inr r, w')"
  shows "\<exists>e. db_guard_events (w_db w') = db_guard_events (w_db w) @ [e] \<and> ge_tenant_id e = tn_id tn \<and> ge_key_id e = key_id
    \<and> ge_source e = source \<and> ge_report e = report_json (rn_report r)
    \<and> (ge_outcome e = ''passed'' \<longrightarrow> gr_masked (rn_report r) = [] \<and> gr_redacted (rn_report r) = [] \<and> gr_memorized (rn_report r) = [])"
proof -
  obtain start row tenant_key p g w1 w2 w3 where steps: "monotonic w = (Inr start, w1)"
      "data_key (gv_lib gv) (st_master_key (gv_settings gv)) tn w1 = (Inr tenant_key, w2)" "make_engine gv tn p w2 = (Inr g, w3)"
      "run_tail gv tn body source key_id start row tenant_key g w3 = (Inr r, w')"
    using assms by (auto simp: run_chat_def run_Inr of_result_def split: sum.splits)
  have db3: "w_db w3 = w_db w"
    using keeps_db [OF guard_readers(2) steps(1)] keeps_db [OF guard_readers2(1) steps(2)] keeps_db [OF guard_readers4(1) steps(3)] by simp
  let ?m = "py_str (gv_codec gv) (get_or body ''model'' (JStr (gs_default_model row)))"
  obtain res ps st w4 where st: "chat_stages gv g row tenant_key ?m body w3 = (Inr (res, ps, st), w4)"
    using steps(4) by (auto simp: run_tail_def run_Inr Let_def)
  have db4: "w_db w4 = w_db w" using keeps_db [OF chat_stages_db st] db3 by simp
  obtain oc up d where lg: "log_guard_event tn key_id source ?m oc up start (gs_report st) d w4 = (Inr (), w')" "rn_report r = gs_report st"
    and oc: "case res of Inr _ \<Rightarrow> oc = outcome_of (gs_report st) | Inl s \<Rightarrow> oc = so_outcome s"
    using steps(4) st by (cases res) (auto simp: run_tail_def run_Inr Let_def)
  have passed: "oc = ''passed'' \<longrightarrow> gr_masked (gs_report st) = [] \<and> gr_redacted (gs_report st) = [] \<and> gr_memorized (gs_report st) = []"
    using oc chat_stages_outcome [of gv g row tenant_key ?m body w3] st
    by (cases res) (auto simp: outcome_of_def)
  from log_guard_event_effect [OF lg(1)] passed show ?thesis unfolding db4 lg(2) by metis
qed

section \<open>The cache of memorized values\<close>

text \<open>
  The lookups of one organization over time: between two lookups the database may become anything. Each
  entry is the last reading of the clock in the lookup, the database it met and its answer.
\<close>

fun lookups :: "string \<Rightarrow> database list \<Rightarrow> world \<Rightarrow> (rat \<times> database \<times> string list) list" where
  "lookups t [] w = []"
| "lookups t (db # dbs) w = (case memorized_get t (w\<lparr> w_db := db \<rparr>) of
      (Inr known, w') \<Rightarrow> (of_int (su_now (w_supply w') (w_drawn w' - 1)), db, known) # lookups t dbs w'
    | (Inl _, w') \<Rightarrow> lookups t dbs w')"

definition cached :: "string \<Rightarrow> world \<Rightarrow> (rat \<times> string list) set" where
  "cached t w = {(expires - MEMORIZED_TTL, known) | expires known. map_of (w_memorized w) t = Some (expires, known)}"

lemma memorized_get_run:
  obtains x w' where "memorized_get t w = (Inr x, w')"
    "\<exists>t0. (t0, x) \<in> insert (of_int (su_now (w_supply w') (w_drawn w' - 1)), memorized_fingerprints t (w_db w)) (cached t w)
      \<and> of_int (su_now (w_supply w') (w_drawn w' - 1)) - MEMORIZED_TTL \<le> t0"
    "cached t w' \<subseteq> insert (of_int (su_now (w_supply w') (w_drawn w' - 1)), memorized_fingerprints t (w_db w)) (cached t w)"
proof (cases "map_of (w_memorized w) t")
  case None
  show thesis
    by (rule that, unfold memorized_get_def refresh_memorized_def monotonic_def now_def)
      (auto simp: None gets_def draw_def db_gets_def modify_def bnd_def andthen_def ret_def cached_def MEMORIZED_TTL_def update_conv')
next
  case (Some entry)
  obtain expires known where e: "entry = (expires, known)" by fastforce
  show thesis
  proof (cases "expires < of_int (su_now (w_supply w) (w_drawn w))")
    case True
    show thesis
      by (rule that, unfold memorized_get_def refresh_memorized_def monotonic_def now_def)
        (auto simp: Some e True gets_def draw_def db_gets_def modify_def bnd_def andthen_def ret_def cached_def MEMORIZED_TTL_def update_conv')
  next
    case False
    show thesis
      by (rule that, unfold memorized_get_def refresh_memorized_def monotonic_def now_def)
        (use False in \<open>auto intro!: exI [of _ "expires - 60"] simp: Some e gets_def draw_def db_gets_def modify_def bnd_def andthen_def ret_def cached_def MEMORIZED_TTL_def update_conv'\<close>)
  qed
qed

lemma lookups_fresh:
  assumes "i < length (lookups t dbs w)" "lookups t dbs w ! i = (now_i, db, known)"
  shows "(\<exists>t0. (t0, known) \<in> cached t w \<and> now_i - MEMORIZED_TTL \<le> t0)
    \<or> (\<exists>j t0 db0 k0. j \<le> i \<and> lookups t dbs w ! j = (t0, db0, k0) \<and> known = memorized_fingerprints t db0 \<and> now_i - MEMORIZED_TTL \<le> t0)"
  using assms
proof (induction dbs arbitrary: w i)
  case (Cons d dbs)
  let ?w = "w\<lparr> w_db := d \<rparr>"
  obtain x w' where g: "memorized_get t ?w = (Inr x, w')"
    "\<exists>t0. (t0, x) \<in> insert (of_int (su_now (w_supply w') (w_drawn w' - 1)), memorized_fingerprints t (w_db ?w)) (cached t ?w)
      \<and> of_int (su_now (w_supply w') (w_drawn w' - 1)) - MEMORIZED_TTL \<le> t0"
    "cached t w' \<subseteq> insert (of_int (su_now (w_supply w') (w_drawn w' - 1)), memorized_fingerprints t (w_db ?w)) (cached t ?w)"
    by (rule memorized_get_run)
  define t1 where "t1 = (of_int (su_now (w_supply w') (w_drawn w' - 1)) :: rat)"
  have c: "cached t ?w = cached t w" by (simp add: cached_def)
  have lk: "lookups t (d # dbs) w = (t1, d, x) # lookups t dbs w'" by (simp add: g(1) t1_def)
  show ?case
  proof (cases i)
    case 0
    then have "now_i = t1" "known = x" using Cons.prems(2) by (simp_all only: lk nth_Cons_0 prod.inject)
    moreover obtain t0 where "(t0, x) = (t1, memorized_fingerprints t d) \<or> (t0, x) \<in> cached t w" "t1 - MEMORIZED_TTL \<le> t0"
      using g(2) by (auto simp: c t1_def)
    ultimately show ?thesis
      using 0 by (auto simp: lk simp del: lookups.simps)
  next
    case (Suc k)
    then have k: "k < length (lookups t dbs w')" "lookups t dbs w' ! k = (now_i, db, known)"
      using Cons.prems unfolding lk by simp_all
    from Cons.IH [OF k] show ?thesis
    proof
      assume "\<exists>t0. (t0, known) \<in> cached t w' \<and> now_i - MEMORIZED_TTL \<le> t0"
      then obtain t0 where t0: "(t0, known) = (t1, memorized_fingerprints t d) \<or> (t0, known) \<in> cached t w" "now_i - MEMORIZED_TTL \<le> t0"
        using g(3) by (auto simp: c t1_def)
      from t0(1) show ?thesis
      proof
        assume "(t0, known) = (t1, memorized_fingerprints t d)"
        with t0(2) show ?thesis unfolding lk by - (rule disjI2, rule exI [of _ "0::nat"], auto)
      qed (use t0(2) in blast)
    next
      assume "\<exists>j t0 db0 k0. j \<le> k \<and> lookups t dbs w' ! j = (t0, db0, k0) \<and> known = memorized_fingerprints t db0 \<and> now_i - MEMORIZED_TTL \<le> t0"
      then obtain j t0 db0 k0 where "j \<le> k" "lookups t dbs w' ! j = (t0, db0, k0)" "known = memorized_fingerprints t db0" "now_i - MEMORIZED_TTL \<le> t0"
        by blast
      with Suc show ?thesis unfolding lk by (intro disjI2 exI [of _ "Suc j"]) auto
    qed
  qed
qed simp

text \<open>
  The memorized values the guard uses are at most a minute old: from an empty cache, every lookup
  answers the fingerprints of the database as it was at a lookup no more than sixty seconds before,
  however the database changed in between.
\<close>

theorem memorized_at_most_a_minute_old:
  assumes "w_memorized w = []" "i < length (lookups t dbs w)" "lookups t dbs w ! i = (now_i, db, known)"
  shows "\<exists>j t0 db0 k0. j \<le> i \<and> lookups t dbs w ! j = (t0, db0, k0) \<and> known = memorized_fingerprints t db0 \<and> now_i - 60 \<le> t0"
  using lookups_fresh [OF assms(2,3)] assms(1) by (auto simp: cached_def MEMORIZED_TTL_def)

section \<open>The guard keeps the platform's invariants\<close>

text \<open>
  What an invariant of the database must allow for every guard request to keep it: recording an event,
  and any change of the guard's own tables.
\<close>

locale guard_invariant =
  fixes c :: crypto and I :: "database \<Rightarrow> bool"
  assumes record_keeps: "db_preserves I (record_event c t who a tt ti d)"
    and guard_tables: "I db \<Longrightarrow> I (db\<lparr> db_guard_keys := ks, db_guard_settings := ss, db_guard_events := es \<rparr>)"
begin

lemma tables_modify:
  assumes "\<And>db. \<exists>ks ss es. f db = db\<lparr> db_guard_keys := ks, db_guard_settings := ss, db_guard_events := es \<rparr>"
  shows "db_preserves I (db_modify f)"
  by (rule db_db_modify) (use assms guard_tables in metis)

lemma set_key_keeps: "db_preserves I (set_guard_key i f)"
  unfolding set_guard_key_def
proof (rule tables_modify)
  fix db :: database
  show "\<exists>ks ss es. db\<lparr> db_guard_keys := update_where (\<lambda>r. gk_id r = i) f (db_guard_keys db) \<rparr>
      = db\<lparr> db_guard_keys := ks, db_guard_settings := ss, db_guard_events := es \<rparr>"
    by (intro exI [of _ "update_where (\<lambda>r. gk_id r = i) f (db_guard_keys db)"] exI [of _ "db_guard_settings db"] exI [of _ "db_guard_events db"]) simp
qed

lemma inserts_keep:
  "db_preserves I (insert_guard_key k)" "db_preserves I (insert_guard_settings g)" "db_preserves I (insert_guard_event e)"
proof -
  have "I (db_guard_keys_update (\<lambda>rs. rs @ [k]) db)" if "I db" for db
    using guard_tables [OF that, where ks = "db_guard_keys db @ [k]" and ss = "db_guard_settings db" and es = "db_guard_events db"] by (cases db) simp
  then show "db_preserves I (insert_guard_key k)" unfolding insert_guard_key_def by (rule db_insert_row)
  have "I (db_guard_settings_update (\<lambda>rs. rs @ [g]) db)" if "I db" for db
    using guard_tables [OF that, where ks = "db_guard_keys db" and ss = "db_guard_settings db @ [g]" and es = "db_guard_events db"] by (cases db) simp
  then show "db_preserves I (insert_guard_settings g)" unfolding insert_guard_settings_def by (rule db_insert_row)
  have "I (db_guard_events_update (\<lambda>rs. rs @ [e]) db)" if "I db" for db
    using guard_tables [OF that, where ks = "db_guard_keys db" and ss = "db_guard_settings db" and es = "db_guard_events db @ [e]"] by (cases db) simp
  then show "db_preserves I (insert_guard_event e)" unfolding insert_guard_event_def by (rule db_insert_row)
qed

lemma save_keeps: "db_preserves I (save_settings row)"
proof -
  let ?upd = "\<lambda>db. update_where (\<lambda>r. gs_tenant_id r = gs_tenant_id row) (\<lambda>_. row) (db_guard_settings db)"
  have "db_preserves I (db_modify (\<lambda>db. db\<lparr> db_guard_settings := ?upd db \<rparr>))"
  proof (rule tables_modify)
    fix db :: database
    show "\<exists>ks ss es. db\<lparr> db_guard_settings := ?upd db \<rparr> = db\<lparr> db_guard_keys := ks, db_guard_settings := ss, db_guard_events := es \<rparr>"
      by (intro exI [of _ "db_guard_keys db"] exI [of _ "?upd db"] exI [of _ "db_guard_events db"]) simp
  qed
  then show ?thesis unfolding save_settings_def by (intro db_rules inserts_keep)
qed

lemma log_keeps: "db_preserves I (log_guard_event tn k s m oc up start r d)"
  unfolding log_guard_event_def by (intro db_rules inserts_keep)

lemma operations_keep:
  "db_preserves I (issue_key c tn name who)" "db_preserves I (revoke_key c row who)" "db_preserves I (authenticate c key)"
  "db_preserves I (update_settings c lib nw tc tn k who change private)" "db_preserves I (run_chat gv tn body source key_id)"
  unfolding issue_key_def revoke_key_def authenticate_def update_settings_def run_chat_def run_tail_def Let_def encrypt_def urandom_def
  by (auto intro!: db_rules record_keeps set_key_keeps inserts_keep save_keeps log_keeps split: prod.splits sum.splits option.splits)

lemma requests_keep:
  assumes "gv_crypto gv = c"
  shows "db_preserves I (caller gv auth)" "db_preserves I (chat_completions gv body auth)" "db_preserves I (scan gv body auth)"
    "db_preserves I (run_guard_call gv call cx)"
proof -
  show call: "db_preserves I (caller gv auth)" for auth
    unfolding caller_def Let_def assms
    by (intro db_rules operations_keep set_key_keeps) (auto intro: db_rules split: exn.splits)
  have as: "db_preserves I (as_caller gv auth k)" if "\<And>i tn. db_preserves I (k i tn)" for auth k
    unfolding as_caller_def
    by (intro db_rules call that) (auto intro!: db_rules that split: exn.splits)
  show "db_preserves I (chat_completions gv body auth)"
    unfolding chat_completions_def by (intro as db_rules operations_keep)
  show "db_preserves I (scan gv body auth)"
    unfolding scan_def by (rule as) (auto intro!: db_rules log_keeps split: option.splits)
  have errs: "db_preserves I (guard_errors m)" if "db_preserves I m" for m :: "'x M"
    unfolding guard_errors_def by (rule db_try [OF that]) (auto intro: db_rules split: exn.splits)
  show "db_preserves I (run_guard_call gv call cx)"
    by (cases call)
      (auto simp: put_settings_def get_settings_def create_key_def revoke_def playground_def done_with_def assms
        intro!: db_rules errs operations_keep split: option.splits)
qed

end

interpretation keeps_log: guard_invariant c "log_ok c" for c
  by unfold_locales (auto intro: db_rules simp: log_ok_def chain_def)

interpretation keeps_names: guard_invariant c unique_names for c
  by unfold_locales (auto intro: db_rules simp: unique_names_def)

interpretation keeps_jobs: guard_invariant c jobs_ok for c
  by unfold_locales (auto intro: db_rules simp: jobs_ok_def)

interpretation keeps_gate: guard_invariant c gate_ok for c
  unfolding gate_ok_def by unfold_locales (auto intro: db_rules simp: on_versions_def)

section \<open>Witnesses\<close>

definition guard_tenant :: tenant where
  "guard_tenant = \<lparr> tn_id = ''t'', tn_slug = ''a'', tn_name = [], tn_plan = FREE, tn_status = TENANT_ACTIVE,
     tn_wrapped_key = [], tn_public_key = None, tn_created_at = 0 \<rparr>"

definition guard_row :: guard_key where
  "guard_row = \<lparr> gk_id = ''k'', gk_tenant_id = ''t'', gk_name = ''app'', gk_hint = [], gk_secret_sha256 = [], gk_created_by = None,
     gk_created_at = 0, gk_last_used_at = None, gk_revoked_at = None \<rparr>"

definition guard_world :: world where
  "guard_world = example_world\<lparr> w_db := empty_db\<lparr> db_tenants := [guard_tenant], db_guard_keys := [guard_row] \<rparr>,
     w_supply := (w_supply example_world)\<lparr> su_uuid := (\<lambda>n. uuid_str (n mod 16 ^ 32)) \<rparr> \<rparr>"

definition guard_network :: network where
  "guard_network = \<lparr> nw_urlsplit = (\<lambda>u. Some \<lparr> up_scheme = ''https'', up_hostname = Some ''h'', up_port = Inr None \<rparr>),
     nw_getaddrinfo = (\<lambda>h p. Some [''8.8.8.8'']), nw_is_global = (\<lambda>a. a = ''8.8.8.8''),
     nw_post = (\<lambda>n u k p. JsonReply 200 (JObj [(''choices'', JArr [])])), nw_day = (\<lambda>t. []) \<rparr>"

definition guard_lib :: seclib where
  "guard_lib = \<lparr> s_aes_encrypt = (\<lambda>k n p x. p), s_aes_decrypt = (\<lambda>k n p x. Some p), s_argon_hash = (\<lambda>_ p. p),
     s_argon_verify = (\<lambda>h p. Some (h = p)), s_jwt_encode = (\<lambda>claims k. []), s_jwt_decode = (\<lambda>t k n. None) \<rparr>"

definition guard_codec :: text_codec where
  "guard_codec = \<lparr> tc_loads = (\<lambda>_. None), tc_dumps = dumps True, tc_repr = dumps True \<rparr>"

definition guard_example :: guard_env where
  "guard_example = \<lparr> gv_crypto = example_crypto, gv_lib = guard_lib,
     gv_settings = \<lparr> st_jwt_secret = [], st_master_key = [], st_base_domain = ''mp'', st_token_minutes = 60, st_controlplane = None,
       st_throttle = login_throttle 5 5 900 \<rparr>, gv_private_upstreams = False, gv_network = guard_network,
     gv_matcher = example_matcher, gv_codec = guard_codec \<rparr>"

definition guard_ctx :: ctx where
  "guard_ctx = \<lparr> cx_user = \<lparr> us_id = ''u'', us_email = ''u@mp'', us_name = [], us_password_hash = [], us_is_super_admin = True,
       us_disabled = False, us_created_at = 0 \<rparr>, cx_tenant = guard_tenant, cx_role = None,
     cx_files = \<lparr> ts_tenant_id = ''t'', ts_key = [] \<rparr>, cx_plane = None \<rparr>"

lemma guard_laws: "uuid_law (w_supply guard_world)" "token_law (w_supply guard_world)" "random_law (w_supply guard_world)" "aes_law guard_lib"
  by (auto simp: uuid_law_def token_law_def random_law_def aes_law_def guard_world_def example_world_def guard_lib_def list_all_iff is_space_def
      intro!: exI [of _ "i mod 16 ^ 32" for i])

lemma guard_key_issued: "\<exists>ik w'. issue_key example_crypto guard_tenant ''app'' SYSTEM guard_world = (Inr ik, w')"
proof -
  have id: "su_uuid (w_supply guard_world) (w_drawn guard_world) = uuid_str 0" by (simp add: guard_world_def example_world_def)
  have "length (uuid_str 0) \<noteq> length (gk_id guard_row)"
    by (simp add: uuid_str_def Let_def uuid_hex_def slice_def guard_row_def)
  then have "uuid_str 0 \<noteq> gk_id guard_row" by metis
  moreover have "db_guard_keys (w_db guard_world) = [guard_row]" by (simp add: guard_world_def)
  moreover have "py_strip ''app'' \<noteq> []" by (simp add: py_strip_def py_lstrip_def py_rstrip_def is_space_def)
  ultimately show ?thesis
    by (simp add: issue_key_def Let_def run_Inr id uuid_int_str insert_guard_key_def record_event_run)
qed

theorem issued_key_authenticates_witness:
  "\<exists>ik w'. issue_key example_crypto guard_tenant ''app'' SYSTEM guard_world = (Inr ik, w')
    \<and> fst (caller guard_example (Some (''Bearer '' @ ik_key ik)) w') = Inr (gk_id (ik_row ik), guard_tenant)"
proof -
  obtain ik w' where ik: "issue_key example_crypto guard_tenant ''app'' SYSTEM guard_world = (Inr ik, w')" using guard_key_issued by blast
  have "fst (caller guard_example (Some (''Bearer '' @ ik_key ik)) w') = Inr (gk_id (ik_row ik), guard_tenant)"
    by (rule issued_key_authenticates [OF guard_laws(1,2)])
      (use ik in \<open>simp_all add: guard_example_def guard_world_def guard_tenant_def find_tenant_def first_row_def\<close>)
  with ik show ?thesis by blast
qed

lemma guard_caller: "\<exists>auth i w w'. caller guard_example auth w = (Inr (i, guard_tenant), w')"
proof -
  obtain ik w' where ik: "issue_key example_crypto guard_tenant ''app'' SYSTEM guard_world = (Inr ik, w')" using guard_key_issued by blast
  have "fst (caller guard_example (Some (''Bearer '' @ ik_key ik)) w') = Inr (gk_id (ik_row ik), guard_tenant)"
    by (rule issued_key_accepted [OF guard_laws(1,2)])
      (use ik in \<open>simp_all add: guard_example_def guard_world_def guard_tenant_def find_tenant_def first_row_def\<close>)
  then show ?thesis by (metis prod.collapse)
qed

theorem guard_caller_is_live_witness:
  "\<exists>auth i w w'. caller guard_example auth w = (Inr (i, guard_tenant), w') \<and> (\<exists>row \<in> set (db_guard_keys (w_db w)). gk_id row = i \<and> gk_revoked_at row = None)"
  using guard_caller guard_caller_is_live by metis

theorem revoked_key_is_dead_witness:
  "\<exists>w'. revoke guard_example guard_ctx ''k'' guard_world = (Inr (), w') \<and> fst (caller guard_example (Some ''Bearer mpk_'') w') \<noteq> Inr (''k'', guard_tenant)"
proof -
  obtain w' where "revoke guard_example guard_ctx ''k'' guard_world = (Inr (), w')"
    by (simp add: revoke_def run_Inr find_guard_key_def first_row_def guard_world_def guard_row_def guard_ctx_def guard_tenant_def
        revoke_key_def set_guard_key_def record_event_run Let_def)
  with revoked_key_is_dead [OF this] show ?thesis by blast
qed

definition guard_change :: settings_change where
  "guard_change = \<lparr> sc_upstream_url = ''https://h/v1/'', sc_default_model = ''m'', sc_policy = None, sc_upstream_key = Some ''sk'' \<rparr>"

lemma guard_upstream: "check_upstream guard_network ''https://h/v1/'' False = Inr ''https://h/v1''"
  by (simp add: check_upstream_def guard_network_def trim_slashes_def py_strip_def py_lstrip_def py_rstrip_def is_space_def)

theorem upstream_is_public_witness: "\<exists>port infos. nw_getaddrinfo guard_network ''h'' port = Some infos \<and> list_all (nw_is_global guard_network) infos"
  using upstream_is_public [OF guard_upstream] by (auto simp: guard_network_def)

theorem settings_round_trip_witness:
  "\<exists>row w'. update_settings example_crypto guard_lib guard_network guard_codec guard_tenant [] SYSTEM guard_change False guard_world = (Inr row, w')
    \<and> settings_for ''t'' (w_db w') = row \<and> fst (provider_key guard_lib row [] w') = Inr (Some ''sk'')"
proof -
  have sk: "py_strip ''sk'' = ''sk''" by (simp add: py_strip_def py_lstrip_def py_rstrip_def is_space_def)
  obtain p where p: "policy_from_json guard_codec None = Inr p"
    by (simp add: policy_from_json_def policy_actions_def get_or_def get_default_def action_of_def Let_def guard_codec_def)
  obtain row w' where up: "update_settings example_crypto guard_lib guard_network guard_codec guard_tenant [] SYSTEM guard_change False guard_world = (Inr row, w')"
    by (simp add: update_settings_def guard_change_def p guard_upstream of_result_def sk run_Inr encrypt_def urandom_def Let_def save_settings_def
        insert_guard_settings_def record_event_run guard_world_def empty_db_def)
  from settings_round_trip [OF guard_laws(4,3) up, of w'] up sk show ?thesis
    by (simp add: guard_change_def guard_tenant_def)
qed

theorem memorized_at_most_a_minute_old_witness:
  "\<exists>t0 db known. lookups ''t'' [empty_db] example_world ! 0 = (t0, db, known) \<and> known = memorized_fingerprints ''t'' empty_db"
proof -
  have len: "0 < length (lookups ''t'' [empty_db] example_world)" and
    first: "\<exists>t0 known. lookups ''t'' [empty_db] example_world ! 0 = (t0, empty_db, known)"
    by (auto simp: memorized_get_def refresh_memorized_def monotonic_def now_def gets_def draw_def db_gets_def modify_def bnd_def
        andthen_def ret_def example_world_def)
  then obtain t0 known where l: "lookups ''t'' [empty_db] example_world ! 0 = (t0, empty_db, known)" by blast
  have "w_memorized example_world = []" by (simp add: example_world_def)
  from memorized_at_most_a_minute_old [OF this len l] l show ?thesis by auto
qed

definition guard_request :: "json dict" where
  "guard_request = [(''model'', JStr ''m''), (''messages'', JArr [JObj [(''role'', JStr ''user''), (''content'', JStr ''a@b c'')]])]"

definition chat_settings :: guard_settings where
  "chat_settings = (default_guard_settings ''t'')\<lparr> gs_upstream_key := Some (replicate 12 (CHR ''n'') @ ''sk'') \<rparr>"

definition chat_world :: world where
  "chat_world = example_world\<lparr> w_db := empty_db\<lparr> db_tenants := [guard_tenant], db_guard_settings := [chat_settings] \<rparr> \<rparr>"

lemma chat_row: "settings_for (tn_id guard_tenant) (w_db chat_world) = chat_settings"
  by (simp add: settings_for_def chat_world_def guard_tenant_def first_row_def chat_settings_def default_guard_settings_def)

lemma chat_policy: "guard_policy_of guard_codec chat_settings = Inr default_guard_policy"
  by (simp add: guard_policy_of_def chat_settings_def default_guard_settings_def policy_from_json_def policy_actions_def get_or_def get_default_def
      action_of_def Let_def guard_codec_def default_guard_policy_def)

lemma chat_protected:
  assumes "gd_policy g = default_guard_policy" "gd_find g = detect example_matcher"
  obtains ps st where "protect_request g guard_codec [JObj [(''role'', JStr ''user''), (''content'', JStr ''a@b c'')]] fresh_state = (Inr ps, st)"
proof -
  have "detect example_matcher ''a@b c'' = [\<lparr> sp_start = 0, sp_end = 3, sp_type = ''EMAIL'' \<rparr>]" by code_simp
  moreover have "for_request default_guard_policy ''EMAIL'' \<noteq> BLOCK" by code_simp
  ultimately obtain out st where "protect g ''a@b c'' fresh_state = (Inr out, st)"
    using assms by (cases "protect g ''a@b c'' fresh_state") (auto simp: protect_def split: prod.splits)
  then show thesis using that
    by (simp add: protect_request_def protect_messages_def protect_message_def protect_content_def bnd_def ret_def gets_def all_objects_def)
qed

lemma chat_key: "need_provider_key guard_lib chat_settings k ''m'' w = (Inr (Inr ''sk''), w)"
  by (simp add: need_provider_key_def provider_key_def chat_settings_def default_guard_settings_def decrypt_def guard_lib_def NONCE_BYTES_def
      usable_key_def bnd_def ret_def)

lemma chat_forward: "\<exists>w'. forward guard_network url k payload w = (Inr (Inr (200, [(''choices'', JArr [])])), w')
    \<and> w_sent w' = w_sent w @ [(url @ ''/chat/completions'', k, payload)] \<and> w_db w' = w_db w"
  by (simp add: forward_def post_completion_def guard_network_def read_reply_def bnd_def ret_def)

lemma chat_review: "review_completion g [(''choices'', JArr [])] st = (Inr [(''choices'', JArr [])], st)"
  by (simp add: review_completion_def for_items_def ret_def)

lemma chat_stages_run:
  assumes "gd_policy g = default_guard_policy" "gd_find g = detect example_matcher"
  shows "\<exists>ps st w'. chat_stages guard_example g chat_settings k ''m'' guard_request w = (Inr (Inr (200, [(''choices'', JArr [])]), ps, st), w')
    \<and> length (w_sent w') = Suc (length (w_sent w)) \<and> w_db w' = w_db w"
proof -
  let ?ms = "[JObj [(''role'', JStr ''user''), (''content'', JStr ''a@b c'')]]"
  have ms: "chat_messages guard_request = Inr ?ms" by (simp add: chat_messages_def guard_request_def)
  obtain ps st where ps: "protect_request g guard_codec ?ms fresh_state = (Inr ps, st)" using chat_protected [OF assms] .
  obtain w' where f: "forward guard_network (gs_upstream_url chat_settings) ''sk'' (chat_payload guard_request ''m'' ps) w = (Inr (Inr (200, [(''choices'', JArr [])])), w')"
    "length (w_sent w') = Suc (length (w_sent w))" "w_db w' = w_db w"
    using chat_forward by (metis length_append_singleton)
  show ?thesis
    by (simp add: chat_stages_def ms ps guard_example_def chat_key f(1) chat_review bnd_def ret_def f(2,3))
qed

lemma guard_run: "\<exists>r w'. run_chat guard_example guard_tenant guard_request ''api'' None chat_world = (Inr r, w') \<and> length (w_sent w') = 1"
proof -
  obtain start w1 where 1: "monotonic chat_world = (Inr start, w1)" "w_db w1 = w_db chat_world" "w_sent w1 = []"
    by (simp add: monotonic_def now_def draw_def bnd_def ret_def chat_world_def example_world_def)
  have 2: "data_key guard_lib k guard_tenant w = (Inr [], w)" for k w
    by (simp add: data_key_def unwrap_key_def decrypt_def guard_lib_def guard_tenant_def ret_def)
  obtain known w3 where 3: "memorized_get ''t'' w1 = (Inr known, w3)" by (rule memorized_get_run)
  obtain g where g: "make_engine guard_example guard_tenant default_guard_policy w1 = (Inr g, w3)"
      "gd_policy g = default_guard_policy" "gd_find g = detect example_matcher"
    using 3 by (simp add: make_engine_def guard_example_def 2 bnd_def) (simp add: guard_tenant_def ret_def)
  have w3: "w_sent w3 = []" using sends_nothing_steps(3) 3 1(3) unfolding sends_nothing_def by (metis snd_conv)
  obtain ps st w4 where 4: "chat_stages guard_example g chat_settings [] ''m'' guard_request w3 = (Inr (Inr (200, [(''choices'', JArr [])]), ps, st), w4)"
    "length (w_sent w4) = 1" "w_db w4 = w_db w3"
    using chat_stages_run [OF g(2,3)] w3 by (metis One_nat_def list.size(3))
  have db: "w_db w4 = w_db chat_world" using keeps_db [OF guard_readers4(1) g(1)] 4(3) 1(2) by simp
  have model: "py_str guard_codec (get_or guard_request ''model'' (JStr (gs_default_model chat_settings))) = ''m''"
    by (simp add: get_or_def guard_request_def)
  obtain w5 where 5: "log_guard_event guard_tenant None ''api'' ''m'' (outcome_of (gs_report st)) (Some 200) start (gs_report st) [] w4 = (Inr (), w5)"
    using db by (simp add: log_guard_event_def run_Inr monotonic_def insert_guard_event_def chat_world_def empty_db_def)
  have "w_sent w5 = w_sent w4" using sends_nothing_engine(3) 5 unfolding sends_nothing_def by (metis snd_conv)
  moreover have "\<exists>r. run_chat guard_example guard_tenant guard_request ''api'' None chat_world = (Inr r, w5)"
    using 1(1,2) 2 g(1) 4(1) 5
    by (simp add: run_chat_def run_tail_def run_Inr chat_row chat_policy model guard_example_def of_result_def Let_def)
  ultimately show ?thesis using 4(2) by auto
qed

theorem only_protected_text_leaves_witness:
  "\<exists>r w'. run_chat guard_example guard_tenant guard_request ''api'' None chat_world = (Inr r, w')
    \<and> (\<exists>url key model_name ps. w_sent w' = [(url, key, chat_payload guard_request model_name ps)])"
proof -
  obtain r w' where run: "run_chat guard_example guard_tenant guard_request ''api'' None chat_world = (Inr r, w')"
    and one: "length (w_sent w') = 1" using guard_run by blast
  have "w_sent chat_world = []" by (simp add: chat_world_def example_world_def)
  with only_protected_text_leaves [OF run] run one show ?thesis by auto
qed

theorem run_is_logged_witness:
  "\<exists>r w'. run_chat guard_example guard_tenant guard_request ''api'' None chat_world = (Inr r, w') \<and> length (db_guard_events (w_db w')) = 1"
proof -
  obtain r w' where run: "run_chat guard_example guard_tenant guard_request ''api'' None chat_world = (Inr r, w')" using guard_run by blast
  have "db_guard_events (w_db chat_world) = []" by (simp add: chat_world_def empty_db_def)
  with run_is_logged [OF run] run show ?thesis by auto
qed

end
