(* ===== verification/MP_Revision.thy ===== *)
theory MP_Revision
  imports MP_Schema
begin

text \<open>
  The revision section of a rebuilt passport (\<^verbatim>\<open>core/revision.py\<close>): what changed against the
  passport it supersedes. \<open>text\<close> is what reading the file gave, after \<^verbatim>\<open>Passport.model_validate\<close>
  (pydantic); reading, decoding or validating may fail. Differences of metrics are exact rationals
  rounded half to even, the rule of Python's \<^verbatim>\<open>round\<close>.
\<close>

definition load_previous :: "passport option \<Rightarrow> string \<Rightarrow> passport option" where
  "load_previous stored model_name = (case stored of
     None \<Rightarrow> None
   | Some p \<Rightarrow> if id_model_name (pp_identity p) = model_name then Some p else None)"

definition round_half_even :: "rat \<Rightarrow> int" where
  "round_half_even x = (let f = floor x; d = x - of_int f in
     if d < 1/2 then f else if 1/2 < d then f + 1 else if even f then f else f + 1)"

definition round_digits :: "nat \<Rightarrow> rat \<Rightarrow> rat" where
  "round_digits n x = of_int (round_half_even (x * 10 ^ n)) / 10 ^ n"

text \<open>\<^verbatim>\<open>sorted(set)\<close> of texts, the set given by a list.\<close>

definition sorted_set :: "string list \<Rightarrow> string list" where
  "sorted_set xs = sort (remdups xs)"

definition change_status_of :: "dataset_info option \<Rightarrow> dataset_info option \<Rightarrow> change_status" where
  "change_status_of old new = (case old of None \<Rightarrow> ADDED
     | Some o' \<Rightarrow> (case new of None \<Rightarrow> REMOVED
         | Some n \<Rightarrow> if di_sha256 o' \<noteq> di_sha256 n then CHANGED else UNCHANGED))"

definition dataset_changes :: "passport \<Rightarrow> passport \<Rightarrow> dataset_change list" where
  "dataset_changes previous current =
     (let earlier = dict_of (map (\<lambda>d. (di_name d, d)) (pp_datasets previous));
          after = dict_of (map (\<lambda>d. (di_name d, d)) (pp_datasets current))
      in map (\<lambda>name. let old = map_of earlier name; new = map_of after name in
           \<lparr> dc_name = name, dc_status = change_status_of old new,
             dc_previous_sha256 = map_option di_sha256 old,
             dc_current_sha256 = map_option di_sha256 new,
             dc_previous_rows = Option.bind old di_row_count,
             dc_current_rows = Option.bind new di_row_count \<rparr>)
         (sorted_set (map fst earlier @ map fst after)))"

text \<open>\<^verbatim>\<open>deltas.setdefault(split, {})[name] = value\<close>.\<close>

definition put_delta :: "string \<Rightarrow> string \<Rightarrow> rat \<Rightarrow> rat dict dict \<Rightarrow> rat dict dict" where
  "put_delta split name value deltas =
     AList.update split (AList.update name value
       (case map_of deltas split of None \<Rightarrow> [] | Some d \<Rightarrow> d)) deltas"

definition metric_deltas :: "passport \<Rightarrow> passport \<Rightarrow> rat dict dict" where
  "metric_deltas previous current =
     foldl (\<lambda>deltas (split, name, value).
        case Option.bind (map_of (pp_metrics previous) split) (\<lambda>d. map_of d name) of
          None \<Rightarrow> deltas
        | Some old \<Rightarrow> put_delta split name (round_digits 6 (value - old)) deltas)
      [] (concat (map (\<lambda>(split, values). map (\<lambda>(name, value). (split, name, value)) values)
            (pp_metrics current)))"

definition artifact_map :: "passport \<Rightarrow> string dict" where
  "artifact_map p = dict_of (map (\<lambda>a. (ar_path a, ar_sha256 a)) (pp_artifacts p))"

definition compute_revision :: "passport \<Rightarrow> passport \<Rightarrow> string option \<Rightarrow> revision_info" where
  "compute_revision previous current reason =
     (let old = artifact_map previous; new = artifact_map current in
      \<lparr> rv_previous_passport_id = id_passport_id (pp_identity previous),
        rv_previous_version = id_version (pp_identity previous),
        rv_previous_merkle_root = id_merkle_root (pp_identity previous),
        rv_previous_created_at = id_created_at (pp_identity previous),
        rv_sequence = (case pp_revision previous of Some r \<Rightarrow> rv_sequence r + 1 | None \<Rightarrow> 1),
        rv_reason = reason,
        rv_added_artifacts = sorted_set (filter (\<lambda>k. map_of old k = None) (map fst new)),
        rv_removed_artifacts = sorted_set (filter (\<lambda>k. map_of new k = None) (map fst old)),
        rv_changed_artifacts = sorted_set
          (filter (\<lambda>k. map_of old k \<noteq> None \<and> map_of new k \<noteq> map_of old k) (map fst new)),
        rv_dataset_changes = dataset_changes previous current,
        rv_metric_deltas = metric_deltas previous current \<rparr>)"

lemma set_sorted_set [simp]: "set (sorted_set xs) = set xs"
  by (simp add: sorted_set_def)

lemma sorted_set_eq_Nil [simp]: "sorted_set xs = [] \<longleftrightarrow> xs = []"
  by (metis set_empty set_sorted_set)

lemma sorted_distinct_sorted_set: "sorted (sorted_set xs) \<and> distinct (sorted_set xs)"
  by (simp add: sorted_set_def)

text \<open>
  A revision tells the whole difference of the two artifact sets: each list is sorted and has
  no duplicates, a path is listed as added, removed or changed exactly when it is, and a revision
  that lists nothing means the recorded digests are the same everywhere.
\<close>

theorem compute_revision_artifacts:
  "let old = map_of (artifact_map previous); new = map_of (artifact_map current);
       r = compute_revision previous current reason
   in list_all (\<lambda>xs. sorted xs \<and> distinct xs)
        [rv_added_artifacts r, rv_removed_artifacts r, rv_changed_artifacts r]
    \<and> set (rv_added_artifacts r) = {k. old k = None \<and> new k \<noteq> None}
    \<and> set (rv_removed_artifacts r) = {k. old k \<noteq> None \<and> new k = None}
    \<and> set (rv_changed_artifacts r) = {k. \<exists>x y. old k = Some x \<and> new k = Some y \<and> x \<noteq> y}
    \<and> (rv_added_artifacts r = [] \<and> rv_removed_artifacts r = [] \<and> rv_changed_artifacts r = [] \<longleftrightarrow> old = new)"
proof -
  define old where "old = map_of (artifact_map previous)"
  define new where "new = map_of (artifact_map current)"
  define r where "r = compute_revision previous current reason"
  have keys: "k \<in> set (map fst m) \<longleftrightarrow> map_of m k \<noteq> None" for m :: "string dict" and k
    by (simp add: map_of_eq_None_iff)
  have sets: "set (rv_added_artifacts r) = {k. old k = None \<and> new k \<noteq> None}"
      "set (rv_removed_artifacts r) = {k. old k \<noteq> None \<and> new k = None}"
      "set (rv_changed_artifacts r) = {k. \<exists>x y. old k = Some x \<and> new k = Some y \<and> x \<noteq> y}"
    unfolding r_def old_def new_def compute_revision_def Let_def
    by (auto simp del: set_map simp: keys)
  have "list_all (\<lambda>xs. sorted xs \<and> distinct xs)
      [rv_added_artifacts r, rv_removed_artifacts r, rv_changed_artifacts r]"
    by (simp add: r_def compute_revision_def Let_def sorted_distinct_sorted_set)
  moreover have "rv_added_artifacts r = [] \<and> rv_removed_artifacts r = [] \<and> rv_changed_artifacts r = []
      \<longleftrightarrow> old = new"
  proof -
    have "rv_added_artifacts r = [] \<and> rv_removed_artifacts r = [] \<and> rv_changed_artifacts r = []
      \<longleftrightarrow> set (rv_added_artifacts r) = {} \<and> set (rv_removed_artifacts r) = {} \<and> set (rv_changed_artifacts r) = {}"
      by simp
    also have "\<dots> \<longleftrightarrow> (\<forall>k. old k = new k)"
      unfolding sets by (auto, metis option.exhaust_sel)
    finally show ?thesis by (simp add: fun_eq_iff)
  qed
  ultimately show ?thesis using sets
    by (simp add: Let_def old_def [symmetric] new_def [symmetric] r_def [symmetric])
qed

text \<open>
  The dataset changes list every dataset of either passport once, by name in order, and say
  \<open>UNCHANGED\<close> only where both passports have it with the same digest.
\<close>

theorem dataset_changes_complete:
  "map dc_name (dataset_changes previous current)
     = sorted_set (map di_name (pp_datasets previous) @ map di_name (pp_datasets current))
   \<and> list_all (\<lambda>d.
        (dc_status d = ADDED \<longleftrightarrow> dc_previous_sha256 d = None) \<and>
        (dc_status d = REMOVED \<longleftrightarrow> dc_current_sha256 d = None) \<and>
        (dc_status d = UNCHANGED \<longleftrightarrow> dc_previous_sha256 d = dc_current_sha256 d) \<and>
        \<not> (dc_previous_sha256 d = None \<and> dc_current_sha256 d = None)) (dataset_changes previous current)"
proof -
  define earlier where "earlier = dict_of (map (\<lambda>d. (di_name d, d)) (pp_datasets previous))"
  define after where "after = dict_of (map (\<lambda>d. (di_name d, d)) (pp_datasets current))"
  have keys: "set (map fst earlier @ map fst after)
      = set (map di_name (pp_datasets previous) @ map di_name (pp_datasets current))"
    by (simp add: earlier_def after_def image_image)
  have names: "sorted_set (map fst earlier @ map fst after)
      = sorted_set (map di_name (pp_datasets previous) @ map di_name (pp_datasets current))"
    by (rule sorted_distinct_set_unique) (use sorted_distinct_sorted_set keys in \<open>auto simp: set_sorted_set\<close>)
  have dom: "map_of earlier n \<noteq> None \<or> map_of after n \<noteq> None"
    if "n \<in> set (sorted_set (map fst earlier @ map fst after))" for n
    using that by (auto simp: map_of_eq_None_iff)
  show ?thesis
    unfolding list_all_iff
  proof (intro conjI ballI)
    show "map dc_name (dataset_changes previous current)
        = sorted_set (map di_name (pp_datasets previous) @ map di_name (pp_datasets current))"
      by (simp add: dataset_changes_def earlier_def [symmetric] after_def [symmetric] names Let_def comp_def)
  next
    fix d
    assume "d \<in> set (dataset_changes previous current)"
    then obtain n where n: "n \<in> set (sorted_set (map fst earlier @ map fst after))"
        "dc_status d = change_status_of (map_of earlier n) (map_of after n)"
        "dc_previous_sha256 d = map_option di_sha256 (map_of earlier n)"
        "dc_current_sha256 d = map_option di_sha256 (map_of after n)"
      unfolding dataset_changes_def earlier_def [symmetric] after_def [symmetric] Let_def set_map
      by (elim imageE) simp
    have "map_of earlier n \<noteq> None \<or> map_of after n \<noteq> None" by (rule dom [OF n(1)])
    then show "dc_status d = ADDED \<longleftrightarrow> dc_previous_sha256 d = None"
      "dc_status d = REMOVED \<longleftrightarrow> dc_current_sha256 d = None"
      "dc_status d = UNCHANGED \<longleftrightarrow> dc_previous_sha256 d = dc_current_sha256 d"
      "\<not> (dc_previous_sha256 d = None \<and> dc_current_sha256 d = None)"
      by (cases "map_of earlier n"; cases "map_of after n"; simp add: n(2-4) change_status_of_def)+
  qed
qed

end
