(* ===== verification/MP_Policy.thy ===== *)
theory MP_Policy
  imports MP_Identity MP_Revision
begin

text \<open>
  The policy engine (\<^verbatim>\<open>policy/engine.py\<close>) and the platform's release gate
  (\<^verbatim>\<open>platform/gate.py\<close>). A policy maps rule names to thresholds of any YAML shape. Evaluation reads
  two sections of the passport, its privacy and security reports; every exception it can raise is a
  value of \<open>policy_exn\<close>. Reading the YAML file is a parameter of \<^verbatim>\<open>load_policy\<close>.
\<close>

section \<open>Policies and evidence\<close>

datatype policy_exn =
    PolicyLoadError
  | UnknownRules "string list"
  | BadFlag string
  | BadThresholdKeys string "string list"
  | BadThreshold string
  | PolTypeError
  | PolValueError
  | PolKeyError string

definition UNSAFE_ARTIFACT_CATEGORIES :: "string list" where
  "UNSAFE_ARTIFACT_CATEGORIES = [''UNSAFE_PICKLE'', ''SCAN_ERROR'']"

record policy =
  py_rules :: "val dict"
  py_missing_evidence :: verdict

text \<open>\<^verbatim>\<open>max(verdicts, key=VERDICT_ORDER.index, default=PASS)\<close>.\<close>

definition worst :: "verdict list \<Rightarrow> verdict" where
  "worst verdicts = foldl (\<lambda>best v. if index_of VERDICT_ORDER best < index_of VERDICT_ORDER v then v else best)
     PASS verdicts"

text \<open>The sections the rules read: a passport has them, and so has the gate's \<^verbatim>\<open>SimpleNamespace\<close>.\<close>

record evidence_src =
  es_privacy :: "privacy_report option"
  es_security :: "security_report option"

definition evidence_of :: "passport \<Rightarrow> evidence_src" where
  "evidence_of p = \<lparr> es_privacy = pp_privacy_report p, es_security = pp_security_report p \<rparr>"

type_synonym extractor = "evidence_src \<Rightarrow> val option"   \<comment> \<open>None: \<open>Missing\<close>\<close>

definition count_of :: "('a \<Rightarrow> bool) \<Rightarrow> 'a list \<Rightarrow> val" where
  "count_of P xs = VInt (int (length (filter P xs)))"

definition pii_columns :: extractor where
  "pii_columns p = (case es_privacy p of
     None \<Rightarrow> None
   | Some report \<Rightarrow> if pr_datasets_scanned report = [] then None
       else Some (VInt (int (length (remdups (map fi_location
              (filter (\<lambda>f. fi_scanner f = ''pii'' \<and>
                 (case map_of (fi_details f) ''direct_identifier'' of None \<Rightarrow> False | Some j \<Rightarrow> \<not> json_falsy j))
               (pr_data_findings report))))))))"

definition reid_results :: "evidence_src \<Rightarrow> reidentification_result list" where
  "reid_results p = (case es_privacy p of None \<Rightarrow> [] | Some report \<Rightarrow> pr_reidentification report)"

definition min_k :: extractor where
  "min_k p = (case List.map_filter rr_k_anonymity (reid_results p) of
     [] \<Rightarrow> None | v # vs \<Rightarrow> Some (VInt (fold min vs v)))"

definition max_unique :: extractor where
  "max_unique p = (case map rr_unique_fraction (filter (\<lambda>r. rr_quasi_identifiers r \<noteq> []) (reid_results p)) of
     [] \<Rightarrow> None | v # vs \<Rightarrow> Some (VFloat (fold max vs v)))"

definition min_l :: extractor where
  "min_l p = (case List.map_filter rr_l_diversity (reid_results p) of
     [] \<Rightarrow> None | v # vs \<Rightarrow> Some (VInt (fold min vs v)))"

definition leakage_field :: "(leakage_result \<Rightarrow> rat option) \<Rightarrow> extractor" where
  "leakage_field fld p = map_option VFloat
     (Option.bind (Option.bind (es_privacy p) pr_leakage) fld)"

definition secrets :: extractor where
  "secrets p = (case es_security p of
     None \<Rightarrow> None
   | Some report \<Rightarrow> if sr_files_scanned_for_secrets report = None then None
       else Some (count_of (\<lambda>f. at_least (fi_severity f) HIGH) (sr_secret_findings report)))"

definition unsafe_pickles :: extractor where
  "unsafe_pickles p = (case es_security p of
     None \<Rightarrow> None
   | Some report \<Rightarrow> if sr_artifacts_scanned report = [] then None
       else Some (count_of (\<lambda>f. fi_category f \<in> set UNSAFE_ARTIFACT_CATEGORIES) (sr_artifact_findings report)))"

definition cves :: "severity \<Rightarrow> extractor" where
  "cves severity p = (case es_security p of
     None \<Rightarrow> None
   | Some report \<Rightarrow> if sr_dependency_audit report \<noteq> DEP_OK then None
       else Some (count_of (\<lambda>f. fi_severity f = severity) (sr_dependency_vulnerabilities report)))"

definition entity_audit :: "evidence_src \<Rightarrow> entity_audit_result option" where
  "entity_audit p = Option.bind (es_privacy p) pr_entity_audit"

definition severity_count :: "entity_audit_result \<Rightarrow> severity \<Rightarrow> int" where
  "severity_count audit s =
     (case map_of (ea_severity_counts audit) (severity_value s) of None \<Rightarrow> 0 | Some n \<Rightarrow> n)"

definition entities_at :: "severity \<Rightarrow> extractor" where
  "entities_at s p = map_option (\<lambda>audit. VInt (severity_count audit s)) (entity_audit p)"

definition entity_auc :: extractor where
  "entity_auc p = map_option VFloat (Option.bind (entity_audit p) ea_auc)"

definition entity_tpr :: extractor where
  "entity_tpr p = map_option VFloat (Option.bind (entity_audit p) (\<lambda>a. map_of (ea_tpr_at_fpr a) ''0.01''))"

section \<open>Rules\<close>

datatype rule_kind = MaxRule | MinRule | FlagRule

record rule =
  rl_evidence :: extractor
  rl_kind :: rule_kind
  rl_description :: string
  rl_hint :: string

definition mk_rule :: "extractor \<Rightarrow> rule_kind \<Rightarrow> string \<Rightarrow> string \<Rightarrow> rule" where
  "mk_rule e k d h = \<lparr> rl_evidence = e, rl_kind = k, rl_description = d, rl_hint = h \<rparr>"

definition QUASI_HINT :: string where
  "QUASI_HINT = ''no quasi-identifiers found; list them under privacy.quasi_identifiers''"

definition SENSITIVE_HINT :: string where "SENSITIVE_HINT = ''set privacy.sensitive_column''"

definition LEAKAGE_HINT :: string where
  "LEAKAGE_HINT = ''set audit.label_column and declare train and test datasets''"

definition ENTITY_HINT :: string where
  "ENTITY_HINT = ''run `passport llm audit` and set privacy.entity_audit''"

definition RULES :: "rule dict" where
  "RULES =
    [(''pii_columns_max'', mk_rule pii_columns MaxRule ''columns containing direct identifiers'' []),
     (''min_k_anonymity'', mk_rule min_k MinRule ''k-anonymity over quasi-identifiers'' QUASI_HINT),
     (''unique_record_fraction_max'', mk_rule max_unique MaxRule ''fraction of unique records'' QUASI_HINT),
     (''min_l_diversity'', mk_rule min_l MinRule ''l-diversity of the sensitive column'' SENSITIVE_HINT),
     (''mia_auc_max'',
        mk_rule (leakage_field (\<lambda>l. Some (lk_mia_auc l))) MaxRule ''membership inference attack AUC'' LEAKAGE_HINT),
     (''mia_tpr_at_low_fpr_max'',
        mk_rule (leakage_field (\<lambda>l. Some (lk_tpr_at_low_fpr l))) MaxRule ''attack TPR at low FPR'' LEAKAGE_HINT),
     (''generalization_gap_max'',
        mk_rule (leakage_field lk_generalization_gap) MaxRule ''train minus test metric'' LEAKAGE_HINT),
     (''secrets_found_max'', mk_rule secrets MaxRule ''confirmed secrets in data and scripts'' []),
     (''unsafe_pickle'', mk_rule unsafe_pickles FlagRule ''pickle files with dangerous imports'' []),
     (''critical_cves_max'', mk_rule (cves CRITICAL) MaxRule ''critical dependency CVEs'' []),
     (''entity_critical_max'', mk_rule (entities_at CRITICAL) MaxRule ''critical memorized entities'' ENTITY_HINT),
     (''entity_high_max'', mk_rule (entities_at HIGH) MaxRule ''high-risk memorized entities'' ENTITY_HINT),
     (''el_mia_auc_max'', mk_rule entity_auc MaxRule ''entity-level attack AUC'' ENTITY_HINT),
     (''el_mia_tpr_at_1pct_fpr_max'',
        mk_rule entity_tpr MaxRule ''entity-level attack TPR at 1% FPR'' ENTITY_HINT),
     (''high_cves_max'', mk_rule (cves HIGH) MaxRule ''high severity dependency CVEs'' [])]"

text \<open>
  A threshold normalised to \<open>(warn, fail)\<close>, where a missing key is \<^const>\<open>VNull\<close>. The values under
  \<open>warn\<close> and \<open>fail\<close> are taken as they are.
\<close>

definition val_get :: "val dict \<Rightarrow> string \<Rightarrow> val" where
  "val_get d k = (case map_of d k of None \<Rightarrow> VNull | Some v \<Rightarrow> v)"

fun thresholds :: "string \<Rightarrow> val \<Rightarrow> policy_exn + (val \<times> val)" where
  "thresholds name (VDict d) =
     (if d = [] \<or> \<not> set (map fst d) \<subseteq> {''warn'', ''fail''}
      then Inl (BadThresholdKeys name (sorted_set (map fst d)))
      else Inr (val_get d ''warn'', val_get d ''fail''))"
| "thresholds name (VInt i) = Inr (VNull, VInt i)"
| "thresholds name (VFloat r) = Inr (VNull, VFloat r)"
| "thresholds name _ = Inl (BadThreshold name)"

text \<open>Python compares ints, floats and bools with each other; other operands raise \<^verbatim>\<open>TypeError\<close>.\<close>

fun num :: "val \<Rightarrow> rat option" where
  "num (VInt i) = Some (of_int i)"
| "num (VFloat r) = Some r"
| "num (VBool b) = Some (if b then 1 else 0)"
| "num _ = None"

definition violates :: "rule_kind \<Rightarrow> val \<Rightarrow> val \<Rightarrow> policy_exn + bool" where
  "violates kind observed threshold =
     (if threshold = VNull then Inr False
      else (case (num observed, num threshold) of
          (Some x, Some t) \<Rightarrow> Inr (if kind = MaxRule then t < x else x < t)
        | _ \<Rightarrow> Inl PolTypeError))"

definition result_bind :: "'e + 'a \<Rightarrow> ('a \<Rightarrow> 'e + 'b) \<Rightarrow> 'e + 'b" where
  "result_bind m f = (case m of Inl e \<Rightarrow> Inl e | Inr x \<Rightarrow> f x)"

definition threshold_verdict :: "rule_kind \<Rightarrow> val \<Rightarrow> val \<Rightarrow> val \<Rightarrow> policy_exn + verdict" where
  "threshold_verdict kind observed warn_at fail_at =
     result_bind (violates kind observed fail_at) (\<lambda>f. if f then Inr FAIL
       else result_bind (violates kind observed warn_at) (\<lambda>w. Inr (if w then WARN else PASS)))"

definition shown_value :: "val \<Rightarrow> val" where
  "shown_value observed = (case observed of VFloat r \<Rightarrow> VFloat (round_digits 4 r) | v \<Rightarrow> v)"

definition flag_verdict :: "val \<Rightarrow> val \<Rightarrow> policy_exn + verdict" where
  "flag_verdict observed threshold = (case num observed of
      None \<Rightarrow> Inl PolTypeError
    | Some x \<Rightarrow> if 0 < x
        then (case threshold of
            VStr s \<Rightarrow> (case verdict_of s of Some v \<Rightarrow> Inr v | None \<Rightarrow> Inl PolValueError)
          | _ \<Rightarrow> Inl PolValueError)
        else Inr PASS)"

definition evaluate_rule :: "string \<Rightarrow> val \<Rightarrow> evidence_src \<Rightarrow> verdict \<Rightarrow> policy_exn + rule_result" where
  "evaluate_rule name threshold p missing =
     (case map_of RULES name of
        None \<Rightarrow> Inl (PolKeyError name)
      | Some rule \<Rightarrow> (case rl_evidence rule p of
          None \<Rightarrow> Inr \<lparr> ru_name = name, ru_threshold = threshold, ru_observed = VNull, ru_result = missing,
                   ru_message = NotEvaluated (rl_description rule) (rl_hint rule) \<rparr>
        | Some observed \<Rightarrow>
            if rl_kind rule = FlagRule
            then result_bind (flag_verdict observed threshold) (\<lambda>result. Inr
                   \<lparr> ru_name = name, ru_threshold = threshold, ru_observed = observed, ru_result = result,
                     ru_message = (if num observed \<noteq> Some 0 then FoundMessage observed (rl_description rule)
                                   else NoneFound (rl_description rule)) \<rparr>)
            else result_bind (thresholds name threshold) (\<lambda>(warn_at, fail_at).
                 result_bind (threshold_verdict (rl_kind rule) observed warn_at fail_at) (\<lambda>result. Inr
                   \<lparr> ru_name = name, ru_threshold = threshold, ru_observed = shown_value observed,
                     ru_result = result,
                     ru_message = Required (rl_description rule) (shown_value observed)
                       (if rl_kind rule = MaxRule then ''<='' else ''>='')
                       (if fail_at \<noteq> VNull then fail_at else warn_at) \<rparr>))))"

fun all_results :: "('e + 'a) list \<Rightarrow> 'e + 'a list" where
  "all_results [] = Inr []"
| "all_results (Inl e # rs) = Inl e"
| "all_results (Inr x # rs) = result_bind (all_results rs) (\<lambda>xs. Inr (x # xs))"

definition evaluate :: "policy \<Rightarrow> string \<Rightarrow> evidence_src \<Rightarrow> policy_exn + policy_result" where
  "evaluate pol policy_sha256 p =
     result_bind (all_results (map (\<lambda>(name, threshold).
         evaluate_rule name threshold p (py_missing_evidence pol)) (py_rules pol)))
       (\<lambda>results. Inr \<lparr> po_policy_sha256 = policy_sha256, po_rules = results,
          po_verdict = worst (map ru_result results) \<rparr>)"

text \<open>\<open>data\<close> is what reading, parsing and validating the file gave; \<open>file\<close> are its bytes.\<close>

definition check_rule_threshold :: "string \<Rightarrow> val \<Rightarrow> policy_exn + unit" where
  "check_rule_threshold name threshold =
     (if map_option rl_kind (map_of RULES name) = Some FlagRule
      then (case threshold of
          VStr s \<Rightarrow> if verdict_of s = None then Inl (BadFlag name) else Inr ()
        | VList _ \<Rightarrow> Inl PolTypeError
        | VDict _ \<Rightarrow> Inl PolTypeError
        | _ \<Rightarrow> Inl (BadFlag name))
      else result_bind (thresholds name threshold) (\<lambda>_. Inr ()))"

definition load_policy :: "crypto \<Rightarrow> policy option \<Rightarrow> bytes \<Rightarrow> policy_exn + (policy \<times> string)" where
  "load_policy c data file = (case data of
      None \<Rightarrow> Inl PolicyLoadError
    | Some pol \<Rightarrow>
        (let unknown = sorted_set (filter (\<lambda>n. map_of RULES n = None) (map fst (py_rules pol))) in
         if unknown \<noteq> [] then Inl (UnknownRules unknown)
         else result_bind (all_results (map (\<lambda>(n, t). check_rule_threshold n t) (py_rules pol)))
           (\<lambda>_. Inr (pol, sha256_hex c file))))"

section \<open>The release gate\<close>

definition ENTITY_RULES :: "string list" where
  "ENTITY_RULES = [''entity_critical_max'', ''entity_high_max'', ''el_mia_auc_max'', ''el_mia_tpr_at_1pct_fpr_max'']"

text \<open>What \<^verbatim>\<open>yaml.safe_load(POLICY_TEMPLATE)\<close> gives, and the template's text.\<close>

definition template_rules :: "val dict" where
  "template_rules =
    [(''entity_critical_max'', VInt 0),
     (''entity_high_max'', VInt 0),
     (''el_mia_auc_max'', VDict [(''warn'', VFloat (55/100)), (''fail'', VFloat (60/100))]),
     (''el_mia_tpr_at_1pct_fpr_max'', VDict [(''warn'', VFloat (2/100)), (''fail'', VFloat (5/100))]),
     (''secrets_found_max'', VInt 0),
     (''unsafe_pickle'', VStr ''fail''),
     (''critical_cves_max'', VInt 0)]"

definition template_missing_evidence :: string where
  "template_missing_evidence = ''warn''"

definition POLICY_TEMPLATE :: string where
  "POLICY_TEMPLATE = concat (map (\<lambda>l. l @ [CHR 0x0A])
    [''# MP release gate for language models. `passport build` exits 1 when the verdict is fail.'',
     ''#'',
     ''# Defaults follow industry practice:'',
     ''# - Confirmed Critical and High findings block release, as in vulnerability management'',
     ''#   (CVSS severity bands).'',
     ''# - Attack strength is judged by AUC (0.5 = chance) and by the true-positive rate at a 1%'',
     ''#   false-positive rate (0.01 = chance), as in Carlini et al. 2022.'',
     '''',
     ''rules:'',
     ''  entity_critical_max: 0                                 # confirmed Critical findings'',
     ''  entity_high_max: 0                                     # confirmed High findings'',
     ''  el_mia_auc_max: {warn: 0.55, fail: 0.60}'',
     ''  el_mia_tpr_at_1pct_fpr_max: {warn: 0.02, fail: 0.05}'',
     ''  secrets_found_max: 0'',
     ''  unsafe_pickle: fail'',
     ''  critical_cves_max: 0'',
     '''',
     ''missing_evidence: warn''])"

definition default_policy :: "crypto \<Rightarrow> policy_exn + (policy \<times> string)" where
  "default_policy c = (case verdict_of template_missing_evidence of
      None \<Rightarrow> Inl PolValueError
    | Some v \<Rightarrow> Inr (\<lparr> py_rules = filter (\<lambda>(k, _). k \<in> set ENTITY_RULES) template_rules,
                       py_missing_evidence = v \<rparr>, sha256_hex c POLICY_TEMPLATE))"

definition entity_evidence :: "entity_audit_result \<Rightarrow> evidence_src" where
  "entity_evidence audit = \<lparr> es_privacy = Some \<lparr> pr_datasets_scanned = [], pr_data_findings = [],
       pr_reidentification = [], pr_leakage = None, pr_entity_audit = Some audit \<rparr>,
     es_security = None \<rparr>"

definition gate_check :: "crypto \<Rightarrow> entity_audit_result \<Rightarrow> (policy \<times> string) option \<Rightarrow> policy_exn + policy_result" where
  "gate_check c audit pol =
     result_bind (case pol of Some p \<Rightarrow> Inr p | None \<Rightarrow> default_policy c)
       (\<lambda>(rules, digest). evaluate rules digest (entity_evidence audit))"

definition blocking :: "policy_result \<Rightarrow> bool" where
  "blocking result \<longleftrightarrow> po_verdict result = FAIL"

section \<open>Verdicts\<close>

lemma worst_max: "worst verdicts = foldl max PASS verdicts"
proof -
  have "(\<lambda>best v. if index_of VERDICT_ORDER best < index_of VERDICT_ORDER v then v else best) = max"
    unfolding less_verdict_def [symmetric] by (intro ext) (auto simp: max_def)
  then show ?thesis by (simp add: worst_def)
qed

lemma foldl_max_le: "foldl max a xs \<le> (m :: 'a :: linorder) \<longleftrightarrow> a \<le> m \<and> (\<forall>x \<in> set xs. x \<le> m)"
  by (induction xs arbitrary: a) auto

lemma worst_le_iff: "worst vs \<le> m \<longleftrightarrow> (\<forall>v \<in> set vs. v \<le> m)"
  by (simp add: worst_max foldl_max_le)

lemma worst_PASS_iff: "worst vs = PASS \<longleftrightarrow> (\<forall>v \<in> set vs. v = PASS)"
  using worst_le_iff [of vs PASS] by simp

lemma worst_ge: "v \<in> set vs \<Longrightarrow> v \<le> worst vs"
  using worst_le_iff [of vs "worst vs"] by simp

lemma worst_in: "worst vs = PASS \<or> worst vs \<in> set vs"
proof -
  have "foldl max a vs = a \<or> foldl max a vs \<in> set vs" for a
    by (induction vs arbitrary: a) (auto simp: max_def split: if_splits)
  then show ?thesis by (simp add: worst_max)
qed

lemma worst_FAIL_iff: "worst vs = FAIL \<longleftrightarrow> FAIL \<in> set vs"
  using worst_in [of vs] worst_ge [of FAIL vs] by auto

lemma all_results_map_Inr [simp]: "all_results (map Inr xs) = Inr xs"
  by (induction xs) (simp_all add: result_bind_def)

lemma all_results_Inr: "all_results rs = Inr xs \<longleftrightarrow> rs = map Inr xs"
  by (induction rs arbitrary: xs rule: all_results.induct)
    (auto simp: result_bind_def split: sum.splits)

lemma evaluate_Inr:
  "evaluate pol d p = Inr r \<longleftrightarrow>
     map (\<lambda>(name, t). evaluate_rule name t p (py_missing_evidence pol)) (py_rules pol) = map Inr (po_rules r)
     \<and> r = \<lparr> po_policy_sha256 = d, po_rules = po_rules r, po_verdict = worst (map ru_result (po_rules r)) \<rparr>"
proof -
  let ?rs = "map (\<lambda>(name, t). evaluate_rule name t p (py_missing_evidence pol)) (py_rules pol)"
  show ?thesis
  proof (cases "all_results ?rs")
    case (Inl e)
    then have "?rs \<noteq> map Inr (po_rules r)" using all_results_map_Inr [of "po_rules r"] by (metis sum.distinct(1))
    with Inl show ?thesis by (simp add: evaluate_def result_bind_def)
  next
    case (Inr xs)
    then have "?rs = map Inr xs" by (simp add: all_results_Inr)
    moreover have "map Inr xs = map Inr ys \<longleftrightarrow> xs = ys" for ys :: "rule_result list"
      by (simp add: inj_map_eq_map)
    ultimately show ?thesis using Inr by (cases r) (auto simp: evaluate_def result_bind_def)
  qed
qed

text \<open>
  The verdict of a policy is the worst verdict of its rules, one result per rule in the policy's
  order: the policy fails exactly when a rule fails and passes exactly when every rule passes.
\<close>

theorem evaluate_verdict:
  assumes "evaluate pol d p = Inr r"
  shows "map ru_name (po_rules r) = map fst (py_rules pol)
    \<and> (po_verdict r = FAIL \<longleftrightarrow> (\<exists>x \<in> set (po_rules r). ru_result x = FAIL))
    \<and> (po_verdict r = PASS \<longleftrightarrow> (\<forall>x \<in> set (po_rules r). ru_result x = PASS))"
proof -
  have rs: "map (\<lambda>(name, t). evaluate_rule name t p (py_missing_evidence pol)) (py_rules pol) = map Inr (po_rules r)"
    and v: "po_verdict r = worst (map ru_result (po_rules r))"
    using assms by (auto simp: evaluate_Inr) (metis policy_result.select_convs(3))
  have name: "evaluate_rule n t p m = Inr x \<Longrightarrow> ru_name x = n" for n t m x
    by (auto simp: evaluate_rule_def result_bind_def split: option.splits if_splits sum.splits)
  have "map ru_name xs = map fst ns"
    if "map (\<lambda>(name, t). evaluate_rule name t p (py_missing_evidence pol)) ns = map Inr xs" for ns xs
    using that by (induction ns arbitrary: xs) (auto simp: Cons_eq_map_conv dest: name)
  from this [OF rs] show ?thesis by (simp add: v worst_FAIL_iff worst_PASS_iff image_iff) metis
qed

text \<open>The verdict of one rule, on every branch.\<close>

lemma evaluate_rule_missing:
  "map_of RULES name = Some rule \<Longrightarrow> rl_evidence rule p = None \<Longrightarrow>
   \<exists>x. evaluate_rule name t p m = Inr x \<and> ru_result x = m"
  by (simp add: evaluate_rule_def)

text \<open>
  Missing evidence is never a silent pass: with \<^verbatim>\<open>missing_evidence\<close> at \<open>WARN\<close> or \<open>FAIL\<close>, a policy
  that has a rule whose evidence was not collected has at least that verdict.
\<close>

theorem missing_evidence_not_pass:
  assumes "evaluate pol d p = Inr r" "(name, t) \<in> set (py_rules pol)"
    and "map_of RULES name = Some rule" "rl_evidence rule p = None"
  shows "py_missing_evidence pol \<le> po_verdict r"
proof -
  obtain x where x: "evaluate_rule name t p (py_missing_evidence pol) = Inr x" "ru_result x = py_missing_evidence pol"
    using evaluate_rule_missing assms(3,4) by blast
  have rs: "map (\<lambda>(name, t). evaluate_rule name t p (py_missing_evidence pol)) (py_rules pol) = map Inr (po_rules r)"
    and v: "po_verdict r = worst (map ru_result (po_rules r))"
    using assms(1) by (auto simp: evaluate_Inr) (metis policy_result.select_convs(3))
  have "evaluate_rule name t p (py_missing_evidence pol) \<in>
      set (map (\<lambda>(name, t). evaluate_rule name t p (py_missing_evidence pol)) (py_rules pol))"
    using assms(2) by force
  with rs x have "x \<in> set (po_rules r)" by auto
  then have "ru_result x \<in> set (map ru_result (po_rules r))" by simp
  from worst_ge [OF this] x show ?thesis by (simp add: v)
qed

lemma threshold_verdict_number:
  "num obs = Some x \<Longrightarrow> threshold_verdict k obs VNull (VFloat t) =
     Inr (if (if k = MaxRule then t < x else x < t) then FAIL else PASS)"
  by (simp add: threshold_verdict_def violates_def result_bind_def)

lemma RULES_evidence_num:
  "map_of RULES name = Some rule \<Longrightarrow> rl_evidence rule p = Some obs \<Longrightarrow> num obs \<noteq> None"
  by (auto simp: RULES_def mk_rule_def pii_columns_def min_k_def max_unique_def min_l_def leakage_field_def
      secrets_def unsafe_pickles_def cves_def entities_at_def entity_auc_def entity_tpr_def count_of_def
      split: if_splits option.splits list.splits)

text \<open>
  Tightening a limit never improves a verdict: on a rule that bounds its evidence from above, a
  smaller number as threshold gives the same verdict or a worse one, and dually for a rule that
  bounds it from below.
\<close>

theorem stricter_limit_not_better:
  assumes "map_of RULES name = Some rule"
    and "rl_kind rule = MaxRule \<and> t \<le> u \<or> rl_kind rule = MinRule \<and> u \<le> t"
  shows "\<exists>x y. evaluate_rule name (VFloat t) p m = Inr x \<and> evaluate_rule name (VFloat u) p m = Inr y
    \<and> ru_result y \<le> ru_result x"
proof (cases "rl_evidence rule p")
  case None
  with assms show ?thesis by (simp add: evaluate_rule_def)
next
  case (Some obs)
  obtain x where "num obs = Some x" using RULES_evidence_num [OF assms(1) Some] by blast
  with assms Some show ?thesis
    by (auto simp: evaluate_rule_def result_bind_def threshold_verdict_number)
qed

definition plain_threshold :: "val \<Rightarrow> bool" where
  "plain_threshold t = (case t of VDict d \<Rightarrow> list_all (\<lambda>(_, v). v = VNull \<or> num v \<noteq> None) d | _ \<Rightarrow> True)"

lemma violates_total:
  "num obs \<noteq> None \<Longrightarrow> t = VNull \<or> num t \<noteq> None \<Longrightarrow> \<exists>b. violates k obs t = Inr b"
  by (auto simp: violates_def)

lemma threshold_verdict_total:
  assumes "num obs \<noteq> None" "w = VNull \<or> num w \<noteq> None" "f = VNull \<or> num f \<noteq> None"
  shows "\<exists>v. threshold_verdict k obs w f = Inr v"
  using violates_total [OF assms(1,2), of k] violates_total [OF assms(1,3), of k]
  by (auto simp: threshold_verdict_def result_bind_def)

lemma val_get_plain: "plain_threshold (VDict d) \<Longrightarrow> val_get d k = VNull \<or> num (val_get d k) \<noteq> None"
  by (auto simp: val_get_def plain_threshold_def list_all_iff split: option.splits dest!: map_of_SomeD)

lemma evaluate_rule_total:
  assumes ok: "check_rule_threshold name t = Inr ()" and pl: "plain_threshold t"
    and rule: "map_of RULES name = Some rule"
  shows "\<exists>x. evaluate_rule name t p m = Inr x"
proof (cases "rl_evidence rule p")
  case None
  then show ?thesis by (simp add: evaluate_rule_def rule)
next
  case (Some obs)
  have n: "num obs \<noteq> None" by (rule RULES_evidence_num [OF rule Some])
  show ?thesis
  proof (cases "rl_kind rule = FlagRule")
    case True
    with ok rule n have "\<exists>v. flag_verdict obs t = Inr v"
      by (auto simp: check_rule_threshold_def flag_verdict_def split: val.splits if_splits option.splits)
    with True Some show ?thesis by (auto simp: evaluate_rule_def rule result_bind_def)
  next
    case False
    with ok rule obtain w f where wf: "thresholds name t = Inr (w, f)"
      by (auto simp: check_rule_threshold_def result_bind_def split: sum.splits)
    have "(w = VNull \<or> num w \<noteq> None) \<and> (f = VNull \<or> num f \<noteq> None)"
      using wf pl val_get_plain by (cases t) (auto split: if_splits)
    with threshold_verdict_total [OF n] obtain v where "threshold_verdict (rl_kind rule) obs w f = Inr v"
      by blast
    with False Some wf show ?thesis by (simp add: evaluate_rule_def rule result_bind_def)
  qed
qed

lemma load_policy_Inr:
  assumes "load_policy c data file = Inr (pol, d)" "(n, t) \<in> set (py_rules pol)"
  shows "(\<exists>rule. map_of RULES n = Some rule) \<and> check_rule_threshold n t = Inr ()"
proof -
  obtain us where chk: "map (\<lambda>(n, t). check_rule_threshold n t) (py_rules pol) = map Inr us"
    and known: "filter (\<lambda>n. map_of RULES n = None) (map fst (py_rules pol)) = []"
    using assms(1)
    by (auto simp: load_policy_def Let_def result_bind_def all_results_Inr split: option.splits if_splits sum.splits)
  have "check_rule_threshold n t \<in> set (map (\<lambda>(n, t). check_rule_threshold n t) (py_rules pol))"
    using assms(2) by force
  then have "check_rule_threshold n t = Inr ()" unfolding chk by auto
  moreover have "map_of RULES n \<noteq> None" using known assms(2) by (auto simp: filter_empty_conv)
  ultimately show ?thesis by auto
qed

lemma all_results_total: "(\<And>x. x \<in> set rs \<Longrightarrow> \<exists>y. x = Inr y) \<Longrightarrow> \<exists>ys. all_results rs = Inr ys"
  by (induction rs rule: all_results.induct) (auto simp: result_bind_def split: sum.splits)

text \<open>
  A policy the loader accepts is evaluated without an exception, whatever the evidence, if the
  values under \<open>warn\<close> and \<open>fail\<close> are numbers.
\<close>

theorem loaded_policy_evaluates:
  assumes "load_policy c data file = Inr (pol, d)" "list_all (\<lambda>(_, t). plain_threshold t) (py_rules pol)"
  shows "\<exists>r. evaluate pol d p = Inr r"
proof -
  have "\<exists>x. evaluate_rule n t p m = Inr x" if "(n, t) \<in> set (py_rules pol)" for n t m
    using evaluate_rule_total load_policy_Inr [OF assms(1) that] assms(2) that
    by (fastforce simp: list_all_iff)
  then have "\<exists>ys. all_results (map (\<lambda>(name, t). evaluate_rule name t p (py_missing_evidence pol)) (py_rules pol)) = Inr ys"
    by (intro all_results_total) auto
  then show ?thesis by (auto simp: evaluate_def result_bind_def)
qed

text \<open>
  The condition of the previous statement is needed: the loader also accepts a threshold such as
  \<^verbatim>\<open>{fail: high}\<close>, and evaluating it against collected evidence then raises \<^verbatim>\<open>TypeError\<close>.
\<close>

theorem loader_accepts_untyped_limits:
  "\<exists>pol d audit. load_policy c (Some pol) file = Inr (pol, d)
     \<and> evaluate pol d (entity_evidence audit) = Inl PolTypeError"
proof -
  define pol where "pol = \<lparr> py_rules = [(''entity_high_max'', VDict [(''fail'', VStr ''high'')])],
    py_missing_evidence = WARN \<rparr>"
  have "load_policy c (Some pol) file = Inr (pol, sha256_hex c file)"
    by (simp add: load_policy_def pol_def RULES_def mk_rule_def check_rule_threshold_def result_bind_def Let_def)
  moreover have "evaluate pol d (entity_evidence audit) = Inl PolTypeError" for d audit
    by (simp add: evaluate_def pol_def RULES_def mk_rule_def evaluate_rule_def result_bind_def
        entities_at_def entity_audit_def entity_evidence_def threshold_verdict_def violates_def val_get_def)
  ultimately show ?thesis by blast
qed

section \<open>What the default gate blocks\<close>

lemma default_policy_value:
  "default_policy c = Inr (\<lparr> py_rules =
    [(''entity_critical_max'', VInt 0),
     (''entity_high_max'', VInt 0),
     (''el_mia_auc_max'', VDict [(''warn'', VFloat (55/100)), (''fail'', VFloat (60/100))]),
     (''el_mia_tpr_at_1pct_fpr_max'', VDict [(''warn'', VFloat (2/100)), (''fail'', VFloat (5/100))])],
     py_missing_evidence = WARN \<rparr>, sha256_hex c POLICY_TEMPLATE)"
  by (simp add: default_policy_def template_missing_evidence_def verdict_of_def template_rules_def ENTITY_RULES_def)

lemma entity_count_rule:
  assumes "map_of RULES name = Some (mk_rule (entities_at s) MaxRule d h)"
  shows "\<exists>x. evaluate_rule name (VInt 0) (entity_evidence audit) m = Inr x
    \<and> (ru_result x = FAIL \<longleftrightarrow> 0 < severity_count audit s)"
  by (simp add: evaluate_rule_def assms mk_rule_def entities_at_def entity_audit_def entity_evidence_def
      result_bind_def threshold_verdict_def violates_def)

lemma entity_float_rule:
  assumes "map_of RULES name = Some (mk_rule e MaxRule d h)" "e (entity_evidence audit) = map_option VFloat obs"
    and "m \<noteq> FAIL"
  shows "\<exists>x. evaluate_rule name (VDict [(''warn'', VFloat w), (''fail'', VFloat f)]) (entity_evidence audit) m = Inr x
    \<and> (ru_result x = FAIL \<longleftrightarrow> (\<exists>a. obs = Some a \<and> f < a))"
  using assms by (cases obs) (auto simp: evaluate_rule_def mk_rule_def result_bind_def threshold_verdict_def
      violates_def val_get_def)

lemma default_gate_iff:
  "\<exists>r. gate_check c audit None = Inr r \<and>
     (blocking r \<longleftrightarrow> 0 < severity_count audit CRITICAL \<or> 0 < severity_count audit HIGH
        \<or> (\<exists>a. ea_auc audit = Some a \<and> 60/100 < a)
        \<or> (\<exists>t. map_of (ea_tpr_at_fpr audit) ''0.01'' = Some t \<and> 5/100 < t))"
proof -
  let ?ev = "entity_evidence audit"
  have rules: "map_of RULES ''entity_critical_max'' = Some (mk_rule (entities_at CRITICAL) MaxRule ''critical memorized entities'' ENTITY_HINT)"
    "map_of RULES ''entity_high_max'' = Some (mk_rule (entities_at HIGH) MaxRule ''high-risk memorized entities'' ENTITY_HINT)"
    "map_of RULES ''el_mia_auc_max'' = Some (mk_rule entity_auc MaxRule ''entity-level attack AUC'' ENTITY_HINT)"
    "map_of RULES ''el_mia_tpr_at_1pct_fpr_max''
      = Some (mk_rule entity_tpr MaxRule ''entity-level attack TPR at 1% FPR'' ENTITY_HINT)"
    by (simp_all add: RULES_def)
  have ev: "entity_auc ?ev = map_option VFloat (ea_auc audit)"
    "entity_tpr ?ev = map_option VFloat (map_of (ea_tpr_at_fpr audit) ''0.01'')"
    by (simp_all add: entity_auc_def entity_tpr_def entity_audit_def entity_evidence_def)
  obtain x1 where x1: "evaluate_rule ''entity_critical_max'' (VInt 0) ?ev WARN = Inr x1"
      "ru_result x1 = FAIL \<longleftrightarrow> 0 < severity_count audit CRITICAL"
    using entity_count_rule [OF rules(1)] by blast
  obtain x2 where x2: "evaluate_rule ''entity_high_max'' (VInt 0) ?ev WARN = Inr x2"
      "ru_result x2 = FAIL \<longleftrightarrow> 0 < severity_count audit HIGH"
    using entity_count_rule [OF rules(2)] by blast
  obtain x3 where x3: "evaluate_rule ''el_mia_auc_max'' (VDict [(''warn'', VFloat (55/100)), (''fail'', VFloat (60/100))]) ?ev WARN = Inr x3"
      "ru_result x3 = FAIL \<longleftrightarrow> (\<exists>a. ea_auc audit = Some a \<and> 60/100 < a)"
    using entity_float_rule [OF rules(3) ev(1), of WARN] by blast
  obtain x4 where x4: "evaluate_rule ''el_mia_tpr_at_1pct_fpr_max'' (VDict [(''warn'', VFloat (2/100)), (''fail'', VFloat (5/100))]) ?ev WARN = Inr x4"
      "ru_result x4 = FAIL \<longleftrightarrow> (\<exists>t. map_of (ea_tpr_at_fpr audit) ''0.01'' = Some t \<and> 5/100 < t)"
    using entity_float_rule [OF rules(4) ev(2), of WARN] by blast
  have "gate_check c audit None = Inr \<lparr> po_policy_sha256 = sha256_hex c POLICY_TEMPLATE, po_rules = [x1, x2, x3, x4],
      po_verdict = worst (map ru_result [x1, x2, x3, x4]) \<rparr>"
    unfolding gate_check_def default_policy_value
    by (simp add: result_bind_def evaluate_def x1(1) x2(1) x3(1) [simplified] x4(1) [simplified])
  moreover have "worst (map ru_result [x1, x2, x3, x4]) = FAIL \<longleftrightarrow>
      ru_result x1 = FAIL \<or> ru_result x2 = FAIL \<or> ru_result x3 = FAIL \<or> ru_result x4 = FAIL"
    unfolding worst_FAIL_iff by auto
  ultimately show ?thesis using x1(2) x2(2) x3(2) x4(2) by (simp add: blocking_def)
qed

text \<open>
  The release gate's default policy, exactly: it always reaches a verdict, and it blocks an audit
  if and only if the audit counts a confirmed Critical or High finding, or its AUC is above 0.60, or
  its true-positive rate at 1% false positives is above 0.05.
\<close>

theorem default_gate_blocks_iff:
  "\<exists>r. gate_check c audit None = Inr r \<and>
     (blocking r \<longleftrightarrow> 0 < severity_count audit CRITICAL \<or> 0 < severity_count audit HIGH
        \<or> (\<exists>a. ea_auc audit = Some a \<and> 60/100 < a)
        \<or> (\<exists>t. map_of (ea_tpr_at_fpr audit) ''0.01'' = Some t \<and> 5/100 < t))"
  by (rule default_gate_iff)

section \<open>Examples\<close>

definition example_audit :: entity_audit_result where
  "example_audit = \<lparr> ea_model = ''m'', ea_access = ''white'', ea_primary_method = ''loss'', ea_methods = [],
     ea_references = 0, ea_entities_audited = 1, ea_controls = 1, ea_auc = None, ea_tpr_at_fpr = [],
     ea_metrics = [], ea_severity_counts = [(''high'', 1)], ea_findings = [], ea_fdr = 5/100,
     ea_calibration = ''c'', ea_holdout_entities = 0, ea_holdout_auc = None, ea_control_shift_auc = None,
     ea_taxonomy = [] \<rparr>"

definition example_policy :: policy where
  "example_policy = \<lparr> py_rules = [(''entity_high_max'', VInt 0), (''el_mia_auc_max'', VFloat (6/10))],
     py_missing_evidence = WARN \<rparr>"

lemma example_policy_evaluates: "\<exists>r. evaluate example_policy ''d'' (entity_evidence example_audit) = Inr r"
proof -
  have "\<not> isl (evaluate example_policy ''d'' (entity_evidence example_audit))" by code_simp
  then show ?thesis by (cases "evaluate example_policy ''d'' (entity_evidence example_audit)") auto
qed

theorem evaluate_verdict_witness:
  "\<exists>r. evaluate example_policy ''d'' (entity_evidence example_audit) = Inr r
    \<and> map ru_name (po_rules r) = [''entity_high_max'', ''el_mia_auc_max'']
    \<and> (po_verdict r = FAIL \<longleftrightarrow> (\<exists>x \<in> set (po_rules r). ru_result x = FAIL))"
proof -
  obtain r where r: "evaluate example_policy ''d'' (entity_evidence example_audit) = Inr r"
    using example_policy_evaluates by blast
  from evaluate_verdict [OF r] r show ?thesis by (auto simp: example_policy_def)
qed

theorem missing_evidence_not_pass_witness:
  "\<exists>r. evaluate example_policy ''d'' (entity_evidence example_audit) = Inr r \<and> WARN \<le> po_verdict r"
proof -
  obtain r where r: "evaluate example_policy ''d'' (entity_evidence example_audit) = Inr r"
    using example_policy_evaluates by blast
  have rule: "map_of RULES ''el_mia_auc_max'' = Some (mk_rule entity_auc MaxRule ''entity-level attack AUC'' ENTITY_HINT)"
    by (simp add: RULES_def)
  have "py_missing_evidence example_policy \<le> po_verdict r"
    by (rule missing_evidence_not_pass [OF r _ rule, of "VFloat (6/10)"])
      (simp_all add: example_policy_def mk_rule_def entity_auc_def entity_audit_def entity_evidence_def example_audit_def)
  with r show ?thesis by (auto simp: example_policy_def)
qed

theorem stricter_limit_not_better_witness:
  "\<exists>x y. evaluate_rule ''entity_high_max'' (VFloat 0) (entity_evidence example_audit) WARN = Inr x
     \<and> evaluate_rule ''entity_high_max'' (VFloat 2) (entity_evidence example_audit) WARN = Inr y
     \<and> ru_result y \<le> ru_result x"
proof -
  have rule: "map_of RULES ''entity_high_max''
      = Some (mk_rule (entities_at HIGH) MaxRule ''high-risk memorized entities'' ENTITY_HINT)"
    by (simp add: RULES_def)
  show ?thesis by (rule stricter_limit_not_better [OF rule]) (simp add: mk_rule_def)
qed

theorem loaded_policy_evaluates_witness:
  "load_policy example_crypto (Some example_policy) ''f'' = Inr (example_policy, sha256_hex example_crypto ''f'')
   \<and> (\<exists>r. evaluate example_policy (sha256_hex example_crypto ''f'') (entity_evidence example_audit) = Inr r)"
proof -
  have load: "load_policy example_crypto (Some example_policy) ''f'' = Inr (example_policy, sha256_hex example_crypto ''f'')"
    by (simp add: load_policy_def example_policy_def RULES_def mk_rule_def check_rule_threshold_def
        result_bind_def Let_def)
  have "list_all (\<lambda>(_, t). plain_threshold t) (py_rules example_policy)"
    by (simp add: example_policy_def plain_threshold_def)
  from loaded_policy_evaluates [OF load this] load show ?thesis by blast
qed

end
