(* ===== verification/MP_Remediate.thy ===== *)
theory MP_Remediate
  imports MP_Sanitize MP_Revision
begin

text \<open>
  The remediation loop (\<^verbatim>\<open>llm/remediate.py\<close>): build, and while the gate fails, sanitize the training
  data and rebuild as a new version. Running the pipeline and building a passport is a parameter, a
  function of the project; the project is its two corpora, the archived training data and the version
  in its configuration.
\<close>

section \<open>Versions\<close>

definition is_digits :: "string \<Rightarrow> bool" where
  "is_digits p \<longleftrightarrow> p \<noteq> [] \<and> list_all is_digit p"

definition bump_minor :: "string \<Rightarrow> string" where
  "bump_minor version =
     (let parts = py_split (CHR ''.'') version in
      if 2 \<le> length parts \<and> list_all is_digits (take 2 parts)
      then py_join ''.'' ([parts ! 0, nat_str (digits_value (parts ! 1) + 1)] @ replicate (max (length parts - 2) 1) ''0'')
      else version @ ''.1'')"

section \<open>Targets of a round\<close>

definition merge_targets :: "targets \<Rightarrow> targets \<Rightarrow> targets" where
  "merge_targets found extra = foldl (\<lambda>d (k, spans). add_targets k spans d) found extra"

definition remediation_targets :: "entity_audit_result option \<Rightarrow> corpus_record list \<Rightarrow> corpus_record list \<Rightarrow> severity
    \<Rightarrow> string list \<Rightarrow> targets" where
  "remediation_targets audit raw train least always =
     translate (merge_targets (risky_spans audit raw least []) (risky_spans None raw least always)) raw train True"

section \<open>Rounds\<close>

record remediation_settings =
  rs_max_rounds :: nat
  rs_min_severity :: severity
  rs_always :: "string list"
  rs_strategy :: string
  rs_type_auc_max :: rat

definition default_remediation :: remediation_settings where
  "default_remediation = \<lparr> rs_max_rounds = 3, rs_min_severity = MEDIUM, rs_always = [''SSN'', ''CREDITCARDNUMBER''],
     rs_strategy = ''surrogate'', rs_type_auc_max = 60/100 \<rparr>"

record round =
  rd_version :: string
  rd_passport_id :: string
  rd_verdict :: string
  rd_auc :: "rat option"
  rd_severity_counts :: "int dict"
  rd_risky_types :: "string list"
  rd_type_auc :: "rat option dict"
  rd_sanitized :: counter
  rd_whole_types :: "string list"

definition count_of :: "int dict \<Rightarrow> string \<Rightarrow> int" where
  "count_of d k = (case map_of d k of None \<Rightarrow> 0 | Some n \<Rightarrow> n)"

definition round_blocking :: "round \<Rightarrow> int" where
  "round_blocking r = count_of (rd_severity_counts r) ''critical'' + count_of (rd_severity_counts r) ''high''"

definition type_auc :: "entity_audit_result \<Rightarrow> rat option dict" where
  "type_auc audit = dict_of (List.map_filter (\<lambda>m. case mm_entity_type m of
      None \<Rightarrow> None
    | Some t \<Rightarrow> if t \<noteq> [] \<and> mm_method m = ea_primary_method audit then Some (t, mm_auc m) else None) (ea_metrics audit))"

datatype remediation_error =
    MissingCorpus
  | NoEntityAudit
  | NoVersionLine
  | BadStrategy
  | BuildFailed

definition passport_audit :: "passport \<Rightarrow> entity_audit_result option" where
  "passport_audit p = Option.bind (pp_privacy_report p) pr_entity_audit"

definition round_of :: "passport \<Rightarrow> remediation_error + round" where
  "round_of p = (case passport_audit p of
      None \<Rightarrow> Inl NoEntityAudit
    | Some audit \<Rightarrow> Inr \<lparr> rd_version = id_version (pp_identity p), rd_passport_id = id_passport_id (pp_identity p),
        rd_verdict = (case pp_policy p of None \<Rightarrow> ''none'' | Some pol \<Rightarrow> verdict_value (po_verdict pol)),
        rd_auc = ea_auc audit, rd_severity_counts = ea_severity_counts audit,
        rd_risky_types = map ef_entity_type (filter (\<lambda>f. at_least (ef_severity f) HIGH) (ea_findings audit)),
        rd_type_auc = type_auc audit, rd_sanitized = [], rd_whole_types = [] \<rparr>)"

section \<open>The project\<close>

record project =
  pj_raw :: "corpus_record list option"          \<comment> \<open>None: the file is missing\<close>
  pj_train :: "corpus_record list option"
  pj_history :: "(string \<times> corpus_record list) list"
  pj_version :: "string option"                  \<comment> \<open>None: the configuration has no version line\<close>

definition set_config_version :: "string \<Rightarrow> project \<Rightarrow> remediation_error + project" where
  "set_config_version v pj = (case pj_version pj of
      None \<Rightarrow> Inl NoVersionLine | Some _ \<Rightarrow> Inr (pj\<lparr> pj_version := Some v \<rparr>))"

definition sanitize_round :: "source_of_values \<Rightarrow> remediation_settings \<Rightarrow> passport \<Rightarrow> string \<Rightarrow> string list \<Rightarrow> project
    \<Rightarrow> (remediation_error + counter) \<times> project" where
  "sanitize_round src s p version whole pj = (case (pj_raw pj, pj_train pj) of
      (Some raw, Some train) \<Rightarrow>
        (let tg = remediation_targets (passport_audit p) raw train (rs_min_severity s) (rs_always s @ whole);
             pj' = pj\<lparr> pj_history := AList.update (''train.v'' @ version @ ''.jsonl'') train (pj_history pj) \<rparr>
         in case sanitize src train tg (rs_strategy s) of
              Inl _ \<Rightarrow> (Inl BadStrategy, pj')
            | Inr (cleaned, report) \<Rightarrow> (Inr (sr_replaced report), pj'\<lparr> pj_train := Some cleaned \<rparr>))
    | _ \<Rightarrow> (Inl MissingCorpus, pj))"

definition gate_clear :: "round \<Rightarrow> bool" where
  "gate_clear r \<longleftrightarrow> rd_verdict r \<noteq> ''fail'' \<and> round_blocking r = 0"

text \<open>Types to replace entirely: flagged in two rounds in a row, or leaky where no entity is flagged.\<close>

definition next_whole_types :: "remediation_settings \<Rightarrow> round list \<Rightarrow> round \<Rightarrow> string list" where
  "next_whole_types s rounds current =
     (let previous = (if rounds = [] then [] else rd_risky_types (last rounds));
          again = filter (\<lambda>t. t \<in> set previous) (rd_risky_types current);
          leaky = (if round_blocking current = 0
            then map fst (filter (\<lambda>(_, auc). case auc of None \<Rightarrow> False | Some a \<Rightarrow> rs_type_auc_max s < a) (rd_type_auc current)) else [])
      in sorted_set (again @ leaky))"

text \<open>\<open>left\<close> counts the attempts that may still follow this one.\<close>

fun remediate_loop :: "(project \<Rightarrow> remediation_error + passport) \<Rightarrow> source_of_values \<Rightarrow> remediation_settings \<Rightarrow> nat
    \<Rightarrow> round list \<Rightarrow> project \<Rightarrow> (remediation_error + round list) \<times> project" where
  "remediate_loop build src s left rounds pj =
     (case build pj of
        Inl e \<Rightarrow> (Inl e, pj)
      | Inr p \<Rightarrow> (case round_of p of
          Inl e \<Rightarrow> (Inl e, pj)
        | Inr current \<Rightarrow>
            if gate_clear current then (Inr (rounds @ [current]), pj)
            else (case left of
              0 \<Rightarrow> (Inr (rounds @ [current]), pj)
            | Suc left' \<Rightarrow>
                (let whole = next_whole_types s rounds current in
                 case sanitize_round src s p (rd_version current) whole pj of
                   (Inl e, pj') \<Rightarrow> (Inl e, pj')
                 | (Inr replaced, pj') \<Rightarrow> (case set_config_version (bump_minor (rd_version current)) pj' of
                     Inl e \<Rightarrow> (Inl e, pj')
                   | Inr pj'' \<Rightarrow> remediate_loop build src s left'
                       (rounds @ [current\<lparr> rd_whole_types := whole, rd_sanitized := replaced \<rparr>]) pj'')))))"

declare remediate_loop.simps [simp del]

definition remediate :: "(project \<Rightarrow> remediation_error + passport) \<Rightarrow> source_of_values \<Rightarrow> remediation_settings
    \<Rightarrow> project \<Rightarrow> (remediation_error + round list) \<times> project" where
  "remediate build src s pj =
     (if pj_raw pj = None \<or> pj_train pj = None then (Inl MissingCorpus, pj)
      else remediate_loop build src s (rs_max_rounds s) [] pj)"

definition gate_passed :: "round list \<Rightarrow> bool" where
  "gate_passed rounds \<longleftrightarrow> rounds \<noteq> [] \<and> rd_verdict (last rounds) \<noteq> ''fail'' \<and> round_blocking (last rounds) = 0"

section \<open>The loop\<close>

lemma sanitize_round_frame:
  "sanitize_round src s p v whole pj = (Inr n, pj') \<Longrightarrow> pj_raw pj' = pj_raw pj \<and> pj_version pj' = pj_version pj
   \<and> pj_train pj' \<noteq> None \<and> (\<exists>train. pj_train pj = Some train \<and> pj_history pj' = AList.update (''train.v'' @ v @ ''.jsonl'') train (pj_history pj))"
  by (auto simp: sanitize_round_def Let_def split: option.splits sum.splits)

lemma remediate_loop_rounds:
  assumes "remediate_loop build src s left rounds pj = (Inr out, pj')"
  shows "\<exists>new. out = rounds @ new \<and> new \<noteq> [] \<and> length new \<le> Suc left \<and> list_all (\<lambda>r. \<not> gate_clear r) (butlast new)
    \<and> (gate_clear (last new) \<or> length new = Suc left) \<and> pj_raw pj' = pj_raw pj"
  using assms
proof (induction build src s left rounds pj rule: remediate_loop.induct)
  case (1 build src s left rounds pj)
  note run = 1(2) [unfolded remediate_loop.simps [of build src s left rounds pj]]
  obtain p current where p: "build pj = Inr p" "round_of p = Inr current"
    using run by (auto split: sum.splits)
  show ?case
  proof (cases "gate_clear current \<or> left = 0")
    case True
    with run p have "out = rounds @ [current]" "pj' = pj"
      by (auto split: nat.splits if_splits)
    with True show ?thesis by (intro exI [of _ "[current]"]) auto
  next
    case False
    then obtain left' where left: "left = Suc left'" by (cases left) auto
    let ?whole = "next_whole_types s rounds current"
    obtain replaced pj1 pj2 where steps: "sanitize_round src s p (rd_version current) ?whole pj = (Inr replaced, pj1)"
        "set_config_version (bump_minor (rd_version current)) pj1 = Inr pj2"
        "remediate_loop build src s left' (rounds @ [current\<lparr> rd_whole_types := ?whole, rd_sanitized := replaced \<rparr>]) pj2 = (Inr out, pj')"
      using run p False by (auto simp: left Let_def split: sum.splits prod.splits if_splits)
    let ?current = "current\<lparr> rd_whole_types := ?whole, rd_sanitized := replaced \<rparr>"
    obtain new where new: "out = (rounds @ [?current]) @ new" "new \<noteq> []" "length new \<le> Suc left'"
        "list_all (\<lambda>r. \<not> gate_clear r) (butlast new)" "gate_clear (last new) \<or> length new = Suc left'" "pj_raw pj' = pj_raw pj2"
      using 1(1) [OF p _ left refl steps(1) [symmetric] refl steps(2,3)] False by auto
    have raw: "pj_raw pj2 = pj_raw pj"
      using sanitize_round_frame [OF steps(1)] steps(2) by (auto simp: set_config_version_def split: option.splits)
    have "\<not> gate_clear ?current" using False by (simp add: gate_clear_def round_blocking_def)
    with new raw show ?thesis by (intro exI [of _ "?current # new"]) (auto simp: left)
  qed
qed

text \<open>
  C27. Remediation ends after at most \<open>max_rounds + 1\<close> builds: every round but the last failed the
  gate, the last one passed it or was the last allowed, and the original corpus is never changed.
\<close>

theorem remediate_stops_at_gate:
  assumes "remediate build src s pj = (Inr rounds, pj')"
  shows "1 \<le> length rounds \<and> length rounds \<le> Suc (rs_max_rounds s)
    \<and> list_all (\<lambda>r. \<not> gate_clear r) (butlast rounds)
    \<and> (gate_passed rounds \<or> length rounds = Suc (rs_max_rounds s))
    \<and> pj_raw pj' = pj_raw pj"
proof -
  have "remediate_loop build src s (rs_max_rounds s) [] pj = (Inr rounds, pj')"
    using assms by (simp add: remediate_def split: if_splits)
  from remediate_loop_rounds [OF this] show ?thesis
    by (auto simp: gate_passed_def gate_clear_def Suc_le_eq)
qed

section \<open>What a round must sanitize\<close>

lemma merge_targets_of:
  "distinct (map fst extra) \<Longrightarrow> targets_of (merge_targets found extra) i = targets_of found i \<union> targets_of extra i"
proof (induction extra arbitrary: found)
  case (Cons p extra)
  obtain k spans where p: "p = (k, spans)" by fastforce
  have "targets_of extra k = {}" if "k \<notin> fst ` set extra" using that by (simp add: targets_of_def map_of_eq_None_iff [THEN iffD2])
  with Cons p show ?case by (auto simp: merge_targets_def targets_of_add) (auto simp: targets_of_def)
qed (simp add: merge_targets_def)

lemma add_targets_distinct: "distinct (map fst d) \<Longrightarrow> distinct (map fst (add_targets k xs d))"
  by (simp add: add_targets_def distinct_update)

lemma risky_spans_distinct: "distinct (map fst (risky_spans audit records least always))"
proof -
  have fold: "distinct (map fst (foldl step d xs))"
    if "distinct (map fst d)" "\<And>d x. distinct (map fst d) \<Longrightarrow> distinct (map fst (step d x))" for step and d :: targets and xs :: "'x list"
    using that by (induction xs arbitrary: d) auto
  show ?thesis
    unfolding risky_spans_def Let_def
    by (auto intro!: fold add_targets_distinct split: option.splits)
qed

lemma risky_by_type:
  "r \<in> set records \<Longrightarrow> s \<in> set (cr_entities r) \<Longrightarrow> sp_type s \<in> set (map py_upper always)
   \<Longrightarrow> (sp_start s, sp_end s) \<in> targets_of (risky_spans audit records least always) (cr_id r)"
  unfolding risky_spans_in by blast

lemma risky_by_finding:
  "f \<in> set (ea_findings a) \<Longrightarrow> at_least (ef_severity f) least
   \<Longrightarrow> (fst (ef_span f), snd (ef_span f)) \<in> targets_of (risky_spans (Some a) records least always) (ef_record f)"
  unfolding risky_spans_in by (cases "ef_span f") auto

text \<open>
  A round of remediation targets, in the current training copy, every value that is still the
  original one and whose type is never to be trained on or to be replaced entirely, and every such
  value that a finding of the required severity names.
\<close>

theorem remediation_targets_complete:
  assumes "distinct (map cr_id raw)" "distinct (map cr_id train)" "r \<in> set raw" "copy \<in> set train"
    "cr_id copy = cr_id r" "length (cr_entities copy) = length (cr_entities r)"
    "(o1, n) \<in> set (zip (cr_entities r) (cr_entities copy))" "span_value copy n = span_value r o1"
    "sp_type o1 \<in> set (map py_upper always) \<or>
     (\<exists>f \<in> set (case audit of None \<Rightarrow> [] | Some a \<Rightarrow> ea_findings a). ef_record f = cr_id r \<and> at_least (ef_severity f) least
        \<and> sp_start o1 = fst (ef_span f) \<and> sp_end o1 = snd (ef_span f))"
  shows "(sp_start n, sp_end n) \<in> targets_of (remediation_targets audit raw train least always) (cr_id r)"
proof -
  let ?found = "merge_targets (risky_spans audit raw least []) (risky_spans None raw least always)"
  have "(sp_start o1, sp_end o1) \<in> targets_of (risky_spans audit raw least []) (cr_id r)
      \<union> targets_of (risky_spans None raw least always) (cr_id r)"
    using assms(9)
  proof
    assume "sp_type o1 \<in> set (map py_upper always)"
    then show ?thesis using risky_by_type [OF assms(3) set_zip_leftD [OF assms(7)]] by blast
  next
    assume "\<exists>f \<in> set (case audit of None \<Rightarrow> [] | Some a \<Rightarrow> ea_findings a). ef_record f = cr_id r \<and> at_least (ef_severity f) least
        \<and> sp_start o1 = fst (ef_span f) \<and> sp_end o1 = snd (ef_span f)"
    then show ?thesis using risky_by_finding by (cases audit) (auto, metis)
  qed
  then have "(sp_start o1, sp_end o1) \<in> targets_of ?found (cr_id r)"
    by (simp add: merge_targets_of risky_spans_distinct)
  with assms(7,8) show ?thesis
    unfolding remediation_targets_def translate_moves [OF assms(1-6)] by blast
qed

section \<open>Versions never repeat\<close>

definition semver_like :: "string \<Rightarrow> bool" where
  "semver_like v \<longleftrightarrow> 2 \<le> length (py_split (CHR ''.'') v) \<and> list_all is_digits (take 2 (py_split (CHR ''.'') v))"

definition minor_of :: "string \<Rightarrow> nat" where
  "minor_of v = digits_value (py_split (CHR ''.'') v ! 1)"

lemma is_digits_nat_str: "is_digits (nat_str n)"
  using nat_str_digits by (auto simp: is_digits_def list_all_iff)

lemma digits_no_dot: "is_digits p \<Longrightarrow> CHR ''.'' \<notin> set p"
  by (auto simp: is_digits_def list_all_iff is_digit_def less_eq_char_def)

lemma bump_minor_semver:
  assumes "semver_like v"
  shows "semver_like (bump_minor v) \<and> minor_of (bump_minor v) = Suc (minor_of v)
    \<and> hd (py_split (CHR ''.'') (bump_minor v)) = hd (py_split (CHR ''.'') v)"
proof -
  obtain a b rest where parts: "py_split (CHR ''.'') v = a # b # rest" "is_digits a" "is_digits b"
    using assms by (cases "py_split (CHR ''.'') v"; cases "tl (py_split (CHR ''.'') v)") (auto simp: semver_like_def)
  let ?new = "[a, nat_str (digits_value b + 1)] @ replicate (max (length rest) 1) ''0''"
  have v': "bump_minor v = py_join ''.'' ?new"
    using parts by (simp add: bump_minor_def Let_def)
  have "list_all (\<lambda>p. CHR ''.'' \<notin> set p) ?new"
    using digits_no_dot [OF parts(2)] digits_no_dot [OF is_digits_nat_str] by (simp add: list_all_iff)
  then have "py_split (CHR ''.'') (bump_minor v) = ?new"
    unfolding v' by (intro py_split_join) (auto simp: list_all_iff)
  then show ?thesis using parts is_digits_nat_str by (simp add: semver_like_def minor_of_def)
qed

lemma bump_minor_other: "\<not> semver_like v \<Longrightarrow> bump_minor v = v @ ''.1''"
  by (auto simp: bump_minor_def semver_like_def Let_def)

text \<open>Once a version looks like one, its minor number counts the bumps; before that, its length does.\<close>

lemma bumps_semver: "semver_like v \<Longrightarrow> semver_like ((bump_minor ^^ k) v) \<and> minor_of ((bump_minor ^^ k) v) = minor_of v + k"
  by (induction k) (auto simp: bump_minor_semver)

lemma bumps_other: "\<not> semver_like ((bump_minor ^^ k) v) \<Longrightarrow> \<not> semver_like v \<and> length ((bump_minor ^^ k) v) = length v + 2 * k"
proof (induction k)
  case (Suc k)
  then have "\<not> semver_like ((bump_minor ^^ k) v)" using bump_minor_semver by auto
  with Suc bump_minor_other show ?case by auto
qed simp

text \<open>Bumping a version, however often, never gives a version that was there before.\<close>

theorem bumped_versions_distinct:
  assumes "0 < k"
  shows "(bump_minor ^^ k) v \<noteq> v"
proof
  assume eq: "(bump_minor ^^ k) v = v"
  show False
  proof (cases "semver_like v")
    case True
    with bumps_semver [OF True, of k] eq assms show False by simp
  next
    case False
    with bumps_other [of k v] eq assms show False by simp
  qed
qed

section \<open>Examples\<close>

theorem bumped_versions_distinct_witness: "(bump_minor ^^ 1) ''1.0.0'' \<noteq> ''1.0.0''"
  by (rule bumped_versions_distinct) simp

definition quiet_audit :: entity_audit_result where
  "quiet_audit = \<lparr> ea_model = [], ea_access = [], ea_primary_method = [], ea_methods = [], ea_references = 0,
     ea_entities_audited = 1, ea_controls = 0, ea_auc = None, ea_tpr_at_fpr = [], ea_metrics = [],
     ea_severity_counts = [], ea_findings = [], ea_fdr = 0, ea_calibration = [], ea_holdout_entities = 0,
     ea_holdout_auc = None, ea_control_shift_auc = None, ea_taxonomy = [] \<rparr>"

definition example_passport :: passport where
  "example_passport = \<lparr> pp_schema_version = [],
     pp_identity = \<lparr> id_passport_id = ''p'', id_model_name = ''m'', id_version = ''1.0.0'', id_created_at = [],
       id_merkle_root = [], id_public_key_fingerprint = [], id_signature = None \<rparr>,
     pp_artifacts = [], pp_model = None, pp_datasets = [], pp_pipeline = [], pp_run = None, pp_environment = None,
     pp_metrics = [],
     pp_privacy_report = Some \<lparr> pr_datasets_scanned = [], pr_data_findings = [], pr_reidentification = [],
       pr_leakage = None, pr_entity_audit = Some quiet_audit \<rparr>,
     pp_security_report = None, pp_policy = None,
     pp_declared = \<lparr> de_intended_use = None, de_out_of_scope_uses = [], de_known_limitations = [], de_ethical_risks = [],
       de_owner = None, de_contact = None \<rparr>,
     pp_lineage_links = [], pp_revision = None, pp_events = [] \<rparr>"

definition example_project :: project where
  "example_project = \<lparr> pj_raw = Some [example_record], pj_train = Some [example_record], pj_history = [], pj_version = Some ''1.0.0'' \<rparr>"

theorem remediate_stops_at_gate_witness:
  "\<exists>rounds pj'. remediate (\<lambda>_. Inr example_passport) example_source default_remediation example_project = (Inr rounds, pj')
    \<and> length rounds \<le> 4"
proof -
  obtain current where c: "round_of example_passport = Inr current" "gate_clear current"
    by (simp add: round_of_def passport_audit_def example_passport_def quiet_audit_def gate_clear_def round_blocking_def count_of_def)
  then have run: "remediate (\<lambda>_. Inr example_passport) example_source default_remediation example_project = (Inr [current], example_project)"
    by (simp add: remediate_def remediate_loop.simps example_project_def)
  from remediate_stops_at_gate [OF run] run show ?thesis by (intro exI conjI) (auto simp: default_remediation_def)
qed

theorem remediation_targets_complete_witness:
  "(0, 3) \<in> targets_of (remediation_targets None [example_record] [example_record] MEDIUM [''email'']) ''1''"
proof -
  let ?s = "\<lparr> sp_start = 0, sp_end = 3, sp_type = ''EMAIL'' \<rparr>"
  have "''EMAIL'' = py_upper ''email''" by code_simp
  with remediation_targets_complete [of "[example_record]" "[example_record]" example_record example_record ?s ?s "[''email'']" None MEDIUM]
  show ?thesis by (simp add: example_record_def)
qed

end
