(* ===== verification/MP_Worker.thy ===== *)
theory MP_Worker
  imports MP_GuardProps MP_Policy MP_Remediate
begin

text \<open>
  The background workers (\<^verbatim>\<open>platform/worker.py\<close>) and the attestations they issue
  (\<^verbatim>\<open>platform/attest.py\<close>). The heavy work is a parameter, the fields of a \<open>pipeline\<close>: fine-tuning a
  corpus into a packed checkpoint with its digest, and auditing a model against a corpus. What the code
  does around it, sanitizing corpora, reading and writing rows and objects, deciding by the gate and
  moving versions, is modelled in full.
\<close>

section \<open>Parameters\<close>

datatype model_spec = PackedModel bytes | BaseSpec string

record pipeline =
  pl_finetune :: "bytes \<Rightarrow> string \<Rightarrow> exn + (bytes \<times> string \<times> rat list)"     \<comment> \<open>corpus, base: archive, digest, losses\<close>
  pl_audit :: "model_spec \<Rightarrow> bytes \<Rightarrow> bytes \<Rightarrow> bool \<Rightarrow> exn + entity_audit_result"  \<comment> \<open>model, corpus, key, holdout used\<close>
  pl_render :: "json dict \<Rightarrow> bytes \<times> bytes"                                \<comment> \<open>the report as JSON and HTML\<close>

text \<open>PEM encoding, \<^verbatim>\<open>model_dump(mode="json")\<close> and \<^verbatim>\<open>isoformat\<close>.\<close>

record dumper =
  du_pem :: "bytes \<Rightarrow> bytes"
  du_public_pem :: "bytes \<Rightarrow> string"
  du_load_pem :: "bytes \<Rightarrow> bytes option"         \<comment> \<open>None: not an Ed25519 key\<close>
  du_audit :: "entity_audit_result \<Rightarrow> json dict"
  du_gate :: "policy_result \<Rightarrow> json"
  du_isoformat :: "int \<Rightarrow> string"
  du_float :: "rat \<Rightarrow> string"                     \<comment> \<open>\<open>repr\<close>\<close>

record worker_env =
  wk_crypto :: crypto
  wk_lib :: seclib
  wk_master_key :: bytes
  wk_name :: string
  wk_pipeline :: pipeline
  wk_dumper :: dumper
  wk_matcher :: matcher
  wk_codec :: text_codec
  wk_values :: source_of_values
  wk_report :: "database \<Rightarrow> tenant \<Rightarrow> model \<Rightarrow> json dict"
  wk_stamp :: "json dict \<Rightarrow> string"                \<comment> \<open>\<open>report["generated_at"]\<close> without colons\<close>

definition WORKER :: who where
  "WORKER = \<lparr> wh_actor = SYSTEM, wh_role = None, wh_super_admin = False, wh_system = True \<rparr>"

section \<open>Attestations\<close>

definition KEY_OBJECT :: string where "KEY_OBJECT = ''keys/signing-key.pem''"

definition ATTEST_KIND :: string where "ATTEST_KIND = ''mp.version-attestation/v1''"

definition signing_key :: "worker_env \<Rightarrow> tenant \<Rightarrow> tenant_store \<Rightarrow> bytes M" where
  "signing_key wk tn files =
     bnd (try_with (bnd (ts_get (wk_lib wk) files KEY_OBJECT) (\<lambda>pem. ret (Some pem)))
           (\<lambda>e. case e of StorageError _ \<Rightarrow> Some (ret None) | _ \<Rightarrow> None))
     (\<lambda>found. case found of
        Some pem \<Rightarrow> (case du_load_pem (wk_dumper wk) pem of
            None \<Rightarrow> raise (AttestationError ''tenant signing key is not Ed25519'') | Some k \<Rightarrow> ret k)
      | None \<Rightarrow> bnd (urandom KEY_BYTES) (\<lambda>k.
          andthen (ts_put (wk_lib wk) files KEY_OBJECT (du_pem (wk_dumper wk) k))
          (andthen (set_tenant (tn_id tn) (\<lambda>r. r\<lparr> tn_public_key :=
              Some (du_public_pem (wk_dumper wk) (c_public (wk_crypto wk) k)) \<rparr>))
          (ret k))))"

definition dataset_doc :: "dataset option \<Rightarrow> json" where
  "dataset_doc d = (case d of None \<Rightarrow> JNull
     | Some d \<Rightarrow> JObj [(''name'', JStr (ds_name d)), (''sha256'', JStr (ds_sha256 d)),
         (''records'', JInt (int (ds_records d))), (''source'', JStr (ds_source d)),
         (''license'', JStr (ds_license d)), (''consent'', JStr (ds_consent d))])"

definition load_dataset :: "database \<Rightarrow> string option \<Rightarrow> dataset option" where
  "load_dataset db i = (case i of None \<Rightarrow> None
     | Some i \<Rightarrow> if i = [] then None else first_row (\<lambda>d. ds_id d = i) (db_datasets db))"

definition find_version :: "database \<Rightarrow> string option \<Rightarrow> model_version option" where
  "find_version db i = (case i of None \<Rightarrow> None
     | Some i \<Rightarrow> if i = [] then None else first_row (\<lambda>v. mv_id v = i) (db_versions db))"

definition audit_summary :: "json dict \<Rightarrow> json" where
  "audit_summary audit = JObj (map (\<lambda>k. (k, case map_of audit k of None \<Rightarrow> JNull | Some v \<Rightarrow> v))
     [''model'', ''access'', ''primary_method'', ''entities_audited'', ''auc'', ''tpr_at_fpr'',
      ''severity_counts'', ''taxonomy''])"

definition attestation_body :: "worker_env \<Rightarrow> database \<Rightarrow> tenant \<Rightarrow> model \<Rightarrow> model_version \<Rightarrow> policy_result option
    \<Rightarrow> bytes \<Rightarrow> int \<Rightarrow> json dict" where
  "attestation_body wk db tn m v gate key issued =
     [(''type'', JStr ATTEST_KIND), (''tenant'', JStr (tn_slug tn)), (''model'', JStr (md_name m)),
      (''access'', JStr (access_value (md_access m))), (''base'', JStr (md_base m)),
      (''version'', JStr (mv_version v)), (''version_id'', JStr (mv_id v)),
      (''state'', JStr (state_value (mv_state v))), (''issued_at'', JStr (du_isoformat (wk_dumper wk) issued)),
      (''artifact_sha256'', json_opt (mv_artifact_sha256 v)),
      (''training_data'', dataset_doc (load_dataset db (mv_dataset_id v))),
      (''reference_data'', dataset_doc (load_dataset db (mv_reference_dataset_id v))),
      (''parent'', (case find_version db (mv_parent_id v) of
          None \<Rightarrow> JNull
        | Some p \<Rightarrow> JObj [(''version'', JStr (mv_version p)),
                     (''attestation_sha256'', json_opt (mv_attestation_sha256 p))])),
      (''audit'', audit_summary (case mv_audit v of None \<Rightarrow> [] | Some a \<Rightarrow> du_audit (wk_dumper wk) a)),
      (''gate'', (case gate of None \<Rightarrow> JNull | Some g \<Rightarrow> du_gate (wk_dumper wk) g)),
      (''audit_log_head'', (case last_event db (tn_id tn) of
          None \<Rightarrow> JNull | Some e \<Rightarrow> JObj [(''seq'', JInt (ae_seq e)), (''hash'', JStr (ae_hash e))])),
      (''public_key_fingerprint'', JStr (public_key_fingerprint (wk_crypto wk) (c_public (wk_crypto wk) key)))]"

definition sign_document :: "crypto \<Rightarrow> bytes \<Rightarrow> json dict \<Rightarrow> exn + json dict" where
  "sign_document c key body = (case canonical_json (JObj body) of
      None \<Rightarrow> Inl (ValueError ''out of range float values'')
    | Some m \<Rightarrow> Inr (body @ [(''signature'', JStr (sign c key m))]))"

definition the_version_model :: "model_version \<Rightarrow> model M" where
  "the_version_model v = bnd (db_gets (\<lambda>db. first_row (\<lambda>m. md_id m = mv_model_id v) (db_models db))) (\<lambda>found.
     case found of None \<Rightarrow> raise (KeyError ''model'') | Some m \<Rightarrow> ret m)"

definition attest :: "worker_env \<Rightarrow> tenant \<Rightarrow> tenant_store \<Rightarrow> model_version \<Rightarrow> policy_result option \<Rightarrow> json dict M" where
  "attest wk tn files v gate =
     bnd (signing_key wk tn files) (\<lambda>key. bnd (the_version_model v) (\<lambda>m. bnd now (\<lambda>issued.
     bnd (db_gets (\<lambda>db. attestation_body wk db tn m v gate key issued)) (\<lambda>body.
     bnd (of_result (sign_document (wk_crypto wk) key body)) (\<lambda>document.
     let digest = map_option (sha256_bytes (wk_crypto wk)) (canonical_json (JObj document)) in
     andthen (set_version (mv_id v) (\<lambda>r. r\<lparr> mv_attestation := Some document, mv_attestation_sha256 := digest \<rparr>))
     (andthen (record_event (wk_crypto wk) (tn_id tn) SYSTEM ''version.attested'' ''model_version'' (mv_id v)
         [(''sha256'', json_opt digest)])
     (ret document)))))))"

text \<open>\<open>key\<close> is the loaded public key; \<open>None\<close> where the PEM holds another kind of key.\<close>

definition attest_verify :: "crypto \<Rightarrow> json dict \<Rightarrow> bytes option \<Rightarrow> exn + bool" where
  "attest_verify c document key = (case key of
      None \<Rightarrow> Inr False
    | Some pk \<Rightarrow> (case map_of document ''signature'' of
          Some (JStr s) \<Rightarrow> (case canonical_json (JObj (AList.delete ''signature'' document)) of
              None \<Rightarrow> Inl (ValueError ''out of range float values'')
            | Some m \<Rightarrow> Inr (verify_signature c pk m s))
        | _ \<Rightarrow> Inr False))"

section \<open>Handlers\<close>

definition payload_version :: "job \<Rightarrow> string M" where
  "payload_version j = (case map_of (jb_payload j) ''version'' of
      Some (JStr s) \<Rightarrow> ret s | _ \<Rightarrow> raise (KeyError ''version''))"

definition job_version :: "job \<Rightarrow> model_version M" where
  "job_version j = bnd (payload_version j) (\<lambda>i. get_version (jb_tenant_id j) i)"

definition job_tenant :: "job \<Rightarrow> tenant M" where
  "job_tenant j = bnd (db_gets (\<lambda>db. first_row (\<lambda>t. tn_id t = jb_tenant_id j) (db_tenants db))) (\<lambda>found.
     case found of None \<Rightarrow> raise (AssertionError ''tenant'') | Some t \<Rightarrow> ret t)"

definition find_dataset :: "string option \<Rightarrow> dataset option M" where
  "find_dataset i = db_gets (\<lambda>db. first_row (\<lambda>d. ds_id d = (case i of None \<Rightarrow> [] | Some s \<Rightarrow> s)) (db_datasets db))"

definition worker_files :: "worker_env \<Rightarrow> tenant \<Rightarrow> tenant_store M" where
  "worker_files wk tn = open_tenant_store (wk_lib wk) (wk_master_key wk) tn"

definition model_spec_of :: "worker_env \<Rightarrow> tenant_store \<Rightarrow> model_version \<Rightarrow> model \<Rightarrow> model_spec M" where
  "model_spec_of wk files v m =
     (if mv_artifact_key v \<noteq> None \<and> mv_artifact_key v \<noteq> Some []
      then bnd (ts_get (wk_lib wk) files (the (mv_artifact_key v))) (\<lambda>data. ret (PackedModel data))
      else if md_base m = ''tiny'' then raise (JobFailed ''a tiny demo model must be trained before it can be audited'')
      else ret (BaseSpec (md_base m)))"

definition store_model :: "worker_env \<Rightarrow> tenant_store \<Rightarrow> bytes \<Rightarrow> string \<Rightarrow> (string \<times> string) M" where
  "store_model wk files archive digest =
     (let key = ''models/'' @ digest @ ''.tar.gz'' in
      andthen (ts_put (wk_lib wk) files key archive) (ret (key, digest)))"

definition truthy_member :: "json dict \<Rightarrow> string \<Rightarrow> bool" where
  "truthy_member d k = (case map_of d k of None \<Rightarrow> False | Some v \<Rightarrow> \<not> json_falsy v)"

definition train_job :: "worker_env \<Rightarrow> job \<Rightarrow> json dict M" where
  "train_job wk j =
     bnd (scoped_session
       (bnd (job_version j) (\<lambda>v. bnd (job_tenant j) (\<lambda>tn. bnd (the_version_model v) (\<lambda>m.
        andthen (raise_if (md_access m \<noteq> OPEN_WEIGHT) (JobFailed ''only open-weight models can be trained on the platform''))
        (bnd (db_gets (\<lambda>db. load_dataset db (mv_dataset_id v))) (\<lambda>found. case found of
           None \<Rightarrow> raise (JobFailed ''the version has no training data'')
         | Some d \<Rightarrow> bnd (worker_files wk tn) (\<lambda>files. bnd (ts_get (wk_lib wk) files (ds_object_key d)) (\<lambda>corpus.
             ret (files, corpus, md_base m)))))))))) (\<lambda>(files, corpus, base).
     bnd (of_result (pl_finetune (wk_pipeline wk) corpus base)) (\<lambda>(archive, digest, losses).
     bnd (scoped_session
       (bnd (job_version j) (\<lambda>v. bnd (store_model wk files archive digest) (\<lambda>(key, sha).
        andthen (set_version (mv_id v) (\<lambda>r. r\<lparr> mv_artifact_key := Some key, mv_artifact_sha256 := Some sha \<rparr>))
        (andthen (if truthy_member (jb_payload j) ''then_audit''
          then andthen (move (wk_crypto wk) (v\<lparr> mv_artifact_key := Some key, mv_artifact_sha256 := Some sha \<rparr>) AUDITING WORKER ''trained; auditing'')
               (andthen (enqueue (wk_crypto wk) (jb_tenant_id j) ''audit'' [(''version'', JStr (mv_id v))] SYSTEM 3) (ret ()))
          else ret ())
        (ret sha)))))) (\<lambda>sha.
     ret [(''loss'', JArr (map (\<lambda>h. JFloat (du_float (wk_dumper wk) (round_digits 4 h))) losses)),
          (''artifact_sha256'', JStr sha)])))"

definition with_audit :: "entity_audit_result \<Rightarrow> policy_result \<Rightarrow> model_version \<Rightarrow> model_version" where
  "with_audit result verdict v = v\<lparr> mv_audit := Some result, mv_auc := ea_auc result,
     mv_critical := severity_count result CRITICAL, mv_high := severity_count result HIGH,
     mv_verdict := Some (verdict_value (po_verdict verdict)) \<rparr>"

definition audit_target :: "policy_result \<Rightarrow> model_version \<Rightarrow> vstate" where
  "audit_target verdict v = (if blocking verdict \<or> 0 < mv_critical v + mv_high v then FINDINGS else CLEAN)"

definition policy_result_exn :: "policy_exn + policy_result \<Rightarrow> exn + policy_result" where
  "policy_result_exn r = (case r of Inl _ \<Rightarrow> Inl (ValueError ''policy'') | Inr x \<Rightarrow> Inr x)"

definition record_audit :: "worker_env \<Rightarrow> job \<Rightarrow> entity_audit_result \<Rightarrow> policy_result \<Rightarrow> unit M" where
  "record_audit wk j result verdict =
     bnd (job_version j) (\<lambda>v0. bnd (job_tenant j) (\<lambda>tn.
     let v = with_audit result verdict v0 in
     andthen (set_version (mv_id v0) (with_audit result verdict))
     (bnd (move (wk_crypto wk) v (audit_target verdict v) WORKER (''gate verdict '' @ verdict_value (po_verdict verdict))) (\<lambda>v'.
      bnd (worker_files wk tn) (\<lambda>files.
      andthen (attest wk tn files v' (Some verdict)) (ret ()))))))"

definition audit_job :: "worker_env \<Rightarrow> job \<Rightarrow> json dict M" where
  "audit_job wk j =
     bnd (scoped_session
       (bnd (job_version j) (\<lambda>v. bnd (job_tenant j) (\<lambda>tn. bnd (find_dataset (mv_reference_dataset_id v)) (\<lambda>found.
        case found of
          None \<Rightarrow> raise (JobFailed ''the version has no reference dataset to audit against'')
        | Some d \<Rightarrow> bnd (worker_files wk tn) (\<lambda>files. bnd (ts_get (wk_lib wk) files (ds_object_key d)) (\<lambda>corpus.
            bnd (the_version_model v) (\<lambda>m. bnd (model_spec_of wk files v m) (\<lambda>spec. bnd (data_key (wk_lib wk) (wk_master_key wk) tn) (\<lambda>key.
            ret (spec, corpus, mv_artifact_key v \<noteq> None, fingerprint_key (wk_crypto wk) key)))))))))))
     (\<lambda>(spec, corpus, trained_here, key).
     bnd (of_result (pl_audit (wk_pipeline wk) spec corpus key trained_here)) (\<lambda>result.
     bnd (of_result (policy_result_exn (gate_check (wk_crypto wk) result None))) (\<lambda>verdict.
     andthen (scoped_session (record_audit wk j result verdict))
     (ret [(''verdict'', JStr (verdict_value (po_verdict verdict))),
           (''auc'', (case ea_auc result of None \<Rightarrow> JNull | Some a \<Rightarrow> JFloat (du_float (wk_dumper wk) a))),
           (''severity_counts'', JObj (map (\<lambda>(k, n). (k, JInt n)) (ea_severity_counts result)))]))))"

definition whole_types :: "database \<Rightarrow> model_version \<Rightarrow> entity_audit_result \<Rightarrow> string list" where
  "whole_types db v audit =
     (let risky = (\<lambda>a. map ef_entity_type (filter (\<lambda>f. ef_severity f = HIGH \<or> ef_severity f = CRITICAL) (ea_findings a)))
      in case Option.bind (find_version db (mv_parent_id v)) mv_audit of
           None \<Rightarrow> []
         | Some earlier \<Rightarrow> sorted_set (filter (\<lambda>t. t \<in> set (risky earlier)) (risky audit)))"

definition ALWAYS_SANITIZE :: "string list" where
  "ALWAYS_SANITIZE = [''SSN'', ''CREDITCARDNUMBER'']"

text \<open>Corpora are JSONL files: their records, and the file that holds given records.\<close>

definition corpus_records :: "worker_env \<Rightarrow> bytes \<Rightarrow> exn + corpus_record list" where
  "corpus_records wk content = (case load_corpus (wk_matcher wk) (wk_codec wk) ''.jsonl'' True (py_split (CHR 0x0A) content) of
      Inl _ \<Rightarrow> Inl (ValueError ''not a corpus'') | Inr rs \<Rightarrow> Inr rs)"

definition corpus_bytes :: "worker_env \<Rightarrow> corpus_record list \<Rightarrow> bytes" where
  "corpus_bytes wk rs = concat (map (\<lambda>l. l @ [CHR 0x0A]) (write_corpus (wk_codec wk) rs))"

definition corpus_counts :: "worker_env \<Rightarrow> corpus_reader" where
  "corpus_counts wk content = (case corpus_records wk content of
      Inl _ \<Rightarrow> None | Inr rs \<Rightarrow> Some (map (\<lambda>r. length (cr_entities r)) rs))"

definition sanitize_training :: "worker_env \<Rightarrow> entity_audit_result \<Rightarrow> string list \<Rightarrow> bytes \<Rightarrow> bytes \<Rightarrow> exn + bytes \<times> counter" where
  "sanitize_training wk audit whole raw_content train_content =
     (case corpus_records wk raw_content of
        Inl e \<Rightarrow> Inl e
      | Inr raw \<Rightarrow> (case corpus_records wk train_content of
          Inl e \<Rightarrow> Inl e
        | Inr train \<Rightarrow> (case sanitize (wk_values wk) train
              (remediation_targets (Some audit) raw train MEDIUM (ALWAYS_SANITIZE @ whole)) ''surrogate'' of
            Inl _ \<Rightarrow> Inl (ValueError ''strategy'')
          | Inr (cleaned, report) \<Rightarrow> Inr (corpus_bytes wk cleaned, sr_replaced report))))"

definition replace_version :: "worker_env \<Rightarrow> job \<Rightarrow> dataset \<Rightarrow> string \<Rightarrow> bytes \<Rightarrow> bytes \<Rightarrow> string \<Rightarrow> unit M" where
  "replace_version wk j training next_version sanitized archive digest =
     bnd (job_version j) (\<lambda>v. bnd (job_tenant j) (\<lambda>tn. bnd (worker_files wk tn) (\<lambda>files.
     bnd (add_dataset (wk_crypto wk) (wk_lib wk) (corpus_counts wk) files tn (ds_name training @ ''-v'' @ next_version) sanitized
       \<lparr> pv_source = ''sanitized from '' @ ds_name training @ '' for v'' @ next_version,
         pv_license = ds_license training, pv_consent = ds_consent training \<rparr> SYSTEM) (\<lambda>d.
     bnd (find_dataset (mv_reference_dataset_id v)) (\<lambda>found. case found of
       None \<Rightarrow> raise (AssertionError ''reference'')
     | Some reference \<Rightarrow>
         bnd (the_version_model v) (\<lambda>m. bnd (store_model wk files archive digest) (\<lambda>artifact.
         bnd (register_version (wk_crypto wk) m next_version (Some d) reference SYSTEM (Some artifact) (Some v)) (\<lambda>successor.
         andthen (move (wk_crypto wk) v SUPERSEDED WORKER (''replaced by v'' @ next_version))
         (andthen (move (wk_crypto wk) successor AUDITING WORKER ''remediated; auditing'')
         (andthen (enqueue (wk_crypto wk) (jb_tenant_id j) ''audit'' [(''version'', JStr (mv_id successor))] SYSTEM 3)
         (ret ())))))))))))"

definition remediate_job :: "worker_env \<Rightarrow> job \<Rightarrow> json dict M" where
  "remediate_job wk j =
     bnd (scoped_session
       (bnd (job_version j) (\<lambda>v. bnd (job_tenant j) (\<lambda>tn. bnd (the_version_model v) (\<lambda>m.
        andthen (raise_if (md_access m \<noteq> OPEN_WEIGHT) (JobFailed ''API models cannot be retrained here''))
        (case mv_audit v of
           None \<Rightarrow> raise (JobFailed ''audit the version before remediating it'')
         | Some audit \<Rightarrow> bnd (find_dataset (mv_dataset_id v)) (\<lambda>training0. bnd (find_dataset (mv_reference_dataset_id v)) (\<lambda>reference0.
             case (training0, reference0) of
               (Some training, Some reference) \<Rightarrow>
                 bnd (worker_files wk tn) (\<lambda>files. bnd (db_gets (\<lambda>db. whole_types db v audit)) (\<lambda>whole.
                 bnd (ts_get (wk_lib wk) files (ds_object_key training)) (\<lambda>train. bnd (ts_get (wk_lib wk) files (ds_object_key reference)) (\<lambda>raw.
                 ret (audit, whole, train, raw, md_base m, bump_minor (mv_version v), training)))))
             | _ \<Rightarrow> raise (JobFailed ''the version needs training and reference datasets'')))))))))
     (\<lambda>(audit, whole, train, raw, base, next_version, training).
     bnd (of_result (sanitize_training wk audit whole raw train)) (\<lambda>(sanitized, replaced).
     bnd (of_result (pl_finetune (wk_pipeline wk) sanitized base)) (\<lambda>(archive, digest, _).
     andthen (scoped_session (replace_version wk j training next_version sanitized archive digest))
     (ret [(''successor'', JStr next_version),
           (''sanitized'', JObj (map (\<lambda>(k, n). (k, JInt (int n))) replaced)),
           (''whole_types'', JArr (map JStr whole))]))))"

definition report_job :: "worker_env \<Rightarrow> job \<Rightarrow> json dict M" where
  "report_job wk j = scoped_session
     (bnd (case map_of (jb_payload j) ''model'' of Some (JStr s) \<Rightarrow> ret s | _ \<Rightarrow> raise (KeyError ''model'')) (\<lambda>i.
      bnd (get_model (jb_tenant_id j) i) (\<lambda>m. bnd (job_tenant j) (\<lambda>tn.
      bnd (db_gets (\<lambda>db. wk_report wk db tn m)) (\<lambda>report. bnd (worker_files wk tn) (\<lambda>files.
      let base = ''reports/'' @ md_id m @ ''/'' @ wk_stamp wk report;
          (js, html) = pl_render (wk_pipeline wk) report in
      andthen (ts_put (wk_lib wk) files (base @ ''.json'') js)
      (andthen (ts_put (wk_lib wk) files (base @ ''.html'') html)
      (ret [(''json'', JStr (base @ ''.json'')), (''html'', JStr (base @ ''.html''))]))))))))"

definition HANDLERS :: "worker_env \<Rightarrow> job \<Rightarrow> json dict M" where
  "HANDLERS wk j = (if jb_kind j = ''train'' then train_job wk j
     else if jb_kind j = ''audit'' then audit_job wk j
     else if jb_kind j = ''remediate'' then remediate_job wk j
     else if jb_kind j = ''report'' then report_job wk j
     else raise (KeyError (jb_kind j)))"

definition RECOVERY :: "(string \<times> vstate) list" where
  "RECOVERY = [(''audit'', REGISTERED), (''remediate'', FINDINGS)]"

definition recover :: "worker_env \<Rightarrow> job \<Rightarrow> unit M" where
  "recover wk j = (case (map_of RECOVERY (jb_kind j), map_of (jb_payload j) ''version'') of
      (Some recovery, Some p) \<Rightarrow> scoped_session
        (bnd (db_gets (\<lambda>db. case p of JStr i \<Rightarrow> first_row (\<lambda>v. mv_id v = i) (db_versions db) | _ \<Rightarrow> None)) (\<lambda>found.
         case found of
           None \<Rightarrow> ret ()
         | Some v \<Rightarrow> if map_of TRANSITIONS (mv_state v, recovery) \<noteq> None
             then andthen (move (wk_crypto wk) v recovery WORKER (jb_kind j @ '' job failed'')) (ret ())
             else ret ()))
    | _ \<Rightarrow> ret ())"

definition the_job :: "string \<Rightarrow> job M" where
  "the_job i = bnd (db_gets (\<lambda>db. first_row (\<lambda>j. jb_id j = i) (db_jobs db))) (\<lambda>found.
     case found of None \<Rightarrow> raise (AssertionError ''job'') | Some j \<Rightarrow> ret j)"

text \<open>\<open>message\<close> renders an exception with its traceback.\<close>

definition run_once :: "worker_env \<Rightarrow> (exn \<Rightarrow> string) \<Rightarrow> bool M" where
  "run_once wk message =
     bnd (scoped_session (claim (wk_crypto wk) (wk_name wk) KINDS)) (\<lambda>found. case found of
       None \<Rightarrow> ret False
     | Some j \<Rightarrow>
         bnd (try_with (bnd (HANDLERS wk j) (\<lambda>r. ret (Inr r))) (\<lambda>e. Some (ret (Inl e)))) (\<lambda>outcome. case outcome of
           Inr result \<Rightarrow>
             andthen (scoped_session (bnd (the_job (jb_id j)) (\<lambda>row. finish (wk_crypto wk) row result))) (ret True)
         | Inl e \<Rightarrow>
             bnd (scoped_session (bnd (the_job (jb_id j)) (\<lambda>row.
               andthen (fail (wk_crypto wk) row (message e)) (ret (\<not> will_retry row))))) (\<lambda>final.
             andthen (if final then recover wk j else ret ()) (ret True))))"

text \<open>\<^verbatim>\<open>while count < limit and run_once(ctx)\<close>: the answer is how many jobs ran.\<close>

primrec drain :: "worker_env \<Rightarrow> (exn \<Rightarrow> string) \<Rightarrow> nat \<Rightarrow> nat M" where
  "drain wk message 0 = ret 0"
| "drain wk message (Suc limit) = bnd (run_once wk message) (\<lambda>more.
     if more then bnd (drain wk message limit) (\<lambda>n. ret (Suc n)) else ret 0)"

end
