(* ===== verification/MP_Verifier.thy ===== *)
theory MP_Verifier
  imports MP_Identity MP_Chain
begin

text \<open>
  Lifecycle events (\<^verbatim>\<open>core/events.py\<close>) and passport verification (\<^verbatim>\<open>core/verifier.py\<close>). A stored
  passport is the member list of its JSON object, as the code keeps it. \<^verbatim>\<open>Passport.model_validate\<close>
  (pydantic) is a parameter that reads the JSON into the schema's record or fails. A result
  \<open>None\<close> is an exception the code lets escape (\<^verbatim>\<open>canonical_json\<close> on a NaN, an event that is not an
  object).
\<close>

section \<open>Events\<close>

definition event_body :: "json dict \<Rightarrow> bytes option" where
  "event_body event = canonical_json (JObj (AList.update ''signature'' JNull event))"

definition anchor_hash :: "crypto \<Rightarrow> json dict \<Rightarrow> string option" where
  "anchor_hash c passport = map_option (sha256_bytes c) (signing_payload passport)"

definition event_hash :: "crypto \<Rightarrow> json \<Rightarrow> string option" where
  "event_hash c event = map_option (sha256_bytes c) (canonical_json event)"

text \<open>\<^verbatim>\<open>passport.get("events") or []\<close>, where only a list can be read on.\<close>

definition events_of :: "json dict \<Rightarrow> json list option" where
  "events_of passport = (case map_of passport ''events'' of
     None \<Rightarrow> Some []
   | Some (JArr es) \<Rightarrow> Some es
   | Some j \<Rightarrow> if json_falsy j then Some [] else None)"

definition next_prev_hash :: "crypto \<Rightarrow> json dict \<Rightarrow> string option" where
  "next_prev_hash c passport = (case events_of passport of
     None \<Rightarrow> None
   | Some es \<Rightarrow> if es \<noteq> [] then event_hash c (last es) else anchor_hash c passport)"

text \<open>
  \<open>event_id\<close> and \<open>timestamp\<close> are what \<^verbatim>\<open>uuid4\<close> and \<^verbatim>\<open>utc_now\<close> gave. The answer is the event and the
  passport it was appended to.
\<close>

definition new_event :: "string \<Rightarrow> json dict \<Rightarrow> string \<Rightarrow> string \<Rightarrow> string \<Rightarrow> json dict" where
  "new_event event_type payload prev event_id timestamp =
     [(''event_id'', JStr event_id), (''event_type'', JStr event_type),
      (''timestamp'', JStr timestamp), (''payload'', JObj payload),
      (''prev_event_sha256'', JStr prev), (''signature'', JNull)]"

definition append_event ::
    "crypto \<Rightarrow> json dict \<Rightarrow> string \<Rightarrow> json dict \<Rightarrow> bytes \<Rightarrow> string \<Rightarrow> string \<Rightarrow> (json dict \<times> json dict) option" where
  "append_event c passport event_type payload private_key event_id timestamp =
     Option.bind (next_prev_hash c passport) (\<lambda>prev.
     let event = new_event event_type payload prev event_id timestamp
     in Option.bind (event_body event) (\<lambda>body.
     let signed = AList.update ''signature'' (JStr (sign c private_key body)) event
     in case map_of passport ''events'' of
          None \<Rightarrow> Some (signed, AList.update ''events'' (JArr [JObj signed]) passport)
        | Some (JArr es) \<Rightarrow> Some (signed, AList.update ''events'' (JArr (es @ [JObj signed])) passport)
        | _ \<Rightarrow> None))"

datatype event_problem =
    ChainBroken nat "json option"       \<comment> \<open>reordered, removed, or foreign event\<close>
  | InvalidSignature nat "json option"

text \<open>\<^verbatim>\<open>not signature or not verify_signature(...)\<close>; a truthy signature that is no text raises.\<close>

definition signature_bad :: "crypto \<Rightarrow> bytes \<Rightarrow> json dict \<Rightarrow> bool option" where
  "signature_bad c public_key event = (case map_of event ''signature'' of
      None \<Rightarrow> Some True
    | Some j \<Rightarrow> if json_falsy j then Some True
        else (case j of
            JStr s \<Rightarrow> map_option (\<lambda>body. \<not> verify_signature c public_key body s) (event_body event)
          | _ \<Rightarrow> None))"

text \<open>One turn of the loop of \<^verbatim>\<open>verify_events\<close>: the problems of one event.\<close>

definition event_errors :: "crypto \<Rightarrow> bytes \<Rightarrow> nat \<Rightarrow> string \<Rightarrow> json \<Rightarrow> event_problem list option" where
  "event_errors c pk i expected event = (case event of
      JObj members \<Rightarrow>
        map_option (\<lambda>bad.
          (if map_of members ''prev_event_sha256'' \<noteq> Some (JStr expected)
           then [ChainBroken i (map_of members ''event_type'')] else []) @
          (if bad then [InvalidSignature i (map_of members ''event_type'')] else []))
        (signature_bad c pk members)
    | _ \<Rightarrow> None)"

fun check_events :: "crypto \<Rightarrow> bytes \<Rightarrow> nat \<Rightarrow> string \<Rightarrow> json list \<Rightarrow> event_problem list option" where
  "check_events c pk i expected [] = Some []"
| "check_events c pk i expected (event # es) =
     Option.bind (event_errors c pk i expected event) (\<lambda>errors.
     Option.bind (event_hash c event) (\<lambda>h.
     map_option (\<lambda>rest. errors @ rest) (check_events c pk (Suc i) h es)))"

definition verify_events :: "crypto \<Rightarrow> json dict \<Rightarrow> bytes \<Rightarrow> event_problem list option" where
  "verify_events c passport public_key =
     Option.bind (anchor_hash c passport) (\<lambda>anchor.
     Option.bind (events_of passport) (\<lambda>es. check_events c public_key 0 anchor es))"

section \<open>Verification\<close>

datatype artifact_status = ART_OK | ART_MODIFIED | ART_MISSING

record artifact_check =
  ac_path :: string
  ac_kind :: artifact_kind
  ac_expected_sha256 :: string
  ac_actual_sha256 :: "string option"
  ac_status :: artifact_status

datatype verification_error = CannotRead | CannotLoadKey | InvalidPassport

record verification_report =
  vr_artifacts :: "artifact_check list"
  vr_merkle_ok :: bool
  vr_fingerprint_ok :: bool
  vr_signature_ok :: bool
  vr_event_errors :: "event_problem list"
  vr_errors :: "verification_error list"

definition empty_report :: verification_report where
  "empty_report = \<lparr> vr_artifacts = [], vr_merkle_ok = False, vr_fingerprint_ok = False,
     vr_signature_ok = False, vr_event_errors = [], vr_errors = [] \<rparr>"

definition vr_changed :: "verification_report \<Rightarrow> artifact_check list" where
  "vr_changed r = filter (\<lambda>a. ac_status a \<noteq> ART_OK) (vr_artifacts r)"

definition vr_ok :: "verification_report \<Rightarrow> bool" where
  "vr_ok r \<longleftrightarrow> vr_errors r = [] \<and> vr_changed r = [] \<and> vr_event_errors r = []
     \<and> vr_merkle_ok r \<and> vr_fingerprint_ok r \<and> vr_signature_ok r"

text \<open>\<open>files path\<close> is \<^verbatim>\<open>sha256_path(root / path)\<close>, or \<open>None\<close> where nothing exists.\<close>

definition check_artifact ::
    "(string \<Rightarrow> string option) \<Rightarrow> string \<Rightarrow> artifact_kind \<Rightarrow> string \<Rightarrow> artifact_check" where
  "check_artifact files path kind expected = (case files path of
      None \<Rightarrow> \<lparr> ac_path = path, ac_kind = kind, ac_expected_sha256 = expected,
               ac_actual_sha256 = None, ac_status = ART_MISSING \<rparr>
    | Some actual \<Rightarrow> \<lparr> ac_path = path, ac_kind = kind, ac_expected_sha256 = expected,
               ac_actual_sha256 = Some actual,
               ac_status = (if actual = expected then ART_OK else ART_MODIFIED) \<rparr>)"

definition verify_document ::
    "crypto \<Rightarrow> (json dict \<Rightarrow> passport option) \<Rightarrow> json dict \<Rightarrow> bytes \<Rightarrow> verification_report option" where
  "verify_document c validate raw public_key = (case validate raw of
      None \<Rightarrow> Some (empty_report\<lparr> vr_errors := [InvalidPassport] \<rparr>)
    | Some p \<Rightarrow>
        (case (merkle_root c (map ar_sha256 (pp_artifacts p)),
               (case id_signature (pp_identity p) of
                  None \<Rightarrow> Some False
                | Some s \<Rightarrow> if s = [] then Some False
                    else map_option (\<lambda>m. verify_signature c public_key m s) (signing_payload raw)),
               verify_events c raw public_key) of
           (Some mroot, Some sig, Some problems) \<Rightarrow>
             Some (empty_report\<lparr>
               vr_merkle_ok := (mroot = id_merkle_root (pp_identity p)),
               vr_fingerprint_ok := (public_key_fingerprint c public_key
                  = id_public_key_fingerprint (pp_identity p)),
               vr_signature_ok := sig,
               vr_event_errors := problems \<rparr>)
         | _ \<Rightarrow> None))"

text \<open>
  \<open>raw\<close> is the parsed passport file and \<open>key\<close> the loaded public key; \<open>None\<close> where reading fails.
\<close>

definition verify_passport ::
    "crypto \<Rightarrow> (json dict \<Rightarrow> passport option) \<Rightarrow> json dict option \<Rightarrow> bytes option
      \<Rightarrow> (string \<Rightarrow> string option) \<Rightarrow> verification_report option" where
  "verify_passport c validate raw key files = (case raw of
      None \<Rightarrow> Some (empty_report\<lparr> vr_errors := [CannotRead] \<rparr>)
    | Some doc \<Rightarrow> (case key of
        None \<Rightarrow> Some (empty_report\<lparr> vr_errors := [CannotLoadKey] \<rparr>)
      | Some pk \<Rightarrow> map_option (\<lambda>report.
          if vr_errors report = []
          then (case validate doc of
                  Some p \<Rightarrow> report\<lparr> vr_artifacts :=
                    map (\<lambda>a. check_artifact files (ar_path a) (ar_kind a) (ar_sha256 a)) (pp_artifacts p) \<rparr>
                | None \<Rightarrow> report)
          else report) (verify_document c validate doc pk)))"

section \<open>What signatures and event chains guarantee\<close>

text \<open>
  The documented behaviour of the libraries that the theorems below use: base64 decodes what it
  encoded, Ed25519 accepts its own signatures, and an encoded signature is not the empty text.
\<close>

definition signature_laws :: "crypto \<Rightarrow> bytes \<Rightarrow> bool" where
  "signature_laws c sk \<longleftrightarrow>
     (\<forall>s. c_b64decode c (c_b64encode c s) = Some s) \<and>
     (\<forall>m. c_verify c (c_public c sk) m (c_sign c sk m)) \<and>
     (\<forall>m. c_b64encode c (c_sign c sk m) \<noteq> [])"

lemma verify_own_signature:
  "signature_laws c sk \<Longrightarrow> verify_signature c (c_public c sk) m (sign c sk m)"
  by (simp add: signature_laws_def verify_signature_def sign_def)

lemma sign_ne: "signature_laws c sk \<Longrightarrow> sign c sk m \<noteq> []"
  by (simp add: signature_laws_def sign_def)

lemma alist_update_update: "AList.update k v (AList.update k w al) = AList.update k v al"
  by (induction al) auto

lemma alist_delete_update_same: "AList.delete k (AList.update k v al) = AList.delete k al"
  by (induction al) auto

lemma alist_delete_update_other:
  "k \<noteq> l \<Longrightarrow> AList.delete k (AList.update l v al) = AList.update l v (AList.delete k al)"
  by (induction al) auto

text \<open>The signed payload ignores the events and the signature itself, and nothing else.\<close>

lemma signing_payload_events: "signing_payload (AList.update ''events'' es p) = signing_payload p"
  by (auto simp: signing_payload_def signing_body_def update_conv' alist_delete_update_same
      alist_delete_update_other split: option.splits json.splits)

lemma signing_payload_signature:
  "map_of p ''identity'' = Some (JObj ident) \<Longrightarrow>
   signing_payload (AList.update ''identity'' (JObj (AList.update ''signature'' s ident)) p) = signing_payload p"
  by (simp add: signing_payload_def signing_body_def update_conv' alist_update_update)

lemma signing_body_get:
  assumes "signing_body p = Some b"
  shows "map_of b k = (if k = ''events'' then None
    else if k = ''identity'' then (case map_of p k of
        Some (JObj ident) \<Rightarrow> Some (JObj (AList.update ''signature'' JNull ident)) | x \<Rightarrow> x)
    else map_of p k)"
  using assms by (auto simp: signing_body_def update_conv' delete_conv'
      split: option.splits json.splits if_splits)

lemma json_ok_update: "json_ok (JObj kvs) \<Longrightarrow> json_ok v \<Longrightarrow> json_ok (JObj (AList.update k v kvs))"
proof -
  assume a: "json_ok (JObj kvs)" "json_ok v"
  then have "list_all (\<lambda>(k, v). json_ok v) (AList.update k v kvs)"
    by (induction kvs) auto
  with a show ?thesis by (simp add: distinct_update)
qed

lemma json_ok_delete: "json_ok (JObj kvs) \<Longrightarrow> json_ok (JObj (AList.delete k kvs))"
  by (auto simp: list_all_iff AList.delete_eq intro: distinct_map_filter)

lemma json_ok_member: "json_ok (JObj kvs) \<Longrightarrow> map_of kvs k = Some v \<Longrightarrow> json_ok v"
  by (auto simp: list_all_iff dest: map_of_SomeD)

lemma json_ok_signing_body: "json_ok (JObj p) \<Longrightarrow> signing_body p = Some b \<Longrightarrow> json_ok (JObj b)"
  by (auto simp: signing_body_def simp del: json_ok.simps split: option.splits json.splits
      intro!: json_ok_delete json_ok_update dest: json_ok_member) (auto intro!: json_ok_update json_ok_member)

lemma canonical_json_inject:
  assumes "json_ok a" "json_ok b" "canonical_json a = canonical_json b" "canonical_json a \<noteq> None"
  shows "sort_members a = sort_members b"
  using assms json_dumps_inject [of a b False] by (simp add: canonical_json_def split: if_splits)

subsection \<open>Signatures\<close>

text \<open>
  Signing then verifying succeeds, and a signature survives later life-cycle events: the signed
  passport has the same payload, its stored signature is accepted by the signer's public key over
  the payload a verifier recomputes, and appending any list of events does not change that.
\<close>

theorem sign_passport_verifies:
  assumes "signature_laws c sk" "sign_passport c p sk = Some q"
  shows "\<exists>payload s. signing_payload p = Some payload
    \<and> Option.bind (map_of q ''identity'') (\<lambda>i. jget i ''signature'') = Some (JStr s)
    \<and> signing_payload (AList.update ''events'' es q) = Some payload
    \<and> verify_signature c (c_public c sk) payload s"
proof -
  obtain payload ident where pi: "signing_payload p = Some payload" "map_of p ''identity'' = Some (JObj ident)"
      "q = AList.update ''identity'' (JObj (AList.update ''signature'' (JStr (sign c sk payload)) ident)) p"
    using assms(2) by (auto simp: sign_passport_def split: option.splits json.splits)
  show ?thesis
    by (intro exI [of _ payload] exI [of _ "sign c sk payload"])
      (simp add: pi signing_payload_events signing_payload_signature verify_own_signature [OF assms(1)]
        update_conv' jget_def)
qed

text \<open>
  A signature covers every field: two well-formed passports with the same signed payload agree on
  every top-level member but \<^verbatim>\<open>events\<close>, and on every member of \<^verbatim>\<open>identity\<close> but \<^verbatim>\<open>signature\<close>, up
  to the order of members inside objects. So one payload never stands for two different passports.
\<close>

theorem signing_payload_binding:
  assumes ok: "json_ok (JObj p)" "json_ok (JObj q)"
    and pay: "signing_payload p = Some m" "signing_payload q = Some m"
  shows "(\<forall>k. k \<noteq> ''events'' \<and> k \<noteq> ''identity'' \<longrightarrow>
            map_option sort_members (map_of p k) = map_option sort_members (map_of q k)) \<and>
         (\<forall>i j k. map_of p ''identity'' = Some i \<and> map_of q ''identity'' = Some j \<and> k \<noteq> ''signature'' \<longrightarrow>
            map_option sort_members (jget i k) = map_option sort_members (jget j k))"
proof -
  obtain b d where bd: "signing_body p = Some b" "canonical_json (JObj b) = Some m"
      "signing_body q = Some d" "canonical_json (JObj d) = Some m"
    using pay by (auto simp: signing_payload_def bind_eq_Some_conv)
  have okb: "json_ok (JObj b)" "json_ok (JObj d)"
    using json_ok_signing_body ok bd by blast+
  have "sort_members (JObj b) = sort_members (JObj d)"
    by (rule canonical_json_inject) (use okb bd in simp_all)
  from sort_members_get [OF okb this]
  have get: "map_option sort_members (map_of b k) = map_option sort_members (map_of d k)" for k
    by (simp add: jget_def)
  have ids: "map_option sort_members (jget i k) = map_option sort_members (jget j k)"
    if i: "map_of p ''identity'' = Some i" and j: "map_of q ''identity'' = Some j" and k: "k \<noteq> ''signature''"
    for i j k
  proof -
    obtain im jm where im: "i = JObj im" "j = JObj jm"
      using bd(1,3) i j by (auto simp: signing_body_def split: json.splits)
    let ?i = "JObj (AList.update ''signature'' JNull im)" and ?j = "JObj (AList.update ''signature'' JNull jm)"
    have "map_of b ''identity'' = Some ?i" "map_of d ''identity'' = Some ?j"
      using signing_body_get [OF bd(1), of "''identity''"] signing_body_get [OF bd(3), of "''identity''"] i j im
      by simp_all
    moreover from this have "json_ok ?i" "json_ok ?j" using okb json_ok_member by blast+
    ultimately have "map_option sort_members (jget ?i k) = map_option sort_members (jget ?j k)"
      using get [of "''identity''"] sort_members_get [of ?i ?j k] by (simp del: sort_members.simps)
    with k im show ?thesis by (simp add: jget_def update_conv')
  qed
  have "map_option sort_members (map_of p k) = map_option sort_members (map_of q k)"
    if "k \<noteq> ''events'' \<and> k \<noteq> ''identity''" for k
    using that get [of k] signing_body_get [OF bd(1), of k] signing_body_get [OF bd(3), of k] by simp
  with ids show ?thesis by blast
qed

subsection \<open>The chain of events\<close>

definition event_prev :: "json \<Rightarrow> string option" where
  "event_prev e = (case jget e ''prev_event_sha256'' of Some (JStr s) \<Rightarrow> Some s | _ \<Rightarrow> None)"

text \<open>Two events have the same content up to member order; two events collide.\<close>

definition same_event :: "json \<Rightarrow> json \<Rightarrow> bool" where
  "same_event a b \<longleftrightarrow> sort_members a = sort_members b \<and> event_prev a = event_prev b"

definition event_clash :: "crypto \<Rightarrow> json \<Rightarrow> json \<Rightarrow> bool" where
  "event_clash c a b \<longleftrightarrow> (\<exists>x y. canonical_json a = Some x \<and> canonical_json b = Some y \<and>
     x \<noteq> y \<and> c_sha256 c x = c_sha256 c y)"

definition event_valid :: "json \<Rightarrow> bool" where
  "event_valid e \<longleftrightarrow> json_ok e \<and> canonical_json e \<noteq> None"

lemma event_prev_sorted:
  assumes "json_ok a" "json_ok b" "sort_members a = sort_members b"
  shows "event_prev a = event_prev b"
proof -
  have "event_prev e = (case map_option sort_members (jget e ''prev_event_sha256'') of
      Some (JStr s) \<Rightarrow> Some s | _ \<Rightarrow> None)" for e
    by (simp add: event_prev_def split: option.splits json.splits)
  with sort_members_get [OF assms, of "''prev_event_sha256''"] show ?thesis by presburger
qed

lemma event_hash_binding:
  assumes "event_valid a" "event_valid b" "event_hash c a = event_hash c b"
  shows "same_event a b \<or> event_clash c a b"
proof -
  obtain x y where xy: "canonical_json a = Some x" "canonical_json b = Some y"
      "c_sha256 c x = c_sha256 c y"
    using assms by (auto simp: event_valid_def event_hash_def sha256_bytes_def sha256_hex_def)
  have "same_event a b" if "x = y"
    using that xy assms canonical_json_inject [of a b] event_prev_sorted [of a b]
    by (simp add: event_valid_def same_event_def)
  with xy show ?thesis by (auto simp: event_clash_def)
qed

interpretation ev: hash_chain "event_hash c" event_prev same_event "event_clash c" event_valid for c
  by unfold_locales (auto simp: event_hash_binding, simp add: same_event_def)

text \<open>A verified list of events is a linked chain of signed objects, and conversely.\<close>

lemma event_errors_Nil:
  "event_errors c pk i h e = Some [] \<longleftrightarrow>
     (\<exists>m. e = JObj m \<and> event_prev e = Some h \<and> signature_bad c pk m = Some False)"
  by (auto simp: event_errors_def event_prev_def jget_def split: json.splits option.splits)

lemma event_errors_index:
  "event_errors c pk i h e = Some [] \<Longrightarrow> event_errors c pk j h e = Some []"
  by (simp add: event_errors_Nil)

lemma check_events_Nil:
  "check_events c pk i h es = Some [] \<longleftrightarrow>
     ev.linked c (Some h) es \<and>
     (\<forall>e \<in> set es. event_hash c e \<noteq> None \<and> (\<exists>m. e = JObj m \<and> signature_bad c pk m = Some False))"
proof (induction es arbitrary: i h)
  case (Cons e es)
  then show ?case
    by (cases "event_hash c e") (auto simp: bind_eq_Some_conv event_errors_Nil)
qed simp

lemma append_event_cases:
  assumes "append_event c p t payload sk eid ts = Some (e, q)"
  obtains prev body es where "next_prev_hash c p = Some prev"
    "event_body (new_event t payload prev eid ts) = Some body"
    "e = AList.update ''signature'' (JStr (sign c sk body)) (new_event t payload prev eid ts)"
    "events_of p = Some es" "q = AList.update ''events'' (JArr (es @ [JObj e])) p"
proof -
  let ?put = "\<lambda>signed. case map_of p ''events'' of
      None \<Rightarrow> Some (signed, AList.update ''events'' (JArr [JObj signed]) p)
    | Some (JArr es) \<Rightarrow> Some (signed, AList.update ''events'' (JArr (es @ [JObj signed])) p)
    | _ \<Rightarrow> None"
  obtain prev body where pb: "next_prev_hash c p = Some prev"
      "event_body (new_event t payload prev eid ts) = Some body"
    and put: "?put (AList.update ''signature'' (JStr (sign c sk body)) (new_event t payload prev eid ts)) = Some (e, q)"
    using assms unfolding append_event_def Let_def bind_eq_Some_conv by blast
  have "\<exists>es. signed = e \<and> events_of p = Some es \<and> q = AList.update ''events'' (JArr (es @ [JObj e])) p"
    if "?put signed = Some (e, q)" for signed
    using that by (cases "map_of p ''events''") (auto simp: events_of_def split: json.splits)
  from this [OF put] that [OF pb] show thesis by blast
qed

lemma append_event_keeps:
  assumes "signature_laws c sk" "verify_events c p (c_public c sk) = Some []"
    and "append_event c p t payload sk eid ts = Some (e, q)"
  shows "verify_events c q (c_public c sk) = Some [] \<and> signing_payload q = signing_payload p
    \<and> events_of q = map_option (\<lambda>es. es @ [JObj e]) (events_of p)"
proof -
  obtain prev body es where pb: "next_prev_hash c p = Some prev"
      "event_body (new_event t payload prev eid ts) = Some body"
      "e = AList.update ''signature'' (JStr (sign c sk body)) (new_event t payload prev eid ts)"
    and es: "events_of p = Some es" "q = AList.update ''events'' (JArr (es @ [JObj e])) p"
    by (rule append_event_cases [OF assms(3)])
  obtain anchor where anchor: "anchor_hash c p = Some anchor" "check_events c (c_public c sk) 0 anchor es = Some []"
    using assms(2) es by (auto simp: verify_events_def bind_eq_Some_conv)
  have pay: "signing_payload q = signing_payload p" by (simp add: es signing_payload_events)
  have q: "events_of q = Some (es @ [JObj e])" by (simp add: es events_of_def update_conv')
  have prev: "Some prev = ev.head_hash c (Some anchor) es"
    using pb(1) es(1) anchor(1)
    by (cases "es = []") (simp_all add: next_prev_hash_def ev.head_hash_last)
  have "event_prev (JObj e) = Some prev"
    by (simp add: pb(3) new_event_def event_prev_def jget_def)
  moreover have "AList.update ''signature'' JNull e = new_event t payload prev eid ts"
    by (simp add: pb(3) new_event_def)
  then have "signature_bad c (c_public c sk) e = Some False"
    using pb(2) verify_own_signature [OF assms(1)] sign_ne [OF assms(1)]
    by (simp add: signature_bad_def pb(3) update_conv' event_body_def)
  moreover have "event_hash c (JObj e) \<noteq> None"
    using pb(2) by (auto simp: pb(3) event_hash_def canonical_json_def event_body_def new_event_def split: if_splits)
  ultimately have "check_events c (c_public c sk) 0 anchor (es @ [JObj e]) = Some []"
    using anchor(2) prev by (simp add: check_events_Nil ev.linked_snoc)
  with pay q anchor(1) es(1) show ?thesis by (auto simp: verify_events_def anchor_hash_def)
qed

lemma append_event_total:
  assumes "verify_events c p pk = Some []" "json_finite (JObj payload)"
    and "map_of p ''events'' = None \<or> (\<exists>es. map_of p ''events'' = Some (JArr es))"
  shows "\<exists>e q. append_event c p t payload sk eid ts = Some (e, q)"
proof -
  obtain es anchor where es: "events_of p = Some es" "anchor_hash c p = Some anchor"
      "\<forall>e \<in> set es. event_hash c e \<noteq> None"
    using assms(1) by (auto simp: verify_events_def bind_eq_Some_conv check_events_Nil)
  then obtain prev where prev: "next_prev_hash c p = Some prev"
    by (cases "es = []") (simp_all add: next_prev_hash_def, meson last_in_set option.exhaust)
  have "event_body (new_event t payload prev eid ts) \<noteq> None"
    using assms(2) by (simp add: event_body_def new_event_def canonical_json_def)
  with prev assms(3) show ?thesis by (auto simp: append_event_def Let_def)
qed

text \<open>
  Appending an event to a passport whose events verify succeeds (for a payload without NaN or
  infinities), gives a passport whose events verify, with the new event last, and leaves the
  passport's own signed payload alone.
\<close>

theorem append_event_verifies:
  assumes "signature_laws c sk" "verify_events c p (c_public c sk) = Some []"
    and "json_finite (JObj payload)"
    and "map_of p ''events'' = None \<or> (\<exists>es. map_of p ''events'' = Some (JArr es))"
  shows "\<exists>e q. append_event c p t payload sk eid ts = Some (e, q)
    \<and> verify_events c q (c_public c sk) = Some [] \<and> signing_payload q = signing_payload p
    \<and> events_of q = map_option (\<lambda>es. es @ [JObj e]) (events_of p)"
  using append_event_total [OF assms(2-4)] append_event_keeps [OF assms(1,2)] by metis

text \<open>
  The last event pins the whole history: two passports whose event lists both verify, with the
  same number of events and the same hash of the last one, have the same events up to member order,
  or two of their events are a SHA-256 collision.
\<close>

theorem last_event_pins_history:
  assumes "verify_events c p pk = Some []" "verify_events c q pk' = Some []"
    and "events_of p = Some es" "events_of q = Some fs" "length es = length fs" "es \<noteq> []"
    and "list_all json_ok es" "list_all json_ok fs"
    and "event_hash c (last es) = event_hash c (last fs)"
  shows "list_all2 (\<lambda>a b. sort_members a = sort_members b) es fs
    \<or> (\<exists>a \<in> set es. \<exists>b \<in> set fs. event_clash c a b)"
proof -
  obtain h where h: "ev.linked c (Some h) es" "\<forall>e \<in> set es. event_hash c e \<noteq> None"
    using assms(1,3) by (auto simp: verify_events_def bind_eq_Some_conv check_events_Nil)
  obtain h' where h': "ev.linked c (Some h') fs" "\<forall>e \<in> set fs. event_hash c e \<noteq> None"
    using assms(2,4) by (auto simp: verify_events_def bind_eq_Some_conv check_events_Nil)
  have val: "list_all event_valid es" "list_all event_valid fs"
    using h(2) h'(2) assms(7,8) by (auto simp: list_all_iff event_valid_def event_hash_def)
  from ev.head_pins_chain [OF h(1) h'(1) assms(5,6) val assms(9)]
  show ?thesis by (auto simp: same_event_def elim: list_all2_mono)
qed

text \<open>
  What the chain does not detect: dropping events from the end of the list leaves a passport
  that verifies as before.
\<close>

theorem truncated_events_verify:
  assumes "verify_events c p pk = Some []" "events_of p = Some es"
  shows "verify_events c (AList.update ''events'' (JArr (take n es)) p) pk = Some []"
proof -
  obtain anchor where anchor: "anchor_hash c p = Some anchor" "check_events c pk 0 anchor es = Some []"
    using assms by (auto simp: verify_events_def bind_eq_Some_conv)
  then have "check_events c pk 0 anchor (take n es) = Some []"
    using ev.linked_take [of c _ es n] by (auto simp: check_events_Nil dest: in_set_takeD)
  with anchor(1) show ?thesis
    by (auto simp: verify_events_def anchor_hash_def signing_payload_events events_of_def update_conv')
qed

subsection \<open>The report\<close>

lemma check_artifact_ok:
  "ac_status (check_artifact files path kind expected) = ART_OK \<longleftrightarrow> files path = Some expected"
  by (simp add: check_artifact_def split: option.splits)

text \<open>
  What an accepting report of \<^verbatim>\<open>verify_passport\<close> means: the file was read and validated, every
  artifact it lists is present with the recorded digest, the Merkle root and the fingerprint are the
  recorded ones, the signature over the raw document checks, and so do all events. Nothing else
  makes a report accepting.
\<close>

theorem verify_passport_ok_iff:
  "(\<exists>r. verify_passport c validate raw key files = Some r \<and> vr_ok r) \<longleftrightarrow>
   (\<exists>doc pk p m s. raw = Some doc \<and> key = Some pk \<and> validate doc = Some p
     \<and> list_all (\<lambda>a. files (ar_path a) = Some (ar_sha256 a)) (pp_artifacts p)
     \<and> merkle_root c (map ar_sha256 (pp_artifacts p)) = Some (id_merkle_root (pp_identity p))
     \<and> public_key_fingerprint c pk = id_public_key_fingerprint (pp_identity p)
     \<and> signing_payload doc = Some m \<and> id_signature (pp_identity p) = Some s \<and> s \<noteq> []
     \<and> verify_signature c pk m s \<and> verify_events c doc pk = Some [])"
  (is "_ = (\<exists>doc pk p m s. ?good doc pk p m s)")
proof -
  have doc: "(\<exists>r. verify_document c validate doc pk = Some r \<and> vr_ok r) \<longleftrightarrow>
      (\<exists>p m s. validate doc = Some p
     \<and> merkle_root c (map ar_sha256 (pp_artifacts p)) = Some (id_merkle_root (pp_identity p))
     \<and> public_key_fingerprint c pk = id_public_key_fingerprint (pp_identity p)
     \<and> signing_payload doc = Some m \<and> id_signature (pp_identity p) = Some s \<and> s \<noteq> []
     \<and> verify_signature c pk m s \<and> verify_events c doc pk = Some [])" for doc pk
    by (auto simp: verify_document_def vr_ok_def vr_changed_def empty_report_def split: option.splits if_splits)
  have art: "vr_changed (r\<lparr> vr_artifacts := map (\<lambda>a. check_artifact files (ar_path a) (ar_kind a) (ar_sha256 a)) as \<rparr>) = []
      \<longleftrightarrow> list_all (\<lambda>a. files (ar_path a) = Some (ar_sha256 a)) as" for r as
    by (simp add: vr_changed_def filter_empty_conv check_artifact_ok list_all_iff)
  have no_art: "verify_document c validate doc pk = Some r \<Longrightarrow> vr_changed r = []" for doc pk r
    by (auto simp: verify_document_def vr_changed_def empty_report_def split: option.splits if_splits)
  show ?thesis
  proof (cases raw; cases key)
    fix doc pk
    assume rk: "raw = Some doc" "key = Some pk"
    have err: "vr_errors r = []" if "verify_document c validate doc pk = Some r" "validate doc = Some p" for r p
      using that by (auto simp: verify_document_def empty_report_def split: option.splits)
    have "(\<exists>r. verify_passport c validate raw key files = Some r \<and> vr_ok r) \<longleftrightarrow>
      (\<exists>r p. verify_document c validate doc pk = Some r \<and> vr_ok r \<and> validate doc = Some p
        \<and> list_all (\<lambda>a. files (ar_path a) = Some (ar_sha256 a)) (pp_artifacts p))"
    proof (cases "validate doc")
      case None
      then show ?thesis by (simp add: verify_passport_def verify_document_def rk empty_report_def vr_ok_def)
    next
      case (Some p)
      show ?thesis
      proof (cases "verify_document c validate doc pk")
        case None
        then show ?thesis by (simp add: verify_passport_def rk)
      next
        case (Some r)
        with \<open>validate doc = Some p\<close> err [OF Some] no_art [OF Some] show ?thesis
          by (simp add: verify_passport_def rk vr_ok_def art) blast
      qed
    qed
    with doc [of doc pk] rk show ?thesis by auto
  qed (auto simp: verify_passport_def vr_ok_def empty_report_def)
qed

subsection \<open>A passport with two events\<close>

definition example_unsigned :: "json dict" where
  "example_unsigned = [(''schema_version'', JStr ''1''),
     (''identity'', JObj [(''model_name'', JStr ''m''), (''signature'', JNull)])]"

definition example_append :: "string \<Rightarrow> json dict \<Rightarrow> json dict" where
  "example_append t p = (case append_event example_crypto p t [] ''k'' ''e'' ''2026'' of
     Some (_, q) \<Rightarrow> q | None \<Rightarrow> [])"

definition example_log :: "json dict" where
  "example_log = example_append ''retired'' (example_append ''deployed'' example_unsigned)"

lemma example_laws: "signature_laws example_crypto ''k''"
  by (simp add: signature_laws_def example_crypto_def)

definition example_good :: "nat \<Rightarrow> json dict \<Rightarrow> bool" where
  "example_good n p \<longleftrightarrow> verify_events example_crypto p (c_public example_crypto ''k'') = Some [] \<and>
     (map_of p ''events'' = None \<or> (\<exists>es. map_of p ''events'' = Some (JArr es))) \<and>
     (\<exists>es. events_of p = Some es \<and> length es = n \<and> list_all json_ok es)"

lemma example_append_good: "example_good n p \<Longrightarrow> example_good (Suc n) (example_append t p)"
proof -
  assume p: "example_good n p"
  then obtain es where es: "events_of p = Some es" "length es = n" "list_all json_ok es"
    by (auto simp: example_good_def)
  have "json_finite (JObj [])" by simp
  with p append_event_total [of example_crypto p "c_public example_crypto ''k''" "[]" t "''k''" "''e''" "''2026''"]
  obtain e q where eq: "append_event example_crypto p t [] ''k'' ''e'' ''2026'' = Some (e, q)"
    by (auto simp: example_good_def)
  have keep: "verify_events example_crypto q (c_public example_crypto ''k'') = Some []"
      "events_of q = Some (es @ [JObj e])"
    using append_event_keeps [OF example_laws _ eq] p es(1) by (auto simp: example_good_def)
  obtain prev body fs where e: "e = AList.update ''signature'' (JStr (sign example_crypto ''k'' body))
        (new_event t [] prev ''e'' ''2026'')" and q: "q = AList.update ''events'' (JArr (fs @ [JObj e])) p"
    by (rule append_event_cases [OF eq])
  have "json_ok (JObj e)" by (simp add: e new_event_def)
  with keep es q show ?thesis by (simp add: example_append_def eq example_good_def update_conv')
qed

lemma example_log_good: "example_good 2 example_log"
proof -
  have "signing_payload example_unsigned \<noteq> None"
    by (simp add: signing_payload_def signing_body_def example_unsigned_def canonical_json_def)
  then have "example_good 0 example_unsigned"
    by (auto simp: example_good_def verify_events_def anchor_hash_def events_of_def example_unsigned_def)
  from example_append_good [OF example_append_good [OF this]] show ?thesis
    by (simp add: example_log_def numeral_2_eq_2)
qed

lemma example_log_verifies: "verify_events example_crypto example_log (c_public example_crypto ''k'') = Some []"
  using example_log_good by (simp add: example_good_def)

lemma example_log_events:
  "\<exists>es. events_of example_log = Some es \<and> length es = 2 \<and> list_all json_ok es"
  using example_log_good by (simp add: example_good_def)

theorem sign_passport_verifies_witness:
  "\<exists>q payload s. sign_passport example_crypto example_unsigned ''k'' = Some q
    \<and> Option.bind (map_of q ''identity'') (\<lambda>i. jget i ''signature'') = Some (JStr s)
    \<and> signing_payload (AList.update ''events'' (JArr []) q) = Some payload
    \<and> verify_signature example_crypto (c_public example_crypto ''k'') payload s"
proof -
  have "sign_passport example_crypto example_unsigned ''k'' \<noteq> None"
    by (simp add: sign_passport_def signing_payload_def signing_body_def example_unsigned_def canonical_json_def)
  then obtain q where q: "sign_passport example_crypto example_unsigned ''k'' = Some q" by blast
  show ?thesis using sign_passport_verifies [OF example_laws q] q by blast
qed

theorem signing_payload_binding_witness:
  "signing_payload example_unsigned = signing_payload (rev example_unsigned)
   \<and> map_option sort_members (map_of example_unsigned ''schema_version'')
     = map_option sort_members (map_of (rev example_unsigned) ''schema_version'')"
proof -
  have eq: "signing_payload example_unsigned = signing_payload (rev example_unsigned)"
    and ne: "signing_payload example_unsigned \<noteq> None"
    by (simp_all add: signing_payload_def signing_body_def example_unsigned_def canonical_json_def json_dumps_def)
  have ok: "json_ok (JObj example_unsigned)" "json_ok (JObj (rev example_unsigned))"
    by (simp_all add: example_unsigned_def)
  from ne obtain m where m: "signing_payload example_unsigned = Some m" by blast
  with eq have "signing_payload (rev example_unsigned) = Some m" by simp
  from signing_payload_binding [OF ok m this] eq show ?thesis by simp
qed

theorem append_event_verifies_witness:
  "\<exists>e q. append_event example_crypto example_log ''renewed'' [] ''k'' ''e3'' ''t3'' = Some (e, q)
    \<and> verify_events example_crypto q (c_public example_crypto ''k'') = Some []"
proof -
  have "map_of example_log ''events'' = None \<or> (\<exists>es. map_of example_log ''events'' = Some (JArr es))"
    using example_log_good by (simp add: example_good_def)
  from append_event_verifies [OF example_laws example_log_verifies _ this,
      of "[]" "''renewed''" "''e3''" "''t3''"] show ?thesis by auto
qed

theorem last_event_pins_history_witness:
  "\<exists>es. events_of example_log = Some es \<and> length es = 2
    \<and> (list_all2 (\<lambda>a b. sort_members a = sort_members b) es es
       \<or> (\<exists>a \<in> set es. \<exists>b \<in> set es. event_clash example_crypto a b))"
proof -
  obtain es where es: "events_of example_log = Some es" "length es = 2" "list_all json_ok es"
    using example_log_events by auto
  then have "es \<noteq> []" by auto
  from last_event_pins_history [OF example_log_verifies example_log_verifies es(1,1) refl this es(3,3) refl] es
  show ?thesis by blast
qed

theorem truncated_events_verify_witness:
  "\<exists>es. events_of example_log = Some es \<and> length es = 2
    \<and> verify_events example_crypto (AList.update ''events'' (JArr (take 1 es)) example_log)
        (c_public example_crypto ''k'') = Some []"
proof -
  obtain es where es: "events_of example_log = Some es" "length es = 2"
    using example_log_events by auto
  from truncated_events_verify [OF example_log_verifies es(1), of 1] es show ?thesis by blast
qed

end
