(* ===== verification/MP_Platform.thy ===== *)
theory MP_Platform
  imports MP_Worker MP_Verifier
begin

text \<open>
  The platform as a whole: API requests, super-admin requests, sign-ins, guard requests and worker runs in any order,
  from an empty database. Every reachable state has intact logs, unique names, a sound job queue and
  no version past the release gate whose latest audit did not pass it.
\<close>

section \<open>Workers keep the invariants\<close>

lemma worker_readers [db_rules]:
  "db_preserves I (the_version_model v)" "db_preserves I (payload_version j)" "db_preserves I (job_tenant j)"
  "db_preserves I (find_dataset d)" "db_preserves I (worker_files wk tn)" "db_preserves I (the_job i)"
  unfolding the_version_model_def payload_version_def job_tenant_def find_dataset_def worker_files_def
    the_job_def
  by (auto intro!: db_rules split: option.splits json.splits)

lemma worker_readers2 [db_rules]:
  "db_preserves I (job_version j)" "db_preserves I (model_spec_of wk files v m)" "db_preserves I (store_model wk files a d)"
  unfolding job_version_def model_spec_of_def store_model_def Let_def by (auto intro!: db_rules)

lemma signing_key_pres:
  assumes "\<And>i f. (\<And>r. tn_id (f r) = tn_id r \<and> tn_slug (f r) = tn_slug r) \<Longrightarrow> db_preserves I (set_tenant i f)"
  shows "db_preserves I (signing_key wk tn files)"
  unfolding signing_key_def
  by (intro db_rules db_try assms) (auto intro: db_rules split: exn.splits)

text \<open>What an invariant must allow for the workers' operations to keep it.\<close>

definition worker_friendly :: "worker_env \<Rightarrow> (database \<Rightarrow> bool) \<Rightarrow> bool" where
  "worker_friendly wk I \<longleftrightarrow>
     (\<forall>i f. (\<forall>r. tn_id (f r) = tn_id r \<and> tn_slug (f r) = tn_slug r) \<longrightarrow> db_preserves I (set_tenant i f)) \<and>
     (\<forall>i f. (\<forall>r. mv_id (f r) = mv_id r \<and> mv_model_id (f r) = mv_model_id r \<and> mv_version (f r) = mv_version r
        \<and> mv_state (f r) = mv_state r \<and> mv_verdict (f r) = mv_verdict r \<and> mv_critical (f r) = mv_critical r
        \<and> mv_high (f r) = mv_high r) \<longrightarrow> db_preserves I (set_version i f)) \<and>
     (\<forall>v to reason. \<not> past_gate to \<longrightarrow> db_preserves I (move (wk_crypto wk) v to WORKER reason)) \<and>
     (\<forall>t who a tt ti d. db_preserves I (record_event (wk_crypto wk) t who a tt ti d)) \<and>
     (\<forall>t k p a. db_preserves I (enqueue (wk_crypto wk) t k p a 3)) \<and>
     (\<forall>files tn name content prov who. db_preserves I (add_dataset (wk_crypto wk) (wk_lib wk) (corpus_counts wk) files tn name content prov who)) \<and>
     (\<forall>m ver tr ref who art par. db_preserves I (register_version (wk_crypto wk) m ver tr ref who art par)) \<and>
     (\<forall>n ks. db_preserves I (claim (wk_crypto wk) n ks)) \<and>
     (\<forall>j r. db_preserves I (finish (wk_crypto wk) j r)) \<and> (\<forall>j e. db_preserves I (fail (wk_crypto wk) j e))"

lemma attest_pres: "worker_friendly wk I \<Longrightarrow> db_preserves I (attest wk tn files v g)"
  unfolding attest_def worker_friendly_def Let_def
  by (intro db_rules signing_key_pres) auto

lemma train_pres: "worker_friendly wk I \<Longrightarrow> db_preserves I (train_job wk j)"
  unfolding train_job_def worker_friendly_def
  by (intro db_rules) (auto simp: past_gate_def)

lemma replace_pres: "worker_friendly wk I \<Longrightarrow> db_preserves I (replace_version wk j tr nv s a d)"
  unfolding replace_version_def worker_friendly_def
  by (intro db_rules) (auto simp: past_gate_def)

lemma remediate_pres: "worker_friendly wk I \<Longrightarrow> db_preserves I (remediate_job wk j)"
  unfolding remediate_job_def
  by (intro db_rules replace_pres) auto

lemma report_pres: "db_preserves I (report_job wk j)"
  unfolding report_job_def Let_def
  by (auto intro!: db_rules split: option.splits json.splits prod.splits)

lemma bnd_of_result_pres:
  "(\<And>x. r = Inr x \<Longrightarrow> db_preserves I (f x)) \<Longrightarrow> db_preserves I (bnd (of_result r) f)"
  by (cases r) (auto simp: db_preserves_def preserves_def bnd_def of_result_def)

lemma audit_pres:
  assumes "\<And>r x. gate_check (wk_crypto wk) r None = Inr x \<Longrightarrow> db_preserves I (scoped_session (record_audit wk j r x))"
  shows "db_preserves I (audit_job wk j)"
proof -
  have gated: "db_preserves I (bnd (of_result (policy_result_exn (gate_check (wk_crypto wk) r None)))
      (\<lambda>verdict. andthen (scoped_session (record_audit wk j r verdict)) (ret (k verdict))))" for r k
    by (rule bnd_of_result_pres) (auto simp: policy_result_exn_def intro!: db_rules assms split: sum.splits)
  then have audited: "db_preserves I (bnd (of_result a) (\<lambda>r. bnd (of_result (policy_result_exn (gate_check (wk_crypto wk) r None)))
      (\<lambda>verdict. andthen (scoped_session (record_audit wk j r verdict)) (ret (k r verdict)))))" for a k
    by (intro bnd_of_result_pres [OF gated])
  show ?thesis unfolding audit_job_def split_def
    by (rule db_bnd [OF _ audited]) (intro db_rules)
qed

lemma recover_pres: "worker_friendly wk I \<Longrightarrow> db_preserves I (recover wk j)"
  unfolding recover_def worker_friendly_def RECOVERY_def
  by (auto intro!: db_rules simp: past_gate_def split: option.splits)

lemma run_once_pres:
  assumes fr: "worker_friendly wk I"
    and au: "\<And>j r x. gate_check (wk_crypto wk) r None = Inr x \<Longrightarrow> db_preserves I (scoped_session (record_audit wk j r x))"
  shows "db_preserves I (run_once wk msg)"
proof -
  have h: "db_preserves I (HANDLERS wk j)" for j
    unfolding HANDLERS_def by (intro db_rules train_pres [OF fr] audit_pres [OF au] remediate_pres [OF fr] report_pres)
  have jobs: "db_preserves I (claim (wk_crypto wk) n ks)" "db_preserves I (finish (wk_crypto wk) j r)"
    "db_preserves I (fail (wk_crypto wk) j e)" for n ks j r e
    using fr by (auto simp: worker_friendly_def)
  show ?thesis
    unfolding run_once_def
    by (intro db_rules jobs h recover_pres [OF fr]) (auto intro: db_rules)
qed

section \<open>The four invariants\<close>

lemma friendly_log: "worker_friendly wk (log_ok (wk_crypto wk))"
  unfolding worker_friendly_def by (intro conjI allI impI db_rules)

lemma friendly_unique: "worker_friendly wk unique_names"
  unfolding worker_friendly_def
  by (intro conjI allI impI db_rules unique_names_set_tenant unique_names_set_version) auto

lemma record_audit_pres:
  assumes "worker_friendly wk I" "\<And>i r x. db_preserves I (set_version i (with_audit r x))"
    and "\<And>v to reason. db_preserves I (move (wk_crypto wk) v to WORKER reason)"
  shows "db_preserves I (record_audit wk j r x)"
  unfolding record_audit_def Let_def by (intro db_rules attest_pres assms)

lemma run_once_log: "db_preserves (log_ok (wk_crypto wk)) (run_once wk msg)"
  by (intro run_once_pres friendly_log db_scoped_session record_audit_pres db_rules)

lemma run_once_unique: "db_preserves unique_names (run_once wk msg)"
  by (intro run_once_pres friendly_unique db_scoped_session record_audit_pres db_rules unique_names_set_version)
    (simp add: with_audit_def)

subsection \<open>The job queue\<close>

lemma jobs_ok_modify: "(\<And>db. db_jobs (f db) = db_jobs db) \<Longrightarrow> db_preserves jobs_ok (db_modify f)"
  by (rule db_db_modify) (simp add: jobs_ok_def)

lemma jobs_ok_inserts [db_rules]:
  "db_preserves jobs_ok (insert_tenant r1)" "db_preserves jobs_ok (insert_user r2)"
  "db_preserves jobs_ok (insert_membership r3)" "db_preserves jobs_ok (insert_dataset r4)"
  "db_preserves jobs_ok (insert_model r5)" "db_preserves jobs_ok (insert_version r6)"
  "db_preserves jobs_ok (insert_approval r7)" "db_preserves jobs_ok (insert_report r9)"
  unfolding insert_defs by (rule db_insert_row, simp add: jobs_ok_def)+

lemma jobs_ok_sets [db_rules]:
  "db_preserves jobs_ok (set_version i f)" "db_preserves jobs_ok (set_tenant i g)"
  unfolding set_version_def set_tenant_def by (rule jobs_ok_modify, simp)+

lemma jobs_ok_enqueue [db_rules]: "db_preserves jobs_ok (enqueue c t k p a 3)"
  by (rule enqueue_jobs_ok) simp

lemma jobs_ok_move [db_rules]: "db_preserves jobs_ok (move c v to w reason)"
  unfolding move_def lifecycle_check_def by (intro db_rules)

lemma jobs_ok_services [db_rules]:
  "db_preserves jobs_ok (create_tenant c lib mk slug name who pl)"
  "db_preserves jobs_ok (update_tenant c tn who pl' st)"
  "db_preserves jobs_ok (create_user lib email password name sa)"
  "db_preserves jobs_ok (add_member c tn u r who)"
  "db_preserves jobs_ok (remove_member c mb who)"
  "db_preserves jobs_ok (add_dataset c lib rd files tn name content prov who)"
  "db_preserves jobs_ok (register_model c tn name acc base desc who)"
  "db_preserves jobs_ok (register_version c m ver tr ref who art par)"
  unfolding create_tenant_def update_tenant_def create_user_def add_member_def remove_member_def
    add_dataset_def register_model_def register_version_def
  by (intro db_rules jobs_ok_modify; simp)+

lemma jobs_ok_find [db_rules]: "db_preserves jobs_ok (find_or_create_user lib body)"
  unfolding find_or_create_user_def by (intro db_rules)

lemma jobs_ok_ctx_move: "db_preserves jobs_ok (ctx_move c cx v to reason)"
  unfolding ctx_move_def by (intro db_rules)

lemma run_call_jobs: "ctx_keeps jobs_ok cx \<Longrightarrow> db_preserves jobs_ok (run_call sv call cx)"
  by (cases call) (auto simp: api_defs Let_def intro!: db_rules jobs_ok_ctx_move deploy_first_pres kill_pres rollback_pres)

lemma run_admin_jobs: "db_preserves jobs_ok (run_admin sv call u)"
  by (cases call) (auto simp: api_create_tenant_def api_update_tenant_def api_add_org_admin_def intro!: db_rules)

lemma friendly_jobs: "worker_friendly wk jobs_ok"
  unfolding worker_friendly_def
  by (intro conjI allI impI db_rules claim_jobs_ok finish_jobs_ok fail_jobs_ok)

lemma run_once_jobs: "db_preserves jobs_ok (run_once wk msg)"
  by (intro run_once_pres friendly_jobs db_scoped_session record_audit_pres db_rules)

subsection \<open>The gate\<close>

lemma gate_ok_ops [db_rules]:
  "db_preserves gate_ok (record_event c t w ac tt ti d)" "db_preserves gate_ok (enqueue c t k p a n)"
  "db_preserves gate_ok (claim c wn ks)" "db_preserves gate_ok (finish c j res)" "db_preserves gate_ok (fail c j e)"
  "db_preserves gate_ok (set_tenant i f)" "db_preserves gate_ok (add_dataset c lib rd files tn name content prov who)"
  "db_preserves gate_ok (create_tenant c lib mk slug name who pl)"
  "db_preserves gate_ok (update_tenant c tn who pl' st)" "db_preserves gate_ok (add_member c tn u ro who)"
  "db_preserves gate_ok (find_or_create_user lib body)"
  unfolding gate_ok_def by (intro db_rules)+

lemma gate_rows_update_all:
  assumes "gate_rows vs" "\<And>r. mv_id (f r) = mv_id r"
    and "\<And>r. r \<in> set vs \<Longrightarrow> past_gate (mv_state (f r)) \<Longrightarrow> audit_clean (f r)"
  shows "gate_rows (update_where P f vs)"
  using assms map_update_where [of mv_id f P vs]
  by (auto simp: gate_rows_def) (auto simp: update_where_def split: if_splits)

lemma set_version_gate:
  assumes "\<And>r. mv_id (f r) = mv_id r \<and> mv_state (f r) = mv_state r \<and> mv_verdict (f r) = mv_verdict r
    \<and> mv_critical (f r) = mv_critical r \<and> mv_high (f r) = mv_high r"
  shows "db_preserves gate_ok (set_version i f)"
  unfolding set_version_def
proof (rule db_db_modify)
  fix db assume "gate_ok db"
  then have g: "gate_rows (db_versions db)" by (simp add: gate_ok_def on_versions_def)
  have "gate_rows (update_where (\<lambda>r. mv_id r = i) f (db_versions db))"
    by (rule gate_rows_update_all [OF g]) (use assms g in \<open>auto simp: gate_rows_def audit_clean_def\<close>)
  then show "gate_ok (db\<lparr> db_versions := update_where (\<lambda>r. mv_id r = i) f (db_versions db) \<rparr>)"
    by (simp add: gate_ok_def on_versions_def)
qed

lemma move_down_gate: "\<not> past_gate to \<Longrightarrow> db_preserves gate_ok (move c v to w reason)"
  unfolding move_def lifecycle_check_def set_version_def
  by (intro db_rules db_db_modify)
    (auto simp: gate_ok_def on_versions_def intro!: gate_rows_update_all)

lemma friendly_gate: "worker_friendly wk gate_ok"
  unfolding worker_friendly_def
  by (intro conjI allI impI db_rules set_version_gate move_down_gate register_version_gate) auto

text \<open>\<open>almost v\<close>: the gate holds but for the row of \<open>v\<close>, which is \<open>v\<close> itself.\<close>

definition almost :: "model_version \<Rightarrow> model_version list \<Rightarrow> bool" where
  "almost v vs \<longleftrightarrow> distinct (map mv_id vs) \<and> v \<in> set vs \<and>
     (\<forall>u \<in> set vs. mv_id u \<noteq> mv_id v \<longrightarrow> past_gate (mv_state u) \<longrightarrow> audit_clean u)"

lemma almost_unique: "almost v vs \<Longrightarrow> r \<in> set vs \<Longrightarrow> mv_id r = mv_id v \<Longrightarrow> r = v"
  by (auto simp: almost_def distinct_map inj_on_def)

lemma almost_update:
  assumes "almost v vs" "mv_id (f v) = mv_id v"
  shows "almost (f v) (update_where (\<lambda>r. mv_id r = mv_id v) f vs)"
proof -
  let ?g = "\<lambda>r. if mv_id r = mv_id v then f r else r"
  have id: "mv_id (?g r) = mv_id r" if "r \<in> set vs" for r
    using almost_unique [OF assms(1) that] assms(2) by auto
  then have ids: "map mv_id (map ?g vs) = map mv_id vs" by simp
  have mem: "f v \<in> set (map ?g vs)" using assms(1) by (force simp: almost_def)
  have others: "past_gate (mv_state u) \<longrightarrow> audit_clean u" if u: "u \<in> set (map ?g vs)" "mv_id u \<noteq> mv_id (f v)" for u
  proof -
    obtain r where r: "r \<in> set vs" "u = ?g r" using u by auto
    have "mv_id r \<noteq> mv_id v" using u(2) r id [OF r(1)] assms(2) by simp
    with r assms(1) show ?thesis by (simp add: almost_def)
  qed
  show ?thesis unfolding almost_def update_where_def ids
    using assms(1) mem others by (intro conjI ballI impI) (auto simp: almost_def)
qed

lemma almost_gate: "almost v vs \<Longrightarrow> past_gate (mv_state v) \<longrightarrow> audit_clean v \<Longrightarrow> gate_rows vs"
proof -
  assume a: "almost v vs" and v: "past_gate (mv_state v) \<longrightarrow> audit_clean v"
  have "past_gate (mv_state u) \<longrightarrow> audit_clean u" if "u \<in> set vs" for u
    using that a v almost_unique [OF a that] by (cases "mv_id u = mv_id v") (auto simp: almost_def)
  then show ?thesis using a by (auto simp: almost_def gate_rows_def)
qed

lemma job_version_almost:
  "commits gate_ok (job_version j) (\<lambda>v. on_versions (almost v))"
proof -
  have pv: "commits gate_ok (payload_version j) (\<lambda>_. gate_ok)" by (intro commits_pres db_rules)
  have gv: "commits gate_ok (get_version t i) (\<lambda>v. on_versions (almost v))" for t i
    by (rule commits_weaken [OF get_version_current])
      (auto simp: on_versions_def current_def almost_def gate_rows_def)
  show ?thesis unfolding job_version_def by (rule commits_bnd [OF pv gv])
qed

lemma move_almost:
  assumes "past_gate to \<longrightarrow> audit_clean v"
  shows "commits (on_versions (almost v)) (move c v to w reason) (\<lambda>_. gate_ok)"
  unfolding commits_def
proof (intro allI impI)
  fix wd x wd'
  assume a: "on_versions (almost v) (w_db wd) \<and> move c v to w reason wd = (Inr x, wd')"
  then have rows: "db_versions (w_db wd') = update_where (\<lambda>r. mv_id r = mv_id v) (\<lambda>r. r\<lparr> mv_state := to \<rparr>) (db_versions (w_db wd))"
    by (cases "check_step (mv_state v) to w") (auto simp: move_run Let_def)
  have "almost (v\<lparr> mv_state := to \<rparr>) (db_versions (w_db wd'))"
    unfolding rows using almost_update [of v _ "\<lambda>r. r\<lparr> mv_state := to \<rparr>"] a by (simp add: on_versions_def)
  from almost_gate [OF this] assms show "gate_ok (w_db wd')"
    by (simp add: gate_ok_def on_versions_def audit_clean_def)
qed

lemma set_version_almost:
  assumes "mv_id (f v) = mv_id v"
  shows "commits (on_versions (almost v)) (set_version (mv_id v) f) (\<lambda>_. on_versions (almost (f v)))"
  unfolding commits_def set_version_def db_modify_def modify_Inr_iff
  using almost_update [where f = f and v = v] assms by (auto simp: on_versions_def)

text \<open>The gate's verdict justifies the step to \<open>CLEAN\<close>.\<close>

lemma audit_target_clean:
  assumes "gate_check c r None = Inr x" "past_gate (audit_target x (with_audit r x v))"
  shows "audit_clean (with_audit r x v)"
proof -
  obtain y where y: "gate_check c r None = Inr y"
      "blocking y \<longleftrightarrow> 0 < severity_count r CRITICAL \<or> 0 < severity_count r HIGH
        \<or> (\<exists>a. ea_auc r = Some a \<and> 60/100 < a)
        \<or> (\<exists>t. map_of (ea_tpr_at_fpr r) ''0.01'' = Some t \<and> 5/100 < t)"
    using default_gate_iff [of c r] by blast
  have "\<not> blocking x" using assms(2) by (auto simp: audit_target_def past_gate_def split: if_splits)
  with y assms(1) have "severity_count r CRITICAL \<le> 0" "severity_count r HIGH \<le> 0" by auto
  moreover have "po_verdict x \<noteq> FAIL" using \<open>\<not> blocking x\<close> by (simp add: blocking_def)
  then have "verdict_value (po_verdict x) \<noteq> ''fail''" by (cases "po_verdict x") auto
  ultimately show ?thesis by (simp add: audit_clean_def with_audit_def)
qed

lemma record_audit_gate:
  assumes "gate_check (wk_crypto wk) r None = Inr x"
  shows "commits gate_ok (record_audit wk j r x) (\<lambda>_. gate_ok)"
proof -
  have tn: "commits (on_versions (almost v)) (job_tenant j) (\<lambda>_. on_versions (almost v))" for v
    by (intro commits_pres db_rules)
  have sv: "commits (on_versions (almost v)) (set_version (mv_id v) (with_audit r x)) (\<lambda>_. on_versions (almost (with_audit r x v)))" for v
    by (rule set_version_almost) (simp add: with_audit_def)
  have mv: "commits (on_versions (almost (with_audit r x v)))
      (move c (with_audit r x v) (audit_target x (with_audit r x v)) WORKER reason) (\<lambda>_. gate_ok)" for c v reason
    by (rule move_almost) (use audit_target_clean [OF assms] in blast)
  have rest: "commits gate_ok (bnd (worker_files wk tn) (\<lambda>files. andthen (attest wk tn files v' g) (ret ()))) (\<lambda>_. gate_ok)" for tn v' g
    by (intro commits_pres db_rules attest_pres friendly_gate)
  show ?thesis
    unfolding record_audit_def Let_def
    by (rule commits_bnd [OF job_version_almost commits_bnd [OF tn commits_andthen [OF sv commits_bnd [OF mv rest]]]])
qed

lemma run_once_gate: "db_preserves gate_ok (run_once wk msg)"
  by (intro run_once_pres friendly_gate commits_scoped record_audit_gate)

lemma run_admin_gate: "db_preserves gate_ok (run_admin sv call u)"
  by (cases call) (auto simp: api_create_tenant_def api_update_tenant_def api_add_org_admin_def intro!: db_rules)

section \<open>Every reachable state\<close>

definition platform_ok :: "crypto \<Rightarrow> database \<Rightarrow> bool" where
  "platform_ok c db \<longleftrightarrow> log_ok c db \<and> unique_names db \<and> jobs_ok db \<and> gate_ok db"

text \<open>The API, the workers and the guard share one configuration.\<close>

definition same_platform :: "services_env \<Rightarrow> worker_env \<Rightarrow> guard_env \<Rightarrow> bool" where
  "same_platform sv wk gv \<longleftrightarrow> wk_crypto wk = sv_crypto sv \<and> gv_crypto gv = sv_crypto sv \<and> gv_settings gv = sv_settings sv"

definition settings_ok :: "crypto \<Rightarrow> settings \<Rightarrow> bool" where
  "settings_ok c st \<longleftrightarrow> settings_keep (log_ok c) st \<and> settings_keep unique_names st \<and> settings_keep jobs_ok st \<and> settings_gate st"

text \<open>The operator's command \<^verbatim>\<open>create-superadmin\<close>, which makes the first account.\<close>

definition create_superadmin :: "seclib \<Rightarrow> string \<Rightarrow> string \<Rightarrow> string \<Rightarrow> unit M" where
  "create_superadmin lib email password name =
     scoped_session (done_with (create_user lib email password name True))"

inductive reachable :: "services_env \<Rightarrow> worker_env \<Rightarrow> guard_env \<Rightarrow> (exn \<Rightarrow> string) \<Rightarrow> world \<Rightarrow> bool"
  for sv wk gv msg where
  start: "w_db w = empty_db \<Longrightarrow> reachable sv wk gv msg w"
| operator: "reachable sv wk gv msg w \<Longrightarrow> reachable sv wk gv msg (snd (create_superadmin (sv_lib sv) email password name w))"
| tenant_request: "reachable sv wk gv msg w \<Longrightarrow> reachable sv wk gv msg (snd (handle_call sv rq call w))"
| admin_request: "reachable sv wk gv msg w \<Longrightarrow> reachable sv wk gv msg (snd (handle_admin sv rq acall w))"
| sign_in: "reachable sv wk gv msg w \<Longrightarrow> reachable sv wk gv msg (snd (login (sv_lib sv) (sv_settings sv) email password client w))"
| guard_chat: "reachable sv wk gv msg w \<Longrightarrow> reachable sv wk gv msg (snd (chat_completions gv body auth w))"
| guard_scan: "reachable sv wk gv msg w \<Longrightarrow> reachable sv wk gv msg (snd (scan gv body auth w))"
| guard_request: "reachable sv wk gv msg w \<Longrightarrow> reachable sv wk gv msg (snd (handle_guard_call gv rq gcall w))"
| work: "reachable sv wk gv msg w \<Longrightarrow> reachable sv wk gv msg (snd (run_once wk msg w))"
| elsewhere: "reachable sv wk gv msg w \<Longrightarrow> w_db w' = w_db w \<Longrightarrow> reachable sv wk gv msg w'"

lemma handle_call_ok:
  assumes "settings_ok (sv_crypto sv) (sv_settings sv)"
  shows "db_preserves (log_ok (sv_crypto sv)) (handle_call sv rq call)" "db_preserves unique_names (handle_call sv rq call)"
    "db_preserves jobs_ok (handle_call sv rq call)" "db_preserves gate_ok (handle_call sv rq call)"
  using assms unfolding handle_call_def settings_ok_def
  by (auto intro: require_pres require_gate run_call_log_ok run_call_unique run_call_jobs run_call_gate)

lemma handle_admin_ok:
  "db_preserves (log_ok (sv_crypto sv)) (handle_admin sv rq call)" "db_preserves unique_names (handle_admin sv rq call)"
  "db_preserves jobs_ok (handle_admin sv rq call)" "db_preserves gate_ok (handle_admin sv rq call)"
  unfolding handle_admin_def by (intro super_admin_pres run_admin_pres run_admin_jobs run_admin_gate)+

lemma guard_ok:
  assumes "same_platform sv wk gv"
  shows "db_preserves (log_ok (sv_crypto sv)) (chat_completions gv body auth)" "db_preserves unique_names (chat_completions gv body auth)"
    "db_preserves jobs_ok (chat_completions gv body auth)" "db_preserves gate_ok (chat_completions gv body auth)"
    "db_preserves (log_ok (sv_crypto sv)) (scan gv body' auth)" "db_preserves unique_names (scan gv body' auth)"
    "db_preserves jobs_ok (scan gv body' auth)" "db_preserves gate_ok (scan gv body' auth)"
  using assms unfolding same_platform_def
  by (auto intro: keeps_log.requests_keep keeps_names.requests_keep keeps_jobs.requests_keep keeps_gate.requests_keep)

lemma handle_guard_ok:
  assumes "settings_ok (sv_crypto sv) (sv_settings sv)" "same_platform sv wk gv"
  shows "db_preserves (log_ok (sv_crypto sv)) (handle_guard_call gv rq call)" "db_preserves unique_names (handle_guard_call gv rq call)"
    "db_preserves jobs_ok (handle_guard_call gv rq call)" "db_preserves gate_ok (handle_guard_call gv rq call)"
  using assms unfolding handle_guard_call_def settings_ok_def same_platform_def
  by (auto intro!: require_pres require_gate commits_pres keeps_log.requests_keep keeps_names.requests_keep
      keeps_jobs.requests_keep keeps_gate.requests_keep)

lemma create_superadmin_ok:
  "db_preserves (log_ok c) (create_superadmin lib email password name)"
  "db_preserves unique_names (create_superadmin lib email password name)"
  "db_preserves jobs_ok (create_superadmin lib email password name)"
  "db_preserves gate_ok (create_superadmin lib email password name)"
  unfolding create_superadmin_def done_with_def gate_ok_def by (intro db_rules)+

lemma empty_ok: "platform_ok c empty_db"
  by (simp add: platform_ok_def log_ok_empty)
    (simp add: empty_db_def unique_names_def jobs_ok_def gate_ok_def on_versions_def gate_rows_def)

lemma reachable_ok:
  assumes "reachable sv wk gv msg w" "settings_ok (sv_crypto sv) (sv_settings sv)" "same_platform sv wk gv"
  shows "platform_ok (sv_crypto sv) (w_db w)"
  using assms(1)
proof (induction rule: reachable.induct)
  case (start w)
  then show ?case by (simp add: empty_ok)
next
  case (operator w email password name)
  then show ?case using create_superadmin_ok by (auto simp: platform_ok_def intro: db_preservesD)
next
  case (tenant_request w rq call)
  then show ?case using handle_call_ok [OF assms(2)] by (auto simp: platform_ok_def intro: db_preservesD)
next
  case (admin_request w rq acall)
  then show ?case using handle_admin_ok by (auto simp: platform_ok_def intro: db_preservesD)
next
  case (sign_in w email password client)
  then show ?case using login_pres by (auto simp: platform_ok_def intro: db_preservesD)
next
  case (guard_chat w body auth)
  then show ?case using guard_ok(1-4) [OF assms(3)] by (auto simp: platform_ok_def intro: db_preservesD)
next
  case (guard_scan w body auth)
  then show ?case using guard_ok(5-8) [OF assms(3)] by (auto simp: platform_ok_def intro: db_preservesD)
next
  case (guard_request w rq gcall)
  then show ?case using handle_guard_ok [OF assms(2,3)] by (auto simp: platform_ok_def intro: db_preservesD)
next
  case (work w)
  then show ?case using run_once_log [of wk msg] run_once_unique [of wk msg] run_once_jobs [of wk msg] run_once_gate [of wk msg]
    using assms(3) by (auto simp: platform_ok_def same_platform_def intro: db_preservesD)
qed simp



section \<open>Attestations\<close>

text \<open>
  An attestation the platform signs verifies under the tenant's public key, and what the signature
  covers is the whole document but the signature.
\<close>

theorem attestation_verifies:
  assumes "signature_laws c key" "sign_document c key body = Inr document" "''signature'' \<notin> fst ` set body"
  shows "attest_verify c document (Some (c_public c key)) = Inr True \<and> AList.delete ''signature'' document = body"
proof -
  obtain m where m: "canonical_json (JObj body) = Some m" "document = body @ [(''signature'', JStr (sign c key m))]"
    using assms(2) by (auto simp: sign_document_def split: option.splits)
  have del: "AList.delete ''signature'' document = body"
    using assms(3) by (auto simp: m(2) AList.delete_eq filter_id_conv image_iff split: prod.splits)
  have "map_of document ''signature'' = Some (JStr (sign c key m))"
    using assms(3) by (simp add: m(2) map_add_Some_iff map_of_eq_None_iff [THEN iffD2])
  with del m(1) verify_own_signature [OF assms(1)] show ?thesis by (simp add: attest_verify_def)
qed

end
