(* ===== verification/MP_Scenario.thy ===== *)
theory MP_Scenario
  imports MP_Platform
begin

text \<open>
  A run of the platform: the operator creates a super admin, who creates an
  organization, uploads a reference corpus, registers a model and a version and asks for an audit; a
  worker takes the audit. The run shows that the hypotheses of the platform's theorems hold together.
\<close>

section \<open>Concrete parameters\<close>

definition plain_crypto :: crypto where
  "plain_crypto = \<lparr> c_sha256 = (\<lambda>_. []), c_sign = (\<lambda>_ _. []), c_verify = (\<lambda>_ _ _. True), c_public = id,
     c_b64encode = id, c_b64decode = Some \<rparr>"

definition plain_lib :: seclib where
  "plain_lib = \<lparr> s_aes_encrypt = (\<lambda>k n p x. p), s_aes_decrypt = (\<lambda>k n p x. Some p),
     s_argon_hash = (\<lambda>_ p. p), s_argon_verify = (\<lambda>h p. Some (h = p)),
     s_jwt_encode = (\<lambda>claims s. []),
     s_jwt_decode = (\<lambda>t s n. Some [(''sub'', JStr t), (''exp'', JInt 0)]) \<rparr>"

definition plain_settings :: settings where
  "plain_settings = \<lparr> st_jwt_secret = [], st_master_key = [], st_base_domain = ''mp'', st_token_minutes = 60,
     st_controlplane = None, st_throttle = login_throttle 5 5 900 \<rparr>"

definition plain_services :: services_env where
  "plain_services = \<lparr> sv_crypto = plain_crypto, sv_lib = plain_lib, sv_settings = plain_settings,
     sv_corpus = (\<lambda>_. Some [1]), sv_report = (\<lambda>_ _ _. []) \<rparr>"

definition plain_worker :: worker_env where
  "plain_worker = \<lparr> wk_crypto = plain_crypto, wk_lib = plain_lib, wk_master_key = [], wk_name = ''w'',
     wk_pipeline = \<lparr> pl_finetune = (\<lambda>_ _. Inr ([], [], [])), pl_audit = (\<lambda>_ _ _ _. Inr quiet_audit),
       pl_render = (\<lambda>_. ([], [])) \<rparr>,
     wk_dumper = \<lparr> du_pem = id, du_public_pem = id, du_load_pem = Some, du_audit = (\<lambda>_. []), du_gate = (\<lambda>_. JNull),
       du_isoformat = (\<lambda>_. []), du_float = (\<lambda>_. []) \<rparr>,
     wk_matcher = example_matcher, wk_codec = example_codec, wk_values = example_source, wk_report = (\<lambda>_ _ _. []), wk_stamp = (\<lambda>_. []) \<rparr>"

definition plain_guard :: guard_env where
  "plain_guard = \<lparr> gv_crypto = plain_crypto, gv_lib = plain_lib, gv_settings = plain_settings, gv_private_upstreams = False,
     gv_network = guard_network, gv_matcher = example_matcher, gv_codec = guard_codec \<rparr>"

definition admin_rq :: request where
  "admin_rq = \<lparr> rq_credentials = Some ''1'', rq_host = None, rq_tenant = Some ''a'', rq_client = None \<rparr>"

definition run_of :: "services_env \<Rightarrow> request \<Rightarrow> tenant_call list \<Rightarrow> world \<Rightarrow> world" where
  "run_of sv rq calls w = foldl (\<lambda>w call. snd (handle_call sv rq call w)) w calls"

definition founded :: world where
  "founded = snd (handle_admin plain_services admin_rq (CreateTenant ''a'' [] FREE)
     (snd (create_superadmin plain_lib ''r@mp'' ''longpassword'' [] example_world)))"

definition scenario_calls :: "tenant_call list" where
  "scenario_calls = [AddDataset ''d'' [] \<lparr> pv_source = [], pv_license = [], pv_consent = ''obtained'' \<rparr>,
     RegisterModel ''m'' API_ACCESS ''gpt'' [],
     RegisterVersion ''15'' \<lparr> vi_version = ''1'', vi_dataset_id = None, vi_reference_dataset_id = ''11'', vi_train = False \<rparr>,
     StartAudit ''19'']"

definition audited :: world where
  "audited = snd (run_once plain_worker (\<lambda>_. []) (run_of plain_services admin_rq scenario_calls founded))"

section \<open>The run is reachable\<close>

lemma plain_settings_ok: "settings_ok (sv_crypto plain_services) (sv_settings plain_services)"
  by (simp add: settings_ok_def settings_keep_def settings_gate_def plain_services_def plain_settings_def)

lemma plain_same_platform: "same_platform plain_services plain_worker plain_guard"
  by (simp add: same_platform_def plain_worker_def plain_services_def plain_guard_def)

lemma run_of_reachable:
  "reachable sv wk gv msg w \<Longrightarrow> reachable sv wk gv msg (run_of sv rq calls w)"
  unfolding run_of_def by (induction calls arbitrary: w) (auto intro: reachable.intros)

lemma founded_reachable: "reachable plain_services plain_worker plain_guard msg founded"
proof -
  have "reachable plain_services plain_worker plain_guard msg (snd (create_superadmin (sv_lib plain_services) ''r@mp'' ''longpassword'' [] example_world))"
    by (intro reachable.operator reachable.start) (simp add: example_world_def)
  then show ?thesis
    unfolding founded_def by (intro reachable.admin_request) (simp add: plain_services_def)
qed

lemma founded_ok: "log_ok plain_crypto (w_db founded)" "unique_names (w_db founded)"
  using reachable_ok [OF founded_reachable plain_settings_ok plain_same_platform]
  by (simp_all add: platform_ok_def plain_services_def)

lemma scenario_versions:
  "map mv_state (db_versions (w_db (run_of plain_services admin_rq (take 3 scenario_calls) founded))) = [REGISTERED]"
  by code_simp

lemma add_dataset_succeeds: "fst (handle_call plain_services admin_rq (hd scenario_calls) founded) = Inr ()"
  by code_simp

section \<open>Witnesses\<close>

theorem requests_keep_log_and_names_witness:
  "log_ok plain_crypto (w_db (snd (handle_call plain_services admin_rq (hd scenario_calls) founded)))
    \<and> unique_names (w_db (snd (handle_admin plain_services admin_rq (UpdateTenant ''a'' (Some TEAM) None) founded)))"
  using requests_keep_log_and_names [of plain_services founded admin_rq "hd scenario_calls" "UpdateTenant ''a'' (Some TEAM) None"]
    plain_settings_ok founded_ok
  by (simp add: settings_ok_def plain_services_def)





theorem attestation_verifies_witness:
  "\<exists>document. sign_document example_crypto ''k'' [(''state'', JStr ''clean'')] = Inr document
    \<and> attest_verify example_crypto document (Some (c_public example_crypto ''k'')) = Inr True"
proof -
  obtain m where "canonical_json (JObj [(''state'', JStr ''clean'')]) = Some m"
    by (simp add: canonical_json_def)
  then have "sign_document example_crypto ''k'' [(''state'', JStr ''clean'')]
      = Inr [(''state'', JStr ''clean''), (''signature'', JStr (sign example_crypto ''k'' m))]"
    by (simp add: sign_document_def)
  with attestation_verifies [OF example_laws this] show ?thesis by simp
qed

end
