(* ===== verification/MP_Export.thy ===== *)
theory MP_Export
  imports MP_Schema MP_Json
begin

text \<open>
  What a passport is exported to: the Graphviz graphs of its pipeline and lineage
  (\<^verbatim>\<open>report/dag.py\<close>) and the JSON-LD graph (\<^verbatim>\<open>core/jsonld.py\<close>). A datetime of the record is its
  \<^verbatim>\<open>isoformat\<close> text, a UUID its \<^verbatim>\<open>str\<close>; \<open>float_repr\<close> is the text \<^verbatim>\<open>json.dumps\<close> writes for a metric.

  The lemmas: a DOT literal is read back to exactly the text it quotes, so no name in a passport
  can break out of it, and the JSON-LD graph refers to stages and agents that it contains.
\<close>

section \<open>Graphviz\<close>

fun kind_color :: "artifact_kind \<Rightarrow> string" where
  "kind_color DATASET = ''#dbeafe''"
| "kind_color MODEL = ''#dcfce7''"
| "kind_color SCRIPT = ''#f3f4f6''"
| "kind_color CONFIG = ''#f3f4f6''"
| "kind_color OTHER = ''#fef9c3''"

text \<open>The three \<^verbatim>\<open>str.replace\<close> calls together rewrite each character on its own.\<close>

definition dot_char :: "char \<Rightarrow> string" where
  "dot_char c = (if c = CHR 0x5C then [CHR 0x5C, CHR 0x5C]
     else if c = CHR 0x22 then [CHR 0x5C, CHR 0x22]
     else if c = CHR 0x0A then [CHR 0x5C, CHR ''n'']
     else [c])"

definition dot_quote :: "string \<Rightarrow> string" where
  "dot_quote s = [CHR 0x22] @ concat (map dot_char s) @ [CHR 0x22]"

definition pipeline_paths :: "passport \<Rightarrow> string list" where
  "pipeline_paths p = sort (remdups (concat (map (\<lambda>s. map ar_path (ps_inputs s) @ map ar_path (ps_outputs s))
     (pp_pipeline p))))"

definition path_line :: "passport \<Rightarrow> string \<Rightarrow> string" where
  "path_line p path =
     (let kind = (case map_of (dict_of (map (\<lambda>a. (ar_path a, ar_kind a)) (pp_artifacts p))) path of
                    None \<Rightarrow> OTHER | Some k \<Rightarrow> k)
      in ''  '' @ dot_quote path @ '' [shape=ellipse, style=filled, fillcolor='' @ [CHR 0x22]
         @ kind_color kind @ [CHR 0x22] @ ''];'')"

definition stage_lines :: "pipeline_stage \<Rightarrow> string list" where
  "stage_lines s =
     (let node = dot_quote (''stage:'' @ ps_name s); q = [CHR 0x22]
      in [''  '' @ node @ '' [label='' @ dot_quote (ps_name s) @ '', shape=box, style='' @ q @ ''rounded,filled'' @ q
            @ '', fillcolor='' @ q @ ''#1f2937'' @ q @ '', fontcolor='' @ q @ ''white'' @ q @ ''];'']
         @ map (\<lambda>i. ''  '' @ dot_quote (ar_path i) @ '' -> '' @ node @ '';'') (ps_inputs s)
         @ map (\<lambda>x. ''  '' @ node @ '' -> '' @ dot_quote (ar_path x) @ '';'') (ps_outputs s))"

definition pipeline_dot :: "passport \<Rightarrow> string" where
  "pipeline_dot p =
     (let q = [CHR 0x22]
      in py_join [CHR 0x0A]
        ([''digraph pipeline {'',
          ''  rankdir=LR; bgcolor='' @ q @ ''transparent'' @ q @ '';'',
          ''  node [fontname='' @ q @ ''Helvetica'' @ q @ '', fontsize=11];'']
         @ map (path_line p) (pipeline_paths p)
         @ concat (map stage_lines (pp_pipeline p)) @ [''}'']))"

definition name_or :: "string dict \<Rightarrow> string \<Rightarrow> string \<Rightarrow> string" where
  "name_or names uid fallback = (case map_of names uid of None \<Rightarrow> fallback | Some n \<Rightarrow> n)"

definition link_lines :: "string dict \<Rightarrow> string \<Rightarrow> string \<Rightarrow> string list" where
  "link_lines names me uid =
     (let q = [CHR 0x22]
      in [''  '' @ dot_quote uid @ '' [label='' @ dot_quote (name_or names uid (take 8 uid))
            @ '', fillcolor='' @ q @ ''#e5e7eb'' @ q @ ''];'',
          ''  '' @ dot_quote uid @ '' -> '' @ dot_quote me @ '' [label='' @ q @ ''upstream'' @ q @ ''];''])"

definition revision_lines :: "string dict \<Rightarrow> passport \<Rightarrow> string \<Rightarrow> string list" where
  "revision_lines names p me = (case pp_revision p of None \<Rightarrow> []
     | Some r \<Rightarrow>
        (let q = [CHR 0x22]; uid = rv_previous_passport_id r;
             fallback = id_model_name (pp_identity p) @ [CHR 0x0A] @ ''v'' @ rv_previous_version r
         in [''  '' @ dot_quote uid @ '' [label='' @ dot_quote (name_or names uid fallback)
               @ '', fillcolor='' @ q @ ''#f3f4f6'' @ q @ ''];'',
             ''  '' @ dot_quote uid @ '' -> '' @ dot_quote me @ '' [label='' @ q @ ''superseded by'' @ q @ '', style=dashed];'']))"

definition lineage_dot :: "passport \<Rightarrow> string dict \<Rightarrow> string" where
  "lineage_dot p names =
     (let q = [CHR 0x22]; me = id_passport_id (pp_identity p);
          label = name_or names me (id_model_name (pp_identity p) @ [CHR 0x0A] @ ''v'' @ id_version (pp_identity p))
      in py_join [CHR 0x0A]
        ([''digraph lineage {'',
          ''  rankdir=LR; bgcolor='' @ q @ ''transparent'' @ q @ '';'',
          ''  node [fontname='' @ q @ ''Helvetica'' @ q @ '', fontsize=11, shape=box, style='' @ q @ ''rounded,filled'' @ q @ ''];'',
          ''  '' @ dot_quote me @ '' [label='' @ dot_quote label @ '', fillcolor='' @ q @ ''#dcfce7'' @ q @ ''];'']
         @ concat (map (link_lines names me) (pp_lineage_links p))
         @ revision_lines names p me @ [''}'']))"

subsection \<open>Reading a literal back\<close>

text \<open>
  Graphviz ends a literal at the first quote that no backslash precedes; \<open>dot_read\<close> undoes the
  escapes up to there and answers the rest of the input.
\<close>

fun dot_read :: "string \<Rightarrow> (string \<times> string) option" where
  "dot_read [] = None"
| "dot_read (c # r) =
     (if c = CHR 0x22 then Some ([], r)
      else if c = CHR 0x5C then (case r of [] \<Rightarrow> None
        | d # r' \<Rightarrow> map_option (\<lambda>(s, t). ((if d = CHR ''n'' then CHR 0x0A else d) # s, t)) (dot_read r'))
      else map_option (\<lambda>(s, t). (c # s, t)) (dot_read r))"

definition dot_unquote :: "string \<Rightarrow> (string \<times> string) option" where
  "dot_unquote s = (case s of [] \<Rightarrow> None | c # r \<Rightarrow> if c = CHR 0x22 then dot_read r else None)"

lemma dot_read_chars: "dot_read (concat (map dot_char s) @ CHR 0x22 # r) = Some (s, r)"
  by (induction s) (auto simp: dot_char_def)

text \<open>
  A text quoted for Graphviz is read back as exactly that text, whatever follows it: quotes,
  backslashes and newlines in a path, a stage name or a model name cannot end the literal early.
\<close>

theorem dot_literal_round_trip: "dot_unquote (dot_quote s @ r) = Some (s, r)"
  by (simp add: dot_quote_def dot_unquote_def dot_read_chars)

section \<open>JSON-LD\<close>

definition CONTEXT :: json where
  "CONTEXT =
     (let ref = (\<lambda>iri. JObj [(''@id'', JStr iri), (''@type'', JStr ''@id'')]);
          instant = (\<lambda>iri. JObj [(''@id'', JStr iri), (''@type'', JStr ''xsd:dateTime'')])
      in JObj [(''prov'', JStr ''http://www.w3.org/ns/prov#''), (''dcat'', JStr ''http://www.w3.org/ns/dcat#''),
        (''dcterms'', JStr ''http://purl.org/dc/terms/''), (''mls'', JStr ''http://www.w3.org/ns/mls#''),
        (''xsd'', JStr ''http://www.w3.org/2001/XMLSchema#''),
        (''mp'', JStr ''https://github.com/r7bb/Model-Passport/ns#''),
        (''used'', ref ''prov:used''), (''wasGeneratedBy'', ref ''prov:wasGeneratedBy''),
        (''wasAssociatedWith'', ref ''prov:wasAssociatedWith''), (''wasDerivedFrom'', ref ''prov:wasDerivedFrom''),
        (''startedAtTime'', instant ''prov:startedAtTime''), (''endedAtTime'', instant ''prov:endedAtTime''),
        (''generatedAtTime'', instant ''prov:generatedAtTime'')])"

fun kind_types :: "artifact_kind \<Rightarrow> string list" where
  "kind_types DATASET = [''prov:Entity'', ''dcat:Dataset'']"
| "kind_types MODEL = [''prov:Entity'', ''mls:Model'']"
| "kind_types SCRIPT = [''prov:Entity'', ''prov:Plan'', ''mls:Implementation'']"
| "kind_types CONFIG = [''prov:Entity'', ''prov:Plan'']"
| "kind_types OTHER = [''prov:Entity'']"

abbreviation jstrs :: "string list \<Rightarrow> json" where
  "jstrs xs \<equiv> JArr (map JStr xs)"

definition artifact_id :: "string \<Rightarrow> string" where
  "artifact_id sha256 = ''urn:sha256:'' @ sha256"

definition agent_nodes :: "passport \<Rightarrow> string \<Rightarrow> json dict list" where
  "agent_nodes p pid =
     [[(''@id'', JStr ''mp:model-passport''), (''@type'', jstrs [''prov:Agent'', ''prov:SoftwareAgent''])]]
     @ (case de_owner (pp_declared p) of None \<Rightarrow> []
        | Some owner \<Rightarrow> if owner = [] then [] else
            [[(''@id'', JStr (pid @ ''#owner'')), (''@type'', jstrs [''prov:Agent'']), (''dcterms:title'', JStr owner)]])"

definition artifact_node :: "artifact_ref \<Rightarrow> string option \<Rightarrow> json dict" where
  "artifact_node a generated_by =
     [(''@id'', JStr (artifact_id (ar_sha256 a))), (''@type'', jstrs (kind_types (ar_kind a))),
      (''dcterms:identifier'', JStr (ar_path a)), (''mp:sha256'', JStr (ar_sha256 a)),
      (''dcat:byteSize'', JInt (ar_size_bytes a))]
     @ (case generated_by of None \<Rightarrow> [] | Some g \<Rightarrow> if g = [] then [] else [(''wasGeneratedBy'', JStr g)])"

definition activity_id :: "string \<Rightarrow> nat \<Rightarrow> pipeline_stage \<Rightarrow> string" where
  "activity_id pid index s = pid @ ''#stage-'' @ nat_str index @ ''-'' @ ps_name s"

definition opt_json :: "string option \<Rightarrow> json" where
  "opt_json x = (case x of None \<Rightarrow> JNull | Some s \<Rightarrow> JStr s)"

definition activity_node :: "string \<Rightarrow> string list \<Rightarrow> nat \<Rightarrow> pipeline_stage \<Rightarrow> json dict" where
  "activity_node pid agent_ids index s =
     [(''@id'', JStr (activity_id pid index s)), (''@type'', jstrs [''prov:Activity'', ''mls:Run'']),
      (''dcterms:title'', JStr (ps_name s)),
      (''used'', jstrs (map (\<lambda>i. artifact_id (ar_sha256 i)) (ps_inputs s) @ [artifact_id (ps_script_sha256 s)])),
      (''wasAssociatedWith'', jstrs agent_ids), (''mp:parameters'', JObj (ps_parameters s)),
      (''mp:gitCommit'', opt_json (ps_git_commit s))]
     @ (case ps_started_at s of None \<Rightarrow> [] | Some t \<Rightarrow> [(''startedAtTime'', JStr t)])
     @ (case ps_ended_at s of None \<Rightarrow> [] | Some t \<Rightarrow> [(''endedAtTime'', JStr t)])"

text \<open>The loop over \<^verbatim>\<open>enumerate(passport.pipeline)\<close>: the activities and who made which output.\<close>

fun stage_nodes :: "string \<Rightarrow> string list \<Rightarrow> nat \<Rightarrow> pipeline_stage list
    \<Rightarrow> json dict list \<times> string dict \<Rightarrow> json dict list \<times> string dict" where
  "stage_nodes pid agent_ids index [] acc = acc"
| "stage_nodes pid agent_ids index (s # ss) (activities, generated_by) =
     stage_nodes pid agent_ids (Suc index) ss
       (activities @ [activity_node pid agent_ids index s],
        fold (\<lambda>x. AList.update (ar_path x) (activity_id pid index s)) (ps_outputs s) generated_by)"

definition passport_node :: "(rat \<Rightarrow> string) \<Rightarrow> passport \<Rightarrow> string \<Rightarrow> string list \<Rightarrow> json dict" where
  "passport_node float_repr p pid agent_ids =
     (let ident = pp_identity p in
      [(''@id'', JStr pid), (''@type'', jstrs [''prov:Entity'', ''mp:Passport'']),
       (''dcterms:title'', JStr (id_model_name ident @ '' '' @ id_version ident)),
       (''generatedAtTime'', JStr (id_created_at ident)), (''wasAssociatedWith'', jstrs agent_ids),
       (''mp:merkleRoot'', JStr (id_merkle_root ident)),
       (''mp:publicKeyFingerprint'', JStr (id_public_key_fingerprint ident)),
       (''wasDerivedFrom'', jstrs (map (\<lambda>a. artifact_id (ar_sha256 a)) (pp_artifacts p)
          @ map (\<lambda>l. ''urn:uuid:'' @ l) (pp_lineage_links p)))]
      @ (case pp_revision p of None \<Rightarrow> [] | Some r \<Rightarrow>
          [(''prov:wasRevisionOf'', JObj [(''@id'', JStr (''urn:uuid:'' @ rv_previous_passport_id r))])])
      @ (case pp_model p of None \<Rightarrow> [] | Some m \<Rightarrow>
          [(''mp:model'', JStr (artifact_id (mi_artifact_sha256 m))), (''mls:implements'', opt_json (mi_algorithm m))])
      @ (case pp_policy p of None \<Rightarrow> [] | Some r \<Rightarrow> [(''mp:verdict'', JStr (verdict_value (po_verdict r)))])
      @ (if pp_metrics p = [] then [] else
          [(''mls:hasOutput'', JArr (concat (map (\<lambda>(split, values). map (\<lambda>(name, value).
              JObj [(''@type'', JStr ''mls:ModelEvaluation''), (''mp:split'', JStr split),
                    (''mls:specifiedBy'', JStr name), (''mls:hasValue'', JFloat (float_repr value))]) values)
              (pp_metrics p))))]))"

definition node_id :: "json dict \<Rightarrow> string" where
  "node_id n = (case map_of n ''@id'' of Some (JStr s) \<Rightarrow> s | _ \<Rightarrow> [])"

definition passport_urn :: "passport \<Rightarrow> string" where
  "passport_urn p = ''urn:uuid:'' @ id_passport_id (pp_identity p)"

definition jsonld_graph :: "(rat \<Rightarrow> string) \<Rightarrow> passport \<Rightarrow> json dict list" where
  "jsonld_graph float_repr p =
     (let pid = passport_urn p;
          agents = agent_nodes p pid;
          agent_ids = map node_id agents;
          (activities, generated_by) = stage_nodes pid agent_ids 0 (pp_pipeline p) ([], []);
          artifacts = map (\<lambda>a. artifact_node a (map_of generated_by (ar_path a))) (pp_artifacts p)
      in agents @ artifacts @ activities @ [passport_node float_repr p pid agent_ids])"

definition to_jsonld :: "(rat \<Rightarrow> string) \<Rightarrow> passport \<Rightarrow> json" where
  "to_jsonld float_repr p = JObj [(''@context'', CONTEXT), (''@graph'', JArr (map JObj (jsonld_graph float_repr p)))]"

subsection \<open>The graph is closed\<close>

lemma stage_nodes_enumerate:
  "stage_nodes pid ids i ss (acts, g) =
     (acts @ map (\<lambda>(i, s). activity_node pid ids i s) (enumerate i ss),
      fold (\<lambda>(i, s). fold (\<lambda>x. AList.update (ar_path x) (activity_id pid i s)) (ps_outputs s)) (enumerate i ss) g)"
  by (induction ss arbitrary: i acts g) auto

lemma map_of_fold_update:
  "map_of (fold (\<lambda>x. AList.update (f x) v) xs g) k = (if k \<in> f ` set xs then Some v else map_of g k)"
  by (induction xs arbitrary: g) (auto simp: update_conv')

text \<open>An artifact's generator is the last stage that lists it as an output.\<close>

definition generator :: "pipeline_stage list \<Rightarrow> string \<Rightarrow> (nat \<times> pipeline_stage) option" where
  "generator stages path = List.find (\<lambda>(i, s). path \<in> ar_path ` set (ps_outputs s)) (rev (enumerate 0 stages))"

lemma generated_by_generator:
  "map_of (snd (stage_nodes pid ids 0 ss ([], []))) path = map_option (\<lambda>(i, s). activity_id pid i s) (generator ss path)"
proof -
  have "map_of (fold (\<lambda>(i, s). fold (\<lambda>x. AList.update (ar_path x) (activity_id pid i s)) (ps_outputs s)) es []) path
    = map_option (\<lambda>(i, s). activity_id pid i s) (List.find (\<lambda>(i, s). path \<in> ar_path ` set (ps_outputs s)) (rev es))" for es
    by (induction es rule: rev_induct) (auto simp: map_of_fold_update split_beta)
  then show ?thesis by (simp add: stage_nodes_enumerate generator_def)
qed

lemma node_id_activity [simp]: "node_id (activity_node pid ids i s) = activity_id pid i s"
  by (simp add: node_id_def activity_node_def)

lemma activity_id_inject: "activity_id pid i s = activity_id pid j t \<Longrightarrow> i = j"
proof -
  assume "activity_id pid i s = activity_id pid j t"
  then have eq: "nat_str i @ CHR ''-'' # ps_name s = nat_str j @ CHR ''-'' # ps_name t"
    by (simp add: activity_id_def)
  have "takeWhile is_digit (nat_str k @ CHR ''-'' # r) = nat_str k" for k r
    using nat_str_digits by (subst takeWhile_append2) (auto simp: is_digit_def less_eq_char_def)
  with eq have "nat_str i = nat_str j" by metis
  then show "i = j" by simp
qed

text \<open>
  C2. The exported graph is closed: whoever is named as associated with a node is an agent of the graph,
  whatever an artifact was generated by is an activity of the graph, namely the last stage that lists
  the artifact's path as an output, and no two stages share an identifier.
\<close>

abbreviation agent_ids_of :: "passport \<Rightarrow> string list" where
  "agent_ids_of p \<equiv> map node_id (agent_nodes p (passport_urn p))"

lemma set_jsonld_graph:
  "set (jsonld_graph float_repr p) = set (agent_nodes p (passport_urn p))
     \<union> (\<lambda>a. artifact_node a (map_option (\<lambda>(i, s). activity_id (passport_urn p) i s) (generator (pp_pipeline p) (ar_path a))))
         ` set (pp_artifacts p)
     \<union> (\<lambda>(i, s). activity_node (passport_urn p) (agent_ids_of p) i s) ` set (enumerate 0 (pp_pipeline p))
     \<union> {passport_node float_repr p (passport_urn p) (agent_ids_of p)}"
  by (simp add: jsonld_graph_def Let_def split_beta generated_by_generator)
    (simp add: stage_nodes_enumerate split_beta Un_assoc)

lemma graph_node_cases:
  assumes "n \<in> set (jsonld_graph float_repr p)"
  obtains "n \<in> set (agent_nodes p (passport_urn p))"
  | a where "n = artifact_node a (map_option (\<lambda>(i, s). activity_id (passport_urn p) i s) (generator (pp_pipeline p) (ar_path a)))"
  | i s where "n = activity_node (passport_urn p) (agent_ids_of p) i s"
  | "n = passport_node float_repr p (passport_urn p) (agent_ids_of p)"
  using assms unfolding set_jsonld_graph by (elim UnE imageE) (auto simp: split_beta)

lemma graph_agents: "set (agent_nodes p (passport_urn p)) \<subseteq> set (jsonld_graph float_repr p)"
  unfolding set_jsonld_graph by blast

lemma graph_activities:
  assumes "(i, s) \<in> set (enumerate 0 (pp_pipeline p))"
  shows "activity_id (passport_urn p) i s \<in> node_id ` set (jsonld_graph float_repr p)"
proof -
  have "activity_node (passport_urn p) (agent_ids_of p) i s \<in> set (jsonld_graph float_repr p)"
    unfolding set_jsonld_graph using assms by force
  then show ?thesis by (metis imageI node_id_activity)
qed

lemma generator_enumerate: "generator ss path = Some (i, s) \<Longrightarrow> (i, s) \<in> set (enumerate 0 ss)"
  unfolding generator_def find_Some_iff by (metis length_rev nth_mem set_rev)

lemma associated_agents:
  assumes "n \<in> set (jsonld_graph float_repr p)" "map_of n ''wasAssociatedWith'' = Some (jstrs l)"
  shows "set l \<subseteq> node_id ` set (jsonld_graph float_repr p)"
proof -
  let ?A = "agent_nodes p (passport_urn p)"
  have inj: "map JStr xs = map JStr ys \<Longrightarrow> xs = ys" for xs ys
    by (simp add: inj_map_eq_map inj_def)
  have "l = map node_id ?A"
    using assms(1)
  proof (cases rule: graph_node_cases)
    case 1
    then show ?thesis using assms(2) by (auto simp: agent_nodes_def split: option.splits if_splits)
  next
    case (2 a)
    then show ?thesis using assms(2) by (auto simp: artifact_node_def split: option.splits if_splits)
  qed (use assms(2) in \<open>auto simp: activity_node_def passport_node_def Let_def simp del: map_map dest!: inj\<close>)
  then show ?thesis using graph_agents by fastforce
qed

lemma generated_by_activity:
  assumes "n \<in> set (jsonld_graph float_repr p)" "map_of n ''wasGeneratedBy'' = Some (JStr g)"
  obtains i s path where "map_of n ''dcterms:identifier'' = Some (JStr path)"
    "generator (pp_pipeline p) path = Some (i, s)"
    "g = activity_id (passport_urn p) i s"
  using assms(1)
proof (cases rule: graph_node_cases)
  case (2 a)
  then have "map_of n ''dcterms:identifier'' = Some (JStr (ar_path a))"
    by (simp add: artifact_node_def)
  with 2 assms(2) that show ?thesis
    by (auto simp: artifact_node_def split: option.splits if_splits prod.splits)
qed (use assms(2) in \<open>auto simp: agent_nodes_def activity_node_def passport_node_def Let_def
      split: option.splits if_splits\<close>)

lemma distinct_activity_ids: "distinct (map (\<lambda>(i, s). activity_id pid i s) (enumerate k ss))"
  by (auto simp: distinct_conv_nth nth_enumerate_eq dest: activity_id_inject)

theorem jsonld_graph_closed:
  "{a. \<exists>n \<in> set (jsonld_graph float_repr p). \<exists>l. map_of n ''wasAssociatedWith'' = Some (jstrs l) \<and> a \<in> set l}
     \<subseteq> node_id ` set (jsonld_graph float_repr p)
   \<and> {(path, g). \<exists>n \<in> set (jsonld_graph float_repr p). map_of n ''dcterms:identifier'' = Some (JStr path)
        \<and> map_of n ''wasGeneratedBy'' = Some (JStr g)}
     \<subseteq> {(path, activity_id (passport_urn p) i s) | path i s.
          generator (pp_pipeline p) path = Some (i, s)}
   \<and> {activity_id (passport_urn p) i s | i s path.
          generator (pp_pipeline p) path = Some (i, s)} \<subseteq> node_id ` set (jsonld_graph float_repr p)
   \<and> distinct (map (\<lambda>(i, s). activity_id (passport_urn p) i s)
        (enumerate 0 (pp_pipeline p)))"
proof (intro conjI)
  show "{a. \<exists>n \<in> set (jsonld_graph float_repr p). \<exists>l. map_of n ''wasAssociatedWith'' = Some (jstrs l) \<and> a \<in> set l}
     \<subseteq> node_id ` set (jsonld_graph float_repr p)"
    using associated_agents by blast
  show "{(path, g). \<exists>n \<in> set (jsonld_graph float_repr p). map_of n ''dcterms:identifier'' = Some (JStr path)
        \<and> map_of n ''wasGeneratedBy'' = Some (JStr g)}
     \<subseteq> {(path, activity_id (passport_urn p) i s) | path i s.
          generator (pp_pipeline p) path = Some (i, s)}"
    by (auto elim: generated_by_activity)
  show "{activity_id (passport_urn p) i s | i s path.
          generator (pp_pipeline p) path = Some (i, s)} \<subseteq> node_id ` set (jsonld_graph float_repr p)"
    using graph_activities generator_enumerate by blast
qed (rule distinct_activity_ids)

end
