(* ===== verification/MP_Registry.thy ===== *)
theory MP_Registry
  imports MP_Verifier MP_Export
begin

text \<open>
  The passport registry: its table (\<^verbatim>\<open>registry/db.py\<close>) and its HTTP service (\<^verbatim>\<open>registry/api.py\<close>),
  which takes signed passports, lets their owners append lifecycle events, and answers searches,
  verifications and lineages.

  The state is the table, a list of rows in the order they were inserted. A request is a
  computation over it; \<open>RegHTTP\<close> is an \<^verbatim>\<open>HTTPException\<close>, \<open>ServerError\<close> any other exception, which
  the framework answers with status 500. Reading the body against the pydantic request models is
  left to the framework; \<^verbatim>\<open>model_validate\<close> of passports and events, the PEM reader, the text SQLite
  stores for a float, \<^verbatim>\<open>str\<close> of a JSON value that is no text and the HTML page are parameters.
\<close>

section \<open>The table\<close>

record stored_passport =
  st_passport_id :: string
  st_model_name :: string
  st_version :: string
  st_created_at :: string
  st_verdict :: "string option"
  st_merkle_root :: string
  st_key_fingerprint :: string
  st_supersedes :: "string option"
  st_public_key_pem :: string
  st_document :: "json dict"
  st_uploaded_at :: string

type_synonym registry_db = "stored_passport list"

datatype pem_result = BadPem | PemUnsupported | OtherKey | Ed25519Key bytes

record registry_lib =
  rl_crypto :: crypto
  rl_validate :: "json dict \<Rightarrow> passport option"
  rl_validate_event :: "json dict \<Rightarrow> bool"
  rl_load_pem :: "string \<Rightarrow> pem_result"
  rl_real_text :: "string \<Rightarrow> string"
  rl_str :: "json \<Rightarrow> string"
  rl_float :: "rat \<Rightarrow> string"
  rl_html :: "passport \<Rightarrow> verification_report \<Rightarrow> string"

text \<open>
  What SQLite stores in a \<^verbatim>\<open>TEXT\<close> column: \<open>None\<close> where the driver refuses to bind the value (lists,
  objects, integers beyond 64 bits), \<open>Some None\<close> for NULL.
\<close>

definition sql_text :: "registry_lib \<Rightarrow> json \<Rightarrow> string option option" where
  "sql_text lib j = (case j of
      JNull \<Rightarrow> Some None
    | JStr s \<Rightarrow> Some (Some s)
    | JBool b \<Rightarrow> Some (Some (if b then ''1'' else ''0''))
    | JInt i \<Rightarrow> if - (2 ^ 63) \<le> i \<and> i < 2 ^ 63 then Some (Some (int_str i)) else None
    | JFloat t \<Rightarrow> Some (Some (rl_real_text lib t))
    | _ \<Rightarrow> None)"

text \<open>\<^verbatim>\<open>d[k]\<close> and \<^verbatim>\<open>d.get(k)\<close> as a cell of the row; a missing key of the first is a \<^verbatim>\<open>KeyError\<close>.\<close>

definition req_cell :: "registry_lib \<Rightarrow> json dict \<Rightarrow> string \<Rightarrow> string option option" where
  "req_cell lib d k = Option.bind (map_of d k) (sql_text lib)"

definition opt_cell :: "registry_lib \<Rightarrow> json dict \<Rightarrow> string \<Rightarrow> string option option" where
  "opt_cell lib d k = (case map_of d k of None \<Rightarrow> Some None | Some j \<Rightarrow> sql_text lib j)"

text \<open>\<^verbatim>\<open>document.get(k) or {}\<close>; \<open>None\<close> where the value has no \<^verbatim>\<open>get\<close>.\<close>

definition sub_dict :: "json dict \<Rightarrow> string \<Rightarrow> json dict option" where
  "sub_dict doc k = (case map_of doc k of
      None \<Rightarrow> Some []
    | Some (JObj d) \<Rightarrow> Some d
    | Some j \<Rightarrow> if json_falsy j then Some [] else None)"

definition json_len :: "json \<Rightarrow> nat option" where
  "json_len j = (case j of JArr xs \<Rightarrow> Some (length xs) | JObj d \<Rightarrow> Some (length d) | JStr s \<Rightarrow> Some (length s) | _ \<Rightarrow> None)"

text \<open>\<open>None\<close> where \<^verbatim>\<open>len\<close> raises.\<close>

definition summary :: "stored_passport \<Rightarrow> json dict option" where
  "summary s =
     map_option (\<lambda>events.
       [(''passport_id'', JStr (st_passport_id s)), (''model_name'', JStr (st_model_name s)),
        (''version'', JStr (st_version s)), (''created_at'', JStr (st_created_at s)),
        (''verdict'', opt_json (st_verdict s)), (''merkle_root'', JStr (st_merkle_root s)),
        (''key_fingerprint'', JStr (st_key_fingerprint s)), (''supersedes'', opt_json (st_supersedes s)),
        (''events'', JInt (int events)), (''uploaded_at'', JStr (st_uploaded_at s))])
     (case map_of (st_document s) ''events'' of
        None \<Rightarrow> Some 0 | Some j \<Rightarrow> if json_falsy j then Some 0 else json_len j)"

definition get_row :: "registry_db \<Rightarrow> string \<Rightarrow> stored_passport option" where
  "get_row db pid = List.find (\<lambda>s. st_passport_id s = pid) db"

datatype insert_error = DuplicatePassport string | InsertRaises

text \<open>
  The row of an upload. A NULL in a required column is an \<^verbatim>\<open>IntegrityError\<close> and reported as a
  duplicate. (A NULL \<open>passport_id\<close>, which no validated passport has, makes the read after the
  insert raise.)
\<close>

definition row_cells :: "registry_lib \<Rightarrow> json dict \<Rightarrow> string option list option" where
  "row_cells lib doc =
     (case (map_of doc ''identity'', sub_dict doc ''policy'', sub_dict doc ''revision'') of
        (Some (JObj ident), Some policy, Some revision) \<Rightarrow>
          all_some [req_cell lib ident ''passport_id'', req_cell lib ident ''model_name'', req_cell lib ident ''version'',
            req_cell lib ident ''created_at'', opt_cell lib policy ''verdict'', req_cell lib ident ''merkle_root'',
            req_cell lib ident ''public_key_fingerprint'', opt_cell lib revision ''previous_passport_id'']
      | _ \<Rightarrow> None)"

definition new_row :: "registry_lib \<Rightarrow> json dict \<Rightarrow> string \<Rightarrow> string \<Rightarrow> insert_error + stored_passport" where
  "new_row lib doc pem uploaded_at = (case row_cells lib doc of
      Some [Some pid, Some mn, Some vs, Some ca, verdict, Some mr, Some fp, prev] \<Rightarrow>
        Inr \<lparr> st_passport_id = pid, st_model_name = mn, st_version = vs, st_created_at = ca,
              st_verdict = verdict, st_merkle_root = mr, st_key_fingerprint = fp, st_supersedes = prev,
              st_public_key_pem = pem, st_document = doc, st_uploaded_at = uploaded_at \<rparr>
    | Some (Some pid # _) \<Rightarrow> Inl (DuplicatePassport pid)
    | _ \<Rightarrow> Inl InsertRaises)"

definition add_row :: "registry_db \<Rightarrow> stored_passport \<Rightarrow> registry_db option" where
  "add_row db s = (if get_row db (st_passport_id s) \<noteq> None then None else Some (db @ [s]))"

definition insert_passport :: "registry_lib \<Rightarrow> json dict \<Rightarrow> string \<Rightarrow> string \<Rightarrow> (insert_error, registry_db, stored_passport) act" where
  "insert_passport lib doc pem uploaded_at db =
     (case new_row lib doc pem uploaded_at of
        Inl e \<Rightarrow> (Inl e, db)
      | Inr s \<Rightarrow> (case add_row db s of
          None \<Rightarrow> (Inl (DuplicatePassport (st_passport_id s)), db)
        | Some db' \<Rightarrow> (Inr s, db')))"

definition replace_document :: "string \<Rightarrow> json dict \<Rightarrow> registry_db \<Rightarrow> registry_db" where
  "replace_document pid doc = map (\<lambda>s. if st_passport_id s = pid then s\<lparr> st_document := doc \<rparr> else s)"

text \<open>Rows with equal \<open>created_at\<close> keep the order of insertion here; SQL leaves it open.\<close>

definition search :: "registry_db \<Rightarrow> string option \<Rightarrow> string option \<Rightarrow> nat \<Rightarrow> stored_passport list" where
  "search db model_name verdict limit =
     (let wanted = (\<lambda>filter_value column. case filter_value of
            None \<Rightarrow> True | Some v \<Rightarrow> v = [] \<or> column = Some v);
          rows = filter (\<lambda>s. wanted model_name (Some (st_model_name s)) \<and> wanted verdict (st_verdict s)) db
      in take limit (rev (sort_key st_created_at (rev rows))))"

definition models :: "registry_db \<Rightarrow> json dict list" where
  "models db = map (\<lambda>name.
       let rows = filter (\<lambda>s. st_model_name s = name) db
       in [(''model_name'', JStr name), (''passports'', JInt (int (length rows))),
           (''latest'', JStr (fold max (map st_created_at rows) []))])
     (sort (remdups (map st_model_name db)))"

section \<open>The service\<close>

definition VERSION :: string where "VERSION = ''0.2.0''"

definition MAX_LINEAGE_DEPTH :: nat where "MAX_LINEAGE_DEPTH = 20"

datatype registry_problem =
    ReportError verification_error
  | EventProblem event_problem
  | SignatureInvalid
  | MerkleMismatch
  | FingerprintMismatch

datatype registry_detail =
    InvalidPublicKey
  | NotEd25519
  | BadToken
  | PassportNotFound string
  | PassportExists string
  | FailedVerification "registry_problem list"
  | EventRejected "event_problem list"
  | LimitOutOfRange

datatype registry_error = RegHTTP nat registry_detail | ServerError

type_synonym 'a registry_act = "(registry_error, registry_db, 'a) act"

record verification_response =
  vs_passport_id :: string
  vs_ok :: bool
  vs_signature_ok :: bool
  vs_merkle_ok :: bool
  vs_fingerprint_ok :: bool
  vs_key_trusted :: "bool option"
  vs_event_errors :: "registry_problem list"

record registry_context =
  rc_token :: "string option"
  rc_trusted_fingerprints :: "string list option"

definition load_key :: "registry_lib \<Rightarrow> string \<Rightarrow> registry_error + bytes" where
  "load_key lib pem = (case rl_load_pem lib pem of
      BadPem \<Rightarrow> Inl (RegHTTP 422 InvalidPublicKey)
    | PemUnsupported \<Rightarrow> Inl ServerError
    | OtherKey \<Rightarrow> Inl (RegHTTP 422 NotEd25519)
    | Ed25519Key k \<Rightarrow> Inr k)"

text \<open>\<open>keys\<close> are the files of the directory, \<open>None\<close> for one that cannot be loaded.\<close>

definition trusted_fingerprints :: "crypto \<Rightarrow> bytes option list option \<Rightarrow> string list option" where
  "trusted_fingerprints c directory = map_option (\<lambda>keys.
     remdups (concat (map (\<lambda>k. case k of None \<Rightarrow> [] | Some raw \<Rightarrow> [public_key_fingerprint c raw]) keys))) directory"

definition problems :: "verification_report \<Rightarrow> registry_problem list" where
  "problems r = map ReportError (vr_errors r) @ map EventProblem (vr_event_errors r)
     @ (if \<not> vr_signature_ok r then [SignatureInvalid] else [])
     @ (if \<not> vr_merkle_ok r then [MerkleMismatch] else [])
     @ (if \<not> vr_fingerprint_ok r then [FingerprintMismatch] else [])"

definition require_token :: "registry_context \<Rightarrow> string option \<Rightarrow> unit registry_act" where
  "require_token ctx authorization = (case rc_token ctx of
      None \<Rightarrow> ret ()
    | Some token \<Rightarrow>
        let supplied = py_strip (removeprefix (case authorization of None \<Rightarrow> [] | Some a \<Rightarrow> a) ''Bearer '')
        in raise_if (supplied \<noteq> token) (RegHTTP 401 BadToken))"

definition get_stored :: "string \<Rightarrow> stored_passport registry_act" where
  "get_stored pid = bnd (gets (\<lambda>db. get_row db pid)) (\<lambda>row. case row of
      None \<Rightarrow> raise (RegHTTP 404 (PassportNotFound pid))
    | Some s \<Rightarrow> ret s)"

definition or_raise :: "'a option \<Rightarrow> 'a registry_act" where
  "or_raise x = (case x of None \<Rightarrow> raise ServerError | Some y \<Rightarrow> ret y)"

definition upload :: "registry_lib \<Rightarrow> json dict \<Rightarrow> string \<Rightarrow> string \<Rightarrow> json dict registry_act" where
  "upload lib doc pem clock =
     bnd (of_result (load_key lib pem)) (\<lambda>key.
     bnd (or_raise (verify_document (rl_crypto lib) (rl_validate lib) doc key)) (\<lambda>report.
     andthen (raise_if (\<not> vr_ok report) (RegHTTP 422 (FailedVerification (problems report))))
     (bnd (\<lambda>db. case insert_passport lib doc pem clock db of
          (Inl (DuplicatePassport pid), db') \<Rightarrow> (Inl (RegHTTP 409 (PassportExists pid)), db')
        | (Inl InsertRaises, db') \<Rightarrow> (Inl ServerError, db')
        | (Inr s, db') \<Rightarrow> (Inr s, db')) (\<lambda>stored.
     or_raise (summary stored)))))"

definition list_passports :: "string option \<Rightarrow> string option \<Rightarrow> int \<Rightarrow> json dict list registry_act" where
  "list_passports model_name verdict limit =
     andthen (raise_if (limit < 1 \<or> 1000 < limit) (RegHTTP 422 LimitOutOfRange))
     (bnd (gets (\<lambda>db. search db model_name verdict (nat limit))) (\<lambda>rows.
      or_raise (all_some (map summary rows))))"

definition verify_stored :: "registry_lib \<Rightarrow> registry_context \<Rightarrow> stored_passport \<Rightarrow> verification_response registry_act" where
  "verify_stored lib ctx stored =
     bnd (of_result (load_key lib (st_public_key_pem stored))) (\<lambda>key.
     bnd (or_raise (verify_document (rl_crypto lib) (rl_validate lib) (st_document stored) key)) (\<lambda>report.
     ret \<lparr> vs_passport_id = st_passport_id stored, vs_ok = vr_ok report, vs_signature_ok = vr_signature_ok report,
           vs_merkle_ok = vr_merkle_ok report, vs_fingerprint_ok = vr_fingerprint_ok report,
           vs_key_trusted = map_option (\<lambda>trusted. st_key_fingerprint stored \<in> set trusted) (rc_trusted_fingerprints ctx),
           vs_event_errors = map EventProblem (vr_event_errors report) @ map ReportError (vr_errors report) \<rparr>))"

text \<open>\<^verbatim>\<open>[*(document.get(k) or [])]\<close>: iterating over a text gives its characters, over an object its keys.\<close>

definition iter_json :: "json dict \<Rightarrow> string \<Rightarrow> json list option" where
  "iter_json doc k = (case map_of doc k of
      None \<Rightarrow> Some []
    | Some (JArr xs) \<Rightarrow> Some xs
    | Some (JObj d) \<Rightarrow> Some (map (\<lambda>(k, v). JStr k) d)
    | Some (JStr s) \<Rightarrow> Some (map (\<lambda>c. JStr [c]) s)
    | Some j \<Rightarrow> if json_falsy j then Some [] else None)"

definition append_stored_event :: "registry_lib \<Rightarrow> stored_passport \<Rightarrow> json dict \<Rightarrow> json dict registry_act" where
  "append_stored_event lib stored event =
     andthen (raise_if (\<not> rl_validate_event lib event) ServerError)
     (bnd (or_raise (iter_json (st_document stored) ''events'')) (\<lambda>old.
      let events = old @ [JObj event];
          document = AList.update ''events'' (JArr events) (st_document stored)
      in bnd (of_result (load_key lib (st_public_key_pem stored))) (\<lambda>key.
         bnd (or_raise (verify_events (rl_crypto lib) document key)) (\<lambda>errors.
         andthen (raise_if (errors \<noteq> []) (RegHTTP 422 (EventRejected errors)))
         (andthen (modify (replace_document (st_passport_id stored) document))
         (ret [(''passport_id'', JStr (st_passport_id stored)), (''events'', JInt (int (length events)))]))))))"

subsection \<open>Lineage\<close>

datatype relation = UPSTREAM | SUPERSEDES

text \<open>A node of the answer: a stored passport's summary, or \<^verbatim>\<open>{"passport_id": ..., "missing": True}\<close>.\<close>

datatype lineage_node = Known "json dict" | Missing string

type_synonym lineage_edge = "string \<times> string \<times> relation"

definition str_json :: "registry_lib \<Rightarrow> json \<Rightarrow> string" where
  "str_json lib j = (case j of JStr s \<Rightarrow> s | _ \<Rightarrow> rl_str lib j)"

definition parents :: "registry_lib \<Rightarrow> stored_passport \<Rightarrow> (string \<times> relation) list option" where
  "parents lib s = map_option (\<lambda>links. map (\<lambda>u. (str_json lib u, UPSTREAM)) links
       @ (case st_supersedes s of None \<Rightarrow> [] | Some p \<Rightarrow> if p = [] then [] else [(p, SUPERSEDES)]))
     (iter_json (st_document s) ''lineage_links'')"

text \<open>The loop over a node's parents threads the nodes, the edges and the next frontier.\<close>

type_synonym lineage_walk = "(string \<times> lineage_node) list \<times> lineage_edge list \<times> stored_passport list"

fun visit_parents :: "registry_db \<Rightarrow> string \<Rightarrow> (string \<times> relation) list \<Rightarrow> lineage_walk \<Rightarrow> lineage_walk" where
  "visit_parents db pid [] w = w"
| "visit_parents db pid ((parent_id, relation) # ps) (nodes, edges, next) =
     visit_parents db pid ps
       (case get_row db parent_id of
          None \<Rightarrow> (if map_of nodes parent_id = None then nodes @ [(parent_id, Missing parent_id)] else nodes,
                   edges @ [(parent_id, pid, relation)], next)
        | Some parent \<Rightarrow> (nodes, edges @ [(parent_id, pid, relation)], next @ [parent]))"

fun visit_level :: "registry_lib \<Rightarrow> registry_db \<Rightarrow> stored_passport list \<Rightarrow> lineage_walk \<Rightarrow> lineage_walk option" where
  "visit_level lib db [] w = Some w"
| "visit_level lib db (current # rest) (nodes, edges, next) =
     (case (summary current, parents lib current) of
        (Some s, Some ps) \<Rightarrow>
          visit_level lib db rest (visit_parents db (st_passport_id current) ps
            (AList.update (st_passport_id current) (Known s) nodes, edges, next))
      | _ \<Rightarrow> None)"

fun visit_levels :: "registry_lib \<Rightarrow> registry_db \<Rightarrow> nat \<Rightarrow> stored_passport list
    \<Rightarrow> (string \<times> lineage_node) list \<times> lineage_edge list \<Rightarrow> ((string \<times> lineage_node) list \<times> lineage_edge list) option" where
  "visit_levels lib db 0 frontier (nodes, edges) = Some (nodes, edges)"
| "visit_levels lib db (Suc depth) frontier (nodes, edges) =
     (let fresh = filter (\<lambda>p. map_of nodes (st_passport_id p) = None) frontier
      in if fresh = [] then Some (nodes, edges)
         else (case visit_level lib db fresh (nodes, edges, []) of
                 None \<Rightarrow> None
               | Some (nodes', edges', next) \<Rightarrow> visit_levels lib db depth next (nodes', edges')))"

definition lineage :: "registry_lib \<Rightarrow> registry_db \<Rightarrow> stored_passport
    \<Rightarrow> ((string \<times> lineage_node) list \<times> lineage_edge list) option" where
  "lineage lib db stored = visit_levels lib db MAX_LINEAGE_DEPTH [stored] ([], [])"

subsection \<open>Requests\<close>

datatype registry_call =
    Health
  | Upload "string option" "json dict" string          \<comment> \<open>authorization header, passport, key\<close>
  | ListPassports "string option" "string option" int
  | ListModels
  | GetPassport string
  | GetPublicKey string
  | VerifyStored string
  | AppendEvent "string option" string "json dict"
  | Lineage string
  | Dag string
  | Jsonld string
  | Html string

datatype registry_answer =
    AnJson json
  | AnVerification verification_response
  | AnLineage string "lineage_node list" "lineage_edge list"
  | AnHtml string

definition model_validate :: "registry_lib \<Rightarrow> stored_passport \<Rightarrow> passport registry_act" where
  "model_validate lib stored = or_raise (rl_validate lib (st_document stored))"

text \<open>\<open>clock\<close> is the time of the request, which SQLite fills into \<open>uploaded_at\<close>.\<close>

fun handle_registry :: "registry_lib \<Rightarrow> registry_context \<Rightarrow> string \<Rightarrow> registry_call \<Rightarrow> registry_answer registry_act" where
  "handle_registry lib ctx clock Health = ret (AnJson (JObj [(''status'', JStr ''ok''), (''version'', JStr VERSION)]))"
| "handle_registry lib ctx clock (Upload auth doc pem) =
     andthen (require_token ctx auth) (bnd (upload lib doc pem clock) (\<lambda>s. ret (AnJson (JObj s))))"
| "handle_registry lib ctx clock (ListPassports model_name verdict limit) =
     bnd (list_passports model_name verdict limit) (\<lambda>rows. ret (AnJson (JArr (map JObj rows))))"
| "handle_registry lib ctx clock ListModels = bnd (gets models) (\<lambda>rows. ret (AnJson (JArr (map JObj rows))))"
| "handle_registry lib ctx clock (GetPassport pid) = bnd (get_stored pid) (\<lambda>s. ret (AnJson (JObj (st_document s))))"
| "handle_registry lib ctx clock (GetPublicKey pid) = bnd (get_stored pid) (\<lambda>s.
     ret (AnJson (JObj [(''fingerprint'', JStr (st_key_fingerprint s)), (''public_key_pem'', JStr (st_public_key_pem s))])))"
| "handle_registry lib ctx clock (VerifyStored pid) =
     bnd (get_stored pid) (\<lambda>s. bnd (verify_stored lib ctx s) (\<lambda>v. ret (AnVerification v)))"
| "handle_registry lib ctx clock (AppendEvent auth pid event) =
     andthen (require_token ctx auth)
     (bnd (get_stored pid) (\<lambda>s. bnd (append_stored_event lib s event) (\<lambda>x. ret (AnJson (JObj x)))))"
| "handle_registry lib ctx clock (Lineage pid) =
     bnd (get_stored pid) (\<lambda>s. bnd (gets (\<lambda>db. lineage lib db s)) (\<lambda>w. bnd (or_raise w) (\<lambda>(nodes, edges).
       ret (AnLineage pid (map snd nodes) edges))))"
| "handle_registry lib ctx clock (Dag pid) =
     bnd (get_stored pid) (\<lambda>s. bnd (model_validate lib s) (\<lambda>p.
       ret (AnJson (JObj [(''pipeline'', JStr (pipeline_dot p)), (''lineage'', JStr (lineage_dot p []))]))))"
| "handle_registry lib ctx clock (Jsonld pid) =
     bnd (get_stored pid) (\<lambda>s. bnd (model_validate lib s) (\<lambda>p. ret (AnJson (to_jsonld (rl_float lib) p))))"
| "handle_registry lib ctx clock (Html pid) =
     bnd (get_stored pid) (\<lambda>s. bnd (model_validate lib s) (\<lambda>p.
     bnd (of_result (load_key lib (st_public_key_pem s))) (\<lambda>key.
     bnd (or_raise (verify_document (rl_crypto lib) (rl_validate lib) (st_document s) key)) (\<lambda>report.
     ret (AnHtml (rl_html lib p report))))))"

text \<open>\<^verbatim>\<open>create_app\<close>: an empty token, given or in the environment, disables authentication.\<close>

definition create_app :: "crypto \<Rightarrow> string option \<Rightarrow> string option \<Rightarrow> bytes option list option \<Rightarrow> registry_context" where
  "create_app c token env_token trusted_keys =
     (let resolved = (if token \<noteq> None then token else env_token)
      in \<lparr> rc_token = (if resolved = Some [] then None else resolved),
           rc_trusted_fingerprints = trusted_fingerprints c trusted_keys \<rparr>)"

end
