(* ===== verification/MP_RegistryProps.thy ===== *)
theory MP_RegistryProps
  imports MP_Registry
begin

text \<open>
  What the registry guarantees. Its abstract specification is a ledger, a map from passport ids to a
  document and the key it was uploaded with, on which two things can happen: a verified document is
  published under a new id, or a published one gets another verified event. The locale
  \<open>passport_store\<close> states what the table must do for the service to follow the ledger and proves
  that it does; the model's table is its interpretation. The theorems follow from the ledger: every document
  served verifies, a published one is permanent and only gains events, writes need the token, and the
  lineage answered is exactly the part of the graph within twenty steps.
\<close>

section \<open>The ledger\<close>

type_synonym ledger = "string \<Rightarrow> (json dict \<times> string) option"

definition accepted :: "registry_lib \<Rightarrow> json dict \<Rightarrow> string \<Rightarrow> bool" where
  "accepted lib doc pem \<longleftrightarrow> (case rl_load_pem lib pem of
      Ed25519Key key \<Rightarrow> (case verify_document (rl_crypto lib) (rl_validate lib) doc key of
          Some r \<Rightarrow> vr_ok r | None \<Rightarrow> False)
    | _ \<Rightarrow> False)"

definition doc_id :: "registry_lib \<Rightarrow> json dict \<Rightarrow> string option" where
  "doc_id lib doc = (case map_of doc ''identity'' of
      Some (JObj ident) \<Rightarrow> (case req_cell lib ident ''passport_id'' of Some x \<Rightarrow> x | None \<Rightarrow> None)
    | _ \<Rightarrow> None)"

inductive ledger_step :: "registry_lib \<Rightarrow> ledger \<Rightarrow> ledger \<Rightarrow> bool" for lib where
  stutter: "ledger_step lib m m"
| publish: "m pid = None \<Longrightarrow> accepted lib doc pem \<Longrightarrow> doc_id lib doc = Some pid \<Longrightarrow>
    ledger_step lib m (m(pid \<mapsto> (doc, pem)))"
| extend: "m pid = Some (doc, pem) \<Longrightarrow> events_of doc = Some es \<Longrightarrow>
    accepted lib (AList.update ''events'' (JArr (es @ [JObj e])) doc) pem \<Longrightarrow>
    ledger_step lib m (m(pid \<mapsto> (AList.update ''events'' (JArr (es @ [JObj e])) doc, pem)))"

text \<open>How a published document may have changed later: the signed part is the same, events were added.\<close>

definition grown :: "json dict \<Rightarrow> json dict \<Rightarrow> bool" where
  "grown doc doc' \<longleftrightarrow> signing_payload doc' = signing_payload doc \<and>
     (\<exists>es new. events_of doc = Some es \<and> events_of doc' = Some (es @ new))"

lemma grown_refl: "events_of doc \<noteq> None \<Longrightarrow> grown doc doc"
  by (auto simp: grown_def)

lemma grown_trans: "grown a b \<Longrightarrow> grown b c \<Longrightarrow> grown a c"
  by (auto simp: grown_def)

lemma events_of_update [simp]: "events_of (AList.update ''events'' (JArr es) doc) = Some es"
  by (simp add: events_of_def update_conv')

lemma grown_extend: "events_of doc = Some es \<Longrightarrow> grown doc (AList.update ''events'' (JArr (es @ [e])) doc)"
  by (simp add: grown_def signing_payload_events)

text \<open>What an accepted document is, unfolded once.\<close>

lemma accepted_iff:
  "accepted lib doc pem \<longleftrightarrow> (\<exists>key p m sig. rl_load_pem lib pem = Ed25519Key key \<and> rl_validate lib doc = Some p
     \<and> merkle_root (rl_crypto lib) (map ar_sha256 (pp_artifacts p)) = Some (id_merkle_root (pp_identity p))
     \<and> public_key_fingerprint (rl_crypto lib) key = id_public_key_fingerprint (pp_identity p)
     \<and> id_signature (pp_identity p) = Some sig \<and> sig \<noteq> [] \<and> signing_payload doc = Some m
     \<and> verify_signature (rl_crypto lib) key m sig
     \<and> verify_events (rl_crypto lib) doc key = Some [])"
  (is "?l \<longleftrightarrow> ?r")
proof
  assume ?l
  then show ?r
    by (auto simp: accepted_def verify_document_def vr_ok_def vr_changed_def empty_report_def
        split: pem_result.splits option.splits if_splits)
next
  assume ?r
  then show ?l
    by (auto simp: accepted_def verify_document_def vr_ok_def vr_changed_def empty_report_def)
qed

lemma accepted_events: "accepted lib doc pem \<Longrightarrow> events_of doc \<noteq> None"
  by (auto simp: accepted_iff verify_events_def bind_eq_Some_conv)

lemma accepted_grown: "accepted lib doc pem \<Longrightarrow> grown doc doc"
  using accepted_events grown_refl by blast

definition ledger_accepted :: "registry_lib \<Rightarrow> ledger \<Rightarrow> bool" where
  "ledger_accepted lib m \<longleftrightarrow> (\<forall>pid doc pem. m pid = Some (doc, pem) \<longrightarrow> accepted lib doc pem)"

lemma ledger_step_accepted: "ledger_step lib m m' \<Longrightarrow> ledger_accepted lib m \<Longrightarrow> ledger_accepted lib m'"
  by (induction rule: ledger_step.induct) (auto simp: ledger_accepted_def)

lemma ledger_step_grows:
  assumes "ledger_step lib m m'" "ledger_accepted lib m" "m pid = Some (doc, pem)"
  shows "\<exists>doc'. m' pid = Some (doc', pem) \<and> grown doc doc'"
proof -
  have keep: "grown doc doc" using assms(2,3) accepted_grown unfolding ledger_accepted_def by blast
  show ?thesis
    using assms(1)
  proof cases
    case stutter
    then show ?thesis using assms(3) keep by simp
  next
    case (publish pid' doc' pem')
    then show ?thesis using assms(3) keep by auto
  next
    case (extend pid' doc' pem' es e)
    then show ?thesis using assms(3) keep grown_extend [OF extend(3), of "JObj e"] by (cases "pid = pid'") simp_all
  qed
qed

lemma ledger_steps_grow:
  assumes "(ledger_step lib)\<^sup>*\<^sup>* m m'" "ledger_accepted lib m" "m pid = Some (doc, pem)"
  shows "ledger_accepted lib m' \<and> (\<exists>doc'. m' pid = Some (doc', pem) \<and> grown doc doc')"
  using assms
proof (induction rule: rtranclp_induct)
  case base
  then show ?case using accepted_grown unfolding ledger_accepted_def by blast
next
  case (step y z)
  then obtain d where "ledger_accepted lib y" "y pid = Some (d, pem)" "grown doc d" by blast
  with step.hyps(2) show ?case
    using ledger_step_grows [of lib y z pid d pem] ledger_step_accepted grown_trans by blast
qed

section \<open>The interface of the table\<close>

locale passport_store =
  fixes find_row :: "'s \<Rightarrow> string \<Rightarrow> 'r option" and add :: "'s \<Rightarrow> 'r \<Rightarrow> 's option"
    and put :: "string \<Rightarrow> json dict \<Rightarrow> 's \<Rightarrow> 's"
    and row_id :: "'r \<Rightarrow> string" and row_doc :: "'r \<Rightarrow> json dict" and row_pem :: "'r \<Rightarrow> string"
    and with_doc :: "json dict \<Rightarrow> 'r \<Rightarrow> 'r"
  assumes find_id: "find_row s k = Some r \<Longrightarrow> row_id r = k"
    and add_fails: "add s r = None \<longleftrightarrow> find_row s (row_id r) \<noteq> None"
    and find_add: "add s r = Some s' \<Longrightarrow> find_row s' k = (if k = row_id r then Some r else find_row s k)"
    and find_put: "find_row (put k d s) k' = (if k' = k then map_option (with_doc d) (find_row s k) else find_row s k')"
    and row_laws: "row_doc (with_doc d r) = d" "row_pem (with_doc d r) = row_pem r"
begin

definition view :: "'s \<Rightarrow> ledger" where
  "view s k = map_option (\<lambda>r. (row_doc r, row_pem r)) (find_row s k)"

lemma view_add: "add s r = Some s' \<Longrightarrow> view s' = (view s)(row_id r \<mapsto> (row_doc r, row_pem r))"
  by (rule ext) (simp add: view_def find_add)

lemma view_put: "find_row s k = Some r \<Longrightarrow> view (put k d s) = (view s)(k \<mapsto> (d, row_pem r))"
  by (rule ext) (simp add: view_def find_put row_laws)

lemma add_publishes:
  assumes "add s r = Some s'" "accepted lib (row_doc r) (row_pem r)" "doc_id lib (row_doc r) = Some (row_id r)"
  shows "ledger_step lib (view s) (view s')"
proof -
  have "view s (row_id r) = None" using assms(1) add_fails [of s r] by (simp add: view_def)
  with assms show ?thesis unfolding view_add [OF assms(1)] by (rule_tac publish)
qed

lemma put_extends:
  assumes "find_row s k = Some r" "events_of (row_doc r) = Some es"
    and "accepted lib (AList.update ''events'' (JArr (es @ [JObj e])) (row_doc r)) (row_pem r)"
  shows "ledger_step lib (view s) (view (put k (AList.update ''events'' (JArr (es @ [JObj e])) (row_doc r)) s))"
  unfolding view_put [OF assms(1)] using assms by (intro extend) (auto simp: view_def)

end

lemma get_row_id: "get_row db k = Some s \<Longrightarrow> st_passport_id s = k"
  by (auto simp: get_row_def find_Some_iff)

lemma get_row_append: "get_row (db @ [s]) k =
    (case get_row db k of Some r \<Rightarrow> Some r | None \<Rightarrow> if st_passport_id s = k then Some s else None)"
  by (induction db) (auto simp: get_row_def)

lemma get_row_replace: "get_row (replace_document k d db) k' =
    (if k' = k then map_option (\<lambda>s. s\<lparr> st_document := d \<rparr>) (get_row db k) else get_row db k')"
  by (induction db) (auto simp: get_row_def replace_document_def)

interpretation reg: passport_store get_row add_row replace_document st_passport_id st_document st_public_key_pem
    "\<lambda>d s. s\<lparr> st_document := d \<rparr>"
  by unfold_locales (auto simp: add_row_def get_row_append get_row_replace dest: get_row_id
      split: if_splits option.splits)

section \<open>Requests follow the ledger\<close>

text \<open>
  What the registry relies on in \<^verbatim>\<open>Passport.model_validate\<close>: \<^verbatim>\<open>events\<close> and \<^verbatim>\<open>lineage_links\<close> are lists
  (of texts, the UUIDs), and adding a valid event to a valid passport leaves it valid and its
  artifacts, root, fingerprint and signature the same.
\<close>

definition validate_laws :: "registry_lib \<Rightarrow> bool" where
  "validate_laws lib \<longleftrightarrow>
     (\<forall>doc p. rl_validate lib doc = Some p \<longrightarrow>
        (map_of doc ''events'' = None \<or> (\<exists>es. map_of doc ''events'' = Some (JArr es))) \<and>
        (map_of doc ''lineage_links'' = None \<or> (\<exists>ls. map_of doc ''lineage_links'' = Some (jstrs ls)))) \<and>
     (\<forall>doc p es e. rl_validate lib doc = Some p \<and> events_of doc = Some es \<and> rl_validate_event lib e \<longrightarrow>
        (\<exists>p'. rl_validate lib (AList.update ''events'' (JArr (es @ [JObj e])) doc) = Some p' \<and>
           map ar_sha256 (pp_artifacts p') = map ar_sha256 (pp_artifacts p) \<and>
           id_merkle_root (pp_identity p') = id_merkle_root (pp_identity p) \<and>
           id_public_key_fingerprint (pp_identity p') = id_public_key_fingerprint (pp_identity p) \<and>
           id_signature (pp_identity p') = id_signature (pp_identity p)))"

lemma valid_lists:
  assumes "validate_laws lib" "rl_validate lib doc = Some p"
  shows "iter_json doc ''events'' = events_of doc" "events_of doc \<noteq> None"
    and "\<exists>ls. iter_json doc ''lineage_links'' = Some (map JStr ls)"
proof -
  have l: "map_of doc ''events'' = None \<or> (\<exists>es. map_of doc ''events'' = Some (JArr es))"
    "map_of doc ''lineage_links'' = None \<or> (\<exists>ls. map_of doc ''lineage_links'' = Some (jstrs ls))"
    using assms unfolding validate_laws_def by blast+
  from l(1) show "iter_json doc ''events'' = events_of doc" "events_of doc \<noteq> None"
    by (auto simp: iter_json_def events_of_def)
  from l(2) show "\<exists>ls. iter_json doc ''lineage_links'' = Some (map JStr ls)"
    by (auto simp: iter_json_def intro: exI [of _ "[]"])
qed

lemma accepted_valid: "accepted lib doc pem \<Longrightarrow> \<exists>p. rl_validate lib doc = Some p"
  by (auto simp: accepted_iff)

lemma extended_accepted:
  assumes laws: "validate_laws lib" and ok: "accepted lib doc pem" and key: "rl_load_pem lib pem = Ed25519Key key"
    and es: "events_of doc = Some es" and e: "rl_validate_event lib e"
    and v: "verify_events (rl_crypto lib) (AList.update ''events'' (JArr (es @ [JObj e])) doc) key = Some []"
  shows "accepted lib (AList.update ''events'' (JArr (es @ [JObj e])) doc) pem"
proof -
  from ok obtain p where p: "rl_validate lib doc = Some p" by (auto simp: accepted_iff)
  with laws es e obtain p' where p': "rl_validate lib (AList.update ''events'' (JArr (es @ [JObj e])) doc) = Some p'"
      "map ar_sha256 (pp_artifacts p') = map ar_sha256 (pp_artifacts p)"
      "id_merkle_root (pp_identity p') = id_merkle_root (pp_identity p)"
      "id_public_key_fingerprint (pp_identity p') = id_public_key_fingerprint (pp_identity p)"
      "id_signature (pp_identity p') = id_signature (pp_identity p)"
    unfolding validate_laws_def by blast
  from ok p p' key v show ?thesis unfolding accepted_iff by (fastforce simp: signing_payload_events)
qed

text \<open>Every row says what its document says, and its document verifies under its key.\<close>

definition row_ok :: "registry_lib \<Rightarrow> stored_passport \<Rightarrow> bool" where
  "row_ok lib s \<longleftrightarrow> accepted lib (st_document s) (st_public_key_pem s) \<and>
     new_row lib (st_document s) (st_public_key_pem s) (st_uploaded_at s) = Inr s"

definition registry_ok :: "registry_lib \<Rightarrow> registry_db \<Rightarrow> bool" where
  "registry_ok lib db \<longleftrightarrow> distinct (map st_passport_id db) \<and> list_all (row_ok lib) db"

lemma new_row_Inr_iff:
  "new_row lib doc pem t = Inr s \<longleftrightarrow> st_document s = doc \<and> st_public_key_pem s = pem \<and> st_uploaded_at s = t
     \<and> row_cells lib doc = Some [Some (st_passport_id s), Some (st_model_name s), Some (st_version s),
         Some (st_created_at s), st_verdict s, Some (st_merkle_root s), Some (st_key_fingerprint s), st_supersedes s]"
  by (cases s) (auto simp: new_row_def split: option.splits list.splits)

lemma row_cells_id:
  assumes "row_cells lib doc = Some (Some pid # cells)"
  shows "doc_id lib doc = Some pid"
  using assms by (auto simp: row_cells_def doc_id_def split: option.splits json.splits)

lemma row_cells_events: "row_cells lib (AList.update ''events'' es doc) = row_cells lib doc"
  by (simp add: row_cells_def sub_dict_def update_conv')

lemma new_row_fields:
  assumes "new_row lib doc pem t = Inr s"
  shows "st_document s = doc" "st_public_key_pem s = pem" "st_uploaded_at s = t" "doc_id lib doc = Some (st_passport_id s)"
  using assms row_cells_id by (auto simp: new_row_Inr_iff)

lemma new_row_events:
  assumes "new_row lib doc pem t = Inr s"
  shows "new_row lib (AList.update ''events'' es doc) pem t = Inr (s\<lparr> st_document := AList.update ''events'' es doc \<rparr>)"
  using assms by (simp add: new_row_Inr_iff row_cells_events)

lemma registry_ok_Nil: "registry_ok lib []"
  by (simp add: registry_ok_def)

lemma registry_ok_row: "registry_ok lib db \<Longrightarrow> get_row db k = Some s \<Longrightarrow> row_ok lib s"
  by (auto simp: registry_ok_def get_row_def find_Some_iff list_all_iff dest: nth_mem)

lemma get_row_None: "get_row db k = None \<longleftrightarrow> k \<notin> st_passport_id ` set db"
  by (auto simp: get_row_def find_None_iff)

lemma registry_ok_add: "registry_ok lib db \<Longrightarrow> row_ok lib s \<Longrightarrow> add_row db s = Some db' \<Longrightarrow> registry_ok lib db'"
  by (auto simp: registry_ok_def add_row_def get_row_None split: if_splits)

lemma ids_replace [simp]: "map st_passport_id (replace_document k d db) = map st_passport_id db"
  by (induction db) (auto simp: replace_document_def)

lemma registry_ok_put:
  assumes "registry_ok lib db" "get_row db k = Some s" "accepted lib (AList.update ''events'' es (st_document s)) (st_public_key_pem s)"
  shows "registry_ok lib (replace_document k (AList.update ''events'' es (st_document s)) db)"
proof -
  let ?put = "\<lambda>r. if st_passport_id r = k then r\<lparr> st_document := AList.update ''events'' es (st_document s) \<rparr> else r"
  have "row_ok lib (?put r)" if "r \<in> set db" for r
  proof (cases "st_passport_id r = k")
    case True
    have "s \<in> set db" "st_passport_id s = k" using assms(2) by (auto simp: get_row_def find_Some_iff dest: nth_mem)
    with True that assms(1) have "r = s" by (metis registry_ok_def distinct_map inj_onD)
    then show ?thesis
      using True registry_ok_row [OF assms(1,2)] assms(3) new_row_events [of lib "st_document s" _ _ s es]
      by (simp add: row_ok_def)
  qed (use that assms(1) in \<open>simp add: registry_ok_def list_all_iff\<close>)
  then have "list_all (row_ok lib) (replace_document k (AList.update ''events'' es (st_document s)) db)"
    unfolding replace_document_def list_all_iff set_map by blast
  with assms(1) show ?thesis unfolding registry_ok_def ids_replace by blast
qed

text \<open>The two requests that write, when they succeed.\<close>

lemma load_key_Inr: "load_key lib pem = Inr key \<longleftrightarrow> rl_load_pem lib pem = Ed25519Key key"
  by (simp add: load_key_def split: pem_result.splits)

lemma or_raise_Inr_iff: "or_raise x s = (Inr y, s1) \<longleftrightarrow> x = Some y \<and> s1 = s"
  by (auto simp: or_raise_def ret_def raise_def split: option.splits)

text \<open>A computation that only reads.\<close>

definition reads :: "'a registry_act \<Rightarrow> bool" where
  "reads m \<longleftrightarrow> (\<forall>db. snd (m db) = db)"

lemma reads_rules:
  "reads (ret x)" "reads (raise e)" "reads (gets f)" "reads (raise_if b e)" "reads (of_result r)"
  "reads (or_raise y)"
  by (simp_all add: reads_def ret_def raise_def gets_def raise_if_def of_result_def or_raise_def split: option.splits)

lemma reads_bnd: "reads m \<Longrightarrow> (\<And>x. reads (f x)) \<Longrightarrow> reads (bnd m f)"
  unfolding reads_def bnd_def by (intro allI, split prod.split, split sum.split) (metis snd_conv)

lemma reads_andthen: "reads m \<Longrightarrow> reads k \<Longrightarrow> reads (andthen m k)"
  by (simp add: andthen_def reads_bnd)

lemma reads_option: "reads m \<Longrightarrow> (\<And>x. reads (f x)) \<Longrightarrow> reads (case y of None \<Rightarrow> m | Some x \<Rightarrow> f x)"
  by (simp split: option.splits)

lemma reads_prod: "(\<And>a b. reads (f a b)) \<Longrightarrow> reads (case p of (a, b) \<Rightarrow> f a b)"
  by (simp split: prod.splits)

lemmas reads_intros = reads_rules reads_bnd reads_andthen reads_option reads_prod

lemma reads_state: "reads m \<Longrightarrow> m db = (r, db') \<Longrightarrow> db' = db"
  by (metis reads_def snd_conv)

lemma reads_get_stored: "reads (get_stored pid)"
  unfolding get_stored_def by (intro reads_intros)

lemma reads_require_token: "reads (require_token ctx auth)"
  unfolding require_token_def Let_def by (intro reads_intros)

lemma reads_list: "reads (list_passports model_name verdict limit)"
  unfolding list_passports_def by (intro reads_intros)

lemma reads_verify: "reads (verify_stored lib ctx s)"
  unfolding verify_stored_def by (intro reads_intros)

lemma reads_validate: "reads (model_validate lib s)"
  unfolding model_validate_def by (intro reads_intros)

lemmas reads_all = reads_intros reads_get_stored reads_require_token reads_list reads_verify reads_validate

lemma reading_calls:
  assumes "\<nexists>auth doc pem. call = Upload auth doc pem" "\<nexists>auth pid e. call = AppendEvent auth pid e"
  shows "reads (handle_registry lib ctx clock call)"
  using assms by (cases call) (auto intro!: reads_all)

lemma bnd_state:
  assumes "bnd m f s = (r, s2)" "reads m" "s2 \<noteq> s"
  obtains x where "m s = (Inr x, s)" "f x s = (r, s2)"
  using assms by (cases "m s") (auto simp: bnd_def reads_def split: sum.splits dest: spec [of _ s])

lemma andthen_state:
  assumes "andthen m k s = (r, s2)" "reads m" "s2 \<noteq> s"
  obtains x where "m s = (Inr x, s)" "k s = (r, s2)"
  using assms bnd_state unfolding andthen_def by metis

lemma get_stored_Inr_iff: "get_stored pid db = (Inr s, db') \<longleftrightarrow> get_row db pid = Some s \<and> db' = db"
  by (auto simp: get_stored_def act_Inr ret_def raise_def split: option.splits)

lemma upload_writes:
  assumes "handle_registry lib ctx clock (Upload auth doc pem) db = (r, db')" "db' \<noteq> db"
  obtains s where "require_token ctx auth db = (Inr (), db)" "accepted lib doc pem"
    "new_row lib doc pem clock = Inr s" "add_row db s = Some db'"
proof -
  let ?insert = "\<lambda>db. case insert_passport lib doc pem clock db of
          (Inl (DuplicatePassport pid), db') \<Rightarrow> (Inl (RegHTTP 409 (PassportExists pid)), db')
        | (Inl InsertRaises, db') \<Rightarrow> (Inl ServerError, db')
        | (Inr s, db') \<Rightarrow> (Inr s, db')"
  obtain u where tok: "require_token ctx auth db = (Inr u, db)"
    and up: "bnd (upload lib doc pem clock) (\<lambda>s. ret (AnJson (JObj s))) db = (r, db')"
    using assms by (auto elim: andthen_state intro: reads_require_token)
  from up obtain r' where up': "upload lib doc pem clock db = (r', db')"
    by (auto simp: bnd_def ret_def split: prod.splits sum.splits)
  have "bnd (of_result (load_key lib pem)) (\<lambda>key. bnd (or_raise (verify_document (rl_crypto lib) (rl_validate lib) doc key)) (\<lambda>report.
       andthen (raise_if (\<not> vr_ok report) (RegHTTP 422 (FailedVerification (problems report))))
       (bnd ?insert (\<lambda>stored. or_raise (summary stored))))) db = (r', db')"
    using up' unfolding upload_def .
  from bnd_state [OF this _ assms(2)] obtain key where key: "load_key lib pem = Inr key"
    and "bnd (or_raise (verify_document (rl_crypto lib) (rl_validate lib) doc key)) (\<lambda>report.
       andthen (raise_if (\<not> vr_ok report) (RegHTTP 422 (FailedVerification (problems report))))
       (bnd ?insert (\<lambda>stored. or_raise (summary stored)))) db = (r', db')"
    by (auto simp: of_result_Inr_iff intro: reads_rules)
  from bnd_state [OF this(2) _ assms(2)] obtain report where
    rep: "verify_document (rl_crypto lib) (rl_validate lib) doc key = Some report"
    and "andthen (raise_if (\<not> vr_ok report) (RegHTTP 422 (FailedVerification (problems report))))
       (bnd ?insert (\<lambda>stored. or_raise (summary stored))) db = (r', db')"
    by (auto simp: or_raise_Inr_iff intro: reads_rules)
  from andthen_state [OF this(2) _ assms(2)] have ok: "vr_ok report"
    and ins: "bnd ?insert (\<lambda>stored. or_raise (summary stored)) db = (r', db')"
    by (auto simp: raise_if_Inr_iff intro: reads_rules)
  from ins assms(2) obtain s where "new_row lib doc pem clock = Inr s" "add_row db s = Some db'"
    by (auto simp: bnd_def insert_passport_def or_raise_def ret_def raise_def
        split: sum.splits option.splits insert_error.splits prod.splits)
  with that tok key rep ok show thesis by (auto simp: accepted_def load_key_Inr)
qed

lemma append_writes:
  assumes "handle_registry lib ctx clock (AppendEvent auth pid e) db = (r, db')" "db' \<noteq> db"
  obtains s old key where "require_token ctx auth db = (Inr (), db)" "get_row db pid = Some s"
    "rl_validate_event lib e" "iter_json (st_document s) ''events'' = Some old"
    "rl_load_pem lib (st_public_key_pem s) = Ed25519Key key"
    "verify_events (rl_crypto lib) (AList.update ''events'' (JArr (old @ [JObj e])) (st_document s)) key = Some []"
    "db' = replace_document pid (AList.update ''events'' (JArr (old @ [JObj e])) (st_document s)) db"
proof -
  obtain u where tok: "require_token ctx auth db = (Inr u, db)"
    and rest: "bnd (get_stored pid) (\<lambda>s. bnd (append_stored_event lib s e) (\<lambda>x. ret (AnJson (JObj x)))) db = (r, db')"
    using assms by (auto elim: andthen_state intro: reads_require_token)
  from bnd_state [OF rest reads_get_stored assms(2)] obtain s where s: "get_row db pid = Some s"
    and "bnd (append_stored_event lib s e) (\<lambda>x. ret (AnJson (JObj x))) db = (r, db')"
    by (auto simp: get_stored_Inr_iff)
  then obtain r' where app: "append_stored_event lib s e db = (r', db')"
    by (auto simp: bnd_def ret_def split: prod.splits sum.splits)
  have "andthen (raise_if (\<not> rl_validate_event lib e) ServerError) (bnd (or_raise (iter_json (st_document s) ''events'')) (\<lambda>old.
      bnd (of_result (load_key lib (st_public_key_pem s))) (\<lambda>key.
         bnd (or_raise (verify_events (rl_crypto lib) (AList.update ''events'' (JArr (old @ [JObj e])) (st_document s)) key)) (\<lambda>errors.
         andthen (raise_if (errors \<noteq> []) (RegHTTP 422 (EventRejected errors)))
         (andthen (modify (replace_document (st_passport_id s) (AList.update ''events'' (JArr (old @ [JObj e])) (st_document s))))
         (ret [(''passport_id'', JStr (st_passport_id s)), (''events'', JInt (int (length (old @ [JObj e]))))])))))) db = (r', db')"
    using app unfolding append_stored_event_def Let_def .
  from andthen_state [OF this _ assms(2)]
  have valid: "rl_validate_event lib e" and "bnd (or_raise (iter_json (st_document s) ''events'')) (\<lambda>old.
      bnd (of_result (load_key lib (st_public_key_pem s))) (\<lambda>key.
         bnd (or_raise (verify_events (rl_crypto lib) (AList.update ''events'' (JArr (old @ [JObj e])) (st_document s)) key)) (\<lambda>errors.
         andthen (raise_if (errors \<noteq> []) (RegHTTP 422 (EventRejected errors)))
         (andthen (modify (replace_document (st_passport_id s) (AList.update ''events'' (JArr (old @ [JObj e])) (st_document s))))
         (ret [(''passport_id'', JStr (st_passport_id s)), (''events'', JInt (int (length (old @ [JObj e]))))]))))) db = (r', db')"
    by (auto simp: raise_if_Inr_iff intro: reads_rules)
  then show thesis
    using that [of s] tok s valid assms(2) get_row_id [OF s]
    by (auto simp: bnd_def andthen_def or_raise_def of_result_def raise_if_def modify_def ret_def raise_def load_key_Inr
        split: option.splits sum.splits if_splits)
qed

text \<open>One request is one step of the ledger, and keeps the table well-formed.\<close>

lemma request_step:
  assumes laws: "validate_laws lib" and ok: "registry_ok lib db"
    and run: "handle_registry lib ctx clock call db = (r, db')"
  shows "registry_ok lib db' \<and> ledger_step lib (reg.view db) (reg.view db')"
proof (cases "db' = db")
  case True
  with ok show ?thesis by (simp add: stutter)
next
  case False
  then consider auth doc pem where "call = Upload auth doc pem" | auth pid e where "call = AppendEvent auth pid e"
    using reads_state [OF reading_calls run] by blast
  then show ?thesis
  proof cases
    case (1 auth doc pem)
    obtain s where a: "accepted lib doc pem" and s: "new_row lib doc pem clock = Inr s" and add: "add_row db s = Some db'"
      using upload_writes run False unfolding 1 by metis
    note f = new_row_fields [OF s]
    have "row_ok lib s" using a s f by (simp add: row_ok_def)
    with registry_ok_add [OF ok _ add] reg.add_publishes [OF add, of lib] a f show ?thesis by simp
  next
    case (2 auth pid e)
    obtain s old key where h: "get_row db pid = Some s" "rl_validate_event lib e"
      "iter_json (st_document s) ''events'' = Some old" "rl_load_pem lib (st_public_key_pem s) = Ed25519Key key"
      "verify_events (rl_crypto lib) (AList.update ''events'' (JArr (old @ [JObj e])) (st_document s)) key = Some []"
      "db' = replace_document pid (AList.update ''events'' (JArr (old @ [JObj e])) (st_document s)) db"
      using append_writes run False unfolding 2 by metis
    have a: "accepted lib (st_document s) (st_public_key_pem s)"
      using registry_ok_row [OF ok h(1)] by (simp add: row_ok_def)
    then obtain p where "rl_validate lib (st_document s) = Some p" using accepted_valid by blast
    with valid_lists [OF laws this] h(3) have es: "events_of (st_document s) = Some old" by simp
    from extended_accepted [OF laws a h(4) es h(2,5)]
    have "accepted lib (AList.update ''events'' (JArr (old @ [JObj e])) (st_document s)) (st_public_key_pem s)" .
    with registry_ok_put [OF ok h(1)] reg.put_extends [OF h(1) es] show ?thesis unfolding h(6) by blast
  qed
qed

subsection \<open>Sequences of requests\<close>

text \<open>The table after a sequence of requests, each with the time it came in.\<close>

fun run_registry :: "registry_lib \<Rightarrow> registry_context \<Rightarrow> (string \<times> registry_call) list \<Rightarrow> registry_db \<Rightarrow> registry_db" where
  "run_registry lib ctx [] db = db"
| "run_registry lib ctx ((clock, call) # calls) db =
     run_registry lib ctx calls (snd (handle_registry lib ctx clock call db))"

definition registry_view :: "registry_db \<Rightarrow> ledger" where
  "registry_view db pid = map_option (\<lambda>s. (st_document s, st_public_key_pem s)) (get_row db pid)"

lemma registry_view_reg: "registry_view db = reg.view db"
  by (rule ext) (simp add: registry_view_def reg.view_def)

lemma run_steps:
  assumes "validate_laws lib" "registry_ok lib db"
  shows "registry_ok lib (run_registry lib ctx calls db)
    \<and> (ledger_step lib)\<^sup>*\<^sup>* (registry_view db) (registry_view (run_registry lib ctx calls db))"
  using assms(2)
proof (induction calls arbitrary: db)
  case (Cons c calls)
  obtain clock call where c: "c = (clock, call)" by (cases c)
  obtain r db' where run: "handle_registry lib ctx clock call db = (r, db')" by fastforce
  from request_step [OF assms(1) Cons.prems this]
  have "registry_ok lib db'" and step: "ledger_step lib (registry_view db) (registry_view db')"
    by (simp_all add: registry_view_reg)
  with Cons.IH [of db'] show ?case by (auto simp: c run intro: converse_rtranclp_into_rtranclp)
qed simp

lemmas run_ok = run_steps [OF _ registry_ok_Nil, THEN conjunct1]

text \<open>
  C10. The registry implements the ledger: whatever requests were served before, the next one, with any
  outcome, is one step of the ledger (publishing a verified document under a new id, extending a
  published one by a verified event, or nothing), and a read answers exactly what the ledger holds.
\<close>

theorem registry_refines_ledger:
  assumes "validate_laws lib" and "db = run_registry lib ctx calls []"
  shows "ledger_step lib (registry_view db) (registry_view (snd (handle_registry lib ctx clock call db)))
    \<and> handle_registry lib ctx clock (GetPassport pid) db =
        ((case registry_view db pid of None \<Rightarrow> Inl (RegHTTP 404 (PassportNotFound pid))
          | Some (doc, pem) \<Rightarrow> Inr (AnJson (JObj doc))), db)"
proof
  obtain r db' where "handle_registry lib ctx clock call db = (r, db')" by fastforce
  with request_step [OF assms(1) run_ok [OF assms(1), of ctx calls]]
  show "ledger_step lib (registry_view db) (registry_view (snd (handle_registry lib ctx clock call db)))"
    by (metis assms(2) registry_view_reg snd_conv)
qed (auto simp: get_stored_def bnd_def gets_def ret_def raise_def registry_view_def split: option.splits)

text \<open>
  C11. Every passport the registry serves verifies, at any time: its row says what its document says, and
  a verification request answers that signature, Merkle root, fingerprint and every event are in order.
\<close>

theorem served_passports_verify:
  assumes "validate_laws lib" and "db = run_registry lib ctx calls []" and "get_row db pid = Some s"
  shows "row_ok lib s \<and> (\<exists>v. handle_registry lib ctx clock (VerifyStored pid) db = (Inr (AnVerification v), db)
    \<and> vs_ok v \<and> vs_passport_id v = pid \<and> vs_event_errors v = [])"
proof -
  have ok: "row_ok lib s"
    using registry_ok_row [OF run_ok [OF assms(1)]] assms(2,3) by blast
  then obtain key r where key: "rl_load_pem lib (st_public_key_pem s) = Ed25519Key key"
      "verify_document (rl_crypto lib) (rl_validate lib) (st_document s) key = Some r" "vr_ok r"
    by (auto simp: row_ok_def accepted_def split: pem_result.splits option.splits)
  then have "vr_event_errors r = []" "vr_errors r = []" by (simp_all add: vr_ok_def)
  with key ok show ?thesis
    using get_row_id [OF assms(3)]
    by (simp add: get_stored_def bnd_def gets_def ret_def assms(3) verify_stored_def load_key_def of_result_def or_raise_def)
qed


fun call_authorization :: "registry_call \<Rightarrow> string option" where
  "call_authorization (Upload auth doc pem) = auth"
| "call_authorization (AppendEvent auth pid e) = auth"
| "call_authorization _ = None"

text \<open>
  With a token configured, nothing is written without it: a request that changes the table is an upload
  or an event whose authorization header, less \<^verbatim>\<open>Bearer\<close> and surrounding white space, is the token.
\<close>

theorem writes_need_the_token:
  assumes "rc_token ctx = Some token" and "snd (handle_registry lib ctx clock call db) \<noteq> db"
  shows "py_strip (removeprefix (case call_authorization call of None \<Rightarrow> [] | Some a \<Rightarrow> a) ''Bearer '') = token"
proof -
  obtain r db' where run: "handle_registry lib ctx clock call db = (r, db')" by fastforce
  with assms(2) have ne: "db' \<noteq> db" by simp
  then consider auth doc pem where "call = Upload auth doc pem" | auth pid e where "call = AppendEvent auth pid e"
    using reads_state [OF reading_calls run] by blast
  then have "require_token ctx (call_authorization call) db = (Inr (), db)"
  proof cases
    case 1
    then show ?thesis using upload_writes [OF _ ne] run by (metis call_authorization.simps(1))
  next
    case 2
    then show ?thesis using append_writes [OF _ ne] run by (metis call_authorization.simps(2))
  qed
  with assms(1) show ?thesis by (auto simp: require_token_def Let_def raise_if_Inr_iff)
qed

section \<open>A registry with two passports\<close>

text \<open>
  A concrete instance of the library functions. Validation reads the identity and checks the shapes;
  every passport has the same single artifact.
\<close>

definition ex_lists_ok :: "json dict \<Rightarrow> bool" where
  "ex_lists_ok doc \<longleftrightarrow> (case map_of doc ''events'' of None \<Rightarrow> True | Some (JArr _) \<Rightarrow> True | _ \<Rightarrow> False)
     \<and> (case map_of doc ''lineage_links'' of None \<Rightarrow> True
        | Some (JArr ls) \<Rightarrow> list_all (\<lambda>j. case j of JStr _ \<Rightarrow> True | _ \<Rightarrow> False) ls | _ \<Rightarrow> False)"

definition ex_passport :: "string \<Rightarrow> string \<Rightarrow> string \<Rightarrow> passport" where
  "ex_passport root_hash fp sig = \<lparr> pp_schema_version = ''0.1'',
     pp_identity = \<lparr> id_passport_id = ''p'', id_model_name = ''m'', id_version = ''1'', id_created_at = ''2026'',
       id_merkle_root = root_hash, id_public_key_fingerprint = fp, id_signature = Some sig \<rparr>,
     pp_artifacts = [\<lparr> ar_path = ''a'', ar_sha256 = example_digest (CHR ''a''), ar_size_bytes = 1, ar_kind = OTHER \<rparr>],
     pp_model = None, pp_datasets = [], pp_pipeline = [], pp_run = None, pp_environment = None, pp_metrics = [],
     pp_privacy_report = None, pp_security_report = None, pp_policy = None,
     pp_declared = \<lparr> de_intended_use = None, de_out_of_scope_uses = [], de_known_limitations = [],
       de_ethical_risks = [], de_owner = None, de_contact = None \<rparr>,
     pp_lineage_links = [], pp_revision = None, pp_events = [] \<rparr>"

definition ex_validate :: "json dict \<Rightarrow> passport option" where
  "ex_validate doc = (if \<not> ex_lists_ok doc then None else case map_of doc ''identity'' of
      Some (JObj i) \<Rightarrow> (case (map_of i ''merkle_root'', map_of i ''public_key_fingerprint'', map_of i ''signature'') of
          (Some (JStr r), Some (JStr f), Some (JStr s)) \<Rightarrow> Some (ex_passport r f s)
        | _ \<Rightarrow> None)
    | _ \<Rightarrow> None)"

definition ex_lib :: registry_lib where
  "ex_lib = \<lparr> rl_crypto = example_crypto, rl_validate = ex_validate, rl_validate_event = (\<lambda>e. map_of e ''event_type'' \<noteq> None),
     rl_load_pem = Ed25519Key, rl_real_text = (\<lambda>t. t), rl_str = dumps True, rl_float = (\<lambda>_. ''0.0''),
     rl_html = (\<lambda>_ _. []) \<rparr>"

lemma ex_laws: "validate_laws ex_lib"
proof -
  have shape: "ex_lists_ok doc" if "ex_validate doc = Some p" for doc p
    using that by (auto simp: ex_validate_def split: option.splits json.splits if_splits)
  have strs: "list_all (\<lambda>j. case j of JStr _ \<Rightarrow> True | _ \<Rightarrow> False) ls \<Longrightarrow> \<exists>xs. ls = map JStr xs" for ls
    by (induction ls) (auto simp: Cons_eq_map_conv split: json.splits)
  have lists: "map_of doc ''events'' = None \<or> (\<exists>es. map_of doc ''events'' = Some (JArr es))"
      "map_of doc ''lineage_links'' = None \<or> (\<exists>ls. map_of doc ''lineage_links'' = Some (jstrs ls))"
    if "ex_lists_ok doc" for doc
    using that strs by (auto simp: ex_lists_ok_def split: option.splits json.splits)
  have same: "ex_validate (AList.update ''events'' (JArr es) doc) = ex_validate doc" if "ex_lists_ok doc" for es doc
  proof -
    have "ex_lists_ok (AList.update ''events'' (JArr es) doc)" using that by (simp add: ex_lists_ok_def update_conv')
    then show ?thesis using that by (simp add: ex_validate_def update_conv')
  qed
  have v: "rl_validate ex_lib = ex_validate" by (simp add: ex_lib_def)
  show ?thesis
    unfolding validate_laws_def v
  proof (intro conjI allI impI)
    fix doc p es e
    assume "ex_validate doc = Some p \<and> events_of doc = Some es \<and> rl_validate_event ex_lib e"
    then have "ex_validate (AList.update ''events'' (JArr (es @ [JObj e])) doc) = Some p"
      using same shape by metis
    then show "\<exists>p'. ex_validate (AList.update ''events'' (JArr (es @ [JObj e])) doc) = Some p' \<and>
           map ar_sha256 (pp_artifacts p') = map ar_sha256 (pp_artifacts p) \<and>
           id_merkle_root (pp_identity p') = id_merkle_root (pp_identity p) \<and>
           id_public_key_fingerprint (pp_identity p') = id_public_key_fingerprint (pp_identity p) \<and>
           id_signature (pp_identity p') = id_signature (pp_identity p)" by blast
  qed (use shape lists in blast)+
qed

definition ex_root :: string where
  "ex_root = (case merkle_root example_crypto [example_digest (CHR ''a'')] of Some r \<Rightarrow> r | None \<Rightarrow> [])"

definition ex_identity :: "string \<Rightarrow> json dict" where
  "ex_identity pid = [(''passport_id'', JStr pid), (''model_name'', JStr ''m''), (''version'', JStr ''1''),
     (''created_at'', JStr ''2026''), (''merkle_root'', JStr ex_root),
     (''public_key_fingerprint'', JStr (public_key_fingerprint example_crypto ''k''))]"

definition ex_unsigned :: "string \<Rightarrow> string list \<Rightarrow> json dict" where
  "ex_unsigned pid links = [(''identity'', JObj (ex_identity pid)), (''lineage_links'', jstrs links)]"

definition ex_doc :: "string \<Rightarrow> string list \<Rightarrow> json dict" where
  "ex_doc pid links = AList.update ''identity'' (JObj (AList.update ''signature''
     (JStr (sign example_crypto ''k'' (the (signing_payload (ex_unsigned pid links))))) (ex_identity pid))) (ex_unsigned pid links)"

definition ex_row :: "string \<Rightarrow> string list \<Rightarrow> stored_passport" where
  "ex_row pid links = \<lparr> st_passport_id = pid, st_model_name = ''m'', st_version = ''1'', st_created_at = ''2026'',
     st_verdict = None, st_merkle_root = ex_root, st_key_fingerprint = public_key_fingerprint example_crypto ''k'',
     st_supersedes = None, st_public_key_pem = ''k'', st_document = ex_doc pid links, st_uploaded_at = ''t'' \<rparr>"

lemma ex_payload:
  "\<exists>m. signing_payload (ex_unsigned pid links) = Some m \<and> signing_payload (ex_doc pid links) = Some m"
proof -
  have "signing_payload (ex_unsigned pid links) \<noteq> None"
    by (simp add: signing_payload_def signing_body_def ex_unsigned_def ex_identity_def canonical_json_def list_all_iff)
  moreover have "signing_payload (ex_doc pid links) = signing_payload (ex_unsigned pid links)"
    unfolding ex_doc_def by (rule signing_payload_signature) (simp add: ex_unsigned_def)
  ultimately show ?thesis by auto
qed

lemma ex_root_eq: "merkle_root example_crypto [example_digest (CHR ''a'')] = Some ex_root"
proof -
  have "lower_hex (CHR ''a'')" by (simp add: lower_hex_def less_eq_char_def)
  then obtain b where "bytes_fromhex (example_digest (CHR ''a'')) = Some b"
    using sha256_text_fromhex example_digest_text by blast
  then show ?thesis by (simp add: ex_root_def merkle_root_def merkle_up.simps)
qed

lemma ex_accepted: "accepted ex_lib (ex_doc pid links) ''k''"
proof -
  obtain m where m: "signing_payload (ex_unsigned pid links) = Some m" "signing_payload (ex_doc pid links) = Some m"
    using ex_payload by blast
  have look: "map_of (ex_doc pid links) ''identity'' = Some (JObj (AList.update ''signature'' (JStr (sign example_crypto ''k'' m)) (ex_identity pid)))"
    "map_of (ex_doc pid links) ''events'' = None" "map_of (ex_doc pid links) ''lineage_links'' = Some (jstrs links)"
    by (simp_all add: ex_doc_def ex_unsigned_def m(1)[unfolded ex_unsigned_def])
  have "ex_validate (ex_doc pid links) =
      Some (ex_passport ex_root (public_key_fingerprint example_crypto ''k'') (sign example_crypto ''k'' m))"
    by (simp add: ex_validate_def look ex_lists_ok_def ex_identity_def list_all_iff)
  moreover have "verify_events example_crypto (ex_doc pid links) ''k'' = Some []"
    by (simp add: verify_events_def anchor_hash_def m(2) events_of_def look)
  ultimately show ?thesis
    unfolding accepted_iff
    by (simp add: ex_lib_def ex_passport_def ex_root_eq m(2)) (simp add: sign_def verify_signature_def example_crypto_def)
qed

lemma ex_new_row: "new_row ex_lib (ex_doc pid links) ''k'' ''t'' = Inr (ex_row pid links)"
  unfolding new_row_Inr_iff
  by (simp add: ex_row_def row_cells_def ex_doc_def ex_unsigned_def ex_identity_def sub_dict_def req_cell_def opt_cell_def sql_text_def)

lemma open_upload:
  assumes "rc_token ctx = None" "accepted lib doc pem" "new_row lib doc pem t = Inr s" "get_row db (st_passport_id s) = None"
  shows "snd (handle_registry lib ctx t (Upload auth doc pem) db) = db @ [s]"
proof -
  obtain key r where k: "rl_load_pem lib pem = Ed25519Key key" "verify_document (rl_crypto lib) (rl_validate lib) doc key = Some r"
    "vr_ok r" using assms(2) by (auto simp: accepted_def split: pem_result.splits option.splits)
  with assms(1,3,4) show ?thesis
    by (simp add: upload_def bnd_def andthen_def require_token_def load_key_def of_result_def or_raise_def raise_if_def ret_def
        raise_def insert_passport_def add_row_def split: option.splits)
qed

definition ex_ctx :: registry_context where
  "ex_ctx = \<lparr> rc_token = None, rc_trusted_fingerprints = None \<rparr>"

definition ex_upload :: "string \<Rightarrow> string list \<Rightarrow> string \<times> registry_call" where
  "ex_upload pid links = (''t'', Upload None (ex_doc pid links) ''k'')"

lemma ex_uploaded:
  "get_row db pid = None \<Longrightarrow>
   snd (handle_registry ex_lib ex_ctx ''t'' (Upload None (ex_doc pid links) ''k'') db) = db @ [ex_row pid links]"
  by (rule open_upload [OF _ ex_accepted ex_new_row]) (simp_all add: ex_ctx_def ex_row_def)

lemma ex_run:
  "run_registry ex_lib ex_ctx [ex_upload ''a'' [''x''], ex_upload ''b'' [''a'']] [] = [ex_row ''a'' [''x''], ex_row ''b'' [''a'']]"
  using ex_uploaded [of "[]" "''a''" "[''x'']"] ex_uploaded [of "[ex_row ''a'' [''x'']]" "''b''" "[''a'']"]
  by (simp add: ex_upload_def get_row_def ex_row_def)

abbreviation ex_db :: registry_db where
  "ex_db \<equiv> [ex_row ''a'' [''x''], ex_row ''b'' [''a'']]"

lemma ex_get: "get_row ex_db ''b'' = Some (ex_row ''b'' [''a''])"
  by (simp add: get_row_def ex_row_def)

theorem registry_refines_ledger_witness:
  "ledger_step ex_lib (registry_view ex_db) (registry_view (snd (handle_registry ex_lib ex_ctx ''t'' (snd (ex_upload ''c'' [])) ex_db)))
   \<and> registry_view ex_db ''b'' = Some (ex_doc ''b'' [''a''], ''k'')"
  using registry_refines_ledger [OF ex_laws ex_run [symmetric], of "''t''" "snd (ex_upload ''c'' [])"] ex_get
  by (auto simp: registry_view_def ex_row_def)

theorem served_passports_verify_witness:
  "row_ok ex_lib (ex_row ''b'' [''a'']) \<and> (\<exists>v. handle_registry ex_lib ex_ctx ''t2'' (VerifyStored ''b'') ex_db = (Inr (AnVerification v), ex_db)
     \<and> vs_ok v)"
  using served_passports_verify [OF ex_laws ex_run [symmetric] ex_get] by blast


theorem writes_need_the_token_witness:
  "snd (handle_registry ex_lib (ex_ctx\<lparr> rc_token := Some ''s'' \<rparr>) ''t'' (Upload (Some ''Bearer s'') (ex_doc ''a'' []) ''k'') []) \<noteq> []
   \<and> py_strip (removeprefix ''Bearer s'' ''Bearer '') = ''s''"
proof -
  let ?ctx = "ex_ctx\<lparr> rc_token := Some ''s'' \<rparr>"
  have tok: "py_strip (removeprefix ''Bearer s'' ''Bearer '') = ''s''" by code_simp
  have "require_token ?ctx (Some ''Bearer s'') db = (Inr (), db)" for db
    by (simp add: require_token_def Let_def tok raise_if_def ret_def)
  moreover have "require_token ex_ctx None db = (Inr (), db)" for db
    by (simp add: require_token_def ex_ctx_def ret_def)
  ultimately have "handle_registry ex_lib ?ctx ''t'' (Upload (Some ''Bearer s'') (ex_doc ''a'' []) ''k'') []
      = handle_registry ex_lib ex_ctx ''t'' (Upload None (ex_doc ''a'' []) ''k'') []"
    by (simp add: andthen_def bnd_def)
  with ex_uploaded [of "[]" "''a''" "[]"]
  have ne: "snd (handle_registry ex_lib ?ctx ''t'' (Upload (Some ''Bearer s'') (ex_doc ''a'' []) ''k'') []) \<noteq> []"
    by (simp add: get_row_def)
  have "rc_token ?ctx = Some ''s''" by simp
  from writes_need_the_token [OF this ne] ne show ?thesis by simp
qed

end
