(* ===== verification/MP_Lineage.thy ===== *)
theory MP_Lineage
  imports MP_RegistryProps
begin

text \<open>
  The lineage walk of the registry (\<^verbatim>\<open>registry/api.py\<close>, \<open>lineage\<close>) against its specification: the
  passports within \<^const>\<open>MAX_LINEAGE_DEPTH\<close> steps of the root along the parent relation, the
  parents among them that are not stored, and the edges between them.
\<close>

section \<open>The specification\<close>

definition parent_edges :: "registry_lib \<Rightarrow> registry_db \<Rightarrow> string \<Rightarrow> (string \<times> relation) set" where
  "parent_edges lib db c = (case get_row db c of None \<Rightarrow> {}
     | Some s \<Rightarrow> (case parents lib s of None \<Rightarrow> {} | Some ps \<Rightarrow> set ps))"

text \<open>\<open>up\<close> leads from a stored passport to its stored parents.\<close>

definition up :: "registry_lib \<Rightarrow> registry_db \<Rightarrow> (string \<times> string) set" where
  "up lib db = {(c, p). p \<in> fst ` parent_edges lib db c \<and> get_row db p \<noteq> None}"

definition ancestors :: "registry_lib \<Rightarrow> registry_db \<Rightarrow> string \<Rightarrow> nat \<Rightarrow> string set" where
  "ancestors lib db pid depth = (\<Union>i<depth. (up lib db ^^ i) `` {pid})"

definition missing_parents :: "registry_lib \<Rightarrow> registry_db \<Rightarrow> string set \<Rightarrow> string set" where
  "missing_parents lib db S = {p. get_row db p = None \<and> (\<exists>c \<in> S. p \<in> fst ` parent_edges lib db c)}"

definition edges_into :: "registry_lib \<Rightarrow> registry_db \<Rightarrow> string set \<Rightarrow> lineage_edge set" where
  "edges_into lib db S = {(p, c, rel). c \<in> S \<and> (p, rel) \<in> parent_edges lib db c}"

definition node_of :: "registry_db \<Rightarrow> string \<Rightarrow> lineage_node" where
  "node_of db k = (case get_row db k of None \<Rightarrow> Missing k | Some s \<Rightarrow> Known (the (summary s)))"

lemma ancestors_Suc: "ancestors lib db pid (Suc n) = ancestors lib db pid n \<union> (up lib db ^^ n) `` {pid}"
  by (auto simp: ancestors_def lessThan_Suc)

lemma relpow_Image_Suc: "(R ^^ Suc n) `` A = R `` (R ^^ n) `` A"
  by auto

lemma up_ancestors: "up lib db `` ancestors lib db pid n \<subseteq> ancestors lib db pid (Suc n)"
proof -
  have "up lib db `` (up lib db ^^ i) `` {pid} \<subseteq> ancestors lib db pid (Suc n)" if "i < n" for i
    using that relpow_Image_Suc [of i "up lib db" "{pid}"] by (force simp: ancestors_def)
  then show ?thesis by (auto simp: ancestors_def)
qed

text \<open>Once a level brings nothing new, no later one does.\<close>

lemma ancestors_closed:
  assumes "(up lib db ^^ n) `` {pid} \<subseteq> ancestors lib db pid n"
  shows "ancestors lib db pid (n + d) = ancestors lib db pid n"
proof (induction d)
  case (Suc d)
  have "ancestors lib db pid (Suc n) = ancestors lib db pid n" using assms by (simp add: ancestors_Suc Un_absorb2)
  then have closed: "up lib db `` ancestors lib db pid n \<subseteq> ancestors lib db pid n"
    using up_ancestors by metis
  have "(up lib db ^^ (n + d)) `` {pid} \<subseteq> ancestors lib db pid n"
  proof (induction d)
    case (Suc d)
    then show ?case using closed relpow_Image_Suc [of "n + d" "up lib db" "{pid}"] by fastforce
  qed (use assms in simp)
  with Suc.IH show ?case by (simp add: ancestors_Suc Un_absorb2)
qed simp

lemma missing_parents_Un: "missing_parents lib db (A \<union> B) = missing_parents lib db A \<union> missing_parents lib db B"
  by (auto simp: missing_parents_def)

lemma edges_into_Un: "edges_into lib db (A \<union> B) = edges_into lib db A \<union> edges_into lib db B"
  by (auto simp: edges_into_def)

section \<open>The walk\<close>

text \<open>The state of the walk: its nodes are described correctly, once each, and the frontier is stored.\<close>

definition stored_rows :: "registry_db \<Rightarrow> stored_passport list \<Rightarrow> bool" where
  "stored_rows db = list_all (\<lambda>s. get_row db (st_passport_id s) = Some s)"

definition nodes_ok :: "registry_db \<Rightarrow> (string \<times> lineage_node) list \<Rightarrow> bool" where
  "nodes_ok db nodes \<longleftrightarrow> distinct (map fst nodes) \<and> list_all (\<lambda>(k, n). n = node_of db k) nodes"

abbreviation ids :: "stored_passport list \<Rightarrow> string set" where
  "ids frontier \<equiv> st_passport_id ` set frontier"

lemma nodes_ok_update:
  assumes "nodes_ok db nodes" "n = node_of db k"
  shows "nodes_ok db (AList.update k n nodes)" "fst ` set (AList.update k n nodes) = insert k (fst ` set nodes)"
proof -
  have "list_all (\<lambda>(k, n). n = node_of db k) (AList.update k n nodes)"
    using assms by (induction nodes) (auto simp: nodes_ok_def)
  with assms show "nodes_ok db (AList.update k n nodes)" by (simp add: nodes_ok_def distinct_update)
  show "fst ` set (AList.update k n nodes) = insert k (fst ` set nodes)" by (simp add: dom_update)
qed

lemma visit_parents_spec:
  assumes "nodes_ok db nodes" "stored_rows db next" "visit_parents db pid ps (nodes, edges, next) = (nodes', edges', next')"
  shows "nodes_ok db nodes' \<and> stored_rows db next'
    \<and> fst ` set nodes' = fst ` set nodes \<union> {p \<in> fst ` set ps. get_row db p = None}
    \<and> set edges' = set edges \<union> {(p, pid, rel) | p rel. (p, rel) \<in> set ps}
    \<and> ids next' = ids next \<union> {p \<in> fst ` set ps. get_row db p \<noteq> None}"
  using assms
proof (induction ps arbitrary: nodes edges "next")
  case (Cons x ps)
  obtain p rel where x: "x = (p, rel)" by (cases x)
  show ?case
  proof (cases "get_row db p")
    case None
    let ?nodes = "if map_of nodes p = None then nodes @ [(p, Missing p)] else nodes"
    have "nodes_ok db ?nodes" "fst ` set ?nodes = insert p (fst ` set nodes)"
      using Cons.prems(1) None by (auto simp: nodes_ok_def node_of_def map_of_eq_None_iff intro: rev_image_eqI dest: map_of_SomeD)
    with Cons.IH [of ?nodes "next" "edges @ [(p, pid, rel)]"] Cons.prems None show ?thesis
      by (auto simp: x)
  next
    case (Some parent)
    then have "stored_rows db (next @ [parent])" "st_passport_id parent = p"
      using Cons.prems(2) get_row_id [OF Some] by (auto simp: stored_rows_def)
    with Cons.IH [of nodes "next @ [parent]" "edges @ [(p, pid, rel)]"] Cons.prems Some show ?thesis
      by (auto simp: x)
  qed
qed auto

definition described :: "registry_lib \<Rightarrow> registry_db \<Rightarrow> bool" where
  "described lib db \<longleftrightarrow> list_all (\<lambda>s. summary s \<noteq> None \<and> parents lib s \<noteq> None) db"

lemma registry_described:
  assumes "validate_laws lib" "registry_ok lib db"
  shows "described lib db"
  unfolding described_def list_all_iff
proof
  fix s assume "s \<in> set db"
  with assms(2) have "accepted lib (st_document s) (st_public_key_pem s)"
    by (auto simp: registry_ok_def list_all_iff row_ok_def)
  then obtain p where p: "rl_validate lib (st_document s) = Some p" using accepted_valid by blast
  have "map_of (st_document s) ''events'' = None \<or> (\<exists>es. map_of (st_document s) ''events'' = Some (JArr es))"
    using assms(1) p unfolding validate_laws_def by blast
  then have "summary s \<noteq> None" by (auto simp: summary_def json_len_def)
  moreover have "parents lib s \<noteq> None" using valid_lists(3) [OF assms(1) p] by (auto simp: parents_def)
  ultimately show "summary s \<noteq> None \<and> parents lib s \<noteq> None" by blast
qed

lemma described_row:
  assumes "described lib db" "get_row db k = Some s"
  obtains x ps where "summary s = Some x" "parents lib s = Some ps" "parent_edges lib db k = set ps"
    "node_of db k = Known x"
proof -
  have "s \<in> set db" using assms(2) by (auto simp: get_row_def find_Some_iff dest: nth_mem)
  with assms show thesis using that by (fastforce simp: described_def list_all_iff parent_edges_def node_of_def)
qed

lemma visit_level_spec:
  assumes "described lib db" "stored_rows db frontier" "nodes_ok db nodes" "stored_rows db next"
  shows "\<exists>nodes' edges' next'. visit_level lib db frontier (nodes, edges, next) = Some (nodes', edges', next')
    \<and> nodes_ok db nodes' \<and> stored_rows db next'
    \<and> fst ` set nodes' = fst ` set nodes \<union> ids frontier \<union> missing_parents lib db (ids frontier)
    \<and> set edges' = set edges \<union> edges_into lib db (ids frontier)
    \<and> ids next' = ids next \<union> up lib db `` ids frontier"
  using assms(2-)
proof (induction frontier arbitrary: nodes edges "next")
  case Nil
  then show ?case by (auto simp: missing_parents_def edges_into_def)
next
  case (Cons s frontier)
  have row: "get_row db (st_passport_id s) = Some s" using Cons.prems by (simp add: stored_rows_def)
  obtain x ps where d: "summary s = Some x" "parents lib s = Some ps" "parent_edges lib db (st_passport_id s) = set ps"
      "node_of db (st_passport_id s) = Known x"
    by (rule described_row [OF assms(1) row])
  let ?nodes = "AList.update (st_passport_id s) (Known x) nodes"
  note upd = nodes_ok_update [OF Cons.prems(2), of "Known x" "st_passport_id s", OF d(4) [symmetric]]
  obtain nodes1 edges1 next1 where v: "visit_parents db (st_passport_id s) ps (?nodes, edges, next) = (nodes1, edges1, next1)"
    by (metis prod_cases3)
  note sp = visit_parents_spec [OF upd(1) Cons.prems(3) v]
  have fr: "stored_rows db frontier" using Cons.prems(1) by (simp add: stored_rows_def)
  have one: "missing_parents lib db {st_passport_id s} = {p \<in> fst ` set ps. get_row db p = None}"
      "edges_into lib db {st_passport_id s} = {(p, st_passport_id s, rel) | p rel. (p, rel) \<in> set ps}"
      "up lib db `` {st_passport_id s} = {p \<in> fst ` set ps. get_row db p \<noteq> None}"
    using d(3) by (auto simp: missing_parents_def edges_into_def up_def)
  have split: "ids (s # frontier) = {st_passport_id s} \<union> ids frontier" by simp
  from Cons.IH [OF fr, of nodes1 next1 edges1] sp show ?case
    unfolding split missing_parents_Un edges_into_Un Image_Un one by (auto simp: d v upd)
qed

lemma visit_levels_spec:
  assumes "described lib db" "nodes_ok db nodes" "stored_rows db frontier"
    and keys: "fst ` set nodes = ancestors lib db pid k \<union> missing_parents lib db (ancestors lib db pid k)"
    and edges: "set edges = edges_into lib db (ancestors lib db pid k)"
    and sound: "ids frontier \<subseteq> (up lib db ^^ k) `` {pid}"
    and complete: "(up lib db ^^ k) `` {pid} \<subseteq> ids frontier \<union> ancestors lib db pid k"
  shows "\<exists>nodes' edges'. visit_levels lib db depth frontier (nodes, edges) = Some (nodes', edges') \<and> nodes_ok db nodes'
    \<and> fst ` set nodes' = ancestors lib db pid (k + depth) \<union> missing_parents lib db (ancestors lib db pid (k + depth))
    \<and> set edges' = edges_into lib db (ancestors lib db pid (k + depth))"
  using assms(2-)
proof (induction depth arbitrary: k frontier nodes edges)
  case 0
  then show ?case by simp
next
  case (Suc depth)
  let ?S = "ancestors lib db pid k"
  define fresh where "fresh = filter (\<lambda>p. map_of nodes (st_passport_id p) = None) frontier"
  have "st_passport_id s \<notin> missing_parents lib db ?S" if "s \<in> set frontier" for s
    using that Suc.prems(2) by (auto simp: missing_parents_def stored_rows_def list_all_iff)
  then have fresh: "ids fresh = ids frontier - ?S"
    using Suc.prems(3) by (auto simp: fresh_def map_of_eq_None_iff)
  with Suc.prems(5,6) have level: "?S \<union> ids fresh = ancestors lib db pid (Suc k)"
    by (auto simp: ancestors_Suc)
  show ?case
  proof (cases "fresh = []")
    case True
    then have "ids frontier - ?S = {}" using fresh by simp
    with Suc.prems(6) have "(up lib db ^^ k) `` {pid} \<subseteq> ?S" by blast
    from ancestors_closed [OF this, of "Suc depth"] True Suc.prems show ?thesis
      by (simp add: fresh_def [symmetric])
  next
    case False
    have st: "stored_rows db fresh" using Suc.prems(2) by (auto simp: stored_rows_def list_all_iff fresh_def)
    obtain nodes1 edges1 next1 where v: "visit_level lib db fresh (nodes, edges, []) = Some (nodes1, edges1, next1)"
      "nodes_ok db nodes1" "stored_rows db next1"
      "fst ` set nodes1 = fst ` set nodes \<union> ids fresh \<union> missing_parents lib db (ids fresh)"
      "set edges1 = set edges \<union> edges_into lib db (ids fresh)" "ids next1 = up lib db `` ids fresh"
      using visit_level_spec [OF assms(1) st Suc.prems(1), of "[]" edges] by (auto simp: stored_rows_def)
    have keys1: "fst ` set nodes1 = ancestors lib db pid (Suc k) \<union> missing_parents lib db (ancestors lib db pid (Suc k))"
      unfolding v(4) level [symmetric] missing_parents_Un Suc.prems(3) by blast
    have edges1: "set edges1 = edges_into lib db (ancestors lib db pid (Suc k))"
      unfolding v(5) level [symmetric] edges_into_Un Suc.prems(4) by blast
    have sound1: "ids next1 \<subseteq> (up lib db ^^ Suc k) `` {pid}"
      unfolding v(6) relpow_Image_Suc fresh using Suc.prems(5) by blast
    have "(up lib db ^^ k) `` {pid} \<subseteq> ids fresh \<union> ?S" using Suc.prems(6) fresh by blast
    then have "(up lib db ^^ Suc k) `` {pid} \<subseteq> up lib db `` ids fresh \<union> up lib db `` ?S"
      unfolding relpow_Image_Suc by blast
    also have "\<dots> \<subseteq> ids next1 \<union> ancestors lib db pid (Suc k)"
      unfolding v(6) by (rule Un_mono [OF order_refl up_ancestors])
    finally have complete1: "(up lib db ^^ Suc k) `` {pid} \<subseteq> ids next1 \<union> ancestors lib db pid (Suc k)" .
    have "visit_levels lib db (Suc depth) frontier (nodes, edges) = visit_levels lib db depth next1 (nodes1, edges1)"
      unfolding visit_levels.simps Let_def fresh_def [symmetric] v(1) using False by (simp only: if_False option.case prod.case)
    with Suc.IH [OF v(2,3) keys1 edges1 sound1 complete1] show ?thesis by (simp only: add_Suc_right add_Suc)
  qed
qed

text \<open>
  C22. The lineage of a stored passport is answered and complete: its nodes are, each once and correctly
  described, the stored passports reached from it in fewer than twenty steps to parents, and those of
  their parents that are not stored; its edges are exactly the parent links of these passports.
\<close>

theorem lineage_is_complete:
  assumes "validate_laws lib" "db = run_registry lib ctx calls []" "get_row db pid = Some s"
  shows "\<exists>nodes edges. lineage lib db s = Some (nodes, edges)
    \<and> distinct (map fst nodes) \<and> nodes = map (\<lambda>k. (k, node_of db k)) (map fst nodes)
    \<and> fst ` set nodes = ancestors lib db pid MAX_LINEAGE_DEPTH
         \<union> missing_parents lib db (ancestors lib db pid MAX_LINEAGE_DEPTH)
    \<and> set edges = edges_into lib db (ancestors lib db pid MAX_LINEAGE_DEPTH)"
proof -
  have d: "described lib db" using registry_described [OF assms(1) run_ok [OF assms(1)]] assms(2) by blast
  have "\<exists>nodes' edges'. visit_levels lib db MAX_LINEAGE_DEPTH [s] ([], []) = Some (nodes', edges') \<and> nodes_ok db nodes'
    \<and> fst ` set nodes' = ancestors lib db pid (0 + MAX_LINEAGE_DEPTH)
        \<union> missing_parents lib db (ancestors lib db pid (0 + MAX_LINEAGE_DEPTH))
    \<and> set edges' = edges_into lib db (ancestors lib db pid (0 + MAX_LINEAGE_DEPTH))"
  proof (rule visit_levels_spec [OF d])
    show "nodes_ok db []" by (simp add: nodes_ok_def)
    show "stored_rows db [s]" using assms(3) get_row_id [OF assms(3)] by (simp add: stored_rows_def)
  qed (simp_all add: ancestors_def missing_parents_def edges_into_def get_row_id [OF assms(3)])
  moreover have "nodes = map (\<lambda>k. (k, node_of db k)) (map fst nodes)" if "nodes_ok db nodes" for nodes
    using that by (auto simp: nodes_ok_def list_all_iff intro!: map_idI [symmetric])
  ultimately show ?thesis unfolding lineage_def nodes_ok_def by fastforce
qed

theorem lineage_is_complete_witness:
  "\<exists>nodes edges. lineage ex_lib ex_db (ex_row ''b'' [''a'']) = Some (nodes, edges)
    \<and> fst ` set nodes = ancestors ex_lib ex_db ''b'' MAX_LINEAGE_DEPTH
         \<union> missing_parents ex_lib ex_db (ancestors ex_lib ex_db ''b'' MAX_LINEAGE_DEPTH)"
  using lineage_is_complete [OF ex_laws ex_run [symmetric] ex_get] by blast

text \<open>
  A frontier may name a passport twice, and the walk then visits it twice: below a passport with two parents
  that share a parent, the edges of the shared one are answered twice.
\<close>

definition diamond :: registry_db where
  "diamond = [ex_row ''d'' [''x''], ex_row ''b'' [''d''], ex_row ''c'' [''d''], ex_row ''a'' [''b'', ''c'']]"

lemma ex_summary: "\<exists>x. summary (ex_row pid links) = Some x"
  by (simp add: summary_def ex_row_def ex_doc_def ex_unsigned_def)

lemma ex_parents: "parents ex_lib (ex_row pid links) = Some (map (\<lambda>l. (l, UPSTREAM)) links)"
  by (simp add: parents_def iter_json_def ex_row_def ex_doc_def ex_unsigned_def str_json_def comp_def)

lemma diamond_repeats_edges:
  "\<exists>nodes edges. lineage ex_lib diamond (ex_row ''a'' [''b'', ''c'']) = Some (nodes, edges) \<and> \<not> distinct edges"
proof -
  obtain xa xb xc xd where s: "summary (ex_row ''a'' [''b'', ''c'']) = Some xa" "summary (ex_row ''b'' [''d'']) = Some xb"
      "summary (ex_row ''c'' [''d'']) = Some xc" "summary (ex_row ''d'' [''x'']) = Some xd"
    using ex_summary by metis
  have i: "st_passport_id (ex_row pid links) = pid" for pid links by (simp add: ex_row_def)
  show ?thesis
    by (simp add: lineage_def MAX_LINEAGE_DEPTH_def numeral_eq_Suc Let_def s ex_parents i diamond_def get_row_def)
qed

end
