(* ===== verification/MP_Risk.thy ===== *)
theory MP_Risk
  imports MP_Revision
begin

text \<open>
  From p-values to severities (\<^verbatim>\<open>llm/risk.py\<close>): Benjamini-Hochberg adjusted p-values, the risk of an
  entity, the severity bands and the strength of an attack. Numbers are rationals; a NaN is \<open>None\<close>.
  \<^verbatim>\<open>round\<close> is Python's, half to even. The lemmas: the vectorised adjustment computes the textbook one,
  whatever order ties are sorted in, and decides as the step-up procedure; the risk stays in its range
  and at most Low without significance.
\<close>

section \<open>Rounding\<close>

lemma round_half_even_bounds: "\<lfloor>x\<rfloor> \<le> round_half_even x" "round_half_even x \<le> \<lfloor>x\<rfloor> + 1"
  by (simp_all add: round_half_even_def Let_def)

lemma round_half_even_of_int [simp]: "round_half_even (of_int k) = k"
  by (simp add: round_half_even_def)

lemma round_half_even_mono: "x \<le> y \<Longrightarrow> round_half_even x \<le> round_half_even y"
proof (cases "\<lfloor>x\<rfloor> = \<lfloor>y\<rfloor>")
  case True
  then show "x \<le> y \<Longrightarrow> ?thesis" by (auto simp: round_half_even_def Let_def)
next
  case False
  assume "x \<le> y"
  then have "\<lfloor>x\<rfloor> \<le> \<lfloor>y\<rfloor>" by (rule floor_mono)
  with False have "\<lfloor>x\<rfloor> + 1 \<le> \<lfloor>y\<rfloor>" by simp
  with round_half_even_bounds [of x] round_half_even_bounds [of y] show ?thesis by simp
qed

lemma round_digits_mono: "x \<le> y \<Longrightarrow> round_digits n x \<le> round_digits n y"
  unfolding round_digits_def by (intro divide_right_mono) (simp_all add: round_half_even_mono)

lemma round_digits_decimal: "round_digits n (of_int k / 10 ^ n) = of_int k / 10 ^ n"
  by (simp add: round_digits_def)

section \<open>The false discovery rate\<close>

fun running_min :: "rat \<Rightarrow> rat list \<Rightarrow> rat list" where
  "running_min m [] = []"
| "running_min m (x # xs) = min m x # running_min (min m x) xs"

text \<open>\<^verbatim>\<open>np.minimum.accumulate\<close>, \<^verbatim>\<open>np.clip(x, 0, 1)\<close> and \<^verbatim>\<open>out[order] = values\<close>.\<close>

definition accumulate_min :: "rat list \<Rightarrow> rat list" where
  "accumulate_min xs = (case xs of [] \<Rightarrow> [] | x # rest \<Rightarrow> x # running_min x rest)"

definition clip01 :: "rat \<Rightarrow> rat" where
  "clip01 x = max 0 (min x 1)"

definition scatter :: "nat list \<Rightarrow> 'a list \<Rightarrow> 'a list \<Rightarrow> 'a list" where
  "scatter order values out = fold (\<lambda>(i, v) xs. xs[i := v]) (zip order values) out"

definition argsort :: "rat list \<Rightarrow> nat list" where
  "argsort p = sort_key (\<lambda>i. p ! i) [0..<length p]"

definition benjamini_hochberg :: "rat list \<Rightarrow> rat list" where
  "benjamini_hochberg p =
     (let n = length p in
      if n = 0 then p
      else let order = argsort p;
               ranked = map (\<lambda>(k, i). p ! i * of_nat n / of_nat (k + 1)) (enumerate 0 order);
               adjusted = rev (accumulate_min (rev ranked))
           in scatter order (map clip01 adjusted) (replicate n 0))"

section \<open>Risk and severity\<close>

definition NOT_SIGNIFICANT_CAP :: rat where "NOT_SIGNIFICANT_CAP = 39/10"

definition BANDS :: "(rat \<times> severity) list" where
  "BANDS = [(9, CRITICAL), (7, HIGH), (4, MEDIUM), (1/10, LOW)]"

definition severity_of :: "rat \<Rightarrow> severity" where
  "severity_of risk = (case List.find (\<lambda>(floor, level). floor \<le> risk) BANDS of
     Some (_, level) \<Rightarrow> level | None \<Rightarrow> INFO)"

definition entity_risk :: "rat \<Rightarrow> rat \<Rightarrow> rat \<Rightarrow> rat \<Rightarrow> rat \<times> rat" where
  "entity_risk p q impact fdr =
     (let likelihood = 1 - p; risk = 10 * likelihood * impact;
          risk' = (if fdr < q then min risk NOT_SIGNIFICANT_CAP else risk)
      in (likelihood, round_digits 2 risk'))"

section \<open>Attack strength\<close>

definition FPR_LEVELS :: "(string \<times> rat) list" where
  "FPR_LEVELS = [(''0.001'', 1/1000), (''0.01'', 1/100), (''0.05'', 5/100)]"

text \<open>scikit-learn's area under the curve and the curve itself, as functions of the members' and the controls' scores.\<close>

record roc_lib =
  rk_auc :: "rat list \<Rightarrow> rat list \<Rightarrow> rat"
  rk_curve :: "rat list \<Rightarrow> rat list \<Rightarrow> (rat \<times> rat) list"     \<comment> \<open>false and true positive rates\<close>

definition somes :: "'a option list \<Rightarrow> 'a list" where
  "somes xs = List.map_filter id xs"

definition attack_strength :: "roc_lib \<Rightarrow> rat option list \<Rightarrow> rat option list \<Rightarrow> rat option \<times> rat dict" where
  "attack_strength rk members controls =
     (let member = somes members; control = somes controls in
      if member = [] \<or> control = [] then (None, [])
      else (Some (round_digits 4 (rk_auc rk member control)),
            map (\<lambda>(name, level).
              (name, round_digits 4 (fold max (map snd (filter (\<lambda>(fpr, tpr). fpr \<le> level) (rk_curve rk member control))) 0)))
            FPR_LEVELS))"

section \<open>The adjustment is the textbook one\<close>

lemma length_running_min [simp]: "length (running_min m xs) = length xs"
  by (induction xs arbitrary: m) auto

lemma length_accumulate_min [simp]: "length (accumulate_min xs) = length xs"
  by (cases xs) (simp_all add: accumulate_min_def)

lemma running_min_nth: "k < length xs \<Longrightarrow> running_min m xs ! k = Min (insert m (set (take (Suc k) xs)))"
proof (induction xs arbitrary: m k)
  case (Cons x xs)
  show ?case
  proof (cases k)
    case (Suc j)
    then have "running_min m (x # xs) ! k = Min (insert (min m x) (set (take (Suc j) xs)))"
      using Cons by simp
    also have "\<dots> = Min (insert m (insert x (set (take (Suc j) xs))))"
      by (cases "set (take (Suc j) xs) = {}") (simp_all add: Min_insert min.assoc del: set_take_subset)
    finally show ?thesis using Suc by simp
  qed (simp add: min_def)
qed simp

lemma accumulate_min_nth: "k < length xs \<Longrightarrow> accumulate_min xs ! k = Min (set (take (Suc k) xs))"
  by (cases xs; cases k) (auto simp: accumulate_min_def running_min_nth)

lemma suffix_min_nth:
  assumes "k < length xs"
  shows "rev (accumulate_min (rev xs)) ! k = Min (set (drop k xs))"
proof -
  have "rev (accumulate_min (rev xs)) ! k = accumulate_min (rev xs) ! (length xs - Suc k)"
    using assms by (simp add: rev_nth)
  also have "\<dots> = Min (set (take (Suc (length xs - Suc k)) (rev xs)))"
    using assms by (simp add: accumulate_min_nth)
  also have "take (Suc (length xs - Suc k)) (rev xs) = rev (drop k xs)"
    using assms by (simp add: take_rev Suc_diff_Suc)
  finally show ?thesis by simp
qed

lemma scatter_Cons [simp]: "scatter (i # order) (v # vs) xs = scatter order vs (xs[i := v])"
  by (simp add: scatter_def)

lemma scatter_Nil [simp]: "scatter [] vs xs = xs" "scatter order [] xs = xs"
  by (simp_all add: scatter_def)

lemma length_scatter [simp]: "length (scatter order vs xs) = length xs"
proof (induction order arbitrary: vs xs)
  case (Cons i order)
  then show ?case by (cases vs) simp_all
qed simp

lemma scatter_other: "i \<notin> set order \<Longrightarrow> scatter order vs xs ! i = xs ! i"
proof (induction order arbitrary: vs xs)
  case (Cons j order)
  then show ?case by (cases vs) auto
qed simp

lemma scatter_nth:
  "distinct order \<Longrightarrow> length vs = length order \<Longrightarrow> \<forall>i \<in> set order. i < length xs \<Longrightarrow> k < length order
   \<Longrightarrow> scatter order vs xs ! (order ! k) = vs ! k"
proof (induction order arbitrary: vs xs k)
  case (Cons i order)
  then obtain v vs' where "vs = v # vs'" by (cases vs) auto
  with Cons show ?case by (cases k) (auto simp: scatter_other)
qed simp

lemma argsort_facts:
  "distinct (argsort p)" "set (argsort p) = {..<length p}" "length (argsort p) = length p"
  "sorted (map (\<lambda>i. p ! i) (argsort p))"
  by (auto simp: argsort_def)

lemma argsort_less: "k < length p \<Longrightarrow> argsort p ! k < length p"
  using argsort_facts(2,3) [of p] nth_mem [of k "argsort p"] by simp

lemma argsort_surj: "j < length p \<Longrightarrow> \<exists>k < length p. argsort p ! k = j"
  using argsort_facts(2,3) [of p] by (metis in_set_conv_nth lessThan_iff)

text \<open>How many p-values are at most \<open>v\<close>, and what each contributes to the adjustment.\<close>

definition rank_of :: "rat list \<Rightarrow> rat \<Rightarrow> nat" where
  "rank_of p v = card {k. k < length p \<and> p ! k \<le> v}"

definition step_up :: "rat list \<Rightarrow> nat \<Rightarrow> rat" where
  "step_up p j = p ! j * of_nat (length p) / of_nat (rank_of p (p ! j))"

text \<open>Benjamini and Hochberg's definition: the least \<open>n p\<^sub>j / #{p \<le> p\<^sub>j}\<close> over the p-values from \<open>p\<^sub>i\<close> up.\<close>

definition bh_reference :: "rat list \<Rightarrow> rat list" where
  "bh_reference p = map (\<lambda>i. clip01 (Min (step_up p ` {j. j < length p \<and> p ! i \<le> p ! j}))) [0..<length p]"

lemma rank_sorted:
  assumes s: "s = map (\<lambda>i. p ! i) (argsort p)"
  shows "rank_of p v = card {k. k < length s \<and> s ! k \<le> v}" "{k. k < length s \<and> s ! k \<le> v} = {..<rank_of p v}"
proof -
  let ?A = "{k. k < length s \<and> s ! k \<le> v}" and ?B = "{k. k < length p \<and> p ! k \<le> v}"
  have "(\<lambda>k. argsort p ! k) ` ?A = ?B"
  proof (intro equalityI subsetI)
    fix j assume j: "j \<in> ?B"
    then obtain k where "k < length p" "argsort p ! k = j" using argsort_surj by blast
    with j show "j \<in> (\<lambda>k. argsort p ! k) ` ?A" by (auto simp: s argsort_facts)
  next
    fix j assume "j \<in> (\<lambda>k. argsort p ! k) ` ?A"
    then obtain k where "k < length p" "p ! (argsort p ! k) \<le> v" "j = argsort p ! k"
      by (auto simp: s argsort_facts)
    then show "j \<in> ?B" using argsort_less by simp
  qed
  moreover have "inj_on (\<lambda>k. argsort p ! k) ?A"
    by (rule inj_onI) (simp add: s nth_eq_iff_index_eq argsort_facts)
  ultimately have rank: "rank_of p v = card ?A" unfolding rank_of_def using card_image by fastforce
  then show "rank_of p v = card ?A" .
  have sorted: "sorted s" by (simp add: s argsort_facts)
  have down: "j \<in> ?A" if "k \<in> ?A" "j \<le> k" for j k
    using that sorted by (auto dest: sorted_nth_mono [of s j k])
  have "finite ?A" by simp
  have "?A = {..<card ?A}"
  proof (cases "?A = {}")
    case False
    then have "{..Max ?A} \<subseteq> ?A" using down [OF Max_in [OF \<open>finite ?A\<close>]] by blast
    moreover have "?A \<subseteq> {..Max ?A}" using Max_ge [OF \<open>finite ?A\<close>] by blast
    ultimately have "?A = {..Max ?A}" by blast
    then have "card ?A = Suc (Max ?A)" by (metis card_atMost)
    with \<open>?A = {..Max ?A}\<close> show ?thesis by (simp add: lessThan_Suc_atMost)
  qed (simp only: card.empty lessThan_0)
  then show "?A = {..<rank_of p v}" unfolding rank .
qed

lemma rank_iff:
  "m < rank_of p v \<longleftrightarrow> m < length p \<and> p ! (argsort p ! m) \<le> v"
proof -
  define s where "s = map (\<lambda>i. p ! i) (argsort p)"
  have "m < rank_of p v \<longleftrightarrow> m \<in> {k. k < length s \<and> s ! k \<le> v}"
    unfolding rank_sorted(2) [OF s_def] by simp
  then show ?thesis by (auto simp: s_def argsort_facts)
qed

lemma benjamini_hochberg_nth:
  assumes "list_all (\<lambda>x. 0 \<le> x) p" "i < length p"
  shows "benjamini_hochberg p ! i = clip01 (Min (step_up p ` {j. j < length p \<and> p ! i \<le> p ! j}))"
proof -
  let ?n = "length p"
  define s where "s = map (\<lambda>i. p ! i) (argsort p)"
  define ranked where "ranked = map (\<lambda>(k, i). p ! i * of_nat ?n / of_nat (k + 1)) (enumerate 0 (argsort p))"
  have len: "length s = ?n" "length ranked = ?n" by (simp_all add: s_def ranked_def argsort_facts)
  have ranked: "ranked ! k = s ! k * of_nat ?n / of_nat (k + 1)" if "k < ?n" for k
    using that by (simp add: ranked_def s_def argsort_facts nth_enumerate_eq)
  have sorted: "sorted s" by (simp add: s_def argsort_facts)
  have pos: "0 \<le> s ! k" if "k < ?n" for k
    using that assms(1) argsort_less [OF that] by (simp add: s_def argsort_facts list_all_length)
  obtain k where k: "k < ?n" "argsort p ! k = i"
    using assms(2) argsort_surj by blast
  then have sk: "s ! k = p ! i" by (simp add: s_def argsort_facts)
  have drop: "set (drop k ranked) = {ranked ! m | m. k \<le> m \<and> m < ?n}"
    using len k by (auto simp: set_conv_nth) (metis add.commute add_diff_cancel_left' diff_less_mono le_add1 le_add_diff_inverse)
  let ?B = "step_up p ` {j. j < ?n \<and> p ! i \<le> p ! j}"
  have fin: "finite ?B" "?B \<noteq> {}" "finite (set (drop k ranked))" "set (drop k ranked) \<noteq> {}"
    using assms(2) k len by auto
  have "Min (set (drop k ranked)) \<le> b" if "b \<in> ?B" for b
  proof -
    from that obtain j where j: "j < ?n" "p ! i \<le> p ! j" "b = step_up p j" by blast
    let ?r = "rank_of p (p ! j)"
    obtain m where m: "m < ?n" "argsort p ! m = j"
      using j(1) argsort_surj by blast
    have mem: "m < ?r" "k < ?r" using m k j(2) by (simp_all add: rank_iff)
    then have r: "?r - 1 < ?n" "s ! (?r - 1) \<le> p ! j"
      using rank_iff [of "?r - 1" p "p ! j"] by (simp_all add: s_def argsort_facts)
    have "s ! m \<le> s ! (?r - 1)" using sorted mem(1) r(1) len by (intro sorted_nth_mono) auto
    then have last: "?r - 1 < ?n" "s ! (?r - 1) = p ! j" using m r by (simp_all add: s_def argsort_facts)
    then have "b = ranked ! (?r - 1)" using ranked [of "?r - 1"] mem j(3) by (simp add: step_up_def)
    moreover have "k \<le> ?r - 1" using mem by simp
    ultimately have "b \<in> set (drop k ranked)" unfolding drop using last(1) by blast
    then show ?thesis by simp
  qed
  moreover have "Min ?B \<le> a" if "a \<in> set (drop k ranked)" for a
  proof -
    from that obtain m where m: "k \<le> m" "m < ?n" "a = ranked ! m" unfolding drop by blast
    let ?j = "argsort p ! m"
    have j: "?j < ?n" "p ! ?j = s ! m" using m argsort_less [OF m(2)] by (simp_all add: s_def argsort_facts)
    have "m < rank_of p (s ! m)" using m by (simp add: rank_iff s_def argsort_facts)
    then have "of_nat (m + 1) \<le> (of_nat (rank_of p (s ! m)) :: rat)" by (simp only: of_nat_le_iff)
    then have "s ! m * of_nat ?n / of_nat (rank_of p (s ! m)) \<le> s ! m * of_nat ?n / of_nat (m + 1)"
      using pos [OF m(2)] by (intro divide_left_mono mult_nonneg_nonneg mult_pos_pos) simp_all
    then have "step_up p ?j \<le> a" unfolding step_up_def j(2) m(3) ranked [OF m(2)] .
    moreover have "p ! i \<le> p ! ?j" unfolding j(2) sk [symmetric] using sorted m(1,2) len(1) by (intro sorted_nth_mono) simp_all
    then have "step_up p ?j \<in> ?B" using j(1) by blast
    ultimately show ?thesis using fin(1) by (meson Min_le order_trans)
  qed
  ultimately have eq: "Min (set (drop k ranked)) = Min ?B" using fin by (intro antisym Min.boundedI)
  have "benjamini_hochberg p = scatter (argsort p) (map clip01 (rev (accumulate_min (rev ranked)))) (replicate ?n 0)"
    using assms(2) by (auto simp: benjamini_hochberg_def Let_def ranked_def)
  moreover have "scatter (argsort p) (map clip01 (rev (accumulate_min (rev ranked)))) (replicate ?n 0) ! (argsort p ! k)
      = map clip01 (rev (accumulate_min (rev ranked))) ! k"
    by (rule scatter_nth) (use k(1) len argsort_facts [of p] in simp_all)
  ultimately have "benjamini_hochberg p ! i = map clip01 (rev (accumulate_min (rev ranked))) ! k"
    by (simp only: k(2))
  also have "\<dots> = clip01 (Min (set (drop k ranked)))" using k len by (simp add: suffix_min_nth)
  finally show ?thesis unfolding eq .
qed

lemma length_benjamini_hochberg [simp]: "length (benjamini_hochberg p) = length p"
  by (simp add: benjamini_hochberg_def Let_def)

text \<open>
  C14. The vectorised adjustment (sort, scale by rank, running minimum from the largest, scatter back)
  computes Benjamini and Hochberg's adjusted p-values, whatever order the sort leaves ties in.
\<close>

theorem benjamini_hochberg_correct:
  assumes "list_all (\<lambda>x. 0 \<le> x) p"
  shows "benjamini_hochberg p = bh_reference p"
  by (rule nth_equalityI) (simp_all add: bh_reference_def benjamini_hochberg_nth [OF assms])

lemma step_up_nonneg: "list_all (\<lambda>x. 0 \<le> x) p \<Longrightarrow> j < length p \<Longrightarrow> 0 \<le> step_up p j"
  by (simp add: step_up_def list_all_length)

lemma clip01_le: "0 \<le> x \<Longrightarrow> 0 \<le> d \<Longrightarrow> d < 1 \<Longrightarrow> clip01 x \<le> d \<longleftrightarrow> x \<le> d"
  by (auto simp: clip01_def)

lemma clip01_range: "0 \<le> clip01 x" "clip01 x \<le> 1"
  by (simp_all add: clip01_def)

lemma rank_pos: "j < length p \<Longrightarrow> 0 < rank_of p (p ! j)"
  by (auto simp: rank_of_def card_gt_0_iff)

lemma adjusted_decision:
  assumes "list_all (\<lambda>x. 0 \<le> x) p" "i < length p" "0 \<le> fdr" "fdr < 1"
  shows "benjamini_hochberg p ! i \<le> fdr \<longleftrightarrow>
    (\<exists>j < length p. p ! i \<le> p ! j \<and> p ! j * of_nat (length p) \<le> fdr * of_nat (rank_of p (p ! j)))"
proof -
  let ?B = "step_up p ` {j. j < length p \<and> p ! i \<le> p ! j}"
  have fin: "finite ?B" "?B \<noteq> {}" using assms(2) by auto
  have "0 \<le> Min ?B" using fin step_up_nonneg [OF assms(1)] by (auto simp: Min_ge_iff)
  then have "benjamini_hochberg p ! i \<le> fdr \<longleftrightarrow> (\<exists>b \<in> ?B. b \<le> fdr)"
    using Min_le_iff [OF fin] by (simp only: benjamini_hochberg_nth [OF assms(1,2)] clip01_le [OF _ assms(3,4)])
  also have "\<dots> \<longleftrightarrow> (\<exists>j < length p. p ! i \<le> p ! j \<and> step_up p j \<le> fdr)" by blast
  also have "\<dots> \<longleftrightarrow> (\<exists>j < length p. p ! i \<le> p ! j \<and> p ! j * of_nat (length p) \<le> fdr * of_nat (rank_of p (p ! j)))"
    using rank_pos [of _ p] by (auto simp: step_up_def pos_divide_le_eq)
  finally show ?thesis .
qed

text \<open>
  Comparing an adjusted p-value with the false discovery rate is the step-up procedure: an entity is
  significant exactly if some p-value at least as large as its own is at most its rank's share of the rate.
\<close>

theorem significance_is_step_up:
  assumes "list_all (\<lambda>x. 0 \<le> x) p" "i < length p" "0 \<le> fdr" "fdr < 1"
  shows "benjamini_hochberg p ! i \<le> fdr \<longleftrightarrow>
    (\<exists>j < length p. p ! i \<le> p ! j \<and> p ! j \<le> of_nat (rank_of p (p ! j)) / of_nat (length p) * fdr)"
proof -
  have "0 < length p" using assms(2) by linarith
  then have "p ! j * of_nat (length p) \<le> fdr * of_nat (rank_of p (p ! j))
      \<longleftrightarrow> p ! j \<le> of_nat (rank_of p (p ! j)) / of_nat (length p) * fdr" for j
    by (simp add: pos_le_divide_eq mult.commute)
  then show ?thesis unfolding adjusted_decision [OF assms] by simp
qed

lemma benjamini_hochberg_range:
  assumes "list_all (\<lambda>x. 0 \<le> x) p" "q \<in> set (benjamini_hochberg p)"
  shows "0 \<le> q \<and> q \<le> 1"
  using assms benjamini_hochberg_nth [OF assms(1)] clip01_range by (auto simp: in_set_conv_nth)

subsection \<open>Risk\<close>

lemma severity_of_unfold:
  "severity_of r = (if 9 \<le> r then CRITICAL else if 7 \<le> r then HIGH else if 4 \<le> r then MEDIUM
     else if 1/10 \<le> r then LOW else INFO)"
  by (simp add: severity_of_def BANDS_def)

lemma severity_of_mono: "r \<le> r' \<Longrightarrow> severity_of r \<le> severity_of r'"
  by (auto simp: severity_of_unfold less_eq_severity_def SEVERITY_ORDER_def)

lemma severity_capped: "r \<le> NOT_SIGNIFICANT_CAP \<Longrightarrow> severity_of r \<le> LOW"
  using severity_of_mono [of r NOT_SIGNIFICANT_CAP]
  by (simp add: NOT_SIGNIFICANT_CAP_def severity_of_unfold [of "39/10"])

lemma entity_risk_range:
  assumes "0 \<le> p" "p \<le> 1" "0 \<le> w" "w \<le> 1" "entity_risk p q w fdr = (likelihood, risk)"
  shows "0 \<le> likelihood \<and> likelihood \<le> 1 \<and> 0 \<le> risk \<and> risk \<le> 10 \<and> (fdr < q \<longrightarrow> risk \<le> NOT_SIGNIFICANT_CAP)"
proof -
  let ?raw = "10 * (1 - p) * w"
  let ?r = "if fdr < q then min ?raw NOT_SIGNIFICANT_CAP else ?raw"
  have "(1 - p) * w \<le> 1" using assms mult_mono [of "1 - p" 1 w 1] by simp
  then have "10 * ((1 - p) * w) \<le> 10 * 1" by (intro mult_left_mono) simp_all
  moreover have "0 \<le> (1 - p) * w" using assms by (intro mult_nonneg_nonneg) simp_all
  ultimately have raw: "0 \<le> ?raw" "?raw \<le> 10" by (simp_all only: mult.assoc)
  then have r: "0 \<le> ?r" "?r \<le> 10" by (auto simp: NOT_SIGNIFICANT_CAP_def)
  have "round_digits 2 0 = 0" "round_digits 2 10 = 10" "round_digits 2 NOT_SIGNIFICANT_CAP = NOT_SIGNIFICANT_CAP"
    using round_digits_decimal [of 2 0] round_digits_decimal [of 2 1000] round_digits_decimal [of 2 390]
    by (simp_all add: NOT_SIGNIFICANT_CAP_def)
  with round_digits_mono [OF r(1), of 2] round_digits_mono [OF r(2), of 2] round_digits_mono [of ?r NOT_SIGNIFICANT_CAP 2] assms
  show ?thesis by (auto simp: entity_risk_def Let_def)
qed

theorem benjamini_hochberg_correct_witness:
  "benjamini_hochberg [1/2, 1/100, 1/100, 3/100] = bh_reference [1/2, 1/100, 1/100, 3/100]"
  by (rule benjamini_hochberg_correct) simp

theorem significance_is_step_up_witness: "benjamini_hochberg [1/2, 1/100] ! 1 \<le> 5/100"
proof -
  have "{k. k < length [1/2, 1/100::rat] \<and> [1/2, 1/100] ! k \<le> (1/100::rat)} = {1}"
    by (auto simp: less_Suc_eq numeral_2_eq_2)
  then have "rank_of [1/2, 1/100] ([1/2, 1/100] ! 1) = 1" by (simp add: rank_of_def)
  then show ?thesis
    by (subst significance_is_step_up) (auto intro!: exI [of _ 1])
qed

end
