(* ===== verification/MP_Evidence.thy ===== *)
theory MP_Evidence
  imports MP_Risk MP_Sanitize
begin

text \<open>
  The membership scores of one value (\<^verbatim>\<open>llm/methods.py\<close>), the statistical evidence drawn from the scores
  of all (\<^verbatim>\<open>llm/evidence.py\<close>), and the reference values both use (\<^verbatim>\<open>ReferenceSampler\<close> of
  \<^verbatim>\<open>llm/references.py\<close>). Log-probabilities and scores are rationals, a NaN is \<open>None\<close>; infinite
  log-probabilities are not modelled. The distributions of scipy, square root, logarithms, the compressed size
  of a text and the random permutations are parameters.

  The lemmas: reference values are distinct and never the value itself, and cross-fitting is honest (the
  method an entity is judged by does not depend on the scores of its own fold).
\<close>

datatype audit_error = AuditValueError | AuditKeyError | AuditIndexError

record stats_lib =
  sx_roc :: roc_lib
  sx_norm_sf :: "rat \<Rightarrow> rat"
  sx_binom_sf :: "int \<Rightarrow> nat \<Rightarrow> rat \<Rightarrow> rat"
  sx_sqrt :: "rat \<Rightarrow> rat"
  sx_log2 :: "nat \<Rightarrow> rat"
  sx_ln :: "rat \<Rightarrow> rat"
  sx_exp :: "rat \<Rightarrow> rat"
  sx_zlib_size :: "string \<Rightarrow> nat"
  sx_shuffle :: "int \<Rightarrow> nat \<Rightarrow> nat list"           \<comment> \<open>\<open>range(n)\<close> shuffled by the seed\<close>
  sx_sample :: "int \<Rightarrow> nat \<Rightarrow> nat \<Rightarrow> nat list"    \<comment> \<open>which of \<open>n\<close> elements \<open>Random(seed).sample(xs, k)\<close> takes\<close>

definition res_bind :: "'e + 'a \<Rightarrow> ('a \<Rightarrow> 'e + 'b) \<Rightarrow> 'e + 'b" where
  "res_bind r f = (case r of Inl e \<Rightarrow> Inl e | Inr x \<Rightarrow> f x)"

definition mean :: "rat list \<Rightarrow> rat" where
  "mean xs = sum_list xs / of_nat (length xs)"

section \<open>Scores of one sample\<close>

record sample =
  sm_prefix :: string
  sm_value :: string
  sm_suffix :: string

definition sample_text :: "sample \<Rightarrow> string" where
  "sample_text s = sm_prefix s @ sm_value s @ sm_suffix s"

definition sample_span :: "sample \<Rightarrow> nat \<times> nat" where
  "sample_span s = (length (sm_prefix s), length (sm_prefix s) + length (sm_value s))"

definition with_value :: "sample \<Rightarrow> string \<Rightarrow> sample" where
  "with_value s v = s\<lparr> sm_value := v \<rparr>"

record scored =
  sc_logprobs :: "rat option list"
  sc_offsets :: "(nat \<times> nat) list"

record parts =
  pt_all :: "rat list"
  pt_value :: "rat list"
  pt_suffix :: "rat list"

text \<open>The loop of \<^verbatim>\<open>Parts.of\<close> over the tokens; the suffix stops growing at the window.\<close>

fun split_tokens :: "nat \<times> nat \<Rightarrow> nat option \<Rightarrow> nat \<Rightarrow> ((nat \<times> nat) \<times> rat option) list \<Rightarrow> parts \<Rightarrow> parts" where
  "split_tokens sp window text_start [] acc = acc"
| "split_tokens sp window text_start (((token_start, token_end), lp) # tokens) acc =
     split_tokens sp window text_start tokens
       (case lp of
          None \<Rightarrow> acc
        | Some x \<Rightarrow>
            if token_end \<le> text_start then acc
            else let acc' = acc\<lparr> pt_all := pt_all acc @ [x] \<rparr>
                 in if token_start < snd sp \<and> fst sp < token_end then acc'\<lparr> pt_value := pt_value acc' @ [x] \<rparr>
                    else if snd sp \<le> token_start \<and> (case window of None \<Rightarrow> True | Some w \<Rightarrow> length (pt_suffix acc') < w)
                    then acc'\<lparr> pt_suffix := pt_suffix acc' @ [x] \<rparr>
                    else acc')"

text \<open>\<^verbatim>\<open>zip(..., strict=True)\<close> raises on lists of different lengths.\<close>

definition parts_of :: "scored \<Rightarrow> nat \<times> nat \<Rightarrow> nat option \<Rightarrow> nat \<Rightarrow> audit_error + parts" where
  "parts_of scored sp window text_start =
     (if length (sc_offsets scored) \<noteq> length (sc_logprobs scored) then Inl AuditValueError
      else Inr (split_tokens sp window text_start (zip (sc_offsets scored) (sc_logprobs scored))
                  \<lparr> pt_all = [], pt_value = [], pt_suffix = [] \<rparr>))"

definition continuation :: "parts \<Rightarrow> rat list" where
  "continuation p = (if pt_suffix p \<noteq> [] then pt_suffix p else pt_value p)"

definition loss :: "parts \<Rightarrow> rat option" where
  "loss p = (if pt_all p = [] then None else Some (mean (pt_all p)))"

definition zlib_ratio :: "stats_lib \<Rightarrow> parts \<Rightarrow> string \<Rightarrow> rat option" where
  "zlib_ratio sx p text =
     (let bits = 8 * sx_zlib_size sx text
      in if bits = 0 then None else Some (sum_list (pt_all p) / of_nat bits))"

definition MIN_K_FRACTION :: rat where "MIN_K_FRACTION = 2/10"

definition min_k_score :: "parts \<Rightarrow> rat option" where
  "min_k_score p = (if pt_all p = [] then None
     else let count = max 1 (nat (round_half_even (MIN_K_FRACTION * of_nat (length (pt_all p)))))
          in Some (mean (take count (sort (pt_all p)))))"

text \<open>\<^verbatim>\<open>loss(conditional) / base if base else nan\<close>; a NaN base is truthy and gives NaN.\<close>

definition recall :: "parts \<Rightarrow> parts \<Rightarrow> rat option" where
  "recall unconditional conditional = (case (loss unconditional, loss conditional) of
      (Some base, Some c) \<Rightarrow> if base = 0 then None else Some (c / base)
    | _ \<Rightarrow> None)"

definition loss_suffix :: "parts \<Rightarrow> rat option" where
  "loss_suffix p = (if continuation p = [] then None else Some (mean (continuation p)))"

definition logmeanexp :: "stats_lib \<Rightarrow> rat list \<Rightarrow> rat" where
  "logmeanexp sx xs = (let top = fold max (tl xs) (hd xs)
     in top + sx_ln sx (mean (map (\<lambda>x. sx_exp sx (x - top)) xs)))"

definition reference_set :: "stats_lib \<Rightarrow> parts \<Rightarrow> parts list \<Rightarrow> bool \<Rightarrow> rat option" where
  "reference_set sx candidate references suffix_only =
     (let score = (\<lambda>p. sum_list (if suffix_only then continuation p else pt_value p))
      in if references = [] then None
         else Some (score candidate - logmeanexp sx (map score references)))"

definition LIKELIHOOD_METHODS :: "string list" where
  "LIKELIHOOD_METHODS = [''loss'', ''zlib'', ''min_k'', ''recall'', ''loss_suffix'', ''reference_set'', ''reference_set_suffix'']"

section \<open>Reference values\<close>

text \<open>
  \<^verbatim>\<open>ReferenceSampler\<close>: the synthetic sampler, the values of the corpus by type, and the further draws from the
  random stream (\<open>random()\<close> and the index \<open>choice\<close> takes among \<open>k\<close>).
\<close>

record ref_sampler =
  rs_base :: sampler
  rs_kind :: string
  rs_pool :: "(string \<times> string list) list"
  rs_random :: "nat \<Rightarrow> rat"
  rs_choice :: "nat \<Rightarrow> nat \<Rightarrow> nat"

record sampler_source =
  so_values :: source_of_values
  so_random :: "nat \<Rightarrow> rat"
  so_choice :: "nat \<Rightarrow> nat \<Rightarrow> nat"

definition pool_add :: "corpus_record \<Rightarrow> span \<Rightarrow> (string \<times> string list) list \<Rightarrow> (string \<times> string list) list" where
  "pool_add r s d = AList.update (sp_type s)
     ((case map_of d (sp_type s) of None \<Rightarrow> [] | Some vs \<Rightarrow> vs) @ [span_value r s]) d"

definition new_ref_sampler :: "sampler_source \<Rightarrow> corpus_record list \<Rightarrow> string \<Rightarrow> audit_error + ref_sampler" where
  "new_ref_sampler so records kind =
     (if kind \<notin> {''synthetic'', ''corpus'', ''mix''} then Inl AuditValueError
      else Inr \<lparr> rs_base = reference_sampler (so_values so) records, rs_kind = kind,
        rs_pool = fold (\<lambda>r d. fold (pool_add r) (cr_entities r) d) records [],
        rs_random = so_random so, rs_choice = so_choice so \<rparr>)"

definition next_draw :: "ref_sampler \<Rightarrow> ref_sampler" where
  "next_draw rs = rs\<lparr> rs_base := (rs_base rs)\<lparr> sa_drawn := Suc (sa_drawn (rs_base rs)) \<rparr> \<rparr>"

definition from_corpus :: "string \<Rightarrow> string \<Rightarrow> ref_sampler \<Rightarrow> string option \<times> ref_sampler" where
  "from_corpus entity_type candidate rs =
     (let pool = filter (\<lambda>v. v \<noteq> candidate) (case map_of (rs_pool rs) entity_type of None \<Rightarrow> [] | Some vs \<Rightarrow> vs)
      in if pool = [] then (None, rs)
         else let matched = filter (similar candidate) pool;
                  choices = (if matched \<noteq> [] then matched else pool)
              in (Some (choices ! rs_choice rs (sa_drawn (rs_base rs)) (length choices)), next_draw rs))"

definition draw_synthetic :: "string \<Rightarrow> string \<Rightarrow> ref_sampler \<Rightarrow> string \<times> ref_sampler" where
  "draw_synthetic entity_type candidate rs = (case synthetic entity_type candidate (rs_base rs) of
      (v, sa) \<Rightarrow> (v, rs\<lparr> rs_base := sa \<rparr>))"

definition draw_one :: "string \<Rightarrow> string \<Rightarrow> ref_sampler \<Rightarrow> string \<times> ref_sampler" where
  "draw_one entity_type candidate rs =
     (let (use_corpus, rs1) =
            (if rs_kind rs = ''corpus'' then (True, rs)
             else if rs_kind rs = ''mix'' then (rs_random rs (sa_drawn (rs_base rs)) < 1/2, next_draw rs)
             else (False, rs))
      in if use_corpus
         then (case from_corpus entity_type candidate rs1 of
                 (Some v, rs2) \<Rightarrow> (v, rs2)
               | (None, rs2) \<Rightarrow> draw_synthetic entity_type candidate rs2)
         else draw_synthetic entity_type candidate rs1)"

fun sample_loop :: "nat \<Rightarrow> nat \<Rightarrow> string \<Rightarrow> string \<Rightarrow> string list \<Rightarrow> ref_sampler \<Rightarrow> string list \<times> ref_sampler" where
  "sample_loop 0 n entity_type candidate values rs = (values, rs)"
| "sample_loop (Suc k) n entity_type candidate values rs =
     (case draw_one entity_type candidate rs of (v, rs') \<Rightarrow>
        let values' = (if v \<notin> set values \<and> v \<noteq> candidate then values @ [v] else values)
        in if length values' = n then (values', rs')
           else sample_loop k n entity_type candidate values' rs')"

definition sample_values :: "string \<Rightarrow> string \<Rightarrow> nat \<Rightarrow> ref_sampler \<Rightarrow> string list \<times> ref_sampler" where
  "sample_values entity_type candidate n rs = sample_loop (n * 4) n entity_type candidate [] rs"

section \<open>Evidence\<close>

definition MIN_TYPE_CONTROLS :: nat where "MIN_TYPE_CONTROLS = 30"
definition MAD_TO_SIGMA :: rat where "MAD_TO_SIGMA = 14826/10000"
definition FOLDS :: nat where "FOLDS = 2"

type_synonym score_table = "(string \<times> rat option list) list"

record evidence =
  ev_method_by_fold :: "string list"
  ev_z :: "rat option list"
  ev_control_z :: "rat option list"
  ev_p :: "rat list"
  ev_method_of :: "string list"

definition ev_primary :: "evidence \<Rightarrow> string" where
  "ev_primary ev = (let chosen = sort (remdups (ev_method_by_fold ev))
     in if length chosen = 1 then hd chosen else py_join ''+'' chosen)"

definition median :: "rat list \<Rightarrow> rat" where
  "median xs = (let s = sort xs; n = length s
     in if odd n then s ! (n div 2) else (s ! (n div 2 - 1) + s ! (n div 2)) / 2)"

definition std :: "stats_lib \<Rightarrow> rat list \<Rightarrow> rat" where
  "std sx xs = sx_sqrt sx (mean (map (\<lambda>x. (x - mean xs) ^ 2) xs))"

definition robust :: "stats_lib \<Rightarrow> rat list \<Rightarrow> rat \<times> rat" where
  "robust sx xs =
     (let center = median xs; spread = MAD_TO_SIGMA * median (map (\<lambda>x. \<bar>x - center\<bar>) xs)
      in (center, if 0 < spread then spread else if std sx xs = 0 then 1 else std sx xs))"

text \<open>The centre and spread of a type's controls: its own when there are enough, else all of them.\<close>

definition fit_type :: "stats_lib \<Rightarrow> rat list \<Rightarrow> rat list \<Rightarrow> rat \<times> rat" where
  "fit_type sx pooled own = robust sx (if MIN_TYPE_CONTROLS \<le> length own then own else pooled)"

definition z_score :: "rat \<times> rat \<Rightarrow> rat option \<Rightarrow> rat option" where
  "z_score fit v = map_option (\<lambda>x. (x - fst fit) / snd fit) v"

definition standardize :: "stats_lib \<Rightarrow> nat list \<Rightarrow> string list \<Rightarrow> rat option list \<Rightarrow> rat option list
    \<Rightarrow> rat option list \<times> rat option list" where
  "standardize sx indices types member control =
     (let pooled = somes (map (\<lambda>i. control ! i) indices);
          own = (\<lambda>kind. somes (map (\<lambda>i. control ! i) (filter (\<lambda>i. types ! i = kind) indices)));
          z = (\<lambda>scores. map (\<lambda>i. if i \<in> set indices \<and> pooled \<noteq> []
                 then z_score (fit_type sx pooled (own (types ! i))) (scores ! i) else None) [0..<length types])
      in (z member, z control))"

text \<open>\<^verbatim>\<open>max(xs, key=f)\<close>: the first of the largest.\<close>

fun first_max :: "('a \<Rightarrow> rat) \<Rightarrow> 'a list \<Rightarrow> 'a option" where
  "first_max f [] = None"
| "first_max f (x # xs) = (case first_max f xs of None \<Rightarrow> Some x | Some y \<Rightarrow> if f x < f y then Some y else Some x)"

definition at_indices :: "'a list \<Rightarrow> nat list \<Rightarrow> 'a list" where
  "at_indices xs indices = map (\<lambda>i. xs ! i) indices"

definition method_auc :: "stats_lib \<Rightarrow> score_table \<Rightarrow> score_table \<Rightarrow> nat list \<Rightarrow> string \<Rightarrow> rat" where
  "method_auc sx member control indices name = (case (map_of member name, map_of control name) of
      (Some a, Some b) \<Rightarrow> (case fst (attack_strength (sx_roc sx) (at_indices a indices) (at_indices b indices)) of
          Some v \<Rightarrow> v | None \<Rightarrow> 0)
    | _ \<Rightarrow> 0)"

definition best_method :: "stats_lib \<Rightarrow> string list \<Rightarrow> score_table \<Rightarrow> score_table \<Rightarrow> nat list \<Rightarrow> string option" where
  "best_method sx methods member control indices = first_max (method_auc sx member control indices) methods"

definition fold_of :: "nat list \<Rightarrow> nat \<Rightarrow> nat list" where
  "fold_of order f = sort (map (\<lambda>k. order ! k) (filter (\<lambda>k. k mod FOLDS = f) [0..<length order]))"

definition choose_method :: "stats_lib \<Rightarrow> score_table \<Rightarrow> score_table \<Rightarrow> string \<Rightarrow> nat list \<Rightarrow> nat list \<Rightarrow> audit_error + string" where
  "choose_method sx member control primary own other =
     (if primary = ''auto''
      then (case best_method sx (map fst member) member control (if other \<noteq> [] then other else own) of
              None \<Rightarrow> Inl AuditValueError | Some name \<Rightarrow> Inr name)
      else Inr primary)"

definition fold_evidence :: "stats_lib \<Rightarrow> string list \<Rightarrow> score_table \<Rightarrow> score_table \<Rightarrow> string \<Rightarrow> nat list \<Rightarrow> nat list
    \<Rightarrow> audit_error + (string \<times> rat option list \<times> rat option list) option" where
  "fold_evidence sx types member control primary own other =
     (if own = [] then Inr None
      else res_bind (choose_method sx member control primary own other) (\<lambda>name.
        case (map_of member name, map_of control name) of
          (Some a, Some b) \<Rightarrow> Inr (Some (name, standardize sx own types a b))
        | _ \<Rightarrow> Inl AuditKeyError))"

definition p_of :: "stats_lib \<Rightarrow> rat option \<Rightarrow> rat" where
  "p_of sx z = (case z of None \<Rightarrow> 1 | Some v \<Rightarrow> sx_norm_sf sx v)"

text \<open>The two folds of \<^verbatim>\<open>gather\<close>; what an entity gets comes from the fold it is in.\<close>

definition gather :: "stats_lib \<Rightarrow> string list \<Rightarrow> score_table \<Rightarrow> score_table \<Rightarrow> string \<Rightarrow> int \<Rightarrow> audit_error + evidence" where
  "gather sx types member control primary seed =
     (let n = length types; order = sx_shuffle sx seed n;
          fold0 = fold_of order 0; fold1 = fold_of order 1
      in res_bind (fold_evidence sx types member control primary fold0 fold1) (\<lambda>e0.
         res_bind (fold_evidence sx types member control primary fold1 fold0) (\<lambda>e1.
         let of_fold = (\<lambda>get rest i.
               if i \<in> set fold1 then (case e1 of Some e \<Rightarrow> get e i | None \<Rightarrow> rest)
               else if i \<in> set fold0 then (case e0 of Some e \<Rightarrow> get e i | None \<Rightarrow> rest) else rest);
             z = map (of_fold (\<lambda>(name, a, b) i. a ! i) None) [0..<n]
         in Inr \<lparr> ev_method_by_fold = (case e0 of None \<Rightarrow> [] | Some (name, _) \<Rightarrow> [name])
                      @ (case e1 of None \<Rightarrow> [] | Some (name, _) \<Rightarrow> [name]),
                  ev_z = z, ev_control_z = map (of_fold (\<lambda>(name, a, b) i. b ! i) None) [0..<n],
                  ev_p = map (p_of sx) z,
                  ev_method_of = map (\<lambda>i. if i \<in> set fold1 then (case e1 of Some e \<Rightarrow> fst e | None \<Rightarrow> primary)
                    else if i \<in> set fold0 then (case e0 of Some e \<Rightarrow> fst e | None \<Rightarrow> primary) else primary) [0..<n] \<rparr>)))"

text \<open>\<^verbatim>\<open>holdout[method]\<close> and \<^verbatim>\<open>member[method]\<close> are there for every method that was chosen.\<close>

definition holdout_z :: "stats_lib \<Rightarrow> rat option list \<Rightarrow> string list \<Rightarrow> string \<Rightarrow> rat option \<Rightarrow> rat option" where
  "holdout_z sx null held_types kind v =
     (let pooled = somes null;
          own = somes (map snd (filter (\<lambda>(t, x). t = kind) (zip held_types null)))
      in if pooled = [] then None else z_score (fit_type sx pooled own) v)"

definition holdout_p :: "stats_lib \<Rightarrow> string list \<Rightarrow> string list \<Rightarrow> score_table \<Rightarrow> string list \<Rightarrow> score_table
    \<Rightarrow> audit_error + rat option list \<times> rat list" where
  "holdout_p sx types method_of member held_types holdout =
     (if length types \<noteq> length method_of then Inl AuditValueError
      else if \<not> list_all (\<lambda>m. map_of holdout m \<noteq> None \<and> map_of member m \<noteq> None) method_of then Inl AuditKeyError
      else let z = map (\<lambda>i. holdout_z sx (the (map_of holdout (method_of ! i))) held_types (types ! i)
                      (the (map_of member (method_of ! i)) ! i)) [0..<length types]
           in Inr (z, map (p_of sx) z))"

section \<open>Reference values are usable\<close>

lemma sample_loop_spec:
  assumes "sample_loop k n t cand vs rs = (out, rs')" "distinct vs" "cand \<notin> set vs" "length vs < n \<or> k = 0 \<and> length vs \<le> n"
  shows "distinct out \<and> cand \<notin> set out \<and> length out \<le> n"
  using assms
proof (induction k arbitrary: vs rs)
  case (Suc k)
  obtain v rs1 where v: "draw_one t cand rs = (v, rs1)" by fastforce
  let ?vs = "if v \<notin> set vs \<and> v \<noteq> cand then vs @ [v] else vs"
  have ok: "distinct ?vs" "cand \<notin> set ?vs" "length ?vs \<le> n" using Suc.prems by auto
  show ?case
  proof (cases "length ?vs = n")
    case True
    then show ?thesis using Suc.prems(1) ok v by (auto simp: Let_def)
  next
    case False
    then have "sample_loop k n t cand ?vs rs1 = (out, rs')" using Suc.prems(1) v by (simp add: Let_def)
    from Suc.IH [OF this ok(1,2)] ok(3) False show ?thesis by auto
  qed
qed auto

text \<open>
  Reference values are usable: whatever the source, the sampler returns distinct values, none of them
  the value under test, and no more than asked for.
\<close>

theorem references_are_alternatives:
  "distinct (fst (sample_values t cand n rs)) \<and> cand \<notin> set (fst (sample_values t cand n rs))
   \<and> length (fst (sample_values t cand n rs)) \<le> n"
proof -
  obtain out rs' where "sample_values t cand n rs = (out, rs')" by fastforce
  then show ?thesis
    using sample_loop_spec [of "n * 4" n t cand "[]" rs out rs'] by (simp add: sample_values_def) auto
qed

section \<open>Cross-fitting is honest\<close>

definition shuffle_law :: "stats_lib \<Rightarrow> bool" where
  "shuffle_law sx \<longleftrightarrow> (\<forall>seed n. distinct (sx_shuffle sx seed n) \<and> set (sx_shuffle sx seed n) = {..<n})"

text \<open>What a table of scores says about some of the entities.\<close>

definition restrict_table :: "nat list \<Rightarrow> score_table \<Rightarrow> score_table" where
  "restrict_table indices t = map (\<lambda>(name, v). (name, at_indices v indices)) t"

lemma map_of_restrict_table: "map_of (restrict_table indices t) k = map_option (\<lambda>v. at_indices v indices) (map_of t k)"
  by (simp add: restrict_table_def map_of_map)

lemma restrict_table_names: "map fst (restrict_table indices t) = map fst t"
  by (simp add: restrict_table_def split_beta comp_def)

lemma method_auc_restrict:
  assumes "restrict_table indices m = restrict_table indices m'" "restrict_table indices c = restrict_table indices c'"
  shows "method_auc sx m c indices = method_auc sx m' c' indices"
proof
  fix name
  have "map_option (\<lambda>v. at_indices v indices) (map_of m name) = map_option (\<lambda>v. at_indices v indices) (map_of m' name)"
    "map_option (\<lambda>v. at_indices v indices) (map_of c name) = map_option (\<lambda>v. at_indices v indices) (map_of c' name)"
    unfolding map_of_restrict_table [symmetric] assms by simp_all
  then show "method_auc sx m c indices name = method_auc sx m' c' indices name"
    by (cases "map_of m name"; cases "map_of m' name"; cases "map_of c name"; cases "map_of c' name")
      (simp_all add: method_auc_def)
qed

lemma choose_method_restrict:
  assumes "other \<noteq> []" "restrict_table other m = restrict_table other m'" "restrict_table other c = restrict_table other c'"
  shows "choose_method sx m c primary own other = choose_method sx m' c' primary own other"
proof -
  have "map fst m = map fst m'" using assms(2) restrict_table_names by metis
  then show ?thesis
    using assms(1) method_auc_restrict [OF assms(2,3), of sx] by (simp add: choose_method_def best_method_def)
qed

lemma fold_of_disjoint: "distinct order \<Longrightarrow> i \<in> set (fold_of order f) \<Longrightarrow> f \<noteq> g \<Longrightarrow> i \<notin> set (fold_of order g)"
  by (auto simp: fold_of_def nth_eq_iff_index_eq)

lemma fold_evidence_method:
  assumes "fold_evidence sx types m c primary own other = Inr e" "own \<noteq> []"
  obtains name a b where "e = Some (name, a, b)" "choose_method sx m c primary own other = Inr name"
  using assms by (auto simp: fold_evidence_def res_bind_def split: sum.splits option.splits) (metis surj_pair)

lemma gather_method_of:
  assumes "gather sx types m c primary seed = Inr ev" "shuffle_law sx" "i < length types" "f < 2"
    "i \<in> set (fold_of (sx_shuffle sx seed (length types)) f)"
  shows "choose_method sx m c primary (fold_of (sx_shuffle sx seed (length types)) f)
    (fold_of (sx_shuffle sx seed (length types)) (1 - f)) = Inr (ev_method_of ev ! i)"
proof -
  let ?o = "sx_shuffle sx seed (length types)"
  obtain e0 e1 where e: "fold_evidence sx types m c primary (fold_of ?o 0) (fold_of ?o 1) = Inr e0"
      "fold_evidence sx types m c primary (fold_of ?o 1) (fold_of ?o 0) = Inr e1"
    and ev: "ev_method_of ev ! i = (if i \<in> set (fold_of ?o 1) then (case e1 of Some e \<Rightarrow> fst e | None \<Rightarrow> primary)
       else if i \<in> set (fold_of ?o 0) then (case e0 of Some e \<Rightarrow> fst e | None \<Rightarrow> primary) else primary)"
    using assms(1,3) by (auto simp: gather_def Let_def res_bind_def split: sum.splits)
  have ne: "fold_of ?o f \<noteq> []" using assms(5) by auto
  have "i \<notin> set (fold_of ?o (1 - f))"
  proof (rule fold_of_disjoint [OF _ assms(5)])
    show "distinct ?o" using assms(2) by (simp add: shuffle_law_def)
    show "f \<noteq> 1 - f" by arith
  qed
  moreover have "f = 0 \<or> f = 1" using assms(4) by auto
  ultimately show ?thesis
    using e ev ne assms(5) by (auto elim: fold_evidence_method)
qed


text \<open>Every p-value is one, given that the Gaussian tail is.\<close>

definition tail_law :: "stats_lib \<Rightarrow> bool" where
  "tail_law sx \<longleftrightarrow> (\<forall>x. 0 \<le> sx_norm_sf sx x \<and> sx_norm_sf sx x \<le> 1)
     \<and> (\<forall>k n r. 0 \<le> sx_binom_sf sx k n r \<and> sx_binom_sf sx k n r \<le> 1)"

definition unit_range :: "rat list \<Rightarrow> bool" where
  "unit_range = list_all (\<lambda>x. 0 \<le> x \<and> x \<le> 1)"

lemma p_of_range: "tail_law sx \<Longrightarrow> 0 \<le> p_of sx z \<and> p_of sx z \<le> 1"
  by (auto simp: p_of_def tail_law_def split: option.splits)

lemma gather_spec:
  assumes "gather sx types m c primary seed = Inr ev"
  shows "length (ev_z ev) = length types" "length (ev_control_z ev) = length types"
    "ev_p ev = map (p_of sx) (ev_z ev)" "length (ev_method_of ev) = length types"
  using assms by (auto simp: gather_def Let_def res_bind_def split: sum.splits)

lemma holdout_p_spec:
  assumes "holdout_p sx types method_of m ht h = Inr (z, p)"
  shows "length z = length types" "p = map (p_of sx) z"
  using assms by (auto simp: holdout_p_def Let_def split: if_splits)

end
