(* ===== verification/MP_AuditProps.thy ===== *)
theory MP_AuditProps
  imports MP_Audit
begin

text \<open>
  What an audit result guarantees: its numbers are in range, its counts account for every entity audited,
  and nothing is reported High or Critical unless it stayed significant and was confirmed.
\<close>

section \<open>Single findings\<close>

lemma round_digits_unit: "0 \<le> x \<Longrightarrow> x \<le> 1 \<Longrightarrow> 0 \<le> round_digits n x \<and> round_digits n x \<le> 1"
  using round_digits_mono [of 0 x n] round_digits_mono [of x 1 n] round_digits_decimal [of n 0] round_digits_decimal [of n "10 ^ n"]
  by simp

lemma impact_range: "0 \<le> impact t \<and> impact t \<le> 1"
proof -
  have "list_all (\<lambda>(k, w). 0 \<le> w \<and> w \<le> 1) IMPACT" by (simp add: IMPACT_def HIGH_IMPACT_def)
  then have "map_of IMPACT k = Some w \<Longrightarrow> 0 \<le> w \<and> w \<le> 1" for k w
    by (auto simp: list_all_iff dest: map_of_SomeD)
  then show ?thesis by (auto simp: impact_def DEFAULT_IMPACT_def split: option.splits)
qed

text \<open>The ranges of a finding, and what a severity above Low says about its adjusted p-value.\<close>

definition finding_ok :: "rat \<Rightarrow> entity_finding \<Rightarrow> bool" where
  "finding_ok fdr f \<longleftrightarrow> 0 \<le> ef_risk f \<and> ef_risk f \<le> 10 \<and> ef_severity f = severity_of (ef_risk f)
     \<and> 0 \<le> ef_likelihood f \<and> ef_likelihood f \<le> 1 \<and> 0 \<le> ef_impact f \<and> ef_impact f \<le> 1
     \<and> 0 \<le> ef_p_value f \<and> ef_p_value f \<le> 1 \<and> 0 \<le> ef_q_value f \<and> ef_q_value f \<le> 1
     \<and> (at_least (ef_severity f) MEDIUM \<longrightarrow> ef_q_value f \<le> round_digits 6 fdr)"

lemma flagged_iff: "flagged f \<longleftrightarrow> HIGH \<le> ef_severity f"
  by (simp add: flagged_def at_least_iff)

lemma capped_not_medium: "r \<le> NOT_SIGNIFICANT_CAP \<Longrightarrow> \<not> MEDIUM \<le> severity_of r"
proof
  assume "r \<le> NOT_SIGNIFICANT_CAP" "MEDIUM \<le> severity_of r"
  with severity_capped [of r] have "MEDIUM \<le> LOW" using order_trans by blast
  then show False by (simp add: less_eq_severity_def SEVERITY_ORDER_def)
qed

lemma finding_of_ok:
  assumes "0 \<le> p" "p \<le> 1" "0 \<le> q" "q \<le> 1"
  shows "finding_ok (as_fdr s) (finding_of c s t score p q extraction)"
proof -
  obtain likelihood risk where r: "entity_risk p q (impact (sp_type (tg_span t))) (as_fdr s) = (likelihood, risk)"
    by fastforce
  note range = entity_risk_range [OF assms(1,2) _ _ r] impact_range [of "sp_type (tg_span t)"]
  have "round_digits 6 q \<le> round_digits 6 (as_fdr s)" if "MEDIUM \<le> severity_of risk"
  proof -
    have "\<not> as_fdr s < q" using that capped_not_medium range by blast
    then show ?thesis by (intro round_digits_mono) simp
  qed
  then show ?thesis
    using range assms by (simp add: finding_ok_def finding_of_def Let_def r at_least_iff round_digits_unit)
qed

lemma confirm_finding_ok: "finding_ok fdr f \<Longrightarrow> finding_ok fdr (confirm_finding fdr f r q)"
proof -
  assume ok: "finding_ok fdr f"
  have "\<not> MEDIUM \<le> severity_of (min (ef_risk f) NOT_SIGNIFICANT_CAP)" by (rule capped_not_medium) simp
  with ok show ?thesis
    by (auto simp: finding_ok_def confirm_finding_def Let_def at_least_iff NOT_SIGNIFICANT_CAP_def split: prod.splits)
qed

lemma confirm_finding_flagged:
  "flagged (confirm_finding fdr f r q) \<Longrightarrow> ef_confirmed (confirm_finding fdr f r q) = Some True
     \<and> ef_confirmation_p (confirm_finding fdr f r q) = Some (round_digits 6 (fst r))"
proof -
  have "\<not> HIGH \<le> severity_of (min (ef_risk f) NOT_SIGNIFICANT_CAP)"
    using capped_not_medium [of "min (ef_risk f) NOT_SIGNIFICANT_CAP"]
    by (auto simp: less_eq_severity_def SEVERITY_ORDER_def split: if_splits)
  then show "flagged (confirm_finding fdr f r q) \<Longrightarrow> ?thesis"
    by (auto simp: confirm_finding_def Let_def flagged_iff split: prod.splits if_splits)
qed

section \<open>All findings\<close>

definition confirmed_pair :: "rat \<Rightarrow> entity_finding \<times> target \<Rightarrow> entity_finding \<times> target \<Rightarrow> bool" where
  "confirmed_pair fdr a b \<longleftrightarrow> snd b = snd a \<and>
     (if flagged (fst a) then \<exists>r q. fst b = confirm_finding fdr (fst a) r q else fst b = fst a)"

lemma confirm_flagged_spec:
  "length results = length (filter (\<lambda>(f, t). flagged f) pairs) \<Longrightarrow>
   list_all2 (confirmed_pair fdr) pairs (confirm_flagged fdr pairs results)"
proof (induction fdr pairs results rule: confirm_flagged.induct)
  case (2 fdr f t pairs results)
  have here: "confirmed_pair fdr (f, t) (if flagged f then confirm_finding fdr f r q else f, t)" for r q
    by (cases "flagged f") (auto simp: confirmed_pair_def simp del: split_paired_Ex)
  show ?case
  proof (cases "flagged f")
    case True
    then obtain r q rest where "results = (r, q) # rest" using 2(4) by (cases results) auto
    with 2 here [of r q] True show ?thesis by simp
  qed (use 2 here in simp)
qed simp

lemma length_confirmations:
  "confirmations sx model calls ts s rate rs = Inr results \<Longrightarrow> length results = length ts"
  by (induction ts arbitrary: calls rs results) (auto simp: res_bind_def split: sum.splits prod.splits)

lemma confirm_findings_spec:
  assumes "confirm_findings sx pairs model calls s rs rate = Inr out"
  shows "if as_confirm s then list_all2 (confirmed_pair (as_fdr s)) pairs out else out = pairs"
proof -
  let ?chosen = "filter (\<lambda>(f, t). flagged f) pairs"
  have none: "list_all2 (confirmed_pair (as_fdr s)) pairs pairs" if "?chosen = []"
    using that by (auto simp: list_all2_same filter_empty_conv confirmed_pair_def)
  show ?thesis
    using assms none length_confirmations [of sx model calls "map snd ?chosen" s rate rs]
    by (auto simp: confirm_findings_def Let_def res_bind_def split: if_splits sum.splits intro!: confirm_flagged_spec)
qed

lemma audit_findings_spec:
  assumes "length p = length found" "unit_range p" "(f, t) \<in> set (audit_findings c found score p s extraction)"
  shows "finding_ok (as_fdr s) f"
proof -
  have p: "list_all (\<lambda>x. 0 \<le> x) p" using assms(2) by (simp add: unit_range_def list_all_iff)
  from assms(3) obtain i where i: "i < length found"
    "f = finding_of c s (found ! i) (score ! i) (p ! i) (benjamini_hochberg p ! i) (map_option (\<lambda>e. e ! i) extraction)"
    by (auto simp: audit_findings_def Let_def)
  have "p ! i \<in> set p" "benjamini_hochberg p ! i \<in> set (benjamini_hochberg p)" using i(1) assms(1) by simp_all
  with assms(2) benjamini_hochberg_range [OF p] have "0 \<le> p ! i \<and> p ! i \<le> 1"
      "0 \<le> benjamini_hochberg p ! i \<and> benjamini_hochberg p ! i \<le> 1"
    by (simp_all add: unit_range_def list_all_iff)
  then show ?thesis unfolding i(2) by (intro finding_of_ok) simp_all
qed

lemma length_audit_findings [simp]: "length (audit_findings c found score p s extraction) = length found"
  by (simp add: audit_findings_def Let_def)

section \<open>The p-values\<close>

lemma length_probe_scores [simp]: "length (probe_scores completer calls ts s rs) = length ts"
  by (induction ts arbitrary: calls rs) (simp_all add: Let_def split_beta)

lemma unit_range_p_of: "tail_law sx \<Longrightarrow> unit_range (map (p_of sx) zs)"
  using p_of_range by (auto simp: unit_range_def list_all_iff)

lemma calibrate_p:
  assumes "tail_law sx" "calibrate sx score records found held s ev rs sr = Inr sr'"
    "length (sr_p sr) = length found" "unit_range (sr_p sr)"
  shows "length (sr_p sr') = length found \<and> unit_range (sr_p sr')"
proof -
  have "sr' = sr \<or> (\<exists>held_scores z. holdout_p sx (map (\<lambda>t. sp_type (tg_span t)) found) (ev_method_of ev)
      (au_member (sr_scores sr)) (map (\<lambda>t. sp_type (tg_span t)) held) held_scores = Inr (z, sr_p sr'))"
    using assms(2) by (auto simp: calibrate_def Let_def res_bind_def split: if_splits prod.splits sum.splits)
  then show ?thesis
    using assms(3,4) unit_range_p_of [OF assms(1)] holdout_p_spec by fastforce
qed

lemma screen_p:
  assumes "tail_law sx" "screen sx model records holdout found s rs = Inr sr"
  shows "length (sr_p sr) = length found \<and> unit_range (sr_p sr)"
proof (cases model)
  case (ScoringModel n score)
  obtain scores ev rs2 where ev: "gather sx (map (\<lambda>t. sp_type (tg_span t)) found) (au_member scores) (au_control scores)
      (as_primary s) (as_seed s) = Inr ev"
    and cal: "calibrate sx score records found (audit_targets sx holdout s) s ev rs2
      \<lparr> sr_access = ''logprobs'', sr_primary = ev_primary ev, sr_methods = as_methods s, sr_scores = scores,
        sr_member = ev_z ev, sr_control = ev_control_z ev, sr_score = ev_z ev, sr_p = ev_p ev,
        sr_extraction = None, sr_calibration = ''synthetic'', sr_holdout_entities = 0,
        sr_holdout_auc = None, sr_shift_auc = None \<rparr> = Inr sr"
    using assms(2) ScoringModel
    by (auto simp: screen_def Let_def res_bind_def split: if_splits prod.splits sum.splits)
  show ?thesis
    using calibrate_p [OF assms(1) cal] gather_spec [OF ev] unit_range_p_of [OF assms(1)] by simp
next
  case (GenerationModel n completer)
  then show ?thesis
    using assms by (auto simp: screen_def Let_def probe_p_values_def unit_range_def list_all_iff tail_law_def)
qed

section \<open>The result\<close>

lemma count_severities:
  "fold count_severity fs (map (\<lambda>l. (severity_value l, g l)) SEVERITY_ORDER)
     = map (\<lambda>l. (severity_value l, g l + int (length (filter (\<lambda>f. ef_severity f = l) fs)))) SEVERITY_ORDER"
proof (induction fs arbitrary: g)
  case (Cons f fs)
  have "count_severity f (map (\<lambda>l. (severity_value l, g l)) SEVERITY_ORDER)
      = map (\<lambda>l. (severity_value l, (if ef_severity f = l then g l + 1 else g l))) SEVERITY_ORDER"
    by (cases "ef_severity f") (simp_all add: count_severity_def SEVERITY_ORDER_def)
  with Cons.IH [of "\<lambda>l. if ef_severity f = l then g l + 1 else g l"] show ?case
    by (auto simp: SEVERITY_ORDER_def)
qed simp

lemma summarize_spec:
  assumes "summarize pairs fdr = (findings, counts)"
  shows "set findings \<subseteq> fst ` set pairs" "length findings \<le> MAX_FINDINGS" "sorted (map (\<lambda>f. - ef_risk f) findings)"
    and "counts = map (\<lambda>l. (severity_value l, int (length (filter (\<lambda>p. ef_severity (fst p) = l) pairs)))) SEVERITY_ORDER"
proof -
  let ?sorted = "sort_key (\<lambda>f. - ef_risk f) (sort_key ef_q_value (map fst pairs))"
  have f: "findings = take MAX_FINDINGS (filter (\<lambda>f. ef_q_value f \<le> fdr \<or> ef_severity f \<noteq> INFO) ?sorted)"
    and c: "counts = fold count_severity (map fst pairs) (map (\<lambda>l. (severity_value l, 0)) SEVERITY_ORDER)"
    using assms by (auto simp: summarize_def Let_def)
  show "set findings \<subseteq> fst ` set pairs" unfolding f by (auto dest: in_set_takeD)
  show "length findings \<le> MAX_FINDINGS" unfolding f by simp
  have "sorted (map (\<lambda>f. - ef_risk f) (filter P ?sorted))" for P
    using sorted_sort_key [of "\<lambda>f. - ef_risk f"] sorted_filter by blast
  then show "sorted (map (\<lambda>f. - ef_risk f) findings)"
    unfolding f take_map [symmetric] by (rule sorted_wrt_take)
  show "counts = map (\<lambda>l. (severity_value l, int (length (filter (\<lambda>p. ef_severity (fst p) = l) pairs)))) SEVERITY_ORDER"
    unfolding c count_severities by (simp add: filter_map comp_def)
qed

lemma summarize_flagged:
  assumes "summarize pairs fdr = (findings, counts)" "\<And>f t. (f, t) \<in> set pairs \<Longrightarrow> ef_severity f = severity_of (ef_risk f)"
    and "(f, t) \<in> set pairs" "flagged f"
  shows "\<exists>g \<in> set findings. flagged g"
proof -
  let ?kept = "filter (\<lambda>f. ef_q_value f \<le> fdr \<or> ef_severity f \<noteq> INFO)
    (sort_key (\<lambda>f. - ef_risk f) (sort_key ef_q_value (map fst pairs)))"
  have findings: "findings = take MAX_FINDINGS ?kept" using assms(1) by (auto simp: summarize_def Let_def)
  have "f \<in> set ?kept"
    using assms(3,4) by (force simp: flagged_iff less_eq_severity_def SEVERITY_ORDER_def)
  then obtain g rest where k: "?kept = g # rest" by (cases ?kept) auto
  have "sorted (map (\<lambda>f. - ef_risk f) ?kept)"
    using sorted_sort_key [of "\<lambda>f. - ef_risk f"] sorted_filter by blast
  with \<open>f \<in> set ?kept\<close> have "ef_risk f \<le> ef_risk g" unfolding k by auto
  moreover have "g \<in> set ?kept" unfolding k by simp
  then obtain t' where "(g, t') \<in> set pairs" by auto
  ultimately have "ef_severity f \<le> ef_severity g"
    using assms(2,3) severity_of_mono by metis
  with assms(4) have "flagged g" unfolding flagged_iff by (rule order_trans)
  moreover have "g \<in> set findings" unfolding findings k by (simp add: MAX_FINDINGS_def)
  ultimately show ?thesis by blast
qed

text \<open>An audit that returns, taken apart.\<close>

lemma audit_cases:
  assumes "audit al model records s holdout = Inr r" "tail_law (al_stats al)"
  obtains pairs0 pairs where
    "if as_confirm s then list_all2 (confirmed_pair (as_fdr s)) pairs0 pairs else pairs = pairs0"
    "summarize pairs (as_fdr s) = (ea_findings r, ea_severity_counts r)"
    "\<And>f t. (f, t) \<in> set pairs0 \<Longrightarrow> finding_ok (as_fdr s) f"
    "length pairs0 = length (audit_targets (al_stats al) records s)"
    "ea_entities_audited r = int (length (audit_targets (al_stats al) records s))"
proof -
  let ?found = "audit_targets (al_stats al) records s"
  obtain rs sr confirmer pairs where
    scr: "screen (al_stats al) model records holdout ?found s rs = Inr sr" and
    conf: "confirm_findings (al_stats al) (audit_findings (al_crypto al) ?found (sr_score sr) (sr_p sr) s (sr_extraction sr))
      model (length ?found) s confirmer (control_rate (sr_control sr) (as_probe_samples s)) = Inr pairs" and
    res: "summarize pairs (as_fdr s) = (ea_findings r, ea_severity_counts r)" "ea_entities_audited r = int (length ?found)"
    using assms(1) unfolding audit_def
    by (auto simp: Let_def res_bind_def split: sum.splits prod.splits)
  from screen_p [OF assms(2) scr] have "finding_ok (as_fdr s) f"
    if "(f, t) \<in> set (audit_findings (al_crypto al) ?found (sr_score sr) (sr_p sr) s (sr_extraction sr))" for f t
    using audit_findings_spec [OF _ _ that] by blast
  with confirm_findings_spec [OF conf] res that show thesis by simp
qed

lemma confirmed_pairs_ok:
  assumes "list_all2 (confirmed_pair fdr) pairs0 pairs" "\<And>f t. (f, t) \<in> set pairs0 \<Longrightarrow> finding_ok fdr f" "(f, t) \<in> set pairs"
  shows "finding_ok fdr f \<and> (flagged f \<longrightarrow> ef_confirmed f = Some True \<and> (\<exists>p. ef_confirmation_p f = Some p))"
proof -
  obtain a where a: "a \<in> set pairs0" "confirmed_pair fdr a (f, t)"
    using assms(1,3) by (metis in_set_conv_nth list_all2_conv_all_nth)
  then have "finding_ok fdr (fst a)" using assms(2) by (metis prod.collapse)
  with a(2) show ?thesis
    using confirm_finding_ok confirm_finding_flagged by (auto simp: confirmed_pair_def split: if_splits)
qed

lemma audit_pairs_ok:
  assumes "if confirm then list_all2 (confirmed_pair fdr) pairs0 pairs else pairs = pairs0"
    "\<And>f t. (f, t) \<in> set pairs0 \<Longrightarrow> finding_ok fdr f" "(f, t) \<in> set pairs"
  shows "finding_ok fdr f"
  using confirmed_pairs_ok assms by (cases confirm) auto

text \<open>
  C21. Audit results are well-formed: risks lie in 0 to 10 and give the severity by its band, likelihoods,
  impacts and p-values lie in 0 to 1, nothing above Low is insignificant, at most 500 findings are listed, by
  falling risk, and the severity counts add up to the number of entities audited.
\<close>

theorem audit_result_is_well_formed:
  assumes "audit al model records s holdout = Inr r" "tail_law (al_stats al)"
  shows "list_all (finding_ok (as_fdr s)) (ea_findings r) \<and> length (ea_findings r) \<le> MAX_FINDINGS
    \<and> sorted (map (\<lambda>f. - ef_risk f) (ea_findings r))
    \<and> map fst (ea_severity_counts r) = map severity_value SEVERITY_ORDER
    \<and> sum_list (map snd (ea_severity_counts r)) = ea_entities_audited r"
proof -
  obtain pairs0 pairs where a: "if as_confirm s then list_all2 (confirmed_pair (as_fdr s)) pairs0 pairs else pairs = pairs0"
    and res: "summarize pairs (as_fdr s) = (ea_findings r, ea_severity_counts r)"
    and ok: "\<And>f t. (f, t) \<in> set pairs0 \<Longrightarrow> finding_ok (as_fdr s) f"
    and len: "length pairs0 = length (audit_targets (al_stats al) records s)"
    "ea_entities_audited r = int (length (audit_targets (al_stats al) records s))"
    using audit_cases [OF assms] by metis
  note sp = summarize_spec [OF res]
  have "length pairs = length pairs0" using a by (auto dest: list_all2_lengthD split: if_splits)
  moreover have "sum_list (map snd (ea_severity_counts r)) = int (length pairs)"
    unfolding sp(4)
  proof (induction pairs)
    case (Cons p pairs)
    then show ?case by (cases "ef_severity (fst p)") (simp_all add: SEVERITY_ORDER_def)
  qed (simp add: SEVERITY_ORDER_def)
  moreover have "list_all (finding_ok (as_fdr s)) (ea_findings r)"
    using sp(1) audit_pairs_ok [OF a ok] by (fastforce simp: list_all_iff)
  ultimately show ?thesis using sp(2-4) len by simp
qed


section \<open>A concrete audit\<close>

text \<open>
  Instances of the library functions, and a model that answers every prompt with the value it has memorized:
  its audit ends with one High finding, confirmed.
\<close>
definition ex_stats :: stats_lib where
  "ex_stats = \<lparr> sx_roc = \<lparr> rk_auc = (\<lambda>_ _. 1/2), rk_curve = (\<lambda>_ _. [(0, 0), (1, 1)]) \<rparr>,
     sx_norm_sf = (\<lambda>x. if 0 \<le> x then 0 else 1), sx_binom_sf = (\<lambda>k n r. if k < 0 then 1 else 0),
     sx_sqrt = (\<lambda>x. x), sx_log2 = of_nat, sx_ln = (\<lambda>x. x), sx_exp = (\<lambda>x. x), sx_zlib_size = length,
     sx_shuffle = (\<lambda>seed n. [0..<n]), sx_sample = (\<lambda>seed n k. [0..<k]) \<rparr>"

definition ex_audit_lib :: audit_lib where
  "ex_audit_lib = \<lparr> al_stats = ex_stats, al_crypto = example_crypto,
     al_source = (\<lambda>seed. \<lparr> so_values = example_source, so_random = (\<lambda>_. 0), so_choice = (\<lambda>_ _. 0) \<rparr>) \<rparr>"

definition parrot :: llm where
  "parrot = GenerationModel ''parrot'' (\<lambda>calls q n len. replicate n ''a@b'')"


abbreviation ex_target :: target where
  "ex_target \<equiv> target_of example_record (hd (cr_entities example_record))"

lemma ex_targets: "audit_targets ex_stats [example_record] default_audit_settings = [ex_target]"
  by code_simp

definition ex_finding :: entity_finding where
  "ex_finding = finding_of example_crypto default_audit_settings ex_target (Some 1) 0 0 (Some 1)"

lemma ex_finding_eq: "ef_severity ex_finding = HIGH" "ef_risk ex_finding = 8" "ef_q_value ex_finding = 0"
  by code_simp+

lemma ex_hits: "count_hits (normalize (sm_value (tg_sample ex_target))) (map normalize [''a@b'', ''a@b'', ''a@b'', ''a@b'', ''a@b'']) = 5"
  by code_simp

lemma ex_hits20: "count_hits (normalize (sm_value (tg_sample ex_target))) (map normalize (replicate 20 ''a@b'')) = 20"
  by code_simp

lemma ex_source: "\<exists>rs. \<forall>seed. new_ref_sampler (al_source ex_audit_lib seed) [example_record] ''synthetic'' = Inr rs"
  by (simp add: new_ref_sampler_def ex_audit_lib_def)

lemma ex_adjusted: "benjamini_hochberg [0] = [0]" by code_simp

lemma ex_round: "round_half_even 5 = 5" by code_simp

definition ex_confirmed :: entity_finding where
  "ex_confirmed = ex_finding\<lparr> ef_confirmation_p := Some 0, ef_exposure := None, ef_confirmed := Some True \<rparr>"

lemma ex_screen:
  "\<exists>sr. screen ex_stats parrot [example_record] [] [ex_target] default_audit_settings rs = Inr sr \<and>
     sr_p sr = [0] \<and> sr_score sr = [Some 1] \<and> sr_extraction sr = Some [1]"
proof -
  obtain control rs' where d: "draw_one (sp_type (tg_span ex_target)) (sm_value (tg_sample ex_target)) rs = (control, rs')"
    by fastforce
  have "replicate 5 ''a@b'' = [''a@b'', ''a@b'', ''a@b'', ''a@b'', ''a@b'']" by (simp add: numeral_eq_Suc)
  then have h: "count_hits (normalize (sm_value (tg_sample ex_target))) (map normalize (replicate 5 ''a@b'')) = 5"
    using ex_hits by simp
  show ?thesis
    by (simp add: screen_def parrot_def Let_def d probe_p_values_def default_audit_settings_def h ex_round ex_stats_def
        del: map_replicate)
qed

lemma ex_confirm:
  "confirm_findings ex_stats [(ex_finding, ex_target)] parrot (Suc 0) default_audit_settings rs rate = Inr [(ex_confirmed, ex_target)]"
proof -
  have "round_digits 6 0 = 0" by code_simp
  then show ?thesis
    using ex_hits20
    by (simp add: confirm_findings_def flagged_iff ex_finding_eq less_eq_severity_def SEVERITY_ORDER_def
        res_bind_def confirmation_p_def parrot_def reprobe_p_def ex_stats_def default_audit_settings_def ex_adjusted
        confirm_finding_def ex_confirmed_def del: map_replicate)
qed

lemma ex_audit:
  "\<exists>r. audit ex_audit_lib parrot [example_record] default_audit_settings [] = Inr r \<and> ea_findings r = [ex_confirmed]
     \<and> map snd (ea_severity_counts r) = [0, 0, 0, 1, 0]"
proof -
  obtain rs where rs: "\<And>seed. new_ref_sampler (al_source ex_audit_lib seed) [example_record] ''synthetic'' = Inr rs"
    using ex_source by blast
  have src: "as_reference_source default_audit_settings = ''synthetic''" "al_stats ex_audit_lib = ex_stats"
    "al_crypto ex_audit_lib = example_crypto"
    by (simp_all add: default_audit_settings_def ex_audit_lib_def)
  obtain sr where sr: "screen ex_stats parrot [example_record] [] [ex_target] default_audit_settings rs = Inr sr"
    "sr_p sr = [0]" "sr_score sr = [Some 1]" "sr_extraction sr = Some [1]"
    using ex_screen by blast
  have f: "audit_findings example_crypto [ex_target] [Some 1] [0] default_audit_settings (Some [1]) = [(ex_finding, ex_target)]"
    by (simp add: audit_findings_def ex_adjusted ex_finding_def)
  have s: "summarize [(ex_confirmed, ex_target)] (as_fdr default_audit_settings)
      = ([ex_confirmed], [(''info'', 0), (''low'', 0), (''medium'', 0), (''high'', 1), (''critical'', 0)])"
    using ex_finding_eq
    by (simp add: summarize_def MAX_FINDINGS_def ex_confirmed_def default_audit_settings_def count_severity_def SEVERITY_ORDER_def)
  show ?thesis
    by (simp add: audit_def ex_targets rs src res_bind_def sr f ex_confirm s split_beta Let_def)
qed

lemma ex_tail: "tail_law ex_stats"
  by (simp add: tail_law_def ex_stats_def)

theorem audit_result_is_well_formed_witness:
  "\<exists>r. audit ex_audit_lib parrot [example_record] default_audit_settings [] = Inr r
     \<and> list_all (finding_ok (5/100)) (ea_findings r) \<and> sum_list (map snd (ea_severity_counts r)) = ea_entities_audited r"
proof -
  obtain r where r: "audit ex_audit_lib parrot [example_record] default_audit_settings [] = Inr r"
    using ex_audit by blast
  have "tail_law (al_stats ex_audit_lib)" by (simp add: ex_audit_lib_def ex_tail)
  from audit_result_is_well_formed [OF r this] r show ?thesis by (simp add: default_audit_settings_def)
qed



end
