(* ===== verification/MP_Scan.thy ===== *)
theory MP_Scan
  imports MP_Revision MP_Entities
begin

text \<open>
  The scanners that look for personal data in the columns of a table (\<^verbatim>\<open>scanners/data_pii.py\<close>, with
  \<^verbatim>\<open>scanners/base.py\<close>) and for credentials in text files (\<^verbatim>\<open>scanners/secrets.py\<close>).

  A table is a list of named columns of equal length. A cell is its text, \<open>None\<close> where it is missing; two
  cells of a column are the same value when their texts are. Running a regular expression, parsing an IP
  address or a date, random samples, logarithms, \<^verbatim>\<open>repr\<close> and Presidio are parameters (\<open>scan_lib\<close>).
\<close>

section \<open>Tables\<close>

record frame =
  fr_rows :: nat
  fr_cols :: "(string \<times> string option list) list"

definition frame_columns :: "frame \<Rightarrow> string list" where
  "frame_columns f = map fst (fr_cols f)"

definition col :: "frame \<Rightarrow> string \<Rightarrow> string option list" where
  "col f c = (case map_of (fr_cols f) c of None \<Rightarrow> [] | Some cells \<Rightarrow> cells)"

definition take_rows :: "nat list \<Rightarrow> frame \<Rightarrow> frame" where
  "take_rows rows f = \<lparr> fr_rows = length rows, fr_cols = map (\<lambda>(c, cells). (c, map (\<lambda>i. cells ! i) rows)) (fr_cols f) \<rparr>"

definition frame_ok :: "frame \<Rightarrow> bool" where
  "frame_ok f \<longleftrightarrow> distinct (frame_columns f) \<and> list_all (\<lambda>(c, cells). length cells = fr_rows f) (fr_cols f)"

definition path_suffix :: "string \<Rightarrow> string" where
  "path_suffix path = (let file_name = last (py_split (CHR ''/'') path);
       stem = takeWhile (\<lambda>c. c \<noteq> CHR ''.'') (rev file_name)
     in if CHR ''.'' \<in> set file_name \<and> stem \<noteq> [] \<and> length stem + 1 < length file_name then CHR ''.'' # rev stem else [])"

definition path_name :: "string \<Rightarrow> string" where
  "path_name path = last (py_split (CHR ''/'') path)"

definition TABULAR_SUFFIXES :: "string list" where
  "TABULAR_SUFFIXES = [''.csv'', ''.tsv'', ''.parquet'', ''.pq'', ''.jsonl'', ''.ndjson'']"

definition is_tabular :: "string \<Rightarrow> bool" where
  "is_tabular path \<longleftrightarrow> py_lower (path_suffix path) \<in> set TABULAR_SUFFIXES"

definition STRING_DTYPES :: "string list" where
  "STRING_DTYPES = [''object'', ''str'', ''string'']"

text \<open>\<open>show\<close> is \<^verbatim>\<open>str\<close> of a value that is no text.\<close>

definition string_columns :: "(json \<Rightarrow> string) \<Rightarrow> json dict option \<Rightarrow> string list" where
  "string_columns show_json schema = map fst (filter (\<lambda>(c, dtype).
     py_lower (case dtype of JStr s \<Rightarrow> s | j \<Rightarrow> show_json j) \<in> set STRING_DTYPES) (case schema of None \<Rightarrow> [] | Some d \<Rightarrow> d))"

record scan_lib =
  sn_findall :: "string \<Rightarrow> string \<Rightarrow> string list"             \<comment> \<open>pattern, text: the matches\<close>
  sn_fullmatch :: "string \<Rightarrow> string \<Rightarrow> bool"
  sn_ipv4 :: "string \<Rightarrow> bool"
  sn_ipv6 :: "string \<Rightarrow> bool"
  sn_parse_date :: "string \<Rightarrow> (int \<times> int \<times> int) option"
  sn_today :: "int \<times> int \<times> int"
  sn_sample :: "nat \<Rightarrow> nat \<Rightarrow> nat list"                      \<comment> \<open>of \<open>n\<close> rows, the \<open>k\<close> that are sampled\<close>
  sn_presidio :: "string list \<Rightarrow> (string \<times> nat) list"
  sn_float :: "rat \<Rightarrow> string"
  sn_repr :: "string \<Rightarrow> string"
  sn_secret :: "string \<Rightarrow> string \<Rightarrow> (nat \<times> nat \<times> string) list"  \<comment> \<open>pattern, line: span and secret of each match\<close>
  sn_token :: "string \<Rightarrow> (nat \<times> nat \<times> string) list"
  sn_log2 :: "rat \<Rightarrow> rat"

section \<open>Entities and column names\<close>

record entity_kind =
  ek_name :: string
  ek_severity :: severity
  ek_direct :: bool

definition ENTITIES :: "(string \<times> severity \<times> bool) list" where
  "ENTITIES = [(''EMAIL'', HIGH, True), (''PHONE'', HIGH, True), (''US_SSN'', CRITICAL, True), (''CREDIT_CARD'', CRITICAL, True),
     (''PERSON_NAME'', HIGH, True), (''ADDRESS'', HIGH, True), (''MEDICAL_RECORD_NUMBER'', HIGH, True),
     (''DATE_OF_BIRTH'', HIGH, True), (''IP_ADDRESS'', MEDIUM, False), (''ZIP_CODE'', LOW, False), (''DATE'', LOW, False)]"

definition entity_kind_of :: "string \<Rightarrow> entity_kind" where
  "entity_kind_of name = (case map_of ENTITIES name of
     Some (severity, direct) \<Rightarrow> \<lparr> ek_name = name, ek_severity = severity, ek_direct = direct \<rparr>
   | None \<Rightarrow> \<lparr> ek_name = name, ek_severity = MEDIUM, ek_direct = False \<rparr>)"

definition NAME_HINTS :: "(string list \<times> string) list" where
  "NAME_HINTS = [
     ([''email'', ''e_mail'', ''mail''], ''EMAIL''),
     ([''phone'', ''mobile'', ''cell'', ''tel'', ''telephone'', ''fax''], ''PHONE''),
     ([''ssn'', ''social_security'', ''socialsecurity''], ''US_SSN''),
     ([''credit_card'', ''creditcard'', ''card_number'', ''ccn'', ''pan''], ''CREDIT_CARD''),
     ([''name'', ''firstname'', ''lastname'', ''fullname'', ''surname'', ''first_name'', ''last_name'', ''full_name'', ''patient_name''],
      ''PERSON_NAME''),
     ([''address'', ''street'', ''addr'', ''address_line''], ''ADDRESS''),
     ([''mrn'', ''medical_record'', ''medical_record_number''], ''MEDICAL_RECORD_NUMBER''),
     ([''dob'', ''birth'', ''birthdate'', ''birthday'', ''date_of_birth'', ''birth_date''], ''DATE_OF_BIRTH''),
     ([''ip'', ''ip_address'', ''ipaddress'', ''ipv4'', ''ipv6''], ''IP_ADDRESS''),
     ([''zip'', ''zipcode'', ''zip_code'', ''postal'', ''postcode'', ''postal_code''], ''ZIP_CODE'')]"

text \<open>\<^verbatim>\<open>re.sub(r"([a-z0-9])([A-Z])", r"\1_\2", s)\<close>: no match overlaps the next.\<close>

fun split_camel :: "string \<Rightarrow> string" where
  "split_camel (a # b # cs) = (if (is_lower a \<or> is_digit a) \<and> is_upper b then a # CHR ''_'' # split_camel (b # cs)
     else a # split_camel (b # cs))"
| "split_camel cs = cs"

text \<open>The non-empty parts between characters other than lower-case letters and digits.\<close>

definition name_parts :: "string \<Rightarrow> string list" where
  "name_parts s = filter (\<lambda>p. p \<noteq> []) (py_split (CHR ''_'') (map (\<lambda>c. if is_lower c \<or> is_digit c then c else CHR ''_'') s))"

definition column_tokens :: "string \<Rightarrow> string list" where
  "column_tokens column = (let parts = name_parts (py_lower (split_camel column))
     in parts @ map (\<lambda>i. py_join ''_'' (take 2 (drop i parts))) [0..<length parts - 1] @ [py_join ''_'' parts])"

definition entity_from_column_name :: "string \<Rightarrow> string option" where
  "entity_from_column_name column = map_option snd
     (List.find (\<lambda>(hints, entity). list_ex (\<lambda>t. t \<in> set hints) (column_tokens column)) NAME_HINTS)"

section \<open>Validators\<close>

definition find_cards :: "scan_lib \<Rightarrow> string \<Rightarrow> string list" where
  "find_cards sn text = filter (\<lambda>g. \<not> sn_fullmatch sn ''PHONE'' (py_strip g) \<and> valid_card g) (sn_findall sn ''CARD'' text)"

definition find_ips :: "scan_lib \<Rightarrow> string \<Rightarrow> string list" where
  "find_ips sn text = filter (sn_ipv4 sn) (sn_findall sn ''IPV4'' text) @
     filter (\<lambda>g. 2 \<le> length (filter (\<lambda>c. c = CHR '':'') g) \<and> sn_ipv6 sn g) (sn_findall sn ''IPV6'' text)"

definition find_dates :: "scan_lib \<Rightarrow> string \<Rightarrow> string list" where
  "find_dates sn text = filter (\<lambda>g. case sn_parse_date sn g of
      None \<Rightarrow> False
    | Some (y, m, d) \<Rightarrow> case sn_today sn of (ty, tm, td) \<Rightarrow> ty - 120 \<le> y \<and> (y < ty \<or> y = ty \<and> (m < tm \<or> m = tm \<and> d \<le> td)))
     (sn_findall sn ''DATE'' text)"

text \<open>A bare digit string counts as a phone number only in a column that says so.\<close>

definition VALIDATORS :: "scan_lib \<Rightarrow> string option \<Rightarrow> (string \<times> (string \<Rightarrow> string list)) list" where
  "VALIDATORS sn name_entity =
     [(''EMAIL'', sn_findall sn ''EMAIL''), (''US_SSN'', sn_findall sn ''SSN''), (''CREDIT_CARD'', find_cards sn),
      (''PHONE'', if name_entity = Some ''PHONE''
         then (\<lambda>s. if sn_findall sn ''PHONE'' s \<noteq> [] then sn_findall sn ''PHONE'' s else sn_findall sn ''BARE_PHONE'' s)
         else sn_findall sn ''PHONE''),
      (''IP_ADDRESS'', find_ips sn), (''DATE'', find_dates sn)]"

section \<open>The column scanner\<close>

record pii_scanner =
  px_sample_size :: "nat option"
  px_max_examples :: nat
  px_use_presidio :: bool

type_synonym hits = "(string \<times> nat \<times> string list) list"

definition is_free_text :: "string list \<Rightarrow> bool" where
  "is_free_text vals = (let sample = take 200 vals
     in sample \<noteq> [] \<and> length sample < 2 * length (filter (list_ex is_space) sample))"

definition hit_of :: "nat \<Rightarrow> string list \<Rightarrow> string \<times> (string \<Rightarrow> string list) \<Rightarrow> hits" where
  "hit_of max_examples vals v = (case v of (entity, find_matches) \<Rightarrow>
     (let found = filter (\<lambda>x. find_matches x \<noteq> []) vals
      in if found = [] then []
         else [(entity, length found, map (\<lambda>x. mask_value (hd (find_matches x)) entity) (take max_examples found))]))"

definition collect_hits :: "scan_lib \<Rightarrow> pii_scanner \<Rightarrow> string list \<Rightarrow> string option \<Rightarrow> hits" where
  "collect_hits sn ps vals name_entity =
     (let found = concat (map (hit_of (px_max_examples ps) vals) (VALIDATORS sn name_entity))
      in if px_use_presidio ps \<and> is_free_text vals
         then found @ map (\<lambda>(e, n). (e, n, [])) (filter (\<lambda>(e, n). map_of found e = None) (sn_presidio sn vals))
         else found)"

definition apply_context_rules :: "hits \<Rightarrow> string option \<Rightarrow> string list \<Rightarrow> hits" where
  "apply_context_rules hits name_entity vals =
     (let hits1 = (case map_of hits ''DATE'' of
            Some h \<Rightarrow> if name_entity = Some ''DATE_OF_BIRTH''
              then AList.update ''DATE_OF_BIRTH'' h (AList.delete ''DATE'' hits) else hits
          | None \<Rightarrow> hits)
      in case map_of hits1 ''CREDIT_CARD'' of
           Some (n, _) \<Rightarrow>
             if name_entity \<noteq> Some ''CREDIT_CARD'' \<and> 2 * n < length vals \<and> \<not> is_free_text vals
             then AList.delete ''CREDIT_CARD'' hits1 else hits1
         | None \<Rightarrow> hits1)"

definition pii_finding :: "scan_lib \<Rightarrow> string \<Rightarrow> string \<Rightarrow> string \<Rightarrow> nat \<Rightarrow> rat option \<Rightarrow> bool \<Rightarrow> string list \<Rightarrow> finding" where
  "pii_finding sn dataset column entity_name hit_count hit_rate name_agrees examples =
     (let entity = entity_kind_of entity_name;
          confidence = (case hit_rate of None \<Rightarrow> 6/10 | Some r \<Rightarrow> if name_agrees then max r (9/10) else r);
          evidence = (if hit_rate = None then ''column name'' else if name_agrees then ''column name and values'' else ''values'')
      in \<lparr> fi_scanner = ''pii'', fi_category = ek_name entity, fi_severity = ek_severity entity,
           fi_location = Some (dataset @ '':'' @ column), fi_count = int hit_count,
           fi_message = ek_name entity @ '' detected in column '' @ sn_repr sn column @ '' ('' @ evidence @ '')'',
           fi_masked_examples = examples,
           fi_details = [(''dataset'', JStr dataset), (''column'', JStr column),
             (''hit_rate'', case hit_rate of None \<Rightarrow> JNull | Some r \<Rightarrow> JFloat (sn_float sn (round_digits 4 r))),
             (''confidence'', JFloat (sn_float sn (round_digits 4 confidence))),
             (''direct_identifier'', JBool (ek_direct entity)), (''evidence'', JStr evidence)] \<rparr>)"

text \<open>The present, non-blank values of a column.\<close>

definition column_values :: "string option list \<Rightarrow> string list" where
  "column_values cells = filter (\<lambda>v. py_strip v \<noteq> []) (List.map_filter id cells)"

definition column_hits :: "scan_lib \<Rightarrow> pii_scanner \<Rightarrow> string option \<Rightarrow> string list \<Rightarrow> hits" where
  "column_hits sn ps name_entity vals =
     apply_context_rules (if vals = [] then [] else collect_hits sn ps vals name_entity) name_entity vals"

definition scan_column :: "scan_lib \<Rightarrow> pii_scanner \<Rightarrow> string \<Rightarrow> string \<Rightarrow> string option list \<Rightarrow> finding list" where
  "scan_column sn ps dataset column cells =
     (let vals = column_values cells; name_entity = entity_from_column_name column; hits = column_hits sn ps name_entity vals
      in map (\<lambda>(entity, n, examples). pii_finding sn dataset column entity n (Some (of_nat n / of_nat (length vals)))
               (Some entity = name_entity) examples) hits
         @ (case name_entity of None \<Rightarrow> []
            | Some e \<Rightarrow> if map_of hits e = None then [pii_finding sn dataset column e (length vals) None True []] else []))"

definition pii_scan :: "scan_lib \<Rightarrow> pii_scanner \<Rightarrow> string \<Rightarrow> frame \<Rightarrow> finding list" where
  "pii_scan sn ps label f =
     (let g = (case px_sample_size ps of None \<Rightarrow> f
                 | Some k \<Rightarrow> if fr_rows f \<le> k then f else take_rows (sn_sample sn (fr_rows f) k) f)
      in concat (map (\<lambda>(column, cells). scan_column sn ps label column cells) (fr_cols g)))"

definition direct_columns :: "finding list \<Rightarrow> string list" where
  "direct_columns findings = remdups (map (\<lambda>f. case fi_location f of None \<Rightarrow> [] | Some l \<Rightarrow> l)
     (filter (\<lambda>f. fi_scanner f = ''pii'' \<and>
        (case map_of (fi_details f) ''direct_identifier'' of None \<Rightarrow> False | Some j \<Rightarrow> \<not> json_falsy j)) findings))"

section \<open>Secrets\<close>

text \<open>A known kind of credential: its severity, least entropy and whether values that look like code are skipped.\<close>

record secret_pattern =
  kp_name :: string
  kp_severity :: severity
  kp_min_entropy :: rat
  kp_literal_only :: bool

definition known_secret :: "string \<Rightarrow> severity \<Rightarrow> secret_pattern" where
  "known_secret name severity = \<lparr> kp_name = name, kp_severity = severity, kp_min_entropy = 0, kp_literal_only = False \<rparr>"

definition PATTERNS :: "secret_pattern list" where
  "PATTERNS = [known_secret ''PRIVATE_KEY'' CRITICAL, known_secret ''AWS_ACCESS_KEY_ID'' CRITICAL,
     known_secret ''AWS_SECRET_ACCESS_KEY'' CRITICAL, known_secret ''GITHUB_TOKEN'' CRITICAL, known_secret ''SLACK_TOKEN'' HIGH,
     known_secret ''STRIPE_SECRET_KEY'' CRITICAL, known_secret ''GOOGLE_API_KEY'' HIGH, known_secret ''LLM_API_KEY'' CRITICAL,
     known_secret ''JWT'' HIGH,
     \<lparr> kp_name = ''GENERIC_SECRET_ASSIGNMENT'', kp_severity = HIGH, kp_min_entropy = 3, kp_literal_only = True \<rparr>]"

definition ENTROPY_THRESHOLD :: rat where "ENTROPY_THRESHOLD = 45/10"

text \<open>\<^verbatim>\<open>CODE_REFERENCE_RE\<close>, for a value without line breaks.\<close>

definition code_reference :: "string \<Rightarrow> bool" where
  "code_reference v \<longleftrightarrow> list_ex (\<lambda>c. c \<in> set ''()[]{}<>$'') v \<or>
     (v \<noteq> [] \<and> (is_lower (hd v) \<or> is_upper (hd v) \<or> hd v = CHR ''_'')
        \<and> list_all (\<lambda>c. is_lower c \<or> is_upper c \<or> c = CHR ''_'' \<or> c = CHR ''.'') (tl v))"

definition shannon_entropy :: "scan_lib \<Rightarrow> string \<Rightarrow> rat" where
  "shannon_entropy sn v = (if v = [] then 0
     else - sum_list (map (\<lambda>c. let r = of_nat (length (filter (\<lambda>d. d = c) v)) / of_nat (length v) in r * sn_log2 sn r) (remdups v)))"

definition mask_secret :: "string \<Rightarrow> string" where
  "mask_secret v = take 4 v @ replicate (min (max (length v - 4) 4) 12) (CHR ''*'')"

definition mixed :: "string \<Rightarrow> bool" where
  "mixed token \<longleftrightarrow> list_ex is_digit token \<and> list_ex (\<lambda>c. is_upper c \<or> is_lower c) token"

definition pattern_matches :: "scan_lib \<Rightarrow> string \<Rightarrow> secret_pattern \<Rightarrow> (nat \<times> nat \<times> string) list" where
  "pattern_matches sn line p = filter (\<lambda>(s, e, v). \<not> shannon_entropy sn v < kp_min_entropy p \<and> \<not> (kp_literal_only p \<and> code_reference v))
     (sn_secret sn (kp_name p) line)"

text \<open>Known patterns first; entropy only for tokens none of whose ends lies in a claimed span.\<close>

definition scan_line :: "scan_lib \<Rightarrow> bool \<Rightarrow> string \<Rightarrow> (string \<times> severity \<times> string) list" where
  "scan_line sn entropy line =
     (let claimed = concat (map (\<lambda>p. map (\<lambda>(s, e, v). (s, e)) (pattern_matches sn line p)) PATTERNS)
      in concat (map (\<lambda>p. map (\<lambda>(s, e, v). (kp_name p, kp_severity p, v)) (pattern_matches sn line p)) PATTERNS)
         @ (if \<not> entropy then []
            else map (\<lambda>(start, end, token). (''HIGH_ENTROPY_STRING'', MEDIUM, token))
              (filter (\<lambda>(start, end, token).
                 \<not> list_ex (\<lambda>(s, e). (s \<le> start \<and> start < e) \<or> (s < end \<and> end \<le> e)) claimed
                 \<and> ENTROPY_THRESHOLD \<le> shannon_entropy sn token \<and> mixed token) (sn_token sn line))))"

record secret_hit =
  ht_severity :: severity
  ht_first_line :: nat
  ht_count :: nat
  ht_examples :: "string list"

definition bump_hit :: "nat \<Rightarrow> nat \<Rightarrow> severity \<Rightarrow> string \<Rightarrow> secret_hit option \<Rightarrow> secret_hit" where
  "bump_hit max_examples line_no severity v old =
     (let hit = (case old of Some h \<Rightarrow> h
            | None \<Rightarrow> \<lparr> ht_severity = severity, ht_first_line = line_no, ht_count = 0, ht_examples = [] \<rparr>)
      in hit\<lparr> ht_count := ht_count hit + 1,
           ht_examples := (if length (ht_examples hit) < max_examples then ht_examples hit @ [mask_secret v] else ht_examples hit) \<rparr>)"

definition add_hit :: "nat \<Rightarrow> nat \<times> string \<times> severity \<times> string \<Rightarrow> (string \<times> secret_hit) list \<Rightarrow> (string \<times> secret_hit) list" where
  "add_hit max_examples h hits = (case h of (line_no, kind, severity, v) \<Rightarrow>
     AList.update kind (bump_hit max_examples line_no severity v (map_of hits kind)) hits)"

definition secret_finding :: "string \<Rightarrow> string \<Rightarrow> secret_hit \<Rightarrow> finding" where
  "secret_finding label kind hit =
     \<lparr> fi_scanner = ''secrets'', fi_category = kind, fi_severity = ht_severity hit,
       fi_location = Some (label @ '':'' @ nat_str (ht_first_line hit)), fi_count = int (ht_count hit),
       fi_message = nat_str (ht_count hit) @ '' possible '' @ kind @ '' in '' @ label,
       fi_masked_examples = ht_examples hit, fi_details = [(''first_line'', JInt (int (ht_first_line hit)))] \<rparr>"

text \<open>What is read of a file: its size, its first bytes, and its lines (undecodable bytes replaced).\<close>

record text_file =
  tf_size :: nat
  tf_head :: bytes
  tf_lines :: "string list"

definition MAX_FILE_BYTES :: nat where "MAX_FILE_BYTES = 200 * 1024 * 1024"

definition line_hits :: "scan_lib \<Rightarrow> bool \<Rightarrow> string list \<Rightarrow> (nat \<times> string \<times> severity \<times> string) list" where
  "line_hits sn entropy ls = concat (map (\<lambda>(i, line). map (Pair (Suc i)) (scan_line sn entropy line)) (enumerate 0 ls))"

definition secrets_scan :: "scan_lib \<Rightarrow> bool \<Rightarrow> nat \<Rightarrow> string \<Rightarrow> text_file option \<Rightarrow> finding list" where
  "secrets_scan sn entropy max_examples label file = (case file of
      None \<Rightarrow> []
    | Some t \<Rightarrow>
        if MAX_FILE_BYTES < tf_size t \<or> CHR 0x00 \<in> set (tf_head t) then []
        else map (\<lambda>(kind, hit). secret_finding label kind hit)
          (fold (add_hit max_examples) (line_hits sn entropy (tf_lines t)) []))"

definition confirmed_secrets :: "finding list \<Rightarrow> finding list" where
  "confirmed_secrets = filter (\<lambda>f. fi_scanner f = ''secrets'' \<and> at_least (fi_severity f) HIGH)"

end
