(* ===== verification/MP_Reid.thy ===== *)
theory MP_Reid
  imports MP_Scan "HOL-Library.Sublist"
begin

text \<open>
  Re-identification risk of a table (\<^verbatim>\<open>scanners/reid_risk.py\<close>): k-anonymity, l-diversity and the minimal
  combinations of columns that make records unique. The lemmas say what the numbers mean for the records,
  and that the search by growing size finds exactly the minimal combinations.
\<close>

section \<open>Measures\<close>

definition QUASI_IDENTIFIER_HINTS :: "string list" where
  "QUASI_IDENTIFIER_HINTS = [''age'', ''zip'', ''zipcode'', ''zip_code'', ''postal'', ''postcode'', ''postal_code'', ''gender'', ''sex'',
     ''dob'', ''birth'', ''birthdate'', ''date_of_birth'', ''race'', ''ethnicity'', ''marital'', ''marital_status'']"

definition suggest_quasi_identifiers :: "frame \<Rightarrow> string list" where
  "suggest_quasi_identifiers f = filter (\<lambda>c. list_ex (\<lambda>t. t \<in> set QUASI_IDENTIFIER_HINTS) (column_tokens c)) (frame_columns f)"

text \<open>The value of a record on some columns; missing cells are a value of their own.\<close>

definition row_key :: "frame \<Rightarrow> string list \<Rightarrow> nat \<Rightarrow> string option list" where
  "row_key f cs i = map (\<lambda>c. col f c ! i) cs"

definition row_keys :: "frame \<Rightarrow> string list \<Rightarrow> string option list list" where
  "row_keys f cs = map (row_key f cs) [0..<fr_rows f]"

definition class_sizes :: "frame \<Rightarrow> string list \<Rightarrow> nat list" where
  "class_sizes f cs = map (\<lambda>k. length (filter (\<lambda>l. l = k) (row_keys f cs))) (remdups (row_keys f cs))"

definition unique_fraction :: "frame \<Rightarrow> string list \<Rightarrow> rat" where
  "unique_fraction f cs = (if fr_rows f = 0 then 0
     else of_nat (length (filter (\<lambda>n. n = 1) (class_sizes f cs))) / of_nat (fr_rows f))"

definition least :: "nat list \<Rightarrow> nat" where
  "least xs = fold min (tl xs) (hd xs)"

definition k_anonymity :: "frame \<Rightarrow> string list \<Rightarrow> nat option" where
  "k_anonymity f cs = (if fr_rows f = 0 then None else Some (least (class_sizes f cs)))"

definition class_rows :: "frame \<Rightarrow> string list \<Rightarrow> string option list \<Rightarrow> nat list" where
  "class_rows f cs k = filter (\<lambda>i. row_key f cs i = k) [0..<fr_rows f]"

definition l_diversity :: "frame \<Rightarrow> string list \<Rightarrow> string \<Rightarrow> nat option" where
  "l_diversity f cs sensitive = (if fr_rows f = 0 then None
     else Some (least (map (\<lambda>k. length (remdups (map (\<lambda>i. col f sensitive ! i) (class_rows f cs k)))) (remdups (row_keys f cs)))))"

text \<open>\<^verbatim>\<open>itertools.combinations(xs, n)\<close>.\<close>

fun combinations :: "nat \<Rightarrow> 'a list \<Rightarrow> 'a list list" where
  "combinations 0 xs = [[]]"
| "combinations (Suc n) [] = []"
| "combinations (Suc n) (x # xs) = map (Cons x) (combinations n xs) @ combinations (Suc n) xs"

definition try_combo :: "frame \<Rightarrow> rat \<Rightarrow> string list \<Rightarrow> risky_combination list \<Rightarrow> risky_combination list" where
  "try_combo f threshold combo risky =
     (if list_ex (\<lambda>r. set (rc_columns r) \<subseteq> set combo) risky then risky
      else if threshold < unique_fraction f combo
      then risky @ [\<lparr> rc_columns = combo, rc_unique_fraction = unique_fraction f combo \<rparr>]
      else risky)"

definition risky_combinations :: "frame \<Rightarrow> string list \<Rightarrow> nat \<Rightarrow> rat \<Rightarrow> risky_combination list" where
  "risky_combinations f cs max_size threshold =
     sort_key (\<lambda>r. - rc_unique_fraction r)
       (fold (\<lambda>size. fold (try_combo f threshold) (combinations size cs)) [1..<min max_size (length cs) + 1] [])"

definition reid_assess :: "frame \<Rightarrow> string \<Rightarrow> string list option \<Rightarrow> string option \<Rightarrow> reidentification_result" where
  "reid_assess f dataset quasi_identifiers sensitive_column =
     (let qis = filter (\<lambda>q. q \<in> set (frame_columns f))
                  (case quasi_identifiers of None \<Rightarrow> suggest_quasi_identifiers f | Some qs \<Rightarrow> qs);
          sensitive = (case sensitive_column of None \<Rightarrow> None | Some s \<Rightarrow> if s \<in> set (frame_columns f) then Some s else None)
      in if qis = [] then
           \<lparr> rr_dataset = dataset, rr_rows = int (fr_rows f), rr_quasi_identifiers = [], rr_k_anonymity = None,
             rr_unique_fraction = 0, rr_sensitive_column = None, rr_l_diversity = None, rr_risky_combinations = [] \<rparr>
         else
           \<lparr> rr_dataset = dataset, rr_rows = int (fr_rows f), rr_quasi_identifiers = qis,
             rr_k_anonymity = map_option int (k_anonymity f qis), rr_unique_fraction = round_digits 6 (unique_fraction f qis),
             rr_sensitive_column = sensitive,
             rr_l_diversity = (case sensitive of None \<Rightarrow> None
               | Some s \<Rightarrow> if s = [] then None else map_option int (l_diversity f qis s)),
             rr_risky_combinations = map (\<lambda>r. \<lparr> rc_columns = rc_columns r, rc_unique_fraction = round_digits 6 (rc_unique_fraction r) \<rparr>)
               (risky_combinations f qis 3 (1/100)) \<rparr>)"

definition reid_severity :: "int option \<Rightarrow> severity" where
  "reid_severity k = (case k of None \<Rightarrow> INFO
     | Some k \<Rightarrow> if k \<le> 1 then CRITICAL else if k < 5 then HIGH else if k < 10 then MEDIUM else LOW)"

text \<open>\<^verbatim>\<open>f"{x:.1%}"\<close>.\<close>

definition percent :: "rat \<Rightarrow> string" where
  "percent x = (let n = round_half_even (x * 1000)
     in (if n < 0 then ''-'' else []) @ int_str (\<bar>n\<bar> div 10) @ ''.'' @ int_str (\<bar>n\<bar> mod 10) @ ''%'')"

definition json_int :: "int option \<Rightarrow> json" where
  "json_int k = (case k of None \<Rightarrow> JNull | Some n \<Rightarrow> JInt n)"

definition optional_int :: "int option \<Rightarrow> string" where
  "optional_int k = (case k of None \<Rightarrow> ''None'' | Some n \<Rightarrow> int_str n)"

definition reid_findings :: "scan_lib \<Rightarrow> string \<Rightarrow> reidentification_result \<Rightarrow> finding list" where
  "reid_findings sn label r =
     (if rr_quasi_identifiers r = [] then []
      else \<lparr> fi_scanner = ''reid_risk'', fi_category = ''K_ANONYMITY'', fi_severity = reid_severity (rr_k_anonymity r),
             fi_location = Some label, fi_count = round_half_even (rr_unique_fraction r * of_int (rr_rows r)),
             fi_message = ''k='' @ optional_int (rr_k_anonymity r) @ '', '' @ percent (rr_unique_fraction r) @ '' of records unique on ''
               @ py_join '', '' (rr_quasi_identifiers r),
             fi_masked_examples = [],
             fi_details = [(''k_anonymity'', json_int (rr_k_anonymity r)), (''l_diversity'', json_int (rr_l_diversity r)),
               (''unique_fraction'', JFloat (sn_float sn (rr_unique_fraction r)))] \<rparr>
        # map (\<lambda>combo. \<lparr> fi_scanner = ''reid_risk'', fi_category = ''UNIQUE_COMBINATION'',
             fi_severity = (if rc_unique_fraction combo < 5/100 then MEDIUM else HIGH),
             fi_location = Some (label @ '':'' @ py_join ''+'' (rc_columns combo)),
             fi_count = round_half_even (rc_unique_fraction combo * of_int (rr_rows r)),
             fi_message = py_join '', '' (rc_columns combo) @ '' makes '' @ percent (rc_unique_fraction combo) @ '' of records unique'',
             fi_masked_examples = [], fi_details = [(''unique_fraction'', JFloat (sn_float sn (rc_unique_fraction combo)))] \<rparr>)
           (rr_risky_combinations r))"

text \<open>\<^verbatim>\<open>ReidRiskScanner.scan\<close>: the result is kept for the report, the findings are returned.\<close>

definition reid_scan :: "scan_lib \<Rightarrow> string list option \<Rightarrow> string option \<Rightarrow> string \<Rightarrow> frame
    \<Rightarrow> reidentification_result list \<Rightarrow> finding list \<times> reidentification_result list" where
  "reid_scan sn quasi_identifiers sensitive_column label f results =
     (let r = reid_assess f label quasi_identifiers sensitive_column in (reid_findings sn label r, results @ [r]))"

section \<open>What the numbers say about the records\<close>

definition same_class :: "frame \<Rightarrow> string list \<Rightarrow> nat \<Rightarrow> nat set" where
  "same_class f cs i = {j. j < fr_rows f \<and> row_key f cs j = row_key f cs i}"

definition unique_rows :: "frame \<Rightarrow> string list \<Rightarrow> nat set" where
  "unique_rows f cs = {i. i < fr_rows f \<and> same_class f cs i = {i}}"

lemma least_Min: "xs \<noteq> [] \<Longrightarrow> least xs = Min (set xs)"
  by (cases xs) (simp_all only: least_def list.sel Min.set_eq_fold simp_thms)

lemma class_count: "length (filter (\<lambda>l. l = k) (row_keys f cs)) = card {j. j < fr_rows f \<and> row_key f cs j = k}"
  by (simp add: row_keys_def filter_map o_def length_filter_conv_card cong: conj_cong)

lemma class_sizes_eq: "class_sizes f cs = map (\<lambda>k. card {j. j < fr_rows f \<and> row_key f cs j = k}) (remdups (row_keys f cs))"
  by (simp add: class_sizes_def class_count)

lemma set_row_keys: "set (row_keys f cs) = row_key f cs ` {..<fr_rows f}"
  by (auto simp: row_keys_def)

lemma card_one_at: "i \<in> S \<Longrightarrow> card S = 1 \<longleftrightarrow> S = {i}"
  by (auto simp: card_1_singleton_iff)

lemma unique_count: "length (filter (\<lambda>n. n = 1) (class_sizes f cs)) = card (unique_rows f cs)"
proof -
  let ?c = "\<lambda>k. {j. j < fr_rows f \<and> row_key f cs j = k}"
  have "length (filter (\<lambda>n. n = 1) (class_sizes f cs)) = card (set (filter (\<lambda>k. card (?c k) = 1) (remdups (row_keys f cs))))"
    by (simp only: class_sizes_eq filter_map length_map o_def) (rule distinct_card [symmetric], simp)
  also have "set (filter (\<lambda>k. card (?c k) = 1) (remdups (row_keys f cs))) = row_key f cs ` unique_rows f cs"
  proof -
    have "card (?c (row_key f cs i)) = 1 \<longleftrightarrow> same_class f cs i = {i}" if "i < fr_rows f" for i
    proof -
      have "i \<in> ?c (row_key f cs i)" using that by simp
      then show ?thesis unfolding same_class_def by (rule card_one_at)
    qed
    then show ?thesis by (auto simp: set_row_keys unique_rows_def)
  qed
  also have "card \<dots> = card (unique_rows f cs)"
    by (rule card_image) (auto simp: inj_on_def unique_rows_def same_class_def)
  finally show ?thesis .
qed

lemma unique_fraction_eq: "unique_fraction f cs = of_nat (card (unique_rows f cs)) / of_nat (fr_rows f)"
  by (simp only: unique_fraction_def unique_count) (auto simp: unique_rows_def)

lemma row_key_mono: "row_key f ys i = row_key f ys j \<Longrightarrow> set xs \<subseteq> set ys \<Longrightarrow> row_key f xs i = row_key f xs j"
  by (auto simp: row_key_def)

text \<open>More columns make more records unique.\<close>

lemma unique_fraction_mono:
  assumes "set xs \<subseteq> set ys"
  shows "unique_fraction f xs \<le> unique_fraction f ys"
proof -
  have "unique_rows f xs \<subseteq> unique_rows f ys"
  proof
    fix i
    assume i: "i \<in> unique_rows f xs"
    have "same_class f ys i \<subseteq> same_class f xs i"
      by (auto simp: same_class_def intro: row_key_mono [OF _ assms])
    with i have "same_class f ys i \<subseteq> {i}" by (simp add: unique_rows_def)
    moreover have "i \<in> same_class f ys i" using i by (simp add: unique_rows_def same_class_def)
    ultimately show "i \<in> unique_rows f ys" using i by (auto simp: unique_rows_def)
  qed
  then have "card (unique_rows f xs) \<le> card (unique_rows f ys)"
    by (rule card_mono [rotated]) (simp add: unique_rows_def)
  then show ?thesis by (simp add: unique_fraction_eq divide_right_mono)
qed

section \<open>The search for risky combinations\<close>

lemma set_combinations: "set (combinations n xs) = {ys. subseq ys xs \<and> length ys = n}"
proof (induction n xs rule: combinations.induct)
  case (3 n x xs)
  have "subseq ys (x # xs) \<and> length ys = Suc n \<longleftrightarrow> (\<exists>zs. ys = x # zs \<and> subseq zs xs \<and> length zs = n) \<or> subseq ys xs \<and> length ys = Suc n" for ys
    by (cases ys) (auto dest: subseq_Cons')
  then show ?case by (auto simp: 3)
qed auto

definition minimal_in :: "frame \<Rightarrow> rat \<Rightarrow> string list set \<Rightarrow> string list \<Rightarrow> bool" where
  "minimal_in f t L x \<longleftrightarrow> x \<in> L \<and> t < unique_fraction f x \<and> (\<forall>y \<in> L. set y \<subset> set x \<longrightarrow> unique_fraction f y \<le> t)"

abbreviation combo_of :: "frame \<Rightarrow> string list \<Rightarrow> risky_combination" where
  "combo_of f x \<equiv> \<lparr> rc_columns = x, rc_unique_fraction = unique_fraction f x \<rparr>"

lemma minimal_below:
  assumes "finite L" "y \<in> L" "t < unique_fraction f y"
  shows "\<exists>x. minimal_in f t L x \<and> set x \<subseteq> set y"
  using assms(2,3)
proof (induction "card (set y)" arbitrary: y rule: less_induct)
  case less
  show ?case
  proof (cases "\<exists>z \<in> L. set z \<subset> set y \<and> t < unique_fraction f z")
    case True
    then obtain z where z: "z \<in> L" "set z \<subset> set y" "t < unique_fraction f z" by blast
    then have "card (set z) < card (set y)" by (simp add: psubset_card_mono)
    from less.hyps [OF this z(1,3)] z(2) show ?thesis by blast
  next
    case False
    then have "minimal_in f t L y" using less.prems by (auto simp: minimal_in_def not_less)
    then show ?thesis by blast
  qed
qed

lemma search_minimal:
  assumes "inj_on set (set L)" "sorted (map (\<lambda>x. card (set x)) L)"
  shows "set (fold (try_combo f t) L []) = combo_of f ` {x. minimal_in f t (set L) x}"
  using assms
proof (induction L rule: rev_induct)
  case (snoc x L)
  let ?R = "fold (try_combo f t) L []"
  have L: "inj_on set (set L)" "sorted (map (\<lambda>x. card (set x)) L)" and after: "\<And>y. y \<in> set L \<Longrightarrow> card (set y) \<le> card (set x)"
    using snoc.prems by (auto simp: sorted_append)
  from after have big: "\<not> set x \<subset> set y" if "y \<in> set L" for y
    using after [OF that] psubset_card_mono [of "set y" "set x"] by auto
  have IH: "set ?R = combo_of f ` {y. minimal_in f t (set L) y}" using snoc.IH [OF L] .
  have old: "minimal_in f t (set (L @ [x])) y \<longleftrightarrow> minimal_in f t (set L) y" if "y \<in> set L" for y
    using that big by (auto simp: minimal_in_def)
  show ?case
  proof (cases "\<exists>y. minimal_in f t (set L) y \<and> set y \<subseteq> set x")
    case True
    then have "try_combo f t x ?R = ?R" by (auto simp: try_combo_def list_ex_iff IH)
    moreover obtain y where y: "minimal_in f t (set L) y" "set y \<subseteq> set x" using True by blast
    have "minimal_in f t (set (L @ [x])) z \<longleftrightarrow> minimal_in f t (set L) z" for z
    proof (cases "z \<in> set L")
      case False
      then have "\<not> minimal_in f t (set L) z" by (simp add: minimal_in_def)
      moreover have "\<not> minimal_in f t (set (L @ [x])) z"
      proof
        assume m: "minimal_in f t (set (L @ [x])) z"
        with False have "z = x" by (auto simp: minimal_in_def)
        moreover have "y \<in> set L" using y(1) by (simp add: minimal_in_def)
        ultimately have "set y \<subset> set z" using y(2) False snoc.prems(1) by (auto dest: inj_onD)
        with m y(1) show False by (auto simp: minimal_in_def)
      qed
      ultimately show ?thesis by blast
    qed (rule old)
    ultimately show ?thesis by (simp add: IH)
  next
    case False
    then have below: "unique_fraction f y \<le> t" if "y \<in> set L" "set y \<subset> set x" for y
      using that minimal_below [of "set L" y t f] by (meson List.finite_set not_less order_trans psubset_imp_subset)
    have new: "minimal_in f t (set (L @ [x])) x \<longleftrightarrow> t < unique_fraction f x"
      using below by (auto simp: minimal_in_def)
    have "\<not> list_ex (\<lambda>r. set (rc_columns r) \<subseteq> set x) ?R"
      using False by (auto simp: list_ex_iff IH)
    then have "set (try_combo f t x ?R) = set ?R \<union> (if t < unique_fraction f x then {combo_of f x} else {})"
      by (simp add: try_combo_def)
    moreover have "minimal_in f t (set (L @ [x])) z \<longleftrightarrow> minimal_in f t (set L) z \<or> z = x \<and> t < unique_fraction f x" for z
    proof (cases "z \<in> set L")
      case True
      then show ?thesis using old new by metis
    next
      case False
      then have "\<not> minimal_in f t (set L) z" "minimal_in f t (set (L @ [x])) z \<longrightarrow> z = x" by (auto simp: minimal_in_def)
      then show ?thesis using new by metis
    qed
    ultimately show ?thesis by (auto simp: IH)
  qed
qed (simp add: minimal_in_def)

lemma set_subseq: "subseq xs ys \<Longrightarrow> set xs \<subseteq> set ys" and distinct_subseq: "subseq xs ys \<Longrightarrow> distinct ys \<Longrightarrow> distinct xs"
  by (auto simp: subseq_conv_nths dest: in_set_nthsD)

lemma concat_combinations: "set (concat (map (\<lambda>n. combinations n cs) [1..<m + 1])) = {ys. subseq ys cs \<and> ys \<noteq> [] \<and> length ys \<le> m}"
proof -
  have "set (concat (map (\<lambda>n. combinations n cs) [1..<m + 1])) = (\<Union>n \<in> {1..<m + 1}. {ys. subseq ys cs \<and> length ys = n})"
    by (simp add: set_combinations del: upt_Suc)
  also have "\<dots> = {ys. subseq ys cs \<and> ys \<noteq> [] \<and> length ys \<le> m}"
    by (auto simp: Suc_le_eq)
  finally show ?thesis .
qed

lemma subseq_determined:
  assumes "distinct zs" "subseq xs zs" "subseq ys zs" "set xs = set ys"
  shows "xs = ys"
proof -
  have "filter (\<lambda>z. z \<in> set us) zs = us" if "subseq us zs" for us
    using that assms(1) by (auto simp: subseq_conv_nths filter_in_nths)
  with assms show ?thesis by metis
qed

lemma combinations_sizes:
  assumes "distinct cs"
  shows "sorted (map (\<lambda>x. card (set x)) (concat (map (\<lambda>n. combinations n cs) [a..<b])))"
proof (induction b)
  case (Suc b)
  have size: "card (set x) = n" if "x \<in> set (combinations n cs)" for x n
    using that assms by (auto simp: set_combinations distinct_card distinct_subseq)
  then have "sorted (map (\<lambda>x. card (set x)) (combinations b cs))"
    by (simp add: map_replicate_const cong: map_cong)
  then show ?case using Suc size by (auto simp: sorted_append less_imp_le)
qed simp

lemma fold_concat_sizes: "fold (\<lambda>n. fold g (h n)) ns acc = fold g (concat (map h ns)) acc"
  by (induction ns arbitrary: acc) simp_all

lemma risky_combinations_minimal_in:
  assumes "distinct cs"
  shows "set (risky_combinations f cs m t) = combo_of f ` {x. minimal_in f t {ys. subseq ys cs \<and> ys \<noteq> [] \<and> length ys \<le> m} x}"
proof -
  let ?L = "concat (map (\<lambda>n. combinations n cs) [1..<min m (length cs) + 1])"
  have "set ?L = {ys. subseq ys cs \<and> ys \<noteq> [] \<and> length ys \<le> m}"
    unfolding concat_combinations by (auto dest: list_emb_length)
  moreover have "inj_on set (set ?L)"
    unfolding concat_combinations using assms subseq_determined by (auto simp: inj_on_def)
  ultimately show ?thesis
    using search_minimal [of ?L f t] combinations_sizes [OF assms]
    by (simp only: risky_combinations_def fold_concat_sizes set_sort simp_thms)
qed


lemma least_key:
  assumes "0 < fr_rows f"
  shows "\<forall>i < fr_rows f. least (map g (remdups (row_keys f cs))) \<le> g (row_key f cs i)"
    and "\<exists>i < fr_rows f. least (map g (remdups (row_keys f cs))) = g (row_key f cs i)"
proof -
  let ?xs = "map g (remdups (row_keys f cs))"
  have ne: "?xs \<noteq> []" using assms by (simp add: row_keys_def)
  have set: "set ?xs = (\<lambda>i. g (row_key f cs i)) ` {..<fr_rows f}" by (auto simp: set_row_keys)
  show "\<forall>i < fr_rows f. least ?xs \<le> g (row_key f cs i)"
    unfolding least_Min [OF ne] set by simp
  have "least ?xs \<in> set ?xs" unfolding least_Min [OF ne] by (rule Min_in) (use ne in auto)
  then show "\<exists>i < fr_rows f. least ?xs = g (row_key f cs i)" unfolding set by auto
qed

text \<open>
  What the two numbers promise: every record has the same quasi-identifiers as at least \<open>k\<close> records, itself
  included, and some record no more; the records it cannot be told from have at least \<open>l\<close> different sensitive
  values, some only \<open>l\<close>; and \<open>l\<close> is at most \<open>k\<close>.
\<close>

theorem anonymity_protects_records:
  assumes "k_anonymity f cs = Some k" "l_diversity f cs sensitive = Some l"
  shows "(\<forall>i < fr_rows f. k \<le> card (same_class f cs i)) \<and> (\<exists>i < fr_rows f. k = card (same_class f cs i))
    \<and> (\<forall>i < fr_rows f. l \<le> card ((\<lambda>j. col f sensitive ! j) ` same_class f cs i))
    \<and> (\<exists>i < fr_rows f. l = card ((\<lambda>j. col f sensitive ! j) ` same_class f cs i)) \<and> l \<le> k"
proof -
  have rows: "0 < fr_rows f" and k: "k = least (class_sizes f cs)"
    and l: "l = least (map (\<lambda>k. length (remdups (map (\<lambda>i. col f sensitive ! i) (class_rows f cs k)))) (remdups (row_keys f cs)))"
    using assms by (auto simp: k_anonymity_def l_diversity_def split: if_splits)
  have "length (remdups (map (\<lambda>i. col f sensitive ! i) (class_rows f cs (row_key f cs i))))
      = card ((\<lambda>j. col f sensitive ! j) ` same_class f cs i)" for i
  proof -
    have "set (class_rows f cs (row_key f cs i)) = same_class f cs i" by (auto simp: class_rows_def same_class_def)
    then show ?thesis by (simp add: length_remdups_card_conv)
  qed
  with least_key [OF rows, of "\<lambda>k. length (remdups (map (\<lambda>i. col f sensitive ! i) (class_rows f cs k)))" cs]
  have L: "\<forall>i < fr_rows f. l \<le> card ((\<lambda>j. col f sensitive ! j) ` same_class f cs i)"
    "\<exists>i < fr_rows f. l = card ((\<lambda>j. col f sensitive ! j) ` same_class f cs i)"
    by (simp_all add: l)
  have K: "\<forall>i < fr_rows f. k \<le> card (same_class f cs i)" "\<exists>i < fr_rows f. k = card (same_class f cs i)"
    using least_key [OF rows, of "\<lambda>k. card {j. j < fr_rows f \<and> row_key f cs j = k}" cs]
    by (simp_all add: k class_sizes_eq same_class_def)
  have "card ((\<lambda>j. col f sensitive ! j) ` same_class f cs i) \<le> card (same_class f cs i)" for i
    by (rule card_image_le) (simp add: same_class_def)
  then have "l \<le> k" using K(2) L(1) order_trans by blast
  with K L show ?thesis by blast
qed

section \<open>Examples\<close>

definition ex_people :: frame where
  "ex_people = \<lparr> fr_rows = 4, fr_cols = [
     (''age'', [Some ''30'', Some ''30'', Some ''40'', Some ''40'']), (''zip'', [Some ''1'', Some ''2'', Some ''1'', Some ''2'']),
     (''ill'', [Some ''a'', Some ''a'', Some ''a'', Some ''b''])] \<rparr>"

lemma ex_people_values:
  "k_anonymity ex_people [''age''] = Some 2" "l_diversity ex_people [''age''] ''ill'' = Some 1"
  "risky_combinations ex_people [''age'', ''zip''] 3 (1/100) = [\<lparr> rc_columns = [''age'', ''zip''], rc_unique_fraction = 1 \<rparr>]"
  by code_simp+

theorem anonymity_protects_records_witness:
  "2 \<le> card (same_class ex_people [''age''] 0) \<and> k_anonymity ex_people [''age''] = Some 2"
  using anonymity_protects_records [OF ex_people_values(1,2)] ex_people_values(1) by (auto simp: ex_people_def)


end
