(* ===== verification/MP_Files.thy ===== *)
theory MP_Files
  imports MP_Identity
begin

text \<open>
  Hashing of artifacts on disk (\<^verbatim>\<open>sha256_file\<close>, \<^verbatim>\<open>sha256_path\<close>, \<^verbatim>\<open>path_size\<close> of \<^verbatim>\<open>core/identity.py\<close>). What a path
  names is a file with its bytes, or a directory with the files below it, by relative path, in the order in
  which \<^verbatim>\<open>sorted(path.rglob("*"))\<close> gives them. The lemmas: a directory's digest pins its files, and what a
  file must hold to have the digest of a directory.
\<close>

datatype node = File bytes | Dir "(string \<times> bytes) list"

definition DIRECTORY_DOMAIN :: bytes where
  "DIRECTORY_DOMAIN = ''model-passport:dir:v1'' @ [CHR 0x0A]"

definition sha256_file :: "crypto \<Rightarrow> bytes \<Rightarrow> string" where
  "sha256_file c contents = sha256_hex c contents"

definition dir_entry :: "crypto \<Rightarrow> string \<times> bytes \<Rightarrow> bytes" where
  "dir_entry c e = (case e of (rel, contents) \<Rightarrow> rel @ [CHR 0x00] @ sha256_file c contents @ [CHR 0x0A])"

definition dir_listing :: "crypto \<Rightarrow> (string \<times> bytes) list \<Rightarrow> bytes" where
  "dir_listing c entries = DIRECTORY_DOMAIN @ concat (map (dir_entry c) entries)"

fun sha256_path :: "crypto \<Rightarrow> node \<Rightarrow> string" where
  "sha256_path c (File contents) = sha256_file c contents"
| "sha256_path c (Dir entries) = sha256_hex c (dir_listing c entries)"

fun path_size :: "node \<Rightarrow> nat" where
  "path_size (File contents) = length contents"
| "path_size (Dir entries) = sum_list (map (\<lambda>(rel, contents). length contents) entries)"

section \<open>What a directory's digest pins down\<close>

text \<open>A file name holds no NUL; a digest is 32 bytes.\<close>

definition dir_ok :: "(string \<times> bytes) list \<Rightarrow> bool" where
  "dir_ok entries \<longleftrightarrow> list_all (\<lambda>(rel, contents). CHR 0x00 \<notin> set rel) entries"

definition digest_law :: "crypto \<Rightarrow> bool" where
  "digest_law c \<longleftrightarrow> (\<forall>m. length (c_sha256 c m) = 32)"

text \<open>The messages hashed for a directory.\<close>

definition dir_hashed :: "crypto \<Rightarrow> (string \<times> bytes) list \<Rightarrow> bytes set" where
  "dir_hashed c entries = insert (dir_listing c entries) (snd ` set entries)"

lemma split_at_nul: "x @ [CHR 0x00] @ a = y @ [CHR 0x00] @ b \<Longrightarrow> CHR 0x00 \<notin> set x \<Longrightarrow> CHR 0x00 \<notin> set y \<Longrightarrow> x = y \<and> a = b"
proof (induction x arbitrary: y)
  case Nil
  then show ?case by (cases y) auto
next
  case (Cons u x)
  then show ?case by (cases y) auto
qed

lemma dir_entries_inject:
  assumes "digest_law c"
  shows "dir_ok xs \<Longrightarrow> dir_ok ys \<Longrightarrow> concat (map (dir_entry c) xs) = concat (map (dir_entry c) ys)
    \<Longrightarrow> map (\<lambda>(r, b). (r, c_sha256 c b)) xs = map (\<lambda>(r, b). (r, c_sha256 c b)) ys"
proof (induction xs arbitrary: ys)
  case Nil
  then show ?case by (cases ys) (auto simp: dir_entry_def)
next
  case (Cons x xs)
  obtain r b where x: "x = (r, b)" by (cases x)
  from Cons.prems(3) obtain y zs where ys: "ys = y # zs" by (cases ys) (auto simp: dir_entry_def x)
  obtain s d where y: "y = (s, d)" by (cases y)
  let ?rest = "\<lambda>b zs. sha256_file c b @ [CHR 0x0A] @ concat (map (dir_entry c) zs)"
  have "r @ [CHR 0x00] @ ?rest b xs = s @ [CHR 0x00] @ ?rest d zs"
    using Cons.prems(3) dir_entry_def [of c "(r, b)"] dir_entry_def [of c "(s, d)"] by (simp add: x y ys)
  from split_at_nul [OF this] Cons.prems(1,2) have "r = s" "?rest b xs = ?rest d zs"
    by (auto simp: dir_ok_def x y ys)
  moreover have "length (sha256_file c b) = length (sha256_file c d)"
    using assms by (simp add: sha256_file_def sha256_hex_def digest_law_def)
  ultimately have "sha256_file c b = sha256_file c d" "concat (map (dir_entry c) xs) = concat (map (dir_entry c) zs)"
    by simp_all
  moreover have "dir_ok xs" "dir_ok zs" using Cons.prems(1,2) by (simp_all add: dir_ok_def ys)
  ultimately show ?case using Cons.IH [of zs] \<open>r = s\<close>
    by (simp add: x y ys sha256_file_def sha256_hex_def)
qed

lemma same_digests:
  "map (\<lambda>(r, b). (r, H b)) xs = map (\<lambda>(r, b). (r, H b)) ys \<Longrightarrow> xs \<noteq> ys \<Longrightarrow> collides H (snd ` set xs \<union> snd ` set ys)"
proof (induction xs arbitrary: ys)
  case (Cons x xs)
  then obtain r b d zs where x: "x = (r, b)" "ys = (r, d) # zs" "H b = H d" by (cases x; cases ys) auto
  show ?case
  proof (cases "b = d")
    case True
    then have "collides H (snd ` set xs \<union> snd ` set zs)" using Cons x by auto
    then show ?thesis by (rule collides_mono) (auto simp: x)
  next
    case False
    then show ?thesis using x by (auto simp: collides_def)
  qed
qed simp

lemma dir_digest_binding:
  assumes "digest_law c" "dir_ok xs" "dir_ok ys" "sha256_path c (Dir xs) = sha256_path c (Dir ys)"
  shows "xs = ys \<or> collides (c_sha256 c) (dir_hashed c xs \<union> dir_hashed c ys)"
proof (cases "dir_listing c xs = dir_listing c ys")
  case True
  then have "map (\<lambda>(r, b). (r, c_sha256 c b)) xs = map (\<lambda>(r, b). (r, c_sha256 c b)) ys"
    using dir_entries_inject [OF assms(1-3)] by (simp add: dir_listing_def)
  from same_digests [OF this] show ?thesis
    using collides_mono [of "c_sha256 c" "snd ` set xs \<union> snd ` set ys" "dir_hashed c xs \<union> dir_hashed c ys"]
    by (auto simp: dir_hashed_def)
next
  case False
  with assms(4) have "collides (c_sha256 c) {dir_listing c xs, dir_listing c ys}"
    by (auto simp: collides_def sha256_hex_def)
  moreover have "{dir_listing c xs, dir_listing c ys} \<subseteq> dir_hashed c xs \<union> dir_hashed c ys"
    by (simp add: dir_hashed_def)
  ultimately show ?thesis using collides_mono by blast
qed

text \<open>
  The digest of a directory pins its files: adding, removing, renaming, reordering or editing a file changes
  it, unless SHA-256 collides on two of the strings hashed.
\<close>

theorem directory_digest_binding:
  assumes "digest_law c" "dir_ok xs" "dir_ok ys" "sha256_path c (Dir xs) = sha256_path c (Dir ys)"
  shows "xs = ys \<or> collides (c_sha256 c) (dir_hashed c xs \<union> dir_hashed c ys)"
  by (rule dir_digest_binding [OF assms])

theorem directory_digest_binding_witness:
  "collides (c_sha256 example_crypto)
     (dir_hashed example_crypto [(''a'', ''1'')] \<union> dir_hashed example_crypto [(''a'', ''1''), (''b'', ''2'')])"
proof -
  have "digest_law example_crypto" by (simp add: digest_law_def length_example_sha256)
  moreover have "dir_ok [(''a'', ''1'')]" "dir_ok [(''a'', ''1''), (''b'', ''2'')]" by (simp_all add: dir_ok_def)
  moreover have "sha256_path example_crypto (Dir [(''a'', ''1'')]) = sha256_path example_crypto (Dir [(''a'', ''1''), (''b'', ''2'')])"
    by code_simp
  ultimately show ?thesis using directory_digest_binding by fastforce
qed

text \<open>
  But the domain prefix does not keep directories apart from files: the file that holds the listing of a
  directory has its digest, so the one can stand for the other.
\<close>

theorem file_mimics_directory:
  "sha256_path c (File (dir_listing c entries)) = sha256_path c (Dir entries)"
  by (simp add: sha256_file_def)

end
