(* ===== verification/MP_Assess.thy ===== *)
theory MP_Assess
  imports MP_Reid MP_Files MP_Risk MP_Policy
begin

text \<open>
  The checks of a build (\<^verbatim>\<open>core/assess.py\<close>): the safety of serialized models and the vulnerabilities of
  dependencies (\<^verbatim>\<open>auditors/artifact.py\<close>), the membership attack on a fitted model (\<^verbatim>\<open>auditors/leakage.py\<close>),
  and the scanners of \<^verbatim>\<open>MP_Scan\<close> and \<^verbatim>\<open>MP_Reid\<close> over a project's files.

  Parameters (\<open>assess_lib\<close>): what picklescan finds in a pickle, unpickling and the fitted model it gives, reading a
  table, \<^verbatim>\<open>pip-audit\<close> and the advisory server, logarithm, ROC curve and r2. Loading a pickle runs code, so
  \<open>safe_load_pickle\<close> answers which bytes it hands to the unpickler.
\<close>

section \<open>Serialized models\<close>

datatype safety = Innocuous | Suspicious | Dangerous

record pickle_global =
  pg_module :: string
  pg_name :: string
  pg_safety :: safety

record fitted =
  fm_regressor :: bool
  fm_classes :: "string list option"                    \<comment> \<open>None: no \<^verbatim>\<open>predict_proba\<close> or \<^verbatim>\<open>classes_\<close>\<close>
  fm_proba :: "frame \<Rightarrow> rat list list option"            \<comment> \<open>None: raises\<close>
  fm_values :: "frame \<Rightarrow> rat list option"
  fm_labels :: "frame \<Rightarrow> string list option"

record pip_vuln =
  pv_id :: string
  pv_aliases :: "string list"
  pv_fix_versions :: "string list"

record pip_dep =
  pd_name :: string
  pd_version :: string
  pd_vulns :: "pip_vuln list"

datatype pip_run =
    PipNotRun string                                    \<comment> \<open>the exception\<close>
  | PipExit string "pip_dep list option"                \<comment> \<open>standard error, and the output if it is JSON\<close>

record assess_lib =
  xl_scan :: scan_lib
  xl_pickle_scan :: "bytes \<Rightarrow> pickle_global list option" \<comment> \<open>None: cannot be parsed\<close>
  xl_unpickle :: "bool \<Rightarrow> bytes \<Rightarrow> fitted option"        \<comment> \<open>by joblib; None: raises\<close>
  xl_pip :: "string list \<Rightarrow> pip_run"
  xl_advisory :: "string \<Rightarrow> string option"               \<comment> \<open>the severity in an advisory; None: not available\<close>
  xl_table :: "string \<Rightarrow> string list \<Rightarrow> frame option"    \<comment> \<open>path, text columns; None: \<^verbatim>\<open>ScanError\<close>\<close>
  xl_dtypes :: "frame \<Rightarrow> string dict"
  xl_text :: "string \<Rightarrow> text_file option"
  xl_number :: "string \<Rightarrow> rat option"
  xl_ln :: "rat \<Rightarrow> rat"
  xl_r2 :: "rat option list \<Rightarrow> rat list \<Rightarrow> rat"
  xl_roc :: roc_lib
  xl_str :: "json \<Rightarrow> string"

definition PICKLE_SUFFIXES :: "string list" where
  "PICKLE_SUFFIXES = [''.pkl'', ''.pickle'', ''.joblib'', ''.pt'', ''.pth'', ''.ckpt'', ''.bin'', ''.npy'']"

definition SAFE_SUFFIXES :: "string list" where
  "SAFE_SUFFIXES = [''.safetensors'', ''.onnx'', ''.json'', ''.txt'', ''.ubj'']"

definition WEIGHT_SUFFIXES :: "string list" where
  "WEIGHT_SUFFIXES = [''.safetensors'', ''.onnx'', ''.gguf'']"

definition is_pickle_like :: "string \<Rightarrow> bool" where
  "is_pickle_like path \<longleftrightarrow> py_lower (path_suffix path) \<in> set PICKLE_SUFFIXES"

definition artifact_finding :: "string \<Rightarrow> severity \<Rightarrow> string \<Rightarrow> int \<Rightarrow> string \<Rightarrow> json dict \<Rightarrow> finding" where
  "artifact_finding category sev label n message details =
     \<lparr> fi_scanner = ''artifact'', fi_category = category, fi_severity = sev, fi_location = Some label, fi_count = n,
       fi_message = message, fi_masked_examples = [], fi_details = details \<rparr>"

definition pickle_findings :: "string \<Rightarrow> pickle_global list option \<Rightarrow> finding list" where
  "pickle_findings label result = (case result of
      None \<Rightarrow> [artifact_finding ''SCAN_ERROR'' HIGH label 0 ''pickle could not be parsed; treat as unsafe'' []]
    | Some gs \<Rightarrow>
        (let dangerous = sorted_set (map (\<lambda>g. pg_module g @ ''.'' @ pg_name g) (filter (\<lambda>g. pg_safety g = Dangerous) gs));
             unknown_modules = sorted_set (map (\<lambda>g. hd (py_split (CHR ''.'') (pg_module g))) (filter (\<lambda>g. pg_safety g = Suspicious) gs))
         in (if dangerous = [] then []
             else [artifact_finding ''UNSAFE_PICKLE'' CRITICAL label (int (length dangerous))
                     (''pickle imports dangerous callables: '' @ py_join '', '' dangerous)
                     [(''dangerous_globals'', JArr (map JStr dangerous))]])
            @ [artifact_finding ''RAW_PICKLE_FORMAT'' LOW label (int (length gs))
                 ''raw pickle executes code on load; prefer safetensors, ONNX, or skops''
                 [(''imported_modules'', JArr (map JStr unknown_modules))]]))"

definition scan_one_file :: "assess_lib \<Rightarrow> string \<Rightarrow> string \<Rightarrow> bytes \<Rightarrow> finding list" where
  "scan_one_file xl path label contents =
     (let suff = py_lower (path_suffix path) in
      if suff \<in> set SAFE_SUFFIXES
      then [artifact_finding ''SAFE_FORMAT'' INFO label 0 (suff @ '' does not execute code on load'') []]
      else if \<not> is_pickle_like path
      then [artifact_finding ''UNKNOWN_FORMAT'' LOW label 0
              (''cannot verify load safety of '' @ (if suff = [] then ''no suffix'' else suff)) []]
      else pickle_findings label (xl_pickle_scan xl contents))"

text \<open>A directory is scanned file by file, weights and pickles only.\<close>

fun scan_model_file :: "assess_lib \<Rightarrow> string \<Rightarrow> string \<Rightarrow> node \<Rightarrow> finding list" where
  "scan_model_file xl path label (File contents) = scan_one_file xl path label contents"
| "scan_model_file xl path label (Dir entries) =
     concat (map (\<lambda>(rel, contents). scan_one_file xl rel (label @ ''/'' @ rel) contents)
       (filter (\<lambda>(rel, contents). py_lower (path_suffix rel) \<in> set WEIGHT_SUFFIXES \<or> is_pickle_like rel) entries))"

datatype load =
    Refused string                       \<comment> \<open>\<^verbatim>\<open>UnsafeArtifactError\<close>, with the name and the finding's message\<close>
  | NotAFile
  | Unpickles bool bytes                 \<comment> \<open>by joblib\<close>

definition safe_load_pickle :: "assess_lib \<Rightarrow> string \<Rightarrow> node \<Rightarrow> load" where
  "safe_load_pickle xl path n =
     (let blocking = filter (\<lambda>f. fi_category f \<in> {''UNSAFE_PICKLE'', ''SCAN_ERROR''}) (scan_model_file xl path (path_name path) n)
      in if blocking \<noteq> [] then Refused (''refusing to load '' @ path_name path @ '': '' @ fi_message (hd blocking))
         else (case n of
             Dir _ \<Rightarrow> NotAFile
           | File contents \<Rightarrow> Unpickles (py_lower (path_suffix path) = ''.joblib'') contents))"

section \<open>Dependencies\<close>

definition GHSA_SEVERITY :: "(string \<times> severity) list" where
  "GHSA_SEVERITY = [(''LOW'', LOW), (''MODERATE'', MEDIUM), (''MEDIUM'', MEDIUM), (''HIGH'', HIGH), (''CRITICAL'', CRITICAL)]"

definition ghsa_id :: "pip_vuln \<Rightarrow> string option" where
  "ghsa_id v = List.find (\<lambda>candidate. startswith candidate ''GHSA-'') (pv_id v # pv_aliases v)"

definition fetch_severity :: "assess_lib \<Rightarrow> string \<Rightarrow> severity option" where
  "fetch_severity xl vuln_id = Option.bind (xl_advisory xl vuln_id) (\<lambda>label. map_of GHSA_SEVERITY (py_upper label))"

definition run_pip_audit :: "assess_lib \<Rightarrow> string dict \<Rightarrow> dependency_audit \<times> string \<times> pip_dep list" where
  "run_pip_audit xl dependencies =
     (let pins = map (\<lambda>(name, version). name @ ''=='' @ version) (sort_key fst dependencies)
      in if pins = [] then (DEP_OK, ''no dependencies'', [])
         else (case xl_pip xl pins of
             PipNotRun exc \<Rightarrow> (DEP_ERROR, ''pip-audit did not run: '' @ exc, [])
           | PipExit stderr output \<Rightarrow>
               if sublist ''No module named pip_audit'' stderr
               then (DEP_ERROR, ''pip-audit is not installed (pip install pip-audit)'', [])
               else (case output of
                   None \<Rightarrow> (DEP_ERROR, ''pip-audit failed: '' @
                     (if py_strip stderr = [] then ''no output'' else last (py_split (CHR 0x0A) (py_strip stderr))), [])
                 | Some deps \<Rightarrow> (DEP_OK, ''audited '' @ nat_str (length pins) @ '' packages'', deps))))"

text \<open>The first report of an id is kept.\<close>

definition add_vuln :: "pip_dep \<Rightarrow> pip_vuln \<Rightarrow> (string \<times> string \<times> string \<times> pip_vuln) list \<Rightarrow> (string \<times> string \<times> string \<times> pip_vuln) list" where
  "add_vuln d v vulns = (if map_of vulns (pv_id v) = None then vulns @ [(pv_id v, pd_name d, pd_version d, v)] else vulns)"

definition vuln_finding :: "severity option \<Rightarrow> string \<times> string \<times> string \<times> pip_vuln \<Rightarrow> finding" where
  "vuln_finding sev entry = (case entry of (vid, name, version, v) \<Rightarrow>
     (let cves = filter (\<lambda>a. startswith a ''CVE-'') (vid # pv_aliases v);
          fixed_in = (if py_join '', '' (pv_fix_versions v) = [] then ''no release'' else py_join '', '' (pv_fix_versions v))
      in \<lparr> fi_scanner = ''pip_audit'', fi_category = (if cves \<noteq> [] then hd cves else vid),
           fi_severity = (case sev of None \<Rightarrow> MEDIUM | Some s \<Rightarrow> s), fi_location = Some (name @ ''=='' @ version), fi_count = 1,
           fi_message = name @ '' '' @ version @ '': '' @ vid @ ''; fixed in '' @ fixed_in, fi_masked_examples = [],
           fi_details = [(''id'', JStr vid), (''aliases'', JArr (map JStr (pv_aliases v))),
             (''fix_versions'', JArr (map JStr (pv_fix_versions v))),
             (''severity_source'', JStr (if sev = None then ''unknown'' else ''ghsa''))] \<rparr>))"

definition audit_dependencies :: "assess_lib \<Rightarrow> string dict \<Rightarrow> dependency_audit \<times> string \<times> finding list" where
  "audit_dependencies xl dependencies =
     (let deps = filter (\<lambda>(name, version). py_lower name \<notin> {''model-passport'', ''model_passport''}) dependencies;
          (status, message, results) = run_pip_audit xl deps;
          vulns = fold (\<lambda>d. fold (add_vuln d) (pd_vulns d)) results []
      in (status, message, map (\<lambda>e. vuln_finding (Option.bind (ghsa_id (snd (snd (snd e)))) (fetch_severity xl)) e) (sort_key fst vulns)))"

section \<open>The membership attack on a fitted model\<close>

datatype leak_error =
    LeakageAuditError
  | ModelRaises          \<comment> \<open>an exception of the model or of numpy outside the handled places\<close>

definition EPS :: rat where "EPS = 1 / 10 ^ 12"

definition drop_column :: "string \<Rightarrow> frame \<Rightarrow> frame" where
  "drop_column c f = f\<lparr> fr_cols := filter (\<lambda>(d, cells). d \<noteq> c) (fr_cols f) \<rparr>"

definition squared_error :: "assess_lib \<Rightarrow> fitted \<Rightarrow> frame \<Rightarrow> string option list \<Rightarrow> leak_error + rat list" where
  "squared_error xl model features target =
     (case all_some (map (\<lambda>v. Option.bind v (xl_number xl)) target) of
        None \<Rightarrow> Inl LeakageAuditError
      | Some ys \<Rightarrow> (case fm_values model features of
          None \<Rightarrow> Inl LeakageAuditError
        | Some pred \<Rightarrow> Inr (map2 (\<lambda>y p. (y - p) ^ 2) ys pred)))"

definition class_index :: "string list \<Rightarrow> string option \<Rightarrow> nat option" where
  "class_index classes v = (case v of None \<Rightarrow> None | Some t \<Rightarrow> if t \<in> set classes then Some (index_of classes t) else None)"

definition per_sample_loss :: "assess_lib \<Rightarrow> fitted \<Rightarrow> frame \<Rightarrow> string \<Rightarrow> leak_error + rat list" where
  "per_sample_loss xl model f label =
     (if label \<notin> set (frame_columns f) then Inl LeakageAuditError
      else let features = drop_column label f in
        if fm_regressor model then squared_error xl model features (col f label)
        else (case fm_classes model of
            None \<Rightarrow> Inl LeakageAuditError
          | Some classes \<Rightarrow> (case fm_proba model features of
              None \<Rightarrow> Inl LeakageAuditError
            | Some proba \<Rightarrow> (case all_some (map (class_index classes) (col f label)) of
                None \<Rightarrow> Inl LeakageAuditError
              | Some ys \<Rightarrow> Inr (map2 (\<lambda>row y. - xl_ln xl (min 1 (max EPS (row ! y)))) proba ys)))))"

definition tpr_at_fpr :: "roc_lib \<Rightarrow> rat list \<Rightarrow> rat list \<Rightarrow> rat \<Rightarrow> rat" where
  "tpr_at_fpr rk members controls max_fpr =
     fold max (map snd (filter (\<lambda>(fpr, tpr). fpr \<le> max_fpr) (rk_curve rk members controls))) 0"

definition rat_mean :: "rat list \<Rightarrow> rat" where
  "rat_mean xs = sum_list xs / of_nat (length xs)"

definition accuracy :: "fitted \<Rightarrow> frame \<Rightarrow> string \<Rightarrow> leak_error + rat" where
  "accuracy model f label = (case fm_labels model (drop_column label f) of
      None \<Rightarrow> Inl ModelRaises
    | Some predictions \<Rightarrow> Inr (rat_mean (map2 (\<lambda>p v. if p = (case v of None \<Rightarrow> ''nan'' | Some t \<Rightarrow> t) then 1 else 0)
        predictions (col f label))))"

definition r2 :: "assess_lib \<Rightarrow> fitted \<Rightarrow> frame \<Rightarrow> string \<Rightarrow> leak_error + rat" where
  "r2 xl model f label = (case fm_values model (drop_column label f) of
      None \<Rightarrow> Inl ModelRaises
    | Some pred \<Rightarrow> Inr (xl_r2 xl (map (\<lambda>v. Option.bind v (xl_number xl)) (col f label)) pred))"

definition result_diff :: "leak_error + rat \<Rightarrow> leak_error + rat \<Rightarrow> leak_error + rat" where
  "result_diff a b = (case a of Inl e \<Rightarrow> Inl e | Inr x \<Rightarrow> (case b of Inl e \<Rightarrow> Inl e | Inr y \<Rightarrow> Inr (x - y)))"

definition mean_loss :: "assess_lib \<Rightarrow> fitted \<Rightarrow> frame \<Rightarrow> string \<Rightarrow> leak_error + rat" where
  "mean_loss xl model f label = map_sum id rat_mean (per_sample_loss xl model f label)"

definition generalization_gap :: "assess_lib \<Rightarrow> fitted \<Rightarrow> frame \<Rightarrow> frame \<Rightarrow> string \<Rightarrow> string \<Rightarrow> leak_error + rat" where
  "generalization_gap xl model train test label metric =
     (if metric = ''accuracy'' then result_diff (accuracy model train label) (accuracy model test label)
      else if metric = ''r2'' then result_diff (r2 xl model train label) (r2 xl model test label)
      else if metric = ''log_loss'' then result_diff (mean_loss xl model test label) (mean_loss xl model train label)
      else Inl LeakageAuditError)"

definition loss_threshold_attack :: "assess_lib \<Rightarrow> fitted \<Rightarrow> frame \<Rightarrow> frame \<Rightarrow> string \<Rightarrow> rat \<Rightarrow> string \<Rightarrow> leak_error + leakage_result" where
  "loss_threshold_attack xl model members nonmembers label low_fpr gap_metric =
     (let metric = (if fm_regressor model \<and> gap_metric = ''accuracy'' then ''r2'' else gap_metric)
      in if fr_rows members = 0 \<or> fr_cols members = [] \<or> fr_rows nonmembers = 0 \<or> fr_cols nonmembers = [] then Inl LeakageAuditError
         else (case per_sample_loss xl model members label of
             Inl e \<Rightarrow> Inl e
           | Inr member_loss \<Rightarrow> (case per_sample_loss xl model nonmembers label of
               Inl e \<Rightarrow> Inl e
             | Inr nonmember_loss \<Rightarrow>
                 (let ms = map uminus member_loss; ns = map uminus nonmember_loss
                  in case generalization_gap xl model members nonmembers label metric of
                       Inl e \<Rightarrow> Inl e
                     | Inr gap \<Rightarrow> Inr \<lparr> lk_attack = ''loss_threshold'', lk_mia_auc = round_digits 4 (rk_auc (xl_roc xl) ms ns),
                         lk_tpr_at_low_fpr = round_digits 4 (tpr_at_fpr (xl_roc xl) ms ns low_fpr), lk_low_fpr = low_fpr,
                         lk_members = int (length member_loss), lk_nonmembers = int (length nonmember_loss),
                         lk_generalization_gap = Some (round_digits 4 gap), lk_gap_metric = Some metric \<rparr>))))"

section \<open>The checks of a build\<close>

datatype assess_error =
    AssessmentError
  | AssessmentCrash      \<comment> \<open>any other exception, which the build does not handle\<close>

record privacy_config =
  pc_enabled :: bool
  pc_sample_size :: "nat option"
  pc_quasi_identifiers :: "string list option"
  pc_sensitive_column :: "string option"
  pc_presidio :: bool
  pc_scan_secrets :: bool
  pc_entity_audit :: "string option"

record audit_config =
  ad_label_column :: "string option"
  ad_members :: "string option"
  ad_nonmembers :: "string option"
  ad_gap_metric :: string
  ad_scan_artifacts :: bool
  ad_dependency_audit :: bool

definition empty_privacy :: privacy_report where
  "empty_privacy = \<lparr> pr_datasets_scanned = [], pr_data_findings = [], pr_reidentification = [], pr_leakage = None, pr_entity_audit = None \<rparr>"

definition empty_security :: security_report where
  "empty_security = \<lparr> sr_files_scanned_for_secrets = None, sr_secret_findings = [], sr_artifacts_scanned = [], sr_artifact_findings = [],
     sr_dependency_audit = DEP_NOT_RUN, sr_dependency_audit_message = [], sr_dependency_vulnerabilities = [] \<rparr>"

definition scan_dataset :: "assess_lib \<Rightarrow> privacy_config \<Rightarrow> dataset_info \<Rightarrow> frame \<Rightarrow> privacy_report \<Rightarrow> dataset_info \<times> privacy_report" where
  "scan_dataset xl config info f report =
     (let pii = pii_scan (xl_scan xl)
            \<lparr> px_sample_size = pc_sample_size config, px_max_examples = 2, px_use_presidio = pc_presidio config \<rparr> (di_name info) f;
          (reid, results) = reid_scan (xl_scan xl) (pc_quasi_identifiers config) (pc_sensitive_column config) (di_name info) f
            (pr_reidentification report)
      in (info\<lparr> di_row_count := Some (int (fr_rows f)), di_column_schema := Some (xl_dtypes xl f) \<rparr>,
          report\<lparr> pr_data_findings := pr_data_findings report @ pii @ reid,
            pr_datasets_scanned := pr_datasets_scanned report @ [di_name info], pr_reidentification := results \<rparr>))"

text \<open>The loop over the datasets fills \<open>row_count\<close> and \<open>column_schema\<close> in place; the list returned is the changed one.\<close>

fun scan_datasets :: "assess_lib \<Rightarrow> privacy_config \<Rightarrow> (string \<times> dataset_info) list \<Rightarrow> privacy_report
    \<Rightarrow> assess_error + (string \<times> dataset_info) list \<times> privacy_report" where
  "scan_datasets xl config [] report = Inr ([], report)"
| "scan_datasets xl config ((path, info) # rest) report =
     (let scanned = (if \<not> is_tabular path then Some (info, report)
                     else map_option (\<lambda>f. scan_dataset xl config info f report) (xl_table xl path []))
      in case scanned of
           None \<Rightarrow> Inl AssessmentError
         | Some (info', report') \<Rightarrow> map_sum id (\<lambda>(ds, r). ((path, info') # ds, r)) (scan_datasets xl config rest report'))"

definition assess_privacy :: "assess_lib \<Rightarrow> privacy_config \<Rightarrow> (string \<times> dataset_info) list
    \<Rightarrow> assess_error + (string \<times> dataset_info) list \<times> privacy_report" where
  "assess_privacy xl config datasets =
     (if \<not> pc_enabled config then Inr (datasets, empty_privacy) else scan_datasets xl config datasets empty_privacy)"

definition dataset_path :: "string option \<Rightarrow> (string \<times> dataset_info) list \<Rightarrow> split_role \<Rightarrow> string option" where
  "dataset_path explicit datasets role = (case explicit of
      Some p \<Rightarrow> Some p
    | None \<Rightarrow> map_option fst (List.find (\<lambda>(path, info). di_split_role info = role) datasets))"

definition scan_artifacts :: "assess_lib \<Rightarrow> (string \<Rightarrow> node) \<Rightarrow> artifact_ref list \<Rightarrow> security_report \<Rightarrow> security_report" where
  "scan_artifacts xl node_at artifacts report =
     fold (\<lambda>a r. if ar_kind a = MODEL \<or> is_pickle_like (ar_path a)
       then r\<lparr> sr_artifact_findings := sr_artifact_findings r @ scan_model_file xl (ar_path a) (ar_path a) (node_at (ar_path a)),
              sr_artifacts_scanned := sr_artifacts_scanned r @ [ar_path a] \<rparr> else r) artifacts report"

definition leakage_audit :: "assess_lib \<Rightarrow> audit_config \<Rightarrow> string \<Rightarrow> string \<Rightarrow> string \<Rightarrow> string \<Rightarrow> string list \<Rightarrow> node \<Rightarrow> security_report
    \<Rightarrow> assess_error + leakage_result option \<times> security_report" where
  "leakage_audit xl config label members nonmembers model_path text_cols n report =
     (case safe_load_pickle xl model_path n of
        Refused message \<Rightarrow> Inr (None, report\<lparr> sr_artifact_findings := sr_artifact_findings report @
            [\<lparr> fi_scanner = ''leakage'', fi_category = ''AUDIT_SKIPPED'', fi_severity = HIGH, fi_location = Some model_path,
               fi_count = 0, fi_message = message, fi_masked_examples = [], fi_details = [] \<rparr>] \<rparr>)
      | NotAFile \<Rightarrow> Inl AssessmentCrash
      | Unpickles by_joblib contents \<Rightarrow> (case xl_unpickle xl by_joblib contents of
          None \<Rightarrow> Inl AssessmentCrash
        | Some model \<Rightarrow> (case (xl_table xl members text_cols, xl_table xl nonmembers text_cols) of
            (Some train, Some test) \<Rightarrow>
              (case loss_threshold_attack xl model train test label (1/100) (ad_gap_metric config) of
                 Inr r \<Rightarrow> Inr (Some r, report)
               | Inl LeakageAuditError \<Rightarrow> Inl AssessmentError
               | Inl ModelRaises \<Rightarrow> Inl AssessmentCrash)
          | _ \<Rightarrow> Inl AssessmentError)))"

definition audit_environment :: "assess_lib \<Rightarrow> audit_config \<Rightarrow> environment_sec option \<Rightarrow> security_report \<Rightarrow> security_report" where
  "audit_environment xl config environment report =
     (case environment of
        Some env \<Rightarrow> if ad_dependency_audit config
          then (case audit_dependencies xl (en_dependencies env) of (status, message, vulns) \<Rightarrow>
            report\<lparr> sr_dependency_audit := status, sr_dependency_audit_message := message, sr_dependency_vulnerabilities := vulns \<rparr>)
          else report
      | None \<Rightarrow> report)"

definition assess_models :: "assess_lib \<Rightarrow> (string \<Rightarrow> node) \<Rightarrow> audit_config \<Rightarrow> string \<Rightarrow> artifact_ref list \<Rightarrow> (string \<times> dataset_info) list
    \<Rightarrow> environment_sec option \<Rightarrow> security_report \<Rightarrow> json dict option \<Rightarrow> assess_error + leakage_result option \<times> security_report" where
  "assess_models xl node_at config model_path artifacts datasets environment report input_schema =
     (let report1 = (if ad_scan_artifacts config then scan_artifacts xl node_at artifacts report else report);
          report2 = audit_environment xl config environment report1
      in case ad_label_column config of
           None \<Rightarrow> Inr (None, report2)
         | Some label \<Rightarrow>
             if label = [] then Inr (None, report2)
             else (case (dataset_path (ad_members config) datasets TRAIN, dataset_path (ad_nonmembers config) datasets TEST) of
                 (Some members, Some nonmembers) \<Rightarrow>
                   leakage_audit xl config label members nonmembers model_path (string_columns (xl_str xl) input_schema)
                     (node_at model_path) report2
               | _ \<Rightarrow> Inl AssessmentError))"

definition scan_secrets :: "assess_lib \<Rightarrow> artifact_ref list \<Rightarrow> nat \<times> finding list" where
  "scan_secrets xl artifacts =
     (let scanned = filter (\<lambda>a. ar_kind a \<noteq> MODEL) artifacts
      in (length scanned, concat (map (\<lambda>a. secrets_scan (xl_scan xl) True 1 (ar_path a) (xl_text xl (ar_path a))) scanned)))"

section \<open>Unsafe pickles\<close>

definition unsafe_contents :: "assess_lib \<Rightarrow> bytes \<Rightarrow> bool" where
  "unsafe_contents xl contents \<longleftrightarrow> (case xl_pickle_scan xl contents of None \<Rightarrow> True | Some gs \<Rightarrow> list_ex (\<lambda>g. pg_safety g = Dangerous) gs)"

lemma pickle_not_safe: "is_pickle_like path \<Longrightarrow> py_lower (path_suffix path) \<notin> set SAFE_SUFFIXES"
  by (auto simp: is_pickle_like_def PICKLE_SUFFIXES_def SAFE_SUFFIXES_def)

definition unsafe_finding :: "finding \<Rightarrow> bool" where
  "unsafe_finding f \<longleftrightarrow> fi_category f \<in> {''UNSAFE_PICKLE'', ''SCAN_ERROR''}"

lemma sorted_set_empty: "sorted_set xs = [] \<longleftrightarrow> xs = []"
  by (metis set_empty set_remdups set_sort sorted_set_def)

lemma pickle_findings_unsafe:
  "list_ex unsafe_finding (pickle_findings label r) \<longleftrightarrow>
     (case r of None \<Rightarrow> True | Some gs \<Rightarrow> list_ex (\<lambda>g. pg_safety g = Dangerous) gs)"
  by (auto simp: pickle_findings_def unsafe_finding_def artifact_finding_def Let_def list_ex_iff filter_empty_conv sorted_set_empty
      split: option.split)

lemma scan_one_unsafe:
  "list_ex unsafe_finding (scan_one_file xl path label contents) \<longleftrightarrow> is_pickle_like path \<and> unsafe_contents xl contents"
  using pickle_not_safe [of path]
  by (auto simp: scan_one_file_def unsafe_contents_def pickle_findings_unsafe Let_def)
    (simp_all add: unsafe_finding_def artifact_finding_def)

text \<open>The files under a path whose scan is unsafe.\<close>

fun unsafe_node :: "assess_lib \<Rightarrow> string \<Rightarrow> node \<Rightarrow> bool" where
  "unsafe_node xl path (File contents) = (is_pickle_like path \<and> unsafe_contents xl contents)"
| "unsafe_node xl path (Dir entries) = list_ex (\<lambda>(rel, contents). is_pickle_like rel \<and> unsafe_contents xl contents) entries"

lemma scan_model_unsafe: "list_ex unsafe_finding (scan_model_file xl path label n) \<longleftrightarrow> unsafe_node xl path n"
proof (cases n)
  case (Dir entries)
  have "list_ex unsafe_finding (concat (map g xs)) \<longleftrightarrow> list_ex (\<lambda>x. list_ex unsafe_finding (g x)) xs" for g and xs :: "(string \<times> bytes) list"
    by (induction xs) simp_all
  moreover have "list_ex P (filter Q xs) \<longleftrightarrow> list_ex (\<lambda>x. Q x \<and> P x) xs" for P Q and xs :: "(string \<times> bytes) list"
    by (induction xs) auto
  ultimately have "list_ex unsafe_finding (scan_model_file xl path label n) \<longleftrightarrow>
      list_ex (\<lambda>x. (py_lower (path_suffix (fst x)) \<in> set WEIGHT_SUFFIXES \<or> is_pickle_like (fst x))
        \<and> list_ex unsafe_finding (scan_one_file xl (fst x) (label @ ''/'' @ fst x) (snd x))) entries"
    by (simp only: Dir scan_model_file.simps split_beta)
  also have "\<dots> \<longleftrightarrow> unsafe_node xl path n"
    unfolding Dir unsafe_node.simps by (rule list_ex_cong) (auto simp: scan_one_unsafe split_beta)
  finally show ?thesis .
qed (simp add: scan_one_unsafe)

text \<open>
  C39. A file with the suffix of a pickle is unpickled only when its scan succeeded and found no dangerous import.
\<close>

theorem pickles_are_scanned_before_loading:
  assumes "safe_load_pickle xl path n = Unpickles by_joblib contents" "is_pickle_like path"
  shows "n = File contents \<and> (\<exists>gs. xl_pickle_scan xl contents = Some gs \<and> \<not> list_ex (\<lambda>g. pg_safety g = Dangerous) gs)"
proof -
  have "filter (\<lambda>f. fi_category f \<in> {''UNSAFE_PICKLE'', ''SCAN_ERROR''}) (scan_model_file xl path (path_name path) n) = []"
    and n: "n = File contents"
    using assms(1) by (auto simp: safe_load_pickle_def Let_def split: if_splits node.splits)
  then have "\<not> list_ex unsafe_finding (scan_model_file xl path (path_name path) n)"
    by (auto simp: filter_empty_conv list_ex_iff unsafe_finding_def)
  with assms(2) n have "\<not> unsafe_contents xl contents" by (simp only: scan_model_unsafe unsafe_node.simps simp_thms)
  with n show ?thesis by (auto simp: unsafe_contents_def split: option.splits)
qed

text \<open>
  C40. A file with any other suffix is unpickled without a scan: its name alone decides, although unpickling runs
  what the bytes say.
\<close>

theorem other_suffixes_are_loaded_unscanned:
  assumes "\<not> is_pickle_like path"
  shows "safe_load_pickle xl path (File contents) = Unpickles False contents"
proof -
  have "\<not> list_ex unsafe_finding (scan_model_file xl path (path_name path) (File contents))"
    using assms by (simp only: scan_model_unsafe unsafe_node.simps simp_thms)
  then have "filter (\<lambda>f. fi_category f \<in> {''UNSAFE_PICKLE'', ''SCAN_ERROR''}) (scan_model_file xl path (path_name path) (File contents)) = []"
    by (auto simp: filter_empty_conv list_ex_iff unsafe_finding_def)
  moreover have "py_lower (path_suffix path) \<noteq> ''.joblib''"
    using assms by (auto simp: is_pickle_like_def PICKLE_SUFFIXES_def)
  ultimately show ?thesis by (simp add: safe_load_pickle_def)
qed

abbreviation scanned_artifact :: "artifact_ref \<Rightarrow> bool" where
  "scanned_artifact a \<equiv> ar_kind a = MODEL \<or> is_pickle_like (ar_path a)"

lemma scan_artifacts_fields:
  "sr_artifact_findings (scan_artifacts xl node_at as r) = sr_artifact_findings r @
     concat (map (\<lambda>a. scan_model_file xl (ar_path a) (ar_path a) (node_at (ar_path a))) (filter scanned_artifact as))"
  "sr_artifacts_scanned (scan_artifacts xl node_at as r) = sr_artifacts_scanned r @ map ar_path (filter scanned_artifact as)"
  by (induction as arbitrary: r) (simp_all add: scan_artifacts_def)

lemma assess_models_findings:
  assumes "assess_models xl node_at config model_path artifacts datasets env r schema = Inr (leak, r')" "ad_scan_artifacts config"
  shows "sr_artifacts_scanned r' = sr_artifacts_scanned (scan_artifacts xl node_at artifacts r)
    \<and> set (sr_artifact_findings (scan_artifacts xl node_at artifacts r)) \<subseteq> set (sr_artifact_findings r')"
proof -
  let ?r1 = "scan_artifacts xl node_at artifacts r"
  define r2 where "r2 = audit_environment xl config env ?r1"
  have r2: "sr_artifacts_scanned r2 = sr_artifacts_scanned ?r1" "sr_artifact_findings r2 = sr_artifact_findings ?r1"
    by (auto simp: r2_def audit_environment_def split: option.split prod.split)
  have kept: "sr_artifacts_scanned r' = sr_artifacts_scanned r2 \<and> set (sr_artifact_findings r2) \<subseteq> set (sr_artifact_findings r')"
    if "leakage_audit xl config label m n p cols nd r2 = Inr (leak, r')" for label m n p cols nd
    using that by (auto simp: leakage_audit_def split: load.splits option.splits sum.splits leak_error.splits prod.splits)
  have "r' = r2 \<or> (\<exists>label m n p cols nd. leakage_audit xl config label m n p cols nd r2 = Inr (leak, r'))"
    using assms by (auto simp: assess_models_def Let_def r2_def [symmetric] split: option.splits if_splits)
  then show ?thesis
  proof (elim disjE exE)
    assume "r' = r2"
    with r2 show ?thesis by simp
  next
    fix label m n p cols nd
    assume "leakage_audit xl config label m n p cols nd r2 = Inr (leak, r')"
    from kept [OF this] r2 show ?thesis by simp
  qed
qed


section \<open>Examples\<close>

definition ex_xl :: assess_lib where
  "ex_xl = \<lparr> xl_scan = \<lparr> sn_findall = (\<lambda>p t. []), sn_fullmatch = (\<lambda>p t. False), sn_ipv4 = (\<lambda>t. False), sn_ipv6 = (\<lambda>t. False),
       sn_parse_date = (\<lambda>t. None), sn_today = (2026, 1, 1), sn_sample = (\<lambda>n k. [0..<k]), sn_presidio = (\<lambda>vs. []),
       sn_float = (\<lambda>r. ''1.0''), sn_repr = id, sn_secret = (\<lambda>p l. []), sn_token = (\<lambda>l. []), sn_log2 = (\<lambda>r. 0) \<rparr>,
     xl_pickle_scan = (\<lambda>b. if b = ''evil'' then Some [\<lparr> pg_module = ''os'', pg_name = ''system'', pg_safety = Dangerous \<rparr>] else Some []),
     xl_unpickle = (\<lambda>j b. None), xl_pip = (\<lambda>pins. PipExit [] (Some [])), xl_advisory = (\<lambda>i. None), xl_table = (\<lambda>p cols. None),
     xl_dtypes = (\<lambda>f. []), xl_text = (\<lambda>p. None), xl_number = (\<lambda>t. None), xl_ln = (\<lambda>r. 0), xl_r2 = (\<lambda>t p. 0),
     xl_roc = \<lparr> rk_auc = (\<lambda>a b. 1/2), rk_curve = (\<lambda>a b. []) \<rparr>, xl_str = (\<lambda>j. []) \<rparr>"

definition ex_audit_config :: audit_config where
  "ex_audit_config = \<lparr> ad_label_column = None, ad_members = None, ad_nonmembers = None, ad_gap_metric = ''accuracy'',
     ad_scan_artifacts = True, ad_dependency_audit = False \<rparr>"

definition ex_artifact :: artifact_ref where
  "ex_artifact = \<lparr> ar_path = ''m.pkl'', ar_sha256 = example_digest (CHR ''a''), ar_size_bytes = 4, ar_kind = MODEL \<rparr>"

lemma ex_pickle_like: "is_pickle_like ''m.pkl''" "\<not> is_pickle_like ''m.dat''"
  by code_simp+

theorem pickles_are_scanned_before_loading_witness:
  "safe_load_pickle ex_xl ''m.pkl'' (File ''good'') = Unpickles False ''good''
    \<and> (\<exists>gs. xl_pickle_scan ex_xl ''good'' = Some gs \<and> \<not> list_ex (\<lambda>g. pg_safety g = Dangerous) gs)"
proof -
  have load: "safe_load_pickle ex_xl ''m.pkl'' (File ''good'') = Unpickles False ''good''" by code_simp
  from pickles_are_scanned_before_loading [OF this ex_pickle_like(1)] load show ?thesis by blast
qed

theorem other_suffixes_are_loaded_unscanned_witness:
  "safe_load_pickle ex_xl ''m.dat'' (File ''evil'') = Unpickles False ''evil''"
  by (rule other_suffixes_are_loaded_unscanned [OF ex_pickle_like(2)])


end
