(* ===== verification/MP_Capture.thy ===== *)
theory MP_Capture
  imports MP_Assess MP_Verifier
begin

text \<open>
  Project configuration (\<^verbatim>\<open>core/config.py\<close>) and the capture of a pipeline run (\<^verbatim>\<open>core/capture.py\<close>): hashing scripts and
  data, running the stages in order, the run record. The state of a run is the files of the project, by resolved
  path, and the number of times the clock was read. \<open>capture_lib\<close> stands for path resolution, \<^verbatim>\<open>shlex\<close>, \<^verbatim>\<open>yaml\<close>, \<^verbatim>\<open>json\<close>,
  the processes that are started (a stage's command may change any file), git and facts about the machine.
\<close>

section \<open>Configuration\<close>

record project_info =
  pj_name :: string
  pj_version :: string

record signing_config =
  sg_private_key :: string
  sg_public_key :: string

record model_input =
  mn_path :: string
  mn_metadata :: "string option"
  mn_framework :: "string option"
  mn_algorithm :: "string option"
  mn_task_type :: "string option"
  mn_hyperparameters :: "json dict"
  mn_input_schema :: "json dict option"
  mn_output_schema :: "json dict option"

record dataset_input =
  dn_path :: string
  dn_split_role :: split_role
  dn_name :: "string option"
  dn_source :: "string option"
  dn_license :: "string option"

record artifact_input =
  an_path :: string
  an_kind :: artifact_kind

record build_inputs =
  bi_model :: model_input
  bi_datasets :: "dataset_input list"
  bi_artifacts :: "artifact_input list"
  bi_metrics :: "rat dict dict"
  bi_lineage_links :: "string list"

datatype stage_cmd = CmdText string | CmdWords "string list"

record stage_config =
  sc_name :: string
  sc_cmd :: stage_cmd
  sc_script :: "string option"
  sc_params :: "json dict"
  sc_deps :: "string list"
  sc_outs :: "string list"
  sc_metrics :: "string option"

record tracking_config =
  tk_mlflow_uri :: "string option"
  tk_mlflow_experiment :: "string option"
  tk_dvc :: bool

record project_config =
  cf_project :: project_info
  cf_signing :: signing_config
  cf_tracking :: tracking_config
  cf_declared :: declared_sec
  cf_stages :: "stage_config list"
  cf_build :: build_inputs
  cf_privacy :: privacy_config
  cf_audit :: audit_config
  cf_policy :: "string option"

section \<open>Capture\<close>

type_synonym files = "string \<Rightarrow> node option"

record run_record =
  rn_run_id :: string
  rn_started_at :: string
  rn_ended_at :: string
  rn_stages_sha256 :: string
  rn_overrides :: "json dict dict"
  rn_stages :: "pipeline_stage list"
  rn_environment :: environment_sec
  rn_metrics :: "rat dict dict"
  rn_mlflow_run_id :: "string option"

record machine =
  mc_python_version :: string
  mc_platform :: string
  mc_machine :: string
  mc_processor :: string
  mc_cpu_count :: "int option"
  mc_sysconf :: "(int \<times> int) option"                    \<comment> \<open>page size and pages, \<open>None\<close> where it raises\<close>
  mc_distributions :: "(string option \<times> string) list"

record capture_lib =
  cl_crypto :: crypto
  cl_resolve :: "string \<Rightarrow> string"                        \<comment> \<open>\<^verbatim>\<open>(root / path).resolve()\<close>\<close>
  cl_relative :: "string \<Rightarrow> string option"                \<comment> \<open>\<^verbatim>\<open>relative_to(root)\<close>, \<open>None\<close> outside the project\<close>
  cl_shlex :: "string \<Rightarrow> string list option"
  cl_executable :: string
  cl_run :: "string list \<Rightarrow> string dict \<Rightarrow> files \<Rightarrow> (int \<times> files) option"
  cl_git :: "files \<Rightarrow> string list \<Rightarrow> string option"
  cl_time :: "nat \<Rightarrow> string"
  cl_yaml :: "string \<Rightarrow> json option"
  cl_loads :: "bytes \<Rightarrow> json option"
  cl_dumps :: "json \<Rightarrow> string"
  cl_float :: "json \<Rightarrow> rat option"
  cl_machine :: machine
  cl_run_id :: "nat \<Rightarrow> string"
  cl_write_record :: "run_record \<Rightarrow> bytes"
  cl_read_record :: "bytes \<Rightarrow> run_record option"

record workdir =
  wd_files :: files
  wd_clock :: nat

datatype capture_error =
    InvalidOverride string
  | EmptyCommand string
  | CannotInferScript string
  | FileNotFound string
  | CannotStart string
  | StageFailed string int
  | NotProduced string "string list"
  | NoMetrics string string
  | NoStages
  | UnknownStages "string list"
  | CaptureCrash                       \<comment> \<open>an exception that is no \<^verbatim>\<open>CaptureError\<close>\<close>

type_synonym 'a capture = "(capture_error, workdir, 'a) act"

definition RUN_RECORD_PATH :: string where
  "RUN_RECORD_PATH = ''.passport/run.json''"

definition PARAMS_ENV :: string where
  "PARAMS_ENV = ''PASSPORT_PARAMS''"

definition STAGE_ENV :: string where
  "STAGE_ENV = ''PASSPORT_STAGE''"

definition or_crash :: "'a option \<Rightarrow> 'a capture" where
  "or_crash x = (case x of None \<Rightarrow> raise CaptureCrash | Some y \<Rightarrow> ret y)"

definition utc_now :: "capture_lib \<Rightarrow> string capture" where
  "utc_now lib = (\<lambda>s. (Inr (cl_time lib (wd_clock s)), s\<lparr> wd_clock := Suc (wd_clock s) \<rparr>))"

subsection \<open>Git and the environment\<close>

definition run_git :: "capture_lib \<Rightarrow> files \<Rightarrow> string list \<Rightarrow> string option" where
  "run_git lib fs args = map_option py_strip (cl_git lib fs args)"

definition git_commit :: "capture_lib \<Rightarrow> files \<Rightarrow> string option" where
  "git_commit lib fs = (case run_git lib fs [''rev-parse'', ''HEAD''] of
      None \<Rightarrow> None | Some s \<Rightarrow> if s = [] then None else Some s)"

definition git_is_dirty :: "capture_lib \<Rightarrow> files \<Rightarrow> string \<Rightarrow> bool option" where
  "git_is_dirty lib fs path =
     (if git_commit lib fs = None then None
      else map_option (\<lambda>status. status \<noteq> []) (run_git lib fs [''status'', ''--porcelain'', ''--'', path]))"

definition memory_bytes :: "machine \<Rightarrow> int option" where
  "memory_bytes mc = map_option (\<lambda>(size, pages). size * pages) (mc_sysconf mc)"

definition capture_environment :: "machine \<Rightarrow> environment_sec" where
  "capture_environment mc =
     (let dependencies = dict_of (concat (map (\<lambda>(name, version). case name of
            None \<Rightarrow> [] | Some n \<Rightarrow> if n = [] then [] else [(n, version)]) (mc_distributions mc)))
      in \<lparr> en_python_version = mc_python_version mc, en_os = mc_platform mc,
           en_hardware = [(''machine'', JStr (mc_machine mc)),
             (''processor'', if mc_processor mc = [] then JNull else JStr (mc_processor mc)),
             (''cpu_count'', json_int (mc_cpu_count mc)), (''memory_bytes'', json_int (memory_bytes mc))],
           en_dependencies = sort_key (\<lambda>(name, version). py_lower name) dependencies \<rparr>)"

subsection \<open>Stages\<close>

text \<open>\<^verbatim>\<open>overrides.setdefault(stage, {})[key] = yaml.safe_load(raw)\<close>.\<close>

definition set_override :: "string \<Rightarrow> string \<Rightarrow> json \<Rightarrow> json dict dict \<Rightarrow> json dict dict" where
  "set_override stage key v overrides =
     AList.update stage (AList.update key v (case map_of overrides stage of None \<Rightarrow> [] | Some d \<Rightarrow> d)) overrides"

fun parse_override_list :: "capture_lib \<Rightarrow> string list \<Rightarrow> json dict dict \<Rightarrow> capture_error + json dict dict" where
  "parse_override_list lib [] overrides = Inr overrides"
| "parse_override_list lib (item # rest) overrides =
     (let (target, raw) = py_partition (CHR ''='') item; (stage, key) = py_partition (CHR ''.'') target
      in if CHR ''='' \<notin> set item \<or> CHR ''.'' \<notin> set target \<or> stage = [] \<or> key = [] then Inl (InvalidOverride item)
         else (case cl_yaml lib raw of
             None \<Rightarrow> Inl CaptureCrash
           | Some v \<Rightarrow> parse_override_list lib rest (set_override stage key v overrides)))"

definition parse_overrides :: "capture_lib \<Rightarrow> string list \<Rightarrow> capture_error + json dict dict" where
  "parse_overrides lib assignments = parse_override_list lib assignments []"

definition stage_command :: "capture_lib \<Rightarrow> stage_config \<Rightarrow> capture_error + string list" where
  "stage_command lib stage =
     (case (case sc_cmd stage of CmdText t \<Rightarrow> cl_shlex lib t | CmdWords ws \<Rightarrow> Some ws) of
        None \<Rightarrow> Inl CaptureCrash
      | Some [] \<Rightarrow> Inl (EmptyCommand (sc_name stage))
      | Some (w # ws) \<Rightarrow> Inr ((if w \<in> {''python'', ''python3''} then cl_executable lib else w) # ws))"

definition stage_script :: "capture_lib \<Rightarrow> stage_config \<Rightarrow> capture_error + string" where
  "stage_script lib stage = (case sc_script stage of
      Some path \<Rightarrow> Inr path
    | None \<Rightarrow> result_bind (stage_command lib stage) (\<lambda>cmd.
        case List.find (\<lambda>token. endswith token ''.py'') (tl cmd) of
          Some token \<Rightarrow> Inr token
        | None \<Rightarrow> Inl (CannotInferScript (sc_name stage))))"

definition relative_path :: "capture_lib \<Rightarrow> string \<Rightarrow> string" where
  "relative_path lib path =
     (let full = cl_resolve lib path in case cl_relative lib full of Some rel \<Rightarrow> rel | None \<Rightarrow> full)"

definition artifact_of :: "capture_lib \<Rightarrow> files \<Rightarrow> string \<Rightarrow> artifact_kind \<Rightarrow> artifact_ref option" where
  "artifact_of lib fs path kind = map_option (\<lambda>n.
     \<lparr> ar_path = relative_path lib path, ar_sha256 = sha256_path (cl_crypto lib) n, ar_size_bytes = int (path_size n), ar_kind = kind \<rparr>)
     (fs (cl_resolve lib path))"

definition hash_path :: "capture_lib \<Rightarrow> string \<Rightarrow> artifact_kind \<Rightarrow> artifact_ref capture" where
  "hash_path lib path kind = bnd (gets wd_files) (\<lambda>fs. case artifact_of lib fs path kind of
     None \<Rightarrow> raise (FileNotFound path) | Some ref \<Rightarrow> ret ref)"

definition cmd_json :: "stage_cmd \<Rightarrow> json" where
  "cmd_json cmd = (case cmd of CmdText t \<Rightarrow> JStr t | CmdWords ws \<Rightarrow> JArr (map JStr ws))"

definition optional_str :: "string option \<Rightarrow> json" where
  "optional_str x = (case x of None \<Rightarrow> JNull | Some s \<Rightarrow> JStr s)"

text \<open>\<^verbatim>\<open>s.model_dump(mode="json")\<close>.\<close>

definition stage_json :: "stage_config \<Rightarrow> json" where
  "stage_json s = JObj [(''name'', JStr (sc_name s)), (''cmd'', cmd_json (sc_cmd s)), (''script'', optional_str (sc_script s)),
     (''params'', JObj (sc_params s)), (''deps'', JArr (map JStr (sc_deps s))), (''outs'', JArr (map JStr (sc_outs s))),
     (''metrics'', optional_str (sc_metrics s))]"

definition stages_fingerprint :: "crypto \<Rightarrow> stage_config list \<Rightarrow> string option" where
  "stages_fingerprint c stages = map_option (sha256_bytes c) (canonical_json (JArr (map stage_json stages)))"

text \<open>\<^verbatim>\<open>subprocess.run\<close>: the command may change any file before it exits.\<close>

definition start_process :: "capture_lib \<Rightarrow> string \<Rightarrow> string list \<Rightarrow> string dict \<Rightarrow> int capture" where
  "start_process lib name command env = (\<lambda>s. case cl_run lib command env (wd_files s) of
      None \<Rightarrow> (Inl (CannotStart name), s)
    | Some (code, fs) \<Rightarrow> (Inr code, s\<lparr> wd_files := fs \<rparr>))"

definition run_stage :: "capture_lib \<Rightarrow> stage_config \<Rightarrow> json dict \<Rightarrow> string option \<Rightarrow> pipeline_stage capture" where
  "run_stage lib stage params commit =
     bnd (of_result (stage_script lib stage)) (\<lambda>script.
     bnd (hash_path lib script SCRIPT) (\<lambda>script_ref.
     bnd (map_act (\<lambda>dep. hash_path lib dep OTHER) (sc_deps stage)) (\<lambda>inputs.
     bnd (of_result (stage_command lib stage)) (\<lambda>command.
     bnd (utc_now lib) (\<lambda>started.
     bnd (start_process lib (sc_name stage) command
       [(PARAMS_ENV, cl_dumps lib (JObj params)), (STAGE_ENV, sc_name stage)]) (\<lambda>code.
     bnd (utc_now lib) (\<lambda>ended.
     andthen (raise_if (code \<noteq> 0) (StageFailed (sc_name stage) code))
     (bnd (gets wd_files) (\<lambda>fs.
     let missing = filter (\<lambda>out. fs (cl_resolve lib out) = None) (sc_outs stage) in
     andthen (raise_if (missing \<noteq> []) (NotProduced (sc_name stage) missing))
     (bnd (map_act (\<lambda>out. hash_path lib out OTHER) (sc_outs stage)) (\<lambda>outputs.
     ret \<lparr> ps_name = sc_name stage, ps_command = path_name (hd command) # tl command,
       ps_script_path = ar_path script_ref, ps_script_sha256 = ar_sha256 script_ref, ps_git_commit = commit,
       ps_git_dirty = git_is_dirty lib fs script, ps_parameters = params, ps_inputs = inputs, ps_outputs = outputs,
       ps_started_at = Some started, ps_ended_at = Some ended, ps_exit_code = Some code \<rparr>)))))))))))"

text \<open>\<^verbatim>\<open>read_metrics\<close>; anything but an object of objects of numbers raises.\<close>

fun read_values :: "capture_lib \<Rightarrow> json dict \<Rightarrow> rat dict option" where
  "read_values lib [] = Some []"
| "read_values lib ((k, v) # kvs) = Option.bind (cl_float lib v) (\<lambda>x. map_option (Cons (k, x)) (read_values lib kvs))"

fun read_splits :: "capture_lib \<Rightarrow> json dict \<Rightarrow> rat dict dict option" where
  "read_splits lib [] = Some []"
| "read_splits lib ((split, j) # kvs) = (case j of
      JObj members \<Rightarrow> Option.bind (read_values lib members) (\<lambda>d. map_option (Cons (split, d)) (read_splits lib kvs))
    | _ \<Rightarrow> None)"

definition read_metrics :: "capture_lib \<Rightarrow> bytes \<Rightarrow> rat dict dict option" where
  "read_metrics lib contents = (case cl_loads lib contents of Some (JObj splits) \<Rightarrow> read_splits lib splits | _ \<Rightarrow> None)"

definition dict_update :: "'v dict \<Rightarrow> 'v dict \<Rightarrow> 'v dict" where
  "dict_update d e = fold (\<lambda>(k, v) d. AList.update k v d) e d"

definition update_metrics :: "rat dict dict \<Rightarrow> rat dict dict \<Rightarrow> rat dict dict" where
  "update_metrics metrics added = fold (\<lambda>(split, values) m.
     AList.update split (dict_update (case map_of m split of None \<Rightarrow> [] | Some d \<Rightarrow> d) values) m) added metrics"

definition stage_params :: "json dict dict \<Rightarrow> stage_config \<Rightarrow> json dict" where
  "stage_params overrides stage =
     dict_update (sc_params stage) (case map_of overrides (sc_name stage) of None \<Rightarrow> [] | Some d \<Rightarrow> d)"

definition stage_metrics :: "capture_lib \<Rightarrow> stage_config \<Rightarrow> rat dict dict capture" where
  "stage_metrics lib stage = (case sc_metrics stage of
      None \<Rightarrow> ret []
    | Some path \<Rightarrow> bnd (gets wd_files) (\<lambda>fs. case fs (cl_resolve lib path) of
        Some (File contents) \<Rightarrow> or_crash (read_metrics lib contents)
      | _ \<Rightarrow> raise (NoMetrics (sc_name stage) path)))"

type_synonym stage_hook = "stage_config \<Rightarrow> pipeline_stage \<Rightarrow> rat dict dict \<Rightarrow> unit capture"

fun run_stages :: "capture_lib \<Rightarrow> json dict dict \<Rightarrow> string option \<Rightarrow> stage_hook \<Rightarrow> stage_config list \<Rightarrow> rat dict dict
    \<Rightarrow> (pipeline_stage list \<times> rat dict dict) capture" where
  "run_stages lib overrides commit on_stage [] metrics = ret ([], metrics)"
| "run_stages lib overrides commit on_stage (stage # rest) metrics =
     bnd (run_stage lib stage (stage_params overrides stage) commit) (\<lambda>recorded.
     bnd (stage_metrics lib stage) (\<lambda>added.
     andthen (on_stage stage recorded added)
     (bnd (run_stages lib overrides commit on_stage rest (update_metrics metrics added)) (\<lambda>(stages, m).
     ret (recorded # stages, m)))))"

definition run_pipeline :: "capture_lib \<Rightarrow> project_config \<Rightarrow> json dict dict \<Rightarrow> stage_hook \<Rightarrow> run_record capture" where
  "run_pipeline lib config overrides on_stage =
     andthen (raise_if (cf_stages config = []) NoStages)
     (let unknown = sorted_set (filter (\<lambda>s. s \<notin> sc_name ` set (cf_stages config)) (map fst overrides)) in
     andthen (raise_if (unknown \<noteq> []) (UnknownStages unknown))
     (bnd (utc_now lib) (\<lambda>started.
     bnd (gets (\<lambda>s. git_commit lib (wd_files s))) (\<lambda>commit.
     bnd (run_stages lib overrides commit on_stage (cf_stages config) []) (\<lambda>(stages, metrics).
     bnd (utc_now lib) (\<lambda>ended.
     bnd (or_crash (stages_fingerprint (cl_crypto lib) (cf_stages config))) (\<lambda>fingerprint.
     bnd (gets wd_clock) (\<lambda>n.
     ret \<lparr> rn_run_id = cl_run_id lib n, rn_started_at = started, rn_ended_at = ended, rn_stages_sha256 = fingerprint,
       rn_overrides = overrides, rn_stages = stages, rn_environment = capture_environment (cl_machine lib),
       rn_metrics = metrics, rn_mlflow_run_id = None \<rparr>))))))))"

definition save_run_record :: "capture_lib \<Rightarrow> run_record \<Rightarrow> unit capture" where
  "save_run_record lib record =
     modify (\<lambda>s. s\<lparr> wd_files := (wd_files s)(cl_resolve lib RUN_RECORD_PATH \<mapsto> File (cl_write_record lib record)) \<rparr>)"

text \<open>\<open>None\<close>: a record that cannot be read raises.\<close>

definition load_run_record :: "capture_lib \<Rightarrow> files \<Rightarrow> run_record option option" where
  "load_run_record lib fs = (case fs (cl_resolve lib RUN_RECORD_PATH) of
      Some (File contents) \<Rightarrow> map_option Some (cl_read_record lib contents)
    | _ \<Rightarrow> Some None)"

section \<open>What a run records\<close>

text \<open>
  The abstract run: a chain of file states, each the work of one stage's command, which exited with 0. The record of
  a stage has the script and the inputs as they were before its command and the outputs as they were after it.
\<close>

definition stage_ran :: "capture_lib \<Rightarrow> stage_config \<Rightarrow> json dict \<Rightarrow> files \<Rightarrow> pipeline_stage \<Rightarrow> files \<Rightarrow> bool" where
  "stage_ran lib stage params fs r fs1 \<longleftrightarrow>
     ps_name r = sc_name stage \<and> ps_parameters r = params \<and> ps_exit_code r = Some 0
     \<and> (\<exists>script ref command. stage_script lib stage = Inr script \<and> artifact_of lib fs script SCRIPT = Some ref
         \<and> ps_script_path r = ar_path ref \<and> ps_script_sha256 r = ar_sha256 ref
         \<and> stage_command lib stage = Inr command
         \<and> cl_run lib command [(PARAMS_ENV, cl_dumps lib (JObj params)), (STAGE_ENV, sc_name stage)] fs = Some (0, fs1))
     \<and> list_all2 (\<lambda>dep ref. artifact_of lib fs dep OTHER = Some ref) (sc_deps stage) (ps_inputs r)
     \<and> list_all2 (\<lambda>out ref. artifact_of lib fs1 out OTHER = Some ref) (sc_outs stage) (ps_outputs r)"

inductive pipeline_ran :: "capture_lib \<Rightarrow> json dict dict \<Rightarrow> files \<Rightarrow> stage_config list \<Rightarrow> pipeline_stage list \<Rightarrow> files \<Rightarrow> bool"
  for lib overrides where
  no_stage: "pipeline_ran lib overrides fs [] [] fs"
| one_stage: "stage_ran lib stage (stage_params overrides stage) fs r fs1 \<Longrightarrow> pipeline_ran lib overrides fs1 rest rs fs2
    \<Longrightarrow> pipeline_ran lib overrides fs (stage # rest) (r # rs) fs2"

inductive_simps pipeline_ran_simps [simp]:
  "pipeline_ran lib overrides fs [] rs fs2"
  "pipeline_ran lib overrides fs (stage # rest) rs fs2"

lemma hash_path_Inr: "hash_path lib path kind s = (Inr ref, s') \<longleftrightarrow> s' = s \<and> artifact_of lib (wd_files s) path kind = Some ref"
  by (auto simp: hash_path_def act_Inr split: option.splits)

lemma map_hash_Inr:
  "map_act (\<lambda>path. hash_path lib path kind) paths s = (Inr refs, s') \<longleftrightarrow>
     s' = s \<and> list_all2 (\<lambda>path ref. artifact_of lib (wd_files s) path kind = Some ref) paths refs"
  by (induction paths arbitrary: refs) (auto simp: act_Inr hash_path_Inr list_all2_Cons1)

lemma or_crash_Inr: "or_crash x s = (Inr y, s') \<longleftrightarrow> x = Some y \<and> s' = s"
  by (auto simp: or_crash_def act_Inr split: option.splits)

lemma utc_now_Inr: "utc_now lib s = (Inr t, s') \<longleftrightarrow> t = cl_time lib (wd_clock s) \<and> s' = s\<lparr> wd_clock := Suc (wd_clock s) \<rparr>"
  by (auto simp: utc_now_def)

lemma start_process_Inr:
  "start_process lib name command env s = (Inr code, s') \<longleftrightarrow>
     (\<exists>fs. cl_run lib command env (wd_files s) = Some (code, fs) \<and> s' = s\<lparr> wd_files := fs \<rparr>)"
  by (auto simp: start_process_def split: option.splits)

lemmas capture_Inr = act_Inr hash_path_Inr map_hash_Inr of_result_Inr_iff or_crash_Inr utc_now_Inr start_process_Inr

lemma run_stage_ran:
  assumes "run_stage lib stage params commit s = (Inr r, s')"
  shows "stage_ran lib stage params (wd_files s) r (wd_files s')"
  using assms unfolding run_stage_def Let_def stage_ran_def capture_Inr by auto

lemma stage_metrics_files: "stage_metrics lib stage s = (Inr m, s') \<Longrightarrow> s' = s"
  by (auto simp: stage_metrics_def capture_Inr split: option.splits node.splits)

lemma run_stages_ran:
  assumes quiet: "\<And>stage r m s. wd_files (snd (on_stage stage r m s)) = wd_files s"
  shows "run_stages lib overrides commit on_stage stages metrics s = (Inr (rs, m), s')
    \<Longrightarrow> pipeline_ran lib overrides (wd_files s) stages rs (wd_files s')"
proof (induction stages arbitrary: metrics s rs m)
  case Nil
  then show ?case by (simp add: act_Inr)
next
  case (Cons stage rest)
  from Cons.prems obtain r s1 added s2 s3 rs' where
      run: "run_stage lib stage (stage_params overrides stage) commit s = (Inr r, s1)" "stage_metrics lib stage s1 = (Inr added, s2)"
      and hook: "on_stage stage r added s2 = (Inr (), s3)"
      and rest: "run_stages lib overrides commit on_stage rest (update_metrics metrics added) s3 = (Inr (rs', m), s')" "rs = r # rs'"
    by (auto simp: act_Inr)
  have "wd_files s3 = wd_files s1"
    using hook quiet [of stage r added s2] stage_metrics_files [OF run(2)] by simp
  with run_stage_ran [OF run(1)] Cons.IH [OF rest(1)] rest(2) show ?case by auto
qed


end
