(* ===== verification/MP_Build.thy ===== *)
theory MP_Build
  imports MP_Capture MP_Policy MP_Revision
begin

text \<open>
  Building a passport (\<^verbatim>\<open>core/builder.py\<close>): the manifest of hashed artifacts, the run record, the checks of
  \<^verbatim>\<open>core/assess.py\<close>, the policy, the signature. A build reads the project's files and changes none, so they are an
  argument; the manifest is the state of the part that collects artifacts. \<open>build_lib\<close> stands for the parsers
  (\<^verbatim>\<open>yaml\<close>, \<^verbatim>\<open>json\<close>, pydantic, PEM keys) and \<^verbatim>\<open>model_dump\<close>; a passport's id and its time of creation are arguments.
\<close>

record build_lib =
  bl_capture :: capture_lib
  bl_assess :: assess_lib
  bl_read_policy :: "bytes \<Rightarrow> policy option"
  bl_read_key :: "bytes \<Rightarrow> bytes option"
  bl_read_audit :: "bytes \<Rightarrow> entity_audit_result option"
  bl_model_info :: "json dict \<Rightarrow> string \<Rightarrow> string \<Rightarrow> model_info option"
  bl_dump :: "passport \<Rightarrow> json dict"

abbreviation bl_crypto :: "build_lib \<Rightarrow> crypto" where
  "bl_crypto lib \<equiv> cl_crypto (bl_capture lib)"

datatype build_error =
    ArtifactNotFound artifact_kind string
  | NoRunRecord
  | StagesChanged
  | ChangedSinceRun string string
  | PolicyInvalid policy_exn
  | KeyNotFound string
  | ChecksFailed
  | EntityAuditUnreadable string
  | BuildCrash                         \<comment> \<open>an exception that is no \<^verbatim>\<open>BuildError\<close>\<close>

type_synonym manifest = "artifact_ref dict"
type_synonym 'a building = "(build_error, manifest, 'a) act"

definition SCHEMA_VERSION :: string where
  "SCHEMA_VERSION = ''0.1''"

definition read_file :: "build_lib \<Rightarrow> files \<Rightarrow> string \<Rightarrow> bytes option" where
  "read_file lib fs path = (case fs (cl_resolve (bl_capture lib) path) of Some (File contents) \<Rightarrow> Some contents | _ \<Rightarrow> None)"

section \<open>The manifest\<close>

definition hash_artifact :: "build_lib \<Rightarrow> files \<Rightarrow> string \<Rightarrow> artifact_kind \<Rightarrow> build_error + artifact_ref" where
  "hash_artifact lib fs path kind = (case artifact_of (bl_capture lib) fs path kind of
      None \<Rightarrow> Inl (ArtifactNotFound kind path) | Some ref \<Rightarrow> Inr ref)"

text \<open>\<^verbatim>\<open>self.items.setdefault(ref.path, ref)\<close>: the first declared kind wins.\<close>

definition manifest_add :: "build_lib \<Rightarrow> files \<Rightarrow> string \<Rightarrow> artifact_kind \<Rightarrow> artifact_ref building" where
  "manifest_add lib fs path kind =
     bnd (of_result (hash_artifact lib fs path kind)) (\<lambda>ref.
     bnd (gets (\<lambda>m. map_of m (ar_path ref))) (\<lambda>found. case found of
       Some old \<Rightarrow> ret old
     | None \<Rightarrow> andthen (modify (\<lambda>m. m @ [(ar_path ref, ref)])) (ret ref)))"

definition manifest_sorted :: "manifest \<Rightarrow> artifact_ref list" where
  "manifest_sorted m = sort_key ar_path (map snd m)"

section \<open>The run\<close>

definition load_current_run :: "build_lib \<Rightarrow> files \<Rightarrow> project_config \<Rightarrow> build_error + run_record option" where
  "load_current_run lib fs config =
     (if cf_stages config = [] then Inr None
      else (case load_run_record (bl_capture lib) fs of
          None \<Rightarrow> Inl BuildCrash
        | Some None \<Rightarrow> Inl NoRunRecord
        | Some (Some run) \<Rightarrow> (case stages_fingerprint (bl_crypto lib) (cf_stages config) of
            None \<Rightarrow> Inl BuildCrash
          | Some fingerprint \<Rightarrow> if rn_stages_sha256 run \<noteq> fingerprint then Inl StagesChanged else Inr (Some run))))"

definition recorded_files :: "pipeline_stage \<Rightarrow> (string \<times> string \<times> artifact_kind) list" where
  "recorded_files stage = (ps_script_path stage, ps_script_sha256 stage, SCRIPT)
     # map (\<lambda>r. (ar_path r, ar_sha256 r, ar_kind r)) (ps_inputs stage @ ps_outputs stage)"

definition add_recorded :: "build_lib \<Rightarrow> files \<Rightarrow> string \<Rightarrow> string \<times> string \<times> artifact_kind \<Rightarrow> unit building" where
  "add_recorded lib fs stage_name file = (case file of (path, sha256, kind) \<Rightarrow>
     bnd (manifest_add lib fs path kind) (\<lambda>ref. raise_if (ar_sha256 ref \<noteq> sha256) (ChangedSinceRun path stage_name)))"

definition add_run_artifacts :: "build_lib \<Rightarrow> files \<Rightarrow> run_record \<Rightarrow> unit building" where
  "add_run_artifacts lib fs run =
     for_each (\<lambda>stage. for_each (add_recorded lib fs (ps_name stage)) (recorded_files stage)) (rn_stages run)"

definition run_info_of :: "run_record option \<Rightarrow> run_info option" where
  "run_info_of run = map_option (\<lambda>r. \<lparr> ri_run_id = rn_run_id r, ri_started_at = rn_started_at r, ri_ended_at = rn_ended_at r,
     ri_overrides = rn_overrides r, ri_mlflow_run_id = rn_mlflow_run_id r \<rparr>) run"

definition merge_metrics :: "run_record option \<Rightarrow> project_config \<Rightarrow> rat dict dict" where
  "merge_metrics run config =
     update_metrics (case run of None \<Rightarrow> [] | Some r \<Rightarrow> rn_metrics r) (bi_metrics (cf_build config))"

section \<open>Inputs\<close>

definition path_stem :: "string \<Rightarrow> string" where
  "path_stem path = (let name = path_name path in take (length name - length (path_suffix path)) name)"

definition collect_dataset :: "build_lib \<Rightarrow> files \<Rightarrow> dataset_input \<Rightarrow> (string \<times> dataset_info) building" where
  "collect_dataset lib fs ds =
     bnd (manifest_add lib fs (dn_path ds) DATASET) (\<lambda>ref.
     ret (ar_path ref, \<lparr> di_name = (case dn_name ds of Some n \<Rightarrow> if n = [] then path_stem (dn_path ds) else n
                                     | None \<Rightarrow> path_stem (dn_path ds)),
       di_source = dn_source ds, di_license = dn_license ds, di_row_count = None, di_column_schema = None,
       di_sha256 = ar_sha256 ref, di_split_role = dn_split_role ds \<rparr>))"

definition load_project_policy :: "build_lib \<Rightarrow> files \<Rightarrow> project_config \<Rightarrow> (policy \<times> string) option building" where
  "load_project_policy lib fs config = (case cf_policy config of
      None \<Rightarrow> ret None
    | Some path \<Rightarrow> bnd (manifest_add lib fs path CONFIG) (\<lambda>ref.
        let contents = read_file lib fs (ar_path ref)
        in case load_policy (bl_crypto lib) (Option.bind contents (bl_read_policy lib)) (case contents of None \<Rightarrow> [] | Some b \<Rightarrow> b) of
             Inl e \<Rightarrow> raise (PolicyInvalid e)
           | Inr loaded \<Rightarrow> ret (Some loaded)))"

text \<open>\<^verbatim>\<open>model.model_dump(exclude={"path", "metadata"}, exclude_defaults=True)\<close>.\<close>

definition declared_fields :: "model_input \<Rightarrow> json dict" where
  "declared_fields m =
     (let str = (\<lambda>k v. case v of None \<Rightarrow> [] | Some s \<Rightarrow> [(k, JStr s)]); obj = (\<lambda>k v. case v of None \<Rightarrow> [] | Some d \<Rightarrow> [(k, JObj d)])
      in str ''framework'' (mn_framework m) @ str ''algorithm'' (mn_algorithm m) @ str ''task_type'' (mn_task_type m)
         @ (if mn_hyperparameters m = [] then [] else [(''hyperparameters'', JObj (mn_hyperparameters m))])
         @ obj ''input_schema'' (mn_input_schema m) @ obj ''output_schema'' (mn_output_schema m))"

definition model_fields :: "build_lib \<Rightarrow> files \<Rightarrow> project_config \<Rightarrow> json dict building" where
  "model_fields lib fs config =
     (let model = bi_model (cf_build config); known = declared_fields model
      in case mn_metadata model of
           None \<Rightarrow> ret known
         | Some path \<Rightarrow> andthen (manifest_add lib fs path OTHER)
             (case Option.bind (read_file lib fs path) (cl_loads (bl_capture lib)) of
                Some (JObj metadata) \<Rightarrow> ret (dict_update (dict_of metadata) known)
              | _ \<Rightarrow> raise BuildCrash))"

definition load_signing_key :: "build_lib \<Rightarrow> files \<Rightarrow> project_config \<Rightarrow> build_error + bytes" where
  "load_signing_key lib fs config =
     (let path = sg_private_key (cf_signing config)
      in case read_file lib fs path of
           None \<Rightarrow> Inl (KeyNotFound path)
         | Some contents \<Rightarrow> (case bl_read_key lib contents of None \<Rightarrow> Inl BuildCrash | Some sk \<Rightarrow> Inr sk))"

definition load_entity_audit :: "build_lib \<Rightarrow> files \<Rightarrow> project_config \<Rightarrow> build_error + entity_audit_result option" where
  "load_entity_audit lib fs config = (case pc_entity_audit (cf_privacy config) of
      None \<Rightarrow> Inr None
    | Some path \<Rightarrow> (case Option.bind (read_file lib fs path) (bl_read_audit lib) of
        None \<Rightarrow> Inl (EntityAuditUnreadable path)
      | Some audit \<Rightarrow> Inr (Some audit)))"

section \<open>The checks\<close>

text \<open>
  \<^verbatim>\<open>model_fields.get("input_schema")\<close>; with anything but an object there the build raises, in \<^verbatim>\<open>string_columns\<close> or in
  the validation of \<^verbatim>\<open>ModelInfo\<close>.
\<close>

definition schema_of :: "json dict \<Rightarrow> json dict option option" where
  "schema_of declared = (case map_of declared ''input_schema'' of
      None \<Rightarrow> Some None
    | Some (JObj d) \<Rightarrow> Some (Some d)
    | Some j \<Rightarrow> if json_falsy j then Some None else None)"

definition or_build_crash :: "'a option \<Rightarrow> build_error + 'a" where
  "or_build_crash x = (case x of None \<Rightarrow> Inl BuildCrash | Some y \<Rightarrow> Inr y)"

definition run_checks :: "build_lib \<Rightarrow> files \<Rightarrow> project_config \<Rightarrow> artifact_ref \<Rightarrow> artifact_ref list \<Rightarrow> (string \<times> dataset_info) list
    \<Rightarrow> environment_sec \<Rightarrow> json dict \<Rightarrow> build_error + (string \<times> dataset_info) list \<times> privacy_report \<times> security_report" where
  "run_checks lib fs config model_ref artifacts datasets env declared =
     (let xl = bl_assess lib; node_at = (\<lambda>path. the (fs (cl_resolve (bl_capture lib) path)));
          failed = (\<lambda>e. case e of AssessmentError \<Rightarrow> ChecksFailed | AssessmentCrash \<Rightarrow> BuildCrash)
      in case assess_privacy xl (cf_privacy config) datasets of
           Inl e \<Rightarrow> Inl (failed e)
         | Inr (datasets', privacy) \<Rightarrow> result_bind (or_build_crash (schema_of declared)) (\<lambda>schema.
             case assess_models xl node_at (cf_audit config) (ar_path model_ref) artifacts datasets' (Some env) empty_security schema of
                Inl e \<Rightarrow> Inl (failed e)
              | Inr (leakage, security) \<Rightarrow> Inr (datasets', privacy\<lparr> pr_leakage := leakage \<rparr>,
                  if pc_scan_secrets (cf_privacy config)
                  then (case scan_secrets xl artifacts of (files, findings) \<Rightarrow>
                    security\<lparr> sr_files_scanned_for_secrets := Some (int files), sr_secret_findings := findings \<rparr>)
                  else security)))"

section \<open>The build\<close>

type_synonym collected = "artifact_ref \<times> (string \<times> dataset_info) list \<times> (policy \<times> string) option \<times> json dict"

definition collect_inputs :: "build_lib \<Rightarrow> files \<Rightarrow> string \<Rightarrow> project_config \<Rightarrow> run_record option \<Rightarrow> collected building" where
  "collect_inputs lib fs config_path config run =
     andthen (manifest_add lib fs config_path CONFIG)
     (andthen (case pc_entity_audit (cf_privacy config) of
         None \<Rightarrow> ret () | Some path \<Rightarrow> andthen (manifest_add lib fs path OTHER) (ret ()))
     (bnd (manifest_add lib fs (mn_path (bi_model (cf_build config))) MODEL) (\<lambda>model_ref.
     bnd (map_act (collect_dataset lib fs) (bi_datasets (cf_build config))) (\<lambda>datasets.
     andthen (for_each (\<lambda>extra. andthen (manifest_add lib fs (an_path extra) (an_kind extra)) (ret ())) (bi_artifacts (cf_build config)))
     (andthen (case run of None \<Rightarrow> ret () | Some r \<Rightarrow> add_run_artifacts lib fs r)
     (bnd (load_project_policy lib fs config) (\<lambda>policy.
     bnd (model_fields lib fs config) (\<lambda>declared.
     ret (model_ref, datasets, policy, declared)))))))))"

text \<open>\<^verbatim>\<open>sign_passport\<close> on the model: a copy with the signature over the dumped passport.\<close>

definition sign_model :: "build_lib \<Rightarrow> passport \<Rightarrow> bytes \<Rightarrow> build_error + passport" where
  "sign_model lib p sk = (case signing_payload (bl_dump lib p) of
      None \<Rightarrow> Inl BuildCrash
    | Some payload \<Rightarrow> Inr (p\<lparr> pp_identity := (pp_identity p)\<lparr> id_signature := Some (sign (bl_crypto lib) sk payload) \<rparr> \<rparr>))"

definition apply_policy :: "(policy \<times> string) option \<Rightarrow> passport \<Rightarrow> build_error + passport" where
  "apply_policy policy p = (case policy of
      None \<Rightarrow> Inr p
    | Some (pol, sha256) \<Rightarrow> (case evaluate pol sha256 (evidence_of p) of
        Inl e \<Rightarrow> Inl BuildCrash
      | Inr result \<Rightarrow> Inr (p\<lparr> pp_policy := Some result \<rparr>)))"

definition assemble :: "build_lib \<Rightarrow> files \<Rightarrow> project_config \<Rightarrow> run_record option \<Rightarrow> artifact_ref list \<Rightarrow> collected \<Rightarrow> bytes
    \<Rightarrow> string \<Rightarrow> string \<Rightarrow> build_error + passport" where
  "assemble lib fs config run artifacts inputs sk passport_id created_at =
     (case inputs of (model_ref, datasets, policy, declared) \<Rightarrow>
     let env = (case run of Some r \<Rightarrow> rn_environment r | None \<Rightarrow> capture_environment (cl_machine (bl_capture lib))) in
     result_bind (run_checks lib fs config model_ref artifacts datasets env declared) (\<lambda>(datasets', privacy, security).
     result_bind (load_entity_audit lib fs config) (\<lambda>audit.
     result_bind (or_build_crash (merkle_root (bl_crypto lib) (map ar_sha256 artifacts))) (\<lambda>mroot.
     result_bind (or_build_crash (bl_model_info lib declared (ar_path model_ref) (ar_sha256 model_ref))) (\<lambda>model. Inr
       \<lparr> pp_schema_version = SCHEMA_VERSION,
         pp_identity = \<lparr> id_passport_id = passport_id, id_model_name = pj_name (cf_project config),
           id_version = pj_version (cf_project config), id_created_at = created_at, id_merkle_root = mroot,
           id_public_key_fingerprint = public_key_fingerprint (bl_crypto lib) (c_public (bl_crypto lib) sk), id_signature = None \<rparr>,
         pp_artifacts = artifacts, pp_model = Some model, pp_datasets = map snd datasets',
         pp_pipeline = (case run of None \<Rightarrow> [] | Some r \<Rightarrow> rn_stages r), pp_run = run_info_of run, pp_environment = Some env,
         pp_metrics = merge_metrics run config, pp_privacy_report = Some (privacy\<lparr> pr_entity_audit := audit \<rparr>),
         pp_security_report = Some security, pp_policy = None, pp_declared = cf_declared config,
         pp_lineage_links = bi_lineage_links (cf_build config), pp_revision = None, pp_events = [] \<rparr>)))))"

definition build_passport :: "build_lib \<Rightarrow> files \<Rightarrow> string \<Rightarrow> project_config \<Rightarrow> passport option \<Rightarrow> string option
    \<Rightarrow> string \<Rightarrow> string \<Rightarrow> build_error + passport" where
  "build_passport lib fs config_path config previous reason passport_id created_at =
     result_bind (load_current_run lib fs config) (\<lambda>run.
     case collect_inputs lib fs config_path config run [] of
       (Inl e, m) \<Rightarrow> Inl e
     | (Inr inputs, m) \<Rightarrow>
         result_bind (load_signing_key lib fs config) (\<lambda>sk.
         result_bind (assemble lib fs config run (manifest_sorted m) inputs sk passport_id created_at) (\<lambda>p.
         result_bind (apply_policy (fst (snd (snd inputs)))
             (case previous of None \<Rightarrow> p | Some q \<Rightarrow> p\<lparr> pp_revision := Some (compute_revision q p reason) \<rparr>)) (\<lambda>p.
         sign_model lib p sk))))"

end
