(* ===== verification/MP_BuildProps.thy ===== *)
theory MP_BuildProps
  imports MP_Build
begin

text \<open>
  What a build guarantees: its manifest lists exactly the declared files, with their digests; what the run recorded is
  still there; the passport verifies against the files it was built from, and against no others; the verdict can
  be recomputed.
\<close>

section \<open>Results of a build step\<close>

lemma result_bind_Inr: "result_bind m f = Inr y \<longleftrightarrow> (\<exists>x. m = Inr x \<and> f x = Inr y)"
  by (auto simp: result_bind_def split: sum.splits)

lemma or_build_crash_Inr: "or_build_crash x = Inr y \<longleftrightarrow> x = Some y"
  by (auto simp: or_build_crash_def split: option.splits)

lemma hash_artifact_Inr: "hash_artifact lib fs path kind = Inr ref \<longleftrightarrow> artifact_of (bl_capture lib) fs path kind = Some ref"
  by (auto simp: hash_artifact_def split: option.splits)

section \<open>The manifest as a fold over the declared files\<close>

definition add_file :: "build_lib \<Rightarrow> files \<Rightarrow> string \<times> artifact_kind \<Rightarrow> manifest \<Rightarrow> manifest" where
  "add_file lib fs entry m = (case artifact_of (bl_capture lib) fs (fst entry) (snd entry) of
      None \<Rightarrow> m
    | Some ref \<Rightarrow> if map_of m (ar_path ref) = None then m @ [(ar_path ref, ref)] else m)"

definition found :: "build_lib \<Rightarrow> files \<Rightarrow> string \<times> artifact_kind \<Rightarrow> bool" where
  "found lib fs entry \<longleftrightarrow> artifact_of (bl_capture lib) fs (fst entry) (snd entry) \<noteq> None"

text \<open>\<open>adds files m\<close>: when \<open>m\<close> succeeds, all of \<open>files\<close> exist and it has added them, in that order, and nothing else.\<close>

definition adds :: "build_lib \<Rightarrow> files \<Rightarrow> (string \<times> artifact_kind) list \<Rightarrow> 'a building \<Rightarrow> bool" where
  "adds lib fs files m \<longleftrightarrow> (\<forall>s x s'. m s = (Inr x, s') \<longrightarrow> s' = fold (add_file lib fs) files s \<and> list_all (found lib fs) files)"

lemma adds_ret: "adds lib fs [] (ret x)" and adds_raise: "adds lib fs files (raise e)"
  and adds_raise_if: "adds lib fs [] (raise_if b e)"
  by (auto simp: adds_def act_Inr)

lemma adds_bnd: "adds lib fs ps m \<Longrightarrow> (\<And>x. adds lib fs qs (f x)) \<Longrightarrow> adds lib fs (ps @ qs) (bnd m f)"
  by (fastforce simp: adds_def act_Inr)

lemma adds_andthen: "adds lib fs ps m \<Longrightarrow> adds lib fs qs k \<Longrightarrow> adds lib fs (ps @ qs) (andthen m k)"
  by (simp add: andthen_def adds_bnd)

lemma adds_bnd_ret: "adds lib fs ps m \<Longrightarrow> (\<And>x. adds lib fs [] (f x)) \<Longrightarrow> adds lib fs ps (bnd m f)"
  using adds_bnd [of lib fs ps m "[]" f] by simp

lemma adds_for_each: "(\<And>x. adds lib fs (g x) (f x)) \<Longrightarrow> adds lib fs (concat (map g xs)) (for_each f xs)"
  by (induction xs) (auto intro: adds_ret adds_andthen)

lemma adds_map_act: "(\<And>x. adds lib fs (g x) (f x)) \<Longrightarrow> adds lib fs (concat (map g xs)) (map_act f xs)"
proof (induction xs)
  case (Cons x xs)
  show ?case
    unfolding map_act.simps list.map concat.simps
    by (rule adds_bnd [OF Cons.prems adds_bnd_ret [OF Cons.IH [OF Cons.prems] adds_ret]])
qed (simp add: adds_ret)

lemma manifest_add_Inr:
  assumes "manifest_add lib fs path kind s = (Inr ref, s')"
  shows "s' = add_file lib fs (path, kind) s \<and> map_of s' (relative_path (bl_capture lib) path) = Some ref \<and> found lib fs (path, kind)"
proof -
  obtain new where new: "artifact_of (bl_capture lib) fs path kind = Some new" "ar_path new = relative_path (bl_capture lib) path"
    using assms by (auto simp: manifest_add_def act_Inr of_result_Inr_iff hash_artifact_Inr artifact_of_def)
  with assms show ?thesis
    by (auto simp: manifest_add_def act_Inr of_result_Inr_iff hash_artifact_Inr add_file_def found_def map_add_def split: option.splits)
qed

lemma adds_manifest_add: "adds lib fs [(path, kind)] (manifest_add lib fs path kind)"
  unfolding adds_def by (auto dest!: manifest_add_Inr)

lemma adds_then_ret: "adds lib fs ps m \<Longrightarrow> adds lib fs ps (andthen m (ret x))"
  using adds_andthen [OF _ adds_ret, of lib fs ps m x] by simp

subsection \<open>The declared files\<close>

definition stage_files :: "pipeline_stage \<Rightarrow> (string \<times> artifact_kind) list" where
  "stage_files stage = map (\<lambda>r. (fst r, snd (snd r))) (recorded_files stage)"

definition declared_files :: "string \<Rightarrow> project_config \<Rightarrow> run_record option \<Rightarrow> (string \<times> artifact_kind) list" where
  "declared_files config_path config run =
     [(config_path, CONFIG)]
     @ (case pc_entity_audit (cf_privacy config) of None \<Rightarrow> [] | Some path \<Rightarrow> [(path, OTHER)])
     @ [(mn_path (bi_model (cf_build config)), MODEL)]
     @ map (\<lambda>ds. (dn_path ds, DATASET)) (bi_datasets (cf_build config))
     @ map (\<lambda>extra. (an_path extra, an_kind extra)) (bi_artifacts (cf_build config))
     @ (case run of None \<Rightarrow> [] | Some r \<Rightarrow> concat (map stage_files (rn_stages r)))
     @ (case cf_policy config of None \<Rightarrow> [] | Some path \<Rightarrow> [(path, CONFIG)])
     @ (case mn_metadata (bi_model (cf_build config)) of None \<Rightarrow> [] | Some path \<Rightarrow> [(path, OTHER)])"

lemma adds_recorded: "adds lib fs (stage_files stage) (for_each (add_recorded lib fs (ps_name stage)) (recorded_files stage))"
proof -
  have "adds lib fs [(fst entry, snd (snd entry))] (add_recorded lib fs name entry)" for entry name
    by (auto simp: add_recorded_def split_beta intro!: adds_bnd_ret adds_manifest_add adds_raise_if)
  then have "adds lib fs (concat (map (\<lambda>entry. [(fst entry, snd (snd entry))]) (recorded_files stage)))
      (for_each (add_recorded lib fs (ps_name stage)) (recorded_files stage))"
    by (rule adds_for_each)
  then show ?thesis by (simp add: stage_files_def concat_map_singleton)
qed

lemma adds_run: "adds lib fs (concat (map stage_files (rn_stages run))) (add_run_artifacts lib fs run)"
  unfolding add_run_artifacts_def by (intro adds_for_each adds_recorded)

lemma adds_policy: "adds lib fs (case cf_policy config of None \<Rightarrow> [] | Some path \<Rightarrow> [(path, CONFIG)]) (load_project_policy lib fs config)"
  by (auto simp: load_project_policy_def Let_def intro!: adds_ret adds_bnd_ret adds_manifest_add adds_raise split: option.split sum.split)

lemma adds_fields: "adds lib fs (case mn_metadata (bi_model (cf_build config)) of None \<Rightarrow> [] | Some path \<Rightarrow> [(path, OTHER)]) (model_fields lib fs config)"
  by (auto simp: model_fields_def Let_def andthen_def intro!: adds_ret adds_bnd_ret adds_manifest_add adds_raise split: option.split json.split)

lemma adds_inputs: "adds lib fs (declared_files config_path config run) (collect_inputs lib fs config_path config run)"
proof -
  have audit: "adds lib fs (case pc_entity_audit (cf_privacy config) of None \<Rightarrow> [] | Some path \<Rightarrow> [(path, OTHER)])
      (case pc_entity_audit (cf_privacy config) of None \<Rightarrow> ret () | Some path \<Rightarrow> andthen (manifest_add lib fs path OTHER) (ret ()))"
    by (auto intro!: adds_ret adds_then_ret adds_manifest_add split: option.split)
  have data: "adds lib fs (map (\<lambda>ds. (dn_path ds, DATASET)) dss) (map_act (collect_dataset lib fs) dss)" for dss
  proof -
    have "adds lib fs [(dn_path ds, DATASET)] (collect_dataset lib fs ds)" for ds
      unfolding collect_dataset_def by (intro adds_bnd_ret adds_manifest_add adds_ret)
    from adds_map_act [of lib fs "\<lambda>ds. [(dn_path ds, DATASET)]", OF this] show ?thesis by (simp add: concat_map_singleton)
  qed
  have extras: "adds lib fs (map (\<lambda>e. (an_path e, an_kind e)) es)
      (for_each (\<lambda>e. andthen (manifest_add lib fs (an_path e) (an_kind e)) (ret ())) es)" for es
  proof -
    have "adds lib fs [(an_path e, an_kind e)] (andthen (manifest_add lib fs (an_path e) (an_kind e)) (ret ()))" for e
      by (intro adds_then_ret adds_manifest_add)
    from adds_for_each [of lib fs "\<lambda>e. [(an_path e, an_kind e)]", OF this] show ?thesis by (simp add: concat_map_singleton)
  qed
  have run: "adds lib fs (case run of None \<Rightarrow> [] | Some r \<Rightarrow> concat (map stage_files (rn_stages r)))
      (case run of None \<Rightarrow> ret () | Some r \<Rightarrow> add_run_artifacts lib fs r)"
    by (auto intro!: adds_ret adds_run split: option.split)
  note parts = adds_andthen [OF adds_manifest_add adds_andthen [OF audit adds_bnd [OF adds_manifest_add adds_bnd [OF data
      adds_andthen [OF extras adds_andthen [OF run adds_bnd [OF adds_policy adds_bnd_ret [OF adds_fields adds_ret]]]]]]]]
  show ?thesis
    unfolding collect_inputs_def declared_files_def by (rule parts)
qed

subsection \<open>What the fold gives\<close>

text \<open>Resolving the path a manifest lists finds the file again, inside the project and outside.\<close>

definition path_law :: "capture_lib \<Rightarrow> bool" where
  "path_law lib \<longleftrightarrow> (\<forall>path. cl_resolve lib (relative_path lib path) = cl_resolve lib path)"

lemma add_file_keeps: "map_of m k = Some a \<Longrightarrow> map_of (add_file lib fs f m) k = Some a"
  by (auto simp: add_file_def map_add_def split: option.split)

lemma add_files_keep: "map_of m k = Some a \<Longrightarrow> map_of (fold (add_file lib fs) files m) k = Some a"
  by (induction files arbitrary: m) (auto intro: add_file_keeps)

abbreviation key_of :: "build_lib \<Rightarrow> string \<times> artifact_kind \<Rightarrow> string" where
  "key_of lib f \<equiv> relative_path (bl_capture lib) (fst f)"

lemma add_file_key: "found lib fs f \<Longrightarrow> fst ` set (add_file lib fs f m) = insert (key_of lib f) (fst ` set m)"
proof -
  assume "found lib fs f"
  then obtain ref where "artifact_of (bl_capture lib) fs (fst f) (snd f) = Some ref" "ar_path ref = key_of lib f"
    by (auto simp: found_def artifact_of_def)
  then show ?thesis
    by (cases "map_of m (ar_path ref)") (auto simp: add_file_def insert_absorb dest: map_of_SomeD intro: rev_image_eqI)
qed

lemma add_files_keys: "list_all (found lib fs) files \<Longrightarrow> fst ` set (fold (add_file lib fs) files m) = key_of lib ` set files \<union> fst ` set m"
  by (induction files arbitrary: m) (auto simp: add_file_key)

lemma add_files_distinct: "distinct (map fst m) \<Longrightarrow> distinct (map fst (fold (add_file lib fs) files m))"
proof (induction files arbitrary: m)
  case (Cons f files)
  have "distinct (map fst (add_file lib fs f m))"
    using Cons.prems by (auto simp: add_file_def map_of_eq_None_iff split: option.split)
  then show ?case by (simp add: Cons.IH)
qed simp

lemma add_file_new:
  assumes "(k, a) \<in> set (add_file lib fs f m)"
  shows "(k, a) \<in> set m \<or> k = ar_path a \<and> k = key_of lib f \<and> k \<notin> fst ` set m
    \<and> artifact_of (bl_capture lib) fs (fst f) (snd f) = Some a \<and> ar_kind a = snd f"
  using assms by (auto simp: add_file_def map_of_eq_None_iff artifact_of_def split: option.splits if_splits)

lemma add_files_entry:
  assumes "list_all (found lib fs) files" "(k, a) \<in> set (fold (add_file lib fs) files [])"
  shows "k = ar_path a \<and> (\<exists>path. artifact_of (bl_capture lib) fs path (ar_kind a) = Some a)
    \<and> map_of (map (\<lambda>f. (key_of lib f, snd f)) files) k = Some (ar_kind a)"
  using assms
proof (induction files rule: rev_induct)
  case (snoc f files)
  let ?m = "fold (add_file lib fs) files []"
  have "(k, a) \<in> set (add_file lib fs f ?m)" using snoc.prems(2) by simp
  from add_file_new [OF this] show ?case
  proof
    assume "(k, a) \<in> set ?m"
    with snoc have "k = ar_path a" "\<exists>path. artifact_of (bl_capture lib) fs path (ar_kind a) = Some a"
      "map_of (map (\<lambda>f. (key_of lib f, snd f)) files) k = Some (ar_kind a)" by auto
    then show ?thesis by (simp add: map_add_def)
  next
    assume new: "k = ar_path a \<and> k = key_of lib f \<and> k \<notin> fst ` set ?m
      \<and> artifact_of (bl_capture lib) fs (fst f) (snd f) = Some a \<and> ar_kind a = snd f"
    then have "k \<notin> key_of lib ` set files"
      using add_files_keys [of lib fs files "[]"] snoc.prems(1) by auto
    then have "map_of (map (\<lambda>f. (key_of lib f, snd f)) files) k = None"
      by (simp add: map_of_eq_None_iff image_image)
    with new show ?thesis by (auto simp: map_add_def)
  qed
qed simp

lemma current_artifact:
  assumes "path_law lib" "artifact_of lib fs path kind = Some a"
  shows "\<exists>n. fs (cl_resolve lib (ar_path a)) = Some n \<and> ar_sha256 a = sha256_path (cl_crypto lib) n \<and> ar_size_bytes a = int (path_size n)"
  using assms by (auto simp: artifact_of_def path_law_def)

section \<open>What a successful build did\<close>

definition set_signature :: "string \<Rightarrow> passport \<Rightarrow> passport" where
  "set_signature s p = p\<lparr> pp_identity := (pp_identity p)\<lparr> id_signature := Some s \<rparr> \<rparr>"

definition signed_as :: "build_lib \<Rightarrow> bytes \<Rightarrow> passport \<Rightarrow> bool" where
  "signed_as lib sk p \<longleftrightarrow> (\<exists>u payload. signing_payload (bl_dump lib u) = Some payload \<and> pp_events u = []
     \<and> p = set_signature (sign (bl_crypto lib) sk payload) u)"

lemma assembled:
  assumes "assemble lib fs config run artifacts inputs sk pid created = Inr p"
  shows "pp_artifacts p = artifacts \<and> pp_pipeline p = (case run of None \<Rightarrow> [] | Some r \<Rightarrow> rn_stages r) \<and> pp_events p = []
    \<and> merkle_root (bl_crypto lib) (map ar_sha256 artifacts) = Some (id_merkle_root (pp_identity p))
    \<and> id_public_key_fingerprint (pp_identity p) = public_key_fingerprint (bl_crypto lib) (c_public (bl_crypto lib) sk)"
  using assms unfolding assemble_def Let_def by (auto simp: result_bind_Inr or_build_crash_Inr split: prod.splits)

lemma policy_applied:
  assumes "apply_policy policy p = Inr q"
  shows "pp_artifacts q = pp_artifacts p \<and> pp_pipeline q = pp_pipeline p \<and> pp_events q = pp_events p \<and> pp_identity q = pp_identity p
    \<and> evidence_of q = evidence_of p
    \<and> (\<forall>pol sha256. policy = Some (pol, sha256) \<longrightarrow> (\<exists>r. evaluate pol sha256 (evidence_of q) = Inr r \<and> pp_policy q = Some r))"
  using assms by (auto simp: apply_policy_def evidence_of_def split: option.splits sum.splits)

lemma model_signed:
  "sign_model lib p sk = Inr q \<longleftrightarrow> (\<exists>payload. signing_payload (bl_dump lib p) = Some payload \<and> q = set_signature (sign (bl_crypto lib) sk payload) p)"
  by (auto simp: sign_model_def set_signature_def split: option.splits)

lemma built:
  assumes "build_passport lib fs config_path config previous reason pid created = Inr p"
  obtains run inputs m sk where "load_current_run lib fs config = Inr run"
    and "collect_inputs lib fs config_path config run [] = (Inr inputs, m)"
    and "load_signing_key lib fs config = Inr sk"
    and "pp_artifacts p = manifest_sorted m" "pp_pipeline p = (case run of None \<Rightarrow> [] | Some r \<Rightarrow> rn_stages r)"
    and "merkle_root (bl_crypto lib) (map ar_sha256 (pp_artifacts p)) = Some (id_merkle_root (pp_identity p))"
    and "id_public_key_fingerprint (pp_identity p) = public_key_fingerprint (bl_crypto lib) (c_public (bl_crypto lib) sk)"
    and "signed_as lib sk p"
    and "\<And>pol sha256. fst (snd (snd inputs)) = Some (pol, sha256)
      \<Longrightarrow> \<exists>r. evaluate pol sha256 (evidence_of p) = Inr r \<and> pp_policy p = Some r"
proof -
  obtain run where run: "load_current_run lib fs config = Inr run"
      and rest: "(case collect_inputs lib fs config_path config run [] of (Inl e, m) \<Rightarrow> Inl e
        | (Inr inputs, m) \<Rightarrow> result_bind (load_signing_key lib fs config) (\<lambda>sk.
           result_bind (assemble lib fs config run (manifest_sorted m) inputs sk pid created) (\<lambda>p.
           result_bind (apply_policy (fst (snd (snd inputs)))
               (case previous of None \<Rightarrow> p | Some q \<Rightarrow> p\<lparr> pp_revision := Some (compute_revision q p reason) \<rparr>)) (\<lambda>p.
           sign_model lib p sk)))) = Inr p"
    using assms unfolding build_passport_def result_bind_Inr by blast
  obtain inputs m where inputs: "collect_inputs lib fs config_path config run [] = (Inr inputs, m)"
    by (cases "collect_inputs lib fs config_path config run []"; cases "fst (collect_inputs lib fs config_path config run [])")
      (use rest in \<open>auto intro: that\<close>)
  obtain sk p0 p1 payload where key: "load_signing_key lib fs config = Inr sk"
      and p0: "assemble lib fs config run (manifest_sorted m) inputs sk pid created = Inr p0"
      and p1: "apply_policy (fst (snd (snd inputs)))
        (case previous of None \<Rightarrow> p0 | Some q \<Rightarrow> p0\<lparr> pp_revision := Some (compute_revision q p0 reason) \<rparr>) = Inr p1"
      and p: "signing_payload (bl_dump lib p1) = Some payload" "p = set_signature (sign (bl_crypto lib) sk payload) p1"
    using rest by (auto simp only: inputs prod.case sum.case result_bind_Inr model_signed)
  let ?p = "case previous of None \<Rightarrow> p0 | Some q \<Rightarrow> p0\<lparr> pp_revision := Some (compute_revision q p0 reason) \<rparr>"
  have same: "pp_artifacts ?p = pp_artifacts p0" "pp_pipeline ?p = pp_pipeline p0" "pp_events ?p = pp_events p0"
    "pp_identity ?p = pp_identity p0"
    by (simp_all split: option.split)
  note facts = assembled [OF p0] policy_applied [OF p1, unfolded same]
  have verdict: "\<exists>r. evaluate pl sha256 (evidence_of p1) = Inr r \<and> pp_policy p1 = Some r"
    if "fst (snd (snd inputs)) = Some (pl, sha256)" for pl sha256 using facts that by blast
  have ev: "evidence_of p = evidence_of p1" and pol: "pp_policy p = pp_policy p1"
    and arts: "pp_artifacts p = manifest_sorted m" and pipe: "pp_pipeline p = pp_pipeline p1"
    using facts by (simp_all add: p(2) set_signature_def evidence_of_def)
  show ?thesis
  proof
    show "signed_as lib sk p" using p facts by (auto simp: signed_as_def)
    show "\<And>pl sha256. fst (snd (snd inputs)) = Some (pl, sha256)
      \<Longrightarrow> \<exists>r. evaluate pl sha256 (evidence_of p) = Inr r \<and> pp_policy p = Some r"
      unfolding ev pol by (rule verdict)
  qed (use facts in \<open>simp_all add: run inputs key arts pipe p(2) set_signature_def\<close>)
qed

section \<open>The manifest of a passport\<close>

lemma manifest_sorted_distinct:
  assumes "distinct (map fst m)" "\<And>k a. (k, a) \<in> set m \<Longrightarrow> k = ar_path a"
  shows "sorted (map ar_path (manifest_sorted m)) \<and> distinct (map ar_path (manifest_sorted m)) \<and> set (manifest_sorted m) = snd ` set m"
proof -
  have "map fst m = map ar_path (map snd m)" using assms(2) by auto
  with assms(1) have "distinct (map ar_path (map snd m))" by simp
  then have "distinct (map ar_path (manifest_sorted m))"
    unfolding manifest_sorted_def distinct_map by (simp add: distinct_map)
  then show ?thesis by (simp add: manifest_sorted_def)
qed

lemma built_artifacts:
  assumes "collect_inputs lib fs config_path config run [] = (Inr inputs, m)" "pp_artifacts p = manifest_sorted m"
  shows "sorted (map ar_path (pp_artifacts p)) \<and> distinct (map ar_path (pp_artifacts p)) \<and> set (pp_artifacts p) = snd ` set m
    \<and> list_all (found lib fs) (declared_files config_path config run)
    \<and> m = fold (add_file lib fs) (declared_files config_path config run) []"
proof -
  have m: "m = fold (add_file lib fs) (declared_files config_path config run) []"
    "list_all (found lib fs) (declared_files config_path config run)"
    using adds_inputs [of lib fs config_path config run] assms(1) unfolding adds_def by blast+
  then have "distinct (map fst m)" "\<And>k a. (k, a) \<in> set m \<Longrightarrow> k = ar_path a"
    using add_files_distinct [of "[]"] add_files_entry by auto
  from manifest_sorted_distinct [OF this] assms(2) m show ?thesis by simp
qed

text \<open>
  C7. The manifest of a built passport is exactly the declared files: the configuration, the entity audit, the model,
  the datasets and extra artifacts, what the run recorded, the policy and the model's metadata, each once, sorted by
  path, with the digest and size of the file and the kind under which it was declared first.
\<close>

theorem manifest_is_exact:
  assumes "build_passport lib fs config_path config previous reason pid created = Inr p" "path_law (bl_capture lib)"
  shows "\<exists>run. load_current_run lib fs config = Inr run
    \<and> sorted (map ar_path (pp_artifacts p)) \<and> distinct (map ar_path (pp_artifacts p))
    \<and> ar_path ` set (pp_artifacts p) = key_of lib ` set (declared_files config_path config run)
    \<and> list_all (\<lambda>a. map_of (map (\<lambda>f. (key_of lib f, snd f)) (declared_files config_path config run)) (ar_path a) = Some (ar_kind a)
        \<and> (\<exists>n. fs (cl_resolve (bl_capture lib) (ar_path a)) = Some n \<and> ar_sha256 a = sha256_path (bl_crypto lib) n
            \<and> ar_size_bytes a = int (path_size n))) (pp_artifacts p)"
proof -
  obtain run inputs m where run: "load_current_run lib fs config = Inr run"
    and m: "collect_inputs lib fs config_path config run [] = (Inr inputs, m)" "pp_artifacts p = manifest_sorted m"
    by (rule built [OF assms(1)], rule that)
  note facts = built_artifacts [OF m]
  let ?fs = "declared_files config_path config run"
  have "list_all (found lib fs) ?fs" and m': "m = fold (add_file lib fs) ?fs []" using facts by simp_all
  note entry = add_files_entry [OF this(1), folded this(2)] and keys = add_files_keys [OF this(1), of "[]", folded this(2)]
  have "ar_path ` snd ` set m = fst ` set m"
    unfolding image_image by (rule image_cong [OF refl]) (use entry in auto)
  then have "ar_path ` set (pp_artifacts p) = key_of lib ` set ?fs" using facts keys by simp
  moreover have "map_of (map (\<lambda>f. (key_of lib f, snd f)) ?fs) (ar_path a) = Some (ar_kind a)
      \<and> (\<exists>n. fs (cl_resolve (bl_capture lib) (ar_path a)) = Some n \<and> ar_sha256 a = sha256_path (bl_crypto lib) n
            \<and> ar_size_bytes a = int (path_size n))" if "a \<in> set (pp_artifacts p)" for a
  proof -
    have "a \<in> snd ` set m" using that facts by blast
    then obtain k where "(k, a) \<in> set m" by auto
    from entry [OF this] current_artifact [OF assms(2)] show ?thesis by auto
  qed
  ultimately show ?thesis using run facts by (auto simp: list_all_iff)
qed

section \<open>What the run recorded is still there\<close>

lemma for_each_ensures:
  assumes add: "\<And>x. adds lib fs (g x) (f x)" and holds: "\<And>x s s'. f x s = (Inr (), s') \<Longrightarrow> Q x s'"
    and stable: "\<And>x e s. Q x s \<Longrightarrow> Q x (add_file lib fs e s)"
  shows "for_each f xs s = (Inr (), s') \<Longrightarrow> \<forall>x\<in>set xs. Q x s'"
proof (induction xs arbitrary: s)
  case (Cons x xs)
  then obtain s1 where s1: "f x s = (Inr (), s1)" "for_each f xs s1 = (Inr (), s')" by (auto simp: act_Inr)
  have "s' = fold (add_file lib fs) (concat (map g xs)) s1"
    using adds_for_each [of lib fs g f xs, OF add] s1(2) unfolding adds_def by blast
  moreover have "Q x (fold (add_file lib fs) es s1)" if "Q x s1" for es s1
    using that by (induction es arbitrary: s1) (simp_all add: stable)
  ultimately show ?case using holds [OF s1(1)] Cons.IH [OF s1(2)] by simp
qed simp

definition listed :: "build_lib \<Rightarrow> string \<times> string \<times> artifact_kind \<Rightarrow> manifest \<Rightarrow> bool" where
  "listed lib r m \<longleftrightarrow> (\<exists>ref. map_of m (relative_path (bl_capture lib) (fst r)) = Some ref \<and> ar_sha256 ref = fst (snd r))"

lemma run_artifacts_listed:
  assumes "add_run_artifacts lib fs run s = (Inr (), s')"
  shows "\<forall>stage\<in>set (rn_stages run). \<forall>r\<in>set (recorded_files stage). listed lib r s'"
proof -
  have stable: "listed lib r s \<Longrightarrow> listed lib r (add_file lib fs e s)" for r e s
    by (auto simp: listed_def dest: add_file_keeps [of _ _ _ lib fs])
  have one: "add_recorded lib fs name r s = (Inr (), s') \<Longrightarrow> listed lib r s'" for name r s s'
    by (auto simp: add_recorded_def act_Inr listed_def dest!: manifest_add_Inr split: prod.splits)
  have single: "adds lib fs [(fst r, snd (snd r))] (add_recorded lib fs name r)" for name r
    by (auto simp: add_recorded_def split_beta intro!: adds_bnd_ret adds_manifest_add adds_raise_if)
  have stage: "for_each (add_recorded lib fs (ps_name stage)) (recorded_files stage) s = (Inr (), s')
      \<Longrightarrow> \<forall>r\<in>set (recorded_files stage). listed lib r s'" for stage s s'
    by (rule for_each_ensures [where g = "\<lambda>r. [(fst r, snd (snd r))]" and f = "add_recorded lib fs (ps_name stage)"
        and Q = "listed lib", OF single one stable])
  have stables: "\<forall>r\<in>set (recorded_files stage). listed lib r s
      \<Longrightarrow> \<forall>r\<in>set (recorded_files stage). listed lib r (add_file lib fs e s)" for stage e s
    by (blast intro: stable)
  show ?thesis
  proof (rule for_each_ensures)
    show "adds lib fs (stage_files stage) (for_each (add_recorded lib fs (ps_name stage)) (recorded_files stage))" for stage
      by (rule adds_recorded)
    show "for_each (\<lambda>stage. for_each (add_recorded lib fs (ps_name stage)) (recorded_files stage)) (rn_stages run) s = (Inr (), s')"
      using assms by (simp only: add_run_artifacts_def)
  qed (use stage stables in blast)+
qed

lemma collect_inputs_run:
  assumes "collect_inputs lib fs config_path config (Some run) s = (Inr inputs, m)"
  shows "\<exists>s1 s2 files. add_run_artifacts lib fs run s1 = (Inr (), s2) \<and> m = fold (add_file lib fs) files s2"
proof -
  obtain s1 s2 s3 u policy declared where run: "add_run_artifacts lib fs run s1 = (Inr u, s2)"
      and "load_project_policy lib fs config s2 = (Inr policy, s3)" "model_fields lib fs config s3 = (Inr declared, m)"
    using assms unfolding collect_inputs_def act_Inr option.case by blast
  with adds_policy [of lib fs config] adds_fields [of lib fs config]
  obtain fs1 fs2 where "m = fold (add_file lib fs) fs2 (fold (add_file lib fs) fs1 s2)"
    unfolding adds_def by blast
  then have "m = fold (add_file lib fs) (fs1 @ fs2) s2" by simp
  moreover have "u = ()" by simp
  ultimately show ?thesis using run by blast
qed

text \<open>
  The pipeline a passport tells of is the one whose files it signs: every script, input and output that the run
  recorded is an artifact of the passport, with the recorded digest; had one changed since, there would be no
  passport.
\<close>

theorem recorded_files_are_signed:
  assumes "build_passport lib fs config_path config previous reason pid created = Inr p"
    and "stage \<in> set (pp_pipeline p)" "(path, sha256, kind) \<in> set (recorded_files stage)"
  shows "\<exists>a\<in>set (pp_artifacts p). ar_path a = relative_path (bl_capture lib) path \<and> ar_sha256 a = sha256"
proof -
  obtain run inputs m where m: "collect_inputs lib fs config_path config run [] = (Inr inputs, m)" "pp_artifacts p = manifest_sorted m"
    and pipe: "pp_pipeline p = (case run of None \<Rightarrow> [] | Some r \<Rightarrow> rn_stages r)"
    by (rule built [OF assms(1)], rule that)
  with assms(2) obtain r where r: "run = Some r" "stage \<in> set (rn_stages r)" by (cases run) auto
  from collect_inputs_run [OF m(1) [unfolded r(1)]] obtain s1 s2 files where
      s2: "add_run_artifacts lib fs r s1 = (Inr (), s2)" "m = fold (add_file lib fs) files s2" by blast
  from run_artifacts_listed [OF s2(1)] r(2) assms(3) have "listed lib (path, sha256, kind) s2" by blast
  then obtain a where "map_of s2 (relative_path (bl_capture lib) path) = Some a" "ar_sha256 a = sha256"
    by (auto simp: listed_def)
  moreover from this have "map_of m (relative_path (bl_capture lib) path) = Some a"
    by (simp add: s2(2) add_files_keep)
  then have "(relative_path (bl_capture lib) path, a) \<in> set m" by (rule map_of_SomeD)
  moreover note facts = built_artifacts [OF m]
  ultimately have "a \<in> set (pp_artifacts p)" "ar_path a = relative_path (bl_capture lib) path"
    using add_files_entry [of lib fs "declared_files config_path config run"] by (force, auto)
  with \<open>ar_sha256 a = sha256\<close> show ?thesis by blast
qed

section \<open>Verification of a built passport\<close>

text \<open>
  What \<^verbatim>\<open>model_dump\<close> writes: an object with the identity, in which a signature is one member, and no event for a
  passport without events.
\<close>

definition dump_law :: "build_lib \<Rightarrow> bool" where
  "dump_law lib \<longleftrightarrow> (\<forall>p. \<exists>ident. map_of (bl_dump lib p) ''identity'' = Some (JObj ident)
     \<and> (\<forall>s. bl_dump lib (set_signature s p) = AList.update ''identity'' (JObj (AList.update ''signature'' (JStr s) ident)) (bl_dump lib p))
     \<and> (pp_events p = [] \<longrightarrow> map_of (bl_dump lib p) ''events'' = Some (JArr [])))"

lemma signed_verifies:
  assumes "signed_as lib sk p" "dump_law lib" "signature_laws (bl_crypto lib) sk"
  shows "\<exists>payload s. signing_payload (bl_dump lib p) = Some payload \<and> id_signature (pp_identity p) = Some s \<and> s \<noteq> []
    \<and> verify_signature (bl_crypto lib) (c_public (bl_crypto lib) sk) payload s
    \<and> verify_events (bl_crypto lib) (bl_dump lib p) (c_public (bl_crypto lib) sk) = Some []"
proof -
  obtain u payload where u: "signing_payload (bl_dump lib u) = Some payload" "pp_events u = []"
    "p = set_signature (sign (bl_crypto lib) sk payload) u" using assms(1) by (auto simp: signed_as_def)
  let ?s = "sign (bl_crypto lib) sk payload"
  obtain ident where ident: "map_of (bl_dump lib u) ''identity'' = Some (JObj ident)"
    "bl_dump lib p = AList.update ''identity'' (JObj (AList.update ''signature'' (JStr ?s) ident)) (bl_dump lib u)"
    "map_of (bl_dump lib u) ''events'' = Some (JArr [])" using assms(2) u unfolding dump_law_def by blast
  have payload: "signing_payload (bl_dump lib p) = Some payload"
    by (simp only: ident(2) signing_payload_signature [OF ident(1)] u(1))
  moreover have "events_of (bl_dump lib p) = Some []"
    using ident(3) by (simp add: ident(2) events_of_def update_conv')
  ultimately have "verify_events (bl_crypto lib) (bl_dump lib p) (c_public (bl_crypto lib) sk) = Some []"
    by (simp add: verify_events_def anchor_hash_def)
  moreover have "id_signature (pp_identity p) = Some ?s" by (simp add: u(3) set_signature_def)
  ultimately show ?thesis using payload verify_own_signature [OF assms(3)] sign_ne [OF assms(3)] by blast
qed

text \<open>What a verifier hashes when the project has the files \<open>nodes\<close>.\<close>

definition hashes_of :: "build_lib \<Rightarrow> files \<Rightarrow> string \<Rightarrow> string option" where
  "hashes_of lib nodes path = map_option (sha256_path (bl_crypto lib)) (nodes (cl_resolve (bl_capture lib) path))"

lemma built_verifies:
  assumes "build_passport lib fs config_path config previous reason pid created = Inr p"
    and "load_signing_key lib fs config = Inr sk" "signature_laws (bl_crypto lib) sk"
    and "path_law (bl_capture lib)" "dump_law lib" "validate (bl_dump lib p) = Some p"
  shows "\<exists>r. verify_passport (bl_crypto lib) validate (Some (bl_dump lib p)) (Some (c_public (bl_crypto lib) sk)) (hashes_of lib fs) = Some r
    \<and> vr_ok r"
proof -
  obtain run inputs m sk' where m: "collect_inputs lib fs config_path config run [] = (Inr inputs, m)" "pp_artifacts p = manifest_sorted m"
    and key: "load_signing_key lib fs config = Inr sk'"
    and mroot: "merkle_root (bl_crypto lib) (map ar_sha256 (pp_artifacts p)) = Some (id_merkle_root (pp_identity p))"
    and fp: "id_public_key_fingerprint (pp_identity p) = public_key_fingerprint (bl_crypto lib) (c_public (bl_crypto lib) sk')"
    and signed: "signed_as lib sk' p"
    by (rule built [OF assms(1)], rule that)
  note facts = built_artifacts [OF m]
  have sk: "sk' = sk" using key assms(2) by simp
  obtain payload s where sig: "signing_payload (bl_dump lib p) = Some payload" "id_signature (pp_identity p) = Some s" "s \<noteq> []"
    "verify_signature (bl_crypto lib) (c_public (bl_crypto lib) sk) payload s"
    "verify_events (bl_crypto lib) (bl_dump lib p) (c_public (bl_crypto lib) sk) = Some []"
    using signed_verifies [OF signed [unfolded sk] assms(5,3)] by blast
  have "hashes_of lib fs (ar_path a) = Some (ar_sha256 a)" if "a \<in> set (pp_artifacts p)" for a
  proof -
    have "a \<in> snd ` set m" using that facts by blast
    then obtain k where "(k, a) \<in> set (fold (add_file lib fs) (declared_files config_path config run) [])" using facts by auto
    with facts have "\<exists>path. artifact_of (bl_capture lib) fs path (ar_kind a) = Some a"
      using add_files_entry [of lib fs "declared_files config_path config run"] by blast
    then obtain path where "artifact_of (bl_capture lib) fs path (ar_kind a) = Some a" by blast
    from current_artifact [OF assms(4) this] show ?thesis by (auto simp: hashes_of_def)
  qed
  then have "filter (\<lambda>a. ac_status a \<noteq> ART_OK)
      (map (\<lambda>a. check_artifact (hashes_of lib fs) (ar_path a) (ar_kind a) (ar_sha256 a)) (pp_artifacts p)) = []"
    by (auto simp: filter_empty_conv check_artifact_ok)
  then show ?thesis
    using sig mroot fp sk assms(6) by (simp add: verify_passport_def verify_document_def empty_report_def vr_ok_def vr_changed_def)
qed

text \<open>
  C6. A passport that was built verifies: with the public key of the signing key and the files it was built from the
  report is accepting.
\<close>

theorem built_passport_verifies:
  assumes "build_passport lib fs config_path config previous reason pid created = Inr p"
    and "load_signing_key lib fs config = Inr sk" "signature_laws (bl_crypto lib) sk"
    and "path_law (bl_capture lib)" "dump_law lib" "validate (bl_dump lib p) = Some p"
  shows "\<exists>r. verify_passport (bl_crypto lib) validate (Some (bl_dump lib p)) (Some (c_public (bl_crypto lib) sk)) (hashes_of lib fs) = Some r
    \<and> vr_ok r"
  using assms by (rule built_verifies)

section \<open>And no other files\<close>

text \<open>
  When two nodes have one digest they are the same, or SHA-256 collides on what was hashed for them, or the one is a
  file that holds the listing of the other, a directory.
\<close>

definition same_node :: "crypto \<Rightarrow> node \<Rightarrow> node \<Rightarrow> bool" where
  "same_node c n n' \<longleftrightarrow> (case n of
      File a \<Rightarrow> (case n' of
          File b \<Rightarrow> a = b \<or> collides (c_sha256 c) {a, b}
        | Dir ys \<Rightarrow> a = dir_listing c ys \<or> collides (c_sha256 c) {a, dir_listing c ys})
    | Dir xs \<Rightarrow> (case n' of
          File b \<Rightarrow> b = dir_listing c xs \<or> collides (c_sha256 c) {b, dir_listing c xs}
        | Dir ys \<Rightarrow> xs = ys \<or> collides (c_sha256 c) (dir_hashed c xs \<union> dir_hashed c ys)))"

definition node_ok :: "node \<Rightarrow> bool" where
  "node_ok n \<longleftrightarrow> (case n of File _ \<Rightarrow> True | Dir entries \<Rightarrow> dir_ok entries)"

lemma same_digest_node:
  assumes "digest_law c" "node_ok n" "node_ok n'" "sha256_path c n = sha256_path c n'"
  shows "same_node c n n'"
proof -
  have two: "sha256_hex c x = sha256_hex c y \<Longrightarrow> x = y \<or> collides (c_sha256 c) {x, y}" for x y
    by (auto simp: collides_def sha256_hex_def)
  show ?thesis
  proof (cases n; cases n')
    fix xs ys
    assume "n = Dir xs" "n' = Dir ys"
    with assms dir_digest_binding [OF assms(1), of xs ys] show ?thesis by (simp add: same_node_def node_ok_def)
  qed (use assms(4) two in \<open>auto simp: same_node_def sha256_file_def insert_commute\<close>)
qed

lemma accepted_artifacts:
  assumes "verify_passport c validate (Some doc) (Some pk) files = Some r" "vr_ok r" "validate doc = Some p" "a \<in> set (pp_artifacts p)"
  shows "files (ar_path a) = Some (ar_sha256 a)"
proof -
  obtain r0 where r0: "verify_document c validate doc pk = Some r0" "r = (if vr_errors r0 = []
      then r0\<lparr> vr_artifacts := map (\<lambda>a. check_artifact files (ar_path a) (ar_kind a) (ar_sha256 a)) (pp_artifacts p) \<rparr> else r0)"
    using assms(1,3) by (auto simp: verify_passport_def)
  with assms(2) have "vr_artifacts r = map (\<lambda>a. check_artifact files (ar_path a) (ar_kind a) (ar_sha256 a)) (pp_artifacts p)"
    by (auto simp: vr_ok_def split: if_splits)
  with assms(2) have "list_all (\<lambda>a. ac_status (check_artifact files (ar_path a) (ar_kind a) (ar_sha256 a)) = ART_OK) (pp_artifacts p)"
    by (auto simp: vr_ok_def vr_changed_def filter_empty_conv list_all_iff)
  with assms(4) show ?thesis by (simp add: check_artifact_ok list_all_iff)
qed

text \<open>
  C5. Wherever a built passport is accepted, the artifacts are the ones it was built from: each has the same contents
  as at the time of the build, or SHA-256 collides, or a file holding a directory's listing stands for that directory.
\<close>

theorem accepted_files_are_the_built_ones:
  assumes "build_passport lib fs config_path config previous reason pid created = Inr p"
    and "path_law (bl_capture lib)" "digest_law (bl_crypto lib)" "validate (bl_dump lib p) = Some p"
    and "verify_passport (bl_crypto lib) validate (Some (bl_dump lib p)) (Some pk) (hashes_of lib nodes) = Some r" "vr_ok r"
    and "\<And>path n. fs path = Some n \<or> nodes path = Some n \<Longrightarrow> node_ok n" "a \<in> set (pp_artifacts p)"
  shows "\<exists>n n'. fs (cl_resolve (bl_capture lib) (ar_path a)) = Some n \<and> nodes (cl_resolve (bl_capture lib) (ar_path a)) = Some n'
    \<and> same_node (bl_crypto lib) n n'"
proof -
  obtain run inputs m where m: "collect_inputs lib fs config_path config run [] = (Inr inputs, m)" "pp_artifacts p = manifest_sorted m"
    by (rule built [OF assms(1)], rule that)
  have "a \<in> snd ` set m" using built_artifacts [OF m] assms(8) by blast
  then obtain k where "(k, a) \<in> set (fold (add_file lib fs) (declared_files config_path config run) [])"
    using built_artifacts [OF m] by auto
  then obtain path where "artifact_of (bl_capture lib) fs path (ar_kind a) = Some a"
    using add_files_entry built_artifacts [OF m] by blast
  from current_artifact [OF assms(2) this] obtain n where
      n: "fs (cl_resolve (bl_capture lib) (ar_path a)) = Some n" "ar_sha256 a = sha256_path (bl_crypto lib) n" by blast
  from accepted_artifacts [OF assms(5,6,4,8)] obtain n' where
      n': "nodes (cl_resolve (bl_capture lib) (ar_path a)) = Some n'" "ar_sha256 a = sha256_path (bl_crypto lib) n'"
    by (auto simp: hashes_of_def)
  have "node_ok n" "node_ok n'" using assms(7) n(1) n'(1) by blast+
  with same_digest_node [OF assms(3)] n n' show ?thesis by force
qed

section \<open>The verdict\<close>

lemma collect_inputs_policy:
  assumes "collect_inputs lib fs config_path config run s = (Inr inputs, m)"
  shows "\<exists>s1 s2 files. load_project_policy lib fs config s1 = (Inr (fst (snd (snd inputs))), s2) \<and> m = fold (add_file lib fs) files s2"
proof -
  obtain s1 s2 policy declared mr ds where "load_project_policy lib fs config s1 = (Inr policy, s2)"
      "model_fields lib fs config s2 = (Inr declared, m)" "inputs = (mr, ds, policy, declared)"
    using assms unfolding collect_inputs_def act_Inr by blast
  moreover from this(2) adds_fields [of lib fs config] obtain files where "m = fold (add_file lib fs) files s2"
    unfolding adds_def by blast
  ultimately show ?thesis by auto
qed

lemma policy_of_file: "load_policy c data contents = Inr (pol, h) \<Longrightarrow> data = Some pol \<and> h = sha256_hex c contents"
  by (auto simp: load_policy_def Let_def result_bind_Inr split: option.splits if_splits)

lemma load_project_policy_Inr:
  assumes "load_project_policy lib fs config s = (Inr policy, s')" "cf_policy config = Some path"
  shows "\<exists>ref pol h. manifest_add lib fs path CONFIG s = (Inr ref, s') \<and> policy = Some (pol, h)
    \<and> load_policy (bl_crypto lib) (Option.bind (read_file lib fs (ar_path ref)) (bl_read_policy lib))
        (case read_file lib fs (ar_path ref) of None \<Rightarrow> [] | Some b \<Rightarrow> b) = Inr (pol, h)"
proof -
  let ?load = "\<lambda>ref. load_policy (bl_crypto lib) (Option.bind (read_file lib fs (ar_path ref)) (bl_read_policy lib))
        (case read_file lib fs (ar_path ref) of None \<Rightarrow> [] | Some b \<Rightarrow> b)"
  obtain ref s1 where ref: "manifest_add lib fs path CONFIG s = (Inr ref, s1)"
    and loaded: "(case ?load ref of Inl e \<Rightarrow> raise (PolicyInvalid e) | Inr loaded \<Rightarrow> ret (Some loaded)) s1 = (Inr policy, s')"
    using assms unfolding load_project_policy_def Let_def assms(2) option.case bnd_Inr_iff by blast
  then show ?thesis by (cases "?load ref") (auto simp: act_Inr)
qed

text \<open>
  C8. The verdict in a built passport can be recomputed from it: the policy file is one of the signed artifacts, the
  digest the verdict names is that artifact's, and evaluating the policy on the signed passport gives the verdict.
\<close>

theorem verdict_is_reproducible:
  assumes "build_passport lib fs config_path config previous reason pid created = Inr p"
    and "cf_policy config = Some path" "path_law (bl_capture lib)"
  shows "\<exists>contents pol r. read_file lib fs path = Some contents \<and> bl_read_policy lib contents = Some pol \<and> pp_policy p = Some r
    \<and> evaluate pol (sha256_hex (bl_crypto lib) contents) (evidence_of p) = Inr r
    \<and> (\<exists>a\<in>set (pp_artifacts p). ar_path a = relative_path (bl_capture lib) path \<and> ar_sha256 a = sha256_hex (bl_crypto lib) contents)"
proof -
  obtain run inputs m where m: "collect_inputs lib fs config_path config run [] = (Inr inputs, m)" "pp_artifacts p = manifest_sorted m"
    and verdict: "\<And>pol sha256. fst (snd (snd inputs)) = Some (pol, sha256)
      \<Longrightarrow> \<exists>r. evaluate pol sha256 (evidence_of p) = Inr r \<and> pp_policy p = Some r"
    by (rule built [OF assms(1)], rule that)
  obtain s1 s2 files where policy: "load_project_policy lib fs config s1 = (Inr (fst (snd (snd inputs))), s2)"
    "m = fold (add_file lib fs) files s2" using collect_inputs_policy [OF m(1)] by blast
  obtain ref pol h where ref: "manifest_add lib fs path CONFIG s1 = (Inr ref, s2)" and inputs: "fst (snd (snd inputs)) = Some (pol, h)"
    and loaded: "load_policy (bl_crypto lib) (Option.bind (read_file lib fs (ar_path ref)) (bl_read_policy lib))
      (case read_file lib fs (ar_path ref) of None \<Rightarrow> [] | Some b \<Rightarrow> b) = Inr (pol, h)"
    using load_project_policy_Inr [OF policy(1) assms(2)] by blast
  have "map_of m (relative_path (bl_capture lib) path) = Some ref"
    unfolding policy(2) by (rule add_files_keep) (use manifest_add_Inr [OF ref] in blast)
  then have mem: "(relative_path (bl_capture lib) path, ref) \<in> set m" by (rule map_of_SomeD)
  then have here: "ref \<in> set (pp_artifacts p)" "relative_path (bl_capture lib) path = ar_path ref"
    "\<exists>path. artifact_of (bl_capture lib) fs path (ar_kind ref) = Some ref"
    using built_artifacts [OF m] add_files_entry [of lib fs "declared_files config_path config run"] by (force, auto)
  have "read_file lib fs (ar_path ref) = read_file lib fs path"
    using assms(3) here(2) unfolding read_file_def path_law_def by metis
  with policy_of_file [OF loaded] obtain contents where
      contents: "read_file lib fs path = Some contents" "bl_read_policy lib contents = Some pol" "h = sha256_hex (bl_crypto lib) contents"
      and same: "read_file lib fs (ar_path ref) = Some contents" by (auto simp: bind_eq_Some_conv)
  from here(3) current_artifact [OF assms(3)] same have "ar_sha256 ref = sha256_hex (bl_crypto lib) contents"
    by (fastforce simp: read_file_def sha256_file_def split: option.splits node.splits)
  with contents verdict [OF inputs] here show ?thesis by metis
qed

section \<open>The run a build accepts\<close>

text \<open>
  A build accepts the record that the last run saved, and only while the stages of the configuration are those
  that ran: a configuration for which the record is accepted has the same stages, up to the order of the members of
  their parameters, or SHA-256 collides.
\<close>

theorem run_record_fits_config:
  assumes "run_pipeline (bl_capture lib) config overrides on_stage s = (Inr run, s')"
    and "cl_read_record (bl_capture lib) (cl_write_record (bl_capture lib) run) = Some run"
    and "files = wd_files (snd (save_run_record (bl_capture lib) run s'))"
    and "json_ok (JArr (map stage_json (cf_stages config)))" "json_ok (JArr (map stage_json (cf_stages other)))"
  shows "load_current_run lib files config = Inr (Some run)
    \<and> (load_current_run lib files other = Inr (Some run) \<longrightarrow>
        sort_members (JArr (map stage_json (cf_stages other))) = sort_members (JArr (map stage_json (cf_stages config)))
        \<or> collides (c_sha256 (bl_crypto lib))
            {json_dumps False (JArr (map stage_json (cf_stages other))), json_dumps False (JArr (map stage_json (cf_stages config)))})"
proof -
  let ?a = "JArr (map stage_json (cf_stages other))" and ?b = "JArr (map stage_json (cf_stages config))"
  have run: "cf_stages config \<noteq> []" "stages_fingerprint (bl_crypto lib) (cf_stages config) = Some (rn_stages_sha256 run)"
    using assms(1) unfolding run_pipeline_def Let_def capture_Inr by (auto simp: capture_Inr)
  have saved: "load_run_record (bl_capture lib) files = Some (Some run)"
    using assms(2) by (simp add: assms(3) load_run_record_def save_run_record_def modify_def)
  have "sort_members ?a = sort_members ?b \<or> collides (c_sha256 (bl_crypto lib)) {json_dumps False ?a, json_dumps False ?b}"
    if "load_current_run lib files other = Inr (Some run)"
  proof -
    have same: "stages_fingerprint (bl_crypto lib) (cf_stages other) = Some (rn_stages_sha256 run)"
      using that saved by (auto simp: load_current_run_def split: if_splits option.splits)
    with run(2) have dumped: "canonical_json ?a = Some (json_dumps False ?a)" "canonical_json ?b = Some (json_dumps False ?b)"
      "hex_of (c_sha256 (bl_crypto lib) (json_dumps False ?a)) = hex_of (c_sha256 (bl_crypto lib) (json_dumps False ?b))"
      by (auto simp: stages_fingerprint_def canonical_json_def sha256_bytes_def sha256_hex_def simp del: hex_of_inject split: if_splits)
    show ?thesis
    proof (cases "json_dumps False ?a = json_dumps False ?b")
      case True
      with dumped canonical_json_inject [OF assms(5,4)] show ?thesis by simp
    next
      case False
      with dumped(3) show ?thesis by (simp only: hex_of_inject) (auto simp: collides_def)
    qed
  qed
  with run saved show ?thesis by (simp add: load_current_run_def)
qed

section \<open>Examples\<close>

text \<open>A project with one stage, which trains a model from a dataset, and a policy with one rule.\<close>

definition demo_machine :: machine where
  "demo_machine = \<lparr> mc_python_version = ''3.12'', mc_platform = ''Linux'', mc_machine = ''x86'', mc_processor = [], mc_cpu_count = Some 4,
     mc_sysconf = None, mc_distributions = [] \<rparr>"

definition demo_stage :: stage_config where
  "demo_stage = \<lparr> sc_name = ''train'', sc_cmd = CmdWords [''python'', ''train.py''], sc_script = None, sc_params = [(''seed'', JInt 7)],
     sc_deps = [''d.bin''], sc_outs = [''m.pkl''], sc_metrics = None \<rparr>"

definition demo_capture :: "run_record option \<Rightarrow> capture_lib" where
  "demo_capture run = \<lparr> cl_crypto = example_crypto, cl_resolve = id, cl_relative = Some, cl_shlex = (\<lambda>t. Some [t]), cl_executable = ''python3.12'',
     cl_run = (\<lambda>cmd env fs. Some (0, fs(''m.pkl'' \<mapsto> File ''good''))), cl_git = (\<lambda>fs args. None), cl_time = (\<lambda>n. ''now''), cl_yaml = (\<lambda>t. None),
     cl_loads = (\<lambda>b. None), cl_dumps = (\<lambda>j. []), cl_float = (\<lambda>j. None), cl_machine = demo_machine, cl_run_id = (\<lambda>n. ''run''),
     cl_write_record = (\<lambda>r. ''record''), cl_read_record = (\<lambda>b. run) \<rparr>"

definition demo_config :: project_config where
  "demo_config = \<lparr> cf_project = \<lparr> pj_name = ''demo'', pj_version = ''0.1.0'' \<rparr>,
     cf_signing = \<lparr> sg_private_key = ''key'', sg_public_key = ''pub'' \<rparr>,
     cf_tracking = \<lparr> tk_mlflow_uri = None, tk_mlflow_experiment = None, tk_dvc = False \<rparr>,
     cf_declared = \<lparr> de_intended_use = None, de_out_of_scope_uses = [], de_known_limitations = [], de_ethical_risks = [], de_owner = None, de_contact = None \<rparr>,
     cf_stages = [demo_stage],
     cf_build = \<lparr> bi_model = \<lparr> mn_path = ''m.pkl'', mn_metadata = None, mn_framework = None, mn_algorithm = None, mn_task_type = None,
         mn_hyperparameters = [], mn_input_schema = None, mn_output_schema = None \<rparr>,
       bi_datasets = [\<lparr> dn_path = ''d.bin'', dn_split_role = TRAIN, dn_name = None, dn_source = None, dn_license = None \<rparr>],
       bi_artifacts = [], bi_metrics = [], bi_lineage_links = [] \<rparr>,
     cf_privacy = \<lparr> pc_enabled = False, pc_sample_size = None, pc_quasi_identifiers = None, pc_sensitive_column = None, pc_presidio = False,
       pc_scan_secrets = False, pc_entity_audit = None \<rparr>,
     cf_audit = ex_audit_config, cf_policy = Some ''policy.yaml'' \<rparr>"

definition demo_files :: files where
  "demo_files = map_of [(''passport.yaml'', File ''config''), (''train.py'', File ''fit''), (''d.bin'', File ''rows''), (''key'', File ''k''),
     (''policy.yaml'', File ''rules'')]"

definition demo_start :: workdir where
  "demo_start = \<lparr> wd_files = demo_files, wd_clock = 0 \<rparr>"

definition no_hook :: stage_hook where
  "no_hook stage r m = ret ()"

definition demo_record :: pipeline_stage where
  "demo_record = \<lparr> ps_name = ''train'', ps_command = [''python3.12'', ''train.py''], ps_script_path = ''train.py'',
     ps_script_sha256 = sha256_hex example_crypto ''fit'', ps_git_commit = None, ps_git_dirty = None, ps_parameters = [(''seed'', JInt 7)],
     ps_inputs = [\<lparr> ar_path = ''d.bin'', ar_sha256 = sha256_hex example_crypto ''rows'', ar_size_bytes = 4, ar_kind = OTHER \<rparr>],
     ps_outputs = [\<lparr> ar_path = ''m.pkl'', ar_sha256 = sha256_hex example_crypto ''good'', ar_size_bytes = 4, ar_kind = OTHER \<rparr>],
     ps_started_at = Some ''now'', ps_ended_at = Some ''now'', ps_exit_code = Some 0 \<rparr>"

definition demo_run :: run_record where
  "demo_run = \<lparr> rn_run_id = ''run'', rn_started_at = ''now'', rn_ended_at = ''now'',
     rn_stages_sha256 = the (stages_fingerprint example_crypto [demo_stage]), rn_overrides = [],
     rn_stages = [demo_record], rn_environment = capture_environment demo_machine, rn_metrics = [], rn_mlflow_run_id = None \<rparr>"

definition demo_policy :: policy where
  "demo_policy = \<lparr> py_rules = [(''unsafe_pickle'', VStr ''fail'')], py_missing_evidence = WARN \<rparr>"

definition demo_lib :: build_lib where
  "demo_lib = \<lparr> bl_capture = demo_capture (Some demo_run), bl_assess = ex_xl,
     bl_read_policy = (\<lambda>b. Some demo_policy),
     bl_read_key = Some, bl_read_audit = (\<lambda>b. None),
     bl_model_info = (\<lambda>d uri sha. Some \<lparr> mi_framework = None, mi_algorithm = None, mi_task_type = None, mi_hyperparameters = [],
       mi_artifact_uri = uri, mi_artifact_sha256 = sha, mi_input_schema = None, mi_output_schema = None \<rparr>),
     bl_dump = (\<lambda>p. [(''identity'', JObj [(''passport_id'', JStr (id_passport_id (pp_identity p))), (''merkle_root'', JStr (id_merkle_root (pp_identity p))),
         (''signature'', optional_str (id_signature (pp_identity p)))]),
       (''events'', if pp_events p = [] then JArr [] else JNull)]) \<rparr>"

definition demo_after :: files where
  "demo_after = demo_files(''m.pkl'' \<mapsto> File ''good'', RUN_RECORD_PATH \<mapsto> File ''record'')"

lemmas demo_defs = demo_capture_def demo_lib_def demo_config_def demo_stage_def

lemma demo_simps [simp]:
  "relative_path (demo_capture r) path = path" "cl_resolve (demo_capture r) path = path" "cl_crypto (demo_capture r) = example_crypto"
  "bl_capture demo_lib = demo_capture (Some demo_run)" "cf_stages demo_config = [demo_stage]"
  "cl_time (demo_capture r) n = ''now''" "cl_git (demo_capture r) fs args = None" "cl_machine (demo_capture r) = demo_machine"
  "cl_run_id (demo_capture r) n = ''run''" "cl_run (demo_capture r) cmd env fs = Some (0, fs(''m.pkl'' \<mapsto> File ''good''))"
  "cl_read_record (demo_capture r) b = r" "cl_write_record (demo_capture r) rn = ''record''"
  by (simp_all add: relative_path_def demo_defs)

lemma demo_artifact_of: "artifact_of (demo_capture r) fs path kind = map_option (\<lambda>n. \<lparr> ar_path = path, ar_sha256 = sha256_path example_crypto n,
    ar_size_bytes = int (path_size n), ar_kind = kind \<rparr>) (fs path)"
  by (simp add: artifact_of_def)

lemma demo_command: "stage_command (demo_capture r) demo_stage = Inr [''python3.12'', ''train.py'']"
  "stage_script (demo_capture r) demo_stage = Inr ''train.py''"
  by (simp_all add: stage_command_def stage_script_def demo_defs result_bind_def endswith_def)

lemma demo_fingerprint: "stages_fingerprint example_crypto [demo_stage] = Some (rn_stages_sha256 demo_run)"
  by (simp add: stages_fingerprint_def canonical_json_def demo_run_def demo_stage_def stage_json_def cmd_json_def optional_str_def)

lemma demo_stage_simps [simp]:
  "sc_name demo_stage = ''train''" "sc_deps demo_stage = [''d.bin'']" "sc_outs demo_stage = [''m.pkl'']" "sc_metrics demo_stage = None"
  "sc_params demo_stage = [(''seed'', JInt 7)]"
  by (simp_all add: demo_stage_def)

lemma demo_stage_runs:
  "run_stage (demo_capture r) demo_stage [(''seed'', JInt 7)] None \<lparr> wd_files = demo_files, wd_clock = Suc 0 \<rparr>
    = (Inr demo_record, \<lparr> wd_files = demo_files(''m.pkl'' \<mapsto> File ''good''), wd_clock = 3 \<rparr>)"
  unfolding run_stage_def capture_Inr Let_def
  by (simp add: demo_command demo_artifact_of demo_files_def demo_record_def sha256_file_def path_name_def list_all2_Cons1 capture_Inr
      git_is_dirty_def git_commit_def run_git_def)

lemma demo_run_succeeds:
  "run_pipeline (demo_capture r) demo_config [] no_hook demo_start
    = (Inr demo_run, \<lparr> wd_files = demo_files(''m.pkl'' \<mapsto> File ''good''), wd_clock = 4 \<rparr>)"
proof -
  have "stage_params [] demo_stage = [(''seed'', JInt 7)]" "stage_metrics (demo_capture r) demo_stage = ret []"
    by (simp_all add: stage_params_def dict_update_def stage_metrics_def)
  then show ?thesis
    unfolding run_pipeline_def capture_Inr Let_def demo_start_def
    by (simp add: capture_Inr demo_stage_runs demo_fingerprint no_hook_def update_metrics_def git_commit_def run_git_def)
      (simp add: demo_run_def)
qed

lemma hex_of_text: "list_all lower_hex (hex_of b)"
proof (induction b)
  case (Cons ch b)
  have digits: "\<forall>n\<in>set [0..<16]. lower_hex (hexdigit n)" by code_simp
  have "of_char ch div 16 \<in> set [0..<16]" "of_char ch mod 16 \<in> set [0..<16::nat]"
    using nat_of_char_less_256 [of ch] less_mult_imp_div_less [of "of_char ch" 16 16] by simp_all
  with digits Cons show ?case by (simp del: set_upt)
qed simp

lemma demo_digest_text: "sha256_text (sha256_hex example_crypto m)"
  by (simp add: sha256_text_def sha256_hex_def hex_of_text length_example_sha256)

lemma manifest_add_iff:
  "manifest_add lib fs path kind s = (Inr ref, s') \<longleftrightarrow> (\<exists>new. artifact_of (bl_capture lib) fs path kind = Some new
     \<and> (case map_of s (ar_path new) of Some old \<Rightarrow> ref = old \<and> s' = s | None \<Rightarrow> ref = new \<and> s' = s @ [(ar_path new, new)]))"
  by (auto simp: manifest_add_def act_Inr of_result_Inr_iff hash_artifact_Inr split: option.splits)

abbreviation demo_ref :: "string \<Rightarrow> bytes \<Rightarrow> artifact_kind \<Rightarrow> artifact_ref" where
  "demo_ref path contents kind \<equiv> \<lparr> ar_path = path, ar_sha256 = sha256_hex example_crypto contents, ar_size_bytes = int (length contents), ar_kind = kind \<rparr>"

definition demo_manifest :: manifest where
  "demo_manifest = [(''passport.yaml'', demo_ref ''passport.yaml'' ''config'' CONFIG), (''m.pkl'', demo_ref ''m.pkl'' ''good'' MODEL),
     (''d.bin'', demo_ref ''d.bin'' ''rows'' DATASET), (''train.py'', demo_ref ''train.py'' ''fit'' SCRIPT),
     (''policy.yaml'', demo_ref ''policy.yaml'' ''rules'' CONFIG)]"

lemma demo_policy_loads: "load_policy c (Some demo_policy) contents = Inr (demo_policy, sha256_hex c contents)"
  by (simp add: load_policy_def demo_policy_def RULES_def mk_rule_def check_rule_threshold_def verdict_of_def result_bind_def Let_def)

lemma demo_policy_evaluates: "\<exists>r. evaluate demo_policy h e = Inr r"
  by (auto simp: evaluate_def demo_policy_def RULES_def mk_rule_def evaluate_rule_def result_bind_def unsafe_pickles_def count_of_def
      flag_verdict_def verdict_of_def split: option.split)

lemma demo_current_run: "load_current_run demo_lib demo_after demo_config = Inr (Some demo_run)"
  by (simp add: load_current_run_def load_run_record_def demo_after_def demo_fingerprint)

lemma demo_key: "load_signing_key demo_lib demo_after demo_config = Inr ''k''"
  by (simp add: load_signing_key_def read_file_def demo_config_def demo_after_def demo_files_def RUN_RECORD_PATH_def demo_lib_def)

lemma demo_lookups:
  "demo_after ''passport.yaml'' = Some (File ''config'')" "demo_after ''m.pkl'' = Some (File ''good'')" "demo_after ''d.bin'' = Some (File ''rows'')"
  "demo_after ''train.py'' = Some (File ''fit'')" "demo_after ''policy.yaml'' = Some (File ''rules'')"
  by (simp_all add: demo_after_def demo_files_def RUN_RECORD_PATH_def)

lemma demo_adds:
  "manifest_add demo_lib demo_after ''passport.yaml'' CONFIG [] = (Inr (snd (demo_manifest ! 0)), take 1 demo_manifest)"
  "manifest_add demo_lib demo_after ''m.pkl'' MODEL (take 1 demo_manifest) = (Inr (snd (demo_manifest ! 1)), take 2 demo_manifest)"
  "manifest_add demo_lib demo_after ''d.bin'' DATASET (take 2 demo_manifest) = (Inr (snd (demo_manifest ! 2)), take 3 demo_manifest)"
  "manifest_add demo_lib demo_after ''train.py'' SCRIPT (take 3 demo_manifest) = (Inr (snd (demo_manifest ! 3)), take 4 demo_manifest)"
  "manifest_add demo_lib demo_after ''d.bin'' OTHER (take 4 demo_manifest) = (Inr (snd (demo_manifest ! 2)), take 4 demo_manifest)"
  "manifest_add demo_lib demo_after ''m.pkl'' OTHER (take 4 demo_manifest) = (Inr (snd (demo_manifest ! 1)), take 4 demo_manifest)"
  "manifest_add demo_lib demo_after ''policy.yaml'' CONFIG (take 4 demo_manifest) = (Inr (snd (demo_manifest ! 4)), demo_manifest)"
  unfolding manifest_add_iff by (simp_all add: demo_artifact_of demo_lookups demo_manifest_def sha256_file_def)

lemma demo_run_added: "add_run_artifacts demo_lib demo_after demo_run (take 3 demo_manifest) = (Inr (), take 4 demo_manifest)"
  by (simp add: add_run_artifacts_def demo_run_def recorded_files_def demo_record_def add_recorded_def act_core demo_adds)
    (simp add: demo_manifest_def)

lemma demo_policy_added: "load_project_policy demo_lib demo_after demo_config (take 4 demo_manifest)
    = (Inr (Some (demo_policy, sha256_hex example_crypto ''rules'')), demo_manifest)"
proof -
  have "cf_policy demo_config = Some ''policy.yaml''" "bl_read_policy demo_lib = (\<lambda>b. Some demo_policy)"
    by (simp_all add: demo_config_def demo_lib_def)
  then show ?thesis
    by (simp add: load_project_policy_def act_core demo_adds read_file_def demo_lookups demo_policy_loads Let_def) (simp add: demo_manifest_def demo_lookups demo_policy_loads act_core)
qed

lemma demo_collected: "\<exists>datasets. collect_inputs demo_lib demo_after ''passport.yaml'' demo_config (Some demo_run) []
    = (Inr (snd (demo_manifest ! 1), datasets, Some (demo_policy, sha256_hex example_crypto ''rules''), []), demo_manifest)"
proof -
  have config: "pc_entity_audit (cf_privacy demo_config) = None" "mn_path (bi_model (cf_build demo_config)) = ''m.pkl''"
    "mn_metadata (bi_model (cf_build demo_config)) = None" "declared_fields (bi_model (cf_build demo_config)) = []"
    "bi_artifacts (cf_build demo_config) = []" "map dn_path (bi_datasets (cf_build demo_config)) = [''d.bin'']"
    by (simp_all add: demo_config_def declared_fields_def)
  then obtain ds where ds: "bi_datasets (cf_build demo_config) = [ds]" "dn_path ds = ''d.bin''" by auto
  show ?thesis
    by (simp add: collect_inputs_def act_core config demo_adds [unfolded One_nat_def] ds collect_dataset_def demo_run_added demo_policy_added model_fields_def)
qed

lemma demo_built: "\<exists>p. build_passport demo_lib demo_after ''passport.yaml'' demo_config None None ''id'' ''today'' = Inr p"
proof -
  obtain datasets where collected: "collect_inputs demo_lib demo_after ''passport.yaml'' demo_config (Some demo_run) []
    = (Inr (snd (demo_manifest ! 1), datasets, Some (demo_policy, sha256_hex example_crypto ''rules''), []), demo_manifest)"
    using demo_collected by blast
  let ?hs = "map ar_sha256 (manifest_sorted demo_manifest)"
  have "\<forall>h\<in>set ?hs. sha256_text h" "set ?hs \<noteq> {}"
    by (simp_all add: manifest_sorted_def demo_manifest_def demo_digest_text del: sort_key_simps)
  then have "\<forall>h\<in>set ?hs. sha256_text h" "?hs \<noteq> []" by auto
  then obtain mroot where mroot: "merkle_root example_crypto ?hs = Some mroot"
    by (rule merkle_root_tree [of ?hs example_crypto])
  have checks: "\<exists>r. run_checks demo_lib demo_after demo_config ref arts datasets env [] = Inr r" for ref arts env
    by (simp add: run_checks_def assess_privacy_def assess_models_def demo_config_def ex_audit_config_def schema_of_def or_build_crash_def
        result_bind_def Let_def)
  have parts: "load_entity_audit demo_lib demo_after demo_config = Inr None" "\<exists>mi. bl_model_info demo_lib d u h = Some mi" for d u h
    by (simp_all add: load_entity_audit_def demo_config_def demo_lib_def)
  let ?ref = "snd (demo_manifest ! 1)"
  obtain datasets' privacy security where checked: "run_checks demo_lib demo_after demo_config ?ref (manifest_sorted demo_manifest) datasets
      (rn_environment demo_run) [] = Inr (datasets', privacy, security)"
    using checks [of ?ref "manifest_sorted demo_manifest" "rn_environment demo_run"] by auto
  obtain mi where "bl_model_info demo_lib [] (ar_path ?ref) (ar_sha256 ?ref) = Some mi" using parts(2) by blast
  then have "\<exists>p0. assemble demo_lib demo_after demo_config (Some demo_run) (manifest_sorted demo_manifest)
      (?ref, datasets, Some (demo_policy, sha256_hex example_crypto ''rules''), []) ''k'' ''id'' ''today'' = Inr p0"
    unfolding assemble_def Let_def prod.case option.case
    by (simp only: checked parts(1) mroot result_bind_def or_build_crash_def sum.case option.case prod.case demo_simps) blast
  then obtain p0 where p0: "assemble demo_lib demo_after demo_config (Some demo_run) (manifest_sorted demo_manifest)
      (?ref, datasets, Some (demo_policy, sha256_hex example_crypto ''rules''), []) ''k'' ''id'' ''today'' = Inr p0" by blast
  obtain p1 where p1: "apply_policy (Some (demo_policy, sha256_hex example_crypto ''rules'')) p0 = Inr p1"
    using demo_policy_evaluates [of "sha256_hex example_crypto ''rules''" "evidence_of p0"] by (auto simp: apply_policy_def)
  obtain p2 where p2: "sign_model demo_lib p1 ''k'' = Inr p2"
    by (auto simp: sign_model_def demo_lib_def signing_payload_def signing_body_def canonical_json_def optional_str_def split: option.split)
  have "build_passport demo_lib demo_after ''passport.yaml'' demo_config None None ''id'' ''today'' = Inr p2"
    by (simp only: build_passport_def result_bind_def demo_current_run collected demo_key p0 p1 p2 sum.case prod.case option.case fst_conv snd_conv)
  then show ?thesis by blast
qed

definition demo_passport :: passport where
  "demo_passport = projr (build_passport demo_lib demo_after ''passport.yaml'' demo_config None None ''id'' ''today'')"

lemma demo_passport_built: "build_passport demo_lib demo_after ''passport.yaml'' demo_config None None ''id'' ''today'' = Inr demo_passport"
  using demo_built by (auto simp: demo_passport_def)

lemma demo_laws: "path_law (bl_capture demo_lib)" "dump_law demo_lib" "signature_laws (bl_crypto demo_lib) ''k''" "digest_law (bl_crypto demo_lib)"
  by (simp_all add: path_law_def dump_law_def demo_lib_def set_signature_def optional_str_def example_laws digest_law_def length_example_sha256)


theorem manifest_is_exact_witness:
  "ar_path ` set (pp_artifacts demo_passport) = {''passport.yaml'', ''m.pkl'', ''d.bin'', ''train.py'', ''policy.yaml''}"
proof -
  have "declared_files ''passport.yaml'' demo_config (Some demo_run) = [(''passport.yaml'', CONFIG), (''m.pkl'', MODEL), (''d.bin'', DATASET),
      (''train.py'', SCRIPT), (''d.bin'', OTHER), (''m.pkl'', OTHER), (''policy.yaml'', CONFIG)]"
    by (simp add: declared_files_def demo_run_def demo_record_def stage_files_def recorded_files_def) (simp add: demo_config_def)
  with manifest_is_exact [OF demo_passport_built demo_laws(1)] show ?thesis by (auto simp: demo_current_run)
qed

theorem recorded_files_are_signed_witness:
  "\<exists>a\<in>set (pp_artifacts demo_passport). ar_path a = ''train.py'' \<and> ar_sha256 a = sha256_hex example_crypto ''fit''"
proof -
  have "pp_pipeline demo_passport = [demo_record]"
  proof (rule built [OF demo_passport_built])
    fix run
    assume "load_current_run demo_lib demo_after demo_config = Inr run"
      "pp_pipeline demo_passport = (case run of None \<Rightarrow> [] | Some r \<Rightarrow> rn_stages r)"
    then show ?thesis by (auto simp: demo_current_run demo_run_def)
  qed
  then have "demo_record \<in> set (pp_pipeline demo_passport)"
    "(''train.py'', sha256_hex example_crypto ''fit'', SCRIPT) \<in> set (recorded_files demo_record)"
    by (simp_all add: recorded_files_def demo_record_def)
  from recorded_files_are_signed [OF demo_passport_built this] show ?thesis by simp
qed

theorem built_passport_verifies_witness:
  "\<exists>r. verify_passport example_crypto (\<lambda>d. Some demo_passport) (Some (bl_dump demo_lib demo_passport)) (Some (c_public example_crypto ''k''))
     (hashes_of demo_lib demo_after) = Some r \<and> vr_ok r"
  using built_passport_verifies [where validate = "\<lambda>d. Some demo_passport", OF demo_passport_built demo_key demo_laws(3,1,2) refl]
  unfolding demo_simps .

theorem accepted_files_are_the_built_ones_witness:
  "\<exists>n n'. demo_after ''m.pkl'' = Some n \<and> demo_after ''m.pkl'' = Some n' \<and> same_node example_crypto n n'"
proof -
  have nodes: "node_ok n" if "demo_after path = Some n \<or> demo_after path = Some n" for path n
    using that by (auto simp: node_ok_def demo_after_def demo_files_def split: if_splits)
  have "set (pp_artifacts demo_passport) = snd ` set demo_manifest"
  proof (rule built [OF demo_passport_built])
    fix run inputs m
    assume "load_current_run demo_lib demo_after demo_config = Inr run"
      "collect_inputs demo_lib demo_after ''passport.yaml'' demo_config run [] = (Inr inputs, m)" "pp_artifacts demo_passport = manifest_sorted m"
    with demo_collected show ?thesis by (auto simp: demo_current_run manifest_sorted_def)
  qed
  moreover have "snd (demo_manifest ! 1) \<in> snd ` set demo_manifest" "ar_path (snd (demo_manifest ! 1)) = ''m.pkl''"
    by (simp_all add: demo_manifest_def)
  ultimately obtain a where a: "a \<in> set (pp_artifacts demo_passport)" "ar_path a = ''m.pkl''" by simp
  obtain r where r: "verify_passport example_crypto (\<lambda>d. Some demo_passport) (Some (bl_dump demo_lib demo_passport)) (Some (c_public example_crypto ''k''))
     (hashes_of demo_lib demo_after) = Some r" "vr_ok r"
    using built_verifies [where validate = "\<lambda>d. Some demo_passport", OF demo_passport_built demo_key demo_laws(3,1,2) refl]
    unfolding demo_simps by blast
  have r': "verify_passport (bl_crypto demo_lib) (\<lambda>d. Some demo_passport) (Some (bl_dump demo_lib demo_passport)) (Some (c_public example_crypto ''k''))
     (hashes_of demo_lib demo_after) = Some r" unfolding demo_simps by (rule r(1))
  from accepted_files_are_the_built_ones [where validate = "\<lambda>d. Some demo_passport", OF demo_passport_built demo_laws(1,4) refl r' r(2) nodes a(1)]
  show ?thesis unfolding demo_simps a(2) .
qed

theorem verdict_is_reproducible_witness:
  "\<exists>r. pp_policy demo_passport = Some r \<and> evaluate demo_policy (sha256_hex example_crypto ''rules'') (evidence_of demo_passport) = Inr r"
proof -
  have "cf_policy demo_config = Some ''policy.yaml''" by (simp add: demo_config_def)
  from verdict_is_reproducible [OF demo_passport_built this demo_laws(1)] show ?thesis
    by (auto simp: read_file_def demo_lookups demo_lib_def)
qed

theorem run_record_fits_config_witness:
  "load_current_run demo_lib (demo_files(''m.pkl'' \<mapsto> File ''good'', RUN_RECORD_PATH \<mapsto> File ''record'')) demo_config = Inr (Some demo_run)"
proof -
  have ok: "json_ok (JArr (map stage_json (cf_stages demo_config)))"
    by (simp add: demo_stage_def stage_json_def cmd_json_def optional_str_def)
  have "run_pipeline (bl_capture demo_lib) demo_config [] no_hook demo_start
      = (Inr demo_run, \<lparr> wd_files = demo_files(''m.pkl'' \<mapsto> File ''good''), wd_clock = 4 \<rparr>)"
    by (simp add: demo_run_succeeds)
  from run_record_fits_config [OF this _ refl ok ok] show ?thesis by (simp add: save_run_record_def modify_def)
qed

end
