(* ===== verification/MP_Drift.thy ===== *)
theory MP_Drift
  imports MP_Assess
begin

text \<open>
  How a table's columns are understood (\<^verbatim>\<open>ml/features.py\<close>) and the drift checks between a reference table and a live
  batch (\<^verbatim>\<open>monitoring/drift.py\<close>). Cells are texts, as in \<^verbatim>\<open>MP_Scan\<close>; \<open>drift_lib\<close> stands for the dtype pandas gives a
  column, for reading a number or a date, for the order of \<^verbatim>\<open>value_counts\<close>, for SciPy's tests and for the logarithm. Quantiles, histograms and the
  stability index are computed here, over rationals.
\<close>

datatype dtype = NumberType | BoolType | DateType | TextType

record drift_lib =
  df_kind :: "string option list \<Rightarrow> dtype"
  df_float :: "string \<Rightarrow> rat option"
  df_days :: "string \<Rightarrow> rat option"
  df_ln :: "rat \<Rightarrow> rat"
  df_ks :: "rat list \<Rightarrow> rat list \<Rightarrow> rat \<times> rat"
  df_mwu :: "rat list \<Rightarrow> rat list \<Rightarrow> rat \<times> rat"
  df_cvm :: "rat list \<Rightarrow> rat list \<Rightarrow> rat \<times> rat"
  df_chi2 :: "nat list \<Rightarrow> nat list \<Rightarrow> rat \<times> rat"
  df_ranked :: "string list \<Rightarrow> string list"              \<comment> \<open>\<^verbatim>\<open>value_counts().index\<close>\<close>
  df_sample :: "nat \<Rightarrow> nat \<Rightarrow> nat list"                    \<comment> \<open>size, rows: the rows drawn\<close>

section \<open>Columns\<close>

datatype col_role = NUMERIC | CATEGORICAL | DATETIME

definition PARSE_MIN_RATE :: rat where "PARSE_MIN_RATE = 95/100"
definition SAMPLE_ROWS :: nat where "SAMPLE_ROWS = 2000"
definition FREE_TEXT_MIN_UNIQUE :: nat where "FREE_TEXT_MIN_UNIQUE = 100"
definition FREE_TEXT_UNIQUE_RATIO :: rat where "FREE_TEXT_UNIQUE_RATIO = 1/2"
definition ID_UNIQUE_RATIO :: rat where "ID_UNIQUE_RATIO = 95/100"

definition ID_NAME_TOKENS :: "string list" where
  "ID_NAME_TOKENS = [''id'', ''uuid'', ''guid'', ''index'', ''key'', ''identifier'']"

definition DATETIME_PARTS :: "string list" where
  "DATETIME_PARTS = [''year'', ''month'', ''dayofweek'', ''days'']"

definition dropna :: "string option list \<Rightarrow> string list" where
  "dropna cells = concat (map (\<lambda>v. case v of None \<Rightarrow> [] | Some t \<Rightarrow> [t]) cells)"

definition nunique :: "string list \<Rightarrow> nat" where
  "nunique vs = length (remdups vs)"

text \<open>\<^verbatim>\<open>.notna().mean()\<close> of what a function gives for each value.\<close>

definition parse_rate :: "(string \<Rightarrow> rat option) \<Rightarrow> string list \<Rightarrow> rat" where
  "parse_rate f vs = of_nat (length (filter (\<lambda>v. f v \<noteq> None) vs)) / of_nat (length vs)"

text \<open>\<^verbatim>\<open>^[+-]?0\d\<close> at the start of the text.\<close>

definition leading_zero :: "string \<Rightarrow> bool" where
  "leading_zero t = (let u = (case t of c # cs \<Rightarrow> if c = CHR ''+'' \<or> c = CHR ''-'' then cs else t | [] \<Rightarrow> [])
     in case u of c # d # _ \<Rightarrow> c = CHR ''0'' \<and> is_digit d | _ \<Rightarrow> False)"

definition numeric_text :: "drift_lib \<Rightarrow> string \<Rightarrow> rat option" where
  "numeric_text df t = df_float df (filter (\<lambda>c. c \<noteq> CHR '','') (py_strip t))"

definition numeric_values :: "drift_lib \<Rightarrow> dtype \<Rightarrow> string option list \<Rightarrow> rat option list" where
  "numeric_values df kind cells =
     (if kind = NumberType then map (\<lambda>v. Option.bind v (df_float df)) cells
      else map (\<lambda>v. numeric_text df (case v of None \<Rightarrow> [] | Some t \<Rightarrow> t)) cells)"

definition datetime_days :: "drift_lib \<Rightarrow> string option list \<Rightarrow> rat option list" where
  "datetime_days df cells = map (\<lambda>v. Option.bind v (df_days df)) cells"

definition is_identifier :: "string \<Rightarrow> string list \<Rightarrow> bool" where
  "is_identifier column vs \<longleftrightarrow>
     (list_ex (\<lambda>t. t \<in> set ID_NAME_TOKENS) (column_tokens column) \<or> startswith column ''Unnamed:'')
     \<and> ID_UNIQUE_RATIO \<le> of_nat (nunique vs) / of_nat (length vs) \<and> 20 \<le> length vs"

definition text_role :: "drift_lib \<Rightarrow> string list \<Rightarrow> string + col_role" where
  "text_role df vs =
     (let ts = map py_strip vs
      in if \<not> list_ex leading_zero ts \<and> PARSE_MIN_RATE \<le> parse_rate (numeric_text df) ts then Inr NUMERIC
         else if \<not> list_all (\<lambda>t. t \<noteq> [] \<and> list_all is_digit t) ts \<and> PARSE_MIN_RATE \<le> parse_rate (df_days df) ts then Inr DATETIME
         else if FREE_TEXT_MIN_UNIQUE \<le> nunique vs \<and> FREE_TEXT_UNIQUE_RATIO \<le> of_nat (nunique vs) / of_nat (length vs)
           then Inl ''high-cardinality text (identifier or free text)''
         else Inr CATEGORICAL)"

definition drop_reason :: "string \<Rightarrow> string list \<Rightarrow> string option" where
  "drop_reason column vs =
     (if vs = [] then Some ''all values missing''
      else if nunique vs = 1 then Some ''constant''
      else if is_identifier column vs then Some ''row identifier''
      else None)"

definition column_role :: "drift_lib \<Rightarrow> string \<Rightarrow> string option list \<Rightarrow> string + col_role" where
  "column_role df column cells =
     (let vs = dropna cells
      in case drop_reason column vs of
           Some reason \<Rightarrow> Inl reason
         | None \<Rightarrow> (case df_kind df cells of
             BoolType \<Rightarrow> Inr CATEGORICAL
           | NumberType \<Rightarrow> Inr NUMERIC
           | DateType \<Rightarrow> Inr DATETIME
           | TextType \<Rightarrow> text_role df vs))"

record feature_plan =
  fp_roles :: "col_role dict"
  fp_dropped :: "string dict"

definition plan_columns :: "feature_plan \<Rightarrow> col_role \<Rightarrow> string list" where
  "plan_columns plan r = map fst (filter (\<lambda>(c, s). s = r) (fp_roles plan))"

definition numeric_outputs :: "feature_plan \<Rightarrow> string list" where
  "numeric_outputs plan = plan_columns plan NUMERIC
     @ concat (map (\<lambda>c. map (\<lambda>part. c @ ''__'' @ part) DATETIME_PARTS) (plan_columns plan DATETIME))"

definition categorical_outputs :: "feature_plan \<Rightarrow> string list" where
  "categorical_outputs plan = plan_columns plan CATEGORICAL"

definition plan_column :: "drift_lib \<Rightarrow> frame \<Rightarrow> string \<Rightarrow> feature_plan \<Rightarrow> feature_plan" where
  "plan_column df sample c plan = (case column_role df c (col sample c) of
      Inr r \<Rightarrow> plan\<lparr> fp_roles := AList.update c r (fp_roles plan) \<rparr>
    | Inl reason \<Rightarrow> plan\<lparr> fp_dropped := AList.update c reason (fp_dropped plan) \<rparr>)"

definition infer_plan :: "drift_lib \<Rightarrow> frame \<Rightarrow> string option \<Rightarrow> string list \<Rightarrow> feature_plan" where
  "infer_plan df f label exclude =
     (let skip = exclude @ (case label of None \<Rightarrow> [] | Some l \<Rightarrow> [l]);
          sample = (if SAMPLE_ROWS < fr_rows f then take_rows (df_sample df SAMPLE_ROWS (fr_rows f)) f else f)
      in fold (plan_column df sample) (filter (\<lambda>c. c \<notin> set skip) (frame_columns f)) \<lparr> fp_roles = [], fp_dropped = [] \<rparr>)"

section \<open>The stability index\<close>

definition DEFAULT_ALPHA :: rat where "DEFAULT_ALPHA = 1/100"
definition DEFAULT_PSI_THRESHOLD :: rat where "DEFAULT_PSI_THRESHOLD = 1/10"
definition PSI_BINS :: nat where "PSI_BINS = 10"
definition NULL_RATE_TOLERANCE :: rat where "NULL_RATE_TOLERANCE = 1/10"
definition PSI_EPS :: rat where "PSI_EPS = 1 / 10 ^ 6"
definition MAX_CATEGORIES :: nat where "MAX_CATEGORIES = 20"
definition OTHER_CATEGORY :: string where "OTHER_CATEGORY = ''__other__''"

text \<open>\<^verbatim>\<open>np.quantile\<close>, which interpolates linearly, of a non-empty list.\<close>

definition quantile :: "rat list \<Rightarrow> rat \<Rightarrow> rat" where
  "quantile xs q = (let ys = sort xs; pos = q * of_nat (length xs - 1); i = nat \<lfloor>pos\<rfloor>
     in if Suc i < length xs then ys ! i + (pos - of_nat i) * (ys ! Suc i - ys ! i) else ys ! i)"

text \<open>
  \<^verbatim>\<open>np.histogram\<close> with the outer edges at minus and plus infinity: only the inner edges count, and a value on one
  belongs to the bin on its right.
\<close>

definition histogram :: "rat list \<Rightarrow> rat list \<Rightarrow> nat list" where
  "histogram xs inner = map (\<lambda>i. length (filter (\<lambda>x. length (filter (\<lambda>e. e \<le> x) inner) = i) xs)) [0..<Suc (length inner)]"

definition normalized :: "nat list \<Rightarrow> nat \<Rightarrow> rat list" where
  "normalized counts n = map (\<lambda>c. of_nat c / of_nat n) counts"

text \<open>\<^verbatim>\<open>_psi\<close>.\<close>

definition psi :: "drift_lib \<Rightarrow> rat list \<Rightarrow> rat list \<Rightarrow> rat" where
  "psi df ref cur = sum_list (map2 (\<lambda>r c. (max PSI_EPS c - max PSI_EPS r) * df_ln df (max PSI_EPS c / max PSI_EPS r)) ref cur)"

definition psi_numeric :: "drift_lib \<Rightarrow> rat list \<Rightarrow> rat list \<Rightarrow> nat \<Rightarrow> rat" where
  "psi_numeric df reference batch bins =
     (let edges = remdups (sort (map (\<lambda>i. quantile reference (of_nat i / of_nat bins)) [0..<Suc bins]))
      in if length edges < 2 then 0
         else let inner = butlast (tl edges)
           in psi df (normalized (histogram reference inner) (length reference)) (normalized (histogram batch inner) (length batch)))"

definition categories :: "string list \<Rightarrow> string list \<Rightarrow> string list" where
  "categories reference batch = sorted_set (reference @ batch)"

definition psi_categorical :: "drift_lib \<Rightarrow> string list \<Rightarrow> string list \<Rightarrow> rat" where
  "psi_categorical df reference batch =
     (let cs = categories reference batch
      in psi df (normalized (map (count_list reference) cs) (length reference)) (normalized (map (count_list batch) cs) (length batch)))"

section \<open>Tests of one feature\<close>

record test_result =
  te_statistic :: rat
  te_p_value :: rat

record feature_drift =
  fd_feature :: string
  fd_kind :: string
  fd_psi :: rat
  fd_tests :: "test_result dict"
  fd_rejected :: nat
  fd_drifted :: bool
  fd_unseen_categories :: nat

definition test_of :: "rat \<times> rat \<Rightarrow> test_result" where
  "test_of r = \<lparr> te_statistic = fst r, te_p_value = snd r \<rparr>"

definition numeric_tests :: "drift_lib \<Rightarrow> rat list \<Rightarrow> rat list \<Rightarrow> test_result dict" where
  "numeric_tests df reference batch =
     [(''kolmogorov_smirnov'', test_of (df_ks df reference batch)), (''mann_whitney_u'', test_of (df_mwu df reference batch)),
      (''cramer_von_mises'', test_of (df_cvm df reference batch))]"

definition chi_square :: "drift_lib \<Rightarrow> string list \<Rightarrow> string list \<Rightarrow> test_result dict" where
  "chi_square df reference batch =
     (let cs = categories reference batch
      in [(''chi_square'', test_of (if length cs < 2 then (0, 1)
           else df_chi2 df (map (count_list reference) cs) (map (count_list batch) cs)))])"

text \<open>Which categories are kept is up to the order pandas gives values that are as frequent.\<close>

definition pool :: "drift_lib \<Rightarrow> string list \<Rightarrow> string list \<Rightarrow> string list \<times> string list" where
  "pool df reference batch =
     (let keep = take MAX_CATEGORIES (df_ranked df reference); p = map (\<lambda>v. if v \<in> set keep then v else OTHER_CATEGORY)
      in (p reference, p batch))"

definition feature :: "string \<Rightarrow> string \<Rightarrow> test_result dict \<Rightarrow> rat \<Rightarrow> nat \<Rightarrow> feature_drift" where
  "feature column kind tests index unseen = \<lparr> fd_feature = column, fd_kind = kind, fd_psi = round_digits 6 index, fd_tests = tests,
     fd_rejected = 0, fd_drifted = False, fd_unseen_categories = unseen \<rparr>"

definition present :: "rat option list \<Rightarrow> rat list" where
  "present xs = concat (map (\<lambda>x. case x of None \<Rightarrow> [] | Some r \<Rightarrow> [r]) xs)"

definition compare_numbers :: "drift_lib \<Rightarrow> string \<Rightarrow> string \<Rightarrow> rat list \<Rightarrow> rat list \<Rightarrow> feature_drift option" where
  "compare_numbers df column kind ref cur =
     (if ref = [] \<or> cur = [] then None
      else Some (feature column kind (numeric_tests df ref cur) (psi_numeric df ref cur PSI_BINS) 0))"

definition compare_texts :: "drift_lib \<Rightarrow> string \<Rightarrow> string list \<Rightarrow> string list \<Rightarrow> feature_drift option" where
  "compare_texts df column reference batch =
     (let (ref, cur) = pool df reference batch; unseen = length (remdups (filter (\<lambda>v. v \<notin> set reference) batch))
      in if ref = [] \<or> cur = [] then None
         else Some (feature column ''categorical'' (chi_square df ref cur) (psi_categorical df ref cur) unseen))"

definition compare_column :: "drift_lib \<Rightarrow> string \<Rightarrow> string option list \<Rightarrow> string option list \<Rightarrow> feature_drift option" where
  "compare_column df column reference batch =
     (let role = column_role df column reference;
          numbers = compare_numbers df column ''numeric'' (present (numeric_values df (df_kind df reference) reference)) (present (numeric_values df (df_kind df batch) batch));
          texts = compare_texts df column (dropna reference) (dropna batch)
      in case role of
           Inl reason \<Rightarrow> if reason \<noteq> ''constant'' then None
             else if df_kind df reference \<in> {NumberType, BoolType} then numbers else texts
         | Inr DATETIME \<Rightarrow> compare_numbers df column ''datetime'' (present (datetime_days df reference)) (present (datetime_days df batch))
         | Inr NUMERIC \<Rightarrow> numbers
         | Inr CATEGORICAL \<Rightarrow> texts)"

section \<open>The report\<close>

record schema_check =
  sk_missing_columns :: "string list"
  sk_unexpected_columns :: "string list"
  sk_type_mismatches :: "string list"
  sk_null_rate_increases :: "rat dict"

definition schema_ok :: "schema_check \<Rightarrow> bool" where
  "schema_ok s \<longleftrightarrow> sk_missing_columns s = [] \<and> sk_type_mismatches s = [] \<and> sk_null_rate_increases s = []"

record drift_report =
  dr_rows :: nat
  dr_reference_rows :: nat
  dr_alpha :: rat
  dr_psi_threshold :: rat
  dr_schema :: schema_check
  dr_features :: "feature_drift list"

definition drifted_features :: "drift_report \<Rightarrow> string list" where
  "drifted_features r = map fd_feature (filter fd_drifted (dr_features r))"

definition drift_detected :: "drift_report \<Rightarrow> bool" where
  "drift_detected r \<longleftrightarrow> drifted_features r \<noteq> []"

text \<open>The mean of no value is NaN, which no comparison holds for.\<close>

definition null_rate :: "string option list \<Rightarrow> rat option" where
  "null_rate cells = (if cells = [] then None else Some (of_nat (length (filter (\<lambda>v. v = None) cells)) / of_nat (length cells)))"

definition check_column :: "drift_lib \<Rightarrow> frame \<Rightarrow> frame \<Rightarrow> string \<Rightarrow> schema_check \<Rightarrow> schema_check" where
  "check_column df reference batch column s =
     (if column \<notin> set (frame_columns batch) then s
      else let cells = col batch column; vs = map Some (dropna cells);
        rate = (if vs = [] then 1 else of_nat (length (present (numeric_values df (df_kind df cells) vs))) / of_nat (length vs) :: rat);
        s1 = (if column_role df column (col reference column) = Inr NUMERIC \<and> rate < 95/100
              then s\<lparr> sk_type_mismatches := sk_type_mismatches s @ [column] \<rparr> else s)
      in case (null_rate cells, null_rate (col reference column)) of
           (Some b, Some r) \<Rightarrow> if NULL_RATE_TOLERANCE < b - r
             then s1\<lparr> sk_null_rate_increases := AList.update column (round_digits 4 (b - r)) (sk_null_rate_increases s1) \<rparr> else s1
         | _ \<Rightarrow> s1)"

definition check_schema :: "drift_lib \<Rightarrow> frame \<Rightarrow> frame \<Rightarrow> string list \<Rightarrow> schema_check" where
  "check_schema df reference batch columns =
     fold (check_column df reference batch) columns
       \<lparr> sk_missing_columns = filter (\<lambda>c. c \<notin> set (frame_columns batch)) columns,
         sk_unexpected_columns = filter (\<lambda>c. c \<notin> set (frame_columns reference)) (frame_columns batch),
         sk_type_mismatches = [], sk_null_rate_increases = [] \<rparr>"

definition decide :: "rat \<Rightarrow> rat \<Rightarrow> feature_drift \<Rightarrow> feature_drift" where
  "decide corrected_alpha psi_threshold f =
     (let rejected = length (filter (\<lambda>(name, t). te_p_value t < corrected_alpha) (fd_tests f))
      in f\<lparr> fd_rejected := rejected, fd_drifted := rejected * 2 > length (fd_tests f) \<and> psi_threshold \<le> fd_psi f \<rparr>)"

text \<open>
  \<open>None\<close>: a column asked for that the batch has and the reference does not raises \<^verbatim>\<open>KeyError\<close>.
\<close>

definition check_drift :: "drift_lib \<Rightarrow> frame \<Rightarrow> frame \<Rightarrow> string list option \<Rightarrow> string list \<Rightarrow> rat \<Rightarrow> rat \<Rightarrow> drift_report option" where
  "check_drift df reference batch features exclude alpha psi_threshold =
     (let wanted = (case features of Some (c # cs) \<Rightarrow> c # cs | _ \<Rightarrow> frame_columns reference);
          columns = filter (\<lambda>c. c \<notin> set exclude) wanted
      in if list_ex (\<lambda>c. c \<in> set (frame_columns batch) \<and> c \<notin> set (frame_columns reference)) columns then None
         else let schema = check_schema df reference batch columns;
           testable = filter (\<lambda>c. c \<in> set (frame_columns batch) \<and> c \<notin> set (sk_type_mismatches schema)) columns;
           results = List.map_filter (\<lambda>c. compare_column df c (col reference c) (col batch c)) testable;
           corrected_alpha = alpha / of_nat (max (length results) 1)
         in Some \<lparr> dr_rows = fr_rows batch, dr_reference_rows = fr_rows reference, dr_alpha = alpha, dr_psi_threshold = psi_threshold,
              dr_schema = schema, dr_features = map (decide corrected_alpha psi_threshold) results \<rparr>)"

end
