(* ===== verification/MP_Monitor.thy ===== *)
theory MP_Monitor
  imports MP_Drift MP_Verifier
begin

text \<open>
  Monitoring of a passport (\<^verbatim>\<open>monitoring/monitor.py\<close>): a live batch is compared with the dataset the passport names, the
  model is scored when the batch is labeled, and the outcome is appended to the passport as a signed event.
  The lemmas: data that did not change raises no alarm, stricter settings raise fewer, and the event is appended to
  the very history that was read.
\<close>

section \<open>Code\<close>

definition DRIFT_EVENT :: string where "DRIFT_EVENT = ''drift_check''"

definition DEFAULT_DEGRADATION_TOLERANCE :: rat where "DEFAULT_DEGRADATION_TOLERANCE = 5/100"

datatype monitor_error =
    NoSuchArtifact artifact_kind string
  | ArtifactMissing string
  | ChangedSinceBuild string
  | NoReferenceDataset "string option"
  | KeyDoesNotMatch
  | TableUnreadable
  | MonitorCrash                         \<comment> \<open>an exception that is no \<^verbatim>\<open>MonitorError\<close>\<close>

record monitor_settings =
  mo_reference :: "string option"
  mo_alpha :: rat
  mo_psi_threshold :: rat
  mo_degradation_tolerance :: rat

definition default_monitor_settings :: monitor_settings where
  "default_monitor_settings = \<lparr> mo_reference = None, mo_alpha = DEFAULT_ALPHA, mo_psi_threshold = DEFAULT_PSI_THRESHOLD,
     mo_degradation_tolerance = DEFAULT_DEGRADATION_TOLERANCE \<rparr>"

record monitor_lib =
  ml_crypto :: crypto
  ml_assess :: assess_lib
  ml_drift :: drift_lib
  ml_validate :: "json dict \<Rightarrow> passport option"
  ml_files :: "string \<Rightarrow> node option"                     \<comment> \<open>by \<^verbatim>\<open>root / path\<close>, the batch by its own path\<close>
  ml_failure :: "fitted \<Rightarrow> frame \<Rightarrow> string \<Rightarrow> string"     \<comment> \<open>the text of an exception of the model\<close>
  ml_repr :: "rat \<Rightarrow> string"                              \<comment> \<open>\<^verbatim>\<open>json.dumps\<close> of a float\<close>

text \<open>What \<^verbatim>\<open>_performance\<close> gives: nothing, an error, or a score.\<close>

record live_score =
  ls_label :: string
  ls_rows :: nat
  ls_metric :: string
  ls_score :: rat
  ls_baseline :: "rat option"
  ls_tolerance :: rat
  ls_degraded :: bool

datatype live_outcome =
    NoPerformance
  | PerformanceSkipped
  | PerformanceError string
  | Scored live_score

definition artifact_path :: "passport \<Rightarrow> string \<Rightarrow> artifact_kind \<Rightarrow> monitor_error + string" where
  "artifact_path p sha256 kind = (case List.find (\<lambda>a. ar_sha256 a = sha256 \<and> ar_kind a = kind) (pp_artifacts p) of
      Some a \<Rightarrow> Inr (ar_path a) | None \<Rightarrow> Inl (NoSuchArtifact kind (take 12 sha256)))"

definition verified_path :: "monitor_lib \<Rightarrow> passport \<Rightarrow> string \<Rightarrow> artifact_kind \<Rightarrow> monitor_error + string" where
  "verified_path lib p sha256 kind = (case artifact_path p sha256 kind of
      Inl e \<Rightarrow> Inl e
    | Inr path \<Rightarrow> (case ml_files lib path of
        Some (File contents) \<Rightarrow> if sha256_file (ml_crypto lib) contents \<noteq> sha256 then Inl (ChangedSinceBuild path) else Inr path
      | _ \<Rightarrow> Inl (ArtifactMissing path)))"

definition reference_dataset :: "passport \<Rightarrow> string option \<Rightarrow> monitor_error + dataset_info" where
  "reference_dataset p name =
     (let wanted = (\<lambda>d. case name of Some (c # cs) \<Rightarrow> di_name d = c # cs | _ \<Rightarrow> di_split_role d = TRAIN)
      in case List.find wanted (pp_datasets p) of Some d \<Rightarrow> Inr d | None \<Rightarrow> Inl (NoReferenceDataset name))"

text \<open>\<^verbatim>\<open>category_text\<close> of \<^verbatim>\<open>ml/features.py\<close>, on the text of a value: a float without fraction loses its \<open>.0\<close>
  (the text of a float is the one Python prints, without exponent).\<close>

definition category_text :: "dtype \<Rightarrow> string \<Rightarrow> string" where
  "category_text kind t = (if kind = NumberType \<and> endswith t ''.0'' then take (length t - 2) t else py_strip t)"

definition drop_missing :: "string \<Rightarrow> frame \<Rightarrow> frame" where
  "drop_missing c f = take_rows (filter (\<lambda>i. col f c ! i \<noteq> None) [0..<fr_rows f]) f"

text \<open>\<open>None\<close>: any exception of the model. The predicted labels have the dtype of the label column.\<close>

definition live_result :: "monitor_lib \<Rightarrow> fitted \<Rightarrow> frame \<Rightarrow> string \<Rightarrow> (string \<times> rat) option" where
  "live_result lib model labeled label =
     (let features = drop_column label labeled; kind = df_kind (ml_drift lib) (col labeled label)
      in if fm_regressor model
         then (let target = map (\<lambda>v. Option.bind v (xl_number (ml_assess lib))) (col labeled label)
               in if None \<in> set target then None
                  else map_option (\<lambda>pred. (''r2'', xl_r2 (ml_assess lib) target pred)) (fm_values model features))
         else map_option (\<lambda>pred. (''accuracy'', rat_mean (map2 (\<lambda>p t. if category_text kind p = category_text kind t then 1 else 0)
             pred (dropna (col labeled label))))) (fm_labels model features))"

definition baseline_of :: "passport \<Rightarrow> string \<Rightarrow> rat option" where
  "baseline_of p metric = Option.bind (map_of (pp_metrics p) ''test'') (\<lambda>values. map_of values metric)"

definition score_of :: "passport \<Rightarrow> string \<Rightarrow> rat \<Rightarrow> frame \<Rightarrow> string \<times> rat \<Rightarrow> live_score" where
  "score_of p label tolerance labeled result = (case result of (metric, score) \<Rightarrow>
     let baseline = baseline_of p metric
     in \<lparr> ls_label = label, ls_rows = fr_rows labeled, ls_metric = metric, ls_score = round_digits 4 score, ls_baseline = baseline,
          ls_tolerance = tolerance, ls_degraded = (case baseline of None \<Rightarrow> False | Some b \<Rightarrow> score < b - tolerance) \<rparr>)"

definition performance :: "monitor_lib \<Rightarrow> passport \<Rightarrow> frame \<Rightarrow> string \<Rightarrow> rat \<Rightarrow> monitor_error + live_outcome" where
  "performance lib p batch label tolerance = (case pp_model p of
      None \<Rightarrow> Inr NoPerformance
    | Some model_info \<Rightarrow>
        if label \<notin> set (frame_columns batch) then Inr NoPerformance
        else (case verified_path lib p (mi_artifact_sha256 model_info) MODEL of
            Inl e \<Rightarrow> Inl e
          | Inr path \<Rightarrow> (case safe_load_pickle (ml_assess lib) path (the (ml_files lib path)) of
              Refused message \<Rightarrow> Inr (PerformanceError message)
            | NotAFile \<Rightarrow> Inl MonitorCrash
            | Unpickles by_joblib contents \<Rightarrow> (case xl_unpickle (ml_assess lib) by_joblib contents of
                None \<Rightarrow> Inl MonitorCrash
              | Some model \<Rightarrow>
                  (let labeled = drop_missing label batch
                   in if fr_rows labeled = 0 then Inr NoPerformance
                      else (case live_result lib model labeled label of
                          None \<Rightarrow> Inr (PerformanceError (''prediction failed: '' @ ml_failure lib model labeled label))
                        | Some result \<Rightarrow> Inr (Scored (score_of p label tolerance labeled result))))))))"

subsection \<open>The payload\<close>

definition texts_json :: "string list \<Rightarrow> json" where
  "texts_json ts = JArr (map JStr ts)"

definition nat_json :: "nat \<Rightarrow> json" where
  "nat_json n = JInt (int n)"

definition schema_json :: "(rat \<Rightarrow> json) \<Rightarrow> schema_check \<Rightarrow> json" where
  "schema_json flt s = JObj [(''missing_columns'', texts_json (sk_missing_columns s)), (''unexpected_columns'', texts_json (sk_unexpected_columns s)),
     (''type_mismatches'', texts_json (sk_type_mismatches s)),
     (''null_rate_increases'', JObj (map (\<lambda>(c, x). (c, flt x)) (sk_null_rate_increases s)))]"

definition feature_json :: "(rat \<Rightarrow> json) \<Rightarrow> feature_drift \<Rightarrow> json" where
  "feature_json flt f = JObj [(''feature'', JStr (fd_feature f)), (''kind'', JStr (fd_kind f)), (''psi'', flt (fd_psi f)),
     (''tests'', JObj (map (\<lambda>(n, t). (n, JObj [(''statistic'', flt (te_statistic t)), (''p_value'', flt (te_p_value t))])) (fd_tests f))),
     (''rejected'', nat_json (fd_rejected f)), (''drifted'', JBool (fd_drifted f)), (''unseen_categories'', nat_json (fd_unseen_categories f))]"

definition drift_payload :: "(rat \<Rightarrow> json) \<Rightarrow> drift_report \<Rightarrow> json dict" where
  "drift_payload flt r = [(''rows'', nat_json (dr_rows r)), (''reference_rows'', nat_json (dr_reference_rows r)), (''alpha'', flt (dr_alpha r)),
     (''psi_threshold'', flt (dr_psi_threshold r)), (''drift_detected'', JBool (drift_detected r)),
     (''drifted_features'', texts_json (drifted_features r)), (''schema_ok'', JBool (schema_ok (dr_schema r))),
     (''schema'', schema_json flt (dr_schema r)),
     (''features'', JObj (dict_of (map (\<lambda>f. (fd_feature f, feature_json flt f)) (dr_features r))))]"

definition performance_json :: "(rat \<Rightarrow> json) \<Rightarrow> live_outcome \<Rightarrow> json" where
  "performance_json flt perf = (case perf of
      NoPerformance \<Rightarrow> JNull
    | PerformanceSkipped \<Rightarrow> JObj [(''skipped'', JStr ''batch does not match the model's input schema'')]
    | PerformanceError message \<Rightarrow> JObj [(''error'', JStr message)]
    | Scored s \<Rightarrow> JObj [(''label'', JStr (ls_label s)), (''rows'', nat_json (ls_rows s)), (''metric'', JStr (ls_metric s)),
        (ls_metric s, flt (ls_score s)), (''baseline_'' @ ls_metric s, case ls_baseline s of None \<Rightarrow> JNull | Some b \<Rightarrow> flt b),
        (''tolerance'', flt (ls_tolerance s)), (''degraded'', JBool (ls_degraded s))])"

definition degraded :: "live_outcome \<Rightarrow> bool" where
  "degraded perf = (case perf of Scored s \<Rightarrow> ls_degraded s | _ \<Rightarrow> False)"

definition retrain_recommended :: "drift_report \<Rightarrow> live_outcome \<Rightarrow> bool" where
  "retrain_recommended drift perf \<longleftrightarrow> drift_detected drift \<or> degraded perf \<or> \<not> schema_ok (dr_schema drift)"

record monitor_result =
  mr_event :: "json dict"
  mr_drift :: drift_report
  mr_performance :: live_outcome
  mr_passport :: "json dict"                   \<comment> \<open>the passport file as it is written\<close>

definition input_schema_of :: "passport \<Rightarrow> json dict option" where
  "input_schema_of p = Option.bind (pp_model p) mi_input_schema"

definition labels_of :: "passport \<Rightarrow> string list" where
  "labels_of p = (case Option.bind (pp_model p) mi_output_schema of None \<Rightarrow> [] | Some d \<Rightarrow> map fst d)"

definition assess_performance :: "monitor_lib \<Rightarrow> passport \<Rightarrow> frame \<Rightarrow> drift_report \<Rightarrow> rat \<Rightarrow> monitor_error + live_outcome" where
  "assess_performance lib p batch drift tolerance = (case labels_of p of
      [] \<Rightarrow> Inr NoPerformance
    | label # _ \<Rightarrow> if \<not> schema_ok (dr_schema drift) then Inr PerformanceSkipped else performance lib p batch label tolerance)"

definition monitor_payload :: "monitor_lib \<Rightarrow> string \<Rightarrow> bytes \<Rightarrow> dataset_info \<Rightarrow> drift_report \<Rightarrow> live_outcome \<Rightarrow> json dict" where
  "monitor_payload lib batch_path batch_bytes dataset drift perf =
     (let flt = (\<lambda>x. JFloat (ml_repr lib x))
      in drift_payload flt drift @ [(''batch'', JStr (path_name batch_path)),
           (''batch_sha256'', JStr (sha256_file (ml_crypto lib) batch_bytes)), (''reference'', JStr (di_name dataset)),
           (''reference_sha256'', JStr (di_sha256 dataset)), (''performance'', performance_json flt perf),
           (''retrain_recommended'', JBool (retrain_recommended drift perf))])"

definition monitor_batch :: "monitor_lib \<Rightarrow> json dict \<Rightarrow> string \<Rightarrow> bytes \<Rightarrow> monitor_settings \<Rightarrow> string \<Rightarrow> string \<Rightarrow> monitor_error + monitor_result" where
  "monitor_batch lib raw batch_path sk settings event_id timestamp =
     (case ml_validate lib raw of
        None \<Rightarrow> Inl MonitorCrash
      | Some p \<Rightarrow>
          if public_key_fingerprint (ml_crypto lib) (c_public (ml_crypto lib) sk) \<noteq> id_public_key_fingerprint (pp_identity p)
          then Inl KeyDoesNotMatch
          else (case reference_dataset p (mo_reference settings) of
              Inl e \<Rightarrow> Inl e
            | Inr dataset \<Rightarrow> (case verified_path lib p (di_sha256 dataset) DATASET of
                Inl e \<Rightarrow> Inl e
              | Inr reference_path \<Rightarrow>
                  (let text_cols = string_columns (xl_str (ml_assess lib)) (input_schema_of p);
                       features = map_option (map fst) (input_schema_of p)
                   in case (xl_table (ml_assess lib) reference_path text_cols, xl_table (ml_assess lib) batch_path text_cols) of
                        (Some reference, Some batch) \<Rightarrow>
                          (case check_drift (ml_drift lib) reference batch features (labels_of p) (mo_alpha settings) (mo_psi_threshold settings) of
                             None \<Rightarrow> Inl MonitorCrash
                           | Some drift \<Rightarrow> (case assess_performance lib p batch drift (mo_degradation_tolerance settings) of
                               Inl e \<Rightarrow> Inl e
                             | Inr perf \<Rightarrow> (case ml_files lib batch_path of
                                 Some (File contents) \<Rightarrow>
                                   (case append_event (ml_crypto lib) raw DRIFT_EVENT
                                        (monitor_payload lib batch_path contents dataset drift perf) sk event_id timestamp of
                                      None \<Rightarrow> Inl MonitorCrash
                                    | Some (event, raw') \<Rightarrow> Inr \<lparr> mr_event = event, mr_drift = drift, mr_performance = perf, mr_passport = raw' \<rparr>)
                               | _ \<Rightarrow> Inl MonitorCrash)))
                      | _ \<Rightarrow> Inl TableUnreadable))))"

section \<open>Unchanged data raises no alarm\<close>

lemma py_strip_idem: "py_strip (py_strip t) = py_strip t"
proof (cases "py_lstrip t")
  case Nil
  then have blank: "py_strip t = []" by (simp add: py_strip_def py_rstrip_def)
  show ?thesis unfolding blank by (simp add: py_strip_def py_rstrip_def py_lstrip_def)
next
  case (Cons c cs)
  then have c: "\<not> is_space c"
    by (metis hd_dropWhile list.discI list.sel(1) py_lstrip_def)
  have "dropWhile is_space (rev cs @ [c]) \<noteq> []" using c by (auto simp: dropWhile_append)
  moreover have "last (dropWhile is_space (rev cs @ [c])) = c" using c by (auto simp: dropWhile_append)
  ultimately obtain ds where ds: "dropWhile is_space (rev cs @ [c]) = ds @ [c]"
    by (metis append_butlast_last_id)
  then have strip: "py_strip t = c # rev ds" using Cons by (simp add: py_strip_def py_rstrip_def)
  have "dropWhile is_space (ds @ [c]) = ds @ [c]" using ds dropWhile_idem [of is_space "rev cs @ [c]"] by simp
  then show ?thesis unfolding strip using c by (simp add: py_strip_def py_rstrip_def py_lstrip_def)
qed

lemma psi_self: "psi df r r = 0"
  by (induction r) (simp_all add: psi_def)

lemma psi_numeric_self: "psi_numeric df xs xs n = 0"
  by (simp add: psi_numeric_def Let_def psi_self)

lemma psi_categorical_self: "psi_categorical df xs xs = 0"
  by (simp add: psi_categorical_def Let_def psi_self)

lemma round_zero: "round_digits n 0 = 0"
  by (simp add: round_digits_def round_half_even_def Let_def)

lemma compare_self: "compare_column df c cells cells = Some f \<Longrightarrow> fd_psi f = 0"
  by (auto simp: compare_column_def compare_numbers_def compare_texts_def feature_def pool_def Let_def psi_numeric_self psi_categorical_self
      round_zero split: sum.splits col_role.splits if_splits)

text \<open>A column that pandas reads as numbers holds numbers.\<close>

definition number_law :: "drift_lib \<Rightarrow> bool" where
  "number_law df \<longleftrightarrow> (\<forall>cells t. df_kind df cells = NumberType \<and> Some t \<in> set cells \<longrightarrow> df_float df t \<noteq> None)"

lemma set_dropna: "t \<in> set (dropna cells) \<longleftrightarrow> Some t \<in> set cells"
  by (auto simp: dropna_def split: option.splits)

lemma length_present: "length (present (map f vs)) = length (filter (\<lambda>v. f v \<noteq> None) vs)"
  by (induction vs) (auto simp: present_def split: option.splits)

lemma numeric_rate:
  assumes "number_law df" "column_role df c cells = Inr NUMERIC"
  shows "dropna cells \<noteq> [] \<and> 95/100 \<le> (of_nat (length (present (numeric_values df (df_kind df cells) (map Some (dropna cells)))))
    / of_nat (length (dropna cells)) :: rat)"
proof -
  let ?vs = "dropna cells"
  have ne: "?vs \<noteq> []" using assms(2) by (auto simp: column_role_def drop_reason_def Let_def)
  have kind: "df_kind df cells = NumberType \<or> df_kind df cells = TextType \<and> text_role df ?vs = Inr NUMERIC"
    using assms(2) by (auto simp: column_role_def Let_def split: option.splits dtype.splits)
  show ?thesis
  proof (cases "df_kind df cells = NumberType")
    case True
    then have "\<forall>t\<in>set ?vs. df_float df t \<noteq> None" using assms(1) by (auto simp: number_law_def set_dropna)
    then have "length (present (map (df_float df) ?vs)) = length ?vs" by (simp add: length_present)
    with True ne show ?thesis by (simp add: numeric_values_def comp_def)
  next
    case False
    with kind have "PARSE_MIN_RATE \<le> parse_rate (numeric_text df) (map py_strip ?vs)"
      by (auto simp: text_role_def Let_def split: if_splits)
    moreover have "length (filter (\<lambda>v. numeric_text df v \<noteq> None) (map py_strip ?vs)) = length (filter (\<lambda>v. numeric_text df v \<noteq> None) ?vs)"
      by (simp add: filter_map comp_def numeric_text_def py_strip_idem)
    ultimately show ?thesis using False ne
      by (simp add: numeric_values_def comp_def length_present parse_rate_def PARSE_MIN_RATE_def)
  qed
qed

lemma check_column_self:
  assumes "number_law df" "sk_type_mismatches s = []" "sk_null_rate_increases s = []"
  shows "sk_type_mismatches (check_column df f f c s) = [] \<and> sk_null_rate_increases (check_column df f f c s) = []
    \<and> sk_missing_columns (check_column df f f c s) = sk_missing_columns s"
  using numeric_rate [OF assms(1), of c "col f c"] assms(2,3)
  by (auto simp: check_column_def Let_def NULL_RATE_TOLERANCE_def split: option.splits if_splits)

lemma check_schema_self:
  assumes "number_law df" "set columns \<subseteq> set (frame_columns f)"
  shows "schema_ok (check_schema df f f columns)"
proof -
  have "sk_type_mismatches (fold (check_column df f f) cs s) = [] \<and> sk_null_rate_increases (fold (check_column df f f) cs s) = []
      \<and> sk_missing_columns (fold (check_column df f f) cs s) = sk_missing_columns s"
    if "sk_type_mismatches s = []" "sk_null_rate_increases s = []" for cs s
    using that by (induction cs arbitrary: s) (simp_all add: check_column_self [OF assms(1)])
  with assms(2) show ?thesis by (auto simp: schema_ok_def check_schema_def filter_empty_conv)
qed


section \<open>Stricter settings raise fewer alarms\<close>

lemma decide_mono:
  assumes "a \<le> b" "s \<le> t" "fd_drifted (decide a t f)"
  shows "fd_drifted (decide b s f)"
proof -
  have "length (filter (\<lambda>(name, t). te_p_value t < a) xs) \<le> length (filter (\<lambda>(name, t). te_p_value t < b) xs)" for xs :: "test_result dict"
    using assms(1) by (induction xs) auto
  from this [of "fd_tests f"] assms(2,3) show ?thesis by (auto simp: decide_def Let_def)
qed

lemma decide_feature: "fd_feature (decide a t f) = fd_feature f"
  by (simp add: decide_def Let_def)

text \<open>
  A feature reported with a stricter significance level and a stricter threshold is reported with looser ones:
  the correction for the number of features does not break this, since that number is the same for both.
\<close>

theorem looser_settings_report_more:
  assumes "check_drift df reference batch features exclude alpha psi1 = Some strict"
    and "check_drift df reference batch features exclude beta psi2 = Some loose" "alpha \<le> beta" "psi2 \<le> psi1"
  shows "set (drifted_features strict) \<subseteq> set (drifted_features loose)"
proof -
  obtain results n where strict: "dr_features strict = map (decide (alpha / of_nat n) psi1) results"
    and loose: "dr_features loose = map (decide (beta / of_nat n) psi2) results"
    using assms(1,2) unfolding check_drift_def Let_def by (auto split: if_splits)
  have "alpha / of_nat n \<le> beta / of_nat n" using assms(3) by (simp add: divide_right_mono)
  from decide_mono [OF this assms(4)] show ?thesis
    by (auto simp: drifted_features_def strict loose filter_map decide_feature)
qed

section \<open>The event of a check\<close>

lemma verified_path_Inr:
  assumes "verified_path lib p sha256 kind = Inr path"
  shows "\<exists>a\<in>set (pp_artifacts p). ar_path a = path \<and> ar_sha256 a = sha256 \<and> ar_kind a = kind
    \<and> (\<exists>contents. ml_files lib path = Some (File contents) \<and> sha256_file (ml_crypto lib) contents = sha256)"
  using assms by (auto simp: verified_path_def artifact_path_def find_Some_iff split: sum.splits option.splits node.splits if_splits)

lemma monitored:
  assumes "monitor_batch lib raw batch_path sk settings eid ts = Inr res"
  obtains p dataset path contents where "ml_validate lib raw = Some p"
    "public_key_fingerprint (ml_crypto lib) (c_public (ml_crypto lib) sk) = id_public_key_fingerprint (pp_identity p)"
    "reference_dataset p (mo_reference settings) = Inr dataset" "verified_path lib p (di_sha256 dataset) DATASET = Inr path"
    "ml_files lib batch_path = Some (File contents)"
    "append_event (ml_crypto lib) raw DRIFT_EVENT (monitor_payload lib batch_path contents dataset (mr_drift res) (mr_performance res)) sk eid ts
      = Some (mr_event res, mr_passport res)"
  using assms unfolding monitor_batch_def Let_def
  by (auto split: option.splits if_splits sum.splits node.splits prod.splits)

text \<open>
  C34. A successful check only adds to the history it read: the events of the passport still verify, the new one
  last, and what the passport's signature covers is as before. The event names, under its own signature, the
  digest of the reference, which is that of a dataset of the passport, listed as an artifact and found on disk with
  this digest, and recommends retraining exactly on drift, degradation or a schema that does not fit.
\<close>

theorem check_extends_the_passport:
  assumes "monitor_batch lib raw batch_path sk settings eid ts = Inr res" "signature_laws (ml_crypto lib) sk"
    and "verify_events (ml_crypto lib) raw (c_public (ml_crypto lib) sk) = Some []"
  shows "verify_events (ml_crypto lib) (mr_passport res) (c_public (ml_crypto lib) sk) = Some []
    \<and> signing_payload (mr_passport res) = signing_payload raw
    \<and> events_of (mr_passport res) = map_option (\<lambda>es. es @ [JObj (mr_event res)]) (events_of raw)
    \<and> (\<exists>p d a contents payload. ml_validate lib raw = Some p \<and> d \<in> set (pp_datasets p) \<and> a \<in> set (pp_artifacts p)
        \<and> ar_kind a = DATASET \<and> ml_files lib (ar_path a) = Some (File contents) \<and> sha256_file (ml_crypto lib) contents = di_sha256 d
        \<and> map_of (mr_event res) ''payload'' = Some (JObj payload)
        \<and> map_of payload ''reference_sha256'' = Some (JStr (di_sha256 d))
        \<and> map_of payload ''retrain_recommended'' = Some (JBool (drift_detected (mr_drift res) \<or> degraded (mr_performance res)
            \<or> \<not> schema_ok (dr_schema (mr_drift res)))))"
proof -
  obtain p d path batch where m: "ml_validate lib raw = Some p"
    "reference_dataset p (mo_reference settings) = Inr d" "verified_path lib p (di_sha256 d) DATASET = Inr path"
    and appended: "append_event (ml_crypto lib) raw DRIFT_EVENT (monitor_payload lib batch_path batch d (mr_drift res) (mr_performance res)) sk eid ts
      = Some (mr_event res, mr_passport res)"
    by (rule monitored [OF assms(1)], rule that)
  obtain a contents where a: "a \<in> set (pp_artifacts p)" "ar_path a = path" "ar_kind a = DATASET"
    "ml_files lib path = Some (File contents)" "sha256_file (ml_crypto lib) contents = di_sha256 d"
    using verified_path_Inr [OF m(3)] by blast
  have "d \<in> set (pp_datasets p)"
    using m(2) by (auto simp: reference_dataset_def Let_def find_Some_iff split: option.splits)
  let ?payload = "monitor_payload lib batch_path batch d (mr_drift res) (mr_performance res)"
  have "map_of (mr_event res) ''payload'' = Some (JObj ?payload)"
    by (rule append_event_cases [OF appended]) (simp add: new_event_def update_conv')
  moreover have "map_of ?payload ''reference_sha256'' = Some (JStr (di_sha256 d))"
    "map_of ?payload ''retrain_recommended'' = Some (JBool (retrain_recommended (mr_drift res) (mr_performance res)))"
    by (simp_all add: monitor_payload_def drift_payload_def Let_def)
  ultimately show ?thesis
    using append_event_keeps [OF assms(2,3) appended] m(1) a \<open>d \<in> set (pp_datasets p)\<close> unfolding retrain_recommended_def by blast
qed

section \<open>Examples\<close>

definition mon_drift :: drift_lib where
  "mon_drift = \<lparr> df_kind = (\<lambda>cells. NumberType), df_float = (\<lambda>t. Some (of_nat (length t))), df_days = (\<lambda>t. None), df_ln = (\<lambda>x. x - 1),
     df_ks = (\<lambda>a b. (1, 0)), df_mwu = (\<lambda>a b. (1, 0)), df_cvm = (\<lambda>a b. (1, 0)), df_chi2 = (\<lambda>a b. (1, 0)), df_ranked = remdups, df_sample = (\<lambda>k n. [0..<k]) \<rparr>"

definition mon_frame :: frame where
  "mon_frame = \<lparr> fr_rows = 3, fr_cols = [(''age'', [Some ''1'', Some ''22'', Some ''333''])] \<rparr>"

definition mon_dataset :: dataset_info where
  "mon_dataset = \<lparr> di_name = ''train'', di_source = None, di_license = None, di_row_count = Some 3, di_column_schema = None,
     di_sha256 = sha256_file example_crypto ''rows'', di_split_role = TRAIN \<rparr>"

definition mon_passport :: passport where
  "mon_passport = \<lparr> pp_schema_version = ''0.1'',
     pp_identity = \<lparr> id_passport_id = ''id'', id_model_name = ''m'', id_version = ''1'', id_created_at = ''now'', id_merkle_root = [],
       id_public_key_fingerprint = public_key_fingerprint example_crypto ''k'', id_signature = None \<rparr>,
     pp_artifacts = [\<lparr> ar_path = ''train.csv'', ar_sha256 = sha256_file example_crypto ''rows'', ar_size_bytes = 4, ar_kind = DATASET \<rparr>],
     pp_model = None, pp_datasets = [mon_dataset], pp_pipeline = [], pp_run = None, pp_environment = None, pp_metrics = [],
     pp_privacy_report = None, pp_security_report = None, pp_policy = None,
     pp_declared = \<lparr> de_intended_use = None, de_out_of_scope_uses = [], de_known_limitations = [], de_ethical_risks = [], de_owner = None, de_contact = None \<rparr>,
     pp_lineage_links = [], pp_revision = None, pp_events = [] \<rparr>"

definition mon_lib :: monitor_lib where
  "mon_lib = \<lparr> ml_crypto = example_crypto, ml_assess = ex_xl\<lparr> xl_table := (\<lambda>path cols. Some mon_frame) \<rparr>, ml_drift = mon_drift,
     ml_validate = (\<lambda>doc. Some mon_passport), ml_files = (\<lambda>path. Some (File ''rows'')), ml_failure = (\<lambda>m f l. []), ml_repr = (\<lambda>x. ''0.5'') \<rparr>"

lemma mon_check: "\<exists>r. check_drift mon_drift mon_frame mon_frame None [] alpha threshold = Some r"
  by (simp add: check_drift_def Let_def list_ex_iff)


theorem looser_settings_report_more_witness:
  "\<exists>strict loose. check_drift mon_drift mon_frame mon_frame None [] (1/100) 1 = Some strict
    \<and> check_drift mon_drift mon_frame mon_frame None [] (1/10) (1/10) = Some loose
    \<and> set (drifted_features strict) \<subseteq> set (drifted_features loose)"
proof -
  obtain strict loose where r: "check_drift mon_drift mon_frame mon_frame None [] (1/100) 1 = Some strict"
    "check_drift mon_drift mon_frame mon_frame None [] (1/10) (1/10) = Some loose" using mon_check by metis
  from looser_settings_report_more [OF r] r show ?thesis by simp
qed

lemma json_finite_texts: "json_finite (texts_json ts)"
  by (simp add: texts_json_def list_all_iff)

lemma json_finite_schema: "(\<And>x. json_finite (flt x)) \<Longrightarrow> json_finite (schema_json flt s)"
  by (auto simp: schema_json_def json_finite_texts list_all_iff)

lemma json_finite_feature: "(\<And>x. json_finite (flt x)) \<Longrightarrow> json_finite (feature_json flt f)"
  by (auto simp: feature_json_def nat_json_def list_all_iff)

lemma json_finite_features:
  assumes "\<And>x. json_finite (flt x)"
  shows "json_finite (JObj (dict_of (map (\<lambda>f. (g f, feature_json flt f)) fs)))"
proof -
  have "json_finite v" if "(k, v) \<in> set (dict_of (map (\<lambda>f. (g f, feature_json flt f)) fs))" for k v
  proof -
    from that have "map_of (dict_of (map (\<lambda>f. (g f, feature_json flt f)) fs)) k = Some v" by (simp add: map_of_is_SomeI)
    then have "(k, v) \<in> set (rev (map (\<lambda>f. (g f, feature_json flt f)) fs))" unfolding map_of_dict_of by (rule map_of_SomeD)
    then show ?thesis by (auto intro: json_finite_feature [OF assms])
  qed
  then show ?thesis by (auto simp: list_all_iff)
qed

lemma json_finite_drift: "(\<And>x. json_finite (flt x)) \<Longrightarrow> list_all (\<lambda>(k, v). json_finite v) (drift_payload flt r)"
  using json_finite_features [unfolded json_finite.simps(3)] unfolding drift_payload_def
  by (simp only: list.pred_inject case_prod_conv json_finite_texts json_finite_schema json_finite_features nat_json_def json_finite.simps simp_thms)

lemma json_finite_payload: "json_finite (JObj (monitor_payload mon_lib path contents d drift NoPerformance))"
proof -
  have finite: "json_finite (JFloat (ml_repr mon_lib x))" for x by (simp add: mon_lib_def)
  show ?thesis
    unfolding monitor_payload_def Let_def json_finite.simps(3) list_all_append performance_json_def live_outcome.case
    using json_finite_drift [OF finite] by (simp only: list.pred_inject case_prod_conv json_finite.simps simp_thms)
qed

lemma mon_verified: "verified_path mon_lib mon_passport (di_sha256 mon_dataset) DATASET = Inr ''train.csv''"
  by (simp add: verified_path_def artifact_path_def mon_passport_def mon_dataset_def mon_lib_def)

lemma mon_runs: "\<exists>res. monitor_batch mon_lib example_log ''batch.csv'' ''k'' default_monitor_settings ''e9'' ''t9'' = Inr res"
proof -
  let ?s = "default_monitor_settings"
  obtain r where r: "check_drift mon_drift mon_frame mon_frame None [] (mo_alpha ?s) (mo_psi_threshold ?s) = Some r" using mon_check by blast
  obtain e q where "append_event example_crypto example_log DRIFT_EVENT (monitor_payload mon_lib ''batch.csv'' ''rows'' mon_dataset r NoPerformance) ''k'' ''e9'' ''t9'' = Some (e, q)"
    using append_event_total [OF example_log_verifies json_finite_payload] example_log_good [unfolded example_good_def] by blast
  moreover have "reference_dataset mon_passport None = Inr mon_dataset"
    by (simp add: reference_dataset_def mon_passport_def mon_dataset_def Let_def)
  moreover have "labels_of mon_passport = []" "input_schema_of mon_passport = None"
    by (simp_all add: labels_of_def input_schema_of_def mon_passport_def)
  moreover have "ml_validate mon_lib example_log = Some mon_passport" "ml_crypto mon_lib = example_crypto" "ml_drift mon_lib = mon_drift"
    "ml_files mon_lib ''batch.csv'' = Some (File ''rows'')" "xl_table (ml_assess mon_lib) p cs = Some mon_frame" for p cs
    by (simp_all add: mon_lib_def)
  moreover have "id_public_key_fingerprint (pp_identity mon_passport) = public_key_fingerprint example_crypto (c_public example_crypto ''k'')"
    by (simp add: mon_passport_def example_crypto_def)
  moreover have "mo_reference ?s = None" by (simp add: default_monitor_settings_def)
  ultimately show ?thesis using r mon_verified unfolding monitor_batch_def Let_def by (simp add: assess_performance_def)
qed

theorem check_extends_the_passport_witness:
  "\<exists>res. monitor_batch mon_lib example_log ''batch.csv'' ''k'' default_monitor_settings ''e9'' ''t9'' = Inr res
    \<and> verify_events example_crypto (mr_passport res) (c_public example_crypto ''k'') = Some []"
proof -
  obtain res where res: "monitor_batch mon_lib example_log ''batch.csv'' ''k'' default_monitor_settings ''e9'' ''t9'' = Inr res"
    using mon_runs by blast
  have crypto: "ml_crypto mon_lib = example_crypto" by (simp add: mon_lib_def)
  from check_extends_the_passport [OF res] example_laws example_log_verifies res show ?thesis unfolding crypto by blast
qed

end
