(* ===== verification/MP_Anonymize.thy ===== *)
theory MP_Anonymize
  imports MP_Drift "HOL-Library.Log_Nat"
begin

text \<open>
  Privacy preprocessing of a table (\<^verbatim>\<open>ml/privacy.py\<close>): finding direct identifiers, generalizing quasi-identifiers down a
  ladder of ever coarser rules, and suppressing the records that are left in small groups. Cells are texts, as in
  \<^verbatim>\<open>MP_Scan\<close>; numbers are exact rationals. \<open>anon_lib\<close> adds to \<open>drift_lib\<close> the mutual information of scikit-learn,
  the quantile bins of pandas and Python's \<^verbatim>\<open>{:g}\<close>.
\<close>

record anon_lib =
  an_scan :: scan_lib
  an_drift :: drift_lib
  an_information :: "string list \<Rightarrow> string list \<Rightarrow> rat"        \<comment> \<open>target, values\<close>
  an_bins :: "nat \<Rightarrow> string option list \<Rightarrow> string list"       \<comment> \<open>the quantile bins of the ranks\<close>
  an_general :: "rat \<Rightarrow> string"

definition MIN_BUCKETS :: nat where "MIN_BUCKETS = 3"
definition TAIL_QUANTILE :: rat where "TAIL_QUANTILE = 5/100"
definition PREFIX_MIN_LENGTH :: nat where "PREFIX_MIN_LENGTH = 4"
definition PREFIX_MASKED :: nat where "PREFIX_MASKED = 2"
definition MIN_RANGE_VALUES :: nat where "MIN_RANGE_VALUES = 10"
definition MAX_COARSENING_STEPS :: nat where "MAX_COARSENING_STEPS = 40"
definition LABEL_BINS :: nat where "LABEL_BINS = 5"
definition LOSS_FLOOR :: rat where "LOSS_FLOOR = 1/1000"
definition OTHER_POOLED :: string where "OTHER_POOLED = ''other''"
definition SUPPRESSED :: string where "SUPPRESSED = ''*''"

section \<open>Which columns\<close>

definition default_pii_scanner :: pii_scanner where
  "default_pii_scanner = \<lparr> px_sample_size = Some 10000, px_max_examples = 2, px_use_presidio = False \<rparr>"

definition direct_identifier :: "finding \<Rightarrow> bool" where
  "direct_identifier f \<longleftrightarrow> (case map_of (fi_details f) ''direct_identifier'' of None \<Rightarrow> False | Some j \<Rightarrow> \<not> json_falsy j)"

definition finding_column :: "finding \<Rightarrow> string list" where
  "finding_column f = (case fi_location f of None \<Rightarrow> [] | Some l \<Rightarrow> if CHR '':'' \<in> set l then [snd (py_partition (CHR '':'') l)] else [])"

definition detect_identifiers :: "anon_lib \<Rightarrow> frame \<Rightarrow> string list \<Rightarrow> string list" where
  "detect_identifiers lib f keep =
     (let findings = pii_scan (an_scan lib) default_pii_scanner ''input'' f;
          columns = concat (map finding_column (filter direct_identifier findings))
      in filter (\<lambda>c. c \<in> set columns \<and> c \<notin> set keep) (frame_columns f))"

datatype requested = AutoColumns | OneColumn string | TheColumns "string list"

definition quasi_identifiers :: "frame \<Rightarrow> requested \<Rightarrow> string list \<Rightarrow> string list" where
  "quasi_identifiers f requested exclude =
     (let columns = (case requested of
            AutoColumns \<Rightarrow> suggest_quasi_identifiers f
          | OneColumn c \<Rightarrow> if c = ''auto'' then suggest_quasi_identifiers f else [c]
          | TheColumns cs \<Rightarrow> cs)
      in filter (\<lambda>c. c \<in> set (frame_columns f) \<and> c \<notin> set exclude) columns)"

section \<open>Rules\<close>

record range_rule =
  ra_width :: rat
  ra_low :: rat
  ra_high :: rat
  ra_integer :: bool

datatype gen_rule = RangeRule range_rule | PrefixRule nat | PoolRule "string list" | SuppressRule

text \<open>\<open>10 ** math.floor(math.log10(x))\<close> of a positive number.\<close>

definition power_of_ten :: "rat \<Rightarrow> rat" where
  "power_of_ten x = (if 1 \<le> x then 10 ^ (floorlog 10 (nat \<lfloor>x\<rfloor>) - 1) else 1 / 10 ^ floorlog 10 (nat (\<lceil>1 / x\<rceil> - 1)))"

definition nice_width :: "rat \<Rightarrow> rat \<Rightarrow> rat" where
  "nice_width extent width =
     (if extent \<le> 0 \<or> of_nat MIN_BUCKETS \<le> extent / width then width
      else let raw = extent / of_nat MIN_BUCKETS; magnitude = power_of_ten raw
        in if 5 * magnitude \<le> raw then 5 * magnitude else if 2 * magnitude \<le> raw then 2 * magnitude else magnitude)"

definition bucket_start :: "rat \<Rightarrow> rat \<Rightarrow> rat" where
  "bucket_start x width = round_digits 10 (of_int \<lfloor>x / width + 1 / 10 ^ 9\<rfloor> * width)"

definition make_range_rule :: "rat list \<Rightarrow> rat \<Rightarrow> gen_rule" where
  "make_range_rule values width =
     (let low = bucket_start (quantile values TAIL_QUANTILE) width;
          high = max (bucket_start (quantile values (1 - TAIL_QUANTILE)) width) (low + width)
      in RangeRule \<lparr> ra_width = width, ra_low = low, ra_high = high, ra_integer = list_all (\<lambda>v. of_int \<lfloor>v\<rfloor> = v) values \<rparr>)"

definition numeric_rule :: "rat list \<Rightarrow> rat \<Rightarrow> gen_rule" where
  "numeric_rule values width =
     make_range_rule values (nice_width (quantile values (1 - TAIL_QUANTILE) - quantile values TAIL_QUANTILE) width)"

text \<open>Fixed-length digit strings.\<close>

definition is_code :: "string list \<Rightarrow> bool" where
  "is_code values \<longleftrightarrow> list_all (\<lambda>t. t \<noteq> [] \<and> list_all is_digit t) values
     \<and> length (remdups (map length values)) = 1 \<and> PREFIX_MIN_LENGTH \<le> length (hd values)"

text \<open>The numbers of a numeric column; the texts of any column.\<close>

definition numbers :: "anon_lib \<Rightarrow> string option list \<Rightarrow> rat list" where
  "numbers lib cells = present (map (\<lambda>v. Option.bind v (df_float (an_drift lib))) cells)"

definition is_numeric :: "anon_lib \<Rightarrow> string option list \<Rightarrow> bool" where
  "is_numeric lib cells \<longleftrightarrow> df_kind (an_drift lib) cells = NumberType"

definition initial_rule :: "anon_lib \<Rightarrow> string option list \<Rightarrow> rat \<Rightarrow> gen_rule option" where
  "initial_rule lib cells width =
     (let values = dropna cells
      in if values = [] then None
         else if is_numeric lib cells \<and> MIN_RANGE_VALUES \<le> nunique values then Some (numeric_rule (numbers lib cells) width)
         else if is_code values then Some (PrefixRule (length (hd values) - PREFIX_MASKED))
         else None)"

definition initial_rules :: "anon_lib \<Rightarrow> frame \<Rightarrow> string list \<Rightarrow> rat \<Rightarrow> gen_rule dict" where
  "initial_rules lib f columns width =
     dict_of (concat (map (\<lambda>c. case initial_rule lib (col f c) width of None \<Rightarrow> [] | Some r \<Rightarrow> [(c, r)]) columns))"

definition pooled :: "anon_lib \<Rightarrow> string list option \<Rightarrow> string list \<Rightarrow> gen_rule option" where
  "pooled lib kept values =
     (let keep = filter (\<lambda>c. case kept of None \<Rightarrow> True | Some ks \<Rightarrow> c \<in> set ks) (df_ranked (an_drift lib) values)
      in if length keep \<le> 2 then None else Some (PoolRule (sort (butlast keep))))"

definition generalize_further :: "anon_lib \<Rightarrow> gen_rule option \<Rightarrow> string option list \<Rightarrow> gen_rule option" where
  "generalize_further lib rule cells = (case rule of
      None \<Rightarrow> pooled lib None (dropna cells)
    | Some (PoolRule keep) \<Rightarrow> pooled lib (Some keep) (dropna cells)
    | Some (RangeRule r) \<Rightarrow> if ra_high r \<le> ra_low r + ra_width r then None else Some (make_range_rule (numbers lib cells) (ra_width r * 2))
    | Some (PrefixRule keep) \<Rightarrow> if 1 < keep then Some (PrefixRule (keep - 1)) else None
    | Some SuppressRule \<Rightarrow> None)"

definition coarser :: "anon_lib \<Rightarrow> gen_rule option \<Rightarrow> string option list \<Rightarrow> gen_rule option" where
  "coarser lib rule cells = (case generalize_further lib rule cells of
      None \<Rightarrow> if rule \<noteq> Some SuppressRule then Some SuppressRule else None
    | Some r \<Rightarrow> Some r)"

text \<open>\<open>_ladder\<close>: at most \<open>n\<close> rungs.\<close>

fun ladder :: "anon_lib \<Rightarrow> nat \<Rightarrow> gen_rule option \<Rightarrow> string option list \<Rightarrow> gen_rule list" where
  "ladder lib 0 rule cells = []"
| "ladder lib (Suc n) rule cells = (case coarser lib rule cells of
      None \<Rightarrow> []
    | Some r \<Rightarrow> r # ladder lib n (Some r) cells)"

section \<open>Applying rules\<close>

definition truncate_rat :: "rat \<Rightarrow> int" where
  "truncate_rat x = (if 0 \<le> x then \<lfloor>x\<rfloor> else \<lceil>x\<rceil>)"

definition format_number :: "anon_lib \<Rightarrow> rat \<Rightarrow> bool \<Rightarrow> string" where
  "format_number lib x integer = (if integer \<or> of_int \<lfloor>x\<rfloor> = x then int_str (truncate_rat x) else an_general lib x)"

text \<open>The bounds a label shows: below, above, or a range.\<close>

datatype bucket = Below rat | Above rat | Between rat rat

definition bucket_of :: "range_rule \<Rightarrow> rat \<Rightarrow> bucket" where
  "bucket_of r x =
     (let start = bucket_start x (ra_width r)
      in if start \<le> ra_low r then Below (ra_low r + ra_width r)
         else if ra_high r \<le> start then Above (ra_high r)
         else Between start (if ra_integer r \<and> of_int \<lfloor>ra_width r\<rfloor> = ra_width r then start + ra_width r - 1 else start + ra_width r))"

definition show_bucket :: "anon_lib \<Rightarrow> bool \<Rightarrow> bucket \<Rightarrow> string" where
  "show_bucket lib integer b = (case b of
      Below x \<Rightarrow> ''<'' @ format_number lib x integer
    | Above x \<Rightarrow> format_number lib x integer @ ''+''
    | Between x y \<Rightarrow> format_number lib x integer @ ''-'' @ format_number lib y integer)"

definition range_label :: "anon_lib \<Rightarrow> range_rule \<Rightarrow> string option \<Rightarrow> string option" where
  "range_label lib r cell = (case Option.bind cell (df_float (an_drift lib)) of
      None \<Rightarrow> None
    | Some x \<Rightarrow> Some (show_bucket lib (ra_integer r) (bucket_of r x)))"

definition prefix_label :: "nat \<Rightarrow> string option \<Rightarrow> string option" where
  "prefix_label keep cell = map_option (\<lambda>t. take keep t @ replicate (length t - keep) (CHR ''*'')) cell"

definition pool_label :: "string list \<Rightarrow> string option \<Rightarrow> string option" where
  "pool_label keep cell = map_option (\<lambda>t. if t \<in> set keep then t else OTHER_POOLED) cell"

definition generalize_cell :: "anon_lib \<Rightarrow> gen_rule \<Rightarrow> string option \<Rightarrow> string option" where
  "generalize_cell lib rule cell = (case rule of
      RangeRule r \<Rightarrow> range_label lib r cell
    | PrefixRule keep \<Rightarrow> prefix_label keep cell
    | PoolRule keep \<Rightarrow> pool_label keep cell
    | SuppressRule \<Rightarrow> Some SUPPRESSED)"

definition map_column :: "string \<Rightarrow> (string option \<Rightarrow> string option) \<Rightarrow> frame \<Rightarrow> frame" where
  "map_column c g f = f\<lparr> fr_cols := map (\<lambda>(d, cells). (d, if d = c then map g cells else cells)) (fr_cols f) \<rparr>"

definition apply_generalization :: "anon_lib \<Rightarrow> gen_rule dict \<Rightarrow> frame \<Rightarrow> frame" where
  "apply_generalization lib rules f = fold (\<lambda>(c, rule). map_column c (generalize_cell lib rule)) rules f"

section \<open>Small groups\<close>

definition at_risk :: "frame \<Rightarrow> string list \<Rightarrow> int \<Rightarrow> nat" where
  "at_risk f columns k = (if columns = [] \<or> fr_rows f = 0 then 0
     else sum_list (filter (\<lambda>n. int n < k) (class_sizes f columns)))"

definition group_size :: "frame \<Rightarrow> string list \<Rightarrow> nat \<Rightarrow> nat" where
  "group_size f columns i = length (filter (\<lambda>key. key = row_key f columns i) (row_keys f columns))"

definition suppress_small_groups :: "frame \<Rightarrow> string list \<Rightarrow> int \<Rightarrow> frame \<times> nat" where
  "suppress_small_groups f columns k =
     (if columns = [] \<or> fr_rows f = 0 then (f, 0)
      else let keep = (\<lambda>i. k \<le> int (group_size f columns i))
        in (take_rows (filter keep [0..<fr_rows f]) f, length (filter (\<lambda>i. \<not> keep i) [0..<fr_rows f])))"

section \<open>Fitting\<close>

definition cell_text :: "string option \<Rightarrow> string" where
  "cell_text cell = (case cell of None \<Rightarrow> ''nan'' | Some t \<Rightarrow> t)"

definition label_codes :: "anon_lib \<Rightarrow> string option list \<Rightarrow> string list" where
  "label_codes lib label =
     (if is_numeric lib label \<and> LABEL_BINS < nunique (dropna label) then an_bins lib LABEL_BINS label else map cell_text label)"

definition information :: "anon_lib \<Rightarrow> string option list \<Rightarrow> string list option \<Rightarrow> rat" where
  "information lib column label =
     (let values = map cell_text column in an_information lib (case label of None \<Rightarrow> values | Some l \<Rightarrow> l) values)"

record coarsening =
  co_column :: string
  co_rule :: gen_rule
  co_gain :: int
  co_loss :: rat

definition coarsening_value :: "coarsening \<Rightarrow> rat \<times> rat" where
  "coarsening_value s = (of_int (co_gain s) / (co_loss s + LOSS_FLOOR), - co_loss s)"

definition candidate_steps :: "anon_lib \<Rightarrow> frame \<Rightarrow> string list \<Rightarrow> gen_rule dict \<Rightarrow> string list option \<Rightarrow> int \<Rightarrow> coarsening list" where
  "candidate_steps lib f names rules label k =
     (let current = apply_generalization lib rules f; risk = at_risk current names k
      in concat (map (\<lambda>column. let start = information lib (col current column) label
           in map (\<lambda>rule. let trial = apply_generalization lib (AList.update column rule rules) f
                 in \<lparr> co_column = column, co_rule = rule, co_gain = int risk - int (at_risk trial names k),
                      co_loss = max (start - information lib (col trial column) label) 0 \<rparr>)
               (ladder lib MAX_COARSENING_STEPS (map_of rules column) (col f column))) names))"

text \<open>\<open>max(steps, key=value)\<close>: pairs compare lexicographically, and the first of equals wins.\<close>

definition worse :: "coarsening \<Rightarrow> coarsening \<Rightarrow> bool" where
  "worse s t \<longleftrightarrow> (case (coarsening_value s, coarsening_value t) of ((a, b), (c, d)) \<Rightarrow> a < c \<or> a = c \<and> b < d)"

definition best_step :: "coarsening list \<Rightarrow> coarsening" where
  "best_step steps = fold (\<lambda>t best. if worse best t then t else best) (tl steps) (hd steps)"

fun fit_steps :: "anon_lib \<Rightarrow> nat \<Rightarrow> frame \<Rightarrow> string list \<Rightarrow> string list option \<Rightarrow> int \<Rightarrow> rat \<Rightarrow> gen_rule dict \<Rightarrow> gen_rule dict" where
  "fit_steps lib 0 f names label k permitted rules = rules"
| "fit_steps lib (Suc n) f names label k permitted rules =
     (if of_nat (at_risk (apply_generalization lib rules f) names k) \<le> permitted then rules
      else case candidate_steps lib f names rules label k of
          [] \<Rightarrow> rules
        | steps \<Rightarrow> (let best = best_step steps
            in fit_steps lib n f names label k permitted (AList.update (co_column best) (co_rule best) rules)))"

definition fit_generalization :: "anon_lib \<Rightarrow> frame \<Rightarrow> string list \<Rightarrow> rat \<Rightarrow> int option \<Rightarrow> rat \<Rightarrow> string option list option \<Rightarrow> gen_rule dict" where
  "fit_generalization lib f names width target_k max_suppression label =
     (let rules = initial_rules lib f names width
      in case target_k of
           None \<Rightarrow> rules
         | Some k \<Rightarrow> if k = 0 \<or> names = [] then rules
             else fit_steps lib MAX_COARSENING_STEPS f names (map_option (label_codes lib) label) k
                    (max_suppression * of_nat (fr_rows f)) rules)"

end
