(* ===== verification/MP_Preprocess.thy ===== *)
theory MP_Preprocess
  imports MP_Anonymize
begin

text \<open>
  Preparing a table for training: the learning task and the cleaning of rows (\<^verbatim>\<open>ml/task.py\<close>), the \<^verbatim>\<open>preprocess\<close> stage
  and the treatment of later batches by the certified manifest (\<^verbatim>\<open>ml/stages.py\<close>). The stage parameters are a record
  of the types their defaults have. \<open>prep_lib\<close> stands for the split of scikit-learn, the reading of tables and
  manifests, and the files below the project root.
\<close>

section \<open>Task and rows\<close>

definition MAX_INTEGER_CLASSES :: nat where "MAX_INTEGER_CLASSES = 10"
definition MIN_CLASS_ROWS :: nat where "MIN_CLASS_ROWS = 3"
definition MIN_ROWS :: nat where "MIN_ROWS = 10"
definition REGRESSION_STRATA :: nat where "REGRESSION_STRATA = 5"
definition MIN_ROWS_PER_STRATUM :: nat where "MIN_ROWS_PER_STRATUM = 10"

datatype learn_task = BINARY | MULTICLASS | REGRESSION

definition task_value :: "learn_task \<Rightarrow> string" where
  "task_value t = (case t of BINARY \<Rightarrow> ''binary-classification'' | MULTICLASS \<Rightarrow> ''multiclass-classification'' | REGRESSION \<Rightarrow> ''regression'')"

definition is_classification :: "learn_task \<Rightarrow> bool" where
  "is_classification t \<longleftrightarrow> t \<noteq> REGRESSION"

datatype prep_error =
    DataError string
  | PrepCrash                          \<comment> \<open>any other exception\<close>

datatype split_size = Share rat | Rows int

record prep_lib =
  pr_anon :: anon_lib
  pr_split :: "nat \<Rightarrow> split_size \<Rightarrow> int \<Rightarrow> string list option \<Rightarrow> (nat list \<times> nat list) option"
  pr_read :: "string \<Rightarrow> frame option"
  pr_files :: "string \<Rightarrow> node option"
  pr_crypto :: crypto

definition repr_list :: "anon_lib \<Rightarrow> string list \<Rightarrow> string" where
  "repr_list lib cs = ''['' @ py_join '', '' (map (sn_repr (an_scan lib)) cs) @ '']''"

definition infer_task :: "anon_lib \<Rightarrow> string \<Rightarrow> string option list \<Rightarrow> string option \<Rightarrow> prep_error + learn_task" where
  "infer_task lib name cells override =
     (let values = dropna cells; distinct_values = nunique values
      in if override \<notin> {None, Some [], Some ''auto''}
         then (case List.find (\<lambda>t. Some (task_value t) = override) [BINARY, MULTICLASS, REGRESSION] of
                 None \<Rightarrow> Inl PrepCrash | Some t \<Rightarrow> Inr t)
         else if distinct_values < 2
         then Inl (DataError (''label '' @ sn_repr (an_scan lib) name @ '' has '' @ nat_str distinct_values @ '' distinct value(s); need at least 2''))
         else if is_numeric lib cells \<and> (\<not> list_all (\<lambda>v. of_int \<lfloor>v\<rfloor> = v) (numbers lib cells) \<or> MAX_INTEGER_CLASSES < distinct_values)
         then Inr REGRESSION
         else Inr (if distinct_values = 2 then BINARY else MULTICLASS))"

record row_report =
  rw_rows_in :: nat
  rw_missing_label :: nat
  rw_duplicates :: nat
  rw_rare_classes :: "nat dict"

definition rows_out :: "row_report \<Rightarrow> int" where
  "rows_out r = int (rw_rows_in r) - int (rw_missing_label r) - int (rw_duplicates r) - int (sum_list (map snd (rw_rare_classes r)))"

definition where_rows :: "(nat \<Rightarrow> bool) \<Rightarrow> frame \<Rightarrow> frame" where
  "where_rows keep f = take_rows (filter keep [0..<fr_rows f]) f"

definition drop_duplicates :: "frame \<Rightarrow> frame" where
  "drop_duplicates f = where_rows (\<lambda>i. row_key f (frame_columns f) i \<notin> row_key f (frame_columns f) ` {..<i}) f"

definition rare_classes :: "anon_lib \<Rightarrow> string list \<Rightarrow> nat \<Rightarrow> nat dict" where
  "rare_classes lib labels min_class_rows =
     map (\<lambda>v. (v, count_list labels v)) (filter (\<lambda>v. count_list labels v < min_class_rows) (df_ranked (an_drift lib) labels))"

definition clean_rows :: "anon_lib \<Rightarrow> frame \<Rightarrow> string \<Rightarrow> learn_task \<Rightarrow> nat \<Rightarrow> prep_error + frame \<times> row_report" where
  "clean_rows lib f label t min_class_rows =
     (if label \<notin> set (frame_columns f) then Inl (DataError (''label column '' @ sn_repr (an_scan lib) label @ '' not found; columns are '' @ repr_list lib (frame_columns f)))
      else let labeled = where_rows (\<lambda>i. col f label ! i \<noteq> None) f;
        deduped = drop_duplicates labeled;
        rare = (if is_classification t then rare_classes lib (dropna (col deduped label)) min_class_rows else []);
        kept = (if is_classification t then where_rows (\<lambda>i. map_of rare (cell_text (col deduped label ! i)) = None) deduped else deduped);
        report = \<lparr> rw_rows_in = fr_rows f, rw_missing_label = fr_rows f - fr_rows labeled,
          rw_duplicates = fr_rows labeled - fr_rows deduped, rw_rare_classes = rare \<rparr>
      in if is_classification t \<and> nunique (dropna (col kept label)) < 2
         then Inl (DataError (''fewer than 2 classes have at least '' @ nat_str min_class_rows @ '' rows; collect more data''))
         else if fr_rows kept < MIN_ROWS
         then Inl (DataError (''only '' @ nat_str (fr_rows kept) @ '' usable rows; need at least '' @ nat_str MIN_ROWS))
         else Inr (kept, report))"

definition strata :: "anon_lib \<Rightarrow> string option list \<Rightarrow> learn_task \<Rightarrow> string list option" where
  "strata lib label t =
     (if is_classification t then Some (map cell_text label)
      else if length label < REGRESSION_STRATA * MIN_ROWS_PER_STRATUM then None
      else Some (an_bins lib REGRESSION_STRATA label))"

definition split_rows :: "prep_lib \<Rightarrow> frame \<Rightarrow> string \<Rightarrow> learn_task \<Rightarrow> rat \<Rightarrow> int \<Rightarrow> string list option \<Rightarrow> prep_error + frame \<times> frame" where
  "split_rows lib f label t test_size seed groups =
     (let size = (if groups = None \<and> is_classification t
            then Rows (max \<lceil>test_size * of_nat (fr_rows f)\<rceil> (int (nunique (dropna (col f label))))) else Share test_size);
          stratify = (case groups of Some g \<Rightarrow> Some g | None \<Rightarrow> strata (pr_anon lib) (col f label) t)
      in case pr_split lib (fr_rows f) size seed stratify of
           None \<Rightarrow> Inl PrepCrash
         | Some (train, test) \<Rightarrow> Inr (take_rows train f, take_rows test f))"

section \<open>The preprocess stage\<close>

text \<open>\<open>pm_label\<close> is empty when it is not set.\<close>

record prep_params =
  pm_input :: string
  pm_label :: string
  pm_task :: "string option"
  pm_train_out :: string
  pm_test_out :: string
  pm_manifest_out :: string
  pm_drop_identifiers :: bool
  pm_identifiers :: "string list"
  pm_generalize :: bool
  pm_quasi_identifiers :: requested
  pm_bucket_width :: rat
  pm_min_k :: int
  pm_max_suppression :: rat
  pm_test_size :: rat
  pm_seed :: int

definition PREPROCESS_DEFAULTS :: prep_params where
  "PREPROCESS_DEFAULTS = \<lparr> pm_input = ''data/raw.csv'', pm_label = [], pm_task = Some ''auto'', pm_train_out = ''data/train.csv'',
     pm_test_out = ''data/test.csv'', pm_manifest_out = ''data/preprocess.json'', pm_drop_identifiers = True, pm_identifiers = [],
     pm_generalize = True, pm_quasi_identifiers = OneColumn ''auto'', pm_bucket_width = 10, pm_min_k = 5, pm_max_suppression = 1/100,
     pm_test_size = 1/4, pm_seed = 7 \<rparr>"

record privacy_manifest =
  ma_label :: string
  ma_dropped_identifiers :: "string list"
  ma_quasi_identifiers :: "string list"
  ma_generalization :: "gen_rule dict"

definition drop_columns :: "string list \<Rightarrow> frame \<Rightarrow> frame" where
  "drop_columns cs f = f\<lparr> fr_cols := filter (\<lambda>(c, cells). c \<notin> set cs) (fr_cols f) \<rparr>"

definition apply_manifest :: "anon_lib \<Rightarrow> frame \<Rightarrow> privacy_manifest \<Rightarrow> frame" where
  "apply_manifest lib f m =
     apply_generalization lib (ma_generalization m)
       (drop_columns (filter (\<lambda>c. c \<in> set (frame_columns f)) (ma_dropped_identifiers m)) f)"

text \<open>\<open>None\<close>: \<^verbatim>\<open>ZeroDivisionError\<close>.\<close>

definition split_target :: "prep_params \<Rightarrow> int option" where
  "split_target p = (let smaller = min (pm_test_size p) (1 - pm_test_size p)
     in if smaller = 0 then None else Some \<lceil>of_int (pm_min_k p) / smaller\<rceil>)"

record removed =
  rm_before_split :: nat
  rm_train :: nat
  rm_test :: nat

definition group_names :: "frame \<Rightarrow> string list \<Rightarrow> string list" where
  "group_names f qi = map (\<lambda>i. py_join ''|'' (map cell_text (row_key f qi i))) [0..<fr_rows f]"

definition with_label :: "frame \<Rightarrow> string \<Rightarrow> string list \<Rightarrow> string list" where
  "with_label f label groups =
     (let named = map2 (\<lambda>g cell. g @ ''|'' @ cell_text cell) groups (col f label)
      in map2 (\<lambda>n g. if 2 \<le> count_list named n then n else g) named groups)"

definition split_anonymously :: "prep_lib \<Rightarrow> frame \<Rightarrow> privacy_manifest \<Rightarrow> learn_task \<Rightarrow> prep_params \<Rightarrow> prep_error + frame \<times> frame \<times> removed" where
  "split_anonymously lib f m t p =
     (let qi = ma_quasi_identifiers m; label = pm_label p
      in if \<not> pm_generalize p \<or> qi = []
         then (case split_rows lib f label t (pm_test_size p) (pm_seed p) None of
                 Inl e \<Rightarrow> Inl e
               | Inr (train, test) \<Rightarrow> Inr (train, test, \<lparr> rm_before_split = 0, rm_train = 0, rm_test = 0 \<rparr>))
         else (case split_target p of
             None \<Rightarrow> Inl PrepCrash
           | Some k \<Rightarrow>
               (let (kept, removed_before) = suppress_small_groups f qi k
                in if nunique (dropna (col kept label)) < 2
                   then Inl (DataError ''too few records remain after anonymization; add rows or set min_k lower'')
                   else let groups = group_names kept qi;
                     groups' = (if is_classification t then with_label kept label groups else groups)
                   in case split_rows lib kept label t (pm_test_size p) (pm_seed p) (Some groups') of
                        Inl e \<Rightarrow> Inl e
                      | Inr (train, test) \<Rightarrow>
                          (let (train', in_train) = suppress_small_groups train qi (pm_min_k p);
                               (test', in_test) = suppress_small_groups test qi (pm_min_k p)
                           in Inr (train', test', \<lparr> rm_before_split = removed_before, rm_train = in_train, rm_test = in_test \<rparr>)))))"

definition build_manifest :: "anon_lib \<Rightarrow> frame \<Rightarrow> prep_params \<Rightarrow> prep_error + privacy_manifest" where
  "build_manifest lib raw p =
     (let label = pm_label p;
          dropped = (if pm_drop_identifiers p
            then filter (\<lambda>c. (c \<in> set (detect_identifiers lib raw [label]) \<or> c \<in> set (pm_identifiers p)) \<and> c \<noteq> label) (frame_columns raw)
            else [])
      in if \<not> pm_generalize p
         then Inr \<lparr> ma_label = label, ma_dropped_identifiers = dropped, ma_quasi_identifiers = [], ma_generalization = [] \<rparr>
         else let kept = drop_columns dropped raw; columns = quasi_identifiers kept (pm_quasi_identifiers p) [label]
           in case split_target p of
                None \<Rightarrow> Inl PrepCrash
              | Some k \<Rightarrow> Inr \<lparr> ma_label = label, ma_dropped_identifiers = dropped, ma_quasi_identifiers = columns,
                  ma_generalization = fit_generalization lib kept columns (pm_bucket_width p) (Some k) (pm_max_suppression p)
                    (Some (col kept label)) \<rparr>)"

record prep_result =
  pe_task :: learn_task
  pe_train :: frame
  pe_test :: frame
  pe_manifest :: privacy_manifest
  pe_report :: row_report
  pe_removed :: removed

definition preprocess :: "prep_lib \<Rightarrow> prep_params \<Rightarrow> prep_error + prep_result" where
  "preprocess lib p = (case pr_read lib (pm_input p) of
      None \<Rightarrow> Inl PrepCrash
    | Some raw \<Rightarrow>
        if pm_label p \<notin> set (frame_columns raw)
        then Inl (DataError (''label column '' @ sn_repr (an_scan (pr_anon lib)) (pm_label p) @ '' not in '' @ pm_input p @ '': ''
                         @ repr_list (pr_anon lib) (frame_columns raw)))
        else (case infer_task (pr_anon lib) (pm_label p) (col raw (pm_label p)) (pm_task p) of
            Inl e \<Rightarrow> Inl e
          | Inr t \<Rightarrow> (case clean_rows (pr_anon lib) raw (pm_label p) t MIN_CLASS_ROWS of
              Inl e \<Rightarrow> Inl e
            | Inr (rows, report) \<Rightarrow> (case build_manifest (pr_anon lib) rows p of
                Inl e \<Rightarrow> Inl e
              | Inr m \<Rightarrow> (case split_anonymously lib (apply_manifest (pr_anon lib) rows m) m t p of
                  Inl e \<Rightarrow> Inl e
                | Inr (train, test, gone) \<Rightarrow>
                    Inr \<lparr> pe_task = t, pe_train = train, pe_test = test, pe_manifest = m, pe_report = report, pe_removed = gone \<rparr>)))))"

subsection \<open>Its summary and exit\<close>

definition generalized_rule :: "anon_lib \<Rightarrow> string \<times> gen_rule \<Rightarrow> string" where
  "generalized_rule lib r = (case r of
      (c, RangeRule ra) \<Rightarrow> c @ '' (ranges of '' @ an_general lib (ra_width ra) @ '')''
    | (c, PrefixRule keep) \<Rightarrow> c @ '' (first '' @ nat_str keep @ '' characters)''
    | (c, SuppressRule) \<Rightarrow> c @ '' (removed: too identifying for this much data)''
    | (c, PoolRule keep) \<Rightarrow> c @ '' ('' @ nat_str (length keep) @ '' categories + other)'')"

definition generalized :: "anon_lib \<Rightarrow> gen_rule dict \<Rightarrow> string" where
  "generalized lib rules = (case rules of [] \<Rightarrow> ''none'' | _ \<Rightarrow> py_join '', '' (map (generalized_rule lib) (sort_key fst rules)))"

definition preprocess_summary :: "anon_lib \<Rightarrow> prep_result \<Rightarrow> string" where
  "preprocess_summary lib r =
     (let report = pe_report r; m = pe_manifest r; gone = pe_removed r;
          gone_rows = rm_before_split gone + rm_train gone + rm_test gone;
          first_line = task_value (pe_task r) @ '': '' @ nat_str (rw_rows_in report) @ '' rows ('' @ int_str (int (rw_rows_in report) - rows_out report)
            @ '' removed), train '' @ nat_str (fr_rows (pe_train r)) @ '', test '' @ nat_str (fr_rows (pe_test r));
          names = (case ma_dropped_identifiers m of [] \<Rightarrow> ''none'' | cs \<Rightarrow> py_join '', '' cs)
      in py_join [CHR 0x0A] ([first_line, ''  dropped identifiers: '' @ names, ''  generalized: '' @ generalized lib (ma_generalization m)]
           @ (if gone_rows \<noteq> 0
              then [''  removed '' @ nat_str gone_rows @ '' records ('' @ percent (of_nat gone_rows / of_int (max (rows_out report) 1))
                      @ '') in groups too small to be anonymous''] else [])))"

datatype stage_exit = SystemExit string | StageCrash

definition run_preprocess :: "prep_lib \<Rightarrow> prep_params \<Rightarrow> stage_exit + prep_result \<times> string" where
  "run_preprocess lib p =
     (if pm_label p = [] then Inl (SystemExit ''preprocess: set `label` (the column to predict) in the stage params'')
      else case preprocess lib p of
          Inl (DataError e) \<Rightarrow> Inl (SystemExit (''preprocess: '' @ e))
        | Inl PrepCrash \<Rightarrow> Inl StageCrash
        | Inr r \<Rightarrow> Inr (r, preprocess_summary (pr_anon lib) r @ [CHR 0x0A]))"

section \<open>New batches\<close>

fun preprocess_stage :: "string \<Rightarrow> json list \<Rightarrow> prep_error + json" where
  "preprocess_stage path [] = Inl (DataError (path @ '' has no preprocess stage; run and build first''))"
| "preprocess_stage path (s # ss) = (case jget s ''name'' of
      None \<Rightarrow> Inl PrepCrash
    | Some n \<Rightarrow> if n = JStr ''preprocess'' then Inr s else preprocess_stage path ss)"

text \<open>The first output with that path: \<open>Inr None\<close> when there is none.\<close>

fun recorded_digest :: "string \<Rightarrow> json list \<Rightarrow> prep_error + json option" where
  "recorded_digest path [] = Inr None"
| "recorded_digest path (o1 # os) = (case jget o1 ''path'' of
      None \<Rightarrow> Inl PrepCrash
    | Some q \<Rightarrow> if q = JStr path then (case jget o1 ''sha256'' of None \<Rightarrow> Inl PrepCrash | Some d \<Rightarrow> Inr (Some d))
        else recorded_digest path os)"

definition manifest_path :: "json \<Rightarrow> string option" where
  "manifest_path stage = (case jget stage ''parameters'' of
      Some (JObj ps) \<Rightarrow> (case map_of ps ''manifest_out'' of
          None \<Rightarrow> Some (pm_manifest_out PREPROCESS_DEFAULTS) | Some (JStr path) \<Rightarrow> Some path | Some _ \<Rightarrow> None)
    | _ \<Rightarrow> None)"

text \<open>The bytes of the manifest a passport certifies.\<close>

definition certified_manifest :: "prep_lib \<Rightarrow> string \<Rightarrow> json dict \<Rightarrow> prep_error + bytes" where
  "certified_manifest lib passport_path doc =
     (case (case map_of doc ''pipeline'' of None \<Rightarrow> Some [] | Some (JArr ss) \<Rightarrow> Some ss | Some _ \<Rightarrow> None) of
        None \<Rightarrow> Inl PrepCrash
      | Some stages \<Rightarrow> (case preprocess_stage passport_path stages of
          Inl e \<Rightarrow> Inl e
        | Inr stage \<Rightarrow> (case (manifest_path stage, jget stage ''outputs'') of
            (Some path, Some (JArr outputs)) \<Rightarrow> (case recorded_digest path outputs of
                Inl e \<Rightarrow> Inl e
              | Inr recorded \<Rightarrow> (case (recorded, pr_files lib path) of
                  (Some digest, Some (File contents)) \<Rightarrow>
                    if digest = JNull
                    then Inl (DataError (path @ '' is not certified by '' @ passport_path @ ''; rebuild the passport''))
                    else if JStr (sha256_file (pr_crypto lib) contents) \<noteq> digest
                    then Inl (DataError (path @ '' changed since '' @ passport_path @ '' was built; rebuild the passport''))
                    else Inr contents
                | _ \<Rightarrow> Inl (DataError (path @ '' is not certified by '' @ passport_path @ ''; rebuild the passport''))))
          | _ \<Rightarrow> Inl PrepCrash)))"

text \<open>\<open>parse\<close> reads the JSON text of a manifest.\<close>

definition prepare_batch :: "prep_lib \<Rightarrow> (bytes \<Rightarrow> privacy_manifest option) \<Rightarrow> string \<Rightarrow> json dict \<Rightarrow> string \<Rightarrow> prep_error + frame" where
  "prepare_batch lib parse passport_path doc batch =
     (case pr_read lib batch of
        None \<Rightarrow> Inl PrepCrash
      | Some f \<Rightarrow> (case certified_manifest lib passport_path doc of
          Inl e \<Rightarrow> Inl e
        | Inr contents \<Rightarrow> (case parse contents of None \<Rightarrow> Inl PrepCrash | Some m \<Rightarrow> Inr (apply_manifest (pr_anon lib) f m))))"

end
