(* ===== verification/MP_PrepProps.thy ===== *)
theory MP_PrepProps
  imports MP_Preprocess
begin

text \<open>
  What the preparation of a table promises: the published tables are anonymous to the degree asked for, every record
  is accounted for, later batches are treated as the training data was, and the fitted rules are those of a
  greedy descent that stops at the target.
\<close>

section \<open>Tables\<close>

lemma map_of_snd_image: "map_of (map (\<lambda>(c, cells). (c, g c cells)) xs) c = map_option (g c) (map_of xs c)"
  by (induction xs) auto

lemma frame_columns_take [simp]: "frame_columns (take_rows rows f) = frame_columns f"
  by (simp add: frame_columns_def take_rows_def comp_def case_prod_beta)

lemma fr_rows_take [simp]: "fr_rows (take_rows rows f) = length rows"
  by (simp add: take_rows_def)

lemma col_some: "c \<in> set (frame_columns f) \<Longrightarrow> \<exists>cells. map_of (fr_cols f) c = Some cells"
  by (metis frame_columns_def list.set_map map_of_eq_None_iff not_None_eq)

lemma col_take: "c \<in> set (frame_columns f) \<Longrightarrow> col (take_rows rows f) c = map (\<lambda>i. col f c ! i) rows"
  using col_some [of c f] by (auto simp: col_def take_rows_def map_of_snd_image [of "\<lambda>c cells. map (\<lambda>i. cells ! i) rows"])

lemma row_key_take: "set cs \<subseteq> set (frame_columns f) \<Longrightarrow> j < length rows \<Longrightarrow> row_key (take_rows rows f) cs j = row_key f cs (rows ! j)"
  by (auto simp: row_key_def col_take subset_iff)

lemma row_keys_take: "set cs \<subseteq> set (frame_columns f) \<Longrightarrow> row_keys (take_rows rows f) cs = map (row_key f cs) rows"
  by (rule nth_equalityI) (simp_all add: row_keys_def row_key_take)

lemma take_take: "list_all (\<lambda>i. i < length js) rows \<Longrightarrow> take_rows rows (take_rows js f) = take_rows (map (\<lambda>i. js ! i) rows) f"
  by (auto simp: take_rows_def list_all_iff)

lemma where_rows_columns [simp]: "frame_columns (where_rows keep f) = frame_columns f"
  by (simp add: where_rows_def)

lemma frame_col_length: "frame_ok f \<Longrightarrow> c \<in> set (frame_columns f) \<Longrightarrow> length (col f c) = fr_rows f"
  using col_some [of c f] by (force simp: frame_ok_def col_def list_all_iff dest: map_of_SomeD)

section \<open>Small groups\<close>

lemma count_filter: "count_list xs x = length (filter (\<lambda>y. y = x) xs)"
  by (induction xs) auto

lemma sum_count_filter:
  assumes "distinct vs" "set vs = set xs"
  shows "sum_list (map (count_list xs) (filter (\<lambda>v. P (count_list xs v)) vs)) = length (filter (\<lambda>x. P (count_list xs x)) xs)"
proof -
  let ?ys = "filter (\<lambda>x. P (count_list xs x)) xs"
  have "sum_list (map (count_list xs) (filter (\<lambda>v. P (count_list xs v)) vs)) = sum (count_list xs) (set ?ys)"
    using assms by (simp add: sum_list_distinct_conv_sum_set)
  also have "\<dots> = sum (count_list ?ys) (set ?ys)"
    by (rule sum.cong) (auto simp: count_filter intro!: arg_cong [where f = length] filter_cong)
  also have "\<dots> = length ?ys" by (rule sum_count_set) auto
  finally show ?thesis .
qed

lemma sum_counts: "sum_list (filter P (map (count_list xs) (remdups xs))) = length (filter (\<lambda>x. P (count_list xs x)) xs)"
  using sum_count_filter [of "remdups xs" xs P] by (simp add: filter_map comp_def)

lemma class_sizes_counts: "class_sizes f cs = map (count_list (row_keys f cs)) (remdups (row_keys f cs))"
  by (simp add: class_sizes_def count_filter)

lemma group_size_count: "group_size f cs i = count_list (row_keys f cs) (row_key f cs i)"
  by (simp add: group_size_def count_filter)

lemma suppressed_is_at_risk: "snd (suppress_small_groups f cs k) = at_risk f cs k"
proof -
  have "length (filter (\<lambda>i. \<not> k \<le> int (group_size f cs i)) [0..<fr_rows f])
      = length (filter (\<lambda>key. int (count_list (row_keys f cs) key) < k) (row_keys f cs))"
    by (simp add: row_keys_def [of f cs] filter_map comp_def not_le group_size_count)
  also have "\<dots> = sum_list (filter (\<lambda>n. int n < k) (class_sizes f cs))"
    unfolding class_sizes_counts by (rule sum_counts [symmetric])
  finally show ?thesis by (simp add: suppress_small_groups_def at_risk_def Let_def)
qed

lemma suppress_rows:
  "\<exists>rows. fst (suppress_small_groups f cs k) = take_rows rows f \<and> distinct rows \<and> list_all (\<lambda>i. i < fr_rows f) rows
    \<and> fr_rows f = length rows + snd (suppress_small_groups f cs k)" if "frame_ok f"
proof (cases "cs = [] \<or> fr_rows f = 0")
  case True
  have "take_rows [0..<fr_rows f] f = f"
  proof -
    have "map (\<lambda>i. cells ! i) [0..<fr_rows f] = cells" if "(c, cells) \<in> set (fr_cols f)" for c cells
      using \<open>frame_ok f\<close> that map_nth [of cells] by (fastforce simp: frame_ok_def list_all_iff)
    then have "map (\<lambda>(c, cells). (c, map (\<lambda>i. cells ! i) [0..<fr_rows f])) (fr_cols f) = fr_cols f"
      by (intro map_idI) auto
    then show ?thesis by (simp add: take_rows_def)
  qed
  with True show ?thesis by (intro exI [of _ "[0..<fr_rows f]"]) (auto simp: suppress_small_groups_def list_all_iff)
next
  case False
  let ?keep = "\<lambda>i. k \<le> int (group_size f cs i)"
  have "fr_rows f = length (filter ?keep [0..<fr_rows f]) + length (filter (\<lambda>i. \<not> ?keep i) [0..<fr_rows f])"
    by (metis sum_length_filter_compl length_upt diff_zero)
  with False show ?thesis
    by (intro exI [of _ "filter ?keep [0..<fr_rows f]"]) (auto simp: suppress_small_groups_def Let_def list_all_iff)
qed

lemma suppress_keeps_large:
  assumes "set cs \<subseteq> set (frame_columns f)" "cs \<noteq> []"
  shows "n \<in> set (class_sizes (fst (suppress_small_groups f cs k)) cs) \<Longrightarrow> k \<le> int n"
proof (cases "fr_rows f = 0")
  case True
  then show "n \<in> set (class_sizes (fst (suppress_small_groups f cs k)) cs) \<Longrightarrow> k \<le> int n"
    by (simp add: suppress_small_groups_def class_sizes_def row_keys_def)
next
  case False
  let ?g = "fst (suppress_small_groups f cs k)" and ?all = "row_keys f cs"
  have keys: "row_keys ?g cs = filter (\<lambda>key. k \<le> int (count_list ?all key)) ?all"
    using False assms(2)
    by (simp add: suppress_small_groups_def Let_def row_keys_take [OF assms(1)] group_size_count row_keys_def [of f cs] filter_map comp_def)
  have "count_list (row_keys ?g cs) key = count_list ?all key" if "key \<in> set (row_keys ?g cs)" for key
    using that unfolding keys count_filter by (auto intro!: arg_cong [where f = length] filter_cong)
  then show "n \<in> set (class_sizes ?g cs) \<Longrightarrow> k \<le> int n"
    unfolding class_sizes_counts using keys by auto
qed

lemma k_anonymity_bound:
  assumes "k_anonymity f cs = Some m" "\<And>n. n \<in> set (class_sizes f cs) \<Longrightarrow> k \<le> int n"
  shows "k \<le> int m"
proof -
  have "0 < fr_rows f" and m: "m = least (class_sizes f cs)" using assms(1) by (auto simp: k_anonymity_def split: if_splits)
  then have ne: "class_sizes f cs \<noteq> []" by (simp add: class_sizes_def row_keys_def)
  have "m \<in> set (class_sizes f cs)" unfolding m least_Min [OF ne] by (rule Min_in) (use ne in auto)
  then show ?thesis by (rule assms(2))
qed

section \<open>Rules\<close>

lemma map_column_columns [simp]: "frame_columns (map_column c g f) = frame_columns f" "fr_rows (map_column c g f) = fr_rows f"
  by (simp_all add: frame_columns_def map_column_def comp_def case_prod_beta)

lemma apply_columns [simp]: "frame_columns (apply_generalization lib rules f) = frame_columns f"
    "fr_rows (apply_generalization lib rules f) = fr_rows f"
  by (induction rules arbitrary: f) (auto simp: apply_generalization_def)

lemma map_column_take: "(\<And>i. i \<in> set rows \<Longrightarrow> i < fr_rows f) \<Longrightarrow> frame_ok f
    \<Longrightarrow> map_column c g (take_rows rows f) = take_rows rows (map_column c g f)"
  by (fastforce simp: map_column_def take_rows_def frame_ok_def list_all_iff)

lemma map_column_ok: "frame_ok f \<Longrightarrow> frame_ok (map_column c g f)"
  by (fastforce simp: frame_ok_def frame_columns_def map_column_def comp_def case_prod_beta list_all_iff)

lemma apply_ok: "frame_ok f \<Longrightarrow> frame_ok (apply_generalization lib rules f)"
  unfolding apply_generalization_def by (induction rules arbitrary: f) (auto simp: map_column_ok)

lemma apply_take:
  assumes "frame_ok f" "\<And>i. i \<in> set rows \<Longrightarrow> i < fr_rows f"
  shows "apply_generalization lib rules (take_rows rows f) = take_rows rows (apply_generalization lib rules f)"
  using assms unfolding apply_generalization_def
  by (induction rules arbitrary: f) (auto simp: map_column_take map_column_ok)

lemma drop_columns_ok: "frame_ok f \<Longrightarrow> frame_ok (drop_columns cs f)"
  by (auto simp: frame_ok_def drop_columns_def frame_columns_def list_all_iff distinct_map inj_on_def)

lemma drop_columns_rows [simp]: "fr_rows (drop_columns cs f) = fr_rows f"
  by (simp add: drop_columns_def)

lemma drop_columns_take: "drop_columns cs (take_rows rows f) = take_rows rows (drop_columns cs f)"
  by (simp add: drop_columns_def take_rows_def filter_map comp_def case_prod_unfold)

lemma drop_columns_columns: "frame_columns (drop_columns cs f) = filter (\<lambda>c. c \<notin> set cs) (frame_columns f)"
  by (simp add: drop_columns_def frame_columns_def filter_map comp_def case_prod_unfold)

lemma manifest_take:
  assumes "frame_ok f" "\<And>i. i \<in> set rows \<Longrightarrow> i < fr_rows f"
  shows "apply_manifest lib (take_rows rows f) m = take_rows rows (apply_manifest lib f m)"
  unfolding apply_manifest_def drop_columns_take frame_columns_take
  by (rule apply_take) (simp_all add: drop_columns_ok assms)

lemma manifest_rows [simp]: "fr_rows (apply_manifest lib f m) = fr_rows f"
  by (simp add: apply_manifest_def drop_columns_def)

lemma manifest_ok: "frame_ok f \<Longrightarrow> frame_ok (apply_manifest lib f m)"
  by (simp add: apply_manifest_def apply_ok drop_columns_ok)

lemma manifest_columns: "frame_columns (apply_manifest lib f m) = filter (\<lambda>c. c \<notin> set (ma_dropped_identifiers m)) (frame_columns f)"
  by (auto simp: apply_manifest_def drop_columns_columns intro!: filter_cong)

lemma take_ok: "frame_ok f \<Longrightarrow> frame_ok (take_rows rows f)"
  by (auto simp: frame_ok_def take_rows_def frame_columns_def list_all_iff comp_def case_prod_beta)

section \<open>Selections of rows\<close>

text \<open>What the libraries promise: tables are rectangular, a split parts the rows, \<^verbatim>\<open>value_counts\<close> lists each value once.\<close>

definition table_law :: "prep_lib \<Rightarrow> bool" where
  "table_law lib \<longleftrightarrow> (\<forall>path f. pr_read lib path = Some f \<longrightarrow> frame_ok f)"

definition split_law :: "prep_lib \<Rightarrow> bool" where
  "split_law lib \<longleftrightarrow> (\<forall>n size seed groups train test. pr_split lib n size seed groups = Some (train, test)
     \<longrightarrow> distinct (train @ test) \<and> set (train @ test) = {..<n})"

definition ranked_law :: "drift_lib \<Rightarrow> bool" where
  "ranked_law df \<longleftrightarrow> (\<forall>xs. distinct (df_ranked df xs) \<and> set (df_ranked df xs) = set xs)"

definition selection :: "frame \<Rightarrow> frame \<Rightarrow> bool" where
  "selection f g \<longleftrightarrow> (\<exists>rows. distinct rows \<and> (\<forall>i\<in>set rows. i < fr_rows f) \<and> g = take_rows rows f)"

lemma selection_trans: "selection f g \<Longrightarrow> selection g h \<Longrightarrow> selection f h"
proof -
  assume "selection f g" "selection g h"
  then obtain js rows where j: "distinct js" "\<forall>i\<in>set js. i < fr_rows f" "g = take_rows js f"
    and r: "distinct rows" "\<forall>i\<in>set rows. i < fr_rows g" "h = take_rows rows g" by (auto simp: selection_def)
  have lengths: "\<forall>i\<in>set rows. i < length js" using r(2) j(3) by simp
  then have "h = take_rows (map (\<lambda>i. js ! i) rows) f" by (simp add: r(3) j(3) take_take list_all_iff)
  moreover have "distinct (map (\<lambda>i. js ! i) rows)"
    using r(1) j(1) lengths by (auto simp: distinct_map inj_on_def nth_eq_iff_index_eq)
  ultimately show ?thesis using lengths j(2) by (auto simp: selection_def intro!: exI [of _ "map (\<lambda>i. js ! i) rows"])
qed

lemma selection_columns: "selection f g \<Longrightarrow> frame_columns g = frame_columns f"
  by (auto simp: selection_def)

lemma selection_ok: "selection f g \<Longrightarrow> frame_ok f \<Longrightarrow> frame_ok g"
  by (auto simp: selection_def take_ok)

lemma selection_suppress: "frame_ok f \<Longrightarrow> selection f (fst (suppress_small_groups f cs k))
    \<and> fr_rows f = fr_rows (fst (suppress_small_groups f cs k)) + snd (suppress_small_groups f cs k)"
  using suppress_rows [of f cs k] by (auto simp: selection_def list_all_iff)

lemma selection_where: "selection f (where_rows keep f)"
  unfolding selection_def where_rows_def by (intro exI [of _ "filter keep [0..<fr_rows f]"]) simp

lemma selection_split:
  assumes "split_rows lib f label t test_size seed groups = Inr (train, test)" "split_law lib"
  shows "selection f train \<and> selection f test \<and> fr_rows f = fr_rows train + fr_rows test"
proof -
  obtain size strat tr te where s: "pr_split lib (fr_rows f) size seed strat = Some (tr, te)"
    "train = take_rows tr f" "test = take_rows te f"
    using assms(1) unfolding split_rows_def Let_def by (auto split: option.splits)
  have d: "distinct (tr @ te)" "set (tr @ te) = {..<fr_rows f}" using assms(2) s(1) unfolding split_law_def by blast+
  have "length tr + length te = fr_rows f" using distinct_card [OF d(1)] unfolding d(2) by simp
  with d s show ?thesis by (auto simp: selection_def)
qed

lemma split_anonymously_rows:
  assumes "split_anonymously lib f m t p = Inr (train, test, gone)" "split_law lib" "frame_ok f"
  shows "selection f train \<and> selection f test
    \<and> fr_rows f = fr_rows train + fr_rows test + rm_before_split gone + rm_train gone + rm_test gone"
proof (cases "\<not> pm_generalize p \<or> ma_quasi_identifiers m = []")
  case True
  with assms(1) have "split_rows lib f (pm_label p) t (pm_test_size p) (pm_seed p) None = Inr (train, test)"
      "gone = \<lparr> rm_before_split = 0, rm_train = 0, rm_test = 0 \<rparr>"
    by (auto simp: split_anonymously_def Let_def split: sum.splits prod.splits)
  with selection_split [OF _ assms(2)] show ?thesis by fastforce
next
  case False
  let ?qi = "ma_quasi_identifiers m"
  from False assms(1) obtain k groups tr te where k: "split_target p = Some k"
    and split: "split_rows lib (fst (suppress_small_groups f ?qi k)) (pm_label p) t (pm_test_size p) (pm_seed p) groups = Inr (tr, te)"
    and r: "train = fst (suppress_small_groups tr ?qi (pm_min_k p))" "test = fst (suppress_small_groups te ?qi (pm_min_k p))"
      "gone = \<lparr> rm_before_split = snd (suppress_small_groups f ?qi k), rm_train = snd (suppress_small_groups tr ?qi (pm_min_k p)),
         rm_test = snd (suppress_small_groups te ?qi (pm_min_k p)) \<rparr>"
    unfolding split_anonymously_def Let_def case_prod_unfold by (auto split: option.splits sum.splits if_splits)
  let ?kept = "fst (suppress_small_groups f ?qi k)"
  have kept: "selection f ?kept" "frame_ok ?kept" "fr_rows f = fr_rows ?kept + snd (suppress_small_groups f ?qi k)"
    using selection_suppress [OF assms(3)] selection_ok assms(3) by blast+
  have parts: "selection ?kept tr" "selection ?kept te" "fr_rows ?kept = fr_rows tr + fr_rows te"
    using selection_split [OF split assms(2)] by blast+
  then have "frame_ok tr" "frame_ok te" using selection_ok kept(2) by blast+
  then have last_step: "selection tr train" "fr_rows tr = fr_rows train + rm_train gone" "selection te test" "fr_rows te = fr_rows test + rm_test gone"
    using selection_suppress unfolding r removed.select_convs by blast+
  have "selection f train" "selection f test"
    using selection_trans [OF selection_trans [OF kept(1) parts(1)] last_step(1)] selection_trans [OF selection_trans [OF kept(1) parts(2)] last_step(3)]
    by blast+
  moreover have "rm_before_split gone = snd (suppress_small_groups f ?qi k)" by (simp add: r(3))
  ultimately show ?thesis using kept(3) parts(3) last_step(2,4) by linarith
qed

definition labeled_rows :: "frame \<Rightarrow> string \<Rightarrow> frame" where
  "labeled_rows f label = where_rows (\<lambda>i. col f label ! i \<noteq> None) f"

definition rare_of :: "anon_lib \<Rightarrow> frame \<Rightarrow> string \<Rightarrow> learn_task \<Rightarrow> nat \<Rightarrow> nat dict" where
  "rare_of lib f label t n = (if is_classification t then rare_classes lib (dropna (col f label)) n else [])"

lemma cleaned:
  assumes "clean_rows lib f label t n = Inr (rows, report)"
  shows "label \<in> set (frame_columns f)"
    and "rows = (let g = drop_duplicates (labeled_rows f label) in
      if is_classification t then where_rows (\<lambda>i. map_of (rare_of lib g label t n) (cell_text (col g label ! i)) = None) g else g)"
    and "is_classification t \<Longrightarrow> 2 \<le> nunique (dropna (col rows label))" "MIN_ROWS \<le> fr_rows rows"
    and "report = \<lparr> rw_rows_in = fr_rows f, rw_missing_label = fr_rows f - fr_rows (labeled_rows f label),
      rw_duplicates = fr_rows (labeled_rows f label) - fr_rows (drop_duplicates (labeled_rows f label)),
      rw_rare_classes = rare_of lib (drop_duplicates (labeled_rows f label)) label t n \<rparr>"
  using assms unfolding clean_rows_def Let_def labeled_rows_def [symmetric] rare_of_def
  by (cases "is_classification t"; simp split: if_split_asm; blast)+

lemma clean_rows_selection:
  assumes "clean_rows lib f label t n = Inr (rows, report)"
  shows "selection f rows"
proof -
  let ?g = "drop_duplicates (labeled_rows f label)"
  have g: "selection f ?g"
    unfolding drop_duplicates_def labeled_rows_def by (rule selection_trans) (rule selection_where)+
  show ?thesis using g selection_trans [OF g selection_where] unfolding cleaned(2) [OF assms] Let_def by simp
qed

lemma preprocessed:
  assumes "preprocess lib p = Inr r"
  obtains raw rows where "pr_read lib (pm_input p) = Some raw"
    "clean_rows (pr_anon lib) raw (pm_label p) (pe_task r) MIN_CLASS_ROWS = Inr (rows, pe_report r)"
    "build_manifest (pr_anon lib) rows p = Inr (pe_manifest r)"
    "split_anonymously lib (apply_manifest (pr_anon lib) rows (pe_manifest r)) (pe_manifest r) (pe_task r) p = Inr (pe_train r, pe_test r, pe_removed r)"
  using assms unfolding preprocess_def by (auto split: option.splits if_splits sum.splits prod.splits)

section \<open>The published tables\<close>

lemma manifest_quasi_identifiers:
  "build_manifest lib raw p = Inr m \<Longrightarrow> set (ma_quasi_identifiers m) \<subseteq> set (frame_columns (apply_manifest lib raw m))"
  unfolding build_manifest_def Let_def manifest_columns
  by (auto simp: quasi_identifiers_def drop_columns_columns split: if_splits option.splits)

lemma split_columns:
  "split_rows lib f label t test_size seed groups = Inr (train, test) \<Longrightarrow> frame_columns train = frame_columns f \<and> frame_columns test = frame_columns f"
  unfolding split_rows_def Let_def by (auto split: option.splits)

lemma split_suppressed:
  assumes "split_anonymously lib f m t p = Inr (train, test, gone)" "pm_generalize p" "ma_quasi_identifiers m \<noteq> []"
  obtains k tr te where "split_target p = Some k" "train = fst (suppress_small_groups tr (ma_quasi_identifiers m) (pm_min_k p))"
    "test = fst (suppress_small_groups te (ma_quasi_identifiers m) (pm_min_k p))" "frame_columns tr = frame_columns f"
    "frame_columns te = frame_columns f" "rm_before_split gone = at_risk f (ma_quasi_identifiers m) k"
proof -
  let ?qi = "ma_quasi_identifiers m"
  from assms obtain k groups tr te where k: "split_target p = Some k"
    and split: "split_rows lib (fst (suppress_small_groups f ?qi k)) (pm_label p) t (pm_test_size p) (pm_seed p) groups = Inr (tr, te)"
    and r: "train = fst (suppress_small_groups tr ?qi (pm_min_k p))" "test = fst (suppress_small_groups te ?qi (pm_min_k p))"
      "rm_before_split gone = snd (suppress_small_groups f ?qi k)"
    unfolding split_anonymously_def Let_def case_prod_unfold by (auto split: option.splits sum.splits if_splits)
  have "frame_columns (fst (suppress_small_groups f ?qi k)) = frame_columns f"
    by (simp add: suppress_small_groups_def Let_def)
  with split_columns [OF split] have "frame_columns tr = frame_columns f" "frame_columns te = frame_columns f" by simp_all
  with k r show thesis by (intro that [of k tr te]) (simp_all add: suppressed_is_at_risk)
qed

text \<open>
  C29. Whatever the table, each of the two published files is anonymous to the degree asked for: the re-identification
  scan, run on the file with the quasi-identifiers of the manifest, never finds a group of fewer than \<open>min_k\<close> records.
\<close>

theorem published_tables_are_anonymous:
  assumes "preprocess lib p = Inr r" "pm_generalize p" "ma_quasi_identifiers (pe_manifest r) \<noteq> []"
    and "f = pe_train r \<or> f = pe_test r"
    and "rr_k_anonymity (reid_assess f dataset (Some (ma_quasi_identifiers (pe_manifest r))) sensitive) = Some k"
  shows "pm_min_k p \<le> k"
proof -
  let ?qi = "ma_quasi_identifiers (pe_manifest r)"
  obtain raw rows where m: "build_manifest (pr_anon lib) rows p = Inr (pe_manifest r)"
    and split: "split_anonymously lib (apply_manifest (pr_anon lib) rows (pe_manifest r)) (pe_manifest r) (pe_task r) p
      = Inr (pe_train r, pe_test r, pe_removed r)"
    by (rule preprocessed [OF assms(1)], rule that)
  obtain g where g: "f = fst (suppress_small_groups g ?qi (pm_min_k p))"
      "frame_columns g = frame_columns (apply_manifest (pr_anon lib) rows (pe_manifest r))"
    by (rule split_suppressed [OF split assms(2,3)]) (use assms(4) that in blast)
  have qi: "set ?qi \<subseteq> set (frame_columns g)" using manifest_quasi_identifiers [OF m] g(2) by simp
  then have "set ?qi \<subseteq> set (frame_columns f)" by (simp add: g(1) suppress_small_groups_def Let_def)
  then have "filter (\<lambda>q. q \<in> set (frame_columns f)) ?qi = ?qi" by (auto simp: subset_iff)
  with assms(3,5) obtain n where n: "k_anonymity f ?qi = Some n" "k = int n" by (auto simp: reid_assess_def Let_def)
  show ?thesis unfolding n(2)
    by (rule k_anonymity_bound [OF n(1)]) (rule suppress_keeps_large [OF qi assms(3)], simp add: g(1))
qed

text \<open>
  C30. The published records are the cleaned records under the manifest: each file is what \<^verbatim>\<open>prepare_batch\<close> makes of some
  of the cleaned rows, each used once, whenever it reads them under this manifest. No column that the manifest
  drops is published.
\<close>

theorem batches_are_treated_as_training_data:
  assumes "preprocess lib p = Inr r" "split_law lib" "table_law lib" "f = pe_train r \<or> f = pe_test r"
  shows "\<exists>raw rows idx. pr_read lib (pm_input p) = Some raw
    \<and> clean_rows (pr_anon lib) raw (pm_label p) (pe_task r) MIN_CLASS_ROWS = Inr (rows, pe_report r)
    \<and> distinct idx \<and> (\<forall>i\<in>set idx. i < fr_rows rows) \<and> f = apply_manifest (pr_anon lib) (take_rows idx rows) (pe_manifest r)
    \<and> set (frame_columns f) \<inter> set (ma_dropped_identifiers (pe_manifest r)) = {}
    \<and> (\<forall>parse path doc batch contents. pr_read lib batch = Some (take_rows idx rows) \<and> certified_manifest lib path doc = Inr contents
        \<and> parse contents = Some (pe_manifest r) \<longrightarrow> prepare_batch lib parse path doc batch = Inr f)"
proof -
  let ?lib = "pr_anon lib" and ?m = "pe_manifest r"
  obtain raw rows where p: "pr_read lib (pm_input p) = Some raw"
    "clean_rows ?lib raw (pm_label p) (pe_task r) MIN_CLASS_ROWS = Inr (rows, pe_report r)"
    and split: "split_anonymously lib (apply_manifest ?lib rows ?m) ?m (pe_task r) p = Inr (pe_train r, pe_test r, pe_removed r)"
    by (rule preprocessed [OF assms(1)], rule that)
  have "frame_ok raw" using assms(3) p(1) by (auto simp: table_law_def)
  then have ok: "frame_ok rows" using selection_ok clean_rows_selection [OF p(2)] by blast
  have "selection (apply_manifest ?lib rows ?m) f"
    using split_anonymously_rows [OF split assms(2) manifest_ok [OF ok]] assms(4) by blast
  then obtain idx where idx: "distinct idx" "\<forall>i\<in>set idx. i < fr_rows rows" "f = take_rows idx (apply_manifest ?lib rows ?m)"
    by (auto simp: selection_def)
  then have f: "f = apply_manifest ?lib (take_rows idx rows) ?m" using manifest_take [OF ok] by simp
  moreover have "set (frame_columns f) \<inter> set (ma_dropped_identifiers ?m) = {}" by (auto simp: f manifest_columns)
  moreover have "prepare_batch lib parse path doc batch = Inr f"
    if "pr_read lib batch = Some (take_rows idx rows)" "certified_manifest lib path doc = Inr contents" "parse contents = Some ?m"
    for parse path doc batch contents using that by (simp add: prepare_batch_def f)
  ultimately show ?thesis using p idx(1,2) by blast
qed

section \<open>Cleaning accounts for every row\<close>

lemma selection_cells:
  assumes "selection f g" "frame_ok f" "c \<in> set (frame_columns f)"
  shows "set (col g c) \<subseteq> set (col f c)"
  using assms frame_col_length [OF assms(2,3)] by (auto simp: selection_def col_take)

lemma dropna_full: "None \<notin> set cells \<Longrightarrow> dropna cells = map cell_text cells"
proof (induction cells)
  case (Cons a cells)
  then show ?case by (cases a) (auto simp: dropna_def cell_text_def)
qed (simp add: dropna_def)

lemma labeled_present:
  "label \<in> set (frame_columns f) \<Longrightarrow> None \<notin> set (col (labeled_rows f label) label)"
  by (auto simp: labeled_rows_def where_rows_def col_take)

lemma deduped_labels:
  assumes "frame_ok f" "label \<in> set (frame_columns f)"
  defines "g \<equiv> drop_duplicates (labeled_rows f label)"
  shows "None \<notin> set (col g label)" "frame_ok g" "label \<in> set (frame_columns g)" "length (dropna (col g label)) = fr_rows g"
proof -
  have l: "selection f (labeled_rows f label)" "selection (labeled_rows f label) g"
    by (simp_all add: labeled_rows_def g_def drop_duplicates_def selection_where)
  then have ok: "frame_ok (labeled_rows f label)" "frame_ok g" using selection_ok assms(1) by blast+
  have cols: "label \<in> set (frame_columns (labeled_rows f label))" "label \<in> set (frame_columns g)"
    using l selection_columns assms(2) by metis+
  show none: "None \<notin> set (col g label)" using selection_cells [OF l(2) ok(1) cols(1)] labeled_present [OF assms(2)] by blast
  show "frame_ok g" "label \<in> set (frame_columns g)" by (fact ok(2), fact cols(2))
  show "length (dropna (col g label)) = fr_rows g" using dropna_full [OF none] frame_col_length [OF ok(2) cols(2)] by simp
qed

lemma rare_removed:
  fixes lib :: anon_lib and g :: frame and label :: string and n :: nat
  assumes "ranked_law df" "an_drift lib = df" "frame_ok g" "label \<in> set (frame_columns g)" "None \<notin> set (col g label)"
  defines "labels \<equiv> dropna (col g label)"
  defines "kept \<equiv> where_rows (\<lambda>i. map_of (rare_classes lib labels n) (cell_text (col g label ! i)) = None) g"
  shows "fr_rows g = fr_rows kept + sum_list (map snd (rare_classes lib labels n))"
    and "row_keys kept [label] = map (\<lambda>t. [Some t]) (filter (\<lambda>x. n \<le> count_list labels x) labels)"
proof -
  let ?rows = "[0..<fr_rows g]"
  have labels: "labels = map cell_text (col g label)" "length labels = fr_rows g"
    using dropna_full [OF assms(5)] frame_col_length [OF assms(3,4)] by (simp_all add: labels_def)
  have cell: "col g label ! i = Some (labels ! i)" if "i < fr_rows g" for i
  proof -
    have "i < length (col g label)" using that frame_col_length [OF assms(3,4)] by simp
    then have "col g label ! i \<noteq> None" using assms(5) by (metis nth_mem)
    then show ?thesis using \<open>i < length (col g label)\<close> by (auto simp: labels(1) cell_text_def)
  qed
  have map_of_self: "map_of (map (\<lambda>v. (v, h v)) vs) x = (if x \<in> set vs then Some (h x) else None)" for h :: "string \<Rightarrow> nat" and vs x
    by (induction vs) auto
  have rare: "map_of (rare_classes lib labels n) x = None \<longleftrightarrow> n \<le> count_list labels x" if "x \<in> set labels" for x
    using that assms(1,2) by (auto simp: rare_classes_def map_of_self ranked_law_def)
  have keep: "(map_of (rare_classes lib labels n) (cell_text (col g label ! i)) = None) = (n \<le> count_list labels (labels ! i))"
    if "i < fr_rows g" for i
  proof -
    have "cell_text (col g label ! i) = labels ! i" "labels ! i \<in> set labels" using that labels(2) by (simp_all add: cell cell_text_def)
    with rare show ?thesis by simp
  qed
  have "filter (\<lambda>i. map_of (rare_classes lib labels n) (cell_text (col g label ! i)) = None) ?rows = filter (\<lambda>i. n \<le> count_list labels (labels ! i)) ?rows"
    by (rule filter_cong) (auto simp: keep)
  then have kept: "kept = take_rows (filter (\<lambda>i. n \<le> count_list labels (labels ! i)) ?rows) g"
    by (simp add: kept_def where_rows_def)
  have by_label: "filter Q labels = map ((!) labels) (filter (\<lambda>i. Q (labels ! i)) ?rows)" for Q
    using filter_map [of Q "(!) labels" ?rows] map_nth [of labels] labels(2) by (simp add: comp_def)
  have "sum_list (map snd (rare_classes lib labels n)) = length (filter (\<lambda>x. count_list labels x < n) labels)"
    using sum_count_filter [of "df_ranked df labels" labels "\<lambda>c. c < n"] assms(1,2)
    by (simp add: rare_classes_def comp_def ranked_law_def)
  moreover have "length labels = length (filter (\<lambda>x. n \<le> count_list labels x) labels) + length (filter (\<lambda>x. count_list labels x < n) labels)"
    using sum_length_filter_compl [of "\<lambda>x. n \<le> count_list labels x" labels] by (simp add: not_le)
  moreover have "fr_rows kept = length (filter (\<lambda>x. n \<le> count_list labels x) labels)" by (simp add: kept by_label)
  ultimately show "fr_rows g = fr_rows kept + sum_list (map snd (rare_classes lib labels n))" using labels(2) by simp
  have "row_key g [label] i = [Some (labels ! i)]" if "i < fr_rows g" for i using cell [OF that] by (simp add: row_key_def)
  then show "row_keys kept [label] = map (\<lambda>t. [Some t]) (filter (\<lambda>x. n \<le> count_list labels x) labels)"
    unfolding kept using row_keys_take [of "[label]" g] assms(4) by (simp add: by_label comp_def cong: map_cong)
qed

lemma where_rows_le: "fr_rows (where_rows keep f) \<le> fr_rows f"
  unfolding where_rows_def by simp (metis length_filter_le length_upt diff_zero)

lemma cleaned_count:
  assumes "clean_rows lib f label t n = Inr (rows, report)" "frame_ok f" "ranked_law (an_drift lib)"
  shows "rows_out report = int (fr_rows rows)" "rw_rows_in report = fr_rows f"
proof -
  let ?l = "labeled_rows f label" and ?g = "drop_duplicates (labeled_rows f label)"
  note c = cleaned [OF assms(1)] and d = deduped_labels [OF assms(2) cleaned(1) [OF assms(1)]]
  have "fr_rows ?l \<le> fr_rows f" "fr_rows ?g \<le> fr_rows ?l" by (simp_all add: labeled_rows_def drop_duplicates_def where_rows_le)
  moreover have "fr_rows ?g = fr_rows rows + sum_list (map snd (rare_of lib ?g label t n))"
    using rare_removed(1) [OF assms(3) refl d(2,3,1), of n] unfolding c(2) Let_def rare_of_def by simp
  ultimately show "rows_out report = int (fr_rows rows)" unfolding c(5) rows_out_def by simp
  show "rw_rows_in report = fr_rows f" by (simp add: c(5))
qed

text \<open>
  C32. No record is lost from sight: the rows of the input are the rows of the two files, those the report counts as
  without label, as duplicates or of rare classes, and those counted as suppressed.
\<close>

theorem records_are_accounted_for:
  assumes "preprocess lib p = Inr r" "table_law lib" "split_law lib" "ranked_law (an_drift (pr_anon lib))"
  shows "rows_out (pe_report r) = int (fr_rows (pe_train r) + fr_rows (pe_test r)
      + rm_before_split (pe_removed r) + rm_train (pe_removed r) + rm_test (pe_removed r))
    \<and> (\<exists>raw. pr_read lib (pm_input p) = Some raw \<and> rw_rows_in (pe_report r) = fr_rows raw)"
proof -
  let ?lib = "pr_anon lib" and ?m = "pe_manifest r"
  obtain raw rows where p: "pr_read lib (pm_input p) = Some raw"
    "clean_rows ?lib raw (pm_label p) (pe_task r) MIN_CLASS_ROWS = Inr (rows, pe_report r)"
    and split: "split_anonymously lib (apply_manifest ?lib rows ?m) ?m (pe_task r) p = Inr (pe_train r, pe_test r, pe_removed r)"
    by (rule preprocessed [OF assms(1)], rule that)
  have ok: "frame_ok raw" using assms(2) p(1) by (auto simp: table_law_def)
  then have "frame_ok rows" using selection_ok clean_rows_selection [OF p(2)] by blast
  from split_anonymously_rows [OF split assms(3) manifest_ok [OF this]] cleaned_count [OF p(2) ok assms(4)] p(1)
  show ?thesis by simp
qed

lemma selection_distinct:
  assumes "selection g h" "distinct (row_keys g (frame_columns g))"
  shows "distinct (row_keys h (frame_columns h))"
proof -
  from assms(1) obtain rows where r: "distinct rows" "\<forall>i\<in>set rows. i < fr_rows g" "h = take_rows rows g" by (auto simp: selection_def)
  have "inj_on (row_key g (frame_columns g)) {..<fr_rows g}"
    using assms(2) by (simp add: row_keys_def distinct_map lessThan_atLeast0)
  then have "inj_on (row_key g (frame_columns g)) (set rows)" by (rule inj_on_subset) (use r(2) in auto)
  with r show ?thesis by (simp add: row_keys_take distinct_map)
qed

lemma drop_duplicates_distinct: "distinct (row_keys (drop_duplicates f) (frame_columns (drop_duplicates f)))"
proof -
  let ?key = "row_key f (frame_columns f)"
  have earlier: "?key j \<in> ?key ` {..<j}" if "i < j" "?key i = ?key j" for i j using that by (metis image_eqI lessThan_iff)
  then have "inj_on ?key {i. i < fr_rows f \<and> ?key i \<notin> ?key ` {..<i}}"
    by (intro inj_onI) (metis (mono_tags, lifting) linorder_neqE_nat mem_Collect_eq)
  then show ?thesis by (simp add: drop_duplicates_def where_rows_def row_keys_take distinct_map atLeast0LessThan lessThan_def inj_on_def)
qed

text \<open>
  What cleaning leaves: at least ten rows, each with a label, no two alike; in a classification task at least two
  classes, each with at least the number of rows asked for; and as many rows as the report says.
\<close>

theorem cleaned_rows_are_usable:
  assumes "clean_rows lib f label t n = Inr (rows, report)" "frame_ok f" "ranked_law (an_drift lib)"
  shows "MIN_ROWS \<le> fr_rows rows \<and> rows_out report = int (fr_rows rows) \<and> None \<notin> set (col rows label)
    \<and> distinct (row_keys rows (frame_columns rows))
    \<and> (is_classification t \<longrightarrow> 2 \<le> nunique (dropna (col rows label)) \<and> (\<forall>i < fr_rows rows. n \<le> group_size rows [label] i))"
proof -
  let ?g = "drop_duplicates (labeled_rows f label)"
  note c = cleaned [OF assms(1)] and d = deduped_labels [OF assms(2) cleaned(1) [OF assms(1)]]
  let ?kept = "where_rows (\<lambda>i. map_of (rare_of lib ?g label t n) (cell_text (col ?g label ! i)) = None) ?g"
  have "rows = ?g \<or> rows = ?kept" using c(2) by (simp add: Let_def)
  then have sel: "selection ?g rows"
  proof
    have "selection ?g ?g" using d(2) selection_suppress [of ?g "[]" 0] by (simp add: suppress_small_groups_def)
    then show "rows = ?g \<Longrightarrow> selection ?g rows" by simp
  qed (simp add: selection_where)
  have "n \<le> group_size rows [label] i" if t: "is_classification t" and i: "i < fr_rows rows" for i
  proof -
    let ?labels = "dropna (col ?g label)" and ?P = "\<lambda>x. n \<le> count_list (dropna (col ?g label)) x"
    have keys: "row_keys rows [label] = map (\<lambda>x. [Some x]) (filter ?P ?labels)"
      using rare_removed(2) [OF assms(3) refl d(2,3,1), of n] t c(2) by (simp add: rare_of_def Let_def)
    have "row_key rows [label] i \<in> set (row_keys rows [label])" using i by (simp add: set_row_keys)
    then obtain x where x: "row_key rows [label] i = [Some x]" "x \<in> set (filter ?P ?labels)" by (auto simp: keys)
    have "count_list (row_keys rows [label]) [Some x] = count_list (filter ?P ?labels) x"
      unfolding keys by (simp add: count_filter filter_map comp_def)
    also have "\<dots> = count_list ?labels x" using x(2) by (auto simp: count_filter intro!: arg_cong [where f = length] filter_cong)
    finally show ?thesis using x by (simp add: group_size_count)
  qed
  then show ?thesis
    using c(3,4) cleaned_count(1) [OF assms] selection_cells [OF sel d(2,3)] d(1) selection_distinct [OF sel drop_duplicates_distinct]
    by blast
qed

section \<open>The fitted rules\<close>

text \<open>Greedy descents: while too many records are at risk, take a step that no candidate betters.\<close>

inductive descends :: "anon_lib \<Rightarrow> frame \<Rightarrow> string list \<Rightarrow> string list option \<Rightarrow> int \<Rightarrow> rat \<Rightarrow> nat \<Rightarrow> gen_rule dict \<Rightarrow> gen_rule dict \<Rightarrow> bool"
  for lib f names label k permitted where
  Stay: "descends lib f names label k permitted 0 rules rules"
| Move: "permitted < of_nat (at_risk (apply_generalization lib rules f) names k) \<Longrightarrow>
    s \<in> set (candidate_steps lib f names rules label k) \<Longrightarrow>
    (\<And>t. t \<in> set (candidate_steps lib f names rules label k) \<Longrightarrow> \<not> worse s t) \<Longrightarrow>
    descends lib f names label k permitted n (AList.update (co_column s) (co_rule s) rules) rules' \<Longrightarrow>
    descends lib f names label k permitted (Suc n) rules rules'"

lemma worse_trans: "worse s t \<Longrightarrow> worse t u \<Longrightarrow> worse s u"
  by (auto simp: worse_def split: prod.splits)

lemma not_worse_trans: "\<not> worse s t \<Longrightarrow> \<not> worse t u \<Longrightarrow> \<not> worse s u"
  by (auto simp: worse_def split: prod.splits)

lemma worse_self: "\<not> worse s s" and worse_asym: "worse s t \<Longrightarrow> \<not> worse t s"
  by (auto simp: worse_def split: prod.splits)

lemma best_fold:
  "fold (\<lambda>t best. if worse best t then t else best) steps s \<in> insert s (set steps)
    \<and> (\<forall>t\<in>insert s (set steps). \<not> worse (fold (\<lambda>t best. if worse best t then t else best) steps s) t)"
proof (induction steps arbitrary: s)
  case Nil
  show ?case by (simp add: worse_self)
next
  case (Cons t ts)
  let ?s = "if worse s t then t else s" let ?b = "fold (\<lambda>t best. if worse best t then t else best) ts ?s"
  have ih: "?b \<in> insert ?s (set ts)" "\<forall>u\<in>insert ?s (set ts). \<not> worse ?b u" using Cons.IH [of ?s] by blast+
  have "\<not> worse ?s s" "\<not> worse ?s t" using worse_self worse_asym by auto
  with ih(2) have "\<not> worse ?b s" "\<not> worse ?b t" using not_worse_trans by blast+
  moreover have "?b \<in> insert s (insert t (set ts))" using ih(1) by (cases "worse s t") auto
  moreover have "\<forall>u\<in>set ts. \<not> worse ?b u" using ih(2) by blast
  ultimately show ?case by simp
qed

lemma best_step_best:
  assumes "steps \<noteq> []"
  shows "best_step steps \<in> set steps" "t \<in> set steps \<Longrightarrow> \<not> worse (best_step steps) t"
proof -
  have steps: "insert (hd steps) (set (tl steps)) = set steps" using assms by (cases steps) auto
  have best: "best_step steps \<in> set steps \<and> (\<forall>t\<in>set steps. \<not> worse (best_step steps) t)"
    using best_fold [of "tl steps" "hd steps"] unfolding steps best_step_def .
  show "best_step steps \<in> set steps" "t \<in> set steps \<Longrightarrow> \<not> worse (best_step steps) t" using best by blast+
qed

lemma fit_descends:
  "\<exists>m \<le> n. descends lib f names label k permitted m rules (fit_steps lib n f names label k permitted rules)
    \<and> (of_nat (at_risk (apply_generalization lib (fit_steps lib n f names label k permitted rules) f) names k) \<le> permitted
      \<or> candidate_steps lib f names (fit_steps lib n f names label k permitted rules) label k = [] \<or> m = n)"
proof (induction n arbitrary: rules)
  case 0
  show ?case by (auto intro: Stay)
next
  case (Suc n)
  let ?risk = "of_nat (at_risk (apply_generalization lib rules f) names k) :: rat" and ?steps = "candidate_steps lib f names rules label k"
  show ?case
  proof (cases "?risk \<le> permitted \<or> ?steps = []")
    case True
    then have "fit_steps lib (Suc n) f names label k permitted rules = rules" by (auto split: list.splits)
    with True Stay show ?thesis by (metis le0)
  next
    case False
    let ?s = "best_step ?steps" let ?next = "AList.update (co_column ?s) (co_rule ?s) rules"
    have fit: "fit_steps lib (Suc n) f names label k permitted rules = fit_steps lib n f names label k permitted ?next"
      using False by (auto simp: Let_def split: list.splits)
    obtain m where m: "m \<le> n" "descends lib f names label k permitted m ?next (fit_steps lib n f names label k permitted ?next)"
      "of_nat (at_risk (apply_generalization lib (fit_steps lib n f names label k permitted ?next) f) names k) \<le> permitted
      \<or> candidate_steps lib f names (fit_steps lib n f names label k permitted ?next) label k = [] \<or> m = n"
      using Suc.IH by blast
    have "descends lib f names label k permitted (Suc m) rules (fit_steps lib n f names label k permitted ?next)"
      using False best_step_best [of ?steps] m(2) by (intro Move [where s = ?s]) auto
    with m(1,3) show ?thesis unfolding fit by (intro exI [of _ "Suc m"]) auto
  qed
qed

lemma ladder_empty: "0 < n \<Longrightarrow> ladder lib n rule cells = [] \<longleftrightarrow> rule = Some SuppressRule"
  by (cases n) (auto simp: coarser_def generalize_further_def split: option.splits)

lemma no_candidates: "candidate_steps lib f names rules label k = [] \<longleftrightarrow> (\<forall>c\<in>set names. map_of rules c = Some SuppressRule)"
  by (simp add: candidate_steps_def Let_def concat_eq_Nil_conv ladder_empty MAX_COARSENING_STEPS_def)

lemma manifest_rules: "build_manifest lib raw p = Inr m \<Longrightarrow> pm_generalize p \<Longrightarrow> split_target p = Some k \<Longrightarrow>
    ma_generalization m = (let kept = drop_columns (ma_dropped_identifiers m) raw
      in fit_generalization lib kept (ma_quasi_identifiers m) (pm_bucket_width p) (Some k) (pm_max_suppression p) (Some (col kept (pm_label p))))"
  unfolding build_manifest_def Let_def by auto

lemma drop_columns_present: "drop_columns (filter (\<lambda>c. c \<in> set (frame_columns f)) cs) f = drop_columns cs f"
  unfolding drop_columns_def frame_columns_def by (intro arg_cong [where f = "\<lambda>cs. f\<lparr> fr_cols := cs \<rparr>"] filter_cong refl) force

text \<open>
  C31. How much is suppressed before the split: exactly the records the fitted rules leave at risk. The rules are reached
  from the first buckets by a greedy descent of at most forty moves, which ended because at most the permitted
  share is at risk, because every quasi-identifier is blanked, or because the forty moves were used up.
\<close>

theorem suppression_is_what_the_descent_left:
  assumes "preprocess lib p = Inr r" "pm_generalize p" "ma_quasi_identifiers (pe_manifest r) \<noteq> []" "split_target p = Some k" "k \<noteq> 0"
  shows "\<exists>raw rows kept n. pr_read lib (pm_input p) = Some raw
    \<and> clean_rows (pr_anon lib) raw (pm_label p) (pe_task r) MIN_CLASS_ROWS = Inr (rows, pe_report r)
    \<and> kept = drop_columns (ma_dropped_identifiers (pe_manifest r)) rows
    \<and> rm_before_split (pe_removed r) = at_risk (apply_generalization (pr_anon lib) (ma_generalization (pe_manifest r)) kept)
        (ma_quasi_identifiers (pe_manifest r)) k
    \<and> n \<le> MAX_COARSENING_STEPS
    \<and> descends (pr_anon lib) kept (ma_quasi_identifiers (pe_manifest r)) (Some (label_codes (pr_anon lib) (col kept (pm_label p)))) k
        (pm_max_suppression p * of_nat (fr_rows rows)) n
        (initial_rules (pr_anon lib) kept (ma_quasi_identifiers (pe_manifest r)) (pm_bucket_width p)) (ma_generalization (pe_manifest r))
    \<and> (of_nat (rm_before_split (pe_removed r)) \<le> pm_max_suppression p * of_nat (fr_rows rows)
      \<or> (\<forall>c\<in>set (ma_quasi_identifiers (pe_manifest r)). map_of (ma_generalization (pe_manifest r)) c = Some SuppressRule)
      \<or> n = MAX_COARSENING_STEPS)"
proof -
  let ?lib = "pr_anon lib" and ?m = "pe_manifest r"
  let ?qi = "ma_quasi_identifiers ?m"
  obtain raw rows where p: "pr_read lib (pm_input p) = Some raw"
    "clean_rows ?lib raw (pm_label p) (pe_task r) MIN_CLASS_ROWS = Inr (rows, pe_report r)"
    and m: "build_manifest ?lib rows p = Inr ?m"
    and split: "split_anonymously lib (apply_manifest ?lib rows ?m) ?m (pe_task r) p = Inr (pe_train r, pe_test r, pe_removed r)"
    by (rule preprocessed [OF assms(1)], rule that)
  let ?kept = "drop_columns (ma_dropped_identifiers ?m) rows"
  let ?codes = "Some (label_codes ?lib (col ?kept (pm_label p)))" and ?permitted = "pm_max_suppression p * of_nat (fr_rows rows)"
  let ?start = "initial_rules ?lib ?kept ?qi (pm_bucket_width p)"
  have "ma_generalization ?m = fit_generalization ?lib ?kept ?qi (pm_bucket_width p) (Some k) (pm_max_suppression p) (Some (col ?kept (pm_label p)))"
    using manifest_rules [OF m assms(2,4)] by (simp add: Let_def)
  then have rules: "ma_generalization ?m = fit_steps ?lib MAX_COARSENING_STEPS ?kept ?qi ?codes k ?permitted ?start"
    using assms(3,5) by (simp add: fit_generalization_def)
  obtain n where n: "n \<le> MAX_COARSENING_STEPS" "descends ?lib ?kept ?qi ?codes k ?permitted n ?start (ma_generalization ?m)"
    "of_nat (at_risk (apply_generalization ?lib (ma_generalization ?m) ?kept) ?qi k) \<le> ?permitted
      \<or> candidate_steps ?lib ?kept ?qi (ma_generalization ?m) ?codes k = [] \<or> n = MAX_COARSENING_STEPS"
    using fit_descends [of MAX_COARSENING_STEPS ?lib ?kept ?qi ?codes k ?permitted ?start] unfolding rules by blast
  have "rm_before_split (pe_removed r) = at_risk (apply_manifest ?lib rows ?m) ?qi k"
    by (rule split_suppressed [OF split assms(2,3)]) (use assms(4) in simp)
  then have "rm_before_split (pe_removed r) = at_risk (apply_generalization ?lib (ma_generalization ?m) ?kept) ?qi k"
    by (simp add: apply_manifest_def drop_columns_present)
  with p n show ?thesis unfolding no_candidates by (intro exI [of _ raw] exI [of _ rows] exI [of _ ?kept] exI [of _ n]) simp
qed

section \<open>Buckets\<close>

lemma round_digits_int: "round_digits n (of_int z) = of_int z"
proof -
  have "of_int z * 10 ^ n = (of_int (z * 10 ^ n) :: rat)" by simp
  then show ?thesis unfolding round_digits_def round_half_even_def Let_def by (simp only: floor_of_int) simp
qed

lemma bucket_start_int:
  assumes "0 < w" "w < 10 ^ 9"
  shows "bucket_start (of_int v) (of_int w) = of_int (v div w * w)"
proof -
  have w: "0 < (of_int w :: rat)" using assms(1) by simp
  have v: "(of_int v :: rat) = of_int (v div w) * of_int w + of_int (v mod w)"
    by (metis div_mult_mod_eq of_int_add of_int_mult)
  have "\<lfloor>(of_int v :: rat) / of_int w + 1 / 10 ^ 9\<rfloor> = v div w"
  proof (rule floor_unique)
    have "0 \<le> (of_int (v mod w) :: rat)" using assms(1) by simp
    then show "of_int (v div w) \<le> (of_int v :: rat) / of_int w + 1 / 10 ^ 9"
      using w by (simp add: v add_divide_distrib)
    have "v mod w + 1 \<le> w" using assms(1) by (simp add: add1_zle_eq)
    then have "(of_int (v mod w) :: rat) + 1 \<le> of_int w" by (metis of_int_1 of_int_add of_int_le_iff)
    then have "(of_int (v mod w) :: rat) / of_int w \<le> 1 - 1 / of_int w" using w by (simp add: field_simps)
    moreover have "(1 :: rat) / 10 ^ 9 < 1 / of_int w"
    proof -
      have "(of_int w :: rat) < of_int (10 ^ 9)" using assms(2) by (rule of_int_less_iff [THEN iffD2])
      with w show ?thesis by (simp add: field_simps)
    qed
    moreover have "(of_int v :: rat) / of_int w = of_int (v div w) + of_int (v mod w) / of_int w"
      using w by (simp add: v add_divide_distrib)
    ultimately show "(of_int v :: rat) / of_int w + 1 / 10 ^ 9 < of_int (v div w) + 1" by linarith
  qed
  then show ?thesis unfolding bucket_start_def by (simp only: of_int_mult [symmetric] round_digits_int)
qed

text \<open>Widths are round numbers that leave at least three ranges.\<close>

lemma power_of_ten_below:
  assumes "0 < x"
  shows "0 < power_of_ten x \<and> power_of_ten x \<le> x"
proof (cases "1 \<le> x")
  case True
  then have "0 < nat \<lfloor>x\<rfloor>" by (simp add: le_floor_iff)
  then have "10 ^ (floorlog 10 (nat \<lfloor>x\<rfloor>) - 1) \<le> nat \<lfloor>x\<rfloor>" using floorlog_bounds [of "nat \<lfloor>x\<rfloor>" 10] by simp
  then have "(of_nat (10 ^ (floorlog 10 (nat \<lfloor>x\<rfloor>) - 1)) :: rat) \<le> of_nat (nat \<lfloor>x\<rfloor>)" by (rule of_nat_mono)
  also have "\<dots> \<le> x" using True by (simp add: of_nat_nat)
  finally show ?thesis using True by (simp add: power_of_ten_def)
next
  case False
  then have y: "1 < 1 / x" using assms by simp
  let ?n = "nat (\<lceil>1 / x\<rceil> - 1)"
  have "1 < \<lceil>1 / x\<rceil>" using y by (simp add: less_ceiling_iff)
  then have "0 < ?n" by simp
  then have "?n < 10 ^ floorlog 10 ?n" using floorlog_bounds [of ?n 10] by simp
  then have "Suc ?n \<le> 10 ^ floorlog 10 ?n" by (rule Suc_leI)
  then have "(of_nat (Suc ?n) :: rat) \<le> of_nat (10 ^ floorlog 10 ?n)" by (rule of_nat_mono)
  moreover have "1 / x \<le> of_nat (Suc ?n)"
  proof -
    have "0 \<le> \<lceil>1 / x\<rceil> - 1" using \<open>1 < \<lceil>1 / x\<rceil>\<close> by linarith
    then have "int (Suc ?n) = \<lceil>1 / x\<rceil>" using nat_0_le [of "\<lceil>1 / x\<rceil> - 1"] by linarith
    then have "(of_nat (Suc ?n) :: rat) = of_int \<lceil>1 / x\<rceil>" by (metis of_int_of_nat_eq)
    then show ?thesis using le_of_int_ceiling [of "1 / x"] by (simp only:)
  qed
  ultimately have "1 / x \<le> 10 ^ floorlog 10 ?n" by simp
  then have "1 / 10 ^ floorlog 10 ?n \<le> x" using assms by (simp add: field_simps)
  then show ?thesis using False by (simp add: power_of_ten_def)
qed

text \<open>
  A bucket width is adjusted only downwards, stays positive, and leaves at least three ranges between the tails.
\<close>

theorem nice_width_leaves_three_ranges:
  assumes "0 < extent" "0 < width"
  shows "0 < nice_width extent width \<and> nice_width extent width \<le> width \<and> of_nat MIN_BUCKETS \<le> extent / nice_width extent width"
proof (cases "of_nat MIN_BUCKETS \<le> extent / width")
  case True
  with assms show ?thesis by (simp add: nice_width_def)
next
  case False
  let ?raw = "extent / of_nat MIN_BUCKETS" let ?w = "nice_width extent width"
  have m: "0 < power_of_ten ?raw" "power_of_ten ?raw \<le> ?raw" using power_of_ten_below [of ?raw] assms(1) by (simp_all add: MIN_BUCKETS_def)
  then have w: "0 < ?w" "?w \<le> ?raw" using False assms(1) by (auto simp: nice_width_def Let_def)
  moreover have "?raw < width" using False assms(2) by (simp add: MIN_BUCKETS_def field_simps)
  moreover have "of_nat MIN_BUCKETS \<le> extent / ?w" using w by (simp add: MIN_BUCKETS_def field_simps)
  ultimately show ?thesis by simp
qed

text \<open>
  A bucket tells the truth: for whole numbers and a whole width the printed bounds enclose the value, and a
  range spans exactly the width.
\<close>

theorem bucket_encloses_the_value:
  assumes "ra_width ra = of_int w" "0 < w" "w < 10 ^ 9" "ra_integer ra"
  shows "case bucket_of ra (of_int v) of Below u \<Rightarrow> of_int v < u | Above l \<Rightarrow> l \<le> of_int v
    | Between a b \<Rightarrow> a \<le> of_int v \<and> of_int v \<le> b \<and> b = a + of_int w - 1"
proof -
  note start = bucket_start_int [OF assms(2,3), of v]
  have below: "v div w * w \<le> v" and above: "v < v div w * w + w"
    using assms(2) pos_mod_bound [of w v] pos_mod_sign [of w v] div_mult_mod_eq [of v w] by linarith+
  have low: "(of_int (v div w * w) :: rat) \<le> of_int v" using below by (rule of_int_le_iff [THEN iffD2])
  have up: "(of_int v :: rat) < of_int (v div w * w) + of_int w" using above by (metis of_int_add of_int_less_iff)
  have last: "(of_int v :: rat) \<le> of_int (v div w * w) + of_int w - 1"
    using above by (metis add1_zle_eq le_diff_eq of_int_1 of_int_add of_int_diff of_int_le_iff)
  show ?thesis using low up last unfolding bucket_of_def Let_def assms(1) start
    by (simp only: assms(4) floor_of_int simp_thms split: bucket.splits if_splits) (auto simp del: of_int_mult)
qed

text \<open>
  C33. A later batch is transformed only under a manifest that the passport certifies: its bytes have the digest that
  the passport records for that output of the preprocess stage.
\<close>

theorem only_certified_manifests_are_used:
  assumes "prepare_batch lib parse passport_path doc batch = Inr g"
  shows "\<exists>f m stages s path outputs out contents. pr_read lib batch = Some f \<and> parse contents = Some m
    \<and> g = apply_manifest (pr_anon lib) f m \<and> map_of doc ''pipeline'' = Some (JArr stages) \<and> s \<in> set stages
    \<and> jget s ''name'' = Some (JStr ''preprocess'') \<and> manifest_path s = Some path \<and> jget s ''outputs'' = Some (JArr outputs)
    \<and> out \<in> set outputs \<and> jget out ''path'' = Some (JStr path) \<and> pr_files lib path = Some (File contents)
    \<and> jget out ''sha256'' = Some (JStr (sha256_file (pr_crypto lib) contents))"
proof -
  have stage: "s \<in> set ss \<and> jget s ''name'' = Some (JStr ''preprocess'')" if "preprocess_stage q ss = Inr s" for q ss s
    using that by (induction ss) (auto split: option.splits if_splits)
  have digest: "\<exists>out\<in>set os. jget out ''path'' = Some (JStr q) \<and> jget out ''sha256'' = Some d" if "recorded_digest q os = Inr (Some d)" for q os d
    using that by (induction os) (auto split: option.splits if_splits)
  from assms obtain f contents m where f: "pr_read lib batch = Some f" "parse contents = Some m" "g = apply_manifest (pr_anon lib) f m"
    and cert: "certified_manifest lib passport_path doc = Inr contents"
    by (auto simp: prepare_batch_def split: option.splits sum.splits)
  obtain stages where stages: "(case map_of doc ''pipeline'' of None \<Rightarrow> Some [] | Some (JArr ss) \<Rightarrow> Some ss | Some _ \<Rightarrow> None) = Some stages"
    using cert by (cases "case map_of doc ''pipeline'' of None \<Rightarrow> Some [] | Some (JArr ss) \<Rightarrow> Some ss | Some _ \<Rightarrow> None")
      (simp_all add: certified_manifest_def)
  from cert obtain s path outputs d where s: "preprocess_stage passport_path stages = Inr s" "manifest_path s = Some path"
    "jget s ''outputs'' = Some (JArr outputs)" "recorded_digest path outputs = Inr (Some d)" "pr_files lib path = Some (File contents)"
    "d = JStr (sha256_file (pr_crypto lib) contents)"
    unfolding certified_manifest_def stages by (auto split: sum.splits option.splits json.splits node.splits if_splits)
  have "map_of doc ''pipeline'' = Some (JArr stages)"
    using stages s(1) by (auto split: option.splits json.splits)
  with f s stage [OF s(1)] digest [OF s(4)] show ?thesis by blast
qed

section \<open>Examples\<close>

definition prep_table :: frame where
  "prep_table = \<lparr> fr_rows = 12, fr_cols = [
     (''zip'', map Some [''02100'', ''02101'', ''02102'', ''02103'', ''02104'', ''02105'', ''03100'', ''03101'', ''03102'', ''03103'', ''03104'', ''03105'']),
     (''y'', map Some [''a'', ''b'', ''b'', ''a'', ''a'', ''b'', ''b'', ''a'', ''a'', ''b'', ''b'', ''a''])] \<rparr>"

definition prep_example :: prep_lib where
  "prep_example = \<lparr> pr_anon = \<lparr> an_scan = xl_scan ex_xl,
       an_drift = \<lparr> df_kind = (\<lambda>cells. TextType), df_float = (\<lambda>t. None), df_days = (\<lambda>t. None), df_ln = (\<lambda>x. x), df_ks = (\<lambda>a b. (0, 1)),
         df_mwu = (\<lambda>a b. (0, 1)), df_cvm = (\<lambda>a b. (0, 1)), df_chi2 = (\<lambda>a b. (0, 1)), df_ranked = remdups, df_sample = (\<lambda>k n. [0..<k]) \<rparr>,
       an_information = (\<lambda>a b. 0), an_bins = (\<lambda>n cells. []), an_general = (\<lambda>x. []) \<rparr>,
     pr_split = (\<lambda>n size seed groups. Some (filter even [0..<n], filter odd [0..<n])),
     pr_read = (\<lambda>path. Some prep_table), pr_files = (\<lambda>path. None), pr_crypto = example_crypto \<rparr>"

definition prep_settings :: prep_params where
  "prep_settings = PREPROCESS_DEFAULTS\<lparr> pm_label := ''y'', pm_drop_identifiers := False, pm_quasi_identifiers := TheColumns [''zip''],
     pm_min_k := 2, pm_test_size := 1/2 \<rparr>"

lemma prep_clean: "clean_rows (pr_anon prep_example) prep_table ''y'' BINARY 3 = Inr (prep_table, \<lparr> rw_rows_in = 12, rw_missing_label = 0, rw_duplicates = 0, rw_rare_classes = [] \<rparr>)"
  by code_simp

lemma prep_manifest: "build_manifest (pr_anon prep_example) prep_table prep_settings
    = Inr \<lparr> ma_label = ''y'', ma_dropped_identifiers = [], ma_quasi_identifiers = [''zip''], ma_generalization = [(''zip'', PrefixRule 3)] \<rparr>"
  by code_simp

definition prep_part :: "string list \<Rightarrow> frame" where
  "prep_part labels = \<lparr> fr_rows = 6, fr_cols = [(''zip'', map Some [''021**'', ''021**'', ''021**'', ''031**'', ''031**'', ''031**'']), (''y'', map Some labels)] \<rparr>"

definition prep_output :: prep_result where
  "prep_output = \<lparr> pe_task = BINARY, pe_train = prep_part [''a'', ''b'', ''a'', ''b'', ''a'', ''b''], pe_test = prep_part [''b'', ''a'', ''b'', ''a'', ''b'', ''a''],
     pe_manifest = \<lparr> ma_label = ''y'', ma_dropped_identifiers = [], ma_quasi_identifiers = [''zip''], ma_generalization = [(''zip'', PrefixRule 3)] \<rparr>,
     pe_report = \<lparr> rw_rows_in = 12, rw_missing_label = 0, rw_duplicates = 0, rw_rare_classes = [] \<rparr>,
     pe_removed = \<lparr> rm_before_split = 0, rm_train = 0, rm_test = 0 \<rparr> \<rparr>"

lemma prep_split: "split_anonymously prep_example (apply_manifest (pr_anon prep_example) prep_table (pe_manifest prep_output)) (pe_manifest prep_output) BINARY prep_settings
    = Inr (pe_train prep_output, pe_test prep_output, pe_removed prep_output)"
  by code_simp

lemma prep_runs: "preprocess prep_example prep_settings = Inr prep_output"
proof -
  have "infer_task (pr_anon prep_example) ''y'' (col prep_table ''y'') (Some ''auto'') = Inr BINARY" by code_simp
  moreover have "pr_read prep_example path = Some prep_table" for path by (simp add: prep_example_def)
  moreover have "pm_label prep_settings = ''y''" "pm_task prep_settings = Some ''auto''" by (simp_all add: prep_settings_def PREPROCESS_DEFAULTS_def)
  moreover have "''y'' \<in> set (frame_columns prep_table)" by (simp add: frame_columns_def prep_table_def)
  ultimately show ?thesis
    using prep_clean prep_manifest prep_split unfolding preprocess_def MIN_CLASS_ROWS_def by (simp add: prep_output_def)
qed

lemma prep_laws: "table_law prep_example" "split_law prep_example" "ranked_law (an_drift (pr_anon prep_example))"
proof -
  have "frame_ok prep_table" by code_simp
  then show "table_law prep_example" by (simp add: table_law_def prep_example_def)
  show "split_law prep_example" by (auto simp: split_law_def prep_example_def)
  show "ranked_law (an_drift (pr_anon prep_example))" by (simp add: ranked_law_def prep_example_def)
qed

theorem published_tables_are_anonymous_witness:
  "\<exists>k. rr_k_anonymity (reid_assess (pe_train prep_output) ''train'' (Some [''zip'']) None) = Some k \<and> pm_min_k prep_settings \<le> k"
proof -
  have k: "rr_k_anonymity (reid_assess (pe_train prep_output) ''train'' (Some [''zip'']) None) = Some 3" by code_simp
  have "pm_generalize prep_settings" "ma_quasi_identifiers (pe_manifest prep_output) = [''zip'']"
    by (simp_all add: prep_settings_def PREPROCESS_DEFAULTS_def prep_output_def)
  with k published_tables_are_anonymous [OF prep_runs, of "pe_train prep_output" "''train''" None 3] show ?thesis by auto
qed

theorem batches_are_treated_as_training_data_witness:
  "\<exists>idx. distinct idx \<and> pe_train prep_output = apply_manifest (pr_anon prep_example) (take_rows idx prep_table) (pe_manifest prep_output)"
proof -
  have "clean_rows (pr_anon prep_example) prep_table (pm_label prep_settings) BINARY MIN_CLASS_ROWS = Inr (prep_table, pe_report prep_output)"
    using prep_clean by (simp add: prep_settings_def PREPROCESS_DEFAULTS_def MIN_CLASS_ROWS_def prep_output_def)
  moreover have "pr_read prep_example (pm_input prep_settings) = Some prep_table" "pe_task prep_output = BINARY"
    by (simp_all add: prep_example_def prep_output_def)
  ultimately show ?thesis
    using batches_are_treated_as_training_data [OF prep_runs prep_laws(2,1), of "pe_train prep_output"] by auto
qed

theorem records_are_accounted_for_witness: "rows_out (pe_report prep_output) = 12 \<and> fr_rows (pe_train prep_output) + fr_rows (pe_test prep_output) = 12"
  using records_are_accounted_for [OF prep_runs prep_laws] by (auto simp: prep_output_def prep_part_def)

theorem cleaned_rows_are_usable_witness: "MIN_ROWS \<le> fr_rows prep_table \<and> distinct (row_keys prep_table [''zip'', ''y''])"
proof -
  have "frame_ok prep_table" using prep_laws(1) by (simp add: table_law_def prep_example_def)
  from cleaned_rows_are_usable [OF prep_clean this prep_laws(3)] show ?thesis by (auto simp: frame_columns_def prep_table_def)
qed

theorem suppression_is_what_the_descent_left_witness:
  "\<exists>n \<le> MAX_COARSENING_STEPS. descends (pr_anon prep_example) prep_table [''zip''] (Some (label_codes (pr_anon prep_example) (col prep_table ''y''))) 4 (12/100) n
    (initial_rules (pr_anon prep_example) prep_table [''zip''] 10) [(''zip'', PrefixRule 3)]"
proof -
  have s: "pm_generalize prep_settings" "split_target prep_settings = Some 4" "pm_label prep_settings = ''y''" "pm_bucket_width prep_settings = 10"
    "pm_max_suppression prep_settings = 1/100" "pr_read prep_example q = Some prep_table" for q
    by (simp_all add: prep_settings_def PREPROCESS_DEFAULTS_def split_target_def Let_def prep_example_def)
  have m: "ma_quasi_identifiers (pe_manifest prep_output) = [''zip'']" "ma_dropped_identifiers (pe_manifest prep_output) = []"
    "ma_generalization (pe_manifest prep_output) = [(''zip'', PrefixRule 3)]" "pe_task prep_output = BINARY" by (simp_all add: prep_output_def)
  have "drop_columns [] prep_table = prep_table" "fr_rows prep_table = 12" by (simp_all add: drop_columns_def prep_table_def)
  with suppression_is_what_the_descent_left [OF prep_runs s(1) _ s(2)] prep_clean show ?thesis
    unfolding s m MIN_CLASS_ROWS_def by auto
qed

theorem nice_width_leaves_three_ranges_witness: "nice_width 24 10 = 5 \<and> 3 \<le> (24 :: rat) / nice_width 24 10"
proof -
  have "nice_width 24 10 = 5" by code_simp
  with nice_width_leaves_three_ranges [of 24 10] show ?thesis by (simp add: MIN_BUCKETS_def)
qed

definition prep_ages :: range_rule where
  "prep_ages = \<lparr> ra_width = 10, ra_low = 20, ra_high = 70, ra_integer = True \<rparr>"

theorem bucket_encloses_the_value_witness: "bucket_of prep_ages 37 = Between 30 39 \<and> (30 :: rat) \<le> 37 \<and> (37 :: rat) \<le> 39"
proof -
  have "bucket_of prep_ages (of_int 37) = Between 30 39" by code_simp
  with bucket_encloses_the_value [of prep_ages 10 37] show ?thesis by (simp add: prep_ages_def)
qed

definition prep_passport :: "json dict" where
  "prep_passport = [(''pipeline'', JArr [JObj [(''name'', JStr ''preprocess''), (''parameters'', JObj []),
     (''outputs'', JArr [JObj [(''path'', JStr ''data/preprocess.json''), (''sha256'', JStr (sha256_file example_crypto ''m''))]])]])]"

theorem only_certified_manifests_are_used_witness:
  "\<exists>g f m. prepare_batch (prep_example\<lparr> pr_files := (\<lambda>path. Some (File ''m'')) \<rparr>) (\<lambda>c. Some (pe_manifest prep_output)) ''p.json'' prep_passport ''new.csv'' = Inr g
    \<and> g = apply_manifest (pr_anon prep_example) f m"
proof -
  let ?lib = "prep_example\<lparr> pr_files := (\<lambda>path. Some (File ''m'')) \<rparr>"
  have "certified_manifest ?lib ''p.json'' prep_passport = Inr ''m''"
    by (simp add: certified_manifest_def prep_passport_def manifest_path_def jget_def PREPROCESS_DEFAULTS_def prep_example_def)
  then obtain g where g: "prepare_batch ?lib (\<lambda>c. Some (pe_manifest prep_output)) ''p.json'' prep_passport ''new.csv'' = Inr g"
    by (simp add: prepare_batch_def prep_example_def)
  from only_certified_manifests_are_used [OF g] g show ?thesis by fastforce
qed

end
