(* ===== verification/Spec2Isabelle.thy ===== *)
theory Spec2Isabelle
  imports MP_Scenario MP_Revision MP_Lineage MP_AuditProps MP_ScanProps MP_BuildProps MP_Monitor MP_PrepProps
begin

text \<open>
  \<^bold>\<open>Verification of Model Passport\<close>

  Model Passport gives every trained model a signed, hash-linked record (the passport), checks it against
  a policy, finds and repairs memorized personal data, and runs a multi-tenant platform in which models
  are registered, audited, remediated, approved, released and monitored, with a gateway (MP Guard) that
  keeps personal data from the organizations' AI providers. The sources modelled are under
  \<^verbatim>\<open>src/src/model_passport\<close>; every path below is relative to it. A definition has the name of the
  function it translates, with the field prefixes of its record (\<open>mv_\<close> for \<^verbatim>\<open>ModelVersion\<close>, ...);
  \<open>api_...\<close> are the route functions.

  \<^bold>\<open>Foundations.\<close>
  \<^item> \<^verbatim>\<open>MP_Prelude\<close>: Python's strings, slices, dictionaries and counters; computations over a state that
    may raise (\<open>act\<close>: \<open>ret\<close>, \<open>bnd\<close>, \<open>raise\<close>, \<open>try_with\<close>, \<open>transact\<close>) and the collection \<open>preserve_rules\<close>
    that carries an invariant through them.
  \<^item> \<^verbatim>\<open>MP_Json\<close>: JSON values and the text \<^verbatim>\<open>json.dumps\<close> writes; the encoding is injective up to member order.
  \<^item> \<^verbatim>\<open>MP_Chain\<close>: the locale \<open>hash_chain\<close>, the contract of a hash-linked list. It is interpreted twice: for the
    passport's events in \<^verbatim>\<open>MP_Verifier\<close> and for the audit log in \<^verbatim>\<open>MP_Auditlog\<close>.

  \<^bold>\<open>The passport.\<close>
  \<^item> \<^verbatim>\<open>MP_Schema\<close> (\<^verbatim>\<open>core/schema.py\<close>), \<^verbatim>\<open>MP_Identity\<close> (\<^verbatim>\<open>core/identity.py\<close>, \<^verbatim>\<open>core/builder.py\<close>): the document, Merkle
    root, canonical JSON, the signed payload.
  \<^item> \<^verbatim>\<open>MP_Verifier\<close> (\<^verbatim>\<open>core/events.py\<close>, \<^verbatim>\<open>core/verifier.py\<close>): lifecycle events and their chain, verification of a
    passport and its artifacts. The lemmas: what an accepted report means, what the signature and the
    last hash pin down, and that a truncated list still verifies.
  \<^item> \<^verbatim>\<open>MP_Revision\<close> (\<^verbatim>\<open>core/revision.py\<close>): what changed since the previous version.
  \<^item> \<^verbatim>\<open>MP_Policy\<close> (\<^verbatim>\<open>policy/engine.py\<close>, \<^verbatim>\<open>platform/gate.py\<close>, \<^verbatim>\<open>llm/project.py\<close>): evidence, rules, verdicts, the
    release gate and exactly when it blocks.

  \<^bold>\<open>The build of a passport.\<close> A file system is a function from paths to \<open>node\<close>s (a file with its bytes, or a
  directory), fixed during a build and a sequence of them during a run.
  \<^item> \<^verbatim>\<open>MP_Files\<close> (\<^verbatim>\<open>core/identity.py\<close>): nodes, the digests of files and directories, when two digests bind.
  \<^item> \<^verbatim>\<open>MP_Scan\<close> (\<^verbatim>\<open>scanners/base.py\<close>, \<^verbatim>\<open>data_pii.py\<close>, \<^verbatim>\<open>secrets.py\<close>) and \<^verbatim>\<open>MP_Reid\<close> (\<^verbatim>\<open>scanners/reid_risk.py\<close>): data
    frames with cells as texts, the search for personal data and for secrets, k-anonymity, l-diversity and the
    minimal combinations of columns that single records out. \<^verbatim>\<open>MP_ScanProps\<close>: what the policy counts, what of a
    secret a finding shows.
  \<^item> \<^verbatim>\<open>MP_Assess\<close> (\<^verbatim>\<open>auditors/artifact.py\<close>, \<^verbatim>\<open>auditors/leakage.py\<close>, \<^verbatim>\<open>core/assess.py\<close>): pickle scans, guarded
    loading, the dependency audit, the loss attack, and the checks of a build put together.
  \<^item> \<^verbatim>\<open>MP_Capture\<close> (\<^verbatim>\<open>core/config.py\<close>, \<^verbatim>\<open>core/capture.py\<close>): the configuration of a project and the recorded run of its
    stages; a successful run is a chain of file states that the record tells truly.
  \<^item> \<^verbatim>\<open>MP_Build\<close> (\<^verbatim>\<open>core/builder.py\<close>): manifest, run record, checks, policy and signature. \<^verbatim>\<open>MP_BuildProps\<close>: the
    manifest is exact, a built passport verifies, what verifies has the files of the build, and the verdict can be
    computed again from the signed document.
  \<^item> \<^verbatim>\<open>MP_Drift\<close> (\<^verbatim>\<open>ml/features.py\<close>, \<^verbatim>\<open>monitoring/drift.py\<close>) and \<^verbatim>\<open>MP_Monitor\<close> (\<^verbatim>\<open>monitoring/monitor.py\<close>): the role of
    each column, the comparison of a live batch with the reference, the score on labeled rows, and the signed event
    that the check appends to the passport.

  \<^bold>\<open>The data of a model.\<close>
  \<^item> \<^verbatim>\<open>MP_Anonymize\<close> (\<^verbatim>\<open>ml/privacy.py\<close>): direct identifiers, the rules that generalize quasi-identifiers and the greedy
    descent that fits them, suppression of small groups. \<^verbatim>\<open>MP_Preprocess\<close> (\<^verbatim>\<open>ml/task.py\<close>, \<^verbatim>\<open>ml/stages.py\<close>): cleaning
    of rows, the preprocess stage, new batches. \<^verbatim>\<open>MP_PrepProps\<close>: the published tables are k-anonymous in the sense
    of \<^verbatim>\<open>MP_Reid\<close>, every record is accounted for, the descent (\<open>descends\<close>, an inductive relation of best moves)
    explains what is suppressed, and later batches are treated as the training data was.

  \<^bold>\<open>The registry\<close>, a server that publishes passports.
  \<^item> \<^verbatim>\<open>MP_Export\<close> (\<^verbatim>\<open>report/dag.py\<close>, \<^verbatim>\<open>core/jsonld.py\<close>): the graphs and the JSON-LD document of a passport.
  \<^item> \<^verbatim>\<open>MP_Registry\<close> (\<^verbatim>\<open>registry/db.py\<close>, \<^verbatim>\<open>registry/api.py\<close>): its table and requests. \<^verbatim>\<open>MP_RegistryProps\<close>: the
    abstract ledger of published documents (\<open>ledger_step\<close>) that every request refines, through the locale
    \<open>passport_store\<close> (what the requests need of the table), interpreted for the list of rows.
  \<^item> \<^verbatim>\<open>MP_Lineage\<close>: the breadth-first walk visits exactly the ancestors within its depth.

  \<^bold>\<open>Entities, their audit and remediation.\<close>
  \<^item> \<^verbatim>\<open>MP_Entities\<close> (\<^verbatim>\<open>llm/entities.py\<close>, parts of \<^verbatim>\<open>scanners/data_pii.py\<close>): impact, masking, Luhn, detection of spans,
    corpora and their files.
  \<^item> \<^verbatim>\<open>MP_Sanitize\<close> (\<^verbatim>\<open>llm/sanitize.py\<close>, \<^verbatim>\<open>llm/references.py\<close>, \<^verbatim>\<open>translate\<close> of \<^verbatim>\<open>llm/remediate.py\<close>): choosing spans,
    pseudonymising a corpus, sampling surrogates. The lemmas describe the rewritten text and spans exactly.
  \<^item> \<^verbatim>\<open>MP_Risk\<close> (\<^verbatim>\<open>llm/risk.py\<close>): false discovery rates, risk and severity; the vectorised adjustment equals
    the textbook one. \<^verbatim>\<open>MP_Evidence\<close> (\<^verbatim>\<open>llm/methods.py\<close>, \<^verbatim>\<open>llm/evidence.py\<close>, the corpus sampler of
    \<^verbatim>\<open>llm/references.py\<close>): the attack scores and how they become p-values by cross-fitting. \<^verbatim>\<open>MP_Audit\<close>
    (\<^verbatim>\<open>llm/audit.py\<close>, \<^verbatim>\<open>llm/confirm.py\<close>): the whole audit; \<^verbatim>\<open>MP_AuditProps\<close>: what its result promises the gate.
  \<^item> \<^verbatim>\<open>MP_Remediate\<close> (\<^verbatim>\<open>llm/remediate.py\<close>): the loop that builds, gates, sanitizes and rebuilds; it ends after
    \<open>max_rounds + 1\<close> builds by recursion on the rounds left.

  \<^bold>\<open>The platform.\<close> State is the \<open>world\<close> of \<^verbatim>\<open>MP_Models\<close>: the database (\<^verbatim>\<open>platform/models.py\<close>, a list of rows per
  table with its uniqueness constraints), the object store, the sign-in throttle, the guard's cache, the
  requests sent to AI providers, and the supply of times, ids and random bytes with the number drawn.
  A transaction (\<^verbatim>\<open>platform/db.py\<close>) restores the database when its block raises.
  \<^item> \<^verbatim>\<open>MP_Auditlog\<close> (\<^verbatim>\<open>platform/auditlog.py\<close>): the append-only chained log of each tenant.
  \<^item> \<^verbatim>\<open>MP_Lifecycle\<close> (\<^verbatim>\<open>platform/rbac.py\<close>, \<^verbatim>\<open>lifecycle.py\<close>, \<^verbatim>\<open>jobs.py\<close>): permissions, the state machine of a version
    (with \<open>history\<close>, the sequences of steps it allows, as an inductive predicate) and the job queue.
  \<^item> \<^verbatim>\<open>MP_Security\<close> (\<^verbatim>\<open>platform/security.py\<close>, \<^verbatim>\<open>storage.py\<close>): passwords, tokens, envelope encryption, the throttle,
    the encrypted store of a tenant.
  \<^item> \<^verbatim>\<open>MP_Services\<close> (\<^verbatim>\<open>platform/services.py\<close>), \<^verbatim>\<open>MP_Api\<close> (\<^verbatim>\<open>api/deps.py\<close>, \<^verbatim>\<open>routes_tenant.py\<close>, \<^verbatim>\<open>routes_admin.py\<close>): the
    operations and the requests; \<^verbatim>\<open>MP_Api_Props\<close>: authorisation, atomicity and invariants of every request.
  \<^item> \<^verbatim>\<open>MP_Guard\<close> (\<^verbatim>\<open>guard/engine.py\<close>, \<^verbatim>\<open>guard/chat.py\<close>): policy, placeholders, protection and review of texts and
    chat messages. \<^verbatim>\<open>MP_GuardService\<close> (\<^verbatim>\<open>platform/guard.py\<close>, \<^verbatim>\<open>routes_guard.py\<close>): keys, settings, the cache, the chat
    pipeline, the routes. \<^verbatim>\<open>MP_GuardProps\<close>: its theorems, and the locale \<open>guard_invariant\<close> (what an invariant
    must allow for guard requests to keep it), interpreted for the four invariants of the platform.
  \<^item> \<^verbatim>\<open>MP_Worker\<close> (\<^verbatim>\<open>platform/worker.py\<close>, \<^verbatim>\<open>attest.py\<close>): training, audit, remediation and report jobs, recovery,
    the run loop, signed attestations.
  \<^item> \<^verbatim>\<open>MP_Platform\<close>: \<open>reachable\<close>, the states after any sequence of requests, sign-ins, guard traffic, worker
    runs and the operator's command (\<^verbatim>\<open>cli/platform.py\<close>) from an empty database, and what holds in all of
    them. \<^verbatim>\<open>MP_Scenario\<close>: a concrete run, which shows that the hypotheses hold together.

  \<^bold>\<open>Parameters.\<close> Code that is not in the repository is an argument: SHA-256, Ed25519 and base64 (\<open>crypto\<close>),
  AES-GCM, Argon2 and JWT (\<open>seclib\<close>), pattern matching and IP parsing (\<open>matcher\<close>), reading and writing JSON and
  \<^verbatim>\<open>repr\<close> (\<open>text_codec\<close>), Faker and random streams (\<open>source_of_values\<close>), the network (\<open>network\<close>), the Go control plane
  (\<open>plane\<close>), fine-tuning, the audit pipeline and report rendering (\<open>pipeline\<close>), pydantic validation and PEM keys
  (\<open>registry_lib\<close>), distributions, logarithms and shuffles (\<open>stats_lib\<close>), the ROC curve (\<open>roc_lib\<close>), the audited
  model (\<open>llm\<close>), what the scanners and audits ask of pandas, Presidio, regular expressions, picklescan, pickle and
  pip-audit (\<open>scan_lib\<close>, \<open>assess_lib\<close>), paths, shlex, git and the processes of a run (\<open>capture_lib\<close>), the parsers of
  project files (\<open>build_lib\<close>), dtypes and the tests of SciPy (\<open>drift_lib\<close>, \<open>monitor_lib\<close>), mutual information
  and the stratified split of scikit-learn (\<open>anon_lib\<close>, \<open>prep_lib\<close>). Their laws (\<open>digest_law\<close>, \<open>path_law\<close>,
  \<open>dump_law\<close>, \<open>number_law\<close>, \<open>split_law\<close>, \<open>ranked_law\<close>, \<open>table_law\<close>,
  \<open>validate_laws\<close>, \<open>tail_law\<close>, \<open>shuffle_law\<close>, \<open>aes_law\<close>, \<open>signature_laws\<close>, \<open>codec_law\<close>, \<open>finditer_law\<close>, \<open>uuid_law\<close>, ...) are named hypotheses of the theorems that
  need them, and an instance satisfies each. Collision resistance is never assumed: a theorem exhibits
  the collision instead.

  \<^bold>\<open>Conventions.\<close> Floats are rationals. Text is 8-bit. The wording of exception messages is fixed. Bounded loops
  recurse on a counter that the code has (\<open>MAX_DRAWS\<close>, \<open>max_rounds\<close>, the worker's limit), so no fuel is added;
  \<open>restore\<close> and \<open>remove_all\<close> terminate by the length of the text. Operations run one at a time, which row locks
  and transactions ensure in the deployment. Foreign keys are not enforced by the model; negative SQL
  limits are not modelled. \<open>scoped_session\<close> restores the database only, so the atomicity of requests is
  claimed without a control plane, which commits on its own.

  \<^bold>\<open>Not modelled\<close>: the command line (\<^verbatim>\<open>cli\<close>) and the dashboard, which print and ask around the operations above;
  training and its models (\<^verbatim>\<open>ml/models.py\<close>, the train and evaluate stages of \<^verbatim>\<open>ml/stages.py\<close>, \<^verbatim>\<open>llm/training.py\<close>, \<^verbatim>\<open>llm/stages.py\<close>, \<^verbatim>\<open>llm/backends.py\<close>),
  which call scikit-learn, PyTorch and transformers; generators of demonstration data; rendered pages and documents
  (\<^verbatim>\<open>report\<close>, \<^verbatim>\<open>platform/reports.py\<close>); clients of other services (\<^verbatim>\<open>core/tracking.py\<close>, \<^verbatim>\<open>registry/client.py\<close>,
  \<^verbatim>\<open>platform/controlplane.py\<close>); the FastAPI wiring and reading of settings; database migrations, generated from the
  data model; the web front end. They are input and output, or calls into libraries, around the parts above.
\<close>

end
